(* ===== verification/Prelude.thy ===== *)
theory Prelude
  imports Main "HOL-Library.Sublist"
begin

text \<open>
  Shared vocabulary of the development: fallible results (a thrown error is the left summand),
  the JavaScript string operations the program uses, insertion-ordered sets, and the tables the
  repositories keep.  A table is the list of its rows in insertion order, the iteration order of a
  JavaScript \<open>Map\<close>: writing an existing key replaces the row in place, a new key goes to the
  end.

  Strings are lists of UTF-16 code units below 256 (the Latin-1 range), so \<open>trim\<close> and
  \<open>toLowerCase\<close> are the restrictions of the JavaScript functions to that range.  Dates are
  integers, the milliseconds of \<open>getTime\<close>.
\<close>

named_theorems result_simps \<open>evaluation of fallible computations\<close>
named_theorems table_simps \<open>reading a table after a write\<close>

type_synonym millis = int

section \<open>Fallible results\<close>

definition bindR :: "'e + 'a \<Rightarrow> ('a \<Rightarrow> 'e + 'b) \<Rightarrow> 'e + 'b" where
  "bindR r f = (case r of Inl e \<Rightarrow> Inl e | Inr x \<Rightarrow> f x)"

definition throwIf :: "bool \<Rightarrow> 'e \<Rightarrow> 'e + unit" where
  "throwIf c e = (if c then Inl e else Inr ())"

lemma bindR_simps [simp, result_simps]:
  "bindR (Inl e) f = Inl e"
  "bindR (Inr x) f = f x"
  by (simp_all add: bindR_def)

lemma bindR_InrE:
  assumes "bindR r f = Inr y"
  obtains x where "r = Inr x" "f x = Inr y"
  using assms by (cases r) auto

lemma bindR_eq_Inr [simp]: "bindR r f = Inr y \<longleftrightarrow> (\<exists>x. r = Inr x \<and> f x = Inr y)"
  by (cases r) auto

lemma bindR_eq_Inl: "bindR r f = Inl e \<longleftrightarrow> r = Inl e \<or> (\<exists>x. r = Inr x \<and> f x = Inl e)"
  by (cases r) auto

lemma throwIf_simps [simp, result_simps]:
  "throwIf True e = Inl e"
  "throwIf False e = Inr ()"
  by (simp_all add: throwIf_def)

lemma throwIf_eq [simp]:
  "throwIf c e = Inr u \<longleftrightarrow> \<not> c"
  "throwIf c e = Inl e' \<longleftrightarrow> c \<and> e' = e"
  by (auto simp: throwIf_def)

section \<open>JavaScript strings\<close>

definition js_space :: "char \<Rightarrow> bool" where
  "js_space c = (let n = of_char c :: nat in (9 \<le> n \<and> n \<le> 13) \<or> n = 32 \<or> n = 160)"

definition js_trim :: "string \<Rightarrow> string" where
  "js_trim s = rev (dropWhile js_space (rev (dropWhile js_space s)))"

definition js_lower_char :: "char \<Rightarrow> char" where
  "js_lower_char c = (let n = of_char c :: nat in
     if (65 \<le> n \<and> n \<le> 90) \<or> (192 \<le> n \<and> n \<le> 222 \<and> n \<noteq> 215) then char_of (n + 32) else c)"

definition js_lower :: "string \<Rightarrow> string" where
  "js_lower s = map js_lower_char s"

definition is_lower_letter :: "char \<Rightarrow> bool" where
  "is_lower_letter c = (let n = of_char c :: nat in 97 \<le> n \<and> n \<le> 122)"

definition is_upper_letter :: "char \<Rightarrow> bool" where
  "is_upper_letter c = (let n = of_char c :: nat in 65 \<le> n \<and> n \<le> 90)"

definition is_digit :: "char \<Rightarrow> bool" where
  "is_digit c = (let n = of_char c :: nat in 48 \<le> n \<and> n \<le> 57)"

definition js_starts_with :: "string \<Rightarrow> string \<Rightarrow> bool" where
  "js_starts_with p s = (take (length p) s = p)"

text \<open>\<open>s.padStart(n, c)\<close>.\<close>

definition padStart :: "nat \<Rightarrow> char \<Rightarrow> string \<Rightarrow> string" where
  "padStart n c s = replicate (n - length s) c @ s"

text \<open>\<open>split_on\<close> is \<open>s.split(c)\<close> for a one-character separator: never empty.\<close>

fun split_on :: "'a \<Rightarrow> 'a list \<Rightarrow> 'a list list" where
  "split_on c [] = [[]]"
| "split_on c (x # xs) =
     (if x = c then [] # split_on c xs
      else (case split_on c xs of [] \<Rightarrow> [[x]] | p # ps \<Rightarrow> (x # p) # ps))"

fun join_with :: "'a list \<Rightarrow> 'a list list \<Rightarrow> 'a list" where
  "join_with sep [] = []"
| "join_with sep [p] = p"
| "join_with sep (p # q # ps) = p @ sep @ join_with sep (q # ps)"

lemma split_on_nonempty [simp]: "split_on c xs \<noteq> []"
  by (induction xs) (auto split: list.splits)

lemma join_split_on: "join_with [c] (split_on c xs) = xs"
proof (induction xs)
  case Nil
  then show ?case by simp
next
  case (Cons x xs)
  obtain p ps where s: "split_on c xs = p # ps" by (cases "split_on c xs") auto
  show ?case using Cons s by (cases ps) auto
qed

lemma split_on_parts: "p \<in> set (split_on c xs) \<Longrightarrow> c \<notin> set p"
  by (induction xs arbitrary: p) (auto split: list.splits if_splits)

lemma split_on_no_sep: "c \<notin> set p \<Longrightarrow> split_on c p = [p]"
  by (induction p) auto

lemma split_on_append_sep: "c \<notin> set p \<Longrightarrow> split_on c (p @ c # xs) = p # split_on c xs"
  by (induction p) auto

lemma split_join_with:
  assumes "ps \<noteq> []" "\<forall>p \<in> set ps. c \<notin> set p"
  shows "split_on c (join_with [c] ps) = ps"
  using assms
proof (induction "[c]" ps rule: join_with.induct)
  case 1
  then show ?case by simp
next
  case (2 p)
  then show ?case by (simp add: split_on_no_sep)
next
  case (3 p q ps)
  then show ?case by (simp add: split_on_append_sep)
qed

lemma js_space_lower [simp]: "js_space (js_lower_char c) = js_space c"
proof -
  have "(of_char c :: nat) < 256" by simp
  then show ?thesis
    by (auto simp: js_space_def js_lower_char_def Let_def)
qed

lemma js_lower_char_idem [simp]: "js_lower_char (js_lower_char c) = js_lower_char c"
proof -
  have "(of_char c :: nat) < 256" by simp
  then show ?thesis
    by (auto simp: js_lower_char_def Let_def)
qed

lemma js_lower_idem [simp]: "js_lower (js_lower s) = js_lower s"
  by (simp add: js_lower_def)

lemma js_lower_eq_Nil [simp]: "js_lower s = [] \<longleftrightarrow> s = []"
  by (simp add: js_lower_def)

lemma dropWhile_space_lower: "dropWhile js_space (js_lower s) = js_lower (dropWhile js_space s)"
  by (simp add: js_lower_def dropWhile_map comp_def)

lemma js_trim_lower: "js_trim (js_lower s) = js_lower (js_trim s)"
proof -
  have "rev (js_lower s) = js_lower (rev s)" for s by (simp add: js_lower_def rev_map)
  then show ?thesis by (simp add: js_trim_def dropWhile_space_lower)
qed

lemma js_trim_Nil [simp]: "js_trim [] = []"
  by (simp add: js_trim_def)

lemma js_trim_hd: "js_trim s \<noteq> [] \<Longrightarrow> \<not> js_space (hd (js_trim s))"
proof -
  assume a: "js_trim s \<noteq> []"
  define t where "t = dropWhile js_space s"
  have pre: "prefix (js_trim s) t"
  proof -
    have "suffix (dropWhile js_space (rev t)) (rev t)" by (rule suffix_dropWhile)
    then show ?thesis by (simp add: js_trim_def t_def suffix_to_prefix)
  qed
  then have "hd (js_trim s) = hd t" using a by (cases "js_trim s"; cases t) auto
  moreover have "t \<noteq> []" using a pre by auto
  ultimately show ?thesis using hd_dropWhile[of js_space s] by (simp add: t_def)
qed

lemma js_trim_last: "js_trim s \<noteq> [] \<Longrightarrow> \<not> js_space (last (js_trim s))"
  by (simp add: js_trim_def last_rev hd_dropWhile)

lemma js_trim_fixed:
  assumes "s = [] \<or> (\<not> js_space (hd s) \<and> \<not> js_space (last s))"
  shows "js_trim s = s"
proof (cases "s = []")
  case False
  then have "dropWhile js_space s = s" using assms by (cases s) auto
  moreover have "dropWhile js_space (rev s) = rev s"
  proof -
    have "rev s \<noteq> []" "\<not> js_space (hd (rev s))" using False assms by (auto simp: hd_rev)
    then show ?thesis by (cases "rev s") auto
  qed
  ultimately show ?thesis by (simp add: js_trim_def)
qed simp

lemma js_trim_idem [simp]: "js_trim (js_trim s) = js_trim s"
  by (rule js_trim_fixed) (use js_trim_hd js_trim_last in blast)

lemma dropWhile_subset: "set (dropWhile P xs) \<subseteq> set xs"
  using set_dropWhileD by fast

lemma js_trim_set: "set (js_trim s) \<subseteq> set s"
  using dropWhile_subset[of js_space "rev (dropWhile js_space s)"] dropWhile_subset[of js_space s]
  by (simp add: js_trim_def)

section \<open>Insertion-ordered sets\<close>

definition add_unique :: "'a list \<Rightarrow> 'a \<Rightarrow> 'a list" where
  "add_unique acc x = (if x \<in> set acc then acc else acc @ [x])"

definition uniq :: "'a list \<Rightarrow> 'a list" where
  "uniq xs = foldl add_unique [] xs"

lemma foldl_add_unique_set [simp]: "set (foldl add_unique acc xs) = set acc \<union> set xs"
  by (induction xs arbitrary: acc) (auto simp: add_unique_def)

lemma foldl_add_unique_distinct: "distinct acc \<Longrightarrow> distinct (foldl add_unique acc xs)"
  by (induction xs arbitrary: acc) (auto simp: add_unique_def)

lemma foldl_add_unique_id:
  "distinct (acc @ xs) \<Longrightarrow> foldl add_unique acc xs = acc @ xs"
  by (induction xs arbitrary: acc) (auto simp: add_unique_def)

lemma uniq_set [simp]: "set (uniq xs) = set xs"
  by (simp add: uniq_def)

lemma uniq_distinct [simp]: "distinct (uniq xs)"
  by (simp add: uniq_def foldl_add_unique_distinct)

lemma uniq_id: "distinct xs \<Longrightarrow> uniq xs = xs"
  by (simp add: uniq_def foldl_add_unique_id)

lemma uniq_idem [simp]: "uniq (uniq xs) = uniq xs"
  by (simp add: uniq_id)

lemma uniq_eq_Nil [simp]: "uniq xs = [] \<longleftrightarrow> xs = []"
  using uniq_set[of xs] by (metis set_empty)

section \<open>Tables\<close>

fun upsert :: "('r \<Rightarrow> 'k) \<Rightarrow> 'r \<Rightarrow> 'r list \<Rightarrow> 'r list" where
  "upsert key x [] = [x]"
| "upsert key x (y # ys) = (if key y = key x then x # ys else y # upsert key x ys)"

definition lookup_row :: "('r \<Rightarrow> 'k) \<Rightarrow> 'k \<Rightarrow> 'r list \<Rightarrow> 'r option" where
  "lookup_row key k rows = find (\<lambda>r. key r = k) rows"

definition remove_row :: "('r \<Rightarrow> 'k) \<Rightarrow> 'k \<Rightarrow> 'r list \<Rightarrow> 'r list" where
  "remove_row key k rows = filter (\<lambda>r. key r \<noteq> k) rows"

lemma find_cong_key: "find P xs = Some x \<Longrightarrow> P x \<and> x \<in> set xs"
  by (induction xs) (auto split: if_splits)

lemma lookup_row_Some: "lookup_row key k rows = Some r \<Longrightarrow> key r = k \<and> r \<in> set rows"
  unfolding lookup_row_def by (drule find_cong_key) simp

lemma lookup_row_None: "lookup_row key k rows = None \<longleftrightarrow> k \<notin> key ` set rows"
  by (auto simp: lookup_row_def find_None_iff)

lemma lookup_row_in:
  "distinct (map key rows) \<Longrightarrow> r \<in> set rows \<Longrightarrow> lookup_row key (key r) rows = Some r"
  by (induction rows) (auto simp: lookup_row_def)

lemma lookup_upsert_same [simp, table_simps]: "lookup_row key (key x) (upsert key x rows) = Some x"
  by (induction rows) (auto simp: lookup_row_def)

lemma lookup_upsert_other [simp, table_simps]:
  "k \<noteq> key x \<Longrightarrow> lookup_row key k (upsert key x rows) = lookup_row key k rows"
  by (induction rows) (auto simp: lookup_row_def)

lemma lookup_remove_same [simp, table_simps]: "lookup_row key k (remove_row key k rows) = None"
  by (auto simp: lookup_row_None remove_row_def)

lemma lookup_remove_other [simp, table_simps]:
  "k \<noteq> k' \<Longrightarrow> lookup_row key k (remove_row key k' rows) = lookup_row key k rows"
  by (induction rows) (auto simp: lookup_row_def remove_row_def)

lemma upsert_keys: "key ` set (upsert key x rows) = insert (key x) (key ` set rows)"
  by (induction rows) auto

lemma upsert_distinct: "distinct (map key rows) \<Longrightarrow> distinct (map key (upsert key x rows))"
proof (induction rows)
  case (Cons y ys)
  have "key y \<in> key ` set (upsert key x ys) \<longleftrightarrow> key y = key x \<or> key y \<in> key ` set ys"
    by (simp add: upsert_keys)
  then show ?case using Cons by auto
qed simp

lemma remove_row_distinct: "distinct (map key rows) \<Longrightarrow> distinct (map key (remove_row key k rows))"
  by (induction rows) (auto simp: remove_row_def)

lemma upsert_set_distinct:
  "distinct (map key rows) \<Longrightarrow> set (upsert key x rows) = insert x {r \<in> set rows. key r \<noteq> key x}"
  by (induction rows) (auto, metis image_eqI)

lemma upsert_subset: "set (upsert key x rows) \<subseteq> insert x (set rows)"
  by (induction rows) auto

lemma upsert_mem [simp]: "x \<in> set (upsert key x rows)"
  by (induction rows) auto

lemma upsert_keeps: "r \<in> set rows \<Longrightarrow> key r \<noteq> key x \<Longrightarrow> r \<in> set (upsert key x rows)"
  by (induction rows) auto

lemma upsert_fresh: "key x \<notin> key ` set rows \<Longrightarrow> upsert key x rows = rows @ [x]"
  by (induction rows) auto

lemma remove_row_set [simp]: "set (remove_row key k rows) = {r \<in> set rows. key r \<noteq> k}"
  by (auto simp: remove_row_def)

lemma filter_length_remove:
  "filter P xs = ys \<Longrightarrow> length ys \<le> length xs"
  by auto

text \<open>The contract every repository keeps: what a lookup returns after a save.\<close>

locale keyed_store =
  fixes inv :: "'s \<Rightarrow> bool"
    and find_id :: "'k \<Rightarrow> 's \<Rightarrow> 'r option"
    and save :: "'r \<Rightarrow> 's \<Rightarrow> 's"
    and key :: "'r \<Rightarrow> 'k"
    and stored :: "'r \<Rightarrow> 'r"
  assumes find_id_key: "inv s \<Longrightarrow> find_id k s = Some r \<Longrightarrow> key r = k"
    and stored_key: "key (stored r) = key r"
    and find_save_same: "inv s \<Longrightarrow> find_id (key r) (save r s) = Some (stored r)"
    and find_save_other: "inv s \<Longrightarrow> k \<noteq> key r \<Longrightarrow> find_id k (save r s) = find_id k s"
    and save_inv: "inv s \<Longrightarrow> inv (save r s)"
begin

lemma find_save: "inv s \<Longrightarrow> find_id k (save r s) = (if k = key r then Some (stored r) else find_id k s)"
  by (simp add: find_save_same find_save_other)

lemma save_absorbs: "inv s \<Longrightarrow> key r = key r' \<Longrightarrow> find_id k (save r (save r' s)) = find_id k (save r s)"
  by (simp add: find_save save_inv)

lemma save_comm:
  "inv s \<Longrightarrow> key r \<noteq> key r' \<Longrightarrow> find_id k (save r (save r' s)) = find_id k (save r' (save r s))"
  by (auto simp: find_save save_inv)

end

text \<open>A store that also deletes rows.\<close>

locale deletable_store = keyed_store +
  fixes delete_id :: "'k \<Rightarrow> 's \<Rightarrow> 's"
  assumes find_delete_same: "inv s \<Longrightarrow> find_id k (delete_id k s) = None"
    and find_delete_other: "inv s \<Longrightarrow> k \<noteq> k' \<Longrightarrow> find_id k (delete_id k' s) = find_id k s"
    and delete_inv: "inv s \<Longrightarrow> inv (delete_id k s)"
begin

lemma delete_then_save: "inv s \<Longrightarrow> find_id (key r) (save r (delete_id k s)) = Some (stored r)"
  by (simp add: find_save delete_inv)

lemma save_then_delete: "inv s \<Longrightarrow> find_id k (delete_id (key r) (save r s)) = (if k = key r then None else find_id k s)"
  by (simp add: find_delete_same find_delete_other find_save save_inv)

end

lemma find_append: "find P (xs @ ys) = (case find P xs of None \<Rightarrow> find P ys | Some x \<Rightarrow> Some x)"
  by (induction xs) auto

end
