(* ===== verification/Kernel.thy ===== *)
theory Kernel
  imports Prelude
begin

text \<open>
  The shared kernel: branded identifiers and string enums (packages/shared/kernel-types), the
  \<open>DomainError\<close> hierarchy and the application error classes with their codes, the domain
  events, the \<open>Entity\<close> and \<open>AggregateRoot\<close> base classes, \<open>Guard\<close> and
  \<open>normalizeEmail\<close> (packages/domain/src/shared-kernel).

  An aggregate is a record extension of \<open>aggregate\<close>, as its class extends
  \<open>AggregateRoot\<close>; a method that throws returns a sum, and a method that mutates
  \<open>this\<close> returns the updated record.
\<close>

type_synonym tenantId = string
type_synonym userId = string
type_synonym roleId = string
type_synonym membershipId = string
type_synonym invitationId = string
type_synonym apiKeyId = string
type_synonym sessionId = string
type_synonym familyId = string
type_synonym permission = string

section \<open>String enums\<close>

datatype membershipStatus = MInvited | MActive | MSuspended
datatype accountStatus = Active | Suspended

definition membershipStatus_name :: "membershipStatus \<Rightarrow> string" where
  "membershipStatus_name s = (case s of MInvited \<Rightarrow> ''invited'' | MActive \<Rightarrow> ''active'' | MSuspended \<Rightarrow> ''suspended'')"

definition membershipStatus_parse :: "string \<Rightarrow> membershipStatus option" where
  "membershipStatus_parse s = map_of [(''invited'', MInvited), (''active'', MActive), (''suspended'', MSuspended)] s"

definition accountStatus_name :: "accountStatus \<Rightarrow> string" where
  "accountStatus_name s = (case s of Active \<Rightarrow> ''active'' | Suspended \<Rightarrow> ''suspended'')"

definition accountStatus_parse :: "string \<Rightarrow> accountStatus option" where
  "accountStatus_parse s = map_of [(''active'', Active), (''suspended'', Suspended)] s"

lemma membershipStatus_roundtrip [simp]: "membershipStatus_parse (membershipStatus_name s) = Some s"
  by (cases s) (simp_all add: membershipStatus_parse_def membershipStatus_name_def)

lemma accountStatus_roundtrip [simp]: "accountStatus_parse (accountStatus_name s) = Some s"
  by (cases s) (simp_all add: accountStatus_parse_def accountStatus_name_def)

text \<open>The principal of a tenant-scoped request.\<close>

datatype tenantActor = userActor userId | apiKeyActor apiKeyId

section \<open>Permission names\<close>

text \<open>
  \<open>^[a-z][a-z0-9_-]*(\\.[a-z][a-z0-9_-]*)+$\<close>: at least two segments between dots, each a
  lower-case letter and then letters, digits, underscores and hyphens.
\<close>

definition segment_char :: "char \<Rightarrow> bool" where
  "segment_char c \<longleftrightarrow> is_lower_letter c \<or> is_digit c \<or> c = CHR ''_'' \<or> c = CHR ''-''"

definition permission_segment :: "string \<Rightarrow> bool" where
  "permission_segment s = (case s of [] \<Rightarrow> False | c # cs \<Rightarrow> is_lower_letter c \<and> list_all segment_char cs)"

definition permission_parse :: "string \<Rightarrow> permission option" where
  "permission_parse s = (let segs = split_on (CHR ''.'') s in
     if 2 \<le> length segs \<and> list_all permission_segment segs then Some s else None)"

section \<open>Errors\<close>

datatype (plugins del: quickcheck_random quickcheck_exhaustive quickcheck_bounded_forall
    quickcheck_full_exhaustive quickcheck_narrowing transfer lifting) error =
    ZodError
  | InvalidTenantNameError | TenantAlreadySuspendedError | TenantAlreadyActiveError
  | EmptyMembershipRolesError | MembershipAlreadyActiveError | MembershipAlreadySuspendedError
  | InvalidInvitationEmailError | InvitationAlreadyConsumedError | InvitationExpiredError
  | InvalidRoleNameError | ReservedRoleNameError | EmptyRolePermissionsError
  | UnknownPermissionError permission | SystemRoleImmutableError
  | InvalidUserEmailError | InvalidUserDisplayNameError | UserAlreadyActiveError | UserAlreadySuspendedError
  | InvalidApiKeyNameError | EmptyApiKeyPermissionsError | ApiKeyCannotManageKeysError | ApiKeyAlreadyRevokedError
  | InsufficientPermissionError permission | InvalidPasswordError | RoleNotFoundError | ApiKeyNotFoundError
  | UserNotFoundError | RoleNameTakenError | RoleInUseError
  | MembershipAlreadyExistsError | InvalidInvitationTokenError | CannotAssignOwnerRoleError
  | MembershipNotFoundError | LastOwnerRequiredError | OwnerUserNotFoundError | TenantNotFoundError
  | InvitationRegistrationRequiredError | InvitationAlreadyPendingError
  | InvalidRefreshTokenError | PasswordAlreadySetError | UserEmailTakenError | InvalidResetTokenError
  | InvalidCredentialsError | ActiveMembershipRequiredError | UserSuspendedError
  | IdempotencyKeyRequiredError | IdempotencyScopeUnavailableError | IdempotencyInProgressError
  | IdempotencyKeyReusedError | RateLimitExceededError int | InvalidObjectKeyError string
  | TenantContextNotEstablishedError | TenantContextMismatchError
  | OptimisticConcurrencyError | AmbientTransactionRequiredError
  | EventPublisherOutsideTransactionError | IdempotencyOutsideTransactionError
  | PlainError string

text \<open>The \<open>code\<close> property, \<open>None\<close> for the classes that have none.\<close>

primrec error_code :: "error \<Rightarrow> string option" where
  "error_code InvalidTenantNameError = Some ''TENANT_INVALID_NAME''"
| "error_code TenantAlreadySuspendedError = Some ''TENANT_ALREADY_SUSPENDED''"
| "error_code TenantAlreadyActiveError = Some ''TENANT_ALREADY_ACTIVE''"
| "error_code EmptyMembershipRolesError = Some ''MEMBERSHIP_EMPTY_ROLES''"
| "error_code MembershipAlreadyActiveError = Some ''MEMBERSHIP_ALREADY_ACTIVE''"
| "error_code MembershipAlreadySuspendedError = Some ''MEMBERSHIP_ALREADY_SUSPENDED''"
| "error_code InvalidInvitationEmailError = Some ''INVITATION_INVALID_EMAIL''"
| "error_code InvitationAlreadyConsumedError = Some ''INVITATION_ALREADY_CONSUMED''"
| "error_code InvitationExpiredError = Some ''INVITATION_EXPIRED''"
| "error_code InvalidRoleNameError = Some ''ROLE_INVALID_NAME''"
| "error_code ReservedRoleNameError = Some ''RESERVED_ROLE_NAME''"
| "error_code EmptyRolePermissionsError = Some ''ROLE_EMPTY_PERMISSIONS''"
| "error_code (UnknownPermissionError p) = Some ''PERMISSION_UNKNOWN''"
| "error_code SystemRoleImmutableError = Some ''SYSTEM_ROLE_IMMUTABLE''"
| "error_code InvalidUserEmailError = Some ''USER_INVALID_EMAIL''"
| "error_code InvalidUserDisplayNameError = Some ''USER_INVALID_DISPLAY_NAME''"
| "error_code UserAlreadyActiveError = Some ''USER_ALREADY_ACTIVE''"
| "error_code UserAlreadySuspendedError = Some ''USER_ALREADY_SUSPENDED''"
| "error_code InvalidApiKeyNameError = Some ''API_KEY_INVALID_NAME''"
| "error_code EmptyApiKeyPermissionsError = Some ''API_KEY_EMPTY_PERMISSIONS''"
| "error_code ApiKeyCannotManageKeysError = Some ''API_KEY_CANNOT_MANAGE_KEYS''"
| "error_code ApiKeyAlreadyRevokedError = Some ''API_KEY_ALREADY_REVOKED''"
| "error_code (InsufficientPermissionError p) = Some ''INSUFFICIENT_PERMISSION''"
| "error_code InvalidPasswordError = Some ''INVALID_PASSWORD''"
| "error_code RoleNotFoundError = Some ''ROLE_NOT_FOUND''"
| "error_code ApiKeyNotFoundError = Some ''API_KEY_NOT_FOUND''"
| "error_code UserNotFoundError = Some ''USER_NOT_FOUND''"
| "error_code RoleNameTakenError = Some ''ROLE_NAME_TAKEN''"
| "error_code RoleInUseError = Some ''ROLE_IN_USE''"
| "error_code MembershipAlreadyExistsError = Some ''MEMBERSHIP_ALREADY_EXISTS''"
| "error_code InvalidInvitationTokenError = Some ''INVALID_INVITATION_TOKEN''"
| "error_code CannotAssignOwnerRoleError = Some ''CANNOT_ASSIGN_OWNER_ROLE''"
| "error_code MembershipNotFoundError = Some ''MEMBERSHIP_NOT_FOUND''"
| "error_code LastOwnerRequiredError = Some ''LAST_OWNER_REQUIRED''"
| "error_code OwnerUserNotFoundError = Some ''OWNER_USER_NOT_FOUND''"
| "error_code TenantNotFoundError = Some ''TENANT_NOT_FOUND''"
| "error_code InvitationRegistrationRequiredError = Some ''INVITATION_REGISTRATION_REQUIRED''"
| "error_code InvitationAlreadyPendingError = Some ''INVITATION_ALREADY_PENDING''"
| "error_code InvalidRefreshTokenError = Some ''INVALID_REFRESH_TOKEN''"
| "error_code PasswordAlreadySetError = Some ''PASSWORD_ALREADY_SET''"
| "error_code UserEmailTakenError = Some ''USER_EMAIL_TAKEN''"
| "error_code InvalidResetTokenError = Some ''INVALID_RESET_TOKEN''"
| "error_code InvalidCredentialsError = Some ''INVALID_CREDENTIALS''"
| "error_code ActiveMembershipRequiredError = Some ''ACTIVE_MEMBERSHIP_REQUIRED''"
| "error_code UserSuspendedError = Some ''USER_SUSPENDED''"
| "error_code IdempotencyKeyRequiredError = Some ''IDEMPOTENCY_KEY_REQUIRED''"
| "error_code IdempotencyScopeUnavailableError = Some ''IDEMPOTENCY_SCOPE_UNAVAILABLE''"
| "error_code IdempotencyInProgressError = Some ''IDEMPOTENCY_IN_PROGRESS''"
| "error_code IdempotencyKeyReusedError = Some ''IDEMPOTENCY_KEY_REUSED''"
| "error_code (RateLimitExceededError n) = Some ''RATE_LIMIT_EXCEEDED''"
| "error_code (InvalidObjectKeyError k) = Some ''INVALID_OBJECT_KEY''"
| "error_code TenantContextNotEstablishedError = Some ''TENANT_CONTEXT_NOT_ESTABLISHED''"
| "error_code TenantContextMismatchError = Some ''TENANT_CONTEXT_MISMATCH''"
| "error_code ZodError = None"
| "error_code OptimisticConcurrencyError = None"
| "error_code AmbientTransactionRequiredError = None"
| "error_code EventPublisherOutsideTransactionError = None"
| "error_code IdempotencyOutsideTransactionError = None"
| "error_code (PlainError m) = None"

section \<open>Domain events\<close>

datatype (plugins del: quickcheck_random quickcheck_exhaustive quickcheck_bounded_forall
    quickcheck_full_exhaustive quickcheck_narrowing transfer lifting) domainEvent =
    TenantCreated millis tenantId string
  | TenantRenamed millis tenantId string
  | TenantSuspended millis tenantId
  | TenantActivated millis tenantId
  | MembershipCreated millis membershipId tenantId userId "roleId list" membershipStatus
  | MembershipRolesReplaced millis membershipId tenantId userId "roleId list"
  | MembershipActivated millis membershipId tenantId userId
  | MembershipSuspended millis membershipId tenantId userId
  | InvitationCreated millis invitationId tenantId string userId
  | InvitationConsumed millis invitationId tenantId string
  | UserCreated millis userId string
  | UserSuspended millis userId
  | UserActivated millis userId
  | ApiKeyCreated millis apiKeyId tenantId userId string
  | ApiKeyRevoked millis apiKeyId tenantId
  | ApiKeyPermissionsReplaced millis apiKeyId tenantId
  | RoleCreated millis roleId tenantId string bool
  | RoleRenamed millis roleId tenantId string
  | RolePermissionsReplaced millis roleId tenantId

section \<open>Entities and aggregates\<close>

record entity =
  ent_id :: string

record aggregate = entity +
  agg_events :: "domainEvent list"

text \<open>The runtime class of an entity, which \<open>equals\<close> compares besides the id.\<close>

datatype entityClass =
  TenantClass | MembershipClass | InvitationClass | RoleClass | UserClass | ApiKeyClass
  | RefreshSessionClass | PasswordResetTokenClass | LocalPasswordClass

definition entity_equals :: "entityClass \<times> 'a entity_scheme \<Rightarrow> (entityClass \<times> 'b entity_scheme) option \<Rightarrow> bool" where
  "entity_equals this other = (case other of
     None \<Rightarrow> False
   | Some (c, e) \<Rightarrow> if fst this \<noteq> c then False else ent_id (snd this) = ent_id e)"

definition record_event :: "domainEvent \<Rightarrow> 'a aggregate_scheme \<Rightarrow> 'a aggregate_scheme" where
  "record_event ev a = a\<lparr>agg_events := agg_events a @ [ev]\<rparr>"

definition pullEvents :: "'a aggregate_scheme \<Rightarrow> domainEvent list \<times> 'a aggregate_scheme" where
  "pullEvents a = (agg_events a, a\<lparr>agg_events := []\<rparr>)"

lemma record_event_fields [simp]:
  "ent_id (record_event ev a) = ent_id a"
  "agg_events (record_event ev a) = agg_events a @ [ev]"
  by (simp_all add: record_event_def)

lemma pullEvents_twice: "fst (pullEvents (snd (pullEvents a))) = []"
  by (simp add: pullEvents_def)

section \<open>Guard and email\<close>

definition againstEmpty :: "string \<Rightarrow> error \<Rightarrow> error + unit" where
  "againstEmpty value e = throwIf (js_trim value = []) e"

text \<open>
  \<open>/^[^\\s@]+@[^\\s@]+\\.[^\\s@]+$/\<close>: exactly one \<open>@\<close>, no space, a non-empty local part
  and a dot of the domain that is neither its first nor its last character.
\<close>

definition email_char :: "char \<Rightarrow> bool" where
  "email_char c \<longleftrightarrow> \<not> js_space c \<and> c \<noteq> CHR ''@''"

definition inner_dot :: "string \<Rightarrow> bool" where
  "inner_dot d \<longleftrightarrow> 2 < length d \<and> CHR ''.'' \<in> set (butlast (tl d))"

definition emailPattern :: "string \<Rightarrow> bool" where
  "emailPattern s = (case split_on (CHR ''@'') s of
     [l, d] \<Rightarrow> l \<noteq> [] \<and> list_all email_char l \<and> list_all email_char d \<and> inner_dot d
   | _ \<Rightarrow> False)"

definition normalizeEmail :: "string \<Rightarrow> error \<Rightarrow> error + string" where
  "normalizeEmail email onInvalid =
     bindR (againstEmpty email onInvalid) (\<lambda>_.
       let normalized = js_lower (js_trim email) in
       if \<not> emailPattern normalized then Inl onInvalid else Inr normalized)"

lemma againstEmpty_Inr [simp]: "againstEmpty v e = Inr u \<longleftrightarrow> js_trim v \<noteq> []"
  by (simp add: againstEmpty_def)

lemma normalizeEmail_Inr:
  "normalizeEmail e err = Inr n \<longleftrightarrow> js_trim e \<noteq> [] \<and> n = js_lower (js_trim e) \<and> emailPattern n"
  by (auto simp: normalizeEmail_def Let_def)

lemma normalizeEmail_Inl: "normalizeEmail e err = Inl x \<Longrightarrow> x = err"
  by (auto simp: normalizeEmail_def againstEmpty_def throwIf_def Let_def split: if_splits)

lemma normalizeEmail_idem:
  "normalizeEmail e err = Inr n \<Longrightarrow> normalizeEmail n err' = Inr n"
  by (auto simp: normalizeEmail_Inr js_trim_lower)

lemma emailPattern_parts:
  assumes "emailPattern s"
  obtains l d where "s = l @ CHR ''@'' # d" "l \<noteq> []" "list_all email_char l" "list_all email_char d" "inner_dot d"
proof -
  obtain l d where sp: "split_on (CHR ''@'') s = [l, d]"
    and p: "l \<noteq> []" "list_all email_char l" "list_all email_char d" "inner_dot d"
    using assms by (auto simp: emailPattern_def split: list.splits)
  have "s = join_with [CHR ''@''] [l, d]" using sp join_split_on by metis
  then have "s = l @ CHR ''@'' # d" by simp
  then show thesis using p that by blast
qed

lemma emailPattern_iff:
  "emailPattern s \<longleftrightarrow> (\<exists>l d. s = l @ CHR ''@'' # d \<and> l \<noteq> [] \<and> list_all email_char l \<and>
     list_all email_char d \<and> inner_dot d)" (is "_ \<longleftrightarrow> ?R")
proof
  show "emailPattern s \<Longrightarrow> ?R" by (erule emailPattern_parts) blast
next
  assume ?R
  then obtain l d where s: "s = l @ CHR ''@'' # d"
    and p: "l \<noteq> []" "list_all email_char l" "list_all email_char d" "inner_dot d" by blast
  have "CHR ''@'' \<notin> set l" "CHR ''@'' \<notin> set d"
    using p(2,3) by (auto simp: list_all_iff email_char_def)
  then show "emailPattern s" using p by (simp add: emailPattern_def s split_on_append_sep split_on_no_sep)
qed

end
