(* ===== verification/Tenancy.thy ===== *)
theory Tenancy
  imports Kernel
begin

text \<open>
  The tenancy aggregates of packages/domain/src/tenancy: the tenant, the membership that links a
  user to a tenant, and the email invitation.  Each mutating method returns the updated aggregate
  with its event appended, or the error it throws.
\<close>

section \<open>Tenant\<close>

record tenant = aggregate +
  tenant_name :: string
  tenant_status :: accountStatus

definition newTenant :: "tenantId \<Rightarrow> string \<Rightarrow> accountStatus \<Rightarrow> tenant" where
  "newTenant i n s = \<lparr>ent_id = i, agg_events = [], tenant_name = n, tenant_status = s\<rparr>"

definition tenant_normalizeName :: "string \<Rightarrow> error + string" where
  "tenant_normalizeName name = bindR (againstEmpty name InvalidTenantNameError) (\<lambda>_. Inr (js_trim name))"

definition tenant_create :: "tenantId \<Rightarrow> string \<Rightarrow> millis \<Rightarrow> error + tenant" where
  "tenant_create i name occurredAt =
     bindR (tenant_normalizeName name) (\<lambda>n.
       let t = newTenant i n Active in
       Inr (record_event (TenantCreated occurredAt i (tenant_name t)) t))"

definition tenant_reconstitute :: "tenantId \<Rightarrow> string \<Rightarrow> accountStatus \<Rightarrow> tenant" where
  "tenant_reconstitute i n s = newTenant i n s"

definition tenant_rename :: "tenant \<Rightarrow> string \<Rightarrow> millis \<Rightarrow> error + tenant" where
  "tenant_rename t name occurredAt =
     bindR (tenant_normalizeName name) (\<lambda>n.
       Inr (record_event (TenantRenamed occurredAt (ent_id t) n) (t\<lparr>tenant_name := n\<rparr>)))"

definition tenant_suspend :: "tenant \<Rightarrow> millis \<Rightarrow> error + tenant" where
  "tenant_suspend t occurredAt =
     bindR (throwIf (tenant_status t = Suspended) TenantAlreadySuspendedError) (\<lambda>_.
       Inr (record_event (TenantSuspended occurredAt (ent_id t)) (t\<lparr>tenant_status := Suspended\<rparr>)))"

definition tenant_activate :: "tenant \<Rightarrow> millis \<Rightarrow> error + tenant" where
  "tenant_activate t occurredAt =
     bindR (throwIf (tenant_status t = Active) TenantAlreadyActiveError) (\<lambda>_.
       Inr (record_event (TenantActivated occurredAt (ent_id t)) (t\<lparr>tenant_status := Active\<rparr>)))"

text \<open>A tenant's name is never blank and carries no outer white space.\<close>

definition tenant_wf :: "'a tenant_scheme \<Rightarrow> bool" where
  "tenant_wf t \<longleftrightarrow> tenant_name t \<noteq> [] \<and> js_trim (tenant_name t) = tenant_name t"

lemma tenant_normalizeName_Inr:
  "tenant_normalizeName n = Inr m \<longleftrightarrow> js_trim n \<noteq> [] \<and> m = js_trim n"
  by (auto simp: tenant_normalizeName_def)

lemma tenant_create_wf: "tenant_create i n at = Inr t \<Longrightarrow> tenant_wf t"
  by (auto simp: tenant_create_def tenant_normalizeName_Inr tenant_wf_def newTenant_def record_event_def)

lemma tenant_rename_wf: "tenant_rename t n at = Inr t' \<Longrightarrow> tenant_wf t'"
  by (auto simp: tenant_rename_def tenant_normalizeName_Inr tenant_wf_def record_event_def)

lemma tenant_create_Inr:
  "tenant_create i n at = Inr t \<longleftrightarrow> js_trim n \<noteq> [] \<and>
     t = \<lparr>ent_id = i, agg_events = [TenantCreated at i (js_trim n)], tenant_name = js_trim n, tenant_status = Active\<rparr>"
  by (auto simp: tenant_create_def tenant_normalizeName_Inr newTenant_def record_event_def)

section \<open>Membership\<close>

record membership = aggregate +
  m_tenantId :: tenantId
  m_userId :: userId
  m_roleIds :: "roleId list"
  m_status :: membershipStatus

definition normalizeRoleIds :: "roleId list \<Rightarrow> error + roleId list" where
  "normalizeRoleIds roleIds =
     (let unique = uniq roleIds in
      bindR (throwIf (length unique = 0) EmptyMembershipRolesError) (\<lambda>_. Inr unique))"

definition membership_instantiate ::
    "membershipId \<Rightarrow> tenantId \<Rightarrow> userId \<Rightarrow> roleId list \<Rightarrow> membershipStatus \<Rightarrow> millis \<Rightarrow> membership" where
  "membership_instantiate i t u rs s occurredAt =
     record_event (MembershipCreated occurredAt i t u rs s)
       \<lparr>ent_id = i, agg_events = [], m_tenantId = t, m_userId = u, m_roleIds = rs, m_status = s\<rparr>"

definition membership_createOwner ::
    "membershipId \<Rightarrow> tenantId \<Rightarrow> userId \<Rightarrow> roleId \<Rightarrow> millis \<Rightarrow> membership" where
  "membership_createOwner i t u ownerRoleId occurredAt =
     membership_instantiate i t u [ownerRoleId] MActive occurredAt"

definition membership_create ::
    "membershipId \<Rightarrow> tenantId \<Rightarrow> userId \<Rightarrow> roleId list \<Rightarrow> millis \<Rightarrow> error + membership" where
  "membership_create i t u rs occurredAt =
     bindR (normalizeRoleIds rs) (\<lambda>rs'. Inr (membership_instantiate i t u rs' MActive occurredAt))"

definition membership_reconstitute ::
    "membershipId \<Rightarrow> tenantId \<Rightarrow> userId \<Rightarrow> roleId list \<Rightarrow> membershipStatus \<Rightarrow> membership" where
  "membership_reconstitute i t u rs s =
     \<lparr>ent_id = i, agg_events = [], m_tenantId = t, m_userId = u, m_roleIds = rs, m_status = s\<rparr>"

definition membership_replaceRoleIds :: "membership \<Rightarrow> roleId list \<Rightarrow> millis \<Rightarrow> error + membership" where
  "membership_replaceRoleIds m rs occurredAt =
     bindR (normalizeRoleIds rs) (\<lambda>rs'.
       Inr (record_event (MembershipRolesReplaced occurredAt (ent_id m) (m_tenantId m) (m_userId m) rs')
         (m\<lparr>m_roleIds := rs'\<rparr>)))"

definition membership_activate :: "membership \<Rightarrow> millis \<Rightarrow> error + membership" where
  "membership_activate m occurredAt =
     bindR (throwIf (m_status m = MActive) MembershipAlreadyActiveError) (\<lambda>_.
       Inr (record_event (MembershipActivated occurredAt (ent_id m) (m_tenantId m) (m_userId m))
         (m\<lparr>m_status := MActive\<rparr>)))"

definition membership_suspend :: "membership \<Rightarrow> millis \<Rightarrow> error + membership" where
  "membership_suspend m occurredAt =
     bindR (throwIf (m_status m = MSuspended) MembershipAlreadySuspendedError) (\<lambda>_.
       Inr (record_event (MembershipSuspended occurredAt (ent_id m) (m_tenantId m) (m_userId m))
         (m\<lparr>m_status := MSuspended\<rparr>)))"

definition membership_wf :: "'a membership_scheme \<Rightarrow> bool" where
  "membership_wf m \<longleftrightarrow> m_roleIds m \<noteq> [] \<and> distinct (m_roleIds m)"

lemma normalizeRoleIds_Inr: "normalizeRoleIds rs = Inr rs' \<longleftrightarrow> rs \<noteq> [] \<and> rs' = uniq rs"
  by (auto simp: normalizeRoleIds_def Let_def)

lemma membership_create_Inr:
  "membership_create i t u rs at = Inr m \<longleftrightarrow> rs \<noteq> [] \<and>
     m = \<lparr>ent_id = i, agg_events = [MembershipCreated at i t u (uniq rs) MActive],
          m_tenantId = t, m_userId = u, m_roleIds = uniq rs, m_status = MActive\<rparr>"
  by (auto simp: membership_create_def normalizeRoleIds_Inr membership_instantiate_def record_event_def)

lemma membership_replaceRoleIds_Inr:
  "membership_replaceRoleIds m rs at = Inr m' \<longleftrightarrow> rs \<noteq> [] \<and>
     m' = m\<lparr>m_roleIds := uniq rs,
            agg_events := agg_events m @ [MembershipRolesReplaced at (ent_id m) (m_tenantId m) (m_userId m) (uniq rs)]\<rparr>"
  by (auto simp: membership_replaceRoleIds_def normalizeRoleIds_Inr record_event_def)

lemma membership_create_wf: "membership_create i t u rs at = Inr m \<Longrightarrow> membership_wf m"
  by (auto simp: membership_create_Inr membership_wf_def)

lemma membership_createOwner_wf: "membership_wf (membership_createOwner i t u r at)"
  by (simp add: membership_createOwner_def membership_instantiate_def membership_wf_def record_event_def)

lemma membership_replaceRoleIds_wf: "membership_replaceRoleIds m rs at = Inr m' \<Longrightarrow> membership_wf m'"
  by (auto simp: membership_replaceRoleIds_Inr membership_wf_def)

section \<open>Invitation\<close>

record invitation = aggregate +
  i_tenantId :: tenantId
  i_email :: string
  i_roleIds :: "roleId list"
  i_tokenHash :: string
  i_expiresAt :: millis
  i_invitedByUserId :: userId
  i_consumedAt :: "millis option"

definition invitation_create ::
    "invitationId \<Rightarrow> tenantId \<Rightarrow> string \<Rightarrow> roleId list \<Rightarrow> string \<Rightarrow> millis \<Rightarrow> userId \<Rightarrow> millis \<Rightarrow> error + invitation" where
  "invitation_create i t email rs tokenHash expiresAt invitedBy occurredAt =
     bindR (normalizeEmail email InvalidInvitationEmailError) (\<lambda>email'.
     bindR (normalizeRoleIds rs) (\<lambda>rs'.
       Inr (record_event (InvitationCreated occurredAt i t email' invitedBy)
         \<lparr>ent_id = i, agg_events = [], i_tenantId = t, i_email = email', i_roleIds = rs',
          i_tokenHash = tokenHash, i_expiresAt = expiresAt, i_invitedByUserId = invitedBy,
          i_consumedAt = None\<rparr>)))"

definition invitation_reconstitute ::
    "invitationId \<Rightarrow> tenantId \<Rightarrow> string \<Rightarrow> roleId list \<Rightarrow> string \<Rightarrow> millis \<Rightarrow> userId \<Rightarrow> millis option \<Rightarrow> invitation" where
  "invitation_reconstitute i t email rs tokenHash expiresAt invitedBy consumedAt =
     \<lparr>ent_id = i, agg_events = [], i_tenantId = t, i_email = email, i_roleIds = rs,
      i_tokenHash = tokenHash, i_expiresAt = expiresAt, i_invitedByUserId = invitedBy,
      i_consumedAt = consumedAt\<rparr>"

definition invitation_consume :: "invitation \<Rightarrow> millis \<Rightarrow> error + invitation" where
  "invitation_consume iv at =
     bindR (throwIf (i_consumedAt iv \<noteq> None) InvitationAlreadyConsumedError) (\<lambda>_.
     bindR (throwIf (i_expiresAt iv \<le> at) InvitationExpiredError) (\<lambda>_.
       Inr (record_event (InvitationConsumed at (ent_id iv) (i_tenantId iv) (i_email iv))
         (iv\<lparr>i_consumedAt := Some at\<rparr>))))"

definition invitation_supersede :: "invitation \<Rightarrow> millis \<Rightarrow> error + invitation" where
  "invitation_supersede iv at =
     bindR (throwIf (i_consumedAt iv \<noteq> None) InvitationAlreadyConsumedError) (\<lambda>_.
       Inr (iv\<lparr>i_consumedAt := Some at\<rparr>))"

definition invitation_isActive :: "'a invitation_scheme \<Rightarrow> millis \<Rightarrow> bool" where
  "invitation_isActive iv now \<longleftrightarrow> i_consumedAt iv = None \<and> now < i_expiresAt iv"

definition invitation_wf :: "'a invitation_scheme \<Rightarrow> bool" where
  "invitation_wf iv \<longleftrightarrow> i_roleIds iv \<noteq> [] \<and> distinct (i_roleIds iv) \<and> emailPattern (i_email iv) \<and>
     js_lower (js_trim (i_email iv)) = i_email iv"

lemma invitation_create_wf:
  "invitation_create i t e rs h x u at = Inr iv \<Longrightarrow> invitation_wf iv"
  by (auto simp: invitation_create_def normalizeEmail_Inr normalizeRoleIds_Inr invitation_wf_def
      record_event_def js_trim_lower)

lemma invitation_create_active:
  "invitation_create i t e rs h x u at = Inr iv \<Longrightarrow> invitation_isActive iv now \<longleftrightarrow> now < x"
  by (auto simp: invitation_create_def invitation_isActive_def record_event_def)

lemma invitation_consume_Inr:
  "invitation_consume iv at = Inr iv' \<longleftrightarrow> invitation_isActive iv at \<and>
     iv' = iv\<lparr>i_consumedAt := Some at,
                agg_events := agg_events iv @ [InvitationConsumed at (ent_id iv) (i_tenantId iv) (i_email iv)]\<rparr>"
  by (auto simp: invitation_consume_def invitation_isActive_def record_event_def)

lemma invitation_supersede_Inr:
  "invitation_supersede iv at = Inr iv' \<longleftrightarrow> i_consumedAt iv = None \<and> iv' = iv\<lparr>i_consumedAt := Some at\<rparr>"
  by (auto simp: invitation_supersede_def)

lemma invitation_consume_inactive:
  "invitation_consume iv at = Inr iv' \<Longrightarrow> \<not> invitation_isActive iv' now"
  by (auto simp: invitation_consume_Inr invitation_isActive_def)

lemma invitation_supersede_inactive:
  "invitation_supersede iv at = Inr iv' \<Longrightarrow> \<not> invitation_isActive iv' now"
  by (auto simp: invitation_supersede_Inr invitation_isActive_def)

lemma invitation_consume_errors:
  "invitation_consume iv at = Inl e \<longleftrightarrow>
     (if i_consumedAt iv \<noteq> None then e = InvitationAlreadyConsumedError
      else i_expiresAt iv \<le> at \<and> e = InvitationExpiredError)"
  by (auto simp: invitation_consume_def bindR_eq_Inl)

end
