(* ===== verification/Authorization.thy ===== *)
theory Authorization
  imports Kernel
begin

text \<open>
  The authorization domain of packages/domain/src/authorization: the permission catalog, the
  bundles of the three seeded system roles, and the \<open>Role\<close> aggregate.
\<close>

section \<open>The catalog\<close>

definition tenancyMembersRead :: permission where "tenancyMembersRead = ''tenancy.members.read''"
definition tenancyMembersInvite :: permission where "tenancyMembersInvite = ''tenancy.members.invite''"
definition tenancyMembersManage :: permission where "tenancyMembersManage = ''tenancy.members.manage''"
definition tenancyTenantRead :: permission where "tenancyTenantRead = ''tenancy.tenant.read''"
definition authorizationRolesRead :: permission where "authorizationRolesRead = ''authorization.roles.read''"
definition authorizationRolesManage :: permission where "authorizationRolesManage = ''authorization.roles.manage''"
definition identityUsersRead :: permission where "identityUsersRead = ''identity.users.read''"
definition identityApiKeysManage :: permission where "identityApiKeysManage = ''identity.api_keys.manage''"

lemmas permission_defs =
  tenancyMembersRead_def tenancyMembersInvite_def tenancyMembersManage_def tenancyTenantRead_def
  authorizationRolesRead_def authorizationRolesManage_def identityUsersRead_def identityApiKeysManage_def

definition catalog_all :: "permission list" where
  "catalog_all = [tenancyMembersRead, tenancyMembersInvite, tenancyMembersManage, tenancyTenantRead,
     authorizationRolesRead, authorizationRolesManage, identityUsersRead, identityApiKeysManage]"

definition isKnown :: "permission \<Rightarrow> bool" where
  "isKnown p \<longleftrightarrow> p \<in> set catalog_all"

definition assertKnown :: "permission \<Rightarrow> error + unit" where
  "assertKnown p = throwIf (\<not> isKnown p) (UnknownPermissionError p)"

lemma catalog_distinct: "distinct catalog_all"
  by (simp add: catalog_all_def permission_defs)

section \<open>System roles\<close>

datatype systemRoleName = Owner | Admin | Member

definition systemRoleName_string :: "systemRoleName \<Rightarrow> string" where
  "systemRoleName_string n = (case n of Owner \<Rightarrow> ''Owner'' | Admin \<Rightarrow> ''Admin'' | Member \<Rightarrow> ''Member'')"

definition systemRoleNames :: "systemRoleName list" where
  "systemRoleNames = [Owner, Admin, Member]"

fun permissionsFor :: "systemRoleName \<Rightarrow> permission list" where
  "permissionsFor Owner = catalog_all"
| "permissionsFor Admin = [tenancyMembersRead, tenancyMembersInvite, tenancyMembersManage, tenancyTenantRead,
     identityUsersRead, identityApiKeysManage]"
| "permissionsFor Member = [tenancyTenantRead]"

section \<open>Role\<close>

record role = aggregate +
  r_tenantId :: tenantId
  r_name :: string
  r_permissions :: "permission list"
  r_isSystem :: bool

fun assertAllKnown :: "permission list \<Rightarrow> error + unit" where
  "assertAllKnown [] = Inr ()"
| "assertAllKnown (p # ps) = bindR (assertKnown p) (\<lambda>_. assertAllKnown ps)"

definition role_normalize :: "permission list \<Rightarrow> error + permission list" where
  "role_normalize permissions =
     (let unique = uniq permissions in
      bindR (throwIf (length unique = 0) EmptyRolePermissionsError) (\<lambda>_.
      bindR (assertAllKnown unique) (\<lambda>_.
        Inr (filter (\<lambda>p. p \<in> set unique) catalog_all))))"

definition role_normalizeName :: "string \<Rightarrow> error + string" where
  "role_normalizeName name =
     bindR (againstEmpty name InvalidRoleNameError) (\<lambda>_.
       let trimmed = js_trim name in
       bindR (throwIf (trimmed \<in> set (map systemRoleName_string systemRoleNames)) ReservedRoleNameError) (\<lambda>_.
         Inr trimmed))"

definition newRole :: "roleId \<Rightarrow> tenantId \<Rightarrow> string \<Rightarrow> permission list \<Rightarrow> bool \<Rightarrow> role" where
  "newRole i t n ps sys =
     \<lparr>ent_id = i, agg_events = [], r_tenantId = t, r_name = n, r_permissions = ps, r_isSystem = sys\<rparr>"

definition role_recordCreated :: "role \<Rightarrow> millis \<Rightarrow> role" where
  "role_recordCreated r occurredAt =
     record_event (RoleCreated occurredAt (ent_id r) (r_tenantId r) (r_name r) (r_isSystem r)) r"

definition role_createSystemRole :: "roleId \<Rightarrow> tenantId \<Rightarrow> systemRoleName \<Rightarrow> millis \<Rightarrow> role" where
  "role_createSystemRole i t name occurredAt =
     role_recordCreated (newRole i t (systemRoleName_string name) (permissionsFor name) True) occurredAt"

definition role_create :: "roleId \<Rightarrow> tenantId \<Rightarrow> string \<Rightarrow> permission list \<Rightarrow> millis \<Rightarrow> error + role" where
  "role_create i t name ps occurredAt =
     bindR (role_normalizeName name) (\<lambda>n.
     bindR (role_normalize ps) (\<lambda>ps'.
       Inr (role_recordCreated (newRole i t n ps' False) occurredAt)))"

definition role_reconstitute :: "roleId \<Rightarrow> tenantId \<Rightarrow> string \<Rightarrow> permission list \<Rightarrow> bool \<Rightarrow> error + role" where
  "role_reconstitute i t n ps sys = bindR (role_normalize ps) (\<lambda>ps'. Inr (newRole i t n ps' sys))"

definition role_assertMutable :: "role \<Rightarrow> error + unit" where
  "role_assertMutable r = throwIf (r_isSystem r) SystemRoleImmutableError"

definition role_rename :: "role \<Rightarrow> string \<Rightarrow> millis \<Rightarrow> error + role" where
  "role_rename r name occurredAt =
     bindR (role_assertMutable r) (\<lambda>_.
     bindR (role_normalizeName name) (\<lambda>n.
       Inr (record_event (RoleRenamed occurredAt (ent_id r) (r_tenantId r) n) (r\<lparr>r_name := n\<rparr>))))"

definition role_replacePermissions :: "role \<Rightarrow> permission list \<Rightarrow> millis \<Rightarrow> error + role" where
  "role_replacePermissions r ps occurredAt =
     bindR (role_assertMutable r) (\<lambda>_.
     bindR (role_normalize ps) (\<lambda>ps'.
       Inr (record_event (RolePermissionsReplaced occurredAt (ent_id r) (r_tenantId r))
         (r\<lparr>r_permissions := ps'\<rparr>))))"

definition hasPermission :: "'a role_scheme \<Rightarrow> permission \<Rightarrow> bool" where
  "hasPermission r p \<longleftrightarrow> p \<in> set (r_permissions r)"

section \<open>Facts\<close>

text \<open>A permission bundle: a non-empty part of the catalog, in catalog order, without repetition.\<close>

definition is_bundle :: "permission list \<Rightarrow> bool" where
  "is_bundle ps \<longleftrightarrow> ps \<noteq> [] \<and> filter (\<lambda>p. p \<in> set ps) catalog_all = ps"

definition reserved_name :: "string \<Rightarrow> bool" where
  "reserved_name n \<longleftrightarrow> n \<in> set (map systemRoleName_string systemRoleNames)"

text \<open>Every system role has its fixed bundle, and no custom role takes a system role's name.\<close>

definition role_wf :: "'a role_scheme \<Rightarrow> bool" where
  "role_wf r \<longleftrightarrow> is_bundle (r_permissions r) \<and>
     (if r_isSystem r
      then \<exists>n \<in> set systemRoleNames. r_name r = systemRoleName_string n \<and> r_permissions r = permissionsFor n
      else r_name r \<noteq> [] \<and> js_trim (r_name r) = r_name r \<and> \<not> reserved_name (r_name r))"

lemma systemRoleNames_all: "n \<in> set systemRoleNames"
  by (cases n) (simp_all add: systemRoleNames_def)

lemma systemRoleName_string_inj [simp]: "systemRoleName_string n = systemRoleName_string n' \<longleftrightarrow> n = n'"
  by (cases n; cases n') (simp_all add: systemRoleName_string_def)

lemma assertAllKnown_Inr: "assertAllKnown ps = Inr u \<longleftrightarrow> set ps \<subseteq> set catalog_all"
  by (induction ps) (auto simp: assertKnown_def isKnown_def)

lemma assertAllKnown_Inl:
  "assertAllKnown ps = Inl e \<longleftrightarrow> (\<exists>qs p rs. ps = qs @ p # rs \<and> set qs \<subseteq> set catalog_all \<and>
     p \<notin> set catalog_all \<and> e = UnknownPermissionError p)"
proof (induction ps)
  case (Cons p ps)
  show ?case
  proof (cases "isKnown p")
    case True
    then have "assertAllKnown (p # ps) = assertAllKnown ps" by (simp add: assertKnown_def)
    moreover have "(\<exists>qs q rs. p # ps = qs @ q # rs \<and> set qs \<subseteq> set catalog_all \<and> q \<notin> set catalog_all \<and>
        e = UnknownPermissionError q) \<longleftrightarrow>
      (\<exists>qs q rs. ps = qs @ q # rs \<and> set qs \<subseteq> set catalog_all \<and> q \<notin> set catalog_all \<and>
        e = UnknownPermissionError q)" (is "?L \<longleftrightarrow> ?R")
    proof
      assume ?L
      then obtain qs q rs where "p # ps = qs @ q # rs" "set qs \<subseteq> set catalog_all"
        "q \<notin> set catalog_all" "e = UnknownPermissionError q" by blast
      then show ?R using True by (cases qs) (auto simp: isKnown_def)
    next
      assume ?R
      then obtain qs q rs where "ps = qs @ q # rs" "set qs \<subseteq> set catalog_all"
        "q \<notin> set catalog_all" "e = UnknownPermissionError q" by blast
      then show ?L using True by (intro exI[of _ "p # qs"]) (auto simp: isKnown_def)
    qed
    ultimately show ?thesis using Cons by simp
  next
    case False
    then have l: "assertAllKnown (p # ps) = Inl (UnknownPermissionError p)" by (simp add: assertKnown_def)
    show ?thesis
    proof
      assume "assertAllKnown (p # ps) = Inl e"
      then show "\<exists>qs q rs. p # ps = qs @ q # rs \<and> set qs \<subseteq> set catalog_all \<and> q \<notin> set catalog_all \<and>
        e = UnknownPermissionError q"
        using False l by (intro exI[of _ "[]"] exI[of _ p] exI[of _ ps]) (simp add: isKnown_def)
    next
      assume "\<exists>qs q rs. p # ps = qs @ q # rs \<and> set qs \<subseteq> set catalog_all \<and> q \<notin> set catalog_all \<and>
        e = UnknownPermissionError q"
      then obtain qs q rs where q: "p # ps = qs @ q # rs" "set qs \<subseteq> set catalog_all" "e = UnknownPermissionError q"
        by blast
      then have "qs = []" using False by (cases qs) (auto simp: isKnown_def)
      then show "assertAllKnown (p # ps) = Inl e" using q l by simp
    qed
  qed
qed simp

lemma role_normalize_Inr:
  "role_normalize ps = Inr ps' \<longleftrightarrow> ps \<noteq> [] \<and> set ps \<subseteq> set catalog_all \<and>
     ps' = filter (\<lambda>p. p \<in> set ps) catalog_all"
  by (auto simp: role_normalize_def Let_def assertAllKnown_Inr)

lemma role_normalize_set: "role_normalize ps = Inr ps' \<Longrightarrow> set ps' = set ps"
  by (auto simp: role_normalize_Inr)

lemma role_normalize_bundle: "role_normalize ps = Inr ps' \<Longrightarrow> is_bundle ps'"
proof -
  assume a: "role_normalize ps = Inr ps'"
  then have s: "set ps' = set ps" by (rule role_normalize_set)
  have "ps \<noteq> []" using a by (simp add: role_normalize_Inr)
  then have "ps' \<noteq> []" using s by (metis set_empty)
  moreover have "filter (\<lambda>p. p \<in> set ps') catalog_all = ps'" using a s by (simp add: role_normalize_Inr)
  ultimately show ?thesis by (simp add: is_bundle_def)
qed

lemma bundle_normal: "is_bundle ps \<Longrightarrow> role_normalize ps = Inr ps"
  unfolding is_bundle_def role_normalize_Inr by (metis filter_is_subset)

lemma bundle_subset: "is_bundle ps \<Longrightarrow> set ps \<subseteq> set catalog_all"
  unfolding is_bundle_def by (metis filter_is_subset)

lemma bundle_ext: "is_bundle ps \<Longrightarrow> is_bundle qs \<Longrightarrow> set ps = set qs \<Longrightarrow> ps = qs"
  unfolding is_bundle_def by metis

lemma permissionsFor_bundle: "is_bundle (permissionsFor n)"
  by (cases n) (simp_all add: is_bundle_def catalog_all_def permission_defs)

lemma role_normalizeName_Inr:
  "role_normalizeName n = Inr m \<longleftrightarrow> js_trim n \<noteq> [] \<and> m = js_trim n \<and> \<not> reserved_name m"
  by (auto simp: role_normalizeName_def Let_def reserved_name_def)

lemma role_createSystemRole_wf: "role_wf (role_createSystemRole i t n at)"
  using permissionsFor_bundle[of n] systemRoleNames_all[of n]
  by (auto simp: role_createSystemRole_def role_recordCreated_def newRole_def record_event_def role_wf_def)

lemma role_create_Inr:
  "role_create i t n ps at = Inr r \<longleftrightarrow>
     (\<exists>ps'. js_trim n \<noteq> [] \<and> \<not> reserved_name (js_trim n) \<and> role_normalize ps = Inr ps' \<and>
       r = \<lparr>ent_id = i, agg_events = [RoleCreated at i t (js_trim n) False], r_tenantId = t,
            r_name = js_trim n, r_permissions = ps', r_isSystem = False\<rparr>)"
  by (auto simp: role_create_def role_normalizeName_Inr role_recordCreated_def newRole_def record_event_def)

lemma role_create_wf: "role_create i t n ps at = Inr r \<Longrightarrow> role_wf r"
  by (auto simp: role_create_Inr role_wf_def role_normalize_bundle)

lemma role_rename_Inr:
  "role_rename r n at = Inr r' \<longleftrightarrow> \<not> r_isSystem r \<and> js_trim n \<noteq> [] \<and> \<not> reserved_name (js_trim n) \<and>
     r' = r\<lparr>r_name := js_trim n, agg_events := agg_events r @ [RoleRenamed at (ent_id r) (r_tenantId r) (js_trim n)]\<rparr>"
  by (auto simp: role_rename_def role_assertMutable_def role_normalizeName_Inr record_event_def)

lemma role_replacePermissions_Inr:
  "role_replacePermissions r ps at = Inr r' \<longleftrightarrow> \<not> r_isSystem r \<and> (\<exists>ps'. role_normalize ps = Inr ps' \<and>
     r' = r\<lparr>r_permissions := ps', agg_events := agg_events r @ [RolePermissionsReplaced at (ent_id r) (r_tenantId r)]\<rparr>)"
  by (auto simp: role_replacePermissions_def role_assertMutable_def record_event_def)

lemma role_rename_wf: "role_wf r \<Longrightarrow> role_rename r n at = Inr r' \<Longrightarrow> role_wf r'"
  by (auto simp: role_rename_Inr role_wf_def)

lemma role_replacePermissions_wf: "role_wf r \<Longrightarrow> role_replacePermissions r ps at = Inr r' \<Longrightarrow> role_wf r'"
  by (auto simp: role_replacePermissions_Inr role_wf_def role_normalize_bundle)

lemma system_role_immutable:
  assumes "r_isSystem r"
  shows "role_rename r n at = Inl SystemRoleImmutableError"
    "role_replacePermissions r ps at = Inl SystemRoleImmutableError"
  using assms by (simp_all add: role_rename_def role_replacePermissions_def role_assertMutable_def)

lemma role_reconstitute_wf: "role_wf r \<Longrightarrow>
   role_reconstitute (ent_id r) (r_tenantId r) (r_name r) (r_permissions r) (r_isSystem r) = Inr (r'::role)
   \<Longrightarrow> r_permissions r' = r_permissions r"
  by (auto simp: role_reconstitute_def role_wf_def bundle_normal newRole_def)

lemma catalog_parses: "p \<in> set catalog_all \<Longrightarrow> permission_parse p = Some p"
  by (auto simp: catalog_all_def permission_defs permission_parse_def permission_segment_def segment_char_def
      is_lower_letter_def is_digit_def Let_def)

end
