(* ===== verification/Identity.thy ===== *)
theory Identity
  imports Authorization
begin

text \<open>
  The identity domain of packages/domain/src/identity: the global user, the tenant's API keys, the
  refresh sessions, the password-reset token and the local password, and the API-key token format
  of packages/application/src/identity/api-key-token.ts.
\<close>

section \<open>User\<close>

record user = aggregate +
  u_email :: string
  u_displayName :: string
  u_status :: accountStatus

definition user_normalizeDisplayName :: "string \<Rightarrow> error + string" where
  "user_normalizeDisplayName n = bindR (againstEmpty n InvalidUserDisplayNameError) (\<lambda>_. Inr (js_trim n))"

definition user_create :: "userId \<Rightarrow> string \<Rightarrow> string \<Rightarrow> millis \<Rightarrow> error + user" where
  "user_create i email displayName occurredAt =
     bindR (normalizeEmail email InvalidUserEmailError) (\<lambda>email'.
     bindR (user_normalizeDisplayName displayName) (\<lambda>n.
       Inr (record_event (UserCreated occurredAt i email')
         \<lparr>ent_id = i, agg_events = [], u_email = email', u_displayName = n, u_status = Active\<rparr>)))"

definition user_reconstitute :: "userId \<Rightarrow> string \<Rightarrow> string \<Rightarrow> accountStatus \<Rightarrow> user" where
  "user_reconstitute i email n s =
     \<lparr>ent_id = i, agg_events = [], u_email = email, u_displayName = n, u_status = s\<rparr>"

definition user_suspend :: "user \<Rightarrow> millis \<Rightarrow> error + user" where
  "user_suspend u occurredAt =
     bindR (throwIf (u_status u = Suspended) UserAlreadySuspendedError) (\<lambda>_.
       Inr (record_event (UserSuspended occurredAt (ent_id u)) (u\<lparr>u_status := Suspended\<rparr>)))"

definition user_activate :: "user \<Rightarrow> millis \<Rightarrow> error + user" where
  "user_activate u occurredAt =
     bindR (throwIf (u_status u = Active) UserAlreadyActiveError) (\<lambda>_.
       Inr (record_event (UserActivated occurredAt (ent_id u)) (u\<lparr>u_status := Active\<rparr>)))"

definition user_wf :: "'a user_scheme \<Rightarrow> bool" where
  "user_wf u \<longleftrightarrow> emailPattern (u_email u) \<and> js_lower (js_trim (u_email u)) = u_email u \<and> u_displayName u \<noteq> []"

lemma user_create_Inr:
  "user_create i e n at = Inr u \<longleftrightarrow> js_trim e \<noteq> [] \<and> emailPattern (js_lower (js_trim e)) \<and> js_trim n \<noteq> [] \<and>
     u = \<lparr>ent_id = i, agg_events = [UserCreated at i (js_lower (js_trim e))], u_email = js_lower (js_trim e),
          u_displayName = js_trim n, u_status = Active\<rparr>"
  by (auto simp: user_create_def user_normalizeDisplayName_def normalizeEmail_Inr record_event_def)

lemma user_create_wf: "user_create i e n at = Inr u \<Longrightarrow> user_wf u"
  by (auto simp: user_create_Inr user_wf_def js_trim_lower)

section \<open>API key\<close>

record apiKey = aggregate +
  k_tenantId :: tenantId
  k_createdByUserId :: userId
  k_name :: string
  k_prefix :: string
  k_secretHash :: string
  k_permissions :: "permission list"
  k_expiresAt :: "millis option"
  k_revokedAt :: "millis option"
  k_lastUsedAt :: "millis option"

definition managePermission :: permission where
  "managePermission = ''identity.api_keys.manage''"

definition apiKey_normalizeName :: "string \<Rightarrow> error + string" where
  "apiKey_normalizeName n = bindR (againstEmpty n InvalidApiKeyNameError) (\<lambda>_. Inr (js_trim n))"

definition apiKey_normalizePermissions :: "permission list \<Rightarrow> error + permission list" where
  "apiKey_normalizePermissions ps =
     (let unique = uniq ps in
      bindR (throwIf (length unique = 0) EmptyApiKeyPermissionsError) (\<lambda>_.
      bindR (throwIf (list_ex (\<lambda>p. p = managePermission) unique) ApiKeyCannotManageKeysError) (\<lambda>_.
        Inr unique)))"

definition apiKey_create :: "apiKeyId \<Rightarrow> tenantId \<Rightarrow> userId \<Rightarrow> string \<Rightarrow> string \<Rightarrow> string \<Rightarrow> permission list \<Rightarrow>
    millis \<Rightarrow> millis option \<Rightarrow> error + apiKey" where
  "apiKey_create i t u name pfx secretHash ps occurredAt expiresAt =
     bindR (apiKey_normalizeName name) (\<lambda>n.
     bindR (apiKey_normalizePermissions ps) (\<lambda>ps'.
       Inr (record_event (ApiKeyCreated occurredAt i t u pfx)
         \<lparr>ent_id = i, agg_events = [], k_tenantId = t, k_createdByUserId = u, k_name = n, k_prefix = pfx,
          k_secretHash = secretHash, k_permissions = ps', k_expiresAt = expiresAt, k_revokedAt = None,
          k_lastUsedAt = None\<rparr>)))"

definition apiKey_reconstitute :: "apiKeyId \<Rightarrow> tenantId \<Rightarrow> userId \<Rightarrow> string \<Rightarrow> string \<Rightarrow> string \<Rightarrow> permission list \<Rightarrow>
    millis option \<Rightarrow> millis option \<Rightarrow> millis option \<Rightarrow> apiKey" where
  "apiKey_reconstitute i t u name pfx secretHash ps expiresAt revokedAt lastUsedAt =
     \<lparr>ent_id = i, agg_events = [], k_tenantId = t, k_createdByUserId = u, k_name = name, k_prefix = pfx,
      k_secretHash = secretHash, k_permissions = ps, k_expiresAt = expiresAt, k_revokedAt = revokedAt,
      k_lastUsedAt = lastUsedAt\<rparr>"

definition apiKey_assertActive :: "apiKey \<Rightarrow> error + unit" where
  "apiKey_assertActive k = throwIf (k_revokedAt k \<noteq> None) ApiKeyAlreadyRevokedError"

definition apiKey_rename :: "apiKey \<Rightarrow> string \<Rightarrow> error + apiKey" where
  "apiKey_rename k name =
     bindR (apiKey_assertActive k) (\<lambda>_.
     bindR (apiKey_normalizeName name) (\<lambda>n. Inr (k\<lparr>k_name := n\<rparr>)))"

definition apiKey_replacePermissions :: "apiKey \<Rightarrow> permission list \<Rightarrow> millis \<Rightarrow> error + apiKey" where
  "apiKey_replacePermissions k ps occurredAt =
     bindR (apiKey_assertActive k) (\<lambda>_.
     bindR (apiKey_normalizePermissions ps) (\<lambda>ps'.
       Inr (record_event (ApiKeyPermissionsReplaced occurredAt (ent_id k) (k_tenantId k))
         (k\<lparr>k_permissions := ps'\<rparr>))))"

definition apiKey_revoke :: "apiKey \<Rightarrow> millis \<Rightarrow> error + apiKey" where
  "apiKey_revoke k at =
     bindR (apiKey_assertActive k) (\<lambda>_.
       Inr (record_event (ApiKeyRevoked at (ent_id k) (k_tenantId k)) (k\<lparr>k_revokedAt := Some at\<rparr>)))"

definition apiKey_recordLastUsed :: "apiKey \<Rightarrow> millis \<Rightarrow> apiKey" where
  "apiKey_recordLastUsed k at = k\<lparr>k_lastUsedAt := Some at\<rparr>"

definition apiKey_isUsable :: "'a apiKey_scheme \<Rightarrow> millis \<Rightarrow> bool" where
  "apiKey_isUsable k now = (if k_revokedAt k \<noteq> None then False
     else (case k_expiresAt k of None \<Rightarrow> True | Some e \<Rightarrow> now < e))"

text \<open>No key holds the permission that manages keys.\<close>

definition apiKey_wf :: "'a apiKey_scheme \<Rightarrow> bool" where
  "apiKey_wf k \<longleftrightarrow> k_permissions k \<noteq> [] \<and> distinct (k_permissions k) \<and> managePermission \<notin> set (k_permissions k)"

lemma managePermission_catalog: "managePermission = identityApiKeysManage"
  by (simp add: managePermission_def identityApiKeysManage_def)

lemma apiKey_normalizePermissions_Inr:
  "apiKey_normalizePermissions ps = Inr ps' \<longleftrightarrow> ps \<noteq> [] \<and> managePermission \<notin> set ps \<and> ps' = uniq ps"
  by (auto simp: apiKey_normalizePermissions_def Let_def list_ex_iff)

lemma apiKey_normalizeName_Inr: "apiKey_normalizeName n = Inr m \<longleftrightarrow> js_trim n \<noteq> [] \<and> m = js_trim n"
  by (auto simp: apiKey_normalizeName_def)

lemma apiKey_create_Inr:
  "apiKey_create i t u n p h ps at x = Inr k \<longleftrightarrow>
     js_trim n \<noteq> [] \<and> ps \<noteq> [] \<and> managePermission \<notin> set ps \<and>
     k = \<lparr>ent_id = i, agg_events = [ApiKeyCreated at i t u p], k_tenantId = t, k_createdByUserId = u,
          k_name = js_trim n, k_prefix = p, k_secretHash = h, k_permissions = uniq ps, k_expiresAt = x,
          k_revokedAt = None, k_lastUsedAt = None\<rparr>"
  by (auto simp: apiKey_create_def apiKey_normalizeName_Inr apiKey_normalizePermissions_Inr record_event_def)

lemma apiKey_create_wf: "apiKey_create i t u n p h ps at x = Inr k \<Longrightarrow> apiKey_wf k"
  by (auto simp: apiKey_create_Inr apiKey_wf_def)

lemma apiKey_rename_Inr:
  "apiKey_rename k n = Inr k' \<longleftrightarrow> k_revokedAt k = None \<and> js_trim n \<noteq> [] \<and> k' = k\<lparr>k_name := js_trim n\<rparr>"
  by (auto simp: apiKey_rename_def apiKey_assertActive_def apiKey_normalizeName_Inr)

lemma apiKey_replacePermissions_Inr:
  "apiKey_replacePermissions k ps at = Inr k' \<longleftrightarrow>
     k_revokedAt k = None \<and> ps \<noteq> [] \<and> managePermission \<notin> set ps \<and>
     k' = k\<lparr>k_permissions := uniq ps, agg_events := agg_events k @ [ApiKeyPermissionsReplaced at (ent_id k) (k_tenantId k)]\<rparr>"
  by (auto simp: apiKey_replacePermissions_def apiKey_assertActive_def apiKey_normalizePermissions_Inr record_event_def)

lemma apiKey_revoke_Inr:
  "apiKey_revoke k at = Inr k' \<longleftrightarrow> k_revokedAt k = None \<and>
     k' = k\<lparr>k_revokedAt := Some at, agg_events := agg_events k @ [ApiKeyRevoked at (ent_id k) (k_tenantId k)]\<rparr>"
  by (auto simp: apiKey_revoke_def apiKey_assertActive_def record_event_def)

lemma apiKey_wf_steps:
  assumes "apiKey_wf k"
  shows "apiKey_rename k n = Inr k' \<Longrightarrow> apiKey_wf k'"
    "apiKey_replacePermissions k ps at = Inr k' \<Longrightarrow> apiKey_wf k'"
    "apiKey_revoke k at = Inr k' \<Longrightarrow> apiKey_wf k'"
    "apiKey_wf (apiKey_recordLastUsed k at)"
  using assms
  by (auto simp: apiKey_rename_Inr apiKey_replacePermissions_Inr apiKey_revoke_Inr apiKey_wf_def apiKey_recordLastUsed_def)

lemma apiKey_revoked_unusable: "apiKey_revoke k at = Inr k' \<Longrightarrow> \<not> apiKey_isUsable k' now"
  by (auto simp: apiKey_revoke_Inr apiKey_isUsable_def)

lemma apiKey_usable_iff:
  "apiKey_isUsable k now \<longleftrightarrow> k_revokedAt k = None \<and> (\<forall>e. k_expiresAt k = Some e \<longrightarrow> now < e)"
  by (auto simp: apiKey_isUsable_def split: option.splits)

section \<open>Sessions, reset tokens and passwords\<close>

record refreshSession = entity +
  s_userId :: userId
  s_familyId :: familyId
  s_tokenHash :: string
  s_expiresAt :: millis
  s_revokedAt :: "millis option"

definition session_create :: "sessionId \<Rightarrow> userId \<Rightarrow> familyId \<Rightarrow> string \<Rightarrow> millis \<Rightarrow> refreshSession" where
  "session_create i u f h x =
     \<lparr>ent_id = i, s_userId = u, s_familyId = f, s_tokenHash = h, s_expiresAt = x, s_revokedAt = None\<rparr>"

definition session_reconstitute ::
    "sessionId \<Rightarrow> userId \<Rightarrow> familyId \<Rightarrow> string \<Rightarrow> millis \<Rightarrow> millis option \<Rightarrow> refreshSession" where
  "session_reconstitute i u f h x r =
     \<lparr>ent_id = i, s_userId = u, s_familyId = f, s_tokenHash = h, s_expiresAt = x, s_revokedAt = r\<rparr>"

definition session_revoke :: "refreshSession \<Rightarrow> millis \<Rightarrow> refreshSession" where
  "session_revoke s at = s\<lparr>s_revokedAt := Some at\<rparr>"

definition session_isActive :: "'a refreshSession_scheme \<Rightarrow> millis \<Rightarrow> bool" where
  "session_isActive s now \<longleftrightarrow> s_revokedAt s = None \<and> now < s_expiresAt s"

record passwordResetToken = entity +
  t_tokenHash :: string
  t_expiresAt :: millis
  t_consumedAt :: "millis option"

definition resetToken_create :: "userId \<Rightarrow> string \<Rightarrow> millis \<Rightarrow> passwordResetToken" where
  "resetToken_create u h x = \<lparr>ent_id = u, t_tokenHash = h, t_expiresAt = x, t_consumedAt = None\<rparr>"

definition resetToken_reconstitute :: "userId \<Rightarrow> string \<Rightarrow> millis \<Rightarrow> millis option \<Rightarrow> passwordResetToken" where
  "resetToken_reconstitute u h x c = \<lparr>ent_id = u, t_tokenHash = h, t_expiresAt = x, t_consumedAt = c\<rparr>"

definition resetToken_consume :: "passwordResetToken \<Rightarrow> millis \<Rightarrow> passwordResetToken" where
  "resetToken_consume t at = t\<lparr>t_consumedAt := Some at\<rparr>"

definition resetToken_isActive :: "'a passwordResetToken_scheme \<Rightarrow> millis \<Rightarrow> bool" where
  "resetToken_isActive t now \<longleftrightarrow> t_consumedAt t = None \<and> now < t_expiresAt t"

record localPassword = entity +
  p_passwordHash :: string

definition localPassword_create :: "userId \<Rightarrow> string \<Rightarrow> localPassword" where
  "localPassword_create u h = \<lparr>ent_id = u, p_passwordHash = h\<rparr>"

definition localPassword_replaceHash :: "localPassword \<Rightarrow> string \<Rightarrow> localPassword" where
  "localPassword_replaceHash p h = p\<lparr>p_passwordHash := h\<rparr>"

lemma session_revoke_inactive [simp]: "\<not> session_isActive (session_revoke s at) now"
  by (simp add: session_revoke_def session_isActive_def)

lemma resetToken_consume_inactive [simp]: "\<not> resetToken_isActive (resetToken_consume t at) now"
  by (simp add: resetToken_consume_def resetToken_isActive_def)

section \<open>The API-key token\<close>

definition wirePrefix :: string where "wirePrefix = ''bsk_''"

definition publicPrefixLength :: nat where "publicPrefixLength = 12"

definition isApiKeyToken :: "string \<Rightarrow> bool" where
  "isApiKeyToken token = js_starts_with wirePrefix token"

definition token_create :: "string \<Rightarrow> string \<Rightarrow> string" where
  "token_create publicPrefix secret = wirePrefix @ publicPrefix @ ''_'' @ secret"

definition token_displayPrefix :: "string \<Rightarrow> string" where
  "token_displayPrefix publicPrefix = wirePrefix @ publicPrefix"

text \<open>
  \<open>/^bsk_([a-z0-9]{12})_.+$/i\<close>: the letters in either case, then an underscore, then at
  least one character and no line terminator.
\<close>

definition is_alnum_i :: "char \<Rightarrow> bool" where
  "is_alnum_i c \<longleftrightarrow> is_lower_letter c \<or> is_upper_letter c \<or> is_digit c"

definition is_line_end :: "char \<Rightarrow> bool" where
  "is_line_end c = (let n = of_char c :: nat in n = 10 \<or> n = 13)"

definition token_parse :: "string \<Rightarrow> string option" where
  "token_parse token =
     (let public = take publicPrefixLength (drop 4 token);
          rest = drop (4 + publicPrefixLength) token in
      if js_lower (take 4 token) = wirePrefix \<and> length public = publicPrefixLength \<and> list_all is_alnum_i public
         \<and> (case rest of c # cs \<Rightarrow> c = CHR ''_'' \<and> cs \<noteq> [] \<and> list_all (\<lambda>x. \<not> is_line_end x) cs | [] \<Rightarrow> False)
      then Some (token_displayPrefix (js_lower public)) else None)"

definition token_compactId :: "string \<Rightarrow> string" where
  "token_compactId rawId = take publicPrefixLength (filter (\<lambda>c. c \<noteq> CHR ''-'') rawId)"

definition lower_alnum :: "char \<Rightarrow> bool" where
  "lower_alnum c \<longleftrightarrow> is_lower_letter c \<or> is_digit c"

lemma lower_alnum_fixed [simp]: "lower_alnum c \<Longrightarrow> js_lower_char c = c"
  by (auto simp: lower_alnum_def is_lower_letter_def is_digit_def js_lower_char_def Let_def)

lemma lower_alnum_i: "lower_alnum c \<Longrightarrow> is_alnum_i c"
  by (auto simp: lower_alnum_def is_alnum_i_def)

lemma js_lower_alnum: "list_all lower_alnum s \<Longrightarrow> js_lower s = s"
  by (induction s) (auto simp: js_lower_def)

lemma token_parse_create:
  assumes "length pub = publicPrefixLength" "list_all lower_alnum pub" "secret \<noteq> []"
    "list_all (\<lambda>c. \<not> is_line_end c) secret"
  shows "token_parse (token_create pub secret) = Some (token_displayPrefix pub)"
proof -
  have w: "js_lower wirePrefix = wirePrefix" by code_simp
  have l: "length wirePrefix = 4" by (simp add: wirePrefix_def)
  have a: "list_all is_alnum_i pub" using assms(2) by (auto simp: list_all_iff lower_alnum_i)
  have t: "take 4 (token_create pub secret) = wirePrefix" using l by (simp add: token_create_def)
  have d: "drop 4 (token_create pub secret) = pub @ ''_'' @ secret" using l by (simp add: token_create_def)
  have d2: "drop (4 + publicPrefixLength) (token_create pub secret) = ''_'' @ secret"
    using l assms(1) by (simp add: token_create_def)
  show ?thesis
    using assms a by (simp add: token_parse_def Let_def t d d2 w js_lower_alnum)
qed

lemma token_parse_prefix: "token_parse t = Some p \<Longrightarrow> length p = 16"
  by (auto simp: token_parse_def Let_def token_displayPrefix_def wirePrefix_def js_lower_def publicPrefixLength_def
      split: if_splits)

end
