(* ===== verification/Repositories.thy ===== *)
theory Repositories
  imports Tenancy Identity
begin

text \<open>
  The repository ports of packages/domain/src/*/ports, with the behaviour of their in-memory
  adapters (packages/application/src/testing/in-memory-*.repository.ts) on one database state of
  nine tables.  A saved aggregate is stored without its event buffer, which belongs to the use case
  that collected it; the rows are values, as a database returns them.  Each repository is an
  interpretation of the store contract of the prelude.
\<close>

record db =
  db_tenants :: "tenant list"
  db_roles :: "role list"
  db_memberships :: "membership list"
  db_invitations :: "invitation list"
  db_users :: "user list"
  db_passwords :: "localPassword list"
  db_sessions :: "refreshSession list"
  db_resetTokens :: "passwordResetToken list"
  db_apiKeys :: "apiKey list"
  db_outbox :: "domainEvent list"

definition empty_db :: db where
  "empty_db = \<lparr>db_tenants = [], db_roles = [], db_memberships = [], db_invitations = [], db_users = [],
     db_passwords = [], db_sessions = [], db_resetTokens = [], db_apiKeys = [], db_outbox = []\<rparr>"

definition as_stored :: "'a aggregate_scheme \<Rightarrow> 'a aggregate_scheme" where
  "as_stored a = a\<lparr>agg_events := []\<rparr>"

lemma as_stored_fields [simp]: "ent_id (as_stored a) = ent_id a" "agg_events (as_stored a) = []"
  by (simp_all add: as_stored_def)

lemma as_stored_tenant [simp]:
  "tenant_name (as_stored a) = tenant_name a" "tenant_status (as_stored a) = tenant_status a"
  by (simp_all add: as_stored_def)

lemma as_stored_membership [simp]:
  "m_tenantId (as_stored b) = m_tenantId b" "m_userId (as_stored b) = m_userId b"
  "m_roleIds (as_stored b) = m_roleIds b" "m_status (as_stored b) = m_status b"
  by (simp_all add: as_stored_def)

lemma as_stored_invitation [simp]:
  "i_tenantId (as_stored c) = i_tenantId c" "i_email (as_stored c) = i_email c" "i_roleIds (as_stored c) = i_roleIds c"
  "i_tokenHash (as_stored c) = i_tokenHash c" "i_expiresAt (as_stored c) = i_expiresAt c"
  "i_invitedByUserId (as_stored c) = i_invitedByUserId c" "i_consumedAt (as_stored c) = i_consumedAt c"
  by (simp_all add: as_stored_def)

lemma as_stored_role [simp]:
  "r_tenantId (as_stored r) = r_tenantId r" "r_name (as_stored r) = r_name r"
  "r_permissions (as_stored r) = r_permissions r" "r_isSystem (as_stored r) = r_isSystem r"
  by (simp_all add: as_stored_def)

lemma as_stored_user [simp]:
  "u_email (as_stored u) = u_email u" "u_displayName (as_stored u) = u_displayName u" "u_status (as_stored u) = u_status u"
  by (simp_all add: as_stored_def)

lemma as_stored_apiKey [simp]:
  "k_tenantId (as_stored k) = k_tenantId k" "k_createdByUserId (as_stored k) = k_createdByUserId k"
  "k_name (as_stored k) = k_name k" "k_prefix (as_stored k) = k_prefix k" "k_secretHash (as_stored k) = k_secretHash k"
  "k_permissions (as_stored k) = k_permissions k" "k_expiresAt (as_stored k) = k_expiresAt k"
  "k_revokedAt (as_stored k) = k_revokedAt k" "k_lastUsedAt (as_stored k) = k_lastUsedAt k"
  by (simp_all add: as_stored_def)

lemma as_stored_wf [simp]:
  "membership_wf (as_stored b) = membership_wf b" "invitation_wf (as_stored c) = invitation_wf c"
  "role_wf (as_stored r) = role_wf r" "user_wf (as_stored u) = user_wf u" "apiKey_wf (as_stored k) = apiKey_wf k"
  "tenant_wf (as_stored a) = tenant_wf a"
  by (simp_all add: membership_wf_def invitation_wf_def role_wf_def user_wf_def apiKey_wf_def tenant_wf_def)

section \<open>Tenants\<close>

definition tenants_findById :: "tenantId \<Rightarrow> db \<Rightarrow> tenant option" where
  "tenants_findById i d = lookup_row ent_id i (db_tenants d)"

definition tenants_save :: "tenant \<Rightarrow> db \<Rightarrow> db" where
  "tenants_save t d = d\<lparr>db_tenants := upsert ent_id (as_stored t) (db_tenants d)\<rparr>"

section \<open>Roles\<close>

definition roles_findById :: "roleId \<Rightarrow> db \<Rightarrow> role option" where
  "roles_findById i d = lookup_row ent_id i (db_roles d)"

definition roles_findByIds :: "roleId list \<Rightarrow> db \<Rightarrow> role list" where
  "roles_findByIds ids d = (if length ids = 0 then []
     else concat (map (\<lambda>i. case roles_findById i d of None \<Rightarrow> [] | Some r \<Rightarrow> [r]) ids))"

definition roles_findByTenant :: "tenantId \<Rightarrow> db \<Rightarrow> role list" where
  "roles_findByTenant t d = filter (\<lambda>r. r_tenantId r = t) (db_roles d)"

definition roles_save :: "role \<Rightarrow> db \<Rightarrow> db" where
  "roles_save r d = d\<lparr>db_roles := upsert ent_id (as_stored r) (db_roles d)\<rparr>"

definition roles_saveMany :: "role list \<Rightarrow> db \<Rightarrow> db" where
  "roles_saveMany rs d = foldl (\<lambda>acc r. roles_save r acc) d rs"

definition roles_delete :: "roleId \<Rightarrow> db \<Rightarrow> db" where
  "roles_delete i d = d\<lparr>db_roles := remove_row ent_id i (db_roles d)\<rparr>"

section \<open>Memberships\<close>

definition memberships_findById :: "membershipId \<Rightarrow> db \<Rightarrow> membership option" where
  "memberships_findById i d = lookup_row ent_id i (db_memberships d)"

definition memberships_findByTenant :: "tenantId \<Rightarrow> db \<Rightarrow> membership list" where
  "memberships_findByTenant t d = filter (\<lambda>m. m_tenantId m = t) (db_memberships d)"

definition memberships_findByTenantAndRole :: "tenantId \<Rightarrow> roleId \<Rightarrow> db \<Rightarrow> membership list" where
  "memberships_findByTenantAndRole t r d =
     filter (\<lambda>m. m_tenantId m = t \<and> r \<in> set (m_roleIds m)) (db_memberships d)"

definition memberships_findByUser :: "userId \<Rightarrow> db \<Rightarrow> membership list" where
  "memberships_findByUser u d = filter (\<lambda>m. m_userId m = u) (db_memberships d)"

definition memberships_findByUserAndTenant :: "userId \<Rightarrow> tenantId \<Rightarrow> db \<Rightarrow> membership option" where
  "memberships_findByUserAndTenant u t d = find (\<lambda>m. m_userId m = u \<and> m_tenantId m = t) (db_memberships d)"

definition memberships_save :: "membership \<Rightarrow> db \<Rightarrow> db" where
  "memberships_save m d = d\<lparr>db_memberships := upsert ent_id (as_stored m) (db_memberships d)\<rparr>"

section \<open>Invitations\<close>

definition invitations_findById :: "invitationId \<Rightarrow> db \<Rightarrow> invitation option" where
  "invitations_findById i d = lookup_row ent_id i (db_invitations d)"

definition invitations_findActiveByTenantAndEmail :: "tenantId \<Rightarrow> string \<Rightarrow> db \<Rightarrow> invitation option" where
  "invitations_findActiveByTenantAndEmail t email d =
     (let normalized = js_lower (js_trim email) in
      find (\<lambda>iv. i_tenantId iv = t \<and> i_email iv = normalized \<and> i_consumedAt iv = None) (db_invitations d))"

definition invitations_findByTokenHash :: "string \<Rightarrow> db \<Rightarrow> invitation option" where
  "invitations_findByTokenHash h d = find (\<lambda>iv. i_tokenHash iv = h) (db_invitations d)"

definition invitations_save :: "invitation \<Rightarrow> db \<Rightarrow> db" where
  "invitations_save iv d = d\<lparr>db_invitations := upsert ent_id (as_stored iv) (db_invitations d)\<rparr>"

text \<open>\<open>deleteStale\<close>, \<open>deleteInactive\<close> and \<open>deleteExpiredOrRevoked\<close> share this shape.\<close>

definition delete_batch :: "('r \<Rightarrow> string) \<Rightarrow> ('r \<Rightarrow> bool) \<Rightarrow> nat \<Rightarrow> 'r list \<Rightarrow> nat \<times> 'r list" where
  "delete_batch key stale limit rows =
     (let batch = take limit (filter stale rows) in
      (length batch, foldl (\<lambda>acc r. remove_row key (key r) acc) rows batch))"

definition invitations_deleteStale :: "millis \<Rightarrow> nat \<Rightarrow> db \<Rightarrow> nat \<times> db" where
  "invitations_deleteStale before limit d =
     (let (n, rows) = delete_batch ent_id (\<lambda>iv. \<not> invitation_isActive iv before) limit (db_invitations d) in
      (n, d\<lparr>db_invitations := rows\<rparr>))"

section \<open>Users, passwords, sessions and reset tokens\<close>

definition users_findById :: "userId \<Rightarrow> db \<Rightarrow> user option" where
  "users_findById i d = lookup_row ent_id i (db_users d)"

definition users_findByEmail :: "string \<Rightarrow> db \<Rightarrow> user option" where
  "users_findByEmail email d =
     (let normalized = js_lower (js_trim email) in find (\<lambda>u. u_email u = normalized) (db_users d))"

definition users_save :: "user \<Rightarrow> db \<Rightarrow> db" where
  "users_save u d = d\<lparr>db_users := upsert ent_id (as_stored u) (db_users d)\<rparr>"

definition passwords_findByUserId :: "userId \<Rightarrow> db \<Rightarrow> localPassword option" where
  "passwords_findByUserId u d = lookup_row ent_id u (db_passwords d)"

definition passwords_save :: "localPassword \<Rightarrow> db \<Rightarrow> db" where
  "passwords_save p d = d\<lparr>db_passwords := upsert ent_id p (db_passwords d)\<rparr>"

definition sessions_findById :: "sessionId \<Rightarrow> db \<Rightarrow> refreshSession option" where
  "sessions_findById i d = lookup_row ent_id i (db_sessions d)"

definition sessions_findByTokenHash :: "string \<Rightarrow> db \<Rightarrow> refreshSession option" where
  "sessions_findByTokenHash h d = find (\<lambda>s. s_tokenHash s = h) (db_sessions d)"

definition sessions_save :: "refreshSession \<Rightarrow> db \<Rightarrow> db" where
  "sessions_save s d = d\<lparr>db_sessions := upsert ent_id s (db_sessions d)\<rparr>"

definition sessions_revokeFamily :: "familyId \<Rightarrow> millis \<Rightarrow> db \<Rightarrow> db" where
  "sessions_revokeFamily f at d = d\<lparr>db_sessions :=
     map (\<lambda>s. if s_familyId s = f \<and> s_revokedAt s = None then session_revoke s at else s) (db_sessions d)\<rparr>"

definition sessions_revokeAllForUser :: "userId \<Rightarrow> millis \<Rightarrow> db \<Rightarrow> db" where
  "sessions_revokeAllForUser u at d = d\<lparr>db_sessions :=
     map (\<lambda>s. if s_userId s = u \<and> s_revokedAt s = None then session_revoke s at else s) (db_sessions d)\<rparr>"

definition sessions_deleteExpiredOrRevoked :: "millis \<Rightarrow> nat \<Rightarrow> db \<Rightarrow> nat \<times> db" where
  "sessions_deleteExpiredOrRevoked before limit d =
     (let (n, rows) = delete_batch ent_id (\<lambda>s. \<not> session_isActive s before) limit (db_sessions d) in
      (n, d\<lparr>db_sessions := rows\<rparr>))"

definition resetTokens_findByTokenHash :: "string \<Rightarrow> db \<Rightarrow> passwordResetToken option" where
  "resetTokens_findByTokenHash h d = find (\<lambda>t. t_tokenHash t = h) (db_resetTokens d)"

definition resetTokens_findByUserId :: "userId \<Rightarrow> db \<Rightarrow> passwordResetToken option" where
  "resetTokens_findByUserId u d = lookup_row ent_id u (db_resetTokens d)"

definition resetTokens_save :: "passwordResetToken \<Rightarrow> db \<Rightarrow> db" where
  "resetTokens_save t d = d\<lparr>db_resetTokens := upsert ent_id t (db_resetTokens d)\<rparr>"

definition resetTokens_deleteInactive :: "millis \<Rightarrow> nat \<Rightarrow> db \<Rightarrow> nat \<times> db" where
  "resetTokens_deleteInactive before limit d =
     (let (n, rows) = delete_batch ent_id (\<lambda>t. \<not> resetToken_isActive t before) limit (db_resetTokens d) in
      (n, d\<lparr>db_resetTokens := rows\<rparr>))"

section \<open>API keys\<close>

definition API_KEY_LAST_USED_TOUCH_MS :: int where "API_KEY_LAST_USED_TOUCH_MS = 60000"

definition apiKeys_findById :: "apiKeyId \<Rightarrow> db \<Rightarrow> apiKey option" where
  "apiKeys_findById i d = lookup_row ent_id i (db_apiKeys d)"

definition apiKeys_findByPrefix :: "string \<Rightarrow> db \<Rightarrow> apiKey option" where
  "apiKeys_findByPrefix p d = find (\<lambda>k. k_prefix k = p) (db_apiKeys d)"

definition apiKeys_findByTenant :: "tenantId \<Rightarrow> db \<Rightarrow> apiKey list" where
  "apiKeys_findByTenant t d = filter (\<lambda>k. k_tenantId k = t) (db_apiKeys d)"

definition apiKeys_save :: "apiKey \<Rightarrow> db \<Rightarrow> db" where
  "apiKeys_save k d = d\<lparr>db_apiKeys := upsert ent_id (as_stored k) (db_apiKeys d)\<rparr>"

definition apiKeys_touchLastUsed :: "apiKeyId \<Rightarrow> millis \<Rightarrow> db \<Rightarrow> db" where
  "apiKeys_touchLastUsed i at d = (case apiKeys_findById i d of
     None \<Rightarrow> d
   | Some k \<Rightarrow> if (case k_lastUsedAt k of Some l \<Rightarrow> at - l < API_KEY_LAST_USED_TOUCH_MS | None \<Rightarrow> False) then d
       else apiKeys_save (apiKey_recordLastUsed k at) d)"

section \<open>The store contract, repository by repository\<close>

interpretation tenantRepo: keyed_store "\<lambda>d. True" tenants_findById tenants_save ent_id as_stored
  apply unfold_locales
  using lookup_upsert_same[of ent_id "as_stored t" for t :: tenant]
  by (auto simp: tenants_findById_def tenants_save_def dest: lookup_row_Some)

interpretation roleRepo: deletable_store "\<lambda>d. True" roles_findById roles_save ent_id as_stored roles_delete
  apply unfold_locales
  using lookup_upsert_same[of ent_id "as_stored r" for r :: role]
  by (auto simp: roles_findById_def roles_save_def roles_delete_def dest: lookup_row_Some)

interpretation membershipRepo: keyed_store "\<lambda>d. True" memberships_findById memberships_save ent_id as_stored
  apply unfold_locales
  using lookup_upsert_same[of ent_id "as_stored m" for m :: membership]
  by (auto simp: memberships_findById_def memberships_save_def dest: lookup_row_Some)

interpretation invitationRepo: keyed_store "\<lambda>d. True" invitations_findById invitations_save ent_id as_stored
  apply unfold_locales
  using lookup_upsert_same[of ent_id "as_stored i" for i :: invitation]
  by (auto simp: invitations_findById_def invitations_save_def dest: lookup_row_Some)

interpretation userRepo: keyed_store "\<lambda>d. True" users_findById users_save ent_id as_stored
  apply unfold_locales
  using lookup_upsert_same[of ent_id "as_stored u" for u :: user]
  by (auto simp: users_findById_def users_save_def dest: lookup_row_Some)

interpretation apiKeyRepo: keyed_store "\<lambda>d. True" apiKeys_findById apiKeys_save ent_id as_stored
  apply unfold_locales
  using lookup_upsert_same[of ent_id "as_stored k" for k :: apiKey]
  by (auto simp: apiKeys_findById_def apiKeys_save_def dest: lookup_row_Some)

interpretation passwordRepo: keyed_store "\<lambda>d. True" passwords_findByUserId passwords_save ent_id "\<lambda>p. p"
  by unfold_locales (auto simp: passwords_findByUserId_def passwords_save_def dest: lookup_row_Some)

interpretation sessionRepo: keyed_store "\<lambda>d. True" sessions_findById sessions_save ent_id "\<lambda>s. s"
  by unfold_locales (auto simp: sessions_findById_def sessions_save_def dest: lookup_row_Some)

interpretation resetTokenRepo: keyed_store "\<lambda>d. True" resetTokens_findByUserId resetTokens_save ent_id "\<lambda>t. t"
  by unfold_locales (auto simp: resetTokens_findByUserId_def resetTokens_save_def dest: lookup_row_Some)

section \<open>Bounded deletes\<close>

lemma foldl_remove_row:
  "foldl (\<lambda>acc r. remove_row key (key r) acc) rows batch = filter (\<lambda>r. key r \<notin> key ` set batch) rows"
  by (induction batch arbitrary: rows) (auto simp: remove_row_def intro: filter_cong)

lemma delete_batch_count: "delete_batch key stale limit rows = (n, rows') \<Longrightarrow> n \<le> limit"
  by (auto simp: delete_batch_def Let_def)

lemma delete_batch_subset: "delete_batch key stale limit rows = (n, rows') \<Longrightarrow> set rows' \<subseteq> set rows"
  by (auto simp: delete_batch_def Let_def foldl_remove_row)

lemma delete_batch_keeps:
  assumes "delete_batch key stale limit rows = (n, rows')" "distinct (map key rows)" "r \<in> set rows" "\<not> stale r"
  shows "r \<in> set rows'"
proof -
  have "r \<notin> set (take limit (filter stale rows))" using assms(4) by (auto dest: in_set_takeD)
  moreover have "set (take limit (filter stale rows)) \<subseteq> set rows" by (auto dest: in_set_takeD)
  ultimately have "key r \<notin> key ` set (take limit (filter stale rows))"
    using assms(2,3) by (auto simp: distinct_map inj_on_def)
  then show ?thesis using assms(1,3) by (auto simp: delete_batch_def Let_def foldl_remove_row)
qed

lemma delete_batch_done:
  assumes "delete_batch key stale limit rows = (n, rows')" "n < limit"
  shows "\<forall>r \<in> set rows'. \<not> stale r"
proof -
  have "take limit (filter stale rows) = filter stale rows"
    using assms by (auto simp: delete_batch_def Let_def)
  then show ?thesis using assms by (auto simp: delete_batch_def Let_def foldl_remove_row)
qed

lemma delete_batch_distinct:
  "delete_batch key stale limit rows = (n, rows') \<Longrightarrow> distinct (map key rows) \<Longrightarrow> distinct (map key rows')"
  by (auto simp: delete_batch_def Let_def foldl_remove_row distinct_map intro: inj_on_subset)

end
