(* ===== verification/App.thy ===== *)
theory App
  imports Repositories
begin

text \<open>
  The world a use case runs in and the computations over it.  The world holds the database, the
  cache, the state of the id generator and of the password hasher's salt, the sent mail and the
  clock's reading.  \<open>uow_run\<close> is \<open>UnitOfWork.run\<close>: when the work throws, the database
  (rows and outbox) is the one before; the cache, the mail and the generators are outside the
  transaction and keep what happened.

  The ports the application only calls are the fields of \<open>env\<close>: the id generator (by its
  number of calls), the branded-id check of the zod schemas, the salted password hasher, its verifier,
  and the token digest with its comparison.  The clock does not advance within one operation.
\<close>

record env =
  genId :: "nat \<Rightarrow> string"
  isUuid :: "string \<Rightarrow> bool"
  hashPw :: "nat \<Rightarrow> string \<Rightarrow> string"
  verifyPw :: "string \<Rightarrow> string \<Rightarrow> bool"
  digest :: "string \<Rightarrow> string"
  digestMatches :: "string \<Rightarrow> string \<Rightarrow> bool"

record mail =
  mail_to :: string
  mail_subject :: string
  mail_text :: string

record cacheEntry =
  ce_value :: "permission list"
  ce_expiresAt :: millis

record world =
  w_db :: db
  w_cache :: "(string \<times> cacheEntry) list"
  w_ids :: nat
  w_salt :: nat
  w_mails :: "mail list"
  w_now :: millis

type_synonym 'a app = "world \<Rightarrow> (error + 'a) \<times> world"

section \<open>Computations\<close>

definition returnA :: "'a \<Rightarrow> 'a app" where
  "returnA x w = (Inr x, w)"

definition throwA :: "error \<Rightarrow> 'a app" where
  "throwA e w = (Inl e, w)"

definition bindA :: "'a app \<Rightarrow> ('a \<Rightarrow> 'b app) \<Rightarrow> 'b app" where
  "bindA m f w = (case m w of (Inl e, w') \<Rightarrow> (Inl e, w') | (Inr x, w') \<Rightarrow> f x w')"

definition thenA :: "'a app \<Rightarrow> 'b app \<Rightarrow> 'b app" where
  "thenA m n = bindA m (\<lambda>_. n)"

definition liftR :: "error + 'a \<Rightarrow> 'a app" where
  "liftR r w = (r, w)"

definition throwIfA :: "bool \<Rightarrow> error \<Rightarrow> unit app" where
  "throwIfA c e w = (throwIf c e, w)"

definition readDb :: "(db \<Rightarrow> 'a) \<Rightarrow> 'a app" where
  "readDb f w = (Inr (f (w_db w)), w)"

definition updDb :: "(db \<Rightarrow> db) \<Rightarrow> unit app" where
  "updDb f w = (Inr (), w\<lparr>w_db := f (w_db w)\<rparr>)"

definition stateDb :: "(db \<Rightarrow> 'a \<times> db) \<Rightarrow> 'a app" where
  "stateDb f w = (let (x, d) = f (w_db w) in (Inr x, w\<lparr>w_db := d\<rparr>))"

definition clock_now :: "millis app" where
  "clock_now w = (Inr (w_now w), w)"

definition ids_generate :: "env \<Rightarrow> string app" where
  "ids_generate env w = (Inr (genId env (w_ids w)), w\<lparr>w_ids := Suc (w_ids w)\<rparr>)"

definition parseId :: "env \<Rightarrow> string \<Rightarrow> error + string" where
  "parseId env s = (if isUuid env s then Inr s else Inl ZodError)"

definition newId :: "env \<Rightarrow> string app" where
  "newId env = bindA (ids_generate env) (\<lambda>s. liftR (parseId env s))"

definition hasher_hash :: "env \<Rightarrow> string \<Rightarrow> string app" where
  "hasher_hash env pw w = (Inr (hashPw env (w_salt w) pw), w\<lparr>w_salt := Suc (w_salt w)\<rparr>)"

definition mailer_send :: "mail \<Rightarrow> unit app" where
  "mailer_send m w = (Inr (), w\<lparr>w_mails := w_mails w @ [m]\<rparr>)"

definition events_publish :: "domainEvent list \<Rightarrow> unit app" where
  "events_publish evs = updDb (\<lambda>d. d\<lparr>db_outbox := db_outbox d @ evs\<rparr>)"

definition uow_run :: "'a app \<Rightarrow> 'a app" where
  "uow_run m w = (case m w of (Inl e, w') \<Rightarrow> (Inl e, w'\<lparr>w_db := w_db w\<rparr>) | (Inr x, w') \<Rightarrow> (Inr x, w'))"

text \<open>
  \<open>DomainEventCollector\<close>: \<open>collect\<close> appends the pulled events, \<open>publish\<close> hands
  them over in one batch when there are any.
\<close>

definition collect :: "domainEvent list \<Rightarrow> 'a aggregate_scheme list \<Rightarrow> domainEvent list" where
  "collect acc aggregates = foldl (\<lambda>evs a. evs @ fst (pullEvents a)) acc aggregates"

definition collector_publish :: "domainEvent list \<Rightarrow> unit app" where
  "collector_publish evs = (if 0 < length evs then events_publish evs else returnA ())"

section \<open>Evaluation and inversion\<close>

lemma collect_eq: "collect acc as = acc @ concat (map agg_events as)"
  by (induction as arbitrary: acc) (auto simp: collect_def pullEvents_def)

lemma collect_one [simp]: "collect acc [a] = acc @ agg_events a"
  by (simp add: collect_eq)

lemma app_eval [simp]:
  "returnA x w = (Inr x, w)"
  "throwA e w = (Inl e, w)"
  "liftR r w = (r, w)"
  "throwIfA c e w = (throwIf c e, w)"
  "readDb f w = (Inr (f (w_db w)), w)"
  "updDb g w = (Inr (), w\<lparr>w_db := g (w_db w)\<rparr>)"
  "clock_now w = (Inr (w_now w), w)"
  "ids_generate env w = (Inr (genId env (w_ids w)), w\<lparr>w_ids := Suc (w_ids w)\<rparr>)"
  "hasher_hash env pw w = (Inr (hashPw env (w_salt w) pw), w\<lparr>w_salt := Suc (w_salt w)\<rparr>)"
  "mailer_send m w = (Inr (), w\<lparr>w_mails := w_mails w @ [m]\<rparr>)"
  by (simp_all add: returnA_def throwA_def liftR_def throwIfA_def readDb_def updDb_def clock_now_def
      ids_generate_def hasher_hash_def mailer_send_def)

lemma events_publish_eval [simp]:
  "events_publish evs w = (Inr (), w\<lparr>w_db := (w_db w)\<lparr>db_outbox := db_outbox (w_db w) @ evs\<rparr>\<rparr>)"
  by (simp add: events_publish_def)

lemma collector_publish_eval [simp]:
  "collector_publish evs w = (Inr (), w\<lparr>w_db := (w_db w)\<lparr>db_outbox := db_outbox (w_db w) @ evs\<rparr>\<rparr>)"
  by (auto simp: collector_publish_def)

lemma bindA_step [simp]:
  "m w = (Inr x, w') \<Longrightarrow> bindA m f w = f x w'"
  "m w = (Inl e, w') \<Longrightarrow> bindA m f w = (Inl e, w')"
  by (simp_all add: bindA_def)

lemma bindA_Inr: "bindA m f w = (Inr y, w') \<longleftrightarrow> (\<exists>x w1. m w = (Inr x, w1) \<and> f x w1 = (Inr y, w'))"
  by (auto simp: bindA_def split: prod.splits sum.splits)

lemma bindA_Inl: "bindA m f w = (Inl e, w') \<longleftrightarrow>
    m w = (Inl e, w') \<or> (\<exists>x w1. m w = (Inr x, w1) \<and> f x w1 = (Inl e, w'))"
  by (auto simp: bindA_def split: prod.splits sum.splits)

lemma thenA_Inr: "thenA m n w = (Inr y, w') \<longleftrightarrow> (\<exists>x w1. m w = (Inr x, w1) \<and> n w1 = (Inr y, w'))"
  by (simp add: thenA_def bindA_Inr)

lemma thenA_Inl: "thenA m n w = (Inl e, w') \<longleftrightarrow>
    m w = (Inl e, w') \<or> (\<exists>x w1. m w = (Inr x, w1) \<and> n w1 = (Inl e, w'))"
  by (simp add: thenA_def bindA_Inl)

lemma thenA_step [simp]:
  "m w = (Inr x, w') \<Longrightarrow> thenA m n w = n w'"
  "m w = (Inl e, w') \<Longrightarrow> thenA m n w = (Inl e, w')"
  by (simp_all add: thenA_def)

lemma bindA_assoc: "bindA (bindA m f) g = bindA m (\<lambda>x. bindA (f x) g)"
  by (rule ext) (auto simp: bindA_def split: prod.splits sum.splits)

lemma newId_Inr [simp]:
  "newId env w = (Inr i, w') \<longleftrightarrow> isUuid env i \<and> i = genId env (w_ids w) \<and> w' = w\<lparr>w_ids := Suc (w_ids w)\<rparr>"
  by (auto simp: newId_def parseId_def)

lemma newId_Inl: "newId env w = (Inl e, w') \<longleftrightarrow>
    \<not> isUuid env (genId env (w_ids w)) \<and> e = ZodError \<and> w' = w\<lparr>w_ids := Suc (w_ids w)\<rparr>"
  by (auto simp: newId_def parseId_def)

lemma stateDb_eval: "stateDb f w = (Inr (fst (f (w_db w))), w\<lparr>w_db := snd (f (w_db w))\<rparr>)"
  by (simp add: stateDb_def split: prod.splits)

lemma uow_run_Inr: "uow_run m w = (Inr x, w') \<longleftrightarrow> m w = (Inr x, w')"
  by (auto simp: uow_run_def split: prod.splits sum.splits)

lemma uow_run_Inl_db: "uow_run m w = (Inl e, w') \<Longrightarrow> w_db w' = w_db w"
  by (auto simp: uow_run_def split: prod.splits sum.splits)

lemma uow_run_Inl: "uow_run m w = (Inl e, w') \<longleftrightarrow> (\<exists>w1. m w = (Inl e, w1) \<and> w' = w1\<lparr>w_db := w_db w\<rparr>)"
  by (auto simp: uow_run_def split: prod.splits sum.splits)

text \<open>
  Symbolic execution: a primitive in front of a continuation steps the world, and a fallible one
  adds its condition to what a success implies.
\<close>

lemma app_run:
  "bindA (returnA x) f w = f x w"
  "bindA (readDb h) f w = f (h (w_db w)) w"
  "bindA clock_now g w = g (w_now w) w"
  "bindA (ids_generate env) k w = k (genId env (w_ids w)) (w\<lparr>w_ids := Suc (w_ids w)\<rparr>)"
  "bindA (hasher_hash env pw) k w = k (hashPw env (w_salt w) pw) (w\<lparr>w_salt := Suc (w_salt w)\<rparr>)"
  "thenA (returnA u) n w = n w"
  "thenA (updDb up) n w = n (w\<lparr>w_db := up (w_db w)\<rparr>)"
  "thenA (mailer_send m) n w = n (w\<lparr>w_mails := w_mails w @ [m]\<rparr>)"
  "thenA (collector_publish evs) n w = n (w\<lparr>w_db := (w_db w)\<lparr>db_outbox := db_outbox (w_db w) @ evs\<rparr>\<rparr>)"
  "bindA (bindA m1 g1) h1 = bindA m1 (\<lambda>x. bindA (g1 x) h1)"
  "bindA (thenA m2 n2) h1 = thenA m2 (bindA n2 h1)"
  "thenA (bindA m3 g3) n3 = bindA m3 (\<lambda>x. thenA (g3 x) n3)"
  "thenA (thenA m4 n4) n3 = thenA m4 (thenA n4 n3)"
  by (simp_all add: thenA_def bindA_assoc)

lemma app_succeeds:
  "bindA (throwA e) f w = (Inr y, w') \<longleftrightarrow> False"
  "bindA (liftR r) f w = (Inr y, w') \<longleftrightarrow> (\<exists>x. r = Inr x \<and> f x w = (Inr y, w'))"
  "bindA (newId env) k w = (Inr y, w') \<longleftrightarrow> isUuid env (genId env (w_ids w)) \<and>
     k (genId env (w_ids w)) (w\<lparr>w_ids := Suc (w_ids w)\<rparr>) = (Inr y, w')"
  "thenA (throwA e) n w = (Inr y, w') \<longleftrightarrow> False"
  "thenA (liftR r') n w = (Inr y, w') \<longleftrightarrow> (\<exists>x. r' = Inr x \<and> n w = (Inr y, w'))"
  "thenA (throwIfA c e) n w = (Inr y, w') \<longleftrightarrow> \<not> c \<and> n w = (Inr y, w')"
  "uow_run m w = (Inr y, w') \<longleftrightarrow> m w = (Inr y, w')"
  by (auto simp: thenA_def bindA_Inr uow_run_Inr)

lemmas app_inv = bindA_Inr thenA_Inr uow_run_Inr

section \<open>What a computation leaves alone\<close>

text \<open>A frame: \<open>keepsDb\<close> computations never write the database.\<close>

definition keepsDb :: "'a app \<Rightarrow> bool" where
  "keepsDb m \<longleftrightarrow> (\<forall>w. w_db (snd (m w)) = w_db w)"

text \<open>A computation is atomic when throwing leaves the database as it was.\<close>

definition atomic :: "'a app \<Rightarrow> bool" where
  "atomic m \<longleftrightarrow> (\<forall>w e w'. m w = (Inl e, w') \<longrightarrow> w_db w' = w_db w)"

named_theorems frame_intros \<open>database frames of computations\<close>

lemma keepsDb_prim [frame_intros, simp]:
  "keepsDb (returnA x)" "keepsDb (throwA e)" "keepsDb (liftR r)" "keepsDb (throwIfA c e)" "keepsDb (readDb f)"
  "keepsDb clock_now" "keepsDb (ids_generate env)" "keepsDb (hasher_hash env p)" "keepsDb (mailer_send mm)"
  by (simp_all add: keepsDb_def)

lemma keepsDb_bind [frame_intros]: "keepsDb m \<Longrightarrow> (\<And>x. keepsDb (f x)) \<Longrightarrow> keepsDb (bindA m f)"
  unfolding keepsDb_def bindA_def by (auto split: prod.splits sum.splits) (metis snd_conv)+

lemma keepsDb_then [frame_intros]: "keepsDb m \<Longrightarrow> keepsDb n \<Longrightarrow> keepsDb (thenA m n)"
  unfolding thenA_def by (rule keepsDb_bind)

lemma keepsDb_eq: "keepsDb m \<Longrightarrow> m w = (r, w') \<Longrightarrow> w_db w' = w_db w"
  unfolding keepsDb_def by (metis snd_conv)

lemma atomic_uow [frame_intros]: "atomic (uow_run m)"
  by (auto simp: atomic_def dest: uow_run_Inl_db)

lemma atomic_keepsDb: "keepsDb m \<Longrightarrow> atomic m"
  by (auto simp: atomic_def dest: keepsDb_eq)

lemma atomic_bind_keeps [frame_intros]: "keepsDb m \<Longrightarrow> (\<And>x. atomic (f x)) \<Longrightarrow> atomic (bindA m f)"
  unfolding atomic_def by (auto simp: bindA_Inl dest: keepsDb_eq)

lemma atomic_then_keeps [frame_intros]: "keepsDb m \<Longrightarrow> atomic n \<Longrightarrow> atomic (thenA m n)"
  unfolding thenA_def by (rule atomic_bind_keeps)

end
