(* ===== verification/AuthorizationService.thy ===== *)
theory AuthorizationService
  imports App
begin

text \<open>
  packages/application/src/authorization/authorization.service.ts with the services it calls:
  cache-aside resolution of a principal's permissions, the permission check \<open>require\<close>, and
  the invalidations the writes perform.  The cache is the tenant-prefixed key space of
  packages/platform/src/cache/cache-key.ts over the in-memory cache adapter.

  The locale \<open>permission_gate\<close> is the part of \<open>AuthorizationPort\<close> the use cases call: a
  check that writes nothing and that answers only when the permission is among the principal's.
  The locale \<open>guarded_write\<close> is a use case behind it.
\<close>

section \<open>Cache\<close>

definition cacheKey_tenant :: "tenantId \<Rightarrow> string list \<Rightarrow> string" where
  "cacheKey_tenant t segments = join_with '':'' ([''t'', t] @ segments)"

definition cacheKey_global :: "string list \<Rightarrow> string" where
  "cacheKey_global segments = join_with '':'' ([''g''] @ segments)"

definition cache_get :: "string \<Rightarrow> permission list option app" where
  "cache_get key w = (case lookup_row fst key (w_cache w) of
     None \<Rightarrow> (Inr None, w)
   | Some (_, e) \<Rightarrow> if ce_expiresAt e \<le> w_now w
       then (Inr None, w\<lparr>w_cache := remove_row fst key (w_cache w)\<rparr>)
       else (Inr (Some (ce_value e)), w))"

definition cache_set :: "string \<Rightarrow> permission list \<Rightarrow> int \<Rightarrow> unit app" where
  "cache_set key v ttlSeconds w = (Inr (), w\<lparr>w_cache :=
     upsert fst (key, \<lparr>ce_value = v, ce_expiresAt = w_now w + ttlSeconds * 1000\<rparr>) (w_cache w)\<rparr>)"

definition cache_del :: "string \<Rightarrow> unit app" where
  "cache_del key w = (Inr (), w\<lparr>w_cache := remove_row fst key (w_cache w)\<rparr>)"

text \<open>What a \<open>get\<close> at the world's time answers.\<close>

definition cached :: "world \<Rightarrow> string \<Rightarrow> permission list option" where
  "cached w key = (case lookup_row fst key (w_cache w) of
     None \<Rightarrow> None
   | Some (_, e) \<Rightarrow> if ce_expiresAt e \<le> w_now w then None else Some (ce_value e))"

lemma cache_get_eval: "\<exists>w'. cache_get key w = (Inr (cached w key), w') \<and> w_db w' = w_db w \<and> w_now w' = w_now w \<and>
    w_ids w' = w_ids w \<and> w_salt w' = w_salt w \<and> w_mails w' = w_mails w \<and> (\<forall>k. cached w' k = cached w k)"
proof (cases "lookup_row fst key (w_cache w)")
  case None
  then show ?thesis by (auto simp: cache_get_def cached_def)
next
  case (Some p)
  obtain k0 e where p: "p = (k0, e)" by (cases p)
  show ?thesis
  proof (cases "ce_expiresAt e \<le> w_now w")
    case True
    have "cached (w\<lparr>w_cache := remove_row fst key (w_cache w)\<rparr>) k = cached w k" for k
      using True Some p by (cases "k = key") (auto simp: cached_def split: option.splits)
    then show ?thesis using True Some p by (auto simp: cache_get_def cached_def)
  next
    case False
    then show ?thesis using Some p by (auto simp: cache_get_def cached_def)
  qed
qed

lemma cached_set [simp]:
  "cached (w\<lparr>w_cache := upsert fst (key, \<lparr>ce_value = v, ce_expiresAt = x\<rparr>) (w_cache w)\<rparr>) k =
     (if k = key then (if x \<le> w_now w then None else Some v) else cached w k)"
  using lookup_upsert_same[of fst "(key, \<lparr>ce_value = v, ce_expiresAt = x\<rparr>)" "w_cache w"]
    lookup_upsert_other[of k fst "(key, \<lparr>ce_value = v, ce_expiresAt = x\<rparr>)" "w_cache w"]
  by (cases "k = key") (auto simp: cached_def split: option.splits)

lemma cached_del [simp]:
  "cached (w\<lparr>w_cache := remove_row fst key (w_cache w)\<rparr>) k = (if k = key then None else cached w k)"
  by (cases "k = key") (auto simp: cached_def split: option.splits)

lemma cached_other_fields [simp]:
  "cached (w\<lparr>w_db := d\<rparr>) k = cached w k" "cached (w\<lparr>w_ids := n\<rparr>) k = cached w k"
  "cached (w\<lparr>w_salt := n\<rparr>) k = cached w k" "cached (w\<lparr>w_mails := ms\<rparr>) k = cached w k"
  by (simp_all add: cached_def split: option.splits)

text \<open>Later, a cached answer is the same or gone.\<close>

lemma cached_later: "w_now w \<le> n \<Longrightarrow> cached (w\<lparr>w_now := n\<rparr>) k = Some v \<Longrightarrow> cached w k = Some v"
  by (auto simp: cached_def split: option.splits if_splits)

section \<open>Resolution\<close>

definition EFFECTIVE_PERMISSIONS_TTL_SECONDS :: int where
  "EFFECTIVE_PERMISSIONS_TTL_SECONDS = 60"

definition effectivePermissionsCacheKey :: "tenantId \<Rightarrow> userId \<Rightarrow> string" where
  "effectivePermissionsCacheKey t u = cacheKey_tenant t [''authorization'', ''effective-permissions'', u]"

definition apiKeyPermissionsCacheKey :: "tenantId \<Rightarrow> apiKeyId \<Rightarrow> string" where
  "apiKeyPermissionsCacheKey t k = cacheKey_tenant t [''authorization'', ''api-key-permissions'', k]"

definition roleIdsFor :: "userId \<Rightarrow> tenantId \<Rightarrow> db \<Rightarrow> roleId list" where
  "roleIdsFor u t d = (case memberships_findByUserAndTenant u t d of
     None \<Rightarrow> []
   | Some m \<Rightarrow> if m_status m \<noteq> MActive then [] else m_roleIds m)"

definition resolvePermissions :: "userId \<Rightarrow> tenantId \<Rightarrow> db \<Rightarrow> permission list" where
  "resolvePermissions u t d =
     foldl (\<lambda>acc r. if r_tenantId r \<noteq> t then acc else foldl add_unique acc (r_permissions r)) []
       (roles_findByIds (roleIdsFor u t d) d)"

definition apiKey_permissionsFor :: "apiKeyId \<Rightarrow> millis \<Rightarrow> db \<Rightarrow> permission list" where
  "apiKey_permissionsFor i now d = (case apiKeys_findById i d of
     None \<Rightarrow> []
   | Some k \<Rightarrow> if \<not> apiKey_isUsable k now then [] else k_permissions k)"

definition getEffectivePermissions :: "userId \<Rightarrow> tenantId \<Rightarrow> permission list app" where
  "getEffectivePermissions u t =
     (let key = effectivePermissionsCacheKey t u in
      bindA (cache_get key) (\<lambda>c. case c of
        Some ps \<Rightarrow> returnA ps
      | None \<Rightarrow> bindA (readDb (resolvePermissions u t)) (\<lambda>ps.
          thenA (cache_set key ps EFFECTIVE_PERMISSIONS_TTL_SECONDS) (returnA ps))))"

definition getApiKeyPermissions :: "apiKeyId \<Rightarrow> tenantId \<Rightarrow> permission list app" where
  "getApiKeyPermissions i t =
     (let key = apiKeyPermissionsCacheKey t i in
      bindA (cache_get key) (\<lambda>c. case c of
        Some ps \<Rightarrow> returnA ps
      | None \<Rightarrow> bindA clock_now (\<lambda>now. bindA (readDb (apiKey_permissionsFor i now)) (\<lambda>ps.
          thenA (cache_set key ps EFFECTIVE_PERMISSIONS_TTL_SECONDS) (returnA ps)))))"

definition getPermissions :: "tenantActor \<Rightarrow> tenantId \<Rightarrow> permission list app" where
  "getPermissions actor t = (case actor of
     userActor u \<Rightarrow> getEffectivePermissions u t
   | apiKeyActor k \<Rightarrow> getApiKeyPermissions k t)"

definition authz_require :: "tenantActor \<Rightarrow> permission \<Rightarrow> tenantId \<Rightarrow> unit app" where
  "authz_require actor p t =
     bindA (getPermissions actor t) (\<lambda>effective.
       throwIfA (p \<notin> set effective) (InsufficientPermissionError p))"

definition authz_invalidate :: "userId \<Rightarrow> tenantId \<Rightarrow> unit app" where
  "authz_invalidate u t = cache_del (effectivePermissionsCacheKey t u)"

fun forA :: "'a list \<Rightarrow> ('a \<Rightarrow> unit app) \<Rightarrow> unit app" where
  "forA [] f = returnA ()"
| "forA (x # xs) f = thenA (f x) (forA xs f)"

definition authz_invalidateHoldersOf :: "roleId \<Rightarrow> tenantId \<Rightarrow> unit app" where
  "authz_invalidateHoldersOf r t =
     bindA (readDb (memberships_findByTenantAndRole t r)) (\<lambda>ms.
       forA ms (\<lambda>m. authz_invalidate (m_userId m) t))"

definition authz_invalidateApiKey :: "apiKeyId \<Rightarrow> tenantId \<Rightarrow> unit app" where
  "authz_invalidateApiKey k t = cache_del (apiKeyPermissionsCacheKey t k)"

section \<open>What the cache answers\<close>

text \<open>
  The permissions \<open>getPermissions\<close> answers in a world: the live cache entry, else the
  resolution.
\<close>

definition answers :: "world \<Rightarrow> tenantActor \<Rightarrow> tenantId \<Rightarrow> permission list" where
  "answers w actor t = (case actor of
     userActor u \<Rightarrow> (case cached w (effectivePermissionsCacheKey t u) of Some ps \<Rightarrow> ps
       | None \<Rightarrow> resolvePermissions u t (w_db w))
   | apiKeyActor k \<Rightarrow> (case cached w (apiKeyPermissionsCacheKey t k) of Some ps \<Rightarrow> ps
       | None \<Rightarrow> apiKey_permissionsFor k (w_now w) (w_db w)))"

text \<open>Worlds that differ only in the cache.\<close>

definition same_but_cache :: "world \<Rightarrow> world \<Rightarrow> bool" where
  "same_but_cache w w' \<longleftrightarrow> w_db w' = w_db w \<and> w_now w' = w_now w \<and> w_ids w' = w_ids w \<and> w_salt w' = w_salt w \<and>
     w_mails w' = w_mails w"

lemma same_but_cache_db [dest]: "same_but_cache w w' \<Longrightarrow> w_db w' = w_db w"
  by (simp add: same_but_cache_def)

lemma getEffectivePermissions_eval:
  obtains w' where "getEffectivePermissions u t w = (Inr (answers w (userActor u) t), w')" "same_but_cache w w'"
    "\<forall>k. cached w' k = (if k = effectivePermissionsCacheKey t u then Some (answers w (userActor u) t) else cached w k)"
proof -
  let ?k = "effectivePermissionsCacheKey t u"
  obtain w1 where w1: "cache_get ?k w = (Inr (cached w ?k), w1)" "same_but_cache w w1" "\<forall>k. cached w1 k = cached w k"
    using cache_get_eval[of ?k w] by (auto simp: same_but_cache_def)
  show thesis
  proof (cases "cached w ?k")
    case None
    let ?ps = "resolvePermissions u t (w_db w)"
    let ?w2 = "w1\<lparr>w_cache := upsert fst (?k, \<lparr>ce_value = ?ps, ce_expiresAt = w_now w1 + 60 * 1000\<rparr>) (w_cache w1)\<rparr>"
    have "getEffectivePermissions u t w = (Inr ?ps, ?w2)"
      using w1 None by (auto simp: getEffectivePermissions_def Let_def cache_set_def EFFECTIVE_PERMISSIONS_TTL_SECONDS_def
          thenA_def bindA_def same_but_cache_def)
    moreover have "same_but_cache w ?w2" using w1(2) by (simp add: same_but_cache_def)
    moreover have "cached ?w2 k = (if k = ?k then Some ?ps else cached w k)" for k
      using w1(3) by simp
    moreover have "answers w (userActor u) t = ?ps" using None by (simp add: answers_def)
    ultimately show thesis using that by simp
  next
    case (Some ps)
    then have "getEffectivePermissions u t w = (Inr ps, w1)"
      using w1 by (simp add: getEffectivePermissions_def Let_def)
    moreover have "answers w (userActor u) t = ps" using Some by (simp add: answers_def)
    ultimately show thesis using that w1 Some by simp
  qed
qed

lemma getApiKeyPermissions_eval:
  obtains w' where "getApiKeyPermissions i t w = (Inr (answers w (apiKeyActor i) t), w')" "same_but_cache w w'"
    "\<forall>k. cached w' k = (if k = apiKeyPermissionsCacheKey t i then Some (answers w (apiKeyActor i) t) else cached w k)"
proof -
  let ?k = "apiKeyPermissionsCacheKey t i"
  obtain w1 where w1: "cache_get ?k w = (Inr (cached w ?k), w1)" "same_but_cache w w1" "\<forall>k. cached w1 k = cached w k"
    using cache_get_eval[of ?k w] by (auto simp: same_but_cache_def)
  show thesis
  proof (cases "cached w ?k")
    case None
    let ?ps = "apiKey_permissionsFor i (w_now w) (w_db w)"
    let ?w2 = "w1\<lparr>w_cache := upsert fst (?k, \<lparr>ce_value = ?ps, ce_expiresAt = w_now w1 + 60 * 1000\<rparr>) (w_cache w1)\<rparr>"
    have "getApiKeyPermissions i t w = (Inr ?ps, ?w2)"
      using w1 None by (auto simp: getApiKeyPermissions_def Let_def cache_set_def EFFECTIVE_PERMISSIONS_TTL_SECONDS_def
          thenA_def bindA_def same_but_cache_def)
    moreover have "same_but_cache w ?w2" using w1(2) by (simp add: same_but_cache_def)
    moreover have "cached ?w2 k = (if k = ?k then Some ?ps else cached w k)" for k
      using w1(3) by simp
    moreover have "answers w (apiKeyActor i) t = ?ps" using None by (simp add: answers_def)
    ultimately show thesis using that by simp
  next
    case (Some ps)
    then have "getApiKeyPermissions i t w = (Inr ps, w1)"
      using w1 by (simp add: getApiKeyPermissions_def Let_def)
    moreover have "answers w (apiKeyActor i) t = ps" using Some by (simp add: answers_def)
    ultimately show thesis using that w1 Some by simp
  qed
qed

text \<open>The cache key of a principal in a tenant.\<close>

definition principal_key :: "tenantActor \<Rightarrow> tenantId \<Rightarrow> string" where
  "principal_key actor t = (case actor of
     userActor u \<Rightarrow> effectivePermissionsCacheKey t u
   | apiKeyActor k \<Rightarrow> apiKeyPermissionsCacheKey t k)"

lemma getPermissions_eval:
  obtains w' where "getPermissions actor t w = (Inr (answers w actor t), w')" "same_but_cache w w'"
    "\<forall>k. cached w' k = (if k = principal_key actor t then Some (answers w actor t) else cached w k)"
proof (cases actor)
  case (userActor u)
  then show thesis
    using that getEffectivePermissions_eval[of u t w] by (simp add: getPermissions_def principal_key_def) blast
next
  case (apiKeyActor k)
  then show thesis
    using that getApiKeyPermissions_eval[of k t w] by (simp add: getPermissions_def principal_key_def) blast
qed

lemma authz_require_Inr:
  assumes "authz_require actor p t w = (Inr u, w')"
  shows "p \<in> set (answers w actor t)" "same_but_cache w w'"
    "\<forall>k. cached w' k = (if k = principal_key actor t then Some (answers w actor t) else cached w k)"
proof -
  obtain w1 where w1: "getPermissions actor t w = (Inr (answers w actor t), w1)" "same_but_cache w w1"
    "\<forall>k. cached w1 k = (if k = principal_key actor t then Some (answers w actor t) else cached w k)"
    by (rule getPermissions_eval[of actor t w])
  with assms show "p \<in> set (answers w actor t)" "same_but_cache w w'"
    "\<forall>k. cached w' k = (if k = principal_key actor t then Some (answers w actor t) else cached w k)"
    by (simp_all add: authz_require_def bindA_def)
qed

lemma authz_require_eval:
  obtains w' where
    "authz_require actor p t w = ((if p \<in> set (answers w actor t) then Inr () else Inl (InsufficientPermissionError p)), w')"
    "same_but_cache w w'"
proof -
  obtain w1 where "getPermissions actor t w = (Inr (answers w actor t), w1)" "same_but_cache w w1"
    by (rule getPermissions_eval[of actor t w])
  then show thesis using that by (auto simp: authz_require_def throwIf_def)
qed

lemma keepsDb_cache [frame_intros, simp]:
  "keepsDb (cache_get key)" "keepsDb (cache_set key v n)" "keepsDb (cache_del key)"
  by (auto simp: keepsDb_def cache_get_def cache_set_def cache_del_def split: option.splits)

lemma keepsDb_getPermissions [frame_intros, simp]:
  "keepsDb (getEffectivePermissions u t)" "keepsDb (getApiKeyPermissions i t)" "keepsDb (getPermissions actor t)"
proof -
  show "keepsDb (getEffectivePermissions u t)" unfolding keepsDb_def
    by (metis getEffectivePermissions_eval same_but_cache_db snd_conv)
  show "keepsDb (getApiKeyPermissions i t)" unfolding keepsDb_def
    by (metis getApiKeyPermissions_eval same_but_cache_db snd_conv)
  show "keepsDb (getPermissions actor t)" unfolding keepsDb_def
    by (metis getPermissions_eval same_but_cache_db snd_conv)
qed

lemma keepsDb_require [frame_intros, simp]: "keepsDb (authz_require actor p t)"
  unfolding authz_require_def by (intro frame_intros)

lemma keepsDb_invalidate [frame_intros, simp]:
  "keepsDb (authz_invalidate u t)" "keepsDb (authz_invalidateApiKey k t)"
  unfolding authz_invalidate_def authz_invalidateApiKey_def by simp_all

lemma keepsDb_for [frame_intros]: "(\<And>x. keepsDb (f x)) \<Longrightarrow> keepsDb (forA xs f)"
  by (induction xs) (auto intro: frame_intros)

lemma keepsDb_holders [frame_intros, simp]: "keepsDb (authz_invalidateHoldersOf r t)"
  unfolding authz_invalidateHoldersOf_def by (intro frame_intros)

text \<open>Invalidation clears exactly the named entries and nothing else of the world.\<close>

lemma authz_invalidate_eval:
  "authz_invalidate u t w = (Inr (), w\<lparr>w_cache := remove_row fst (effectivePermissionsCacheKey t u) (w_cache w)\<rparr>)"
  by (simp add: authz_invalidate_def cache_del_def)

lemma authz_invalidate_run:
  "thenA (authz_invalidate u t) n w = n (w\<lparr>w_cache := remove_row fst (effectivePermissionsCacheKey t u) (w_cache w)\<rparr>)"
  "thenA (authz_invalidateApiKey k t) n w = n (w\<lparr>w_cache := remove_row fst (apiKeyPermissionsCacheKey t k) (w_cache w)\<rparr>)"
  by (simp_all add: authz_invalidate_def authz_invalidateApiKey_def cache_del_def thenA_def bindA_def)

lemma forA_invalidate:
  "\<exists>w'. forA ms (\<lambda>m. authz_invalidate (m_userId m) t) w = (Inr (), w') \<and> same_but_cache w w' \<and>
    (\<forall>k. cached w' k = (if k \<in> (\<lambda>m. effectivePermissionsCacheKey t (m_userId m)) ` set ms then None else cached w k))"
proof (induction ms arbitrary: w)
  case Nil
  then show ?case by (simp add: same_but_cache_def)
next
  case (Cons m ms)
  let ?w1 = "w\<lparr>w_cache := remove_row fst (effectivePermissionsCacheKey t (m_userId m)) (w_cache w)\<rparr>"
  obtain w' where "forA ms (\<lambda>m. authz_invalidate (m_userId m) t) ?w1 = (Inr (), w')" "same_but_cache ?w1 w'"
    "\<forall>k. cached w' k = (if k \<in> (\<lambda>m. effectivePermissionsCacheKey t (m_userId m)) ` set ms then None else cached ?w1 k)"
    using Cons by blast
  then show ?case
    by (intro exI[of _ w']) (auto simp: authz_invalidate_eval[of "m_userId m"] same_but_cache_def)
qed

lemma authz_invalidateHoldersOf_eval:
  obtains w' where "authz_invalidateHoldersOf r t w = (Inr (), w')" "same_but_cache w w'"
    "\<forall>k. cached w' k = (if k \<in> (\<lambda>m. effectivePermissionsCacheKey t (m_userId m)) ` set (memberships_findByTenantAndRole t r (w_db w))
       then None else cached w k)"
proof -
  let ?ms = "memberships_findByTenantAndRole t r (w_db w)"
  obtain w' where "forA ?ms (\<lambda>m. authz_invalidate (m_userId m) t) w = (Inr (), w')" "same_but_cache w w'"
    "\<forall>k. cached w' k = (if k \<in> (\<lambda>m. effectivePermissionsCacheKey t (m_userId m)) ` set ?ms then None else cached w k)"
    using forA_invalidate[of ?ms t w] by blast
  then show thesis using that by (simp add: authz_invalidateHoldersOf_def bindA_def)
qed

section \<open>Cache keys\<close>

lemma cacheKey_tenant_inj:
  assumes "cacheKey_tenant t segs = cacheKey_tenant t' segs'"
    "CHR '':'' \<notin> set t" "CHR '':'' \<notin> set t'"
    "\<forall>s \<in> set segs. CHR '':'' \<notin> set s" "\<forall>s \<in> set segs'. CHR '':'' \<notin> set s"
  shows "t = t' \<and> segs = segs'"
proof -
  have key: "split_on (CHR '':'') (cacheKey_tenant x xs) = ''t'' # x # xs"
    if "CHR '':'' \<notin> set x" "\<forall>s \<in> set xs. CHR '':'' \<notin> set s" for x xs
  proof -
    have "\<forall>p \<in> set (''t'' # x # xs). CHR '':'' \<notin> set p" using that by simp
    then show ?thesis unfolding cacheKey_tenant_def append.simps by (intro split_join_with) blast
  qed
  have "''t'' # t # segs = ''t'' # t' # segs'"
    using key[OF assms(2,4)] key[OF assms(3,5)] assms(1) by metis
  then show ?thesis by blast
qed

text \<open>Only the tenant has to be free of colons for the keys of different tenants to differ.\<close>

lemma cacheKey_tenant_eq: "cacheKey_tenant t (s # segs) = ''t:'' @ t @ CHR '':'' # join_with '':'' (s # segs)"
  by (simp add: cacheKey_tenant_def)

lemma append_sep_inj:
  "x @ c # y = x' @ c # y' \<Longrightarrow> c \<notin> set x \<Longrightarrow> c \<notin> set x' \<Longrightarrow> x = x' \<and> y = y'"
proof (induction x arbitrary: x')
  case Nil
  then show ?case by (cases x') auto
next
  case (Cons a x)
  then show ?case by (cases x') auto
qed

lemma permission_keys_inj:
  assumes "CHR '':'' \<notin> set t" "CHR '':'' \<notin> set t'"
  shows "effectivePermissionsCacheKey t u = effectivePermissionsCacheKey t' u' \<longleftrightarrow> t = t' \<and> u = u'"
    "apiKeyPermissionsCacheKey t k = apiKeyPermissionsCacheKey t' k' \<longleftrightarrow> t = t' \<and> k = k'"
    "effectivePermissionsCacheKey t u \<noteq> apiKeyPermissionsCacheKey t' k"
  using assms
  by (auto simp: effectivePermissionsCacheKey_def apiKeyPermissionsCacheKey_def cacheKey_tenant_eq
      dest!: append_sep_inj)

section \<open>The gate the use cases stand behind\<close>

locale permission_gate =
  fixes gate :: "'p \<Rightarrow> permission \<Rightarrow> tenantId \<Rightarrow> unit app"
    and granted :: "world \<Rightarrow> 'p \<Rightarrow> tenantId \<Rightarrow> permission set"
  assumes gate_keeps: "keepsDb (gate a p t)"
    and gate_passes: "gate a p t w = (Inr u, w') \<Longrightarrow> p \<in> granted w a t"
    and gate_refuses: "p \<notin> granted w a t \<Longrightarrow> \<exists>w'. gate a p t w = (Inl (InsufficientPermissionError p), w')"
begin

lemma guarded_success: "thenA (gate a p t) m w = (Inr r, w') \<Longrightarrow> p \<in> granted w a t"
  using gate_passes by (auto simp: thenA_Inr)

lemma guarded_refused:
  assumes "p \<notin> granted w a t"
  shows "\<exists>w'. thenA (gate a p t) m w = (Inl (InsufficientPermissionError p), w') \<and> w_db w' = w_db w"
proof -
  obtain w' where w': "gate a p t w = (Inl (InsufficientPermissionError p), w')"
    using gate_refuses[OF assms] by blast
  then have "w_db w' = w_db w" using keepsDb_eq[OF gate_keeps] by blast
  then show ?thesis using w' by auto
qed

lemma guarded_refused_fst: "p \<notin> granted w a t \<Longrightarrow> fst (thenA (gate a p t) m w) = Inl (InsufficientPermissionError p)"
  and guarded_refused_db: "p \<notin> granted w a t \<Longrightarrow> w_db (snd (thenA (gate a p t) m w)) = w_db w"
  using guarded_refused[of p w a t m] by auto

lemma guarded_atomic: "atomic m \<Longrightarrow> atomic (thenA (gate a p t) m)"
  by (rule atomic_then_keeps[OF gate_keeps])

lemma guarded_transaction_atomic: "atomic (thenA (gate a p t) (uow_run m))"
  by (rule guarded_atomic[OF atomic_uow])

lemma guarded_inner:
  "thenA (gate a p t) m w = (Inr r, w') \<Longrightarrow> \<exists>w1. w_db w1 = w_db w \<and> m w1 = (Inr r, w')"
  unfolding thenA_Inr using keepsDb_eq[OF gate_keeps] by blast

end

interpretation authz: permission_gate authz_require "\<lambda>w a t. set (answers w a t)"
proof
  show "keepsDb (authz_require a p t)" for a p t by simp
  show "authz_require a p t w = (Inr u, w') \<Longrightarrow> p \<in> set (answers w a t)" for a p t w u w'
    by (rule authz_require_Inr)
  show "p \<notin> set (answers w a t) \<Longrightarrow> \<exists>w'. authz_require a p t w = (Inl (InsufficientPermissionError p), w')" for p w a t
    by (rule authz_require_eval[of a p t w]) auto
qed

section \<open>Effective permissions\<close>

lemma resolve_fold_set:
  "set (foldl (\<lambda>acc r. if r_tenantId r \<noteq> t then acc else foldl add_unique acc (r_permissions r)) acc rs) =
     set acc \<union> (\<Union>r \<in> {r \<in> set rs. r_tenantId r = t}. set (r_permissions r))"
  by (induction rs arbitrary: acc) auto

lemma roles_findByIds_set: "set (roles_findByIds ids d) = {r. \<exists>i \<in> set ids. roles_findById i d = Some r}"
  by (auto simp: roles_findByIds_def split: option.splits)

lemma resolvePermissions_set:
  "set (resolvePermissions u t d) =
     {p. \<exists>m i r. memberships_findByUserAndTenant u t d = Some m \<and> m_status m = MActive \<and> i \<in> set (m_roleIds m) \<and>
        roles_findById i d = Some r \<and> r_tenantId r = t \<and> p \<in> set (r_permissions r)}"
proof (cases "memberships_findByUserAndTenant u t d")
  case (Some m)
  show ?thesis
    unfolding resolvePermissions_def resolve_fold_set roles_findByIds_set roleIdsFor_def using Some by auto
qed (simp add: resolvePermissions_def resolve_fold_set roleIdsFor_def roles_findByIds_def)

lemma resolve_fold_distinct:
  "distinct acc \<Longrightarrow>
   distinct (foldl (\<lambda>acc r. if r_tenantId r \<noteq> t then acc else foldl add_unique acc (r_permissions r)) acc rs)"
  by (induction rs arbitrary: acc) (auto simp: foldl_add_unique_distinct)

lemma resolvePermissions_distinct: "distinct (resolvePermissions u t d)"
  unfolding resolvePermissions_def by (rule resolve_fold_distinct) simp

text \<open>Every live cache entry of a user agrees with the resolution from the tables.\<close>

definition user_cache_coherent :: "world \<Rightarrow> bool" where
  "user_cache_coherent w \<longleftrightarrow> (\<forall>t u ps. CHR '':'' \<notin> set t \<longrightarrow> cached w (effectivePermissionsCacheKey t u) = Some ps \<longrightarrow>
     ps = resolvePermissions u t (w_db w))"

lemma coherent_answers:
  "user_cache_coherent w \<Longrightarrow> CHR '':'' \<notin> set t \<Longrightarrow> answers w (userActor u) t = resolvePermissions u t (w_db w)"
  by (auto simp: user_cache_coherent_def answers_def split: option.splits)

lemma coherentI_shrink:
  assumes "user_cache_coherent w"
    "\<And>t u ps. CHR '':'' \<notin> set t \<Longrightarrow> cached w' (effectivePermissionsCacheKey t u) = Some ps \<Longrightarrow>
       cached w (effectivePermissionsCacheKey t u) = Some ps \<and>
       resolvePermissions u t (w_db w') = resolvePermissions u t (w_db w)"
  shows "user_cache_coherent w'"
  using assms unfolding user_cache_coherent_def by metis

lemma coherent_later:
  "user_cache_coherent w \<Longrightarrow> w_now w \<le> n \<Longrightarrow> user_cache_coherent (w\<lparr>w_now := n\<rparr>)"
  by (erule coherentI_shrink) (auto dest: cached_later)

end
