(* ===== verification/RoleUseCases.thy ===== *)
theory RoleUseCases
  imports AuthorizationService
begin

text \<open>
  The role use cases of packages/application/src/authorization: create, update, delete and list a
  tenant's custom roles.  Each definition is the \<open>execute\<close> method of its class; the lemma
  \<open><use case>_Inr\<close> inverts a successful run into the facts the code checked and the write
  it made.
\<close>

record roleView =
  rv_roleId :: roleId
  rv_name :: string
  rv_permissions :: "permission list"
  rv_isSystem :: bool

definition roleView_of :: "role \<Rightarrow> roleView" where
  "roleView_of r = \<lparr>rv_roleId = ent_id r, rv_name = r_name r, rv_permissions = r_permissions r,
     rv_isSystem = r_isSystem r\<rparr>"

definition createCustomRole :: "env \<Rightarrow> tenantActor \<Rightarrow> tenantId \<Rightarrow> string \<Rightarrow> permission list \<Rightarrow> roleView app" where
  "createCustomRole env actor t cmdName permissions =
     thenA (authz_require actor authorizationRolesManage t) (uow_run (
       let name = js_trim cmdName in
       bindA (readDb (roles_findByTenant t)) (\<lambda>existing.
       thenA (throwIfA (list_ex (\<lambda>r. r_name r = name) existing) RoleNameTakenError) (
       bindA (newId env) (\<lambda>i.
       bindA clock_now (\<lambda>now.
       bindA (liftR (role_create i t name permissions now)) (\<lambda>role.
       thenA (updDb (roles_save role)) (
       thenA (collector_publish (collect [] [role])) (
       returnA (roleView_of role))))))))))"

text \<open>\<open>OwnerRole.find\<close>, \<open>assertAssignable\<close> and \<open>countActive\<close> of tenancy/owner-role.ts.\<close>

definition OwnerRole_find :: "tenantId \<Rightarrow> db \<Rightarrow> role option" where
  "OwnerRole_find t d = find (\<lambda>r. r_isSystem r \<and> r_name r = ''Owner'') (roles_findByTenant t d)"

fun assertAssignable_loop :: "role option \<Rightarrow> tenantId \<Rightarrow> (roleId \<Rightarrow> role option) \<Rightarrow> roleId list \<Rightarrow> error + unit" where
  "assertAssignable_loop owner t found [] = Inr ()"
| "assertAssignable_loop owner t found (i # is) =
     (if owner \<noteq> None \<and> i = ent_id (the owner) then Inl CannotAssignOwnerRoleError
      else case found i of
        None \<Rightarrow> Inl RoleNotFoundError
      | Some r \<Rightarrow> if r_tenantId r \<noteq> t then Inl RoleNotFoundError else assertAssignable_loop owner t found is)"

definition OwnerRole_assertAssignable :: "tenantId \<Rightarrow> roleId list \<Rightarrow> db \<Rightarrow> error + unit" where
  "OwnerRole_assertAssignable t roleIds d =
     assertAssignable_loop (OwnerRole_find t d) t
       (map_of (rev (map (\<lambda>r. (ent_id r, r)) (roles_findByIds roleIds d)))) roleIds"

definition OwnerRole_countActive :: "membership list \<Rightarrow> roleId \<Rightarrow> nat" where
  "OwnerRole_countActive ms ownerRoleId =
     length (filter (\<lambda>m. m_status m = MActive \<and> ownerRoleId \<in> set (m_roleIds m)) ms)"

definition updateCustomRole :: "env \<Rightarrow> tenantActor \<Rightarrow> tenantId \<Rightarrow> roleId \<Rightarrow> string option \<Rightarrow> permission list option \<Rightarrow> roleView app" where
  "updateCustomRole env actor t i cmdName cmdPermissions =
     thenA (authz_require actor authorizationRolesManage t) (uow_run (
       bindA (readDb (roles_findById i)) (\<lambda>found. case found of
         None \<Rightarrow> throwA RoleNotFoundError
       | Some role0 \<Rightarrow>
         thenA (throwIfA (r_tenantId role0 \<noteq> t) RoleNotFoundError) (
         bindA clock_now (\<lambda>now.
         bindA (case cmdName of
             None \<Rightarrow> returnA role0
           | Some n \<Rightarrow>
             let name = js_trim n in
             bindA (readDb (roles_findByTenant t)) (\<lambda>existing.
             thenA (throwIfA (list_ex (\<lambda>item. ent_id item \<noteq> ent_id role0 \<and> r_name item = name) existing) RoleNameTakenError) (
             liftR (role_rename role0 name now)))) (\<lambda>role1.
         bindA (case cmdPermissions of
             None \<Rightarrow> returnA role1
           | Some ps \<Rightarrow> liftR (role_replacePermissions role1 ps now)) (\<lambda>role.
         thenA (updDb (roles_save role)) (
         thenA (collector_publish (collect [] [role])) (
         thenA (authz_invalidateHoldersOf (ent_id role) t) (
         returnA (roleView_of role)))))))))))"

definition deleteCustomRole :: "tenantActor \<Rightarrow> tenantId \<Rightarrow> roleId \<Rightarrow> unit app" where
  "deleteCustomRole actor t i =
     thenA (authz_require actor authorizationRolesManage t) (uow_run (
       bindA (readDb (roles_findById i)) (\<lambda>found. case found of
         None \<Rightarrow> throwA RoleNotFoundError
       | Some role \<Rightarrow>
         thenA (throwIfA (r_tenantId role \<noteq> t) RoleNotFoundError) (
         thenA (throwIfA (r_isSystem role) SystemRoleImmutableError) (
         bindA (readDb (memberships_findByTenantAndRole t (ent_id role))) (\<lambda>holders.
         thenA (throwIfA (0 < length holders) RoleInUseError) (
         thenA (updDb (roles_delete (ent_id role))) (
         authz_invalidateHoldersOf (ent_id role) t))))))))"

definition listRoles :: "tenantActor \<Rightarrow> tenantId \<Rightarrow> roleView list app" where
  "listRoles actor t =
     thenA (authz_require actor authorizationRolesRead t) (
       bindA (readDb (roles_findByTenant t)) (\<lambda>rs. returnA (map roleView_of rs)))"

section \<open>Inversion\<close>

lemma createCustomRole_Inr:
  assumes "createCustomRole env actor t n ps w = (Inr v, w')"
  obtains w1 i role where
    "authz_require actor authorizationRolesManage t w = (Inr (), w1)" "same_but_cache w w1"
    "\<forall>r \<in> set (roles_findByTenant t (w_db w)). r_name r \<noteq> js_trim n"
    "i = genId env (w_ids w)" "isUuid env i"
    "role_create i t (js_trim n) ps (w_now w) = Inr role" "v = roleView_of role"
    "w' = w1\<lparr>w_ids := Suc (w_ids w),
             w_db := (roles_save role (w_db w))\<lparr>db_outbox := db_outbox (w_db w) @ agg_events role\<rparr>\<rparr>"
proof -
  obtain w1 where w1: "authz_require actor authorizationRolesManage t w = (Inr (), w1)"
    using assms by (auto simp: createCustomRole_def app_inv)
  have s: "same_but_cache w w1" by (rule authz_require_Inr(2)[OF w1])
  obtain role where "role_create (genId env (w_ids w)) t (js_trim n) ps (w_now w) = Inr role" "v = roleView_of role"
    "isUuid env (genId env (w_ids w))" "\<forall>r \<in> set (roles_findByTenant t (w_db w)). r_name r \<noteq> js_trim n"
    "w' = w1\<lparr>w_ids := Suc (w_ids w),
             w_db := (roles_save role (w_db w))\<lparr>db_outbox := db_outbox (w_db w) @ agg_events role\<rparr>\<rparr>"
    using assms w1 s
    by (auto simp: createCustomRole_def app_inv Let_def same_but_cache_def list_ex_iff roles_save_def)
  then show thesis using that w1 s by blast
qed

lemma updateCustomRole_Inr:
  assumes "updateCustomRole env actor t i nm ps w = (Inr v, w')"
  obtains w1 w2 role0 role1 role where
    "authz_require actor authorizationRolesManage t w = (Inr (), w1)" "same_but_cache w w1"
    "roles_findById i (w_db w) = Some role0" "r_tenantId role0 = t"
    "case nm of None \<Rightarrow> role1 = role0
     | Some n \<Rightarrow> (\<forall>r \<in> set (roles_findByTenant t (w_db w)). ent_id r \<noteq> ent_id role0 \<longrightarrow> r_name r \<noteq> js_trim n) \<and>
         role_rename role0 (js_trim n) (w_now w) = Inr role1"
    "case ps of None \<Rightarrow> role = role1 | Some p \<Rightarrow> role_replacePermissions role1 p (w_now w) = Inr role"
    "v = roleView_of role"
    "w2 = w1\<lparr>w_db := (roles_save role (w_db w))\<lparr>db_outbox := db_outbox (w_db w) @ agg_events role\<rparr>\<rparr>"
    "authz_invalidateHoldersOf (ent_id role) t w2 = (Inr (), w')"
proof -
  obtain w1 where w1: "authz_require actor authorizationRolesManage t w = (Inr (), w1)"
    using assms by (auto simp: updateCustomRole_def app_inv)
  have s: "same_but_cache w w1" by (rule authz_require_Inr(2)[OF w1])
  obtain role0 where r0: "roles_findById i (w_db w) = Some role0" "r_tenantId role0 = t"
    using assms w1 s by (auto simp: updateCustomRole_def app_inv same_but_cache_def split: option.splits)
  obtain role1 where r1: "case nm of None \<Rightarrow> role1 = role0
     | Some n \<Rightarrow> (\<forall>r \<in> set (roles_findByTenant t (w_db w)). ent_id r \<noteq> ent_id role0 \<longrightarrow> r_name r \<noteq> js_trim n) \<and>
         role_rename role0 (js_trim n) (w_now w) = Inr role1"
    and rest: "bindA (case ps of None \<Rightarrow> returnA role1 | Some p \<Rightarrow> liftR (role_replacePermissions role1 p (w_now w)))
       (\<lambda>role. thenA (updDb (roles_save role)) (thenA (collector_publish (collect [] [role])) (
         thenA (authz_invalidateHoldersOf (ent_id role) t) (returnA (roleView_of role))))) w1 = (Inr v, w')"
    using assms w1 s r0
    by (cases nm) (auto simp: updateCustomRole_def uow_run_Inr bindA_Inr[of "readDb f" for f] bindA_Inr[of "clock_now"]
        bindA_Inr[of "returnA x" for x] bindA_Inr[of "bindA m f" for m f] thenA_Inr[of "throwIfA c e" for c e]
        bindA_Inr[of "liftR r" for r]
        thenA_Inr[of "authz_require a p t" for a p t] Let_def same_but_cache_def list_ex_iff)
  obtain role where role: "case ps of None \<Rightarrow> role = role1 | Some p \<Rightarrow> role_replacePermissions role1 p (w_now w) = Inr role"
    "v = roleView_of role"
    "authz_invalidateHoldersOf (ent_id role) t
       (w1\<lparr>w_db := (roles_save role (w_db w))\<lparr>db_outbox := db_outbox (w_db w) @ agg_events role\<rparr>\<rparr>) = (Inr (), w')"
    using rest s by (cases ps) (auto simp: app_inv same_but_cache_def roles_save_def)
  show thesis using that[OF w1 s r0 r1 role(1,2) refl role(3)] .
qed

lemma deleteCustomRole_Inr:
  assumes "deleteCustomRole actor t i w = (Inr u, w')"
  obtains w1 role where
    "authz_require actor authorizationRolesManage t w = (Inr (), w1)" "same_but_cache w w1"
    "roles_findById i (w_db w) = Some role" "r_tenantId role = t" "\<not> r_isSystem role" "ent_id role = i"
    "memberships_findByTenantAndRole t i (w_db w) = []"
    "w' = w1\<lparr>w_db := roles_delete i (w_db w)\<rparr>"
proof -
  obtain w1 where w1: "authz_require actor authorizationRolesManage t w = (Inr (), w1)"
    using assms by (auto simp: deleteCustomRole_def app_inv)
  have s: "same_but_cache w w1" by (rule authz_require_Inr(2)[OF w1])
  obtain role where r: "roles_findById i (w_db w) = Some role" "r_tenantId role = t" "\<not> r_isSystem role"
    "memberships_findByTenantAndRole t (ent_id role) (w_db w) = []"
    and inval: "authz_invalidateHoldersOf (ent_id role) t (w1\<lparr>w_db := roles_delete (ent_id role) (w_db w)\<rparr>) = (Inr u, w')"
    using assms w1 s by (auto simp: deleteCustomRole_def app_inv same_but_cache_def split: option.splits)
  have id: "ent_id role = i" using r(1) by (auto simp: roles_findById_def dest: lookup_row_Some)
  have "memberships_findByTenantAndRole t i (roles_delete i d) = memberships_findByTenantAndRole t i d" for d
    by (simp add: memberships_findByTenantAndRole_def roles_delete_def)
  then have "w' = w1\<lparr>w_db := roles_delete i (w_db w)\<rparr>"
    using inval r(4) unfolding id by (simp add: authz_invalidateHoldersOf_def bindA_def)
  then show thesis using that w1 s r id by metis
qed

section \<open>The owner role\<close>

lemma OwnerRole_find_Some:
  "OwnerRole_find t d = Some r \<Longrightarrow> r \<in> set (db_roles d) \<and> r_tenantId r = t \<and> r_isSystem r \<and> r_name r = ''Owner''"
  by (auto simp: OwnerRole_find_def roles_findByTenant_def dest!: find_cong_key)

lemma assertAssignable_loop_Inr:
  "assertAssignable_loop owner t found ids = Inr u \<longleftrightarrow>
     (\<forall>i \<in> set ids. (\<forall>r. owner = Some r \<longrightarrow> i \<noteq> ent_id r) \<and> (\<exists>r. found i = Some r \<and> r_tenantId r = t))"
  by (induction ids) (auto split: option.splits)

lemma found_map_Some:
  assumes "map_of (rev (map (\<lambda>r. (ent_id r, r)) (roles_findByIds ids d))) i = Some r"
  shows "roles_findById i d = Some r"
proof -
  obtain j where "roles_findById j d = Some r" "ent_id r = i"
    using map_of_SomeD[OF assms] by (auto simp: roles_findByIds_set)
  then show ?thesis using roleRepo.find_id_key by blast
qed

lemma assertAssignable_Inr:
  assumes "OwnerRole_assertAssignable t ids d = Inr u" "i \<in> set ids"
  shows "\<exists>r. roles_findById i d = Some r \<and> r_tenantId r = t" "OwnerRole_find t d = Some r \<Longrightarrow> i \<noteq> ent_id r"
  using assms found_map_Some[of ids d i]
  by (fastforce simp: OwnerRole_assertAssignable_def assertAssignable_loop_Inr)+

end
