(* ===== verification/TenancyUseCases.thy ===== *)
theory TenancyUseCases
  imports RoleUseCases
begin

text \<open>
  The tenancy use cases of packages/application/src/tenancy: creating a tenant, attaching,
  inviting and accepting members, replacing a member's roles, the queries and the purge of stale
  invitations.  Each definition is the \<open>execute\<close> method of its class.
\<close>

definition INVITATION_TTL_MS :: int where "INVITATION_TTL_MS = 7 * 24 * 60 * 60 * 1000"
definition PURGE_BATCH_SIZE :: nat where "PURGE_BATCH_SIZE = 500"
definition MIN_PASSWORD_LENGTH :: nat where "MIN_PASSWORD_LENGTH = 8"

section \<open>Creating a tenant\<close>

record createTenantResult =
  ct_tenantId :: tenantId
  ct_ownerMembershipId :: membershipId
  ct_owner :: roleId
  ct_admin :: roleId
  ct_member :: roleId

fun seedRoles :: "env \<Rightarrow> tenantId \<Rightarrow> millis \<Rightarrow> systemRoleName list \<Rightarrow> role list app" where
  "seedRoles env t at [] = returnA []"
| "seedRoles env t at (n # ns) =
     bindA (newId env) (\<lambda>i. bindA (seedRoles env t at ns) (\<lambda>rs. returnA (role_createSystemRole i t n at # rs)))"

definition createTenant :: "env \<Rightarrow> string \<Rightarrow> userId \<Rightarrow> createTenantResult app" where
  "createTenant env name ownerUserId = uow_run (
     bindA (readDb (users_findById ownerUserId)) (\<lambda>owner.
     thenA (throwIfA (owner = None) OwnerUserNotFoundError) (
     bindA clock_now (\<lambda>occurredAt.
     bindA (newId env) (\<lambda>tid.
     bindA (liftR (tenant_create tid name occurredAt)) (\<lambda>tenant.
     thenA (updDb (tenants_save tenant)) (
     let evs1 = collect [] [tenant] in
     bindA (seedRoles env (ent_id tenant) occurredAt systemRoleNames) (\<lambda>seededRoles.
     thenA (updDb (roles_saveMany seededRoles)) (
     let evs2 = collect evs1 seededRoles;
         ownerRole = find (\<lambda>r. r_name r = ''Owner'') seededRoles;
         adminRole = find (\<lambda>r. r_name r = ''Admin'') seededRoles;
         memberRole = find (\<lambda>r. r_name r = ''Member'') seededRoles in
     thenA (throwIfA (ownerRole = None \<or> adminRole = None \<or> memberRole = None)
       (PlainError ''CreateTenant must seed Owner, Admin, and Member'')) (
     bindA (newId env) (\<lambda>mid.
     let membership = membership_createOwner mid (ent_id tenant) ownerUserId (ent_id (the ownerRole)) occurredAt in
     thenA (updDb (memberships_save membership)) (
     thenA (collector_publish (collect evs2 [membership])) (
     returnA \<lparr>ct_tenantId = ent_id tenant, ct_ownerMembershipId = ent_id membership,
       ct_owner = ent_id (the ownerRole), ct_admin = ent_id (the adminRole), ct_member = ent_id (the memberRole)\<rparr>)))))))))))))"

section \<open>Members\<close>

definition attachMember :: "env \<Rightarrow> tenantActor \<Rightarrow> tenantId \<Rightarrow> userId \<Rightarrow> roleId list \<Rightarrow> membershipId app" where
  "attachMember env actor t u roleIds =
     thenA (authz_require actor tenancyMembersManage t) (uow_run (
       bindA (readDb (users_findById u)) (\<lambda>user.
       thenA (throwIfA (user = None) UserNotFoundError) (
       bindA (readDb (memberships_findByUserAndTenant u t)) (\<lambda>existing.
       thenA (throwIfA (existing \<noteq> None) MembershipAlreadyExistsError) (
       bindA (readDb (OwnerRole_assertAssignable t roleIds)) (\<lambda>ok.
       thenA (liftR ok) (
       bindA (newId env) (\<lambda>i.
       bindA clock_now (\<lambda>now.
       bindA (liftR (membership_create i t u roleIds now)) (\<lambda>membership.
       thenA (updDb (memberships_save membership)) (
       thenA (collector_publish (collect [] [membership])) (
       thenA (authz_invalidate u t) (
       returnA (ent_id membership)))))))))))))))"

definition replaceMembershipRoles :: "tenantActor \<Rightarrow> tenantId \<Rightarrow> membershipId \<Rightarrow> roleId list \<Rightarrow> (membershipId \<times> roleId list) app" where
  "replaceMembershipRoles actor t i roleIds =
     thenA (authz_require actor tenancyMembersManage t) (uow_run (
       bindA (readDb (memberships_findById i)) (\<lambda>found. case found of
         None \<Rightarrow> throwA MembershipNotFoundError
       | Some membership0 \<Rightarrow>
         thenA (throwIfA (m_tenantId membership0 \<noteq> t) MembershipNotFoundError) (
         bindA (readDb (OwnerRole_assertAssignable t roleIds)) (\<lambda>ok.
         thenA (liftR ok) (
         bindA (readDb (OwnerRole_find t)) (\<lambda>ownerRole.
         bindA (readDb (memberships_findByTenant t)) (\<lambda>tenantMemberships.
         thenA (throwIfA (case ownerRole of
             None \<Rightarrow> False
           | Some r \<Rightarrow> ent_id r \<in> set (m_roleIds membership0) \<and>
               OwnerRole_countActive (filter (\<lambda>item. ent_id item \<noteq> ent_id membership0) tenantMemberships) (ent_id r) = 0)
           LastOwnerRequiredError) (
         bindA clock_now (\<lambda>now.
         bindA (liftR (membership_replaceRoleIds membership0 roleIds now)) (\<lambda>membership.
         thenA (updDb (memberships_save membership)) (
         thenA (collector_publish (collect [] [membership])) (
         thenA (authz_invalidate (m_userId membership) t) (
         returnA (ent_id membership, m_roleIds membership)))))))))))))))"

section \<open>Invitations\<close>

definition invitedByUserId :: "tenantActor \<Rightarrow> userId app" where
  "invitedByUserId actor = (case actor of
     userActor u \<Rightarrow> returnA u
   | apiKeyActor k \<Rightarrow> bindA (readDb (apiKeys_findById k)) (\<lambda>found. case found of
       None \<Rightarrow> throwA (InsufficientPermissionError tenancyMembersInvite)
     | Some key \<Rightarrow> returnA (k_createdByUserId key)))"

definition inviteMember :: "env \<Rightarrow> tenantActor \<Rightarrow> tenantId \<Rightarrow> string \<Rightarrow> roleId list \<Rightarrow> invitationId app" where
  "inviteMember env actor t cmdEmail roleIds =
     thenA (authz_require actor tenancyMembersInvite t) (uow_run (
       let email = js_lower (js_trim cmdEmail) in
       bindA clock_now (\<lambda>now.
       bindA (readDb (OwnerRole_assertAssignable t roleIds)) (\<lambda>ok.
       thenA (liftR ok) (
       bindA (readDb (users_findByEmail email)) (\<lambda>existingUser.
       thenA (case existingUser of
           None \<Rightarrow> returnA ()
         | Some user \<Rightarrow> bindA (readDb (memberships_findByUserAndTenant (ent_id user) t)) (\<lambda>membership.
             throwIfA (membership \<noteq> None) MembershipAlreadyExistsError)) (
       bindA (readDb (invitations_findActiveByTenantAndEmail t email)) (\<lambda>pending.
       thenA (throwIfA (case pending of None \<Rightarrow> False | Some p \<Rightarrow> invitation_isActive p now) InvitationAlreadyPendingError) (
       thenA (case pending of
           None \<Rightarrow> returnA ()
         | Some p \<Rightarrow> bindA (liftR (invitation_supersede p now)) (\<lambda>p'. updDb (invitations_save p'))) (
       bindA (ids_generate env) (\<lambda>rawToken.
       bindA (newId env) (\<lambda>i.
       bindA (invitedByUserId actor) (\<lambda>inviter.
       bindA (liftR (invitation_create i t email roleIds (digest env rawToken) (now + INVITATION_TTL_MS) inviter now)) (\<lambda>invitation.
       thenA (updDb (invitations_save invitation)) (
       thenA (collector_publish (collect [] [invitation])) (
       thenA (mailer_send \<lparr>mail_to = email, mail_subject = ''Tenant invitation'',
           mail_text = ''invitation token: '' @ rawToken\<rparr>) (
       returnA (ent_id invitation))))))))))))))))))"

record acceptResult =
  ac_userId :: userId
  ac_membershipId :: membershipId
  ac_tenantId :: tenantId

definition acceptInvitation :: "env \<Rightarrow> string \<Rightarrow> string option \<Rightarrow> string option \<Rightarrow> acceptResult app" where
  "acceptInvitation env token displayName password = uow_run (
     bindA clock_now (\<lambda>now.
     bindA (readDb (invitations_findByTokenHash (digest env token))) (\<lambda>found. case found of
       None \<Rightarrow> throwA InvalidInvitationTokenError
     | Some invitation0 \<Rightarrow>
       thenA (throwIfA (\<not> invitation_isActive invitation0 now) InvalidInvitationTokenError) (
       bindA (readDb (users_findByEmail (i_email invitation0))) (\<lambda>existingUser.
       bindA (case existingUser of
           Some u \<Rightarrow> returnA (u, [])
         | None \<Rightarrow>
           (case (displayName, password) of
             (Some dn, Some pw) \<Rightarrow>
               thenA (throwIfA (length pw < MIN_PASSWORD_LENGTH) InvalidPasswordError) (
               bindA (newId env) (\<lambda>ui.
               bindA (liftR (user_create ui (i_email invitation0) dn now)) (\<lambda>u.
               thenA (updDb (users_save u)) (
               bindA (hasher_hash env pw) (\<lambda>h.
               thenA (updDb (passwords_save (localPassword_create (ent_id u) h))) (
               returnA (u, collect [] [u])))))))
           | _ \<Rightarrow> throwA InvitationRegistrationRequiredError)) (\<lambda>(user, evs).
       bindA (readDb (memberships_findByUserAndTenant (ent_id user) (i_tenantId invitation0))) (\<lambda>existing.
       thenA (throwIfA (existing \<noteq> None) MembershipAlreadyExistsError) (
       bindA (newId env) (\<lambda>mid.
       bindA (liftR (membership_create mid (i_tenantId invitation0) (ent_id user) (i_roleIds invitation0) now)) (\<lambda>membership.
       bindA (liftR (invitation_consume invitation0 now)) (\<lambda>invitation.
       thenA (updDb (memberships_save membership)) (
       thenA (updDb (invitations_save invitation)) (
       thenA (collector_publish (collect (collect evs [membership]) [invitation])) (
       thenA (authz_invalidate (ent_id user) (i_tenantId invitation)) (
       returnA \<lparr>ac_userId = ent_id user, ac_membershipId = ent_id membership, ac_tenantId = i_tenantId invitation\<rparr>)))))))))))))))"

definition purgeStaleInvitations :: "nat app" where
  "purgeStaleInvitations = uow_run (bindA clock_now (\<lambda>now. stateDb (invitations_deleteStale now PURGE_BATCH_SIZE)))"

section \<open>Queries\<close>

definition getTenant :: "tenantActor \<Rightarrow> tenantId \<Rightarrow> (tenantId \<times> string) app" where
  "getTenant actor t =
     thenA (authz_require actor tenancyTenantRead t) (
       bindA (readDb (tenants_findById t)) (\<lambda>found. case found of
         None \<Rightarrow> throwA TenantNotFoundError
       | Some tenant \<Rightarrow> returnA (ent_id tenant, tenant_name tenant)))"

record memberView =
  mv_membershipId :: membershipId
  mv_userId :: userId
  mv_roleIds :: "roleId list"
  mv_status :: membershipStatus
  mv_user :: "(string \<times> string) option"

definition memberView_of :: "bool \<Rightarrow> db \<Rightarrow> membership \<Rightarrow> memberView" where
  "memberView_of includeUser d m =
     (let item = \<lparr>mv_membershipId = ent_id m, mv_userId = m_userId m, mv_roleIds = m_roleIds m,
        mv_status = m_status m, mv_user = None\<rparr> in
      if \<not> includeUser then item
      else (case users_findById (m_userId m) d of
        None \<Rightarrow> item
      | Some u \<Rightarrow> item\<lparr>mv_user := Some (u_email u, u_displayName u)\<rparr>))"

definition listTenantMembers :: "tenantActor \<Rightarrow> tenantId \<Rightarrow> memberView list app" where
  "listTenantMembers actor t =
     thenA (authz_require actor tenancyMembersRead t) (
       bindA (readDb (memberships_findByTenant t)) (\<lambda>ms.
       bindA (getPermissions actor t) (\<lambda>permissions.
       bindA (readDb (\<lambda>d. map (memberView_of (identityUsersRead \<in> set permissions) d) ms)) returnA)))"

section \<open>Inversion\<close>

lemma attachMember_Inr:
  assumes "attachMember env actor t u roleIds w = (Inr v, w')"
  obtains w1 user m where
    "authz_require actor tenancyMembersManage t w = (Inr (), w1)" "same_but_cache w w1"
    "users_findById u (w_db w) = Some user" "memberships_findByUserAndTenant u t (w_db w) = None"
    "OwnerRole_assertAssignable t roleIds (w_db w) = Inr ()" "isUuid env (genId env (w_ids w))"
    "membership_create (genId env (w_ids w)) t u roleIds (w_now w) = Inr m" "v = ent_id m"
    "w' = w1\<lparr>w_ids := Suc (w_ids w),
       w_db := (memberships_save m (w_db w))\<lparr>db_outbox := db_outbox (w_db w) @ agg_events m\<rparr>,
       w_cache := remove_row fst (effectivePermissionsCacheKey t u) (w_cache w1)\<rparr>"
proof -
  obtain w1 where w1: "authz_require actor tenancyMembersManage t w = (Inr (), w1)"
    using assms by (auto simp: attachMember_def app_inv)
  have s: "same_but_cache w w1" by (rule authz_require_Inr(2)[OF w1])
  obtain m user where m: "users_findById u (w_db w) = Some user" "memberships_findByUserAndTenant u t (w_db w) = None"
    "OwnerRole_assertAssignable t roleIds (w_db w) = Inr ()" "isUuid env (genId env (w_ids w))"
    "membership_create (genId env (w_ids w)) t u roleIds (w_now w) = Inr m" "v = ent_id m"
    "w' = w1\<lparr>w_ids := Suc (w_ids w),
       w_db := (memberships_save m (w_db w))\<lparr>db_outbox := db_outbox (w_db w) @ agg_events m\<rparr>,
       w_cache := remove_row fst (effectivePermissionsCacheKey t u) (w_cache w1)\<rparr>"
    using assms w1 s
    by (auto simp: attachMember_def app_inv same_but_cache_def memberships_save_def authz_invalidate_eval)
  show thesis by (rule that[OF w1 s m])
qed

lemma replaceMembershipRoles_Inr:
  assumes "replaceMembershipRoles actor t i roleIds w = (Inr v, w')"
  obtains w1 m0 m where
    "authz_require actor tenancyMembersManage t w = (Inr (), w1)" "same_but_cache w w1"
    "memberships_findById i (w_db w) = Some m0" "m_tenantId m0 = t"
    "OwnerRole_assertAssignable t roleIds (w_db w) = Inr ()"
    "\<forall>r. OwnerRole_find t (w_db w) = Some r \<longrightarrow> ent_id r \<in> set (m_roleIds m0) \<longrightarrow>
       OwnerRole_countActive (filter (\<lambda>item. ent_id item \<noteq> ent_id m0) (memberships_findByTenant t (w_db w))) (ent_id r) \<noteq> 0"
    "membership_replaceRoleIds m0 roleIds (w_now w) = Inr m" "v = (ent_id m, m_roleIds m)"
    "w' = w1\<lparr>w_db := (memberships_save m (w_db w))\<lparr>db_outbox := db_outbox (w_db w) @ agg_events m\<rparr>,
       w_cache := remove_row fst (effectivePermissionsCacheKey t (m_userId m)) (w_cache w1)\<rparr>"
proof -
  obtain w1 where w1: "authz_require actor tenancyMembersManage t w = (Inr (), w1)"
    using assms by (auto simp: replaceMembershipRoles_def app_inv)
  have s: "same_but_cache w w1" by (rule authz_require_Inr(2)[OF w1])
  obtain m0 where m0: "memberships_findById i (w_db w) = Some m0" "m_tenantId m0 = t"
    using assms w1 s by (auto simp: replaceMembershipRoles_def app_inv same_but_cache_def split: option.splits)
  obtain m where m: "OwnerRole_assertAssignable t roleIds (w_db w) = Inr ()"
    "\<forall>r. OwnerRole_find t (w_db w) = Some r \<longrightarrow> ent_id r \<in> set (m_roleIds m0) \<longrightarrow>
       OwnerRole_countActive (filter (\<lambda>item. ent_id item \<noteq> ent_id m0) (memberships_findByTenant t (w_db w))) (ent_id r) \<noteq> 0"
    "membership_replaceRoleIds m0 roleIds (w_now w) = Inr m" "v = (ent_id m, m_roleIds m)"
    "w' = w1\<lparr>w_db := (memberships_save m (w_db w))\<lparr>db_outbox := db_outbox (w_db w) @ agg_events m\<rparr>,
       w_cache := remove_row fst (effectivePermissionsCacheKey t (m_userId m)) (w_cache w1)\<rparr>"
    using assms w1 s m0
    by (auto simp: replaceMembershipRoles_def app_inv same_but_cache_def memberships_save_def authz_invalidate_eval
        split: option.splits)
  show thesis by (rule that[OF w1 s m0 m])
qed

lemma bindA_seedRoles:
  "bindA (seedRoles env t at systemRoleNames) f w = (Inr y, w') \<longleftrightarrow>
     isUuid env (genId env (w_ids w)) \<and> isUuid env (genId env (w_ids w + 1)) \<and> isUuid env (genId env (w_ids w + 2)) \<and>
     f [role_createSystemRole (genId env (w_ids w)) t Owner at, role_createSystemRole (genId env (w_ids w + 1)) t Admin at,
        role_createSystemRole (genId env (w_ids w + 2)) t Member at] (w\<lparr>w_ids := w_ids w + 3\<rparr>) = (Inr y, w')"
  by (simp add: systemRoleNames_def app_run app_succeeds numeral_3_eq_3 numeral_2_eq_2 conj_assoc)

lemma systemRole_fields [simp]:
  "r_name (role_createSystemRole i t n at) = systemRoleName_string n" "ent_id (role_createSystemRole i t n at) = i"
  "r_tenantId (role_createSystemRole i t n at) = t" "r_isSystem (role_createSystemRole i t n at)"
  "r_permissions (role_createSystemRole i t n at) = permissionsFor n"
  "agg_events (role_createSystemRole i t n at) = [RoleCreated at i t (systemRoleName_string n) True]"
  by (simp_all add: role_createSystemRole_def role_recordCreated_def newRole_def record_event_def)

lemma createTenant_Inr:
  assumes "createTenant env name u w = (Inr v, w')"
  obtains owner tenant roleO roleA roleM m where
    "users_findById u (w_db w) = Some owner"
    "tenant_create (genId env (w_ids w)) name (w_now w) = Inr tenant"
    "roleO = role_createSystemRole (genId env (w_ids w + 1)) (genId env (w_ids w)) Owner (w_now w)"
    "roleA = role_createSystemRole (genId env (w_ids w + 2)) (genId env (w_ids w)) Admin (w_now w)"
    "roleM = role_createSystemRole (genId env (w_ids w + 3)) (genId env (w_ids w)) Member (w_now w)"
    "m = membership_createOwner (genId env (w_ids w + 4)) (genId env (w_ids w)) u (ent_id roleO) (w_now w)"
    "v = \<lparr>ct_tenantId = ent_id tenant, ct_ownerMembershipId = ent_id m, ct_owner = ent_id roleO,
       ct_admin = ent_id roleA, ct_member = ent_id roleM\<rparr>"
    "w' = w\<lparr>w_ids := w_ids w + 5,
       w_db := (memberships_save m (roles_saveMany [roleO, roleA, roleM] (tenants_save tenant (w_db w))))
         \<lparr>db_outbox := db_outbox (w_db w) @ agg_events tenant @ agg_events roleO @ agg_events roleA @
            agg_events roleM @ agg_events m\<rparr>\<rparr>"
proof -
  have run: "uow_run m w = (Inr v, w') \<longleftrightarrow> m w = (Inr v, w')" for m :: "createTenantResult app"
    by (simp add: uow_run_Inr)
  obtain owner tenant where o: "users_findById u (w_db w) = Some owner"
    and t: "tenant_create (genId env (w_ids w)) name (w_now w) = Inr tenant"
    using assms by (auto simp: createTenant_def app_run app_succeeds)
  have tid: "ent_id tenant = genId env (w_ids w)" using t by (auto simp: tenant_create_Inr)
  have outbox: "db_outbox (memberships_save m d) = db_outbox d" "db_outbox (roles_saveMany rs d) = db_outbox d"
    "db_outbox (tenants_save tn d) = db_outbox d" for m d rs tn
    by (induction rs arbitrary: d; simp add: memberships_save_def roles_saveMany_def roles_save_def tenants_save_def)+
  note ev = assms[unfolded createTenant_def, simplified app_run app_succeeds o t option.simps sum.simps
      Let_def ex_simps simp_thms bindA_seedRoles tid]
  from ev show thesis
    by (intro that[OF o t refl refl refl refl])
      (simp_all add: app_run app_succeeds bindA_seedRoles tid systemRoleName_string_def collect_eq outbox eval_nat_numeral)
qed

lemma bindA_invitedBy:
  "bindA (invitedByUserId actor) f w = (Inr y, w') \<longleftrightarrow>
     (\<exists>x. (case actor of userActor u \<Rightarrow> x = u
        | apiKeyActor k \<Rightarrow> \<exists>key. apiKeys_findById k (w_db w) = Some key \<and> x = k_createdByUserId key) \<and> f x w = (Inr y, w'))"
  by (auto simp: invitedByUserId_def app_run app_succeeds split: tenantActor.splits option.splits)

lemma inviteMember_Inr:
  assumes "inviteMember env actor t e roleIds w = (Inr v, w')"
  obtains w1 inviter d iv where
    "authz_require actor tenancyMembersInvite t w = (Inr (), w1)" "same_but_cache w w1"
    "OwnerRole_assertAssignable t roleIds (w_db w) = Inr ()"
    "\<forall>u. users_findByEmail (js_lower (js_trim e)) (w_db w) = Some u \<longrightarrow>
       memberships_findByUserAndTenant (ent_id u) t (w_db w) = None"
    "case invitations_findActiveByTenantAndEmail t (js_lower (js_trim e)) (w_db w) of
       None \<Rightarrow> d = w_db w
     | Some p \<Rightarrow> \<not> invitation_isActive p (w_now w) \<and> (\<exists>p'. invitation_supersede p (w_now w) = Inr p' \<and> d = invitations_save p' (w_db w))"
    "invitation_create (genId env (Suc (w_ids w))) t (js_lower (js_trim e)) roleIds (digest env (genId env (w_ids w)))
       (w_now w + INVITATION_TTL_MS) inviter (w_now w) = Inr iv"
    "isUuid env (genId env (Suc (w_ids w)))" "v = ent_id iv"
    "w' = w1\<lparr>w_ids := w_ids w + 2,
       w_db := (invitations_save iv d)\<lparr>db_outbox := db_outbox (w_db w) @ agg_events iv\<rparr>,
       w_mails := w_mails w @ [\<lparr>mail_to = js_lower (js_trim e), mail_subject = ''Tenant invitation'',
         mail_text = ''invitation token: '' @ genId env (w_ids w)\<rparr>]\<rparr>"
proof -
  let ?e = "js_lower (js_trim e)"
  obtain w1 where w1: "authz_require actor tenancyMembersInvite t w = (Inr (), w1)"
    using assms unfolding inviteMember_def thenA_Inr by auto
  have s: "same_but_cache w w1" by (rule authz_require_Inr(2)[OF w1])
  note sb = s[unfolded same_but_cache_def]
  have outbox: "db_outbox (invitations_save x y) = db_outbox y" for x y by (simp add: invitations_save_def)
  have a: "OwnerRole_assertAssignable t roleIds (w_db w) = Inr ()"
    using assms w1 sb by (simp add: inviteMember_def app_run app_succeeds Let_def)
  have b: "\<forall>u. users_findByEmail ?e (w_db w) = Some u \<longrightarrow> memberships_findByUserAndTenant (ent_id u) t (w_db w) = None"
    using assms w1 sb by (auto simp: inviteMember_def app_run app_succeeds Let_def)
  have step: "thenA (case users_findByEmail ?e (w_db w) of None \<Rightarrow> returnA ()
      | Some user \<Rightarrow> bindA (readDb (memberships_findByUserAndTenant (ent_id user) t))
          (\<lambda>membership. throwIfA (membership \<noteq> None) MembershipAlreadyExistsError)) n w1 = n w1" for n :: "invitationId app"
    using b sb by (cases "users_findByEmail ?e (w_db w)") (auto simp: app_run)
  note run = assms[unfolded inviteMember_def Let_def]
  show thesis
  proof (cases "invitations_findActiveByTenantAndEmail t ?e (w_db w)")
    case None
    with run w1 sb a step obtain x iv where
      "invitation_create (genId env (Suc (w_ids w))) t ?e roleIds (digest env (genId env (w_ids w)))
         (w_now w + INVITATION_TTL_MS) x (w_now w) = Inr iv"
      "isUuid env (genId env (Suc (w_ids w)))" "v = ent_id iv"
      "w' = w1\<lparr>w_ids := w_ids w + 2,
         w_db := (invitations_save iv (w_db w))\<lparr>db_outbox := db_outbox (w_db w) @ agg_events iv\<rparr>,
         w_mails := w_mails w @ [\<lparr>mail_to = ?e, mail_subject = ''Tenant invitation'',
           mail_text = ''invitation token: '' @ genId env (w_ids w)\<rparr>]\<rparr>"
      by (auto simp: app_run app_succeeds bindA_invitedBy outbox)
    then show thesis using that[OF w1 s a b, of "w_db w"] None by simp
  next
    case (Some p)
    with run w1 sb a step obtain p' x iv where
      "\<not> invitation_isActive p (w_now w)" "invitation_supersede p (w_now w) = Inr p'"
      "invitation_create (genId env (Suc (w_ids w))) t ?e roleIds (digest env (genId env (w_ids w)))
         (w_now w + INVITATION_TTL_MS) x (w_now w) = Inr iv"
      "isUuid env (genId env (Suc (w_ids w)))" "v = ent_id iv"
      "w' = w1\<lparr>w_ids := w_ids w + 2,
         w_db := (invitations_save iv (invitations_save p' (w_db w)))\<lparr>db_outbox := db_outbox (w_db w) @ agg_events iv\<rparr>,
         w_mails := w_mails w @ [\<lparr>mail_to = ?e, mail_subject = ''Tenant invitation'',
           mail_text = ''invitation token: '' @ genId env (w_ids w)\<rparr>]\<rparr>"
      by (auto simp: app_run app_succeeds bindA_invitedBy outbox)
    then show thesis using that[OF w1 s a b, of "invitations_save p' (w_db w)"] Some by simp
  qed
qed

text \<open>
  Accepting: the user is an existing one, or a new one created with its password in the same
  transaction.  \<open>registered\<close> describes the database, the generators and the events after
  that first part.
\<close>

definition registered :: "env \<Rightarrow> invitation \<Rightarrow> string option \<Rightarrow> string option \<Rightarrow> world \<Rightarrow> user \<Rightarrow> world \<Rightarrow> domainEvent list \<Rightarrow> bool" where
  "registered env iv dn pw w u w1 evs =
     (case users_findByEmail (i_email iv) (w_db w) of
       Some u0 \<Rightarrow> u = u0 \<and> w1 = w \<and> evs = []
     | None \<Rightarrow> (\<exists>dn' pw'. dn = Some dn' \<and> pw = Some pw' \<and> MIN_PASSWORD_LENGTH \<le> length pw' \<and>
         isUuid env (genId env (w_ids w)) \<and> user_create (genId env (w_ids w)) (i_email iv) dn' (w_now w) = Inr u \<and>
         evs = agg_events u \<and>
         w1 = w\<lparr>w_ids := Suc (w_ids w), w_salt := Suc (w_salt w),
                w_db := passwords_save (localPassword_create (ent_id u) (hashPw env (w_salt w) pw')) (users_save u (w_db w))\<rparr>))"

lemma acceptInvitation_Inr:
  assumes "acceptInvitation env token dn pw w = (Inr v, w')"
  obtains iv0 u w1 evs m iv where
    "invitations_findByTokenHash (digest env token) (w_db w) = Some iv0" "invitation_isActive iv0 (w_now w)"
    "registered env iv0 dn pw w u w1 evs"
    "memberships_findByUserAndTenant (ent_id u) (i_tenantId iv0) (w_db w1) = None"
    "isUuid env (genId env (w_ids w1))"
    "membership_create (genId env (w_ids w1)) (i_tenantId iv0) (ent_id u) (i_roleIds iv0) (w_now w) = Inr m"
    "invitation_consume iv0 (w_now w) = Inr iv"
    "v = \<lparr>ac_userId = ent_id u, ac_membershipId = ent_id m, ac_tenantId = i_tenantId iv\<rparr>"
    "w' = w1\<lparr>w_ids := Suc (w_ids w1),
       w_db := (invitations_save iv (memberships_save m (w_db w1)))
         \<lparr>db_outbox := db_outbox (w_db w1) @ evs @ agg_events m @ agg_events iv\<rparr>,
       w_cache := remove_row fst (effectivePermissionsCacheKey (i_tenantId iv) (ent_id u)) (w_cache w1)\<rparr>"
proof -
  have outbox: "db_outbox (invitations_save x y) = db_outbox y" "db_outbox (memberships_save z y) = db_outbox y"
    for x y z by (simp_all add: invitations_save_def memberships_save_def)
  obtain iv0 where iv0: "invitations_findByTokenHash (digest env token) (w_db w) = Some iv0"
    using assms by (cases "invitations_findByTokenHash (digest env token) (w_db w)")
      (auto simp: acceptInvitation_def app_run app_succeeds)
  have act: "invitation_isActive iv0 (w_now w)"
    using assms iv0 by (simp add: acceptInvitation_def app_run app_succeeds)
  note run = assms[unfolded acceptInvitation_def]
  show thesis
  proof (cases "users_findByEmail (i_email iv0) (w_db w)")
    case (Some u)
    with run iv0 act obtain m iv where
      "memberships_findByUserAndTenant (ent_id u) (i_tenantId iv0) (w_db w) = None"
      "isUuid env (genId env (w_ids w))"
      "membership_create (genId env (w_ids w)) (i_tenantId iv0) (ent_id u) (i_roleIds iv0) (w_now w) = Inr m"
      "invitation_consume iv0 (w_now w) = Inr iv"
      "v = \<lparr>ac_userId = ent_id u, ac_membershipId = ent_id m, ac_tenantId = i_tenantId iv\<rparr>"
      "w' = w\<lparr>w_ids := Suc (w_ids w),
         w_db := (invitations_save iv (memberships_save m (w_db w)))
           \<lparr>db_outbox := db_outbox (w_db w) @ agg_events m @ agg_events iv\<rparr>,
         w_cache := remove_row fst (effectivePermissionsCacheKey (i_tenantId iv) (ent_id u)) (w_cache w)\<rparr>"
      by (auto simp: app_run app_succeeds authz_invalidate_run outbox)
    then show thesis using that[OF iv0 act, of u w "[]"] Some by (simp add: registered_def)
  next
    case None
    obtain dn' pw' where d: "dn = Some dn'" "pw = Some pw'"
      using run iv0 act None
      by (cases dn; cases pw) (auto simp: app_run app_succeeds)
    with run iv0 act None obtain u where u: "MIN_PASSWORD_LENGTH \<le> length pw'"
      "isUuid env (genId env (w_ids w))" "user_create (genId env (w_ids w)) (i_email iv0) dn' (w_now w) = Inr u"
      by (auto simp: app_run app_succeeds)
    define w1 where "w1 = w\<lparr>w_ids := Suc (w_ids w), w_salt := Suc (w_salt w),
                w_db := passwords_save (localPassword_create (ent_id u) (hashPw env (w_salt w) pw')) (users_save u (w_db w))\<rparr>"
    have reg: "registered env iv0 dn pw w u w1 (agg_events u)"
      using None d u by (simp add: registered_def w1_def)
    have f: "w_now w1 = w_now w" "w_ids w1 = Suc (w_ids w)" by (simp_all add: w1_def)
    from run iv0 act None d u obtain m iv where
      "memberships_findByUserAndTenant (ent_id u) (i_tenantId iv0) (w_db w1) = None"
      "isUuid env (genId env (w_ids w1))"
      "membership_create (genId env (w_ids w1)) (i_tenantId iv0) (ent_id u) (i_roleIds iv0) (w_now w) = Inr m"
      "invitation_consume iv0 (w_now w) = Inr iv"
      "v = \<lparr>ac_userId = ent_id u, ac_membershipId = ent_id m, ac_tenantId = i_tenantId iv\<rparr>"
      "w' = w1\<lparr>w_ids := Suc (w_ids w1),
         w_db := (invitations_save iv (memberships_save m (w_db w1)))
           \<lparr>db_outbox := db_outbox (w_db w1) @ agg_events u @ agg_events m @ agg_events iv\<rparr>,
         w_cache := remove_row fst (effectivePermissionsCacheKey (i_tenantId iv) (ent_id u)) (w_cache w1)\<rparr>"
      by (auto simp: app_run app_succeeds authz_invalidate_run outbox w1_def)
    then show thesis using that[OF iv0 act reg] by simp
  qed
qed

end
