(* ===== verification/IdentityUseCases.thy ===== *)
theory IdentityUseCases
  imports TenancyUseCases
begin

text \<open>
  The identity use cases of packages/application/src/identity: users and registration, login,
  refresh-token rotation and logout, passwords and their reset, tenant selection, the profile query
  and the API keys.  Each definition is the \<open>execute\<close> method of its class.
\<close>

definition REFRESH_TTL_MS :: int where "REFRESH_TTL_MS = 14 * 24 * 60 * 60 * 1000"
definition PASSWORD_RESET_TTL_MS :: int where "PASSWORD_RESET_TTL_MS = 60 * 60 * 1000"

section \<open>Users\<close>

definition createUser :: "env \<Rightarrow> string \<Rightarrow> string \<Rightarrow> userId app" where
  "createUser env cmdEmail displayName = uow_run (
     let email = js_lower (js_trim cmdEmail) in
     bindA (readDb (users_findByEmail email)) (\<lambda>existing.
     thenA (throwIfA (existing \<noteq> None) UserEmailTakenError) (
     bindA (newId env) (\<lambda>i.
     bindA clock_now (\<lambda>now.
     bindA (liftR (user_create i cmdEmail displayName now)) (\<lambda>user.
     thenA (updDb (users_save user)) (
     thenA (collector_publish (collect [] [user])) (
     returnA (ent_id user)))))))))"

definition registerUser :: "env \<Rightarrow> string \<Rightarrow> string \<Rightarrow> string \<Rightarrow> userId app" where
  "registerUser env cmdEmail displayName password =
     thenA (throwIfA (length password < MIN_PASSWORD_LENGTH) InvalidPasswordError) (uow_run (
       let email = js_lower (js_trim cmdEmail) in
       bindA (readDb (users_findByEmail email)) (\<lambda>existing.
       thenA (throwIfA (existing \<noteq> None) UserEmailTakenError) (
       bindA (newId env) (\<lambda>i.
       bindA clock_now (\<lambda>now.
       bindA (liftR (user_create i cmdEmail displayName now)) (\<lambda>user.
       bindA (hasher_hash env password) (\<lambda>passwordHash.
       thenA (updDb (users_save user)) (
       thenA (updDb (passwords_save (localPassword_create (ent_id user) passwordHash))) (
       thenA (collector_publish (collect [] [user])) (
       returnA (ent_id user))))))))))))"

section \<open>Sessions\<close>

record loginResult =
  lr_userId :: userId
  lr_tenantId :: "tenantId option"
  lr_refreshToken :: string

definition login :: "env \<Rightarrow> string \<Rightarrow> string \<Rightarrow> loginResult app" where
  "login env cmdEmail password = uow_run (
     bindA (readDb (users_findByEmail (js_lower (js_trim cmdEmail)))) (\<lambda>user.
     bindA (case user of None \<Rightarrow> returnA None | Some u \<Rightarrow> readDb (passwords_findByUserId (ent_id u))) (\<lambda>credential.
     thenA (throwIfA (user = None \<or> credential = None \<or>
         \<not> (case credential of None \<Rightarrow> False | Some c \<Rightarrow> verifyPw env password (p_passwordHash c))) InvalidCredentialsError) (
     thenA (throwIfA (u_status (the user) = Suspended) UserSuspendedError) (
     bindA clock_now (\<lambda>now.
     bindA (ids_generate env) (\<lambda>refreshToken.
     bindA (newId env) (\<lambda>sid.
     bindA (newId env) (\<lambda>fid.
     thenA (updDb (sessions_save (session_create sid (ent_id (the user)) fid (digest env refreshToken) (now + REFRESH_TTL_MS)))) (
     bindA (readDb (memberships_findByUser (ent_id (the user)))) (\<lambda>ms.
     let activeMemberships = filter (\<lambda>m. m_status m = MActive) ms in
     returnA \<lparr>lr_userId = ent_id (the user),
       lr_tenantId = (if length activeMemberships = 1 then Some (m_tenantId (hd activeMemberships)) else None),
       lr_refreshToken = refreshToken\<rparr>)))))))))))"

definition logout :: "env \<Rightarrow> string option \<Rightarrow> unit app" where
  "logout env refreshToken = (case refreshToken of
     None \<Rightarrow> returnA ()
   | Some token \<Rightarrow> if token = '''' then returnA () else uow_run (
       bindA (readDb (sessions_findByTokenHash (digest env token))) (\<lambda>session. case session of
         None \<Rightarrow> returnA ()
       | Some s \<Rightarrow> bindA clock_now (\<lambda>now. updDb (sessions_revokeFamily (s_familyId s) now)))))"

text \<open>The inner transaction answers \<open>None\<close> for \<open>'reuse'\<close>.\<close>

definition rotateRefresh :: "env \<Rightarrow> string \<Rightarrow> (userId \<times> string) app" where
  "rotateRefresh env token =
     bindA (uow_run (
       bindA clock_now (\<lambda>now.
       bindA (readDb (sessions_findByTokenHash (digest env token))) (\<lambda>found. case found of
         None \<Rightarrow> throwA InvalidRefreshTokenError
       | Some session \<Rightarrow>
         if s_revokedAt session \<noteq> None
         then thenA (updDb (sessions_revokeFamily (s_familyId session) now)) (returnA None)
         else
           thenA (throwIfA (\<not> session_isActive session now) InvalidRefreshTokenError) (
           thenA (updDb (sessions_save (session_revoke session now))) (
           bindA (ids_generate env) (\<lambda>refreshToken.
           bindA (newId env) (\<lambda>sid.
           thenA (updDb (sessions_save (session_create sid (s_userId session) (s_familyId session)
               (digest env refreshToken) (now + REFRESH_TTL_MS)))) (
           returnA (Some (s_userId session, refreshToken)))))))))))
     (\<lambda>outcome. case outcome of None \<Rightarrow> throwA InvalidRefreshTokenError | Some r \<Rightarrow> returnA r)"

definition purgeRefreshSessions :: "nat app" where
  "purgeRefreshSessions = uow_run (bindA clock_now (\<lambda>now. stateDb (sessions_deleteExpiredOrRevoked now PURGE_BATCH_SIZE)))"

definition purgePasswordResetTokens :: "nat app" where
  "purgePasswordResetTokens = uow_run (bindA clock_now (\<lambda>now. stateDb (resetTokens_deleteInactive now PURGE_BATCH_SIZE)))"

definition selectTenant :: "userId \<Rightarrow> tenantId \<Rightarrow> (userId \<times> tenantId) app" where
  "selectTenant u t =
     bindA (readDb (memberships_findByUserAndTenant u t)) (\<lambda>membership.
     thenA (throwIfA (case membership of None \<Rightarrow> True | Some m \<Rightarrow> m_status m \<noteq> MActive) ActiveMembershipRequiredError) (
     returnA (u, t)))"

section \<open>Passwords\<close>

definition requestPasswordReset :: "env \<Rightarrow> string \<Rightarrow> unit app" where
  "requestPasswordReset env cmdEmail = uow_run (
     bindA (readDb (users_findByEmail (js_lower (js_trim cmdEmail)))) (\<lambda>user. case user of
       None \<Rightarrow> returnA ()
     | Some u \<Rightarrow>
       bindA clock_now (\<lambda>now.
       bindA (ids_generate env) (\<lambda>rawToken.
       thenA (updDb (resetTokens_save (resetToken_create (ent_id u) (digest env rawToken) (now + PASSWORD_RESET_TTL_MS)))) (
       mailer_send \<lparr>mail_to = u_email u, mail_subject = ''Password reset'', mail_text = ''reset token: '' @ rawToken\<rparr>)))))"

definition resetPassword :: "env \<Rightarrow> string \<Rightarrow> string \<Rightarrow> unit app" where
  "resetPassword env cmdToken password =
     thenA (throwIfA (length password < MIN_PASSWORD_LENGTH) InvalidPasswordError) (uow_run (
       bindA clock_now (\<lambda>now.
       bindA (readDb (resetTokens_findByTokenHash (digest env cmdToken))) (\<lambda>found. case found of
         None \<Rightarrow> throwA InvalidResetTokenError
       | Some token \<Rightarrow>
         thenA (throwIfA (\<not> resetToken_isActive token now) InvalidResetTokenError) (
         bindA (readDb (passwords_findByUserId (ent_id token))) (\<lambda>cred. case cred of
           None \<Rightarrow> throwA InvalidResetTokenError
         | Some credential \<Rightarrow>
           bindA (hasher_hash env password) (\<lambda>h.
           thenA (updDb (resetTokens_save (resetToken_consume token now))) (
           thenA (updDb (passwords_save (localPassword_replaceHash credential h))) (
           updDb (sessions_revokeAllForUser (ent_id token) now))))))))))"

definition setOrChangePassword :: "env \<Rightarrow> userId \<Rightarrow> string \<Rightarrow> string option \<Rightarrow> unit app" where
  "setOrChangePassword env actorId password currentPassword =
     thenA (throwIfA (length password < MIN_PASSWORD_LENGTH) InvalidPasswordError) (uow_run (
       bindA (readDb (users_findById actorId)) (\<lambda>user.
       thenA (throwIfA (user = None) UserNotFoundError) (
       bindA (readDb (passwords_findByUserId actorId)) (\<lambda>cred. case cred of
         None \<Rightarrow>
           thenA (throwIfA (currentPassword \<noteq> None) InvalidCredentialsError) (
           bindA (hasher_hash env password) (\<lambda>h.
           updDb (passwords_save (localPassword_create actorId h))))
       | Some credential \<Rightarrow> (case currentPassword of
           None \<Rightarrow> throwA PasswordAlreadySetError
         | Some current \<Rightarrow>
           thenA (throwIfA (\<not> verifyPw env current (p_passwordHash credential)) InvalidCredentialsError) (
           bindA (hasher_hash env password) (\<lambda>h.
           thenA (updDb (passwords_save (localPassword_replaceHash credential h))) (
           bindA clock_now (\<lambda>now.
           updDb (sessions_revokeAllForUser actorId now)))))))))))"

section \<open>Profile\<close>

record profileMembership =
  pm_membershipId :: membershipId
  pm_tenantId :: tenantId
  pm_roleIds :: "roleId list"
  pm_status :: membershipStatus

record profile =
  pf_id :: userId
  pf_email :: string
  pf_displayName :: string
  pf_status :: accountStatus
  pf_membership :: "profileMembership option"
  pf_effectivePermissions :: "permission list"

definition getMyProfile :: "userId \<Rightarrow> tenantId \<Rightarrow> profile app" where
  "getMyProfile u t =
     bindA (readDb (users_findById u)) (\<lambda>found. case found of
       None \<Rightarrow> throwA UserNotFoundError
     | Some user \<Rightarrow>
       bindA (readDb (memberships_findByUserAndTenant u t)) (\<lambda>membership.
       bindA (getEffectivePermissions u t) (\<lambda>ps.
       returnA \<lparr>pf_id = ent_id user, pf_email = u_email user, pf_displayName = u_displayName user,
         pf_status = u_status user,
         pf_membership = (case membership of None \<Rightarrow> None | Some m \<Rightarrow>
           Some \<lparr>pm_membershipId = ent_id m, pm_tenantId = m_tenantId m, pm_roleIds = m_roleIds m, pm_status = m_status m\<rparr>),
         pf_effectivePermissions = ps\<rparr>)))"

section \<open>API keys\<close>

text \<open>The subset check of create and update: every permission known, then held by the creator.\<close>

fun assertHeld :: "permission list \<Rightarrow> permission list \<Rightarrow> error + unit" where
  "assertHeld creator [] = Inr ()"
| "assertHeld creator (p # ps) =
     bindR (assertKnown p) (\<lambda>_.
     bindR (throwIf (p \<notin> set creator) (InsufficientPermissionError p)) (\<lambda>_. assertHeld creator ps))"

definition createApiKey :: "env \<Rightarrow> tenantActor \<Rightarrow> tenantId \<Rightarrow> string \<Rightarrow> permission list \<Rightarrow> millis option \<Rightarrow> (apiKeyId \<times> string) app" where
  "createApiKey env actor t name permissions expiresAt =
     thenA (authz_require actor identityApiKeysManage t) (case actor of
       apiKeyActor k \<Rightarrow> throwA (InsufficientPermissionError identityApiKeysManage)
     | userActor u \<Rightarrow>
       bindA (getEffectivePermissions u t) (\<lambda>creatorPermissions.
       thenA (liftR (assertHeld creatorPermissions permissions)) (uow_run (
         bindA clock_now (\<lambda>now.
         bindA (ids_generate env) (\<lambda>raw1.
         let publicPrefix = token_compactId raw1 in
         bindA (ids_generate env) (\<lambda>raw2.
         let secret = filter (\<lambda>c. c \<noteq> CHR ''-'') raw2;
             token = token_create publicPrefix secret in
         bindA (newId env) (\<lambda>i.
         bindA (liftR (apiKey_create i t u name (token_displayPrefix publicPrefix) (digest env token) permissions now expiresAt)) (\<lambda>apiKey.
         thenA (updDb (apiKeys_save apiKey)) (
         thenA (collector_publish (collect [] [apiKey])) (
         returnA (ent_id apiKey, token))))))))))))"

record apiKeyView =
  av_apiKeyId :: apiKeyId
  av_name :: string
  av_prefix :: string
  av_permissions :: "permission list"
  av_expiresAt :: "millis option"
  av_revokedAt :: "millis option"
  av_lastUsedAt :: "millis option"

definition apiKeyView_of :: "apiKey \<Rightarrow> apiKeyView" where
  "apiKeyView_of k = \<lparr>av_apiKeyId = ent_id k, av_name = k_name k, av_prefix = k_prefix k,
     av_permissions = k_permissions k, av_expiresAt = k_expiresAt k, av_revokedAt = k_revokedAt k,
     av_lastUsedAt = k_lastUsedAt k\<rparr>"

definition updateApiKey :: "tenantActor \<Rightarrow> tenantId \<Rightarrow> apiKeyId \<Rightarrow> string option \<Rightarrow> permission list option \<Rightarrow> apiKeyView app" where
  "updateApiKey actor t i cmdName cmdPermissions =
     thenA (authz_require actor identityApiKeysManage t) (
     thenA (case (cmdPermissions, actor) of
         (Some ps, userActor u) \<Rightarrow>
           bindA (getEffectivePermissions u t) (\<lambda>creatorPermissions. liftR (assertHeld creatorPermissions ps))
       | _ \<Rightarrow> returnA ()) (uow_run (
       bindA (readDb (apiKeys_findById i)) (\<lambda>found. case found of
         None \<Rightarrow> throwA ApiKeyNotFoundError
       | Some key0 \<Rightarrow>
         thenA (throwIfA (k_tenantId key0 \<noteq> t) ApiKeyNotFoundError) (
         bindA (liftR (case cmdName of None \<Rightarrow> Inr key0 | Some n \<Rightarrow> apiKey_rename key0 n)) (\<lambda>key1.
         bindA clock_now (\<lambda>now.
         bindA (liftR (case cmdPermissions of None \<Rightarrow> Inr key1 | Some ps \<Rightarrow> apiKey_replacePermissions key1 ps now)) (\<lambda>key.
         thenA (updDb (apiKeys_save key)) (
         thenA (collector_publish (collect [] [key])) (
         thenA (authz_invalidateApiKey (ent_id key) t) (
         returnA (apiKeyView_of key))))))))))))"

definition revokeApiKey :: "tenantActor \<Rightarrow> tenantId \<Rightarrow> apiKeyId \<Rightarrow> unit app" where
  "revokeApiKey actor t i =
     thenA (authz_require actor identityApiKeysManage t) (uow_run (
       bindA (readDb (apiKeys_findById i)) (\<lambda>found. case found of
         None \<Rightarrow> throwA ApiKeyNotFoundError
       | Some key0 \<Rightarrow>
         thenA (throwIfA (k_tenantId key0 \<noteq> t) ApiKeyNotFoundError) (
         bindA clock_now (\<lambda>now.
         bindA (liftR (apiKey_revoke key0 now)) (\<lambda>key.
         thenA (updDb (apiKeys_save key)) (
         thenA (collector_publish (collect [] [key])) (
         authz_invalidateApiKey (ent_id key) t))))))))"

definition listApiKeys :: "tenantActor \<Rightarrow> tenantId \<Rightarrow> apiKeyView list app" where
  "listApiKeys actor t =
     thenA (authz_require actor identityApiKeysManage t) (
       bindA (readDb (apiKeys_findByTenant t)) (\<lambda>ks. returnA (map apiKeyView_of ks)))"

definition resolveApiKey :: "env \<Rightarrow> string \<Rightarrow> (apiKeyId \<times> tenantId) option app" where
  "resolveApiKey env token = (case token_parse token of
     None \<Rightarrow> returnA None
   | Some pfx \<Rightarrow>
     bindA (readDb (apiKeys_findByPrefix pfx)) (\<lambda>found. bindA clock_now (\<lambda>now. case found of
       None \<Rightarrow> returnA None
     | Some k \<Rightarrow> if \<not> apiKey_isUsable k now \<or> \<not> digestMatches env token (k_secretHash k) then returnA None
         else returnA (Some (ent_id k, k_tenantId k)))))"

definition touchApiKeyLastUsed :: "apiKeyId \<Rightarrow> unit app" where
  "touchApiKeyLastUsed i = bindA clock_now (\<lambda>now. updDb (apiKeys_touchLastUsed i now))"

end
