(* ===== verification/Invariants.thy ===== *)
theory Invariants
  imports IdentityUseCases
begin

text \<open>
  The invariants of the application state and the frames that carry them over the use cases.

  Identifiers: \<open>known\<close> says that the generator will not issue an id again; every id the
  tables mention is known, so a generated one is new.  \<open>rows_inv\<close> is well-formedness and
  uniqueness of the rows, \<open>owner_inv\<close> that each tenant has its Owner role and an active
  membership that holds it, \<open>session_inv\<close> that a refresh family has at most one session that
  is not revoked.

  Frames: a \<open>mild\<close> computation never fills the cache and only advances the generators, a
  \<open>steady\<close> one writes no row either, and a \<open>quiet\<close> one leaves the state as it was when
  it throws.
\<close>

section \<open>Known identifiers\<close>

definition known :: "env \<Rightarrow> nat \<Rightarrow> string \<Rightarrow> bool" where
  "known env n i \<longleftrightarrow> (\<forall>k. n \<le> k \<longrightarrow> genId env k \<noteq> i)"

lemma known_mono: "known env n i \<Longrightarrow> n \<le> n' \<Longrightarrow> known env n' i"
  by (auto simp: known_def)

lemma known_neq: "known env n i \<Longrightarrow> n \<le> k \<Longrightarrow> genId env k \<noteq> i"
  by (auto simp: known_def)

lemma known_issued: "inj (genId env) \<Longrightarrow> k < n \<Longrightarrow> known env n (genId env k)"
  by (auto simp: known_def dest: injD)

definition ids_inv :: "env \<Rightarrow> nat \<Rightarrow> db \<Rightarrow> bool" where
  "ids_inv env n d \<longleftrightarrow>
     (\<forall>t \<in> set (db_tenants d). known env n (ent_id t)) \<and>
     (\<forall>r \<in> set (db_roles d). known env n (ent_id r) \<and> known env n (r_tenantId r)) \<and>
     (\<forall>m \<in> set (db_memberships d). known env n (ent_id m) \<and> known env n (m_tenantId m) \<and>
        (\<forall>i \<in> set (m_roleIds m). known env n i)) \<and>
     (\<forall>v \<in> set (db_invitations d). known env n (ent_id v) \<and> known env n (i_tenantId v) \<and>
        (\<forall>i \<in> set (i_roleIds v). known env n i)) \<and>
     (\<forall>u \<in> set (db_users d). known env n (ent_id u)) \<and>
     (\<forall>k \<in> set (db_apiKeys d). known env n (ent_id k))"

lemma ids_inv_mono: "ids_inv env n d \<Longrightarrow> n \<le> n' \<Longrightarrow> ids_inv env n' d"
  unfolding ids_inv_def by (meson known_mono)

section \<open>Rows\<close>

definition rows_inv :: "db \<Rightarrow> bool" where
  "rows_inv d \<longleftrightarrow>
     distinct (map ent_id (db_tenants d)) \<and> distinct (map ent_id (db_roles d)) \<and>
     distinct (map ent_id (db_memberships d)) \<and> distinct (map ent_id (db_invitations d)) \<and>
     distinct (map ent_id (db_users d)) \<and> distinct (map ent_id (db_apiKeys d)) \<and>
     (\<forall>t \<in> set (db_tenants d). tenant_wf t) \<and> (\<forall>r \<in> set (db_roles d). role_wf r) \<and>
     (\<forall>m \<in> set (db_memberships d). membership_wf m) \<and> (\<forall>v \<in> set (db_invitations d). invitation_wf v) \<and>
     (\<forall>u \<in> set (db_users d). user_wf u) \<and> (\<forall>k \<in> set (db_apiKeys d). apiKey_wf k) \<and>
     inj_on (\<lambda>m. (m_userId m, m_tenantId m)) (set (db_memberships d)) \<and>
     inj_on u_email (set (db_users d))"

definition has_active_owner :: "tenantId \<Rightarrow> db \<Rightarrow> bool" where
  "has_active_owner t d = (case OwnerRole_find t d of
     None \<Rightarrow> False
   | Some r \<Rightarrow> 0 < OwnerRole_countActive (memberships_findByTenant t d) (ent_id r))"

definition owner_inv :: "db \<Rightarrow> bool" where
  "owner_inv d \<longleftrightarrow> (\<forall>t \<in> set (db_tenants d). has_active_owner (ent_id t) d)"

definition session_inv :: "env \<Rightarrow> nat \<Rightarrow> db \<Rightarrow> bool" where
  "session_inv env n d \<longleftrightarrow> distinct (map ent_id (db_sessions d)) \<and>
     (\<forall>s \<in> set (db_sessions d). known env n (ent_id s) \<and> known env n (s_familyId s)) \<and>
     (\<forall>s \<in> set (db_sessions d). \<forall>s' \<in> set (db_sessions d).
        s_familyId s = s_familyId s' \<longrightarrow> s_revokedAt s = None \<longrightarrow> s_revokedAt s' = None \<longrightarrow> s = s')"

text \<open>Only tenants the generator will not issue any more have entries in the cache.\<close>

definition cache_known :: "env \<Rightarrow> world \<Rightarrow> bool" where
  "cache_known env w \<longleftrightarrow> (\<forall>t u. CHR '':'' \<notin> set t \<longrightarrow> cached w (effectivePermissionsCacheKey t u) \<noteq> None \<longrightarrow>
     known env (w_ids w) t)"

text \<open>No cached answer about an API key lets it manage API keys.\<close>

definition key_cache_safe :: "world \<Rightarrow> bool" where
  "key_cache_safe w \<longleftrightarrow> (\<forall>t k ps. CHR '':'' \<notin> set t \<longrightarrow> cached w (apiKeyPermissionsCacheKey t k) = Some ps \<longrightarrow>
     managePermission \<notin> set ps)"

lemma key_cache_safe_shrink:
  assumes "key_cache_safe w" "\<And>k v. cached w' k = Some v \<Longrightarrow> cached w k = Some v"
  shows "key_cache_safe w'"
  using assms unfolding key_cache_safe_def by blast

lemma key_answers_safe:
  assumes "rows_inv (w_db w)" "key_cache_safe w" "CHR '':'' \<notin> set t"
  shows "managePermission \<notin> set (answers w (apiKeyActor k) t)"
proof (cases "cached w (apiKeyPermissionsCacheKey t k)")
  case None
  have "\<forall>x \<in> set (db_apiKeys (w_db w)). apiKey_wf x" using assms(1) by (simp add: rows_inv_def)
  then show ?thesis
    using None by (auto simp: answers_def apiKey_permissionsFor_def apiKeys_findById_def lookup_row_def apiKey_wf_def
        dest: find_cong_key[OF sym] split: option.splits if_splits)
next
  case (Some ps)
  then show ?thesis using assms(2,3) by (simp add: answers_def key_cache_safe_def)
qed

definition app_inv_ok :: "env \<Rightarrow> world \<Rightarrow> bool" where
  "app_inv_ok env w \<longleftrightarrow> ids_inv env (w_ids w) (w_db w) \<and> rows_inv (w_db w) \<and> owner_inv (w_db w) \<and>
     session_inv env (w_ids w) (w_db w) \<and> user_cache_coherent w \<and> cache_known env w \<and> key_cache_safe w"

lemma has_active_owner_iff:
  "has_active_owner t d \<longleftrightarrow> (\<exists>r m. OwnerRole_find t d = Some r \<and> m \<in> set (db_memberships d) \<and> m_tenantId m = t \<and>
     m_status m = MActive \<and> ent_id r \<in> set (m_roleIds m))"
  by (auto simp: has_active_owner_def OwnerRole_countActive_def memberships_findByTenant_def length_greater_0_conv
      filter_empty_conv split: option.splits)

text \<open>Tables the invariants do not read.\<close>

lemma inv_other_tables [simp]:
  "ids_inv env n (d\<lparr>db_outbox := x\<rparr>) = ids_inv env n d" "rows_inv (d\<lparr>db_outbox := x\<rparr>) = rows_inv d"
  "has_active_owner t (d\<lparr>db_outbox := x\<rparr>) = has_active_owner t d" "session_inv env n (d\<lparr>db_outbox := x\<rparr>) = session_inv env n d"
  "ids_inv env n (d\<lparr>db_sessions := y\<rparr>) = ids_inv env n d" "rows_inv (d\<lparr>db_sessions := y\<rparr>) = rows_inv d"
  "has_active_owner t (d\<lparr>db_sessions := y\<rparr>) = has_active_owner t d"
  "ids_inv env n (d\<lparr>db_passwords := z\<rparr>) = ids_inv env n d" "rows_inv (d\<lparr>db_passwords := z\<rparr>) = rows_inv d"
  "has_active_owner t (d\<lparr>db_passwords := z\<rparr>) = has_active_owner t d" "session_inv env n (d\<lparr>db_passwords := z\<rparr>) = session_inv env n d"
  "ids_inv env n (d\<lparr>db_resetTokens := v\<rparr>) = ids_inv env n d" "rows_inv (d\<lparr>db_resetTokens := v\<rparr>) = rows_inv d"
  "has_active_owner t (d\<lparr>db_resetTokens := v\<rparr>) = has_active_owner t d" "session_inv env n (d\<lparr>db_resetTokens := v\<rparr>) = session_inv env n d"
  "has_active_owner t (d\<lparr>db_users := us\<rparr>) = has_active_owner t d" "has_active_owner t (d\<lparr>db_apiKeys := ks\<rparr>) = has_active_owner t d"
  "has_active_owner t (d\<lparr>db_invitations := iv\<rparr>) = has_active_owner t d" "has_active_owner t (d\<lparr>db_tenants := ts\<rparr>) = has_active_owner t d"
  "session_inv env n (d\<lparr>db_users := us\<rparr>) = session_inv env n d" "session_inv env n (d\<lparr>db_apiKeys := ks\<rparr>) = session_inv env n d"
  "session_inv env n (d\<lparr>db_invitations := iv\<rparr>) = session_inv env n d" "session_inv env n (d\<lparr>db_tenants := ts\<rparr>) = session_inv env n d"
  "session_inv env n (d\<lparr>db_roles := rs\<rparr>) = session_inv env n d" "session_inv env n (d\<lparr>db_memberships := ms\<rparr>) = session_inv env n d"
  by (simp_all add: ids_inv_def rows_inv_def has_active_owner_iff OwnerRole_find_def roles_findByTenant_def session_inv_def)

lemma owner_inv_other [simp]:
  "owner_inv (d\<lparr>db_outbox := x\<rparr>) = owner_inv d" "owner_inv (d\<lparr>db_sessions := y\<rparr>) = owner_inv d"
  "owner_inv (d\<lparr>db_passwords := z\<rparr>) = owner_inv d" "owner_inv (d\<lparr>db_resetTokens := v\<rparr>) = owner_inv d"
  "owner_inv (d\<lparr>db_users := us\<rparr>) = owner_inv d" "owner_inv (d\<lparr>db_apiKeys := ks\<rparr>) = owner_inv d"
  "owner_inv (d\<lparr>db_invitations := iv\<rparr>) = owner_inv d"
  by (simp_all add: owner_inv_def)

lemma resolve_other_tables [simp]:
  "resolvePermissions u t (d\<lparr>db_outbox := x\<rparr>) = resolvePermissions u t d"
  "resolvePermissions u t (d\<lparr>db_sessions := y\<rparr>) = resolvePermissions u t d"
  "resolvePermissions u t (d\<lparr>db_passwords := z\<rparr>) = resolvePermissions u t d"
  "resolvePermissions u t (d\<lparr>db_resetTokens := v\<rparr>) = resolvePermissions u t d"
  "resolvePermissions u t (d\<lparr>db_users := us\<rparr>) = resolvePermissions u t d"
  "resolvePermissions u t (d\<lparr>db_apiKeys := ks\<rparr>) = resolvePermissions u t d"
  "resolvePermissions u t (d\<lparr>db_invitations := iv\<rparr>) = resolvePermissions u t d"
  "resolvePermissions u t (d\<lparr>db_tenants := ts\<rparr>) = resolvePermissions u t d"
  by (simp_all add: resolvePermissions_def roleIdsFor_def roles_findByIds_def roles_findById_def
      memberships_findByUserAndTenant_def)

section \<open>Saving a row\<close>

lemma upsert_set_cases: "x \<in> set (upsert key y rows) \<Longrightarrow> x = y \<or> x \<in> set rows"
  using upsert_subset[of key y rows] by auto

lemma ball_upsert: "(\<forall>x \<in> set rows. P x) \<Longrightarrow> P y \<Longrightarrow> \<forall>x \<in> set (upsert key y rows). P x"
  by (auto dest: upsert_set_cases)

lemma save_role_inv:
  assumes "ids_inv env n d" "rows_inv d" "role_wf r" "known env n (ent_id r)" "known env n (r_tenantId r)"
  shows "ids_inv env n (roles_save r d)" "rows_inv (roles_save r d)"
proof -
  show "ids_inv env n (roles_save r d)"
    using assms by (auto simp: ids_inv_def roles_save_def intro!: ball_upsert dest!: upsert_set_cases)
  have "\<forall>x \<in> set (upsert ent_id (as_stored r) (db_roles d)). role_wf x"
    using assms by (intro ball_upsert) (auto simp: rows_inv_def)
  then show "rows_inv (roles_save r d)"
    using assms by (simp add: rows_inv_def roles_save_def upsert_distinct)
qed

lemma delete_role_inv:
  assumes "ids_inv env n d" "rows_inv d"
  shows "ids_inv env n (roles_delete i d)" "rows_inv (roles_delete i d)"
  using assms by (auto simp: ids_inv_def rows_inv_def roles_delete_def remove_row_distinct)

lemma save_tenant_inv:
  assumes "ids_inv env n d" "rows_inv d" "tenant_wf t" "known env n (ent_id t)"
  shows "ids_inv env n (tenants_save t d)" "rows_inv (tenants_save t d)"
proof -
  show "ids_inv env n (tenants_save t d)"
    using assms by (auto simp: ids_inv_def tenants_save_def dest!: upsert_set_cases)
  have "\<forall>x \<in> set (upsert ent_id (as_stored t) (db_tenants d)). tenant_wf x"
    using assms by (intro ball_upsert) (auto simp: rows_inv_def)
  then show "rows_inv (tenants_save t d)"
    using assms by (simp add: rows_inv_def tenants_save_def upsert_distinct)
qed

lemma save_invitation_inv:
  assumes "ids_inv env n d" "rows_inv d" "invitation_wf v" "known env n (ent_id v)" "known env n (i_tenantId v)"
    "\<forall>i \<in> set (i_roleIds v). known env n i"
  shows "ids_inv env n (invitations_save v d)" "rows_inv (invitations_save v d)"
proof -
  show "ids_inv env n (invitations_save v d)"
    using assms by (auto simp: ids_inv_def invitations_save_def dest!: upsert_set_cases)
  have "\<forall>x \<in> set (upsert ent_id (as_stored v) (db_invitations d)). invitation_wf x"
    using assms by (intro ball_upsert) (auto simp: rows_inv_def)
  then show "rows_inv (invitations_save v d)"
    using assms by (simp add: rows_inv_def invitations_save_def upsert_distinct)
qed

lemma save_apiKey_inv:
  assumes "ids_inv env n d" "rows_inv d" "apiKey_wf k" "known env n (ent_id k)"
  shows "ids_inv env n (apiKeys_save k d)" "rows_inv (apiKeys_save k d)"
proof -
  show "ids_inv env n (apiKeys_save k d)"
    using assms by (auto simp: ids_inv_def apiKeys_save_def dest!: upsert_set_cases)
  have "\<forall>x \<in> set (upsert ent_id (as_stored k) (db_apiKeys d)). apiKey_wf x"
    using assms by (intro ball_upsert) (auto simp: rows_inv_def)
  then show "rows_inv (apiKeys_save k d)"
    using assms by (simp add: rows_inv_def apiKeys_save_def upsert_distinct)
qed

lemma inj_on_upsert:
  assumes "inj_on f (set rows)" "distinct (map key rows)" "\<And>y. y \<in> set rows \<Longrightarrow> f y = f x \<Longrightarrow> key y = key x"
  shows "inj_on f (set (upsert key x rows))"
proof -
  have "set (upsert key x rows) = insert x {r \<in> set rows. key r \<noteq> key x}"
    using assms(2) by (rule upsert_set_distinct)
  then show ?thesis using assms by (auto simp: inj_on_def)
qed

lemma save_membership_inv:
  assumes "ids_inv env n d" "rows_inv d" "membership_wf m" "known env n (ent_id m)" "known env n (m_tenantId m)"
    "\<forall>i \<in> set (m_roleIds m). known env n i"
    "\<And>y. y \<in> set (db_memberships d) \<Longrightarrow> m_userId y = m_userId m \<Longrightarrow> m_tenantId y = m_tenantId m \<Longrightarrow> ent_id y = ent_id m"
  shows "ids_inv env n (memberships_save m d)" "rows_inv (memberships_save m d)"
proof -
  show "ids_inv env n (memberships_save m d)"
    using assms by (auto simp: ids_inv_def memberships_save_def dest!: upsert_set_cases)
  have a: "\<forall>x \<in> set (upsert ent_id (as_stored m) (db_memberships d)). membership_wf x"
    using assms by (intro ball_upsert) (auto simp: rows_inv_def)
  have "inj_on (\<lambda>m. (m_userId m, m_tenantId m)) (set (upsert ent_id (as_stored m) (db_memberships d)))"
    using assms by (intro inj_on_upsert) (auto simp: rows_inv_def)
  then show "rows_inv (memberships_save m d)"
    using assms a by (simp add: rows_inv_def memberships_save_def upsert_distinct)
qed

lemma save_user_inv:
  assumes "ids_inv env n d" "rows_inv d" "user_wf u" "known env n (ent_id u)"
    "\<And>y. y \<in> set (db_users d) \<Longrightarrow> u_email y = u_email u \<Longrightarrow> ent_id y = ent_id u"
  shows "ids_inv env n (users_save u d)" "rows_inv (users_save u d)"
proof -
  show "ids_inv env n (users_save u d)"
    using assms by (auto simp: ids_inv_def users_save_def dest!: upsert_set_cases)
  have a: "\<forall>x \<in> set (upsert ent_id (as_stored u) (db_users d)). user_wf x"
    using assms by (intro ball_upsert) (auto simp: rows_inv_def)
  have "inj_on u_email (set (upsert ent_id (as_stored u) (db_users d)))"
    using assms by (intro inj_on_upsert) (auto simp: rows_inv_def)
  then show "rows_inv (users_save u d)"
    using assms a by (simp add: rows_inv_def users_save_def upsert_distinct)
qed

section \<open>The owner role and the owner's membership\<close>

lemma find_upsert_other:
  assumes "\<not> P x" "\<And>y. y \<in> set rows \<Longrightarrow> key y = key x \<Longrightarrow> \<not> P y"
  shows "find P (upsert key x rows) = find P rows"
  using assms by (induction rows) auto

lemma find_filter: "find P (filter Q rows) = find (\<lambda>x. Q x \<and> P x) rows"
  by (induction rows) auto

lemma OwnerRole_find_eq: "OwnerRole_find t d = find (\<lambda>r. r_tenantId r = t \<and> r_isSystem r \<and> r_name r = ''Owner'') (db_roles d)"
  by (simp add: OwnerRole_find_def roles_findByTenant_def find_filter)

lemma OwnerRole_find_save_custom:
  assumes "\<not> r_isSystem r" "\<And>y. y \<in> set (db_roles d) \<Longrightarrow> ent_id y = ent_id r \<Longrightarrow> \<not> r_isSystem y"
  shows "OwnerRole_find t (roles_save r d) = OwnerRole_find t d"
  using assms unfolding OwnerRole_find_eq by (auto simp: roles_save_def intro!: find_upsert_other)

lemma find_remove_other:
  assumes "\<And>y. y \<in> set rows \<Longrightarrow> key y = k \<Longrightarrow> \<not> P y"
  shows "find P (remove_row key k rows) = find P rows"
  using assms by (induction rows) (auto simp: remove_row_def)

lemma OwnerRole_find_delete_custom:
  assumes "\<And>y. y \<in> set (db_roles d) \<Longrightarrow> ent_id y = i \<Longrightarrow> \<not> r_isSystem y"
  shows "OwnerRole_find t (roles_delete i d) = OwnerRole_find t d"
  using assms unfolding OwnerRole_find_eq by (auto simp: roles_delete_def intro!: find_remove_other)

text \<open>Only the identity of the Owner role matters.\<close>

lemma owner_inv_same_roles:
  assumes "owner_inv d" "\<And>t. map_option ent_id (OwnerRole_find t d') = map_option ent_id (OwnerRole_find t d)"
    "db_tenants d' = db_tenants d" "db_memberships d' = db_memberships d"
  shows "owner_inv d'"
proof -
  have "has_active_owner t d' = has_active_owner t d" for t
    using assms(2)[of t] assms(4)
    by (cases "OwnerRole_find t d"; cases "OwnerRole_find t d'")
      (auto simp: has_active_owner_def memberships_findByTenant_def)
  then show ?thesis using assms(1,3) by (simp add: owner_inv_def)
qed

lemma find_upsert_same:
  assumes "key x \<in> key ` set rows" "\<And>y. y \<in> set rows \<Longrightarrow> key y = key x \<Longrightarrow> P y = P x"
  shows "map_option key (find P (upsert key x rows)) = map_option key (find P rows)"
  using assms by (induction rows) auto

lemma OwnerRole_find_save_same:
  assumes "r0 \<in> set (db_roles d)" "distinct (map ent_id (db_roles d))"
    "ent_id r = ent_id r0" "r_tenantId r = r_tenantId r0" "r_isSystem r = r_isSystem r0"
    "r_isSystem r0 \<Longrightarrow> r_name r = r_name r0"
  shows "map_option ent_id (OwnerRole_find t (roles_save r d)) = map_option ent_id (OwnerRole_find t d)"
proof -
  have "y = r0" if "y \<in> set (db_roles d)" "ent_id y = ent_id r0" for y
    using that assms(1,2) by (auto simp: distinct_map inj_on_def)
  then have one: "y = r0" if "y \<in> set (db_roles d)" "ent_id y = ent_id (as_stored r)" for y
    using that assms(3) by simp
  let ?P = "\<lambda>r. r_tenantId r = t \<and> r_isSystem r \<and> r_name r = ''Owner''"
  have agree: "?P (as_stored r) = ?P r0" using assms(4,5,6) by auto
  have "ent_id (as_stored r) = ent_id r0" using assms(3) by simp
  then have k: "ent_id (as_stored r) \<in> ent_id ` set (db_roles d)" using assms(1) by blast
  have "?P y = ?P (as_stored r)" if "y \<in> set (db_roles d)" "ent_id y = ent_id (as_stored r)" for y
    using one[OF that] agree by (simp only:)
  then have "map_option ent_id (find ?P (upsert ent_id (as_stored r) (db_roles d))) = map_option ent_id (find ?P (db_roles d))"
    by (rule find_upsert_same[where P = ?P and key = ent_id, OF k])
  then show ?thesis unfolding OwnerRole_find_eq by (simp add: roles_save_def)
qed

lemma owner_inv_new_membership:
  assumes "owner_inv d" "ent_id m \<notin> ent_id ` set (db_memberships d)"
  shows "owner_inv (memberships_save m d)"
proof -
  have "db_memberships (memberships_save m d) = db_memberships d @ [as_stored m]"
    using assms(2) by (simp add: memberships_save_def upsert_fresh)
  then show ?thesis using assms(1)
    by (fastforce simp: owner_inv_def has_active_owner_iff OwnerRole_find_eq memberships_save_def)
qed

text \<open>The guard of \<open>ReplaceMembershipRoles\<close> is what keeps an owner.\<close>

lemma owner_inv_replace_membership:
  assumes own: "owner_inv d" and m0: "m0 \<in> set (db_memberships d)" "ent_id m = ent_id m0" "m_tenantId m = m_tenantId m0"
    and uniq: "distinct (map ent_id (db_memberships d))"
    and guard: "\<forall>r. OwnerRole_find (m_tenantId m0) d = Some r \<longrightarrow> ent_id r \<in> set (m_roleIds m0) \<longrightarrow>
       OwnerRole_countActive (filter (\<lambda>item. ent_id item \<noteq> ent_id m0) (memberships_findByTenant (m_tenantId m0) d)) (ent_id r) \<noteq> 0"
  shows "owner_inv (memberships_save m d)"
  unfolding owner_inv_def
proof
  fix t assume "t \<in> set (db_tenants (memberships_save m d))"
  then have "t \<in> set (db_tenants d)" by (simp add: memberships_save_def)
  then have "has_active_owner (ent_id t) d" using own by (simp add: owner_inv_def)
  then obtain r x where r: "OwnerRole_find (ent_id t) d = Some r"
    and x: "x \<in> set (db_memberships d)" "m_tenantId x = ent_id t" "m_status x = MActive" "ent_id r \<in> set (m_roleIds x)"
    by (auto simp: has_active_owner_iff)
  have "\<exists>y \<in> set (db_memberships d). ent_id y \<noteq> ent_id m0 \<and> m_tenantId y = ent_id t \<and> m_status y = MActive \<and>
      ent_id r \<in> set (m_roleIds y)"
  proof (cases "ent_id x = ent_id m0")
    case True
    then have "x = m0" using uniq x(1) m0(1) by (auto simp: distinct_map inj_on_def)
    then have "OwnerRole_countActive (filter (\<lambda>item. ent_id item \<noteq> ent_id m0) (memberships_findByTenant (ent_id t) d)) (ent_id r) \<noteq> 0"
      using guard r x by auto
    then have "filter (\<lambda>y. m_status y = MActive \<and> ent_id r \<in> set (m_roleIds y))
        (filter (\<lambda>item. ent_id item \<noteq> ent_id m0) (memberships_findByTenant (ent_id t) d)) \<noteq> []"
      by (auto simp: OwnerRole_countActive_def)
    then show ?thesis by (auto simp: filter_empty_conv memberships_findByTenant_def)
  next
    case False
    then show ?thesis using x by blast
  qed
  then obtain y where y: "y \<in> set (db_memberships d)" "ent_id y \<noteq> ent_id m0" "m_tenantId y = ent_id t"
    "m_status y = MActive" "ent_id r \<in> set (m_roleIds y)" by blast
  have "y \<in> set (db_memberships (memberships_save m d))"
    using y(1,2) m0(2) by (auto simp: memberships_save_def intro: upsert_keeps)
  moreover have "OwnerRole_find (ent_id t) (memberships_save m d) = Some r"
    using r by (simp add: OwnerRole_find_eq memberships_save_def)
  ultimately show "has_active_owner (ent_id t) (memberships_save m d)"
    using y by (auto simp: has_active_owner_iff)
qed

end
