(* ===== verification/Frames.thy ===== *)
theory Frames
  imports Invariants
begin

text \<open>
  The frames of the use cases: what a failed operation leaves behind, and that every operation
  keeps the user cache coherent with the tables.
\<close>

section \<open>Mild computations\<close>

text \<open>Generators only advance, time stands still, and no cache entry appears.\<close>

definition mild :: "'a app \<Rightarrow> bool" where
  "mild m \<longleftrightarrow> (\<forall>w r w'. m w = (r, w') \<longrightarrow> w_ids w \<le> w_ids w' \<and> w_now w' = w_now w \<and>
     (\<forall>k v. cached w' k = Some v \<longrightarrow> cached w k = Some v))"

named_theorems mild_intros \<open>mildness, by the shape of the computation\<close>

lemma mild_prim [mild_intros]:
  "mild (returnA x)" "mild (throwA e)" "mild (liftR r)" "mild (throwIfA c e)" "mild (readDb f)" "mild (updDb g)"
  "mild (stateDb h)" "mild clock_now" "mild (ids_generate env)" "mild (newId env)" "mild (hasher_hash env pw)"
  "mild (mailer_send mm)" "mild (collector_publish evs)"
  by (auto simp: mild_def stateDb_eval newId_def bindA_def split: prod.splits sum.splits)

lemma mild_invalidate [mild_intros]: "mild (authz_invalidate u t)" "mild (authz_invalidateApiKey k t)"
  by (auto simp: mild_def authz_invalidate_def authz_invalidateApiKey_def cache_del_def split: if_splits)

lemma mild_holders [mild_intros]: "mild (authz_invalidateHoldersOf r t)"
  unfolding mild_def
proof (intro allI impI)
  fix w res w' assume a: "authz_invalidateHoldersOf r t w = (res, w')"
  obtain w1 where "authz_invalidateHoldersOf r t w = (Inr (), w1)" "same_but_cache w w1"
    "\<forall>k. cached w1 k = (if k \<in> (\<lambda>m. effectivePermissionsCacheKey t (m_userId m)) ` set (memberships_findByTenantAndRole t r (w_db w))
       then None else cached w k)"
    by (rule authz_invalidateHoldersOf_eval[of r t w])
  with a show "w_ids w \<le> w_ids w' \<and> w_now w' = w_now w \<and> (\<forall>k v. cached w' k = Some v \<longrightarrow> cached w k = Some v)"
    by (auto simp: same_but_cache_def split: if_splits)
qed

lemma mild_bind [mild_intros]:
  assumes "mild m" "\<And>x. mild (f x)"
  shows "mild (bindA m f)"
  unfolding mild_def
proof (intro allI impI)
  fix w r w' assume a: "bindA m f w = (r, w')"
  obtain r1 w1 where m: "m w = (r1, w1)" by (cases "m w")
  have 1: "w_ids w \<le> w_ids w1 \<and> w_now w1 = w_now w \<and> (\<forall>k v. cached w1 k = Some v \<longrightarrow> cached w k = Some v)"
    using assms(1) m unfolding mild_def by blast
  show "w_ids w \<le> w_ids w' \<and> w_now w' = w_now w \<and> (\<forall>k v. cached w' k = Some v \<longrightarrow> cached w k = Some v)"
  proof (cases r1)
    case (Inl e)
    then show ?thesis using a m 1 by simp
  next
    case (Inr x)
    then have "f x w1 = (r, w')" using a m by simp
    then have "w_ids w1 \<le> w_ids w' \<and> w_now w' = w_now w1 \<and> (\<forall>k v. cached w' k = Some v \<longrightarrow> cached w1 k = Some v)"
      using assms(2)[of x] unfolding mild_def by blast
    then show ?thesis using 1 by auto
  qed
qed

lemma mild_then [mild_intros]: "mild m \<Longrightarrow> mild n \<Longrightarrow> mild (thenA m n)"
  unfolding thenA_def by (rule mild_bind)

lemma mild_cases [mild_intros]:
  "\<lbrakk>mild a; \<And>y. mild (b y)\<rbrakk> \<Longrightarrow> mild (case o1 of None \<Rightarrow> a | Some y \<Rightarrow> b y)"
  "\<lbrakk>mild a; mild c\<rbrakk> \<Longrightarrow> mild (if q then a else c)"
  "\<lbrakk>\<And>x y. mild (f x y)\<rbrakk> \<Longrightarrow> mild (case pr of (x, y) \<Rightarrow> f x y)"
  "\<lbrakk>\<And>u. mild (g u); \<And>k. mild (h k)\<rbrakk> \<Longrightarrow> mild (case act of userActor u \<Rightarrow> g u | apiKeyActor k \<Rightarrow> h k)"
  by (simp_all split: option.split prod.split tenantActor.split)

lemma mild_seed [mild_intros]: "mild (seedRoles env t at ns)"
proof (induction ns)
  case Nil
  show ?case unfolding seedRoles.simps by (rule mild_intros)
next
  case (Cons n ns)
  show ?case unfolding seedRoles.simps by (intro mild_intros Cons)
qed

lemma mild_invitedBy [mild_intros]: "mild (invitedByUserId actor)"
  unfolding invitedByUserId_def by (intro mild_intros)

lemma mild_uow [mild_intros]: "mild m \<Longrightarrow> mild (uow_run m)"
  unfolding mild_def uow_run_def by (auto split: prod.splits sum.splits) 

section \<open>Steady and quiet computations\<close>

text \<open>
  \<open>carries\<close> is what survives a failed or read-only operation; \<open>T\<close> are the tenants whose
  cache entries it may fill.
\<close>

definition carries :: "tenantId set \<Rightarrow> world \<Rightarrow> world \<Rightarrow> bool" where
  "carries T w w' \<longleftrightarrow> w_db w' = w_db w \<and> w_ids w \<le> w_ids w' \<and> w_now w' = w_now w \<and>
     (user_cache_coherent w \<longrightarrow> user_cache_coherent w') \<and>
     (rows_inv (w_db w) \<longrightarrow> key_cache_safe w \<longrightarrow> key_cache_safe w') \<and>
     (\<forall>t u. CHR '':'' \<notin> set t \<longrightarrow> cached w' (effectivePermissionsCacheKey t u) \<noteq> None \<longrightarrow>
        cached w (effectivePermissionsCacheKey t u) \<noteq> None \<or> t \<in> T)"

definition steady :: "tenantId set \<Rightarrow> 'a app \<Rightarrow> bool" where
  "steady T m \<longleftrightarrow> (\<forall>w r w'. m w = (r, w') \<longrightarrow> carries T w w')"

definition quiet :: "tenantId set \<Rightarrow> 'a app \<Rightarrow> bool" where
  "quiet T m \<longleftrightarrow> (\<forall>w e w'. m w = (Inl e, w') \<longrightarrow> carries T w w')"

named_theorems quiet_intros \<open>quietness, by the shape of the computation\<close>

lemma carries_refl [simp]: "carries T w w"
  by (simp add: carries_def)

lemma carries_trans: "carries T w w1 \<Longrightarrow> carries T w1 w2 \<Longrightarrow> carries T w w2"
  unfolding carries_def by (elim conjE, intro conjI) (simp, simp, simp, simp, simp, blast)

lemma app_inv_carries:
  assumes "app_inv_ok env w" "carries T w w'" "\<forall>t \<in> T. known env (w_ids w) t"
  shows "app_inv_ok env w'"
proof -
  have "cache_known env w'"
    using assms unfolding app_inv_ok_def carries_def cache_known_def by (metis known_mono)
  then show ?thesis
    using assms by (auto simp: app_inv_ok_def carries_def session_inv_def intro: ids_inv_mono known_mono)
qed

lemma steady_quiet: "steady T m \<Longrightarrow> quiet T m"
  by (auto simp: steady_def quiet_def)

lemma steady_prim [quiet_intros]:
  "steady T (returnA x)" "steady T (throwA e)" "steady T (liftR r)" "steady T (throwIfA c e)" "steady T (readDb f)" "steady T clock_now"
  by (simp_all add: steady_def)

lemma getPermissions_carries:
  assumes "CHR '':'' \<notin> set t" "t \<in> T" "getPermissions actor t w = (r, w')"
  shows "carries T w w'"
proof -
  obtain w1 where w1: "getPermissions actor t w = (Inr (answers w actor t), w1)" "same_but_cache w w1"
    "\<forall>k. cached w1 k = (if k = principal_key actor t then Some (answers w actor t) else cached w k)"
    by (rule getPermissions_eval[of actor t w])
  then have w': "w' = w1" using assms(3) by simp
  have "user_cache_coherent w1" if c: "user_cache_coherent w"
    unfolding user_cache_coherent_def
  proof (intro allI impI)
    fix t' u ps assume t': "CHR '':'' \<notin> set t'" and ps: "cached w1 (effectivePermissionsCacheKey t' u) = Some ps"
    show "ps = resolvePermissions u t' (w_db w1)"
    proof (cases "effectivePermissionsCacheKey t' u = principal_key actor t")
      case True
      then have "actor = userActor u \<and> t' = t"
        using permission_keys_inj[OF t' assms(1)] by (cases actor) (auto simp: principal_key_def)
      moreover have "ps = answers w actor t" using True ps w1(3) by simp
      ultimately show ?thesis using coherent_answers[OF c t'] w1(2) by (simp add: same_but_cache_def)
    next
      case False
      then have "cached w (effectivePermissionsCacheKey t' u) = Some ps" using ps w1(3) by simp
      then show ?thesis using c t' w1(2) by (auto simp: user_cache_coherent_def same_but_cache_def)
    qed
  qed
  moreover have "cached w (effectivePermissionsCacheKey t' u) \<noteq> None \<or> t' \<in> T"
    if t': "CHR '':'' \<notin> set t'" and ne: "cached w1 (effectivePermissionsCacheKey t' u) \<noteq> None" for t' u
  proof (cases "effectivePermissionsCacheKey t' u = principal_key actor t")
    case True
    then have "t' = t" using permission_keys_inj[OF t' assms(1)] by (cases actor) (auto simp: principal_key_def)
    then show ?thesis using assms(2) by simp
  next
    case False
    then show ?thesis using ne w1(3) by simp
  qed
  moreover have "key_cache_safe w1" if rows: "rows_inv (w_db w)" and safe: "key_cache_safe w"
    unfolding key_cache_safe_def
  proof (intro allI impI)
    fix t' k ps assume t': "CHR '':'' \<notin> set t'" and ps: "cached w1 (apiKeyPermissionsCacheKey t' k) = Some ps"
    show "managePermission \<notin> set ps"
    proof (cases "apiKeyPermissionsCacheKey t' k = principal_key actor t")
      case True
      then have "actor = apiKeyActor k \<and> t' = t"
        using permission_keys_inj(2)[OF t' assms(1)] permission_keys_inj(3)[OF assms(1) t', of _ k, symmetric]
        by (cases actor) (auto simp: principal_key_def)
      moreover have "ps = answers w actor t" using True ps w1(3) by simp
      ultimately show ?thesis using key_answers_safe[OF rows safe t'] by simp
    next
      case False
      then have "cached w (apiKeyPermissionsCacheKey t' k) = Some ps" using ps w1(3) by simp
      then show ?thesis using safe t' by (auto simp: key_cache_safe_def)
    qed
  qed
  ultimately show ?thesis using w1(2) w' by (auto simp: carries_def same_but_cache_def)
qed

lemma steady_getPermissions [quiet_intros]:
  assumes "CHR '':'' \<notin> set t" "t \<in> T"
  shows "steady T (getPermissions actor t)" "steady T (getEffectivePermissions u t)"
proof -
  show s: "steady T (getPermissions actor t)" for actor
    using getPermissions_carries[OF assms] by (auto simp: steady_def)
  show "steady T (getEffectivePermissions u t)" using s[of "userActor u"] by (simp add: getPermissions_def)
qed

lemma steady_bind [quiet_intros]:
  assumes "steady T m" "\<And>x. steady T (f x)"
  shows "steady T (bindA m f)"
  unfolding steady_def
proof (intro allI impI)
  fix w r w' assume a: "bindA m f w = (r, w')"
  obtain r1 w1 where m: "m w = (r1, w1)" by (cases "m w")
  have 1: "carries T w w1" using assms(1) m by (auto simp: steady_def)
  show "carries T w w'"
  proof (cases r1)
    case (Inl e)
    then show ?thesis using a m 1 by simp
  next
    case (Inr x)
    then have "carries T w1 w'" using a m assms(2)[of x] by (auto simp: steady_def)
    then show ?thesis using 1 carries_trans by blast
  qed
qed

lemma steady_then [quiet_intros]: "steady T m \<Longrightarrow> steady T n \<Longrightarrow> steady T (thenA m n)"
  unfolding thenA_def by (rule steady_bind)

lemma steady_require [quiet_intros]: "CHR '':'' \<notin> set t \<Longrightarrow> t \<in> T \<Longrightarrow> steady T (authz_require actor p t)"
  unfolding authz_require_def by (intro quiet_intros; assumption)

lemma quiet_bind [quiet_intros]:
  assumes "steady T m" "\<And>x. quiet T (f x)"
  shows "quiet T (bindA m f)"
  unfolding quiet_def
proof (intro allI impI)
  fix w e w' assume a: "bindA m f w = (Inl e, w')"
  obtain r1 w1 where m: "m w = (r1, w1)" by (cases "m w")
  have 1: "carries T w w1" using assms(1) m by (auto simp: steady_def)
  show "carries T w w'"
  proof (cases r1)
    case (Inl e')
    then show ?thesis using a m 1 by simp
  next
    case (Inr x)
    then have "carries T w1 w'" using a m assms(2)[of x] by (auto simp: quiet_def)
    then show ?thesis using 1 carries_trans by blast
  qed
qed

lemma quiet_then [quiet_intros]: "steady T m \<Longrightarrow> quiet T n \<Longrightarrow> quiet T (thenA m n)"
  unfolding thenA_def by (rule quiet_bind)

lemma quiet_uow [quiet_intros]:
  assumes "mild m"
  shows "quiet T (uow_run m)"
  unfolding quiet_def
proof (intro allI impI)
  fix w e w' assume "uow_run m w = (Inl e, w')"
  then obtain w1 where w1: "m w = (Inl e, w1)" "w' = w1\<lparr>w_db := w_db w\<rparr>" by (auto simp: uow_run_Inl)
  have md: "w_ids w \<le> w_ids w1 \<and> w_now w1 = w_now w \<and> (\<forall>k v. cached w1 k = Some v \<longrightarrow> cached w k = Some v)"
    using assms w1(1) unfolding mild_def by blast
  have "user_cache_coherent w'" if "user_cache_coherent w"
    using that md by (auto intro: coherentI_shrink simp: w1(2))
  moreover have "key_cache_safe w'" if "key_cache_safe w"
    using md by (auto intro: key_cache_safe_shrink[OF that] simp: w1(2))
  ultimately show "carries T w w'" using md by (auto simp: carries_def w1(2))
qed

lemma quiet_cases [quiet_intros]:
  "\<lbrakk>quiet T a; \<And>y. quiet T (b y)\<rbrakk> \<Longrightarrow> quiet T (case o1 of None \<Rightarrow> a | Some y \<Rightarrow> b y)"
  "\<lbrakk>quiet T a; quiet T c\<rbrakk> \<Longrightarrow> quiet T (if q then a else c)"
  "\<lbrakk>\<And>u. quiet T (g u); \<And>k. quiet T (h k)\<rbrakk> \<Longrightarrow> quiet T (case act of userActor u \<Rightarrow> g u | apiKeyActor k \<Rightarrow> h k)"
  "quiet T (returnA x)" "quiet T (throwA e)"
  "\<lbrakk>steady T a1; \<And>y. steady T (b1 y)\<rbrakk> \<Longrightarrow> steady T (case o1 of None \<Rightarrow> a1 | Some y \<Rightarrow> b1 y)"
  "\<lbrakk>\<And>x y. steady T (f x y)\<rbrakk> \<Longrightarrow> steady T (case pr of (x, y) \<Rightarrow> f x y)"
  "\<lbrakk>\<And>u. steady T (g1 u); \<And>k. steady T (h1 k)\<rbrakk> \<Longrightarrow> steady T (case act of userActor u \<Rightarrow> g1 u | apiKeyActor k \<Rightarrow> h1 k)"
  by (simp_all add: quiet_def steady_def split: option.split tenantActor.split prod.split)

section \<open>Every use case is quiet\<close>

lemma use_cases_quiet:
  "quiet T (createTenant env name u)" "quiet T (createUser env e dn)" "quiet T (registerUser env e dn pw)"
  "quiet T (login env e pw)" "quiet T (logout env tok)" "quiet T (acceptInvitation env tk dno pwo)"
  "quiet T (purgeStaleInvitations)" "quiet T purgeRefreshSessions" "quiet T purgePasswordResetTokens"
  "quiet T (requestPasswordReset env e)" "quiet T (resetPassword env tk pw)" "quiet T (setOrChangePassword env u pw cur)"
  "quiet T (selectTenant u t)"
  unfolding createTenant_def createUser_def registerUser_def login_def logout_def acceptInvitation_def
    purgeStaleInvitations_def purgeRefreshSessions_def purgePasswordResetTokens_def requestPasswordReset_def
    resetPassword_def setOrChangePassword_def selectTenant_def Let_def
  by (intro quiet_intros mild_intros steady_quiet)+

lemma tenant_use_cases_quiet:
  assumes "CHR '':'' \<notin> set t" "t \<in> T"
  shows "quiet T (createCustomRole env a t n ps)" "quiet T (updateCustomRole env a t i no pso)" "quiet T (deleteCustomRole a t i)"
    "quiet T (attachMember env a t u rs)" "quiet T (replaceMembershipRoles a t i rs)" "quiet T (inviteMember env a t e rs)"
    "quiet T (createApiKey env a t n ps x)" "quiet T (updateApiKey a t i no pso)" "quiet T (revokeApiKey a t i)"
  unfolding createCustomRole_def updateCustomRole_def deleteCustomRole_def attachMember_def replaceMembershipRoles_def
    inviteMember_def createApiKey_def updateApiKey_def revokeApiKey_def Let_def
  by (intro quiet_intros mild_intros assms)+

text \<open>The queries write nothing at all.\<close>

lemma queries_steady:
  assumes "CHR '':'' \<notin> set t" "t \<in> T"
  shows "steady T (listRoles a t)" "steady T (getTenant a t)" "steady T (listTenantMembers a t)" "steady T (listApiKeys a t)"
    "steady T (getMyProfile u t)" "steady T (selectTenant u t)"
  unfolding listRoles_def getTenant_def listTenantMembers_def listApiKeys_def getMyProfile_def selectTenant_def
  by (intro quiet_intros assms)+

lemma resolveApiKey_steady: "steady T (resolveApiKey env token)"
  unfolding steady_def resolveApiKey_def
  by (auto simp: app_run split: option.splits if_splits)

end
