(* ===== verification/Preservation.thy ===== *)
theory Preservation
  imports Frames
begin

text \<open>
  Every use case that writes keeps the invariants of the application state.  The failing branches
  are the frames of \<open>Frames\<close>; the successful one is the inversion of the use case followed
  by the effect of its writes on each invariant.
\<close>

section \<open>How a write changes what a user may do\<close>

definition resolve_step :: "tenantId \<Rightarrow> db \<Rightarrow> permission list \<Rightarrow> roleId \<Rightarrow> permission list" where
  "resolve_step t d acc i = (case roles_findById i d of
     None \<Rightarrow> acc
   | Some r \<Rightarrow> if r_tenantId r \<noteq> t then acc else foldl add_unique acc (r_permissions r))"

lemma resolvePermissions_steps: "resolvePermissions u t d = foldl (resolve_step t d) [] (roleIdsFor u t d)"
proof -
  have "foldl (\<lambda>acc r. if r_tenantId r \<noteq> t then acc else foldl add_unique acc (r_permissions r)) acc
      (concat (map (\<lambda>i. case roles_findById i d of None \<Rightarrow> [] | Some r \<Rightarrow> [r]) ids)) =
    foldl (resolve_step t d) acc ids" for acc ids
    by (induction ids arbitrary: acc) (auto simp: resolve_step_def split: option.splits)
  then show ?thesis by (simp add: resolvePermissions_def roles_findByIds_def)
qed

lemma resolve_cong:
  assumes "roleIdsFor u t d' = roleIdsFor u t d"
    "\<And>i. i \<in> set (roleIdsFor u t d) \<Longrightarrow> resolve_step t d' = resolve_step t d \<or> (\<forall>acc. resolve_step t d' acc i = resolve_step t d acc i)"
  shows "resolvePermissions u t d' = resolvePermissions u t d"
proof -
  have "foldl (resolve_step t d') acc ids = foldl (resolve_step t d) acc ids"
    if "set ids \<subseteq> set (roleIdsFor u t d)" for acc ids
    using that assms(2) by (induction ids arbitrary: acc) (auto, metis)
  then show ?thesis by (simp add: resolvePermissions_steps assms(1))
qed

lemma roleIdsFor_in:
  assumes "i \<in> set (roleIdsFor u t d)"
  obtains m where "memberships_findByUserAndTenant u t d = Some m" "m_status m = MActive" "i \<in> set (m_roleIds m)"
    "m \<in> set (db_memberships d)" "m_userId m = u" "m_tenantId m = t"
proof (cases "memberships_findByUserAndTenant u t d")
  case None
  then show thesis using assms by (simp add: roleIdsFor_def)
next
  case (Some m)
  then have "m \<in> set (db_memberships d) \<and> m_userId m = u \<and> m_tenantId m = t"
    by (auto simp: memberships_findByUserAndTenant_def dest: find_cong_key)
  then show thesis using that Some assms by (auto simp: roleIdsFor_def split: if_splits)
qed

text \<open>Saving a role matters only to the members of its tenant that hold it.\<close>

lemma resolve_save_role:
  assumes "\<And>m. memberships_findByUserAndTenant u t d = Some m \<Longrightarrow> t = r_tenantId r \<Longrightarrow> ent_id r \<notin> set (m_roleIds m)"
    and "roles_findById (ent_id r) d = Some r0" "r_tenantId r0 = r_tenantId r"
  shows "resolvePermissions u t (roles_save r d) = resolvePermissions u t d"
proof (rule resolve_cong)
  show ids: "roleIdsFor u t (roles_save r d) = roleIdsFor u t d"
    by (simp add: roleIdsFor_def memberships_findByUserAndTenant_def roles_save_def)
  fix i assume i: "i \<in> set (roleIdsFor u t d)"
  have "resolve_step t (roles_save r d) acc i = resolve_step t d acc i" for acc
  proof (cases "i = ent_id r")
    case True
    then have "t \<noteq> r_tenantId r"
      using i assms(1) by (auto elim: roleIdsFor_in)
    then show ?thesis using True assms(2,3)
      by (auto simp: resolve_step_def roleRepo.find_save)
  next
    case False
    then show ?thesis by (simp add: resolve_step_def roleRepo.find_save_other)
  qed
  then show "resolve_step t (roles_save r d) = resolve_step t d \<or> (\<forall>acc. resolve_step t (roles_save r d) acc i = resolve_step t d acc i)"
    by blast
qed

lemma resolve_save_new_role:
  assumes "\<And>m. m \<in> set (db_memberships d) \<Longrightarrow> ent_id r \<notin> set (m_roleIds m)"
  shows "resolvePermissions u t (roles_save r d) = resolvePermissions u t d"
proof (rule resolve_cong)
  show "roleIdsFor u t (roles_save r d) = roleIdsFor u t d"
    by (simp add: roleIdsFor_def memberships_findByUserAndTenant_def roles_save_def)
  fix i assume "i \<in> set (roleIdsFor u t d)"
  then have "i \<noteq> ent_id r"
    using assms by (auto elim!: roleIdsFor_in)
  then show "resolve_step t (roles_save r d) = resolve_step t d \<or> (\<forall>acc. resolve_step t (roles_save r d) acc i = resolve_step t d acc i)"
    by (simp add: resolve_step_def roleRepo.find_save_other)
qed

lemma resolve_delete_role:
  assumes "memberships_findByTenantAndRole t0 i0 d = []" "roles_findById i0 d = Some r0" "r_tenantId r0 = t0"
  shows "resolvePermissions u t (roles_delete i0 d) = resolvePermissions u t d"
proof (rule resolve_cong)
  show "roleIdsFor u t (roles_delete i0 d) = roleIdsFor u t d"
    by (simp add: roleIdsFor_def memberships_findByUserAndTenant_def roles_delete_def)
  fix i assume i: "i \<in> set (roleIdsFor u t d)"
  have "resolve_step t (roles_delete i0 d) acc i = resolve_step t d acc i" for acc
  proof (cases "i = i0")
    case True
    then have "t \<noteq> t0"
      using i assms(1) by (auto simp: memberships_findByTenantAndRole_def filter_empty_conv elim!: roleIdsFor_in)
    then show ?thesis using True assms(2,3) by (simp add: resolve_step_def roleRepo.find_delete_same)
  next
    case False
    then show ?thesis by (simp add: resolve_step_def roleRepo.find_delete_other)
  qed
  then show "resolve_step t (roles_delete i0 d) = resolve_step t d \<or> (\<forall>acc. resolve_step t (roles_delete i0 d) acc i = resolve_step t d acc i)"
    by blast
qed

lemma resolve_save_membership:
  assumes "\<And>y. y \<in> set (db_memberships d) \<Longrightarrow> ent_id y = ent_id m \<Longrightarrow> m_userId y = m_userId m \<and> m_tenantId y = m_tenantId m"
    and "\<not> (u = m_userId m \<and> t = m_tenantId m)"
  shows "resolvePermissions u t (memberships_save m d) = resolvePermissions u t d"
proof (rule resolve_cong)
  have "memberships_findByUserAndTenant u t (memberships_save m d) = memberships_findByUserAndTenant u t d"
    using assms by (auto simp: memberships_findByUserAndTenant_def memberships_save_def intro!: find_upsert_other)
  then show "roleIdsFor u t (memberships_save m d) = roleIdsFor u t d" by (simp add: roleIdsFor_def)
  have "roles_findById i (memberships_save m d) = roles_findById i d" for i
    by (simp add: roles_findById_def memberships_save_def)
  then show "resolve_step t (memberships_save m d) = resolve_step t d \<or>
      (\<forall>acc. resolve_step t (memberships_save m d) acc i = resolve_step t d acc i)" for i
    by (simp add: resolve_step_def fun_eq_iff)
qed

section \<open>Success and failure\<close>

lemma cached_cong: "w_cache w = w_cache w' \<Longrightarrow> w_now w = w_now w' \<Longrightarrow> cached w k = cached w' k"
  by (simp add: cached_def split: option.splits)

lemma cached_after_del:
  assumes "cached w' k = Some v" "w_cache w' = remove_row fst key (w_cache w)" "w_now w' = w_now w"
  shows "cached w k = Some v"
  using assms(1) cached_cong[of w' "w\<lparr>w_cache := remove_row fst key (w_cache w)\<rparr>" k] assms(2,3)
  by (simp split: if_splits)

lemma preservesI:
  assumes "quiet T m" "app_inv_ok env w" "\<forall>t \<in> T. known env (w_ids w) t"
    "\<And>x w'. m w = (Inr x, w') \<Longrightarrow> app_inv_ok env w'"
  shows "app_inv_ok env (snd (m w))"
proof (cases "m w")
  case (Pair r w')
  show ?thesis
  proof (cases r)
    case (Inl e)
    then have "carries T w w'" using assms(1) Pair by (auto simp: quiet_def)
    then show ?thesis using app_inv_carries assms(2,3) Pair by simp
  next
    case (Inr x)
    then show ?thesis using assms(4) Pair by simp
  qed
qed

text \<open>After the permission check the invariants still hold.\<close>

lemma require_inv:
  assumes "authz_require a p t w = (Inr (), w1)" "app_inv_ok env w" "known env (w_ids w) t" "CHR '':'' \<notin> set t"
  shows "app_inv_ok env w1"
proof -
  have "steady {t} (authz_require a p t)" using assms(4) by (intro steady_require) auto
  then have "carries {t} w w1" using assms(1) by (auto simp: steady_def)
  then show ?thesis using app_inv_carries assms(2,3) by blast
qed

text \<open>
  The invariants of the world after a write: the database part, and a cache whose surviving
  entries still agree.
\<close>

lemma app_invI:
  assumes "app_inv_ok env w1" "w_ids w1 \<le> w_ids w'"
    "ids_inv env (w_ids w') (w_db w')" "rows_inv (w_db w')" "owner_inv (w_db w')" "session_inv env (w_ids w') (w_db w')"
    "\<And>t u ps. CHR '':'' \<notin> set t \<Longrightarrow> cached w' (effectivePermissionsCacheKey t u) = Some ps \<Longrightarrow>
       cached w1 (effectivePermissionsCacheKey t u) = Some ps \<and>
       resolvePermissions u t (w_db w') = resolvePermissions u t (w_db w1)"
    "\<And>k v. cached w' k = Some v \<Longrightarrow> cached w1 k = Some v"
  shows "app_inv_ok env w'"
proof -
  have "key_cache_safe w'" using assms(1,8) by (auto simp: app_inv_ok_def intro: key_cache_safe_shrink)
  moreover
  have "user_cache_coherent w'" using assms(1,7) by (auto simp: app_inv_ok_def intro: coherentI_shrink)
  moreover have "cache_known env w'"
    using assms(1,2,7) unfolding app_inv_ok_def cache_known_def by (metis known_mono not_Some_eq)
  ultimately show ?thesis using assms by (simp add: app_inv_ok_def)
qed

lemma session_inv_mono: "session_inv env n d \<Longrightarrow> n \<le> n' \<Longrightarrow> session_inv env n' d"
  by (auto simp: session_inv_def intro: known_mono)

lemma ids_inv_fresh:
  assumes "ids_inv env n d" "n \<le> k"
  shows "genId env k \<notin> ent_id ` set (db_roles d)" "genId env k \<notin> ent_id ` set (db_memberships d)"
    "genId env k \<notin> ent_id ` set (db_tenants d)" "genId env k \<notin> ent_id ` set (db_invitations d)"
    "genId env k \<notin> ent_id ` set (db_users d)" "genId env k \<notin> ent_id ` set (db_apiKeys d)"
    "\<And>m. m \<in> set (db_memberships d) \<Longrightarrow> genId env k \<notin> set (m_roleIds m) \<and> m_tenantId m \<noteq> genId env k"
    "\<And>r. r \<in> set (db_roles d) \<Longrightarrow> r_tenantId r \<noteq> genId env k"
  using assms unfolding ids_inv_def known_def by (auto; metis)+

section \<open>Roles\<close>

lemma createCustomRole_preserves:
  assumes "inj (genId env)" "app_inv_ok env w" "known env (w_ids w) t" "CHR '':'' \<notin> set t"
  shows "app_inv_ok env (snd (createCustomRole env a t n ps w))"
proof (rule preservesI[OF _ assms(2)])
  show "quiet {t} (createCustomRole env a t n ps)" using assms(4) by (intro tenant_use_cases_quiet) auto
  show "\<forall>t \<in> {t}. known env (w_ids w) t" using assms(3) by simp
  fix v w' assume "createCustomRole env a t n ps w = (Inr v, w')"
  then obtain w1 i role where r: "authz_require a authorizationRolesManage t w = (Inr (), w1)" "same_but_cache w w1"
    "i = genId env (w_ids w)" "role_create i t (js_trim n) ps (w_now w) = Inr role"
    "w' = w1\<lparr>w_ids := Suc (w_ids w),
             w_db := (roles_save role (w_db w))\<lparr>db_outbox := db_outbox (w_db w) @ agg_events role\<rparr>\<rparr>"
    by (rule createCustomRole_Inr)
  have w1: "app_inv_ok env w1" by (rule require_inv[OF r(1) assms(2,3,4)])
  note sb = r(2)[unfolded same_but_cache_def]
  have role: "ent_id role = i" "r_tenantId role = t" "\<not> r_isSystem role" "role_wf role"
    using r(4) role_create_wf[OF r(4)] by (auto simp: role_create_Inr)
  have ids: "ids_inv env (w_ids w) (w_db w)" and rows: "rows_inv (w_db w)" and own: "owner_inv (w_db w)"
    and ses: "session_inv env (w_ids w) (w_db w)"
    using assms(2) by (auto simp: app_inv_ok_def)
  note fresh = ids_inv_fresh[OF ids order_refl]
  have k: "known env (Suc (w_ids w)) (ent_id role)" "known env (Suc (w_ids w)) (r_tenantId role)"
    using role r(3) known_issued[OF assms(1)] assms(3) by (auto intro: known_mono)
  have ids': "ids_inv env (Suc (w_ids w)) (w_db w)" using ids by (rule ids_inv_mono) simp
  note saved = save_role_inv[OF ids' rows role(4) k]
  have "owner_inv (roles_save role (w_db w))"
  proof (rule owner_inv_same_roles[OF own])
    show "map_option ent_id (OwnerRole_find t' (roles_save role (w_db w))) = map_option ent_id (OwnerRole_find t' (w_db w))" for t'
      using role fresh(1) r(3) by (intro arg_cong[where f = "map_option ent_id"] OwnerRole_find_save_custom) (auto simp: image_iff)
  qed (simp_all add: roles_save_def)
  moreover have "resolvePermissions u t' (roles_save role (w_db w)) = resolvePermissions u t' (w_db w)" for u t'
    using fresh(7) role(1) r(3) by (intro resolve_save_new_role) auto
  moreover have "session_inv env (Suc (w_ids w)) (roles_save role (w_db w))"
    using session_inv_mono[OF ses] by (simp add: roles_save_def)
  ultimately show "app_inv_ok env w'"
    using saved sb by (intro app_invI[OF w1]) (auto simp: r(5))
qed

lemma role_rename_fields:
  assumes "role_rename r n at = Inr r'"
  shows "ent_id r' = ent_id r" "r_tenantId r' = r_tenantId r" "\<not> r_isSystem r" "\<not> r_isSystem r'"
  using assms by (auto simp: role_rename_Inr)

lemma role_replacePermissions_fields:
  assumes "role_replacePermissions r ps at = Inr r'"
  shows "ent_id r' = ent_id r" "r_tenantId r' = r_tenantId r" "\<not> r_isSystem r" "\<not> r_isSystem r'"
  using assms by (auto simp: role_replacePermissions_Inr)

text \<open>The two optional steps of \<open>UpdateCustomRole\<close> together: a system role is left as it was.\<close>

lemma role_steps_fields:
  assumes "case nm of None \<Rightarrow> role1 = role0 | Some n \<Rightarrow> P n \<and> role_rename role0 (js_trim n) at = Inr role1"
    "case ps of None \<Rightarrow> role = role1 | Some p \<Rightarrow> role_replacePermissions role1 p at = Inr role"
  shows "ent_id role = ent_id role0 \<and> r_tenantId role = r_tenantId role0 \<and> r_isSystem role = r_isSystem role0 \<and>
    (role_wf role0 \<longrightarrow> role_wf role) \<and> (r_isSystem role0 \<longrightarrow> role = role0)"
proof -
  have 1: "ent_id role1 = ent_id role0 \<and> r_tenantId role1 = r_tenantId role0 \<and> r_isSystem role1 = r_isSystem role0 \<and>
    (role_wf role0 \<longrightarrow> role_wf role1) \<and> (r_isSystem role0 \<longrightarrow> role1 = role0)"
  proof (cases nm)
    case None
    then show ?thesis using assms(1) by simp
  next
    case (Some n)
    then have "role_rename role0 (js_trim n) at = Inr role1" using assms(1) by simp
    then show ?thesis using role_rename_fields role_rename_wf by blast
  qed
  show ?thesis
  proof (cases ps)
    case None
    then show ?thesis using assms(2) 1 by simp
  next
    case (Some p)
    then have "role_replacePermissions role1 p at = Inr role" using assms(2) by simp
    then show ?thesis using 1 role_replacePermissions_fields role_replacePermissions_wf by metis
  qed
qed

lemma find_id_in_table: "lookup_row ent_id i rows = Some r \<Longrightarrow> r \<in> set rows \<and> ent_id r = i"
  using lookup_row_Some by fastforce

lemma updateCustomRole_preserves:
  assumes "inj (genId env)" "app_inv_ok env w" "known env (w_ids w) t" "CHR '':'' \<notin> set t"
  shows "app_inv_ok env (snd (updateCustomRole env a t i nm ps w))"
proof (rule preservesI[OF _ assms(2)])
  show "quiet {t} (updateCustomRole env a t i nm ps)" using assms(4) by (intro tenant_use_cases_quiet) auto
  show "\<forall>t \<in> {t}. known env (w_ids w) t" using assms(3) by simp
  fix v w' assume "updateCustomRole env a t i nm ps w = (Inr v, w')"
  then obtain w1 w2 role0 role1 role where
    r: "authz_require a authorizationRolesManage t w = (Inr (), w1)" "same_but_cache w w1"
    and r0: "roles_findById i (w_db w) = Some role0" "r_tenantId role0 = t"
    and st: "case nm of None \<Rightarrow> role1 = role0
     | Some n \<Rightarrow> (\<forall>r \<in> set (roles_findByTenant t (w_db w)). ent_id r \<noteq> ent_id role0 \<longrightarrow> r_name r \<noteq> js_trim n) \<and>
         role_rename role0 (js_trim n) (w_now w) = Inr role1"
    "case ps of None \<Rightarrow> role = role1 | Some p \<Rightarrow> role_replacePermissions role1 p (w_now w) = Inr role"
    and w2: "w2 = w1\<lparr>w_db := (roles_save role (w_db w))\<lparr>db_outbox := db_outbox (w_db w) @ agg_events role\<rparr>\<rparr>"
    and inval: "authz_invalidateHoldersOf (ent_id role) t w2 = (Inr (), w')"
    by (rule updateCustomRole_Inr)
  have w1: "app_inv_ok env w1" by (rule require_inv[OF r(1) assms(2,3,4)])
  note sb = r(2)[unfolded same_but_cache_def]
  note f = role_steps_fields[OF st]
  have ids: "ids_inv env (w_ids w) (w_db w)" and rows: "rows_inv (w_db w)" and own: "owner_inv (w_db w)"
    and ses: "session_inv env (w_ids w) (w_db w)"
    using assms(2) by (auto simp: app_inv_ok_def)
  have mem: "role0 \<in> set (db_roles (w_db w))" "ent_id role0 = i"
    using r0(1) by (auto simp: roles_findById_def dest: find_id_in_table)
  have wf: "role_wf role" using rows mem f by (auto simp: rows_inv_def)
  have k: "known env (w_ids w) (ent_id role)" "known env (w_ids w) (r_tenantId role)"
    using ids mem f by (auto simp: ids_inv_def)
  note saved = save_role_inv[OF ids rows wf k]
  have own': "owner_inv (roles_save role (w_db w))"
  proof (rule owner_inv_same_roles[OF own])
    have "distinct (map ent_id (db_roles (w_db w)))" using rows by (simp add: rows_inv_def)
    then show "map_option ent_id (OwnerRole_find t' (roles_save role (w_db w))) = map_option ent_id (OwnerRole_find t' (w_db w))" for t'
      using f by (intro OwnerRole_find_save_same[OF mem(1)]) auto
  qed (simp_all add: roles_save_def)
  have ses': "session_inv env (w_ids w) (roles_save role (w_db w))" using ses by (simp add: roles_save_def)
  obtain w3 where w3: "authz_invalidateHoldersOf (ent_id role) t w2 = (Inr (), w3)" "same_but_cache w2 w3"
    "\<forall>k. cached w3 k = (if k \<in> (\<lambda>m. effectivePermissionsCacheKey t (m_userId m)) `
        set (memberships_findByTenantAndRole t (ent_id role) (w_db w2)) then None else cached w2 k)"
    by (rule authz_invalidateHoldersOf_eval[of "ent_id role" t w2])
  then have w': "w' = w3" using inval by simp
  have db': "w_db w' = (roles_save role (w_db w))\<lparr>db_outbox := db_outbox (w_db w) @ agg_events role\<rparr>" "w_ids w' = w_ids w"
    using w3(2) sb by (auto simp: w' w2 same_but_cache_def)
  have shrink: "cached w' k = Some v \<Longrightarrow> cached w1 k = Some v" for k v
    using w3(3) by (auto simp: w' w2 split: if_splits)
  have keep: "cached w1 (effectivePermissionsCacheKey t' u) = Some p \<and>
      resolvePermissions u t' (w_db w') = resolvePermissions u t' (w_db w1)"
    if c: "CHR '':'' \<notin> set t'" "cached w' (effectivePermissionsCacheKey t' u) = Some p" for t' u p
  proof -
    have nk: "effectivePermissionsCacheKey t' u \<notin> (\<lambda>m. effectivePermissionsCacheKey t (m_userId m)) `
        set (memberships_findByTenantAndRole t (ent_id role) (w_db w2))" and cw2: "cached w2 (effectivePermissionsCacheKey t' u) = Some p"
      using c(2) w3(3) by (auto simp: w' split: if_splits)
    have "ent_id role \<notin> set (m_roleIds m)"
      if "memberships_findByUserAndTenant u t' (w_db w) = Some m" "t' = r_tenantId role" for m
    proof
      assume h: "ent_id role \<in> set (m_roleIds m)"
      have "m \<in> set (db_memberships (w_db w))" "m_userId m = u" "m_tenantId m = t'"
        using that(1) by (auto simp: memberships_findByUserAndTenant_def dest: find_cong_key)
      then have "m \<in> set (memberships_findByTenantAndRole t (ent_id role) (w_db w2))" "m_userId m = u" "t' = t"
        using h that(2) f r0(2) by (auto simp: memberships_findByTenantAndRole_def w2 roles_save_def)
      then show False using nk by blast
    qed
    then have "resolvePermissions u t' (roles_save role (w_db w)) = resolvePermissions u t' (w_db w)"
      using r0 f mem(2) by (intro resolve_save_role[where ?r0.0 = role0]) auto
    then show ?thesis using cw2 sb by (simp add: db' w2)
  qed
  show "app_inv_ok env w'"
    by (rule app_invI[OF w1]) (use sb saved own' ses' keep shrink in \<open>auto simp: db'\<close>)
qed

lemma deleteCustomRole_preserves:
  assumes "app_inv_ok env w" "known env (w_ids w) t" "CHR '':'' \<notin> set t"
  shows "app_inv_ok env (snd (deleteCustomRole a t i w))"
proof (rule preservesI[OF _ assms(1)])
  show "quiet {t} (deleteCustomRole a t i)" using assms(3) by (intro tenant_use_cases_quiet) auto
  show "\<forall>t \<in> {t}. known env (w_ids w) t" using assms(2) by simp
  fix v w' assume "deleteCustomRole a t i w = (Inr v, w')"
  then obtain w1 role where
    r: "authz_require a authorizationRolesManage t w = (Inr (), w1)" "same_but_cache w w1"
    "roles_findById i (w_db w) = Some role" "r_tenantId role = t" "\<not> r_isSystem role" "ent_id role = i"
    "memberships_findByTenantAndRole t i (w_db w) = []"
    "w' = w1\<lparr>w_db := roles_delete i (w_db w)\<rparr>"
    by (rule deleteCustomRole_Inr)
  have w1: "app_inv_ok env w1" by (rule require_inv[OF r(1) assms])
  note sb = r(2)[unfolded same_but_cache_def]
  have inv: "ids_inv env (w_ids w) (w_db w)" "rows_inv (w_db w)" and own: "owner_inv (w_db w)"
    and ses: "session_inv env (w_ids w) (w_db w)"
    using assms(1) by (auto simp: app_inv_ok_def)
  note del = delete_role_inv[OF inv, of i]
  have mem: "role \<in> set (db_roles (w_db w))" using r(3) by (auto simp: roles_findById_def dest: find_id_in_table)
  have "y = role" if "y \<in> set (db_roles (w_db w))" "ent_id y = i" for y
    using that mem r(6) inv(2) by (auto simp: rows_inv_def distinct_map inj_on_def)
  then have "OwnerRole_find t' (roles_delete i (w_db w)) = OwnerRole_find t' (w_db w)" for t'
    using r(5) by (intro OwnerRole_find_delete_custom) auto
  then have own': "owner_inv (roles_delete i (w_db w))"
    by (intro owner_inv_same_roles[OF own]) (simp_all add: roles_delete_def)
  have ses': "session_inv env (w_ids w) (roles_delete i (w_db w))" using ses by (simp add: roles_delete_def)
  have "resolvePermissions u t' (roles_delete i (w_db w)) = resolvePermissions u t' (w_db w)" for u t'
    by (rule resolve_delete_role[OF r(7,3,4)])
  then show "app_inv_ok env w'"
    using sb del own' ses' by (intro app_invI[OF w1]) (auto simp: r(8))
qed

section \<open>Memberships\<close>

lemma assignable_known:
  assumes "OwnerRole_assertAssignable t ids d = Inr ()" "ids_inv env n d" "i \<in> set ids"
  shows "known env n i"
proof -
  obtain r where "roles_findById i d = Some r" using assertAssignable_Inr(1)[OF assms(1,3)] by blast
  then have "r \<in> set (db_roles d)" "ent_id r = i" by (auto simp: roles_findById_def dest: find_id_in_table)
  then show ?thesis using assms(2) by (auto simp: ids_inv_def)
qed

lemma no_membership:
  "memberships_findByUserAndTenant u t d = None \<Longrightarrow> y \<in> set (db_memberships d) \<Longrightarrow>
   \<not> (m_userId y = u \<and> m_tenantId y = t)"
  by (auto simp: memberships_findByUserAndTenant_def find_None_iff)

text \<open>A new membership of a user that has none in the tenant, whose cache entry is then dropped.\<close>

lemma new_membership_inv:
  assumes inj: "inj (genId env)" and w1: "app_inv_ok env w1"
    and none: "memberships_findByUserAndTenant u t (w_db w1) = None"
    and m: "ent_id m = genId env (w_ids w1)" "m_userId m = u" "m_tenantId m = t" "membership_wf m"
    and k: "known env (w_ids w1) t" "\<forall>i \<in> set (m_roleIds m). known env (w_ids w1) i"
    and d: "d = memberships_save m (w_db w1)"
    and w': "w_db w' = d\<lparr>db_outbox := ob\<rparr>" "w_ids w' = Suc (w_ids w1)" "w_now w' = w_now w1"
      "w_cache w' = remove_row fst (effectivePermissionsCacheKey t u) (w_cache w1)"
  shows "app_inv_ok env w'"
proof -
  have ids: "ids_inv env (w_ids w1) (w_db w1)" and rows: "rows_inv (w_db w1)" and own: "owner_inv (w_db w1)"
    and ses: "session_inv env (w_ids w1) (w_db w1)"
    using w1 by (auto simp: app_inv_ok_def)
  note fresh = ids_inv_fresh[OF ids order_refl]
  have ids': "ids_inv env (Suc (w_ids w1)) (w_db w1)" using ids by (rule ids_inv_mono) simp
  have kn: "known env (Suc (w_ids w1)) (ent_id m)" "known env (Suc (w_ids w1)) (m_tenantId m)"
    "\<forall>i \<in> set (m_roleIds m). known env (Suc (w_ids w1)) i"
    using m k known_issued[OF inj] by (auto intro: known_mono)
  have saved: "ids_inv env (Suc (w_ids w1)) d" "rows_inv d"
    unfolding d using save_membership_inv[OF ids' rows m(4) kn] no_membership[OF none] m(2,3) by blast+
  have own': "owner_inv d"
    unfolding d using fresh(2) m(1) by (intro owner_inv_new_membership own) simp
  have ses': "session_inv env (Suc (w_ids w1)) d"
    unfolding d using session_inv_mono[OF ses] by (simp add: memberships_save_def)
  have keep: "cached w1 (effectivePermissionsCacheKey t' u') = Some p \<and>
      resolvePermissions u' t' (w_db w') = resolvePermissions u' t' (w_db w1)"
    if c: "CHR '':'' \<notin> set t'" "cached w' (effectivePermissionsCacheKey t' u') = Some p" for t' u' p
  proof -
    have cw: "cached w' q = cached (w1\<lparr>w_cache := remove_row fst (effectivePermissionsCacheKey t u) (w_cache w1)\<rparr>) q" for q
      using w'(3,4) by (intro cached_cong) simp_all
    then have ne: "effectivePermissionsCacheKey t' u' \<noteq> effectivePermissionsCacheKey t u"
      and cw1: "cached w1 (effectivePermissionsCacheKey t' u') = Some p"
      using c(2) by (auto split: if_splits)
    have "ent_id y \<noteq> ent_id m" if "y \<in> set (db_memberships (w_db w1))" for y
      using that fresh(2) m(1) by (metis imageI)
    then have "resolvePermissions u' t' d = resolvePermissions u' t' (w_db w1)"
      unfolding d using ne m(2,3) by (intro resolve_save_membership) auto
    then show ?thesis using cw1 w'(1) by simp
  qed
  show ?thesis
    by (rule app_invI[OF w1]) (use w' saved own' ses' keep cached_after_del[OF _ w'(4,3)] in auto)
qed

lemma attachMember_preserves:
  assumes "inj (genId env)" "app_inv_ok env w" "known env (w_ids w) t" "CHR '':'' \<notin> set t"
  shows "app_inv_ok env (snd (attachMember env a t u rs w))"
proof (rule preservesI[OF _ assms(2)])
  show "quiet {t} (attachMember env a t u rs)" using assms(4) by (intro tenant_use_cases_quiet) auto
  show "\<forall>t \<in> {t}. known env (w_ids w) t" using assms(3) by simp
  fix v w' assume "attachMember env a t u rs w = (Inr v, w')"
  then obtain w1 user m where
    r: "authz_require a tenancyMembersManage t w = (Inr (), w1)" "same_but_cache w w1"
    "memberships_findByUserAndTenant u t (w_db w) = None"
    "OwnerRole_assertAssignable t rs (w_db w) = Inr ()"
    "membership_create (genId env (w_ids w)) t u rs (w_now w) = Inr m"
    "w' = w1\<lparr>w_ids := Suc (w_ids w),
       w_db := (memberships_save m (w_db w))\<lparr>db_outbox := db_outbox (w_db w) @ agg_events m\<rparr>,
       w_cache := remove_row fst (effectivePermissionsCacheKey t u) (w_cache w1)\<rparr>"
    by (rule attachMember_Inr)
  have w1: "app_inv_ok env w1" by (rule require_inv[OF r(1) assms(2,3,4)])
  note sb = r(2)[unfolded same_but_cache_def]
  have ids: "ids_inv env (w_ids w) (w_db w)" using assms(2) by (simp add: app_inv_ok_def)
  have m: "ent_id m = genId env (w_ids w)" "m_userId m = u" "m_tenantId m = t" "set (m_roleIds m) = set rs"
    using r(5) by (auto simp: membership_create_Inr)
  show "app_inv_ok env w'"
    by (rule new_membership_inv[OF assms(1) w1, of u t m "memberships_save m (w_db w1)"])
      (use r m sb assms(3,4) assignable_known[OF r(4) ids] membership_create_wf[OF r(5)] in auto)
qed

lemma replaceMembershipRoles_preserves:
  assumes "app_inv_ok env w" "known env (w_ids w) t" "CHR '':'' \<notin> set t"
  shows "app_inv_ok env (snd (replaceMembershipRoles a t i rs w))"
proof (rule preservesI[OF _ assms(1)])
  show "quiet {t} (replaceMembershipRoles a t i rs)" using assms(3) by (intro tenant_use_cases_quiet) auto
  show "\<forall>t \<in> {t}. known env (w_ids w) t" using assms(2) by simp
  fix v w' assume "replaceMembershipRoles a t i rs w = (Inr v, w')"
  then obtain w1 m0 m where
    r: "authz_require a tenancyMembersManage t w = (Inr (), w1)" "same_but_cache w w1"
    and m0: "memberships_findById i (w_db w) = Some m0" "m_tenantId m0 = t"
    and asg: "OwnerRole_assertAssignable t rs (w_db w) = Inr ()"
    and guard: "\<forall>r. OwnerRole_find t (w_db w) = Some r \<longrightarrow> ent_id r \<in> set (m_roleIds m0) \<longrightarrow>
       OwnerRole_countActive (filter (\<lambda>item. ent_id item \<noteq> ent_id m0) (memberships_findByTenant t (w_db w))) (ent_id r) \<noteq> 0"
    and rep: "membership_replaceRoleIds m0 rs (w_now w) = Inr m"
    and w': "w' = w1\<lparr>w_db := (memberships_save m (w_db w))\<lparr>db_outbox := db_outbox (w_db w) @ agg_events m\<rparr>,
       w_cache := remove_row fst (effectivePermissionsCacheKey t (m_userId m)) (w_cache w1)\<rparr>"
    by (rule replaceMembershipRoles_Inr)
  have w1: "app_inv_ok env w1" by (rule require_inv[OF r(1) assms])
  note sb = r(2)[unfolded same_but_cache_def]
  have ids: "ids_inv env (w_ids w) (w_db w)" and rows: "rows_inv (w_db w)" and own: "owner_inv (w_db w)"
    and ses: "session_inv env (w_ids w) (w_db w)"
    using assms(1) by (auto simp: app_inv_ok_def)
  have mem: "m0 \<in> set (db_memberships (w_db w))" "ent_id m0 = i"
    using m0(1) by (auto simp: memberships_findById_def dest: find_id_in_table)
  have m: "ent_id m = ent_id m0" "m_userId m = m_userId m0" "m_tenantId m = m_tenantId m0" "set (m_roleIds m) = set rs"
    using rep by (auto simp: membership_replaceRoleIds_Inr)
  have same: "y = m0" if "y \<in> set (db_memberships (w_db w))" "m_userId y = m_userId m0" "m_tenantId y = m_tenantId m0" for y
    using that mem rows by (auto simp: rows_inv_def inj_on_def)
  have same_id: "y = m0" if "y \<in> set (db_memberships (w_db w))" "ent_id y = ent_id m" for y
    using that mem m rows by (auto simp: rows_inv_def distinct_map inj_on_def)
  have kn: "known env (w_ids w) (ent_id m)" "known env (w_ids w) (m_tenantId m)" "\<forall>i \<in> set (m_roleIds m). known env (w_ids w) i"
    using ids mem m assignable_known[OF asg ids] by (auto simp: ids_inv_def)
  have saved: "ids_inv env (w_ids w) (memberships_save m (w_db w))" "rows_inv (memberships_save m (w_db w))"
    using save_membership_inv[OF ids rows membership_replaceRoleIds_wf[OF rep] kn] same m by metis+
  have own': "owner_inv (memberships_save m (w_db w))"
    using rows guard m0(2) m by (intro owner_inv_replace_membership[OF own mem(1)]) (auto simp: rows_inv_def)
  have ses': "session_inv env (w_ids w) (memberships_save m (w_db w))"
    using ses by (simp add: memberships_save_def)
  have shrink: "cached w' k = Some v \<Longrightarrow> cached w1 k = Some v" for k v
    by (erule cached_after_del) (simp_all add: w')
  have keep: "cached w1 (effectivePermissionsCacheKey t' u') = Some p \<and>
      resolvePermissions u' t' (w_db w') = resolvePermissions u' t' (w_db w1)"
    if c: "CHR '':'' \<notin> set t'" "cached w' (effectivePermissionsCacheKey t' u') = Some p" for t' u' p
  proof -
    have cw: "cached w' q = cached (w1\<lparr>w_cache := remove_row fst (effectivePermissionsCacheKey t (m_userId m)) (w_cache w1)\<rparr>) q" for q
      by (intro cached_cong) (simp_all add: w')
    then have ne: "effectivePermissionsCacheKey t' u' \<noteq> effectivePermissionsCacheKey t (m_userId m)"
      and cw1: "cached w1 (effectivePermissionsCacheKey t' u') = Some p"
      using c(2) by (auto split: if_splits)
    have "resolvePermissions u' t' (memberships_save m (w_db w)) = resolvePermissions u' t' (w_db w)"
    proof (rule resolve_save_membership)
      show "m_userId y = m_userId m \<and> m_tenantId y = m_tenantId m"
        if "y \<in> set (db_memberships (w_db w))" "ent_id y = ent_id m" for y
        using same_id[OF that] m by simp
      show "\<not> (u' = m_userId m \<and> t' = m_tenantId m)" using ne m(3) m0(2) by auto
    qed
    then show ?thesis using cw1 sb by (simp add: w')
  qed
  show "app_inv_ok env w'"
    by (rule app_invI[OF w1]) (use w' sb saved own' ses' keep shrink in auto)
qed

section \<open>A new tenant\<close>

lemma saveMany_fresh:
  assumes "distinct (map ent_id rs)" "\<forall>r \<in> set rs. ent_id r \<notin> ent_id ` set (db_roles d)"
  shows "roles_saveMany rs d = d\<lparr>db_roles := db_roles d @ map as_stored rs\<rparr>"
  using assms
proof (induction rs arbitrary: d)
  case (Cons r rs)
  have u: "roles_save r d = d\<lparr>db_roles := db_roles d @ [as_stored r]\<rparr>"
    using Cons.prems by (simp add: roles_save_def upsert_fresh)
  have "roles_saveMany rs (roles_save r d) = (roles_save r d)\<lparr>db_roles := db_roles (roles_save r d) @ map as_stored rs\<rparr>"
    using Cons.prems by (intro Cons.IH) (auto simp: u, metis imageI)
  then show ?case by (simp add: roles_saveMany_def u)
qed (simp add: roles_saveMany_def)

lemma createTenant_preserves:
  assumes "inj (genId env)" "app_inv_ok env w"
  shows "app_inv_ok env (snd (createTenant env name u w))"
proof (rule preservesI[OF _ assms(2)])
  show "quiet {} (createTenant env name u)" by (rule use_cases_quiet)
  show "\<forall>t \<in> {}. known env (w_ids w) t" by simp
  fix v w' assume "createTenant env name u w = (Inr v, w')"
  then obtain owner tenant rO rA rM m where
    ten: "tenant_create (genId env (w_ids w)) name (w_now w) = Inr tenant"
    and r: "rO = role_createSystemRole (genId env (w_ids w + 1)) (genId env (w_ids w)) Owner (w_now w)"
    "rA = role_createSystemRole (genId env (w_ids w + 2)) (genId env (w_ids w)) Admin (w_now w)"
    "rM = role_createSystemRole (genId env (w_ids w + 3)) (genId env (w_ids w)) Member (w_now w)"
    and m: "m = membership_createOwner (genId env (w_ids w + 4)) (genId env (w_ids w)) u (ent_id rO) (w_now w)"
    and w': "w' = w\<lparr>w_ids := w_ids w + 5,
       w_db := (memberships_save m (roles_saveMany [rO, rA, rM] (tenants_save tenant (w_db w))))
         \<lparr>db_outbox := db_outbox (w_db w) @ agg_events tenant @ agg_events rO @ agg_events rA @
            agg_events rM @ agg_events m\<rparr>\<rparr>"
    by (rule createTenant_Inr)
  let ?n = "w_ids w" let ?d = "w_db w" let ?tid = "genId env ?n"
  define d1 where "d1 = tenants_save tenant ?d"
  define d2 where "d2 = roles_saveMany [rO, rA, rM] d1"
  define d3 where "d3 = memberships_save m d2"
  have ids: "ids_inv env ?n ?d" and rows: "rows_inv ?d" and own: "owner_inv ?d"
    and ses: "session_inv env ?n ?d" and coh: "user_cache_coherent w" and ck: "cache_known env w"
    using assms(2) by (auto simp: app_inv_ok_def)
  note fresh = ids_inv_fresh[OF ids]
  have gne: "genId env i = genId env j \<longleftrightarrow> i = j" for i j using assms(1) by (auto dest: injD)
  have kn: "known env (?n + 5) (genId env k)" if "k < ?n + 5" for k using known_issued[OF assms(1) that] .
  have tid: "ent_id tenant = ?tid" using ten by (auto simp: tenant_create_Inr)
  have mf: "ent_id m = genId env (?n + 4)" "m_tenantId m = ?tid" "m_userId m = u" "m_status m = MActive"
    "m_roleIds m = [ent_id rO]"
    by (simp_all add: m membership_createOwner_def membership_instantiate_def record_event_def)
  have ids1: "ids_inv env (?n + 5) ?d" using ids by (rule ids_inv_mono) simp
  have s1: "ids_inv env (?n + 5) d1" "rows_inv d1"
    unfolding d1_def using save_tenant_inv[OF ids1 rows tenant_create_wf[OF ten]] tid kn by auto
  have saveR: "ids_inv env (?n + 5) (roles_save x y) \<and> rows_inv (roles_save x y)"
    if "ids_inv env (?n + 5) y" "rows_inv y" "x \<in> {rO, rA, rM}" for x y
    using save_role_inv[OF that(1,2)] that(3) r kn role_createSystemRole_wf by auto
  have s2: "ids_inv env (?n + 5) d2" "rows_inv d2"
    unfolding d2_def roles_saveMany_def using saveR s1 by auto
  have d2_eq: "d2 = d1\<lparr>db_roles := db_roles ?d @ map as_stored [rO, rA, rM]\<rparr>"
  proof -
    have "db_roles d1 = db_roles ?d" by (simp add: d1_def tenants_save_def)
    then show ?thesis unfolding d2_def
      using fresh(1) by (subst saveMany_fresh) (auto simp: r gne)
  qed
  have mems: "db_memberships d2 = db_memberships ?d" by (simp add: d2_eq d1_def tenants_save_def)
  have fm: "ent_id m \<notin> ent_id ` set (db_memberships d2)" using fresh(2) mf(1) mems by simp
  have nomem: "y \<in> set (db_memberships d2) \<Longrightarrow> m_tenantId y \<noteq> m_tenantId m" for y
    using fresh(7)[OF order_refl] mems mf(2) by auto
  have s3: "ids_inv env (?n + 5) d3" "rows_inv d3"
  proof -
    have "membership_wf m" by (simp add: m membership_createOwner_wf)
    moreover have "known env (?n + 5) (ent_id m)" "known env (?n + 5) (m_tenantId m)" "\<forall>i \<in> set (m_roleIds m). known env (?n + 5) i"
      using mf r kn by auto
    ultimately show "ids_inv env (?n + 5) d3" "rows_inv d3"
      unfolding d3_def using save_membership_inv[OF s2] nomem by blast+
  qed
  have d3_mems: "db_memberships d3 = db_memberships ?d @ [as_stored m]"
    using fm mems by (simp add: d3_def memberships_save_def upsert_fresh)
  have d3_roles: "db_roles d3 = db_roles ?d @ map as_stored [rO, rA, rM]"
    by (simp add: d3_def memberships_save_def d2_eq)
  have d3_tenants: "db_tenants d3 = db_tenants ?d @ [as_stored tenant]"
    using fresh(3)[OF order_refl] tid by (simp add: d3_def memberships_save_def d2_eq d1_def tenants_save_def upsert_fresh)
  have new: "has_active_owner ?tid d3"
  proof -
    have "find (\<lambda>r. r_tenantId r = ?tid \<and> r_isSystem r \<and> r_name r = ''Owner'') (db_roles ?d) = None"
      using fresh(8)[OF order_refl] by (auto simp: find_None_iff)
    then have "OwnerRole_find ?tid d3 = Some (as_stored rO)"
      by (simp add: OwnerRole_find_eq d3_roles find_append r systemRoleName_string_def)
    then show ?thesis using mf by (auto simp: has_active_owner_iff d3_mems)
  qed
  have old: "has_active_owner t d3" if "has_active_owner t ?d" for t
    using that by (auto simp: has_active_owner_iff OwnerRole_find_eq d3_roles d3_mems find_append)
  have own': "owner_inv d3"
    using own old new tid by (auto simp: owner_inv_def d3_tenants)
  have ses': "session_inv env (?n + 5) d3"
    using session_inv_mono[OF ses] by (simp add: d3_def memberships_save_def d2_eq d1_def tenants_save_def)
  have keep: "cached w (effectivePermissionsCacheKey t' u') = Some p \<and>
      resolvePermissions u' t' (w_db w') = resolvePermissions u' t' (w_db w)"
    if c: "CHR '':'' \<notin> set t'" "cached w' (effectivePermissionsCacheKey t' u') = Some p" for t' u' p
  proof -
    have cw: "cached w (effectivePermissionsCacheKey t' u') = Some p"
      using c(2) cached_cong[of w' w] by (simp add: w')
    then have "known env ?n t'" using ck c(1) by (auto simp: cache_known_def)
    then have tne: "t' \<noteq> ?tid" by (auto dest: known_neq)
    have "resolvePermissions u' t' d1 = resolvePermissions u' t' ?d" by (simp add: d1_def tenants_save_def)
    moreover have "resolvePermissions u' t' d2 = resolvePermissions u' t' d1"
    proof -
      have nr: "resolvePermissions u' t' (roles_save x y) = resolvePermissions u' t' y"
        if "x \<in> {rO, rA, rM}" "db_memberships y = db_memberships ?d" for x y
        using that fresh(7) r by (intro resolve_save_new_role) auto
      show ?thesis unfolding d2_def roles_saveMany_def
        by (simp add: nr roles_save_def[THEN arg_cong[where f = db_memberships]] d1_def tenants_save_def)
    qed
    moreover have "resolvePermissions u' t' d3 = resolvePermissions u' t' d2"
      unfolding d3_def using fm tne mf(2) by (intro resolve_save_membership) (auto simp: image_iff)
    ultimately show ?thesis using cw by (simp add: w' d1_def d2_def d3_def)
  qed
  show "app_inv_ok env w'"
  proof (rule app_invI[OF assms(2)])
    have dbw: "w_db w' = d3\<lparr>db_outbox := db_outbox ?d @ agg_events tenant @ agg_events rO @ agg_events rA @
        agg_events rM @ agg_events m\<rparr>" and idw: "w_ids w' = ?n + 5"
      by (simp_all add: w' d1_def d2_def d3_def)
    show "w_ids w \<le> w_ids w'" by (simp add: idw)
    show "ids_inv env (w_ids w') (w_db w')" "rows_inv (w_db w')" "owner_inv (w_db w')" "session_inv env (w_ids w') (w_db w')"
      unfolding dbw idw by (simp_all add: s3 own' ses')
    show "cached w' k = Some v \<Longrightarrow> cached w k = Some v" for k v
      using cached_cong[of w' w k] by (simp add: w')
  qed (rule keep)
qed

end
