(* ===== verification/Preservation2.thy ===== *)
theory Preservation2
  imports Preservation
begin

text \<open>
  The use cases on invitations, users, passwords, sessions and API keys keep the invariants; with
  the inversion of each successful run.
\<close>

lemma app_inv_tables:
  assumes "app_inv_ok env w" "w_ids w \<le> w_ids w'" "\<And>k v. cached w' k = Some v \<Longrightarrow> cached w k = Some v"
    "db_tenants (w_db w') = db_tenants (w_db w)" "db_roles (w_db w') = db_roles (w_db w)"
    "db_memberships (w_db w') = db_memberships (w_db w)"
    "ids_inv env (w_ids w') (w_db w')" "rows_inv (w_db w')" "session_inv env (w_ids w') (w_db w')"
  shows "app_inv_ok env w'"
proof (rule app_invI[OF assms(1)])
  have own: "owner_inv (w_db w)" using assms(1) by (simp add: app_inv_ok_def)
  show "owner_inv (w_db w')"
    by (rule owner_inv_same_roles[OF own]) (simp_all add: OwnerRole_find_eq assms(4,5,6))
  have "resolvePermissions u t (w_db w') = resolvePermissions u t (w_db w)" for u t
    by (simp add: resolvePermissions_def roleIdsFor_def roles_findByIds_def roles_findById_def
        memberships_findByUserAndTenant_def assms(5,6))
  then show "cached w (effectivePermissionsCacheKey t u) = Some ps \<and> resolvePermissions u t (w_db w') = resolvePermissions u t (w_db w)"
    if "cached w' (effectivePermissionsCacheKey t u) = Some ps" for t u ps
    using assms(3)[OF that] by simp
qed (fact assms)+

text \<open>Sessions, passwords and reset tokens are outside the row invariants.\<close>

lemma app_inv_side_tables:
  assumes "app_inv_ok env w" "w_ids w \<le> w_ids w'" "\<And>k v. cached w' k = Some v \<Longrightarrow> cached w k = Some v"
    "w_db w' = (w_db w)\<lparr>db_passwords := ps, db_resetTokens := rt\<rparr>"
  shows "app_inv_ok env w'"
  by (rule app_inv_tables[OF assms(1,2)])
    (use assms in \<open>auto simp: app_inv_ok_def intro: ids_inv_mono session_inv_mono\<close>)

lemma app_inv_sessions:
  assumes "app_inv_ok env w" "w_ids w \<le> w_ids w'" "\<And>k v. cached w' k = Some v \<Longrightarrow> cached w k = Some v"
    "w_db w' = (w_db w)\<lparr>db_sessions := ss, db_passwords := ps, db_resetTokens := rt\<rparr>"
    "session_inv env (w_ids w') (w_db w')"
  shows "app_inv_ok env w'"
  by (rule app_inv_tables[OF assms(1,2)])
    (use assms in \<open>auto simp: app_inv_ok_def intro: ids_inv_mono\<close>)

section \<open>Invitations\<close>

lemma find_in: "find P xs = Some x \<Longrightarrow> x \<in> set xs" "find P xs = Some x \<Longrightarrow> P x"
  by (auto dest: find_cong_key)

lemma inviteMember_preserves:
  assumes "inj (genId env)" "app_inv_ok env w" "known env (w_ids w) t" "CHR '':'' \<notin> set t"
  shows "app_inv_ok env (snd (inviteMember env a t e rs w))"
proof (rule preservesI[OF _ assms(2)])
  show "quiet {t} (inviteMember env a t e rs)" using assms(4) by (intro tenant_use_cases_quiet) auto
  show "\<forall>t \<in> {t}. known env (w_ids w) t" using assms(3) by simp
  fix v w' assume "inviteMember env a t e rs w = (Inr v, w')"
  then obtain w1 inviter d iv where
    r: "authz_require a tenancyMembersInvite t w = (Inr (), w1)" "same_but_cache w w1"
    and asg: "OwnerRole_assertAssignable t rs (w_db w) = Inr ()"
    and pend: "case invitations_findActiveByTenantAndEmail t (js_lower (js_trim e)) (w_db w) of
       None \<Rightarrow> d = w_db w
     | Some p \<Rightarrow> \<not> invitation_isActive p (w_now w) \<and> (\<exists>p'. invitation_supersede p (w_now w) = Inr p' \<and> d = invitations_save p' (w_db w))"
    and cr: "invitation_create (genId env (Suc (w_ids w))) t (js_lower (js_trim e)) rs (digest env (genId env (w_ids w)))
       (w_now w + INVITATION_TTL_MS) inviter (w_now w) = Inr iv"
    and w': "w' = w1\<lparr>w_ids := w_ids w + 2,
       w_db := (invitations_save iv d)\<lparr>db_outbox := db_outbox (w_db w) @ agg_events iv\<rparr>,
       w_mails := w_mails w @ [\<lparr>mail_to = js_lower (js_trim e), mail_subject = ''Tenant invitation'',
         mail_text = ''invitation token: '' @ genId env (w_ids w)\<rparr>]\<rparr>"
    by (rule inviteMember_Inr)
  have w1: "app_inv_ok env w1" by (rule require_inv[OF r(1) assms(2,3,4)])
  note sb = r(2)[unfolded same_but_cache_def]
  have ids: "ids_inv env (w_ids w) (w_db w)" and rows: "rows_inv (w_db w)" and ses: "session_inv env (w_ids w) (w_db w)"
    using assms(2) by (auto simp: app_inv_ok_def)
  have d: "ids_inv env (w_ids w) d \<and> rows_inv d \<and> db_tenants d = db_tenants (w_db w) \<and> db_roles d = db_roles (w_db w) \<and>
      db_memberships d = db_memberships (w_db w) \<and> db_sessions d = db_sessions (w_db w)"
  proof (cases "invitations_findActiveByTenantAndEmail t (js_lower (js_trim e)) (w_db w)")
    case None
    then show ?thesis using pend ids rows by simp
  next
    case (Some p)
    then obtain p' where p': "invitation_supersede p (w_now w) = Inr p'" "d = invitations_save p' (w_db w)"
      using pend by auto
    have mem: "p \<in> set (db_invitations (w_db w))"
      using Some by (auto simp: invitations_findActiveByTenantAndEmail_def Let_def dest: find_in)
    have "invitation_wf p'" "ent_id p' = ent_id p" "i_tenantId p' = i_tenantId p" "i_roleIds p' = i_roleIds p"
      using p'(1) mem rows by (auto simp: invitation_supersede_Inr rows_inv_def invitation_wf_def)
    moreover have "known env (w_ids w) (ent_id p)" "known env (w_ids w) (i_tenantId p)" "\<forall>i \<in> set (i_roleIds p). known env (w_ids w) i"
      using ids mem by (auto simp: ids_inv_def)
    ultimately have "ids_inv env (w_ids w) (invitations_save p' (w_db w))" "rows_inv (invitations_save p' (w_db w))"
      using save_invitation_inv[OF ids rows, of p'] by simp_all
    then show ?thesis by (simp add: p'(2) invitations_save_def)
  qed
  have f: "ent_id iv = genId env (Suc (w_ids w))" "i_tenantId iv = t" "set (i_roleIds iv) = set rs"
    using cr by (auto simp: invitation_create_def normalizeRoleIds_Inr record_event_def)
  have idsd: "ids_inv env (w_ids w + 2) d" using d by (auto intro: ids_inv_mono)
  have kn: "known env (w_ids w + 2) (ent_id iv)" "known env (w_ids w + 2) (i_tenantId iv)"
    "\<forall>i \<in> set (i_roleIds iv). known env (w_ids w + 2) i"
    using f known_issued[OF assms(1)] known_mono[OF assms(3)] known_mono[OF assignable_known[OF asg ids]] by auto
  have saved: "ids_inv env (w_ids w + 2) (invitations_save iv d)" "rows_inv (invitations_save iv d)"
    using save_invitation_inv[OF idsd _ invitation_create_wf[OF cr] kn] d by blast+
  have ses': "session_inv env (w_ids w + 2) (w_db w)" using ses by (rule session_inv_mono) simp
  show "app_inv_ok env w'"
  proof (rule app_inv_tables[OF w1])
    show "cached w1 k = Some v" if "cached w' k = Some v" for k v
      using that cached_cong[of w' w1 k] by (simp add: w')
    show "session_inv env (w_ids w') (w_db w')"
      using ses' d by (simp add: w' invitations_save_def session_inv_def)
  qed (use sb d saved in \<open>simp_all add: w' invitations_save_def\<close>)
qed

lemma no_user: "users_findByEmail e d = None \<Longrightarrow> y \<in> set (db_users d) \<Longrightarrow> u_email y \<noteq> js_lower (js_trim e)"
  by (auto simp: users_findByEmail_def Let_def find_None_iff)

text \<open>A new user with an address that no row has.\<close>

lemma new_user_inv:
  assumes inj: "inj (genId env)" and w: "app_inv_ok env w" and none: "users_findByEmail e (w_db w) = None"
    and cr: "user_create (genId env (w_ids w)) e dn at = Inr u"
    and w': "w_ids w' = Suc (w_ids w)" "w_cache w' = w_cache w" "w_now w' = w_now w"
      "w_db w' = (users_save u (w_db w))\<lparr>db_passwords := ps, db_outbox := ob\<rparr>"
  shows "app_inv_ok env w'"
proof -
  have ids: "ids_inv env (Suc (w_ids w)) (w_db w)" and rows: "rows_inv (w_db w)" and ses: "session_inv env (Suc (w_ids w)) (w_db w)"
    using w by (auto simp: app_inv_ok_def intro: ids_inv_mono session_inv_mono)
  have f: "ent_id u = genId env (w_ids w)" "u_email u = js_lower (js_trim e)" using cr by (auto simp: user_create_Inr)
  have "known env (Suc (w_ids w)) (ent_id u)" using f(1) known_issued[OF inj] by simp
  then have saved: "ids_inv env (Suc (w_ids w)) (users_save u (w_db w))" "rows_inv (users_save u (w_db w))"
    using save_user_inv[OF ids rows user_create_wf[OF cr]] no_user[OF none] f(2) by metis+
  show ?thesis
  proof (rule app_inv_tables[OF w])
    show "cached w k = Some v" if "cached w' k = Some v" for k v
      using that cached_cong[of w' w k] w'(2,3) by simp
  qed (use saved ses w' in \<open>simp_all add: users_save_def\<close>)
qed

lemma createUser_Inr:
  assumes "createUser env e dn w = (Inr i, w')"
  obtains u where "users_findByEmail (js_lower (js_trim e)) (w_db w) = None"
    "user_create (genId env (w_ids w)) e dn (w_now w) = Inr u" "i = ent_id u"
    "w' = w\<lparr>w_ids := Suc (w_ids w), w_db := (users_save u (w_db w))\<lparr>db_outbox := db_outbox (w_db w) @ agg_events u\<rparr>\<rparr>"
  using assms by (auto simp: createUser_def Let_def app_run app_succeeds users_save_def)

lemma registerUser_Inr:
  assumes "registerUser env e dn pw w = (Inr i, w')"
  obtains u where "MIN_PASSWORD_LENGTH \<le> length pw" "users_findByEmail (js_lower (js_trim e)) (w_db w) = None"
    "user_create (genId env (w_ids w)) e dn (w_now w) = Inr u" "i = ent_id u"
    "w' = w\<lparr>w_ids := Suc (w_ids w), w_salt := Suc (w_salt w),
       w_db := (passwords_save (localPassword_create (ent_id u) (hashPw env (w_salt w) pw)) (users_save u (w_db w)))
         \<lparr>db_outbox := db_outbox (w_db w) @ agg_events u\<rparr>\<rparr>"
  using assms by (auto simp: registerUser_def Let_def app_run app_succeeds users_save_def passwords_save_def)

lemma findByEmail_normal: "users_findByEmail (js_lower (js_trim e)) d = users_findByEmail e d"
  by (simp add: users_findByEmail_def js_trim_lower)

lemma createUser_preserves:
  assumes "inj (genId env)" "app_inv_ok env w"
  shows "app_inv_ok env (snd (createUser env e dn w))"
proof (rule preservesI[OF use_cases_quiet(2) assms(2)])
  show "\<forall>t \<in> {}. known env (w_ids w) t" by simp
  fix i w' assume "createUser env e dn w = (Inr i, w')"
  then obtain u where "users_findByEmail e (w_db w) = None" "user_create (genId env (w_ids w)) e dn (w_now w) = Inr u"
    "w' = w\<lparr>w_ids := Suc (w_ids w), w_db := (users_save u (w_db w))\<lparr>db_outbox := db_outbox (w_db w) @ agg_events u\<rparr>\<rparr>"
    by (rule createUser_Inr[unfolded findByEmail_normal])
  then show "app_inv_ok env w'"
    by (intro new_user_inv[OF assms, of e dn "w_now w" u w' "db_outbox (w_db w) @ agg_events u" "db_passwords (w_db w)"])
      (auto simp: users_save_def)
qed

lemma registerUser_preserves:
  assumes "inj (genId env)" "app_inv_ok env w"
  shows "app_inv_ok env (snd (registerUser env e dn pw w))"
proof (rule preservesI[OF use_cases_quiet(3) assms(2)])
  show "\<forall>t \<in> {}. known env (w_ids w) t" by simp
  fix i w' assume "registerUser env e dn pw w = (Inr i, w')"
  then obtain u where "users_findByEmail e (w_db w) = None" "user_create (genId env (w_ids w)) e dn (w_now w) = Inr u"
    "w' = w\<lparr>w_ids := Suc (w_ids w), w_salt := Suc (w_salt w),
       w_db := (passwords_save (localPassword_create (ent_id u) (hashPw env (w_salt w) pw)) (users_save u (w_db w)))
         \<lparr>db_outbox := db_outbox (w_db w) @ agg_events u\<rparr>\<rparr>"
    by (rule registerUser_Inr[unfolded findByEmail_normal])
  then show "app_inv_ok env w'"
    by (intro new_user_inv[OF assms, of e dn "w_now w" u w' "db_outbox (w_db w) @ agg_events u"
          "db_passwords (passwords_save (localPassword_create (ent_id u) (hashPw env (w_salt w) pw)) (users_save u (w_db w)))"])
      (auto simp: users_save_def passwords_save_def)
qed

section \<open>Accepting an invitation\<close>

lemma registered_inv:
  assumes "inj (genId env)" "app_inv_ok env w" "registered env iv dn pw w u w1 evs"
  shows "app_inv_ok env w1" "db_invitations (w_db w1) = db_invitations (w_db w)" "w_now w1 = w_now w"
    "w_ids w \<le> w_ids w1" "w_cache w1 = w_cache w"
proof -
  have "app_inv_ok env w1 \<and> db_invitations (w_db w1) = db_invitations (w_db w) \<and> w_now w1 = w_now w \<and>
      w_ids w \<le> w_ids w1 \<and> w_cache w1 = w_cache w"
  proof (cases "users_findByEmail (i_email iv) (w_db w)")
    case (Some u0)
    then show ?thesis using assms(2,3) by (simp add: registered_def)
  next
    case None
    then obtain dn' pw' where cr: "user_create (genId env (w_ids w)) (i_email iv) dn' (w_now w) = Inr u"
      and w1: "w1 = w\<lparr>w_ids := Suc (w_ids w), w_salt := Suc (w_salt w),
                w_db := passwords_save (localPassword_create (ent_id u) (hashPw env (w_salt w) pw')) (users_save u (w_db w))\<rparr>"
      using assms(3) by (auto simp: registered_def)
    have "app_inv_ok env w1"
      by (rule new_user_inv[OF assms(1,2) None cr, of w1 "db_outbox (w_db w)" "db_passwords (w_db w1)"])
        (simp_all add: w1 users_save_def passwords_save_def)
    then show ?thesis by (simp add: w1 users_save_def passwords_save_def)
  qed
  then show "app_inv_ok env w1" "db_invitations (w_db w1) = db_invitations (w_db w)" "w_now w1 = w_now w"
    "w_ids w \<le> w_ids w1" "w_cache w1 = w_cache w" by auto
qed

lemma acceptInvitation_preserves:
  assumes "inj (genId env)" "app_inv_ok env w"
  shows "app_inv_ok env (snd (acceptInvitation env token dn pw w))"
proof (rule preservesI[OF use_cases_quiet(6) assms(2)])
  show "\<forall>t \<in> {}. known env (w_ids w) t" by simp
  fix v w' assume "acceptInvitation env token dn pw w = (Inr v, w')"
  then obtain iv0 u w1 evs m iv where
    found: "invitations_findByTokenHash (digest env token) (w_db w) = Some iv0"
    and reg: "registered env iv0 dn pw w u w1 evs"
    and none: "memberships_findByUserAndTenant (ent_id u) (i_tenantId iv0) (w_db w1) = None"
    and mc: "membership_create (genId env (w_ids w1)) (i_tenantId iv0) (ent_id u) (i_roleIds iv0) (w_now w) = Inr m"
    and con: "invitation_consume iv0 (w_now w) = Inr iv"
    and w': "w' = w1\<lparr>w_ids := Suc (w_ids w1),
       w_db := (invitations_save iv (memberships_save m (w_db w1)))
         \<lparr>db_outbox := db_outbox (w_db w1) @ evs @ agg_events m @ agg_events iv\<rparr>,
       w_cache := remove_row fst (effectivePermissionsCacheKey (i_tenantId iv) (ent_id u)) (w_cache w1)\<rparr>"
    by (rule acceptInvitation_Inr)
  note r = registered_inv[OF assms reg]
  have ids: "ids_inv env (w_ids w1) (w_db w1)" and rows: "rows_inv (w_db w1)" using r(1) by (auto simp: app_inv_ok_def)
  have mem: "iv0 \<in> set (db_invitations (w_db w1))"
    using found r(2) by (auto simp: invitations_findByTokenHash_def dest: find_in)
  have m: "ent_id m = genId env (w_ids w1)" "m_userId m = ent_id u" "m_tenantId m = i_tenantId iv0" "set (m_roleIds m) = set (i_roleIds iv0)"
    using mc by (auto simp: membership_create_Inr)
  have ivf: "ent_id iv = ent_id iv0" "i_tenantId iv = i_tenantId iv0" "i_roleIds iv = i_roleIds iv0" "invitation_wf iv"
    using con mem rows by (auto simp: invitation_consume_Inr rows_inv_def invitation_wf_def)
  define w2 where "w2 = w1\<lparr>w_ids := Suc (w_ids w1),
       w_db := (memberships_save m (w_db w1))\<lparr>db_outbox := db_outbox (w_db w1)\<rparr>,
       w_cache := remove_row fst (effectivePermissionsCacheKey (i_tenantId iv0) (ent_id u)) (w_cache w1)\<rparr>"
  have kn: "known env (w_ids w1) (i_tenantId iv0)" "\<forall>i \<in> set (m_roleIds m). known env (w_ids w1) i" "known env (w_ids w1) (ent_id iv0)"
    using ids mem m(4) by (auto simp: ids_inv_def)
  have w2: "app_inv_ok env w2"
    by (rule new_membership_inv[OF assms(1) r(1) none m(1,2,3) membership_create_wf[OF mc] kn(1,2) refl])
      (simp_all add: w2_def)
  have inv2: "ids_inv env (Suc (w_ids w1)) (w_db w2)" "rows_inv (w_db w2)" "session_inv env (Suc (w_ids w1)) (w_db w2)"
    using w2 by (auto simp: app_inv_ok_def w2_def)
  have kn2: "known env (Suc (w_ids w1)) (ent_id iv)" "known env (Suc (w_ids w1)) (i_tenantId iv)"
    "\<forall>i \<in> set (i_roleIds iv). known env (Suc (w_ids w1)) i"
    using kn ivf m(4) known_mono[of env "w_ids w1" _ "Suc (w_ids w1)"] by auto
  note saved = save_invitation_inv[OF inv2(1,2) ivf(4) kn2]
  have eq: "w_db w' = (invitations_save iv (w_db w2))\<lparr>db_outbox := db_outbox (w_db w1) @ evs @ agg_events m @ agg_events iv\<rparr>"
    by (simp add: w' w2_def invitations_save_def memberships_save_def)
  show "app_inv_ok env w'"
  proof (rule app_inv_tables[OF w2])
    show "cached w2 k = Some v" if "cached w' k = Some v" for k v
      using that cached_cong[of w' w2 k] by (simp add: w' w2_def ivf)
    show "ids_inv env (w_ids w') (w_db w')" "rows_inv (w_db w')" "session_inv env (w_ids w') (w_db w')"
      using saved inv2(3) unfolding eq by (simp_all add: w' invitations_save_def)
  qed (simp_all add: eq invitations_save_def, simp add: w' w2_def)
qed

section \<open>API keys\<close>

lemma createApiKey_Inr:
  assumes "createApiKey env actor t n ps x w = (Inr v, w')"
  obtains u w1 w2 key where
    "actor = userActor u" "authz_require actor identityApiKeysManage t w = (Inr (), w1)"
    "getEffectivePermissions u t w1 = (Inr (answers w1 actor t), w2)"
    "assertHeld (answers w1 actor t) ps = Inr ()"
    "apiKey_create (genId env (Suc (Suc (w_ids w2)))) t u n (token_displayPrefix (token_compactId (genId env (w_ids w2))))
       (digest env (snd v)) ps (w_now w2) x = Inr key"
    "v = (ent_id key, token_create (token_compactId (genId env (w_ids w2))) (filter (\<lambda>c. c \<noteq> CHR ''-'') (genId env (Suc (w_ids w2)))))"
    "w' = w2\<lparr>w_ids := w_ids w2 + 3, w_db := (apiKeys_save key (w_db w2))\<lparr>db_outbox := db_outbox (w_db w2) @ agg_events key\<rparr>\<rparr>"
proof -
  obtain w1 where w1: "authz_require actor identityApiKeysManage t w = (Inr (), w1)"
    using assms unfolding createApiKey_def thenA_Inr by auto
  obtain u where u: "actor = userActor u"
    using assms w1 by (cases actor) (auto simp: createApiKey_def)
  obtain w2 where w2: "getEffectivePermissions u t w1 = (Inr (answers w1 (userActor u) t), w2)"
    by (rule getEffectivePermissions_eval[of u t w1])
  have outbox: "db_outbox (apiKeys_save k d) = db_outbox d" for k d by (simp add: apiKeys_save_def)
  show thesis
    using assms w1 u w2 that[OF u w1]
    by (auto simp: createApiKey_def Let_def app_run app_succeeds outbox)
qed

lemma actor_cases_known: "known env n t \<Longrightarrow> \<forall>t' \<in> {t}. known env n t'"
  by simp

lemma steady_inv:
  assumes "steady {t} m" "m w = (r, w1)" "app_inv_ok env w" "known env (w_ids w) t"
  shows "app_inv_ok env w1" "w_db w1 = w_db w" "w_now w1 = w_now w" "w_ids w \<le> w_ids w1"
proof -
  have c: "carries {t} w w1" using assms(1,2) by (auto simp: steady_def)
  then show "w_db w1 = w_db w" "w_now w1 = w_now w" "w_ids w \<le> w_ids w1" by (auto simp: carries_def)
  show "app_inv_ok env w1" using app_inv_carries[OF assms(3) c] assms(4) by simp
qed

text \<open>Saving a well-formed key under a known id.\<close>

lemma apiKey_world_inv:
  assumes "app_inv_ok env w1" "apiKey_wf key" "known env (w_ids w') (ent_id key)" "w_ids w1 \<le> w_ids w'"
    "w_db w' = (apiKeys_save key (w_db w1))\<lparr>db_outbox := ob\<rparr>" "\<And>k v. cached w' k = Some v \<Longrightarrow> cached w1 k = Some v"
  shows "app_inv_ok env w'"
proof -
  have inv: "ids_inv env (w_ids w') (w_db w1)" "rows_inv (w_db w1)" "session_inv env (w_ids w') (w_db w1)"
    using assms(1,4) by (auto simp: app_inv_ok_def intro: ids_inv_mono session_inv_mono)
  note saved = save_apiKey_inv[OF inv(1,2) assms(2,3)]
  show ?thesis
    by (rule app_inv_tables[OF assms(1,4,6)]) (use saved inv(3) assms(5) in \<open>simp_all add: apiKeys_save_def\<close>)
qed

lemma createApiKey_preserves:
  assumes "inj (genId env)" "app_inv_ok env w" "known env (w_ids w) t" "CHR '':'' \<notin> set t"
  shows "app_inv_ok env (snd (createApiKey env a t n ps x w))"
proof (rule preservesI[OF tenant_use_cases_quiet(7)[OF assms(4)] assms(2)])
  show "t \<in> {t}" by simp
  show "\<forall>t \<in> {t}. known env (w_ids w) t" using assms(3) by simp
  fix v w' assume "createApiKey env a t n ps x w = (Inr v, w')"
  then obtain u w1 w2 key where
    r: "authz_require a identityApiKeysManage t w = (Inr (), w1)"
    "getEffectivePermissions u t w1 = (Inr (answers w1 a t), w2)"
    and cr: "apiKey_create (genId env (Suc (Suc (w_ids w2)))) t u n (token_displayPrefix (token_compactId (genId env (w_ids w2))))
       (digest env (snd v)) ps (w_now w2) x = Inr key"
    and w': "w' = w2\<lparr>w_ids := w_ids w2 + 3, w_db := (apiKeys_save key (w_db w2))\<lparr>db_outbox := db_outbox (w_db w2) @ agg_events key\<rparr>\<rparr>"
    by (rule createApiKey_Inr)
  have s1: "steady {t} (authz_require a identityApiKeysManage t)" "steady {t} (getEffectivePermissions u t)"
    using assms(4) by (auto intro!: quiet_intros)
  note i1 = steady_inv[OF s1(1) r(1) assms(2,3)]
  note i2 = steady_inv[OF s1(2) r(2) i1(1) known_mono[OF assms(3) i1(4)]]
  have "ent_id key = genId env (Suc (Suc (w_ids w2)))" using cr by (auto simp: apiKey_create_Inr)
  then have "known env (w_ids w') (ent_id key)" using known_issued[OF assms(1)] by (simp add: w')
  then show "app_inv_ok env w'"
    by (rule apiKey_world_inv[OF i2(1) apiKey_create_wf[OF cr]]) (auto simp: w')
qed

end
