(* ===== verification/Sessions.thy ===== *)
theory Sessions
  imports Preservation2
begin

text \<open>
  Inversion and preservation for the API-key updates and for everything that touches refresh
  sessions, passwords and reset tokens; and the revocation of sessions.
\<close>

section \<open>Updating and revoking API keys\<close>

lemma apiKey_find_mem: "apiKeys_findById i d = Some k \<Longrightarrow> k \<in> set (db_apiKeys d) \<and> ent_id k = i"
  by (auto simp: apiKeys_findById_def dest: find_id_in_table)

lemma updateApiKey_Inr:
  assumes "updateApiKey actor t i nm ps w = (Inr v, w')"
  obtains w1 w2 key0 key1 key where
    "authz_require actor identityApiKeysManage t w = (Inr (), w1)"
    "case (ps, actor) of
       (Some p, userActor u) \<Rightarrow> getEffectivePermissions u t w1 = (Inr (answers w1 actor t), w2) \<and>
          assertHeld (answers w1 actor t) p = Inr ()
     | _ \<Rightarrow> w2 = w1"
    "apiKeys_findById i (w_db w2) = Some key0" "k_tenantId key0 = t"
    "(case nm of None \<Rightarrow> Inr key0 | Some n \<Rightarrow> apiKey_rename key0 n) = Inr key1"
    "(case ps of None \<Rightarrow> Inr key1 | Some p \<Rightarrow> apiKey_replacePermissions key1 p (w_now w2)) = Inr key"
    "v = apiKeyView_of key"
    "w' = w2\<lparr>w_db := (apiKeys_save key (w_db w2))\<lparr>db_outbox := db_outbox (w_db w2) @ agg_events key\<rparr>,
             w_cache := remove_row fst (apiKeyPermissionsCacheKey t (ent_id key)) (w_cache w2)\<rparr>"
proof -
  have outbox: "db_outbox (apiKeys_save k d) = db_outbox d" for k d by (simp add: apiKeys_save_def)
  obtain w1 where w1: "authz_require actor identityApiKeysManage t w = (Inr (), w1)"
    using assms unfolding updateApiKey_def thenA_Inr by auto
  define guard :: "unit app" where "guard = (case (ps, actor) of
         (Some ps, userActor u) \<Rightarrow>
           bindA (getEffectivePermissions u t) (\<lambda>creatorPermissions. liftR (assertHeld creatorPermissions ps))
       | _ \<Rightarrow> returnA ())"
  define body :: "apiKeyView app" where "body = uow_run (
       bindA (readDb (apiKeys_findById i)) (\<lambda>found. case found of
         None \<Rightarrow> throwA ApiKeyNotFoundError
       | Some key0 \<Rightarrow>
         thenA (throwIfA (k_tenantId key0 \<noteq> t) ApiKeyNotFoundError) (
         bindA (liftR (case nm of None \<Rightarrow> Inr key0 | Some n \<Rightarrow> apiKey_rename key0 n)) (\<lambda>key1.
         bindA clock_now (\<lambda>now.
         bindA (liftR (case ps of None \<Rightarrow> Inr key1 | Some ps \<Rightarrow> apiKey_replacePermissions key1 ps now)) (\<lambda>key.
         thenA (updDb (apiKeys_save key)) (
         thenA (collector_publish (collect [] [key])) (
         thenA (authz_invalidateApiKey (ent_id key) t) (
         returnA (apiKeyView_of key))))))))))"
  have "updateApiKey actor t i nm ps = thenA (authz_require actor identityApiKeysManage t) (thenA guard body)"
    by (simp only: updateApiKey_def guard_def body_def)
  then have "thenA guard body w1 = (Inr v, w')" using assms thenA_step(1)[of "authz_require actor identityApiKeysManage t" w "()" w1, OF w1] by metis
  then obtain u0 w2 where g: "guard w1 = (Inr u0, w2)" and b: "body w2 = (Inr v, w')" by (auto simp: thenA_Inr)
  have guard': "case (ps, actor) of
       (Some p, userActor u) \<Rightarrow> getEffectivePermissions u t w1 = (Inr (answers w1 actor t), w2) \<and>
          assertHeld (answers w1 actor t) p = Inr ()
     | _ \<Rightarrow> w2 = w1"
  proof (cases ps)
    case None
    then show ?thesis using g by (simp add: guard_def)
  next
    case (Some p)
    show ?thesis
    proof (cases actor)
      case (userActor u)
      obtain w3 where "getEffectivePermissions u t w1 = (Inr (answers w1 (userActor u) t), w3)"
        by (rule getEffectivePermissions_eval[of u t w1])
      then show ?thesis using g Some userActor by (auto simp: guard_def)
    next
      case (apiKeyActor k)
      then show ?thesis using g Some by (simp add: guard_def)
    qed
  qed
  obtain key0 where key0: "apiKeys_findById i (w_db w2) = Some key0"
    using b by (cases "apiKeys_findById i (w_db w2)") (auto simp: body_def app_run app_succeeds)
  obtain key1 key where k: "k_tenantId key0 = t"
    "(case nm of None \<Rightarrow> Inr key0 | Some n \<Rightarrow> apiKey_rename key0 n) = Inr key1"
    "(case ps of None \<Rightarrow> Inr key1 | Some p \<Rightarrow> apiKey_replacePermissions key1 p (w_now w2)) = Inr key"
    "v = apiKeyView_of key"
    "w' = w2\<lparr>w_db := (apiKeys_save key (w_db w2))\<lparr>db_outbox := db_outbox (w_db w2) @ agg_events key\<rparr>,
             w_cache := remove_row fst (apiKeyPermissionsCacheKey t (ent_id key)) (w_cache w2)\<rparr>"
    using b key0 by (auto simp: body_def app_run app_succeeds authz_invalidate_run outbox)
  show thesis by (rule that[OF w1 guard' key0 k])
qed

lemma revokeApiKey_Inr:
  assumes "revokeApiKey actor t i w = (Inr v, w')"
  obtains w1 key0 key where
    "authz_require actor identityApiKeysManage t w = (Inr (), w1)" "same_but_cache w w1"
    "apiKeys_findById i (w_db w) = Some key0" "k_tenantId key0 = t" "apiKey_revoke key0 (w_now w) = Inr key"
    "w' = w1\<lparr>w_db := (apiKeys_save key (w_db w))\<lparr>db_outbox := db_outbox (w_db w) @ agg_events key\<rparr>,
             w_cache := remove_row fst (apiKeyPermissionsCacheKey t (ent_id key)) (w_cache w1)\<rparr>"
proof -
  have outbox: "db_outbox (apiKeys_save k d) = db_outbox d" for k d by (simp add: apiKeys_save_def)
  obtain w1 where w1: "authz_require actor identityApiKeysManage t w = (Inr (), w1)"
    using assms unfolding revokeApiKey_def thenA_Inr by auto
  have s: "same_but_cache w w1" by (rule authz_require_Inr(2)[OF w1])
  note sb = s[unfolded same_but_cache_def]
  obtain key0 where k0: "apiKeys_findById i (w_db w) = Some key0"
    using assms w1 sb by (cases "apiKeys_findById i (w_db w)") (auto simp: revokeApiKey_def app_run app_succeeds)
  obtain key where k: "k_tenantId key0 = t" "apiKey_revoke key0 (w_now w) = Inr key"
    "w' = w1\<lparr>w_db := (apiKeys_save key (w_db w))\<lparr>db_outbox := db_outbox (w_db w) @ agg_events key\<rparr>,
             w_cache := remove_row fst (apiKeyPermissionsCacheKey t (ent_id key)) (w_cache w1)\<rparr>"
    using assms w1 sb k0
    by (auto simp: revokeApiKey_def app_run app_succeeds authz_invalidateApiKey_def cache_del_def outbox)
  show thesis by (rule that[OF w1 s k0 k])
qed

lemma key_steps_fields:
  assumes "(case nm of None \<Rightarrow> Inr key0 | Some n \<Rightarrow> apiKey_rename key0 n) = Inr key1"
    "(case ps of None \<Rightarrow> Inr key1 | Some p \<Rightarrow> apiKey_replacePermissions key1 p at) = Inr key"
  shows "ent_id key = ent_id key0" "k_tenantId key = k_tenantId key0" "apiKey_wf key0 \<Longrightarrow> apiKey_wf key"
    "ps = None \<Longrightarrow> k_permissions key = k_permissions key0" "ps = Some p \<Longrightarrow> k_permissions key = uniq p"
proof -
  have 1: "ent_id key1 = ent_id key0 \<and> k_tenantId key1 = k_tenantId key0 \<and> k_permissions key1 = k_permissions key0"
    using assms(1) by (cases nm) (auto simp: apiKey_rename_Inr)
  have 2: "ent_id key = ent_id key1 \<and> k_tenantId key = k_tenantId key1"
    using assms(2) by (cases ps) (auto simp: apiKey_replacePermissions_Inr)
  show "ent_id key = ent_id key0" "k_tenantId key = k_tenantId key0" using 1 2 by auto
  show "apiKey_wf key" if "apiKey_wf key0"
  proof -
    have "apiKey_wf key1" using 1 that by (simp add: apiKey_wf_def)
    then show ?thesis using assms(2) apiKey_wf_steps(2)[of key1] by (cases ps) auto
  qed
  show "k_permissions key = k_permissions key0" if "ps = None" using assms(2) 1 that by simp
  show "k_permissions key = uniq p" if "ps = Some p"
    using assms(2) that by (auto simp: apiKey_replacePermissions_Inr)
qed

lemma updateApiKey_preserves:
  assumes "app_inv_ok env w" "known env (w_ids w) t" "CHR '':'' \<notin> set t"
  shows "app_inv_ok env (snd (updateApiKey a t i nm ps w))"
proof (rule preservesI[OF tenant_use_cases_quiet(8)[OF assms(3)] assms(1)])
  show "t \<in> {t}" by simp
  show "\<forall>t \<in> {t}. known env (w_ids w) t" using assms(2) by simp
  fix v w' assume "updateApiKey a t i nm ps w = (Inr v, w')"
  then obtain w1 w2 key0 key1 key where
    req: "authz_require a identityApiKeysManage t w = (Inr (), w1)"
    and guard: "case (ps, a) of
       (Some p, userActor u) \<Rightarrow> getEffectivePermissions u t w1 = (Inr (answers w1 a t), w2) \<and>
          assertHeld (answers w1 a t) p = Inr ()
     | _ \<Rightarrow> w2 = w1"
    and k0: "apiKeys_findById i (w_db w2) = Some key0" "k_tenantId key0 = t"
    and st: "(case nm of None \<Rightarrow> Inr key0 | Some n \<Rightarrow> apiKey_rename key0 n) = Inr key1"
    "(case ps of None \<Rightarrow> Inr key1 | Some p \<Rightarrow> apiKey_replacePermissions key1 p (w_now w2)) = Inr key"
    and w': "w' = w2\<lparr>w_db := (apiKeys_save key (w_db w2))\<lparr>db_outbox := db_outbox (w_db w2) @ agg_events key\<rparr>,
             w_cache := remove_row fst (apiKeyPermissionsCacheKey t (ent_id key)) (w_cache w2)\<rparr>"
    by (rule updateApiKey_Inr)
  have s1: "steady {t} (authz_require a identityApiKeysManage t)" using assms(3) by (intro quiet_intros) auto
  note i1 = steady_inv[OF s1 req assms(1,2)]
  have i2: "app_inv_ok env w2"
  proof (cases ps)
    case None
    then show ?thesis using guard i1 by simp
  next
    case (Some p)
    show ?thesis
    proof (cases a)
      case (userActor u)
      have s2: "steady {t} (getEffectivePermissions u t)" using assms(3) by (intro quiet_intros) auto
      have "getEffectivePermissions u t w1 = (Inr (answers w1 a t), w2)" using guard Some userActor by simp
      then show ?thesis using steady_inv(1)[OF s2 _ i1(1) known_mono[OF assms(2) i1(4)]] by blast
    next
      case (apiKeyActor k)
      then show ?thesis using guard Some i1 by simp
    qed
  qed
  have ids: "ids_inv env (w_ids w2) (w_db w2)" and rows: "rows_inv (w_db w2)" using i2 by (auto simp: app_inv_ok_def)
  have mem: "key0 \<in> set (db_apiKeys (w_db w2))" using k0(1) apiKey_find_mem by blast
  note f = key_steps_fields[OF st]
  have "apiKey_wf key" "known env (w_ids w2) (ent_id key)"
    using f rows ids mem by (auto simp: rows_inv_def ids_inv_def)
  then show "app_inv_ok env w'"
    by (intro apiKey_world_inv[OF i2]) (auto simp: w' elim: cached_after_del)
qed

lemma revokeApiKey_preserves:
  assumes "app_inv_ok env w" "known env (w_ids w) t" "CHR '':'' \<notin> set t"
  shows "app_inv_ok env (snd (revokeApiKey a t i w))"
proof (rule preservesI[OF tenant_use_cases_quiet(9)[OF assms(3)] assms(1)])
  show "t \<in> {t}" by simp
  show "\<forall>t \<in> {t}. known env (w_ids w) t" using assms(2) by simp
  fix v w' assume "revokeApiKey a t i w = (Inr v, w')"
  then obtain w1 key0 key where
    r: "authz_require a identityApiKeysManage t w = (Inr (), w1)" "same_but_cache w w1"
    and k: "apiKeys_findById i (w_db w) = Some key0" "apiKey_revoke key0 (w_now w) = Inr key"
    and w': "w' = w1\<lparr>w_db := (apiKeys_save key (w_db w))\<lparr>db_outbox := db_outbox (w_db w) @ agg_events key\<rparr>,
             w_cache := remove_row fst (apiKeyPermissionsCacheKey t (ent_id key)) (w_cache w1)\<rparr>"
    by (rule revokeApiKey_Inr)
  have w1: "app_inv_ok env w1" by (rule require_inv[OF r(1) assms])
  note sb = r(2)[unfolded same_but_cache_def]
  have ids: "ids_inv env (w_ids w) (w_db w)" and rows: "rows_inv (w_db w)" using assms(1) by (auto simp: app_inv_ok_def)
  have mem: "key0 \<in> set (db_apiKeys (w_db w))" using k(1) apiKey_find_mem by blast
  have "apiKey_wf key0" "known env (w_ids w) (ent_id key0)" using rows ids mem by (auto simp: rows_inv_def ids_inv_def)
  then have "apiKey_wf key" "known env (w_ids w) (ent_id key)"
    using apiKey_wf_steps(3)[OF _ k(2)] k(2) by (auto simp: apiKey_revoke_Inr)
  then show "app_inv_ok env w'"
    using sb by (intro apiKey_world_inv[OF w1]) (auto simp: w' elim: cached_after_del)
qed

lemma touchApiKeyLastUsed_preserves:
  assumes "app_inv_ok env w"
  shows "app_inv_ok env (snd (touchApiKeyLastUsed i w))"
proof -
  have e: "touchApiKeyLastUsed i w = (Inr (), w\<lparr>w_db := apiKeys_touchLastUsed i (w_now w) (w_db w)\<rparr>)"
    by (simp add: touchApiKeyLastUsed_def app_run)
  have cases: "apiKeys_touchLastUsed i n d = d \<or>
      (\<exists>k. apiKeys_findById i d = Some k \<and> apiKeys_touchLastUsed i n d = apiKeys_save (apiKey_recordLastUsed k n) d)" for n d
    by (auto simp: apiKeys_touchLastUsed_def split: option.splits)
  show ?thesis
  proof (cases "apiKeys_touchLastUsed i (w_now w) (w_db w) = w_db w")
    case True
    then show ?thesis using assms e by simp
  next
    case False
    then obtain k where k: "apiKeys_findById i (w_db w) = Some k"
      "apiKeys_touchLastUsed i (w_now w) (w_db w) = apiKeys_save (apiKey_recordLastUsed k (w_now w)) (w_db w)"
      using cases by blast
    have mem: "k \<in> set (db_apiKeys (w_db w))" using k(1) apiKey_find_mem by blast
    have "apiKey_wf k" "known env (w_ids w) (ent_id k)"
      using assms mem by (auto simp: app_inv_ok_def rows_inv_def ids_inv_def)
    then have "apiKey_wf (apiKey_recordLastUsed k (w_now w))" "known env (w_ids w) (ent_id (apiKey_recordLastUsed k (w_now w)))"
      by (simp_all add: apiKey_wf_def apiKey_recordLastUsed_def)
    then show ?thesis
      by (intro apiKey_world_inv[OF assms, of "apiKey_recordLastUsed k (w_now w)" _ "db_outbox (w_db w)"])
        (auto simp: e k(2) apiKeys_save_def)
  qed
qed

section \<open>Revoking sessions\<close>

text \<open>
  The two bulk revocations are one operation with a different selection of rows.  The locale states
  what a bulk revocation promises; both repository methods provide it.
\<close>

locale session_revoker =
  fixes revoke :: "'k \<Rightarrow> millis \<Rightarrow> db \<Rightarrow> db"
    and selects :: "'k \<Rightarrow> refreshSession \<Rightarrow> bool"
  assumes revoke_rows: "revoke x at d =
      d\<lparr>db_sessions := map (\<lambda>s. if selects x s \<and> s_revokedAt s = None then session_revoke s at else s) (db_sessions d)\<rparr>"
    and selects_revoked: "selects x (session_revoke s at) = selects x s"
begin

lemma none_active: "s \<in> set (db_sessions (revoke x at d)) \<Longrightarrow> selects x s \<Longrightarrow> \<not> session_isActive s now"
  by (auto simp: revoke_rows session_isActive_def session_revoke_def split: if_splits)

lemma others_kept: "s \<in> set (db_sessions d) \<Longrightarrow> \<not> selects x s \<Longrightarrow> s \<in> set (db_sessions (revoke x at d))"
  by (force simp: revoke_rows)

lemma revoked_kept:
  "s \<in> set (db_sessions d) \<Longrightarrow> s_revokedAt s \<noteq> None \<Longrightarrow> s \<in> set (db_sessions (revoke x at d))"
  by (force simp: revoke_rows)

lemma same_ids: "map ent_id (db_sessions (revoke x at d)) = map ent_id (db_sessions d)"
  by (auto simp: revoke_rows session_revoke_def)

lemma revoke_twice: "revoke x at' (revoke x at d) = revoke x at d"
  by (auto simp: revoke_rows session_revoke_def selects_revoked)

lemma nothing_reactivated:
  assumes "s \<in> set (db_sessions (revoke x at d))"
  obtains s0 where "s0 \<in> set (db_sessions d)" "ent_id s0 = ent_id s" "s_familyId s0 = s_familyId s"
    "s_revokedAt s = None \<Longrightarrow> s = s0"
  using assms by (auto simp: revoke_rows session_revoke_def split: if_splits)

lemma session_inv_revoke:
  assumes "session_inv env n d"
  shows "session_inv env n (revoke x at d)"
  unfolding session_inv_def same_ids
proof (intro conjI ballI impI)
  show "distinct (map ent_id (db_sessions d))" using assms by (simp add: session_inv_def)
  show "known env n (ent_id s)" "known env n (s_familyId s)" if "s \<in> set (db_sessions (revoke x at d))" for s
    using nothing_reactivated[OF that] assms by (metis session_inv_def)+
  fix s s' assume s: "s \<in> set (db_sessions (revoke x at d))" "s_revokedAt s = None"
    and s': "s' \<in> set (db_sessions (revoke x at d))" "s_revokedAt s' = None" and f: "s_familyId s = s_familyId s'"
  have "s \<in> set (db_sessions d)" "s' \<in> set (db_sessions d)"
    using nothing_reactivated[OF s(1)] nothing_reactivated[OF s'(1)] s(2) s'(2) by metis+
  then show "s = s'" using assms f s(2) s'(2) by (auto simp: session_inv_def)
qed

lemma only_sessions: "db_sessions_update (\<lambda>_. db_sessions (revoke x at d)) d = revoke x at d"
  by (simp add: revoke_rows)

end

interpretation family: session_revoker sessions_revokeFamily "\<lambda>f s. s_familyId s = f"
  by unfold_locales (auto simp: sessions_revokeFamily_def session_revoke_def)

interpretation userSessions: session_revoker sessions_revokeAllForUser "\<lambda>u s. s_userId s = u"
  by unfold_locales (auto simp: sessions_revokeAllForUser_def session_revoke_def)

text \<open>A new session in a fresh family, or the successor in a family that has no live session.\<close>

lemma session_inv_add:
  assumes "session_inv env n d" "ent_id s \<notin> ent_id ` set (db_sessions d)" "known env n (ent_id s)" "known env n (s_familyId s)"
    "\<And>y. y \<in> set (db_sessions d) \<Longrightarrow> s_familyId y = s_familyId s \<Longrightarrow> s_revokedAt y \<noteq> None"
  shows "session_inv env n (sessions_save s d)"
proof -
  have rows: "db_sessions (sessions_save s d) = db_sessions d @ [s]"
    using assms(2) by (simp add: sessions_save_def upsert_fresh)
  have kn: "known env n (ent_id y) \<and> known env n (s_familyId y)" if "y \<in> set (db_sessions d)" for y
    using that assms(1) unfolding session_inv_def by blast
  have un: "y = y'" if "y \<in> set (db_sessions d)" "y' \<in> set (db_sessions d)" "s_familyId y = s_familyId y'"
    "s_revokedAt y = None" "s_revokedAt y' = None" for y y'
    using that assms(1) unfolding session_inv_def by blast
  have "distinct (map ent_id (db_sessions d))" using assms(1) by (simp add: session_inv_def)
  then have dist: "distinct (map ent_id (db_sessions (sessions_save s d)))" using assms(2) by (simp add: rows)
  have "y = y'" if "y \<in> set (db_sessions d @ [s])" "y' \<in> set (db_sessions d @ [s])" "s_familyId y = s_familyId y'"
    "s_revokedAt y = None" "s_revokedAt y' = None" for y y'
  proof -
    have "y \<in> set (db_sessions d) \<or> y = s" "y' \<in> set (db_sessions d) \<or> y' = s" using that(1,2) by auto
    then show ?thesis using un[OF _ _ that(3,4,5)] assms(5) that(3,4,5) by metis
  qed
  moreover have "known env n (ent_id y) \<and> known env n (s_familyId y)" if "y \<in> set (db_sessions d @ [s])" for y
    using that kn[of y] assms(3,4) by auto
  ultimately show ?thesis using dist unfolding session_inv_def rows by blast
qed

lemma session_inv_revoke_one:
  assumes "session_inv env n d" "s \<in> set (db_sessions d)"
  shows "session_inv env n (sessions_save (session_revoke s at) d)"
    "y \<in> set (db_sessions (sessions_save (session_revoke s at) d)) \<Longrightarrow> s_revokedAt s = None \<Longrightarrow>
       s_familyId y = s_familyId s \<Longrightarrow> s_revokedAt y \<noteq> None"
proof -
  have dist: "distinct (map ent_id (db_sessions d))" using assms(1) by (simp add: session_inv_def)
  have rows: "set (db_sessions (sessions_save (session_revoke s at) d)) =
      insert (session_revoke s at) {y \<in> set (db_sessions d). ent_id y \<noteq> ent_id s}"
    using upsert_set_distinct[OF dist, of "session_revoke s at"]
    by (simp add: sessions_save_def session_revoke_def)
  have "distinct (map ent_id (db_sessions (sessions_save (session_revoke s at) d)))"
    using upsert_distinct[OF dist] by (simp add: sessions_save_def)
  moreover have kn: "known env n (ent_id y) \<and> known env n (s_familyId y)" if "y \<in> set (db_sessions d)" for y
    using that assms(1) unfolding session_inv_def by blast
  then have "known env n (ent_id y) \<and> known env n (s_familyId y)"
    if "y \<in> set (db_sessions (sessions_save (session_revoke s at) d))" for y
    using that kn[OF assms(2)] unfolding rows by (auto simp: session_revoke_def)
  moreover have un: "y = y'" if "y \<in> set (db_sessions d)" "y' \<in> set (db_sessions d)" "s_familyId y = s_familyId y'"
    "s_revokedAt y = None" "s_revokedAt y' = None" for y y'
    using that assms(1) unfolding session_inv_def by blast
  have "y = y'" if "y \<in> set (db_sessions (sessions_save (session_revoke s at) d))"
    "y' \<in> set (db_sessions (sessions_save (session_revoke s at) d))" "s_familyId y = s_familyId y'"
    "s_revokedAt y = None" "s_revokedAt y' = None" for y y'
    using that un[of y y'] unfolding rows by (auto simp: session_revoke_def)
  ultimately show "session_inv env n (sessions_save (session_revoke s at) d)" unfolding session_inv_def by blast
  show "s_revokedAt y \<noteq> None"
    if "y \<in> set (db_sessions (sessions_save (session_revoke s at) d))" "s_revokedAt s = None" "s_familyId y = s_familyId s"
    using that un[of y s] assms(2) unfolding rows by (auto simp: session_revoke_def)
qed

lemma session_inv_subset:
  assumes "session_inv env n d" "set ss \<subseteq> set (db_sessions d)" "distinct (map ent_id ss)"
  shows "session_inv env n (d\<lparr>db_sessions := ss\<rparr>)"
  using assms unfolding session_inv_def by (auto simp: subset_iff)

section \<open>Login, rotation and logout\<close>

lemma login_Inr:
  assumes "login env e pw w = (Inr v, w')"
  obtains u c where
    "users_findByEmail (js_lower (js_trim e)) (w_db w) = Some u" "passwords_findByUserId (ent_id u) (w_db w) = Some c"
    "verifyPw env pw (p_passwordHash c)" "u_status u \<noteq> Suspended"
    "lr_userId v = ent_id u" "lr_refreshToken v = genId env (w_ids w)"
    "w' = w\<lparr>w_ids := w_ids w + 3,
       w_db := sessions_save (session_create (genId env (Suc (w_ids w))) (ent_id u) (genId env (Suc (Suc (w_ids w))))
         (digest env (genId env (w_ids w))) (w_now w + REFRESH_TTL_MS)) (w_db w)\<rparr>"
proof -
  obtain u where u: "users_findByEmail (js_lower (js_trim e)) (w_db w) = Some u"
    using assms by (cases "users_findByEmail (js_lower (js_trim e)) (w_db w)") (auto simp: login_def app_run app_succeeds)
  obtain c where c: "passwords_findByUserId (ent_id u) (w_db w) = Some c"
    using assms u by (cases "passwords_findByUserId (ent_id u) (w_db w)") (auto simp: login_def app_run app_succeeds)
  have m: "memberships_findByUser x (sessions_save y d) = memberships_findByUser x d" for x y d
    by (simp add: memberships_findByUser_def sessions_save_def)
  from assms u c show thesis
    by (intro that[OF u c]) (auto simp: login_def app_run app_succeeds Let_def eval_nat_numeral)
qed

lemma login_preserves:
  assumes "inj (genId env)" "app_inv_ok env w"
  shows "app_inv_ok env (snd (login env e pw w))"
proof (rule preservesI[OF use_cases_quiet(4) assms(2)])
  show "\<forall>t \<in> {}. known env (w_ids w) t" by simp
  fix v w' assume "login env e pw w = (Inr v, w')"
  then obtain u where "users_findByEmail (js_lower (js_trim e)) (w_db w) = Some u"
    and w': "w' = w\<lparr>w_ids := w_ids w + 3,
       w_db := sessions_save (session_create (genId env (Suc (w_ids w))) (ent_id u) (genId env (Suc (Suc (w_ids w))))
         (digest env (genId env (w_ids w))) (w_now w + REFRESH_TTL_MS)) (w_db w)\<rparr>"
    by (rule login_Inr)
  have ses: "session_inv env (w_ids w + 3) (w_db w)" using assms(2) by (auto simp: app_inv_ok_def intro: session_inv_mono)
  have old: "known env (w_ids w) (ent_id s)" "known env (w_ids w) (s_familyId s)" if "s \<in> set (db_sessions (w_db w))" for s
    using assms(2) that by (auto simp: app_inv_ok_def session_inv_def)
  let ?s = "session_create (genId env (Suc (w_ids w))) (ent_id u) (genId env (Suc (Suc (w_ids w))))
         (digest env (genId env (w_ids w))) (w_now w + REFRESH_TTL_MS)"
  have "session_inv env (w_ids w + 3) (sessions_save ?s (w_db w))"
  proof (rule session_inv_add[OF ses])
    show "ent_id ?s \<notin> ent_id ` set (db_sessions (w_db w))"
      using old(1) by (auto simp: session_create_def known_def)
    show "known env (w_ids w + 3) (ent_id ?s)" "known env (w_ids w + 3) (s_familyId ?s)"
      using known_issued[OF assms(1)] by (simp_all add: session_create_def)
    show "s_revokedAt y \<noteq> None" if "y \<in> set (db_sessions (w_db w))" "s_familyId y = s_familyId ?s" for y
      using known_neq[OF old(2)[OF that(1)], of "Suc (Suc (w_ids w))"] that(2) by (simp add: session_create_def)
  qed
  then have "session_inv env (w_ids w') (w_db w')" by (simp add: w')
  then show "app_inv_ok env w'"
    by (intro app_inv_sessions[OF assms(2), where ss = "db_sessions (w_db w')" and ps = "db_passwords (w_db w)" and
          rt = "db_resetTokens (w_db w)"]) (auto simp: w' sessions_save_def)
qed

text \<open>
  Rotation has three ends: the successor is stored, a revoked token revokes its family and throws,
  and an unknown or expired token throws without a write.
\<close>

lemma rotateRefresh_Inr:
  assumes "rotateRefresh env token w = (Inr v, w')"
  obtains s where "sessions_findByTokenHash (digest env token) (w_db w) = Some s" "session_isActive s (w_now w)"
    "isUuid env (genId env (Suc (w_ids w)))" "v = (s_userId s, genId env (w_ids w))"
    "w' = w\<lparr>w_ids := w_ids w + 2,
       w_db := sessions_save (session_create (genId env (Suc (w_ids w))) (s_userId s) (s_familyId s)
           (digest env (genId env (w_ids w))) (w_now w + REFRESH_TTL_MS))
         (sessions_save (session_revoke s (w_now w)) (w_db w))\<rparr>"
proof -
  obtain s where s: "sessions_findByTokenHash (digest env token) (w_db w) = Some s"
    using assms by (cases "sessions_findByTokenHash (digest env token) (w_db w)")
      (auto simp: rotateRefresh_def bindA_Inr app_run app_succeeds)
  from assms s show thesis
    by (intro that[OF s])
      (auto simp: rotateRefresh_def bindA_Inr[of "uow_run m" for m] app_run app_succeeds uow_run_Inr eval_nat_numeral
        split: if_splits)
qed

lemma rotateRefresh_reuse:
  assumes "sessions_findByTokenHash (digest env token) (w_db w) = Some s" "s_revokedAt s \<noteq> None"
  shows "rotateRefresh env token w =
    (Inl InvalidRefreshTokenError, w\<lparr>w_db := sessions_revokeFamily (s_familyId s) (w_now w) (w_db w)\<rparr>)"
  using assms by (simp add: rotateRefresh_def uow_run_def app_run bindA_def)

lemma rotateRefresh_dead:
  assumes "sessions_findByTokenHash (digest env token) (w_db w) = None \<or>
    (\<exists>s. sessions_findByTokenHash (digest env token) (w_db w) = Some s \<and> s_revokedAt s = None \<and> \<not> session_isActive s (w_now w))"
  shows "rotateRefresh env token w = (Inl InvalidRefreshTokenError, w)"
  using assms by (auto simp: rotateRefresh_def uow_run_def app_run bindA_def thenA_def)

lemma rotateRefresh_live:
  assumes "sessions_findByTokenHash (digest env token) (w_db w) = Some s" "session_isActive s (w_now w)"
  shows "rotateRefresh env token w =
    (if isUuid env (genId env (Suc (w_ids w)))
     then (Inr (s_userId s, genId env (w_ids w)), w\<lparr>w_ids := w_ids w + 2,
       w_db := sessions_save (session_create (genId env (Suc (w_ids w))) (s_userId s) (s_familyId s)
           (digest env (genId env (w_ids w))) (w_now w + REFRESH_TTL_MS))
         (sessions_save (session_revoke s (w_now w)) (w_db w))\<rparr>)
     else (Inl ZodError, w\<lparr>w_ids := w_ids w + 2\<rparr>))"
proof -
  have "s_revokedAt s = None" using assms(2) by (simp add: session_isActive_def)
  then show ?thesis using assms
    by (simp add: rotateRefresh_def uow_run_def app_run newId_def parseId_def eval_nat_numeral)
qed

lemma session_found: "sessions_findByTokenHash h d = Some s \<Longrightarrow> s \<in> set (db_sessions d)"
  by (auto simp: sessions_findByTokenHash_def dest: find_in)

lemma rotate_session_inv:
  assumes "inj (genId env)" "session_inv env n d" "s \<in> set (db_sessions d)" "s_revokedAt s = None"
  shows "session_inv env (n + 2) (sessions_save (session_create (genId env (Suc n)) u (s_familyId s) h x)
    (sessions_save (session_revoke s at) d))"
proof -
  have old: "known env n (ent_id y)" "known env n (s_familyId y)" if "y \<in> set (db_sessions d)" for y
    using assms(2) that by (auto simp: session_inv_def)
  have i1: "session_inv env (n + 2) (sessions_save (session_revoke s at) d)"
    using session_inv_revoke_one(1)[OF session_inv_mono[OF assms(2)] assms(3)] by simp
  let ?s = "session_create (genId env (Suc n)) u (s_familyId s) h x"
  show ?thesis
  proof (rule session_inv_add[OF i1])
    have "ent_id ` set (db_sessions (sessions_save (session_revoke s at) d)) = ent_id ` set (db_sessions d)"
      using assms(3) by (auto simp: sessions_save_def upsert_keys session_revoke_def)
    moreover have "genId env (Suc n) \<notin> ent_id ` set (db_sessions d)"
      using old(1) by (auto simp: known_def)
    ultimately show "ent_id ?s \<notin> ent_id ` set (db_sessions (sessions_save (session_revoke s at) d))"
      by (simp add: session_create_def)
    show "known env (n + 2) (ent_id ?s)" "known env (n + 2) (s_familyId ?s)"
      using known_issued[OF assms(1), of "Suc n" "n + 2"] known_mono[OF old(2)[OF assms(3)]] by (simp_all add: session_create_def)
    show "s_revokedAt y \<noteq> None"
      if "y \<in> set (db_sessions (sessions_save (session_revoke s at) d))" "s_familyId y = s_familyId ?s" for y
      using session_inv_revoke_one(2)[OF assms(2,3) that(1) assms(4)] that(2) by (simp add: session_create_def)
  qed
qed

lemma rotateRefresh_preserves:
  assumes "inj (genId env)" "app_inv_ok env w"
  shows "app_inv_ok env (snd (rotateRefresh env token w))"
proof -
  have ses: "session_inv env (w_ids w) (w_db w)" using assms(2) by (simp add: app_inv_ok_def)
  note side = app_inv_sessions[OF assms(2), where ps = "db_passwords (w_db w)" and rt = "db_resetTokens (w_db w)"]
  consider (none) "sessions_findByTokenHash (digest env token) (w_db w) = None"
    | (some) s where "sessions_findByTokenHash (digest env token) (w_db w) = Some s" by blast
  then show ?thesis
  proof cases
    case none
    then show ?thesis using rotateRefresh_dead[of env token w] assms(2) by simp
  next
    case some
    show ?thesis
    proof (cases "s_revokedAt s = None")
      case False
      have "session_inv env (w_ids w) (sessions_revokeFamily (s_familyId s) (w_now w) (w_db w))"
        by (rule family.session_inv_revoke[OF ses])
      then show ?thesis
        using rotateRefresh_reuse[OF some False]
        by (auto intro!: side[where ss = "db_sessions (sessions_revokeFamily (s_familyId s) (w_now w) (w_db w))"]
            simp: sessions_revokeFamily_def)
    next
      case True
      show ?thesis
      proof (cases "session_isActive s (w_now w) \<and> isUuid env (genId env (Suc (w_ids w)))")
        case act: True
        let ?w' = "w\<lparr>w_ids := w_ids w + 2,
          w_db := sessions_save (session_create (genId env (Suc (w_ids w))) (s_userId s) (s_familyId s)
            (digest env (genId env (w_ids w))) (w_now w + REFRESH_TTL_MS))
            (sessions_save (session_revoke s (w_now w)) (w_db w))\<rparr>"
        have "snd (rotateRefresh env token w) = ?w'"
          using some True act by (simp add: rotateRefresh_live)
        moreover have "session_inv env (w_ids w + 2) (w_db ?w')"
          using rotate_session_inv[OF assms(1) ses session_found[OF some] True] by simp
        ultimately show ?thesis
          by (auto intro!: side[where ss = "db_sessions (w_db ?w')"] simp: sessions_save_def)
      next
        case False
        then have "snd (rotateRefresh env token w) = w \<or> snd (rotateRefresh env token w) = w\<lparr>w_ids := w_ids w + 2\<rparr>"
          using some True rotateRefresh_dead[of env token w] by (cases "session_isActive s (w_now w)") (auto simp: rotateRefresh_live)
        then show ?thesis
          using assms(2) session_inv_mono[OF ses]
          by (auto intro!: side[where ss = "db_sessions (w_db w)"])
      qed
    qed
  qed
qed

lemma logout_preserves:
  assumes "app_inv_ok env w"
  shows "app_inv_ok env (snd (logout env token w))"
proof -
  have ses: "session_inv env (w_ids w) (w_db w)" using assms by (simp add: app_inv_ok_def)
  have "logout env token w = (Inr (), w) \<or>
      (\<exists>f. logout env token w = (Inr (), w\<lparr>w_db := sessions_revokeFamily f (w_now w) (w_db w)\<rparr>))"
  proof (cases token)
    case (Some tk)
    show ?thesis
    proof (cases "sessions_findByTokenHash (digest env tk) (w_db w)")
      case (Some s)
      then have "tk = [] \<or> logout env token w = (Inr (), w\<lparr>w_db := sessions_revokeFamily (s_familyId s) (w_now w) (w_db w)\<rparr>)"
        using \<open>token = Some tk\<close> by (simp add: logout_def uow_run_def app_run)
      then show ?thesis using \<open>token = Some tk\<close> by (auto simp: logout_def)
    qed (simp add: logout_def uow_run_def app_run \<open>token = Some tk\<close>)
  qed (simp add: logout_def)
  then show ?thesis
  proof
    assume "\<exists>f. logout env token w = (Inr (), w\<lparr>w_db := sessions_revokeFamily f (w_now w) (w_db w)\<rparr>)"
    then obtain f where f: "logout env token w = (Inr (), w\<lparr>w_db := sessions_revokeFamily f (w_now w) (w_db w)\<rparr>)" ..
    show ?thesis
      unfolding f using family.session_inv_revoke[OF ses]
      by (auto intro!: app_inv_sessions[OF assms, where ps = "db_passwords (w_db w)" and rt = "db_resetTokens (w_db w)"
            and ss = "db_sessions (sessions_revokeFamily f (w_now w) (w_db w))"] simp: sessions_revokeFamily_def)
  qed (use assms in simp)
qed

end
