(* ===== verification/Lifecycle.thy ===== *)
theory Lifecycle
  imports Sessions
begin

text \<open>
  Passwords and their reset, the bounded purges, and the step relation of the whole application:
  a step runs one use case, or lets time pass.  Every reachable state satisfies the invariants.
\<close>

section \<open>Passwords\<close>

lemma requestPasswordReset_run:
  "requestPasswordReset env e w = (case users_findByEmail e (w_db w) of
     None \<Rightarrow> (Inr (), w)
   | Some u \<Rightarrow> (Inr (), w\<lparr>w_ids := Suc (w_ids w),
       w_db := resetTokens_save (resetToken_create (ent_id u) (digest env (genId env (w_ids w)))
         (w_now w + PASSWORD_RESET_TTL_MS)) (w_db w),
       w_mails := w_mails w @ [\<lparr>mail_to = u_email u, mail_subject = ''Password reset'',
         mail_text = ''reset token: '' @ genId env (w_ids w)\<rparr>]\<rparr>))"
  by (simp add: requestPasswordReset_def uow_run_def app_run findByEmail_normal split: option.split)

lemma resetPassword_Inr:
  assumes "resetPassword env tk pw w = (Inr u, w')"
  obtains t c where "MIN_PASSWORD_LENGTH \<le> length pw"
    "resetTokens_findByTokenHash (digest env tk) (w_db w) = Some t" "resetToken_isActive t (w_now w)"
    "passwords_findByUserId (ent_id t) (w_db w) = Some c"
    "w' = w\<lparr>w_salt := Suc (w_salt w),
       w_db := sessions_revokeAllForUser (ent_id t) (w_now w)
         (passwords_save (localPassword_replaceHash c (hashPw env (w_salt w) pw))
           (resetTokens_save (resetToken_consume t (w_now w)) (w_db w)))\<rparr>"
proof -
  obtain t where t: "resetTokens_findByTokenHash (digest env tk) (w_db w) = Some t"
    using assms by (cases "resetTokens_findByTokenHash (digest env tk) (w_db w)")
      (auto simp: resetPassword_def app_run app_succeeds)
  obtain c where c: "passwords_findByUserId (ent_id t) (w_db w) = Some c"
    using assms t by (cases "passwords_findByUserId (ent_id t) (w_db w)") (auto simp: resetPassword_def app_run app_succeeds)
  show thesis using assms t c that[OF _ t _ c] by (auto simp: resetPassword_def app_run app_succeeds)
qed

lemma setOrChangePassword_Inr:
  assumes "setOrChangePassword env i pw cur w = (Inr u, w')"
  obtains user where "MIN_PASSWORD_LENGTH \<le> length pw" "users_findById i (w_db w) = Some user"
    "(case passwords_findByUserId i (w_db w) of
        None \<Rightarrow> cur = None \<and> w' = w\<lparr>w_salt := Suc (w_salt w),
          w_db := passwords_save (localPassword_create i (hashPw env (w_salt w) pw)) (w_db w)\<rparr>
      | Some c \<Rightarrow> (\<exists>cp. cur = Some cp \<and> verifyPw env cp (p_passwordHash c) \<and> w' = w\<lparr>w_salt := Suc (w_salt w),
          w_db := sessions_revokeAllForUser i (w_now w)
            (passwords_save (localPassword_replaceHash c (hashPw env (w_salt w) pw)) (w_db w))\<rparr>))"
proof -
  obtain user where user: "users_findById i (w_db w) = Some user"
    using assms by (cases "users_findById i (w_db w)") (auto simp: setOrChangePassword_def app_run app_succeeds)
  have len: "MIN_PASSWORD_LENGTH \<le> length pw" using assms by (auto simp: setOrChangePassword_def app_run app_succeeds)
  show thesis
  proof (cases "passwords_findByUserId i (w_db w)")
    case None
    then show thesis using assms user that[OF len user] by (auto simp: setOrChangePassword_def app_run app_succeeds)
  next
    case (Some c)
    show thesis
    proof (cases cur)
      case None
      then show thesis using assms user Some by (auto simp: setOrChangePassword_def app_run app_succeeds)
    next
      case cp: (Some cp)
      then show thesis using assms user Some that[OF len user] by (auto simp: setOrChangePassword_def app_run app_succeeds)
    qed
  qed
qed

lemma requestPasswordReset_preserves:
  assumes "app_inv_ok env w"
  shows "app_inv_ok env (snd (requestPasswordReset env e w))"
  using assms
  by (auto simp: requestPasswordReset_run resetTokens_save_def split: option.split
      intro!: app_inv_side_tables[OF assms, where ps = "db_passwords (w_db w)"])

lemma resetPassword_preserves:
  assumes "app_inv_ok env w"
  shows "app_inv_ok env (snd (resetPassword env tk pw w))"
proof (rule preservesI[OF use_cases_quiet(11) assms])
  show "\<forall>t \<in> {}. known env (w_ids w) t" by simp
  fix u w' assume "resetPassword env tk pw w = (Inr u, w')"
  then obtain t c where r: "resetTokens_findByTokenHash (digest env tk) (w_db w) = Some t"
    "passwords_findByUserId (ent_id t) (w_db w) = Some c"
    "w' = w\<lparr>w_salt := Suc (w_salt w),
       w_db := sessions_revokeAllForUser (ent_id t) (w_now w)
         (passwords_save (localPassword_replaceHash c (hashPw env (w_salt w) pw))
           (resetTokens_save (resetToken_consume t (w_now w)) (w_db w)))\<rparr>"
    by (rule resetPassword_Inr)
  have "session_inv env (w_ids w) (w_db w)" using assms by (simp add: app_inv_ok_def)
  then have "session_inv env (w_ids w') (w_db w')"
    unfolding r(3) by (auto intro!: userSessions.session_inv_revoke simp: passwords_save_def resetTokens_save_def)
  then show "app_inv_ok env w'"
    by (auto intro!: app_inv_sessions[OF assms, where ss = "db_sessions (w_db w')" and ps = "db_passwords (w_db w')" and
          rt = "db_resetTokens (w_db w')"] simp: r(3) sessions_revokeAllForUser_def passwords_save_def resetTokens_save_def)
qed

lemma setOrChangePassword_preserves:
  assumes "app_inv_ok env w"
  shows "app_inv_ok env (snd (setOrChangePassword env i pw cur w))"
proof (rule preservesI[OF use_cases_quiet(12) assms])
  show "\<forall>t \<in> {}. known env (w_ids w) t" by simp
  fix u w' assume "setOrChangePassword env i pw cur w = (Inr u, w')"
  then obtain user where r: "users_findById i (w_db w) = Some user"
    "(case passwords_findByUserId i (w_db w) of
        None \<Rightarrow> cur = None \<and> w' = w\<lparr>w_salt := Suc (w_salt w),
          w_db := passwords_save (localPassword_create i (hashPw env (w_salt w) pw)) (w_db w)\<rparr>
      | Some c \<Rightarrow> (\<exists>cp. cur = Some cp \<and> verifyPw env cp (p_passwordHash c) \<and> w' = w\<lparr>w_salt := Suc (w_salt w),
          w_db := sessions_revokeAllForUser i (w_now w)
            (passwords_save (localPassword_replaceHash c (hashPw env (w_salt w) pw)) (w_db w))\<rparr>))"
    by (rule setOrChangePassword_Inr)
  have ses: "session_inv env (w_ids w) (w_db w)" using assms by (simp add: app_inv_ok_def)
  show "app_inv_ok env w'"
  proof (cases "passwords_findByUserId i (w_db w)")
    case None
    then show ?thesis using r(2)
      by (auto intro!: app_inv_side_tables[OF assms, where ps = "db_passwords (w_db w')" and rt = "db_resetTokens (w_db w)"]
          simp: passwords_save_def)
  next
    case (Some c)
    then have w': "w' = w\<lparr>w_salt := Suc (w_salt w),
          w_db := sessions_revokeAllForUser i (w_now w)
            (passwords_save (localPassword_replaceHash c (hashPw env (w_salt w) pw)) (w_db w))\<rparr>"
      using r(2) by auto
    have "session_inv env (w_ids w') (w_db w')"
      unfolding w' using ses by (auto intro!: userSessions.session_inv_revoke simp: passwords_save_def)
    then show ?thesis
      by (auto intro!: app_inv_sessions[OF assms, where ss = "db_sessions (w_db w')" and ps = "db_passwords (w_db w')" and
            rt = "db_resetTokens (w_db w)"] simp: w' sessions_revokeAllForUser_def passwords_save_def)
  qed
qed

section \<open>Bounded purges\<close>

text \<open>What the three maintenance purges promise of one run.\<close>

locale bounded_purge =
  fixes purge :: "nat app" and rows :: "db \<Rightarrow> 'r list" and ident :: "'r \<Rightarrow> string" and live :: "'r \<Rightarrow> millis \<Rightarrow> bool"
  assumes purge_run: "purge w = (Inr n, w') \<Longrightarrow>
    delete_batch ident (\<lambda>r. \<not> live r (w_now w)) PURGE_BATCH_SIZE (rows (w_db w)) = (n, rows (w_db w'))"
begin

lemma at_most_batch: "purge w = (Inr n, w') \<Longrightarrow> n \<le> PURGE_BATCH_SIZE"
  by (drule purge_run) (rule delete_batch_count)

lemma live_rows_kept:
  "purge w = (Inr n, w') \<Longrightarrow> distinct (map ident (rows (w_db w))) \<Longrightarrow> r \<in> set (rows (w_db w)) \<Longrightarrow> live r (w_now w) \<Longrightarrow>
   r \<in> set (rows (w_db w'))"
  using delete_batch_keeps[OF purge_run] by simp

lemma nothing_added: "purge w = (Inr n, w') \<Longrightarrow> set (rows (w_db w')) \<subseteq> set (rows (w_db w))"
  using delete_batch_subset[OF purge_run] by blast

lemma short_batch_is_last:
  "purge w = (Inr n, w') \<Longrightarrow> n < PURGE_BATCH_SIZE \<Longrightarrow> r \<in> set (rows (w_db w')) \<Longrightarrow> live r (w_now w)"
  using delete_batch_done[OF purge_run] by blast

end

lemma purges_run:
  "purgeStaleInvitations w = (let (n, d) = invitations_deleteStale (w_now w) PURGE_BATCH_SIZE (w_db w) in (Inr n, w\<lparr>w_db := d\<rparr>))"
  "purgeRefreshSessions w = (let (n, d) = sessions_deleteExpiredOrRevoked (w_now w) PURGE_BATCH_SIZE (w_db w) in (Inr n, w\<lparr>w_db := d\<rparr>))"
  "purgePasswordResetTokens w = (let (n, d) = resetTokens_deleteInactive (w_now w) PURGE_BATCH_SIZE (w_db w) in (Inr n, w\<lparr>w_db := d\<rparr>))"
  by (simp_all add: purgeStaleInvitations_def purgeRefreshSessions_def purgePasswordResetTokens_def uow_run_def app_run
      stateDb_def split: prod.splits)

interpretation invitationPurge: bounded_purge purgeStaleInvitations db_invitations ent_id invitation_isActive
  by unfold_locales (auto simp: purges_run invitations_deleteStale_def split: prod.splits)

interpretation sessionPurge: bounded_purge purgeRefreshSessions db_sessions ent_id session_isActive
  by unfold_locales (auto simp: purges_run sessions_deleteExpiredOrRevoked_def split: prod.splits)

interpretation resetTokenPurge: bounded_purge purgePasswordResetTokens db_resetTokens ent_id resetToken_isActive
  by unfold_locales (auto simp: purges_run resetTokens_deleteInactive_def split: prod.splits)

lemma purgeStaleInvitations_preserves:
  assumes "app_inv_ok env w"
  shows "app_inv_ok env (snd (purgeStaleInvitations w))"
proof -
  obtain n rows where b: "delete_batch ent_id (\<lambda>iv. \<not> invitation_isActive iv (w_now w)) PURGE_BATCH_SIZE (db_invitations (w_db w)) = (n, rows)"
    by (cases "delete_batch ent_id (\<lambda>iv. \<not> invitation_isActive iv (w_now w)) PURGE_BATCH_SIZE (db_invitations (w_db w))")
  then have s: "snd (purgeStaleInvitations w) = w\<lparr>w_db := (w_db w)\<lparr>db_invitations := rows\<rparr>\<rparr>"
    by (simp add: purges_run invitations_deleteStale_def)
  have sub: "set rows \<subseteq> set (db_invitations (w_db w))" by (rule delete_batch_subset[OF b])
  have ids: "ids_inv env (w_ids w) (w_db w)" and r: "rows_inv (w_db w)" and ses: "session_inv env (w_ids w) (w_db w)"
    using assms by (auto simp: app_inv_ok_def)
  have dist: "distinct (map ent_id rows)" using delete_batch_distinct[OF b] r by (simp add: rows_inv_def)
  have "ids_inv env (w_ids w) ((w_db w)\<lparr>db_invitations := rows\<rparr>)" using ids sub by (auto simp: ids_inv_def)
  moreover have "rows_inv ((w_db w)\<lparr>db_invitations := rows\<rparr>)" using r sub dist by (auto simp: rows_inv_def)
  ultimately show ?thesis unfolding s by (intro app_inv_tables[OF assms]) (simp_all add: ses)
qed

lemma purgeRefreshSessions_preserves:
  assumes "app_inv_ok env w"
  shows "app_inv_ok env (snd (purgeRefreshSessions w))"
proof -
  obtain n rows where b: "delete_batch ent_id (\<lambda>s. \<not> session_isActive s (w_now w)) PURGE_BATCH_SIZE (db_sessions (w_db w)) = (n, rows)"
    by (cases "delete_batch ent_id (\<lambda>s. \<not> session_isActive s (w_now w)) PURGE_BATCH_SIZE (db_sessions (w_db w))")
  then have s: "snd (purgeRefreshSessions w) = w\<lparr>w_db := (w_db w)\<lparr>db_sessions := rows\<rparr>\<rparr>"
    by (simp add: purges_run sessions_deleteExpiredOrRevoked_def)
  have ses: "session_inv env (w_ids w) (w_db w)" using assms by (simp add: app_inv_ok_def)
  then have "session_inv env (w_ids w) ((w_db w)\<lparr>db_sessions := rows\<rparr>)"
    using delete_batch_subset[OF b] delete_batch_distinct[OF b] by (intro session_inv_subset) (auto simp: session_inv_def)
  then show ?thesis
    unfolding s by (intro app_inv_sessions[OF assms, where ss = rows and ps = "db_passwords (w_db w)" and rt = "db_resetTokens (w_db w)"]) simp_all
qed

lemma purgePasswordResetTokens_preserves:
  assumes "app_inv_ok env w"
  shows "app_inv_ok env (snd (purgePasswordResetTokens w))"
proof -
  obtain n rows where b: "delete_batch ent_id (\<lambda>t. \<not> resetToken_isActive t (w_now w)) PURGE_BATCH_SIZE (db_resetTokens (w_db w)) = (n, rows)"
    by (cases "delete_batch ent_id (\<lambda>t. \<not> resetToken_isActive t (w_now w)) PURGE_BATCH_SIZE (db_resetTokens (w_db w))")
  then have s: "snd (purgePasswordResetTokens w) = w\<lparr>w_db := (w_db w)\<lparr>db_resetTokens := rows\<rparr>\<rparr>"
    by (simp add: purges_run resetTokens_deleteInactive_def)
  show ?thesis
    unfolding s by (intro app_inv_side_tables[OF assms, where ps = "db_passwords (w_db w)" and rt = rows]) simp_all
qed

section \<open>The step relation\<close>

text \<open>
  Tenant-scoped commands name a tenant whose id is free of colons and that the generator will not
  issue later: an existing tenant, or an id nobody will get.
\<close>

definition addressable :: "env \<Rightarrow> world \<Rightarrow> tenantId \<Rightarrow> bool" where
  "addressable env w t \<longleftrightarrow> known env (w_ids w) t \<and> CHR '':'' \<notin> set t"

inductive app_step :: "env \<Rightarrow> world \<Rightarrow> world \<Rightarrow> bool" for env where
  step_tick: "w_now w \<le> n \<Longrightarrow> app_step env w (w\<lparr>w_now := n\<rparr>)"
| step_createTenant: "app_step env w (snd (createTenant env name u w))"
| step_createCustomRole: "addressable env w t \<Longrightarrow> app_step env w (snd (createCustomRole env a t n ps w))"
| step_updateCustomRole: "addressable env w t \<Longrightarrow> app_step env w (snd (updateCustomRole env a t i no pso w))"
| step_deleteCustomRole: "addressable env w t \<Longrightarrow> app_step env w (snd (deleteCustomRole a t i w))"
| step_listRoles: "addressable env w t \<Longrightarrow> app_step env w (snd (listRoles a t w))"
| step_attachMember: "addressable env w t \<Longrightarrow> app_step env w (snd (attachMember env a t u rs w))"
| step_replaceMembershipRoles: "addressable env w t \<Longrightarrow> app_step env w (snd (replaceMembershipRoles a t m rs w))"
| step_inviteMember: "addressable env w t \<Longrightarrow> app_step env w (snd (inviteMember env a t e rs w))"
| step_acceptInvitation: "app_step env w (snd (acceptInvitation env tk dn pw w))"
| step_purgeInvitations: "app_step env w (snd (purgeStaleInvitations w))"
| step_getTenant: "addressable env w t \<Longrightarrow> app_step env w (snd (getTenant a t w))"
| step_listTenantMembers: "addressable env w t \<Longrightarrow> app_step env w (snd (listTenantMembers a t w))"
| step_createUser: "app_step env w (snd (createUser env e d w))"
| step_registerUser: "app_step env w (snd (registerUser env e d p w))"
| step_login: "app_step env w (snd (login env e p w))"
| step_logout: "app_step env w (snd (logout env tok w))"
| step_rotateRefresh: "app_step env w (snd (rotateRefresh env tk w))"
| step_purgeSessions: "app_step env w (snd (purgeRefreshSessions w))"
| step_purgeResetTokens: "app_step env w (snd (purgePasswordResetTokens w))"
| step_selectTenant: "app_step env w (snd (selectTenant u t w))"
| step_requestPasswordReset: "app_step env w (snd (requestPasswordReset env e w))"
| step_resetPassword: "app_step env w (snd (resetPassword env tk p w))"
| step_setOrChangePassword: "app_step env w (snd (setOrChangePassword env u p cur w))"
| step_getMyProfile: "addressable env w t \<Longrightarrow> app_step env w (snd (getMyProfile u t w))"
| step_createApiKey: "addressable env w t \<Longrightarrow> app_step env w (snd (createApiKey env a t n ps x w))"
| step_updateApiKey: "addressable env w t \<Longrightarrow> app_step env w (snd (updateApiKey a t k no pso w))"
| step_revokeApiKey: "addressable env w t \<Longrightarrow> app_step env w (snd (revokeApiKey a t k w))"
| step_listApiKeys: "addressable env w t \<Longrightarrow> app_step env w (snd (listApiKeys a t w))"
| step_require: "addressable env w t \<Longrightarrow> app_step env w (snd (authz_require a p t w))"
| step_resolveApiKey: "app_step env w (snd (resolveApiKey env tk w))"
| step_touchApiKeyLastUsed: "app_step env w (snd (touchApiKeyLastUsed k w))"

inductive_cases app_step_cases: "app_step env w w'"

definition initial_world :: "millis \<Rightarrow> world" where
  "initial_world n = \<lparr>w_db = empty_db, w_cache = [], w_ids = 0, w_salt = 0, w_mails = [], w_now = n\<rparr>"

inductive reachable :: "env \<Rightarrow> world \<Rightarrow> bool" for env where
  reachable_initial: "reachable env (initial_world n)"
| reachable_step: "reachable env w \<Longrightarrow> app_step env w w' \<Longrightarrow> reachable env w'"

lemma initial_inv: "app_inv_ok env (initial_world n)"
  by (auto simp: app_inv_ok_def initial_world_def empty_db_def ids_inv_def rows_inv_def owner_inv_def session_inv_def
      user_cache_coherent_def cache_known_def key_cache_safe_def cached_def lookup_row_def)

lemma tick_inv:
  assumes "app_inv_ok env w" "w_now w \<le> n"
  shows "app_inv_ok env (w\<lparr>w_now := n\<rparr>)"
  using assms by (intro app_invI[OF assms(1)]) (auto simp: app_inv_ok_def dest: cached_later)

lemma steady_preserves:
  assumes "steady T m" "app_inv_ok env w" "\<forall>t \<in> T. known env (w_ids w) t"
  shows "app_inv_ok env (snd (m w))"
  using app_inv_carries[OF assms(2) _ assms(3), of "snd (m w)"] assms(1)
  unfolding steady_def by (metis prod.collapse)

lemma queries_preserve:
  assumes "app_inv_ok env w" "known env (w_ids w) t" "CHR '':'' \<notin> set t"
  shows "app_inv_ok env (snd (listRoles a t w))" "app_inv_ok env (snd (getTenant a t w))"
    "app_inv_ok env (snd (listTenantMembers a t w))" "app_inv_ok env (snd (listApiKeys a t w))"
    "app_inv_ok env (snd (getMyProfile u t w))"
proof -
  have T: "\<forall>t' \<in> {t}. known env (w_ids w) t'" using assms(2) by simp
  show "app_inv_ok env (snd (listRoles a t w))" "app_inv_ok env (snd (getTenant a t w))"
    "app_inv_ok env (snd (listTenantMembers a t w))" "app_inv_ok env (snd (listApiKeys a t w))"
    "app_inv_ok env (snd (getMyProfile u t w))"
    by (rule steady_preserves[OF _ assms(1) T], rule queries_steady[OF assms(3)], simp)+
qed

lemma resolveApiKey_preserves: "app_inv_ok env w \<Longrightarrow> app_inv_ok env (snd (resolveApiKey env tk w))"
  by (rule steady_preserves[OF resolveApiKey_steady[of "{}"]]) simp_all

lemma selectTenant_preserves: "app_inv_ok env w \<Longrightarrow> app_inv_ok env (snd (selectTenant u t w))"
proof -
  have "steady {} (selectTenant u t)" unfolding selectTenant_def by (intro quiet_intros)
  then show "app_inv_ok env w \<Longrightarrow> app_inv_ok env (snd (selectTenant u t w))" by (rule steady_preserves) simp_all
qed

lemma require_preserves:
  assumes "app_inv_ok env w" "known env (w_ids w) t" "CHR '':'' \<notin> set t"
  shows "app_inv_ok env (snd (authz_require a p t w))"
  by (rule steady_preserves[OF steady_require[OF assms(3), of "{t}"] assms(1)]) (simp_all add: assms(2))

lemma app_step_inv:
  assumes "app_step env w w'" "inj (genId env)" "app_inv_ok env w"
  shows "app_inv_ok env w'"
  using assms(1)
proof cases
  case step_tick
  then show ?thesis using tick_inv assms(3) by blast
qed (use assms(2,3) in \<open>auto simp: addressable_def intro: createTenant_preserves createCustomRole_preserves
    updateCustomRole_preserves deleteCustomRole_preserves attachMember_preserves replaceMembershipRoles_preserves
    inviteMember_preserves acceptInvitation_preserves purgeStaleInvitations_preserves createUser_preserves
    registerUser_preserves login_preserves logout_preserves rotateRefresh_preserves purgeRefreshSessions_preserves
    purgePasswordResetTokens_preserves requestPasswordReset_preserves resetPassword_preserves
    setOrChangePassword_preserves createApiKey_preserves updateApiKey_preserves revokeApiKey_preserves
    touchApiKeyLastUsed_preserves queries_preserve resolveApiKey_preserves selectTenant_preserves
    require_preserves\<close>)

lemma reachable_inv: "reachable env w \<Longrightarrow> inj (genId env) \<Longrightarrow> app_inv_ok env w"
  by (induction rule: reachable.induct) (auto intro: initial_inv app_step_inv)

end
