(* ===== verification/Outcomes.thy ===== *)
theory Outcomes
  imports Lifecycle
begin

text \<open>
  Facts about the outcome of single use cases that several properties share: rows found again after
  a save, answers that survive a check, the facts of the invariants in a reachable state.
\<close>

section \<open>Rows found again\<close>

lemma find_after_upsert:
  "find P rows = Some r \<Longrightarrow> P x \<Longrightarrow> key x = key r \<Longrightarrow> find P (upsert key x rows) = Some x"
  by (induction rows) (auto split: if_splits)

lemma find_after_append: "find P rows = Some r \<Longrightarrow> find P (rows @ xs) = Some r"
  by (induction rows) (auto split: if_splits)

lemma find_append_new: "find P rows = None \<Longrightarrow> P x \<Longrightarrow> find P (rows @ [x]) = Some x"
  by (induction rows) (auto split: if_splits)

lemma find_unique:
  assumes "x \<in> set rows" "P x" "\<And>y. y \<in> set rows \<Longrightarrow> P y \<Longrightarrow> y = x"
  shows "find P rows = Some x"
proof (cases "find P rows")
  case None
  then show ?thesis using assms(1,2) by (auto simp: find_None_iff)
next
  case (Some y)
  then show ?thesis using find_cong_key[OF Some] assms(3) by auto
qed

lemma find_map_revoked:
  assumes "\<And>x. P (f x) = P x"
  shows "find P (map f rows) = map_option f (find P rows)"
  using assms by (induction rows) auto

section \<open>Reachable states\<close>

lemma reachable_parts:
  assumes "reachable env w" "inj (genId env)"
  shows "ids_inv env (w_ids w) (w_db w)" "rows_inv (w_db w)" "owner_inv (w_db w)" "session_inv env (w_ids w) (w_db w)"
    "user_cache_coherent w" "key_cache_safe w"
  using reachable_inv[OF assms] by (simp_all add: app_inv_ok_def)

lemma reachable_answers:
  assumes "reachable env w" "inj (genId env)" "CHR '':'' \<notin> set t"
  shows "answers w (userActor u) t = resolvePermissions u t (w_db w)"
  by (rule coherent_answers[OF reachable_parts(5)[OF assms(1,2)] assms(3)])

lemma answers_after_require:
  assumes "authz_require a p t w = (Inr x, w1)"
  shows "answers w1 a t = answers w a t"
  using authz_require_Inr(3)[OF assms] by (cases a) (auto simp: answers_def principal_key_def)

section \<open>API keys\<close>

lemma assertHeld_Inr: "assertHeld held ps = Inr u \<longleftrightarrow> set ps \<subseteq> set held \<and> set ps \<subseteq> set catalog_all"
  by (induction held ps rule: assertHeld.induct) (auto simp: bindR_def assertKnown_def throwIf_def isKnown_def list_ex_iff)

section \<open>Failures\<close>

text \<open>A use case that throws leaves every row and every event as it was.\<close>

lemma quiet_atomic: "quiet UNIV m \<Longrightarrow> atomic m"
  by (auto simp: quiet_def atomic_def carries_def)

lemma guarded_use_cases_atomic:
  "atomic (createCustomRole env a t n ps)" "atomic (updateCustomRole env a t i no pso)" "atomic (deleteCustomRole a t i)"
  "atomic (attachMember env a t u rs)" "atomic (replaceMembershipRoles a t i rs)" "atomic (inviteMember env a t e rs)"
  "atomic (revokeApiKey a t i)"
  unfolding createCustomRole_def updateCustomRole_def deleteCustomRole_def attachMember_def replaceMembershipRoles_def
    inviteMember_def revokeApiKey_def
  by (rule authz.guarded_transaction_atomic)+

lemma key_use_cases_atomic:
  "atomic (createApiKey env a t n ps x)" "atomic (updateApiKey a t i no pso)"
proof -
  have k: "keepsDb (getEffectivePermissions u t)" for u
    unfolding keepsDb_def using getEffectivePermissions_eval[of u t] by (metis same_but_cache_db snd_conv)
  show "atomic (createApiKey env a t n ps x)"
    unfolding createApiKey_def
    by (cases a; simp; intro authz.guarded_atomic atomic_bind_keeps atomic_then_keeps atomic_uow atomic_keepsDb k; simp)
  have g: "keepsDb (case (pso, a) of
         (Some ps, userActor u) \<Rightarrow>
           bindA (getEffectivePermissions u t) (\<lambda>creatorPermissions. liftR (assertHeld creatorPermissions ps))
       | _ \<Rightarrow> returnA ())"
    by (auto split: option.split tenantActor.split intro!: keepsDb_bind k)
  show "atomic (updateApiKey a t i no pso)"
    unfolding updateApiKey_def by (intro authz.guarded_atomic atomic_then_keeps atomic_uow g)
qed

lemma open_use_cases_atomic:
  "atomic (createTenant env name u)" "atomic (createUser env e dn)" "atomic (registerUser env e dn pw)"
  "atomic (login env e pw)" "atomic (logout env tok)" "atomic (acceptInvitation env tk dno pwo)"
  "atomic (requestPasswordReset env e)" "atomic (resetPassword env tk pw)" "atomic (setOrChangePassword env u pw cur)"
  by (rule quiet_atomic[OF use_cases_quiet(1)] quiet_atomic[OF use_cases_quiet(2)] quiet_atomic[OF use_cases_quiet(3)]
      quiet_atomic[OF use_cases_quiet(4)] quiet_atomic[OF use_cases_quiet(5)] quiet_atomic[OF use_cases_quiet(6)]
      quiet_atomic[OF use_cases_quiet(10)] quiet_atomic[OF use_cases_quiet(11)] quiet_atomic[OF use_cases_quiet(12)])+

lemmas use_cases_atomic = guarded_use_cases_atomic key_use_cases_atomic open_use_cases_atomic

end
