(* ===== verification/Examples.thy ===== *)
theory Examples
  imports Lifecycle
begin

text \<open>
  A concrete environment and concrete worlds.  The environment is the one of the repository's own
  unit tests (packages/application/src/testing): the sequential id generator, the password hasher
  and the token digest in memory; a branded id is any string of at least 36 characters.  The worlds are runs
  of the use cases from the empty store, so they are reachable by construction.
\<close>

section \<open>Sequential ids\<close>

definition hexDigit :: "nat \<Rightarrow> char" where
  "hexDigit d = ''0123456789abcdef'' ! (d mod 16)"

fun toHex :: "nat \<Rightarrow> string" where
  "toHex n = (if n < 16 then [hexDigit n] else toHex (n div 16) @ [hexDigit n])"

declare toHex.simps [simp del]

definition hexValue :: "char \<Rightarrow> nat" where
  "hexValue c = (let n = of_char c :: nat in if n < 58 then n - 48 else n - 87)"

definition readHex :: "string \<Rightarrow> nat" where
  "readHex s = foldl (\<lambda>a c. 16 * a + hexValue c) 0 s"

definition sequentialId :: "nat \<Rightarrow> string" where
  "sequentialId n = ''00000000-0000-4000-8000-'' @ padStart 12 (CHR ''0'') (toHex (Suc n))"

lemma hexDigit_value: "hexValue (hexDigit d) = d mod 16"
proof -
  have "\<forall>d < 16. hexValue (hexDigit d) = d" by code_simp
  moreover have "hexDigit d = hexDigit (d mod 16)" by (simp add: hexDigit_def)
  ultimately show ?thesis by simp
qed

lemma readHex_snoc: "readHex (s @ [c]) = 16 * readHex s + hexValue c"
  by (simp add: readHex_def)

lemma readHex_toHex: "readHex (toHex n) = n"
proof (induction n rule: toHex.induct)
  case (1 n)
  show ?case
  proof (cases "n < 16")
    case True
    then show ?thesis by (subst toHex.simps) (simp add: readHex_def hexDigit_value)
  next
    case False
    then show ?thesis
      using 1 by (subst toHex.simps) (simp add: readHex_snoc hexDigit_value mult_div_mod_eq)
  qed
qed

lemma readHex_zeros: "readHex (replicate k (CHR ''0'') @ s) = readHex s"
  by (induction k) (simp_all add: readHex_def hexValue_def)

lemma sequentialId_inj: "inj sequentialId"
proof (rule injI)
  fix a b assume "sequentialId a = sequentialId b"
  then have "readHex (padStart 12 (CHR ''0'') (toHex (Suc a))) = readHex (padStart 12 (CHR ''0'') (toHex (Suc b)))"
    by (simp add: sequentialId_def)
  then show "a = b" by (simp add: padStart_def readHex_zeros readHex_toHex)
qed

section \<open>The test environment\<close>

definition testEnv :: env where
  "testEnv = \<lparr>genId = sequentialId, isUuid = (\<lambda>s. 36 \<le> length s),
     hashPw = (\<lambda>_ pw. ''test-hash:'' @ pw), verifyPw = (\<lambda>pw h. h = ''test-hash:'' @ pw),
     digest = (\<lambda>v. ''test-digest:'' @ v), digestMatches = (\<lambda>v d. ''test-digest:'' @ v = d)\<rparr>"

lemma testEnv_inj: "inj (genId testEnv)"
  by (simp add: testEnv_def sequentialId_inj)

lemma testEnv_uuid: "\<forall>n. isUuid testEnv (genId testEnv n)"
  by (auto simp: testEnv_def sequentialId_def padStart_def)

text \<open>Their digits and dashes are those of a UUID.\<close>

definition uuid_shaped :: "string \<Rightarrow> bool" where
  "uuid_shaped s \<longleftrightarrow> list_all (\<lambda>c. lower_alnum c \<or> c = CHR ''-'') s \<and> publicPrefixLength \<le> length (filter (\<lambda>c. c \<noteq> CHR ''-'') s)"

lemma hexDigit_alnum: "lower_alnum (hexDigit d)"
proof -
  have "list_all lower_alnum ''0123456789abcdef''" by code_simp
  then have "lower_alnum (''0123456789abcdef'' ! (d mod 16))" by (rule list_all_length[THEN iffD1, rule_format]) simp
  then show ?thesis by (simp only: hexDigit_def)
qed

lemma toHex_alnum: "list_all lower_alnum (toHex n)"
proof (induction n rule: toHex.induct)
  case (1 n)
  then show ?case by (cases "n < 16"; subst toHex.simps) (simp_all add: hexDigit_alnum)
qed

lemma testEnv_uuid_shaped: "\<forall>n. uuid_shaped (genId testEnv n)"
proof
  fix n
  have a: "list_all (\<lambda>c. lower_alnum c \<or> c = CHR ''-'') ''00000000-0000-4000-8000-''" by code_simp
  have b: "length (filter (\<lambda>c. c \<noteq> CHR ''-'') ''00000000-0000-4000-8000-'') = 20" by code_simp
  have c: "lower_alnum (CHR ''0'')" by code_simp
  show "uuid_shaped (genId testEnv n)"
    using a b c toHex_alnum[of "Suc n"]
    by (auto simp: uuid_shaped_def testEnv_def sequentialId_def padStart_def publicPrefixLength_def list_all_iff)
qed

section \<open>Reachable worlds\<close>

definition demoUser :: world where
  "demoUser = snd (registerUser testEnv '' Ann@Example.com '' ''Ann'' ''correct horse'' (initial_world 0))"

definition demoTenant :: world where
  "demoTenant = snd (createTenant testEnv ''Acme'' (sequentialId 0) demoUser)"

definition demoInvited :: world where
  "demoInvited = snd (inviteMember testEnv (userActor (sequentialId 0)) (sequentialId 1) ''bob@example.com''
     [sequentialId 4] demoTenant)"

definition demoAccepted :: world where
  "demoAccepted = snd (acceptInvitation testEnv (sequentialId 6) (Some ''Bob'') (Some ''battery staple'') demoInvited)"

definition demoKey :: world where
  "demoKey = snd (createApiKey testEnv (userActor (sequentialId 0)) (sequentialId 1) ''ci''
     [''tenancy.members.read''] None demoTenant)"

definition demoLogin :: world where
  "demoLogin = snd (login testEnv ''ann@example.com'' ''correct horse'' demoTenant)"

definition demoReset :: world where
  "demoReset = snd (requestPasswordReset testEnv ''ann@example.com'' demoLogin)"

text \<open>The states themselves, which later evaluations start from.\<close>

lemma demoUser_code [code]:
  "demoUser =
     \<lparr>w_db = \<lparr>db_tenants = [], db_roles = [], db_memberships = [], db_invitations = [], db_users
     = [\<lparr>ent_id = ''00000000-0000-4000-8000-000000000001'', agg_events = [], u_email =
     ''ann@example.com'', u_displayName = ''Ann'', u_status = Active\<rparr>], db_passwords = [\<lparr>ent_id
     = ''00000000-0000-4000-8000-000000000001'', p_passwordHash = ''test-hash:correct horse''\<rparr>],
     db_sessions = [], db_resetTokens = [], db_apiKeys = [], db_outbox = [UserCreated 0
     ''00000000-0000-4000-8000-000000000001'' ''ann@example.com'']\<rparr>, w_cache = [], w_ids = 1, w_salt =
     1, w_mails = [], w_now = 0\<rparr>"
  by code_simp

lemma demoTenant_code [code]:
  "demoTenant =
     \<lparr>w_db = \<lparr>db_tenants = [\<lparr>ent_id = ''00000000-0000-4000-8000-000000000002'',
     agg_events = [], tenant_name = ''Acme'', tenant_status = Active\<rparr>], db_roles = [\<lparr>ent_id =
     ''00000000-0000-4000-8000-000000000003'', agg_events = [], r_tenantId =
     ''00000000-0000-4000-8000-000000000002'', r_name = ''Owner'', r_permissions = [''tenancy.members.read'',
     ''tenancy.members.invite'', ''tenancy.members.manage'', ''tenancy.tenant.read'',
     ''authorization.roles.read'', ''authorization.roles.manage'', ''identity.users.read'',
     ''identity.api_keys.manage''], r_isSystem = True\<rparr>, \<lparr>ent_id =
     ''00000000-0000-4000-8000-000000000004'', agg_events = [], r_tenantId =
     ''00000000-0000-4000-8000-000000000002'', r_name = ''Admin'', r_permissions = [''tenancy.members.read'',
     ''tenancy.members.invite'', ''tenancy.members.manage'', ''tenancy.tenant.read'', ''identity.users.read'',
     ''identity.api_keys.manage''], r_isSystem = True\<rparr>, \<lparr>ent_id =
     ''00000000-0000-4000-8000-000000000005'', agg_events = [], r_tenantId =
     ''00000000-0000-4000-8000-000000000002'', r_name = ''Member'', r_permissions = [''tenancy.tenant.read''],
     r_isSystem = True\<rparr>], db_memberships = [\<lparr>ent_id = ''00000000-0000-4000-8000-000000000006'',
     agg_events = [], m_tenantId = ''00000000-0000-4000-8000-000000000002'', m_userId =
     ''00000000-0000-4000-8000-000000000001'', m_roleIds = [''00000000-0000-4000-8000-000000000003''],
     m_status = MActive\<rparr>], db_invitations = [], db_users = [\<lparr>ent_id =
     ''00000000-0000-4000-8000-000000000001'', agg_events = [], u_email = ''ann@example.com'', u_displayName =
     ''Ann'', u_status = Active\<rparr>], db_passwords = [\<lparr>ent_id =
     ''00000000-0000-4000-8000-000000000001'', p_passwordHash = ''test-hash:correct horse''\<rparr>],
     db_sessions = [], db_resetTokens = [], db_apiKeys = [], db_outbox = [UserCreated 0
     ''00000000-0000-4000-8000-000000000001'' ''ann@example.com'', TenantCreated 0
     ''00000000-0000-4000-8000-000000000002'' ''Acme'', RoleCreated 0 ''00000000-0000-4000-8000-000000000003''
     ''00000000-0000-4000-8000-000000000002'' ''Owner'' True, RoleCreated 0
     ''00000000-0000-4000-8000-000000000004'' ''00000000-0000-4000-8000-000000000002'' ''Admin'' True,
     RoleCreated 0 ''00000000-0000-4000-8000-000000000005'' ''00000000-0000-4000-8000-000000000002''
     ''Member'' True, MembershipCreated 0 ''00000000-0000-4000-8000-000000000006''
     ''00000000-0000-4000-8000-000000000002'' ''00000000-0000-4000-8000-000000000001''
     [''00000000-0000-4000-8000-000000000003''] MActive]\<rparr>, w_cache = [], w_ids = 6, w_salt = 1, w_mails
     = [], w_now = 0\<rparr>"
  by code_simp

lemma demoInvited_code [code]:
  "demoInvited =
     \<lparr>w_db = \<lparr>db_tenants = [\<lparr>ent_id = ''00000000-0000-4000-8000-000000000002'',
     agg_events = [], tenant_name = ''Acme'', tenant_status = Active\<rparr>], db_roles = [\<lparr>ent_id =
     ''00000000-0000-4000-8000-000000000003'', agg_events = [], r_tenantId =
     ''00000000-0000-4000-8000-000000000002'', r_name = ''Owner'', r_permissions = [''tenancy.members.read'',
     ''tenancy.members.invite'', ''tenancy.members.manage'', ''tenancy.tenant.read'',
     ''authorization.roles.read'', ''authorization.roles.manage'', ''identity.users.read'',
     ''identity.api_keys.manage''], r_isSystem = True\<rparr>, \<lparr>ent_id =
     ''00000000-0000-4000-8000-000000000004'', agg_events = [], r_tenantId =
     ''00000000-0000-4000-8000-000000000002'', r_name = ''Admin'', r_permissions = [''tenancy.members.read'',
     ''tenancy.members.invite'', ''tenancy.members.manage'', ''tenancy.tenant.read'', ''identity.users.read'',
     ''identity.api_keys.manage''], r_isSystem = True\<rparr>, \<lparr>ent_id =
     ''00000000-0000-4000-8000-000000000005'', agg_events = [], r_tenantId =
     ''00000000-0000-4000-8000-000000000002'', r_name = ''Member'', r_permissions = [''tenancy.tenant.read''],
     r_isSystem = True\<rparr>], db_memberships = [\<lparr>ent_id = ''00000000-0000-4000-8000-000000000006'',
     agg_events = [], m_tenantId = ''00000000-0000-4000-8000-000000000002'', m_userId =
     ''00000000-0000-4000-8000-000000000001'', m_roleIds = [''00000000-0000-4000-8000-000000000003''],
     m_status = MActive\<rparr>], db_invitations = [\<lparr>ent_id = ''00000000-0000-4000-8000-000000000008'',
     agg_events = [], i_tenantId = ''00000000-0000-4000-8000-000000000002'', i_email = ''bob@example.com'',
     i_roleIds = [''00000000-0000-4000-8000-000000000005''], i_tokenHash =
     ''test-digest:00000000-0000-4000-8000-000000000007'', i_expiresAt = 604800000, i_invitedByUserId =
     ''00000000-0000-4000-8000-000000000001'', i_consumedAt = None\<rparr>], db_users = [\<lparr>ent_id =
     ''00000000-0000-4000-8000-000000000001'', agg_events = [], u_email = ''ann@example.com'', u_displayName =
     ''Ann'', u_status = Active\<rparr>], db_passwords = [\<lparr>ent_id =
     ''00000000-0000-4000-8000-000000000001'', p_passwordHash = ''test-hash:correct horse''\<rparr>],
     db_sessions = [], db_resetTokens = [], db_apiKeys = [], db_outbox = [UserCreated 0
     ''00000000-0000-4000-8000-000000000001'' ''ann@example.com'', TenantCreated 0
     ''00000000-0000-4000-8000-000000000002'' ''Acme'', RoleCreated 0 ''00000000-0000-4000-8000-000000000003''
     ''00000000-0000-4000-8000-000000000002'' ''Owner'' True, RoleCreated 0
     ''00000000-0000-4000-8000-000000000004'' ''00000000-0000-4000-8000-000000000002'' ''Admin'' True,
     RoleCreated 0 ''00000000-0000-4000-8000-000000000005'' ''00000000-0000-4000-8000-000000000002''
     ''Member'' True, MembershipCreated 0 ''00000000-0000-4000-8000-000000000006''
     ''00000000-0000-4000-8000-000000000002'' ''00000000-0000-4000-8000-000000000001''
     [''00000000-0000-4000-8000-000000000003''] MActive, InvitationCreated 0
     ''00000000-0000-4000-8000-000000000008'' ''00000000-0000-4000-8000-000000000002'' ''bob@example.com''
     ''00000000-0000-4000-8000-000000000001'']\<rparr>, w_cache =
     [(''t:00000000-0000-4000-8000-000000000002:authorization:effective-permissions:00000000-0000-4000-8000-000000000001'',
     \<lparr>ce_value = [''tenancy.members.read'', ''tenancy.members.invite'', ''tenancy.members.manage'',
     ''tenancy.tenant.read'', ''authorization.roles.read'', ''authorization.roles.manage'',
     ''identity.users.read'', ''identity.api_keys.manage''], ce_expiresAt = 60000\<rparr>)], w_ids = 8, w_salt
     = 1, w_mails = [\<lparr>mail_to = ''bob@example.com'', mail_subject = ''Tenant invitation'', mail_text =
     ''invitation token: 00000000-0000-4000-8000-000000000007''\<rparr>], w_now = 0\<rparr>"
  by code_simp

lemma demoAccepted_code [code]:
  "demoAccepted =
     \<lparr>w_db = \<lparr>db_tenants = [\<lparr>ent_id = ''00000000-0000-4000-8000-000000000002'',
     agg_events = [], tenant_name = ''Acme'', tenant_status = Active\<rparr>], db_roles = [\<lparr>ent_id =
     ''00000000-0000-4000-8000-000000000003'', agg_events = [], r_tenantId =
     ''00000000-0000-4000-8000-000000000002'', r_name = ''Owner'', r_permissions = [''tenancy.members.read'',
     ''tenancy.members.invite'', ''tenancy.members.manage'', ''tenancy.tenant.read'',
     ''authorization.roles.read'', ''authorization.roles.manage'', ''identity.users.read'',
     ''identity.api_keys.manage''], r_isSystem = True\<rparr>, \<lparr>ent_id =
     ''00000000-0000-4000-8000-000000000004'', agg_events = [], r_tenantId =
     ''00000000-0000-4000-8000-000000000002'', r_name = ''Admin'', r_permissions = [''tenancy.members.read'',
     ''tenancy.members.invite'', ''tenancy.members.manage'', ''tenancy.tenant.read'', ''identity.users.read'',
     ''identity.api_keys.manage''], r_isSystem = True\<rparr>, \<lparr>ent_id =
     ''00000000-0000-4000-8000-000000000005'', agg_events = [], r_tenantId =
     ''00000000-0000-4000-8000-000000000002'', r_name = ''Member'', r_permissions = [''tenancy.tenant.read''],
     r_isSystem = True\<rparr>], db_memberships = [\<lparr>ent_id = ''00000000-0000-4000-8000-000000000006'',
     agg_events = [], m_tenantId = ''00000000-0000-4000-8000-000000000002'', m_userId =
     ''00000000-0000-4000-8000-000000000001'', m_roleIds = [''00000000-0000-4000-8000-000000000003''],
     m_status = MActive\<rparr>, \<lparr>ent_id = ''00000000-0000-4000-8000-00000000000a'', agg_events = [],
     m_tenantId = ''00000000-0000-4000-8000-000000000002'', m_userId =
     ''00000000-0000-4000-8000-000000000009'', m_roleIds = [''00000000-0000-4000-8000-000000000005''],
     m_status = MActive\<rparr>], db_invitations = [\<lparr>ent_id = ''00000000-0000-4000-8000-000000000008'',
     agg_events = [], i_tenantId = ''00000000-0000-4000-8000-000000000002'', i_email = ''bob@example.com'',
     i_roleIds = [''00000000-0000-4000-8000-000000000005''], i_tokenHash =
     ''test-digest:00000000-0000-4000-8000-000000000007'', i_expiresAt = 604800000, i_invitedByUserId =
     ''00000000-0000-4000-8000-000000000001'', i_consumedAt = Some 0\<rparr>], db_users = [\<lparr>ent_id =
     ''00000000-0000-4000-8000-000000000001'', agg_events = [], u_email = ''ann@example.com'', u_displayName =
     ''Ann'', u_status = Active\<rparr>, \<lparr>ent_id = ''00000000-0000-4000-8000-000000000009'', agg_events
     = [], u_email = ''bob@example.com'', u_displayName = ''Bob'', u_status = Active\<rparr>], db_passwords =
     [\<lparr>ent_id = ''00000000-0000-4000-8000-000000000001'', p_passwordHash =
     ''test-hash:correct horse''\<rparr>, \<lparr>ent_id = ''00000000-0000-4000-8000-000000000009'',
     p_passwordHash = ''test-hash:battery staple''\<rparr>], db_sessions = [], db_resetTokens = [], db_apiKeys
     = [], db_outbox = [UserCreated 0 ''00000000-0000-4000-8000-000000000001'' ''ann@example.com'',
     TenantCreated 0 ''00000000-0000-4000-8000-000000000002'' ''Acme'', RoleCreated 0
     ''00000000-0000-4000-8000-000000000003'' ''00000000-0000-4000-8000-000000000002'' ''Owner'' True,
     RoleCreated 0 ''00000000-0000-4000-8000-000000000004'' ''00000000-0000-4000-8000-000000000002'' ''Admin''
     True, RoleCreated 0 ''00000000-0000-4000-8000-000000000005'' ''00000000-0000-4000-8000-000000000002''
     ''Member'' True, MembershipCreated 0 ''00000000-0000-4000-8000-000000000006''
     ''00000000-0000-4000-8000-000000000002'' ''00000000-0000-4000-8000-000000000001''
     [''00000000-0000-4000-8000-000000000003''] MActive, InvitationCreated 0
     ''00000000-0000-4000-8000-000000000008'' ''00000000-0000-4000-8000-000000000002'' ''bob@example.com''
     ''00000000-0000-4000-8000-000000000001'', UserCreated 0 ''00000000-0000-4000-8000-000000000009''
     ''bob@example.com'', MembershipCreated 0 ''00000000-0000-4000-8000-00000000000a''
     ''00000000-0000-4000-8000-000000000002'' ''00000000-0000-4000-8000-000000000009''
     [''00000000-0000-4000-8000-000000000005''] MActive, InvitationConsumed 0
     ''00000000-0000-4000-8000-000000000008'' ''00000000-0000-4000-8000-000000000002''
     ''bob@example.com'']\<rparr>, w_cache =
     [(''t:00000000-0000-4000-8000-000000000002:authorization:effective-permissions:00000000-0000-4000-8000-000000000001'',
     \<lparr>ce_value = [''tenancy.members.read'', ''tenancy.members.invite'', ''tenancy.members.manage'',
     ''tenancy.tenant.read'', ''authorization.roles.read'', ''authorization.roles.manage'',
     ''identity.users.read'', ''identity.api_keys.manage''], ce_expiresAt = 60000\<rparr>)], w_ids = 10,
     w_salt = 2, w_mails = [\<lparr>mail_to = ''bob@example.com'', mail_subject = ''Tenant invitation'',
     mail_text = ''invitation token: 00000000-0000-4000-8000-000000000007''\<rparr>], w_now = 0\<rparr>"
  by code_simp

lemma demoKey_code [code]:
  "demoKey =
     \<lparr>w_db = \<lparr>db_tenants = [\<lparr>ent_id = ''00000000-0000-4000-8000-000000000002'',
     agg_events = [], tenant_name = ''Acme'', tenant_status = Active\<rparr>], db_roles = [\<lparr>ent_id =
     ''00000000-0000-4000-8000-000000000003'', agg_events = [], r_tenantId =
     ''00000000-0000-4000-8000-000000000002'', r_name = ''Owner'', r_permissions = [''tenancy.members.read'',
     ''tenancy.members.invite'', ''tenancy.members.manage'', ''tenancy.tenant.read'',
     ''authorization.roles.read'', ''authorization.roles.manage'', ''identity.users.read'',
     ''identity.api_keys.manage''], r_isSystem = True\<rparr>, \<lparr>ent_id =
     ''00000000-0000-4000-8000-000000000004'', agg_events = [], r_tenantId =
     ''00000000-0000-4000-8000-000000000002'', r_name = ''Admin'', r_permissions = [''tenancy.members.read'',
     ''tenancy.members.invite'', ''tenancy.members.manage'', ''tenancy.tenant.read'', ''identity.users.read'',
     ''identity.api_keys.manage''], r_isSystem = True\<rparr>, \<lparr>ent_id =
     ''00000000-0000-4000-8000-000000000005'', agg_events = [], r_tenantId =
     ''00000000-0000-4000-8000-000000000002'', r_name = ''Member'', r_permissions = [''tenancy.tenant.read''],
     r_isSystem = True\<rparr>], db_memberships = [\<lparr>ent_id = ''00000000-0000-4000-8000-000000000006'',
     agg_events = [], m_tenantId = ''00000000-0000-4000-8000-000000000002'', m_userId =
     ''00000000-0000-4000-8000-000000000001'', m_roleIds = [''00000000-0000-4000-8000-000000000003''],
     m_status = MActive\<rparr>], db_invitations = [], db_users = [\<lparr>ent_id =
     ''00000000-0000-4000-8000-000000000001'', agg_events = [], u_email = ''ann@example.com'', u_displayName =
     ''Ann'', u_status = Active\<rparr>], db_passwords = [\<lparr>ent_id =
     ''00000000-0000-4000-8000-000000000001'', p_passwordHash = ''test-hash:correct horse''\<rparr>],
     db_sessions = [], db_resetTokens = [], db_apiKeys = [\<lparr>ent_id =
     ''00000000-0000-4000-8000-000000000009'', agg_events = [], k_tenantId =
     ''00000000-0000-4000-8000-000000000002'', k_createdByUserId = ''00000000-0000-4000-8000-000000000001'',
     k_name = ''ci'', k_prefix = ''bsk_000000000000'', k_secretHash =
     ''test-digest:bsk_000000000000_00000000000040008000000000000008'', k_permissions =
     [''tenancy.members.read''], k_expiresAt = None, k_revokedAt = None, k_lastUsedAt = None\<rparr>],
     db_outbox = [UserCreated 0 ''00000000-0000-4000-8000-000000000001'' ''ann@example.com'', TenantCreated 0
     ''00000000-0000-4000-8000-000000000002'' ''Acme'', RoleCreated 0 ''00000000-0000-4000-8000-000000000003''
     ''00000000-0000-4000-8000-000000000002'' ''Owner'' True, RoleCreated 0
     ''00000000-0000-4000-8000-000000000004'' ''00000000-0000-4000-8000-000000000002'' ''Admin'' True,
     RoleCreated 0 ''00000000-0000-4000-8000-000000000005'' ''00000000-0000-4000-8000-000000000002''
     ''Member'' True, MembershipCreated 0 ''00000000-0000-4000-8000-000000000006''
     ''00000000-0000-4000-8000-000000000002'' ''00000000-0000-4000-8000-000000000001''
     [''00000000-0000-4000-8000-000000000003''] MActive, ApiKeyCreated 0
     ''00000000-0000-4000-8000-000000000009'' ''00000000-0000-4000-8000-000000000002''
     ''00000000-0000-4000-8000-000000000001'' ''bsk_000000000000'']\<rparr>, w_cache =
     [(''t:00000000-0000-4000-8000-000000000002:authorization:effective-permissions:00000000-0000-4000-8000-000000000001'',
     \<lparr>ce_value = [''tenancy.members.read'', ''tenancy.members.invite'', ''tenancy.members.manage'',
     ''tenancy.tenant.read'', ''authorization.roles.read'', ''authorization.roles.manage'',
     ''identity.users.read'', ''identity.api_keys.manage''], ce_expiresAt = 60000\<rparr>)], w_ids = 9, w_salt
     = 1, w_mails = [], w_now = 0\<rparr>"
  by code_simp

lemma demoLogin_code [code]:
  "demoLogin =
     \<lparr>w_db = \<lparr>db_tenants = [\<lparr>ent_id = ''00000000-0000-4000-8000-000000000002'',
     agg_events = [], tenant_name = ''Acme'', tenant_status = Active\<rparr>], db_roles = [\<lparr>ent_id =
     ''00000000-0000-4000-8000-000000000003'', agg_events = [], r_tenantId =
     ''00000000-0000-4000-8000-000000000002'', r_name = ''Owner'', r_permissions = [''tenancy.members.read'',
     ''tenancy.members.invite'', ''tenancy.members.manage'', ''tenancy.tenant.read'',
     ''authorization.roles.read'', ''authorization.roles.manage'', ''identity.users.read'',
     ''identity.api_keys.manage''], r_isSystem = True\<rparr>, \<lparr>ent_id =
     ''00000000-0000-4000-8000-000000000004'', agg_events = [], r_tenantId =
     ''00000000-0000-4000-8000-000000000002'', r_name = ''Admin'', r_permissions = [''tenancy.members.read'',
     ''tenancy.members.invite'', ''tenancy.members.manage'', ''tenancy.tenant.read'', ''identity.users.read'',
     ''identity.api_keys.manage''], r_isSystem = True\<rparr>, \<lparr>ent_id =
     ''00000000-0000-4000-8000-000000000005'', agg_events = [], r_tenantId =
     ''00000000-0000-4000-8000-000000000002'', r_name = ''Member'', r_permissions = [''tenancy.tenant.read''],
     r_isSystem = True\<rparr>], db_memberships = [\<lparr>ent_id = ''00000000-0000-4000-8000-000000000006'',
     agg_events = [], m_tenantId = ''00000000-0000-4000-8000-000000000002'', m_userId =
     ''00000000-0000-4000-8000-000000000001'', m_roleIds = [''00000000-0000-4000-8000-000000000003''],
     m_status = MActive\<rparr>], db_invitations = [], db_users = [\<lparr>ent_id =
     ''00000000-0000-4000-8000-000000000001'', agg_events = [], u_email = ''ann@example.com'', u_displayName =
     ''Ann'', u_status = Active\<rparr>], db_passwords = [\<lparr>ent_id =
     ''00000000-0000-4000-8000-000000000001'', p_passwordHash = ''test-hash:correct horse''\<rparr>],
     db_sessions = [\<lparr>ent_id = ''00000000-0000-4000-8000-000000000008'', s_userId =
     ''00000000-0000-4000-8000-000000000001'', s_familyId = ''00000000-0000-4000-8000-000000000009'',
     s_tokenHash = ''test-digest:00000000-0000-4000-8000-000000000007'', s_expiresAt = 1209600000, s_revokedAt
     = None\<rparr>], db_resetTokens = [], db_apiKeys = [], db_outbox = [UserCreated 0
     ''00000000-0000-4000-8000-000000000001'' ''ann@example.com'', TenantCreated 0
     ''00000000-0000-4000-8000-000000000002'' ''Acme'', RoleCreated 0 ''00000000-0000-4000-8000-000000000003''
     ''00000000-0000-4000-8000-000000000002'' ''Owner'' True, RoleCreated 0
     ''00000000-0000-4000-8000-000000000004'' ''00000000-0000-4000-8000-000000000002'' ''Admin'' True,
     RoleCreated 0 ''00000000-0000-4000-8000-000000000005'' ''00000000-0000-4000-8000-000000000002''
     ''Member'' True, MembershipCreated 0 ''00000000-0000-4000-8000-000000000006''
     ''00000000-0000-4000-8000-000000000002'' ''00000000-0000-4000-8000-000000000001''
     [''00000000-0000-4000-8000-000000000003''] MActive]\<rparr>, w_cache = [], w_ids = 9, w_salt = 1, w_mails
     = [], w_now = 0\<rparr>"
  by code_simp

lemma demoReset_code [code]:
  "demoReset =
     \<lparr>w_db = \<lparr>db_tenants = [\<lparr>ent_id = ''00000000-0000-4000-8000-000000000002'',
     agg_events = [], tenant_name = ''Acme'', tenant_status = Active\<rparr>], db_roles = [\<lparr>ent_id =
     ''00000000-0000-4000-8000-000000000003'', agg_events = [], r_tenantId =
     ''00000000-0000-4000-8000-000000000002'', r_name = ''Owner'', r_permissions = [''tenancy.members.read'',
     ''tenancy.members.invite'', ''tenancy.members.manage'', ''tenancy.tenant.read'',
     ''authorization.roles.read'', ''authorization.roles.manage'', ''identity.users.read'',
     ''identity.api_keys.manage''], r_isSystem = True\<rparr>, \<lparr>ent_id =
     ''00000000-0000-4000-8000-000000000004'', agg_events = [], r_tenantId =
     ''00000000-0000-4000-8000-000000000002'', r_name = ''Admin'', r_permissions = [''tenancy.members.read'',
     ''tenancy.members.invite'', ''tenancy.members.manage'', ''tenancy.tenant.read'', ''identity.users.read'',
     ''identity.api_keys.manage''], r_isSystem = True\<rparr>, \<lparr>ent_id =
     ''00000000-0000-4000-8000-000000000005'', agg_events = [], r_tenantId =
     ''00000000-0000-4000-8000-000000000002'', r_name = ''Member'', r_permissions = [''tenancy.tenant.read''],
     r_isSystem = True\<rparr>], db_memberships = [\<lparr>ent_id = ''00000000-0000-4000-8000-000000000006'',
     agg_events = [], m_tenantId = ''00000000-0000-4000-8000-000000000002'', m_userId =
     ''00000000-0000-4000-8000-000000000001'', m_roleIds = [''00000000-0000-4000-8000-000000000003''],
     m_status = MActive\<rparr>], db_invitations = [], db_users = [\<lparr>ent_id =
     ''00000000-0000-4000-8000-000000000001'', agg_events = [], u_email = ''ann@example.com'', u_displayName =
     ''Ann'', u_status = Active\<rparr>], db_passwords = [\<lparr>ent_id =
     ''00000000-0000-4000-8000-000000000001'', p_passwordHash = ''test-hash:correct horse''\<rparr>],
     db_sessions = [\<lparr>ent_id = ''00000000-0000-4000-8000-000000000008'', s_userId =
     ''00000000-0000-4000-8000-000000000001'', s_familyId = ''00000000-0000-4000-8000-000000000009'',
     s_tokenHash = ''test-digest:00000000-0000-4000-8000-000000000007'', s_expiresAt = 1209600000, s_revokedAt
     = None\<rparr>], db_resetTokens = [\<lparr>ent_id = ''00000000-0000-4000-8000-000000000001'', t_tokenHash
     = ''test-digest:00000000-0000-4000-8000-00000000000a'', t_expiresAt = 3600000, t_consumedAt =
     None\<rparr>], db_apiKeys = [], db_outbox = [UserCreated 0 ''00000000-0000-4000-8000-000000000001''
     ''ann@example.com'', TenantCreated 0 ''00000000-0000-4000-8000-000000000002'' ''Acme'', RoleCreated 0
     ''00000000-0000-4000-8000-000000000003'' ''00000000-0000-4000-8000-000000000002'' ''Owner'' True,
     RoleCreated 0 ''00000000-0000-4000-8000-000000000004'' ''00000000-0000-4000-8000-000000000002'' ''Admin''
     True, RoleCreated 0 ''00000000-0000-4000-8000-000000000005'' ''00000000-0000-4000-8000-000000000002''
     ''Member'' True, MembershipCreated 0 ''00000000-0000-4000-8000-000000000006''
     ''00000000-0000-4000-8000-000000000002'' ''00000000-0000-4000-8000-000000000001''
     [''00000000-0000-4000-8000-000000000003''] MActive]\<rparr>, w_cache = [], w_ids = 10, w_salt = 1,
     w_mails = [\<lparr>mail_to = ''ann@example.com'', mail_subject = ''Password reset'', mail_text =
     ''reset token: 00000000-0000-4000-8000-00000000000a''\<rparr>], w_now = 0\<rparr>"
  by code_simp

lemma demo_reachable: "reachable testEnv demoUser" "reachable testEnv demoTenant"
proof -
  show u: "reachable testEnv demoUser"
    unfolding demoUser_def by (rule reachable_step[OF reachable_initial step_registerUser])
  show "reachable testEnv demoTenant"
    unfolding demoTenant_def by (rule reachable_step[OF u step_createTenant])
qed

lemma demo_runs_reachable: "reachable testEnv demoInvited" "reachable testEnv demoAccepted" "reachable testEnv demoKey"
    "reachable testEnv demoLogin" "reachable testEnv demoReset"
proof -
  have a: "addressable testEnv demoTenant (sequentialId 1)"
  proof -
    have "w_ids demoTenant = 6" "CHR '':'' \<notin> set (sequentialId 1)" by code_simp+
    then show ?thesis
      using known_issued[OF testEnv_inj, of 1 6] by (simp add: addressable_def testEnv_def)
  qed
  show i: "reachable testEnv demoInvited"
    unfolding demoInvited_def by (rule reachable_step[OF demo_reachable(2) step_inviteMember[OF a]])
  show "reachable testEnv demoAccepted"
    unfolding demoAccepted_def by (rule reachable_step[OF i step_acceptInvitation])
  show "reachable testEnv demoKey"
    unfolding demoKey_def by (rule reachable_step[OF demo_reachable(2) step_createApiKey[OF a]])
  show l: "reachable testEnv demoLogin"
    unfolding demoLogin_def by (rule reachable_step[OF demo_reachable(2) step_login])
  show "reachable testEnv demoReset"
    unfolding demoReset_def by (rule reachable_step[OF l step_requestPasswordReset])
qed

lemma demo_addressable: "addressable testEnv demoAccepted (sequentialId 1)"
proof -
  have "w_ids demoAccepted = 10" "CHR '':'' \<notin> set (sequentialId 1)" by code_simp+
  then show ?thesis using known_issued[OF testEnv_inj, of 1 10] by (simp add: addressable_def testEnv_def)
qed

end
