(* ===== verification/Guarantees.thy ===== *)
theory Guarantees
  imports Outcomes Examples
begin

text \<open>
  What the tenancy and authorization use cases guarantee: tenants, members, invitations, roles, and
  the maintenance purges.
\<close>

section \<open>Tenants\<close>

text \<open>A new tenant is complete: it holds exactly the three system roles, each with its fixed permissions, and one active
  membership, the creator's, with the Owner role; everything stored before is still there.\<close>

theorem new_tenant_is_complete:
  assumes "reachable env w" "inj (genId env)" "createTenant env name u w = (Inr v, w')"
  shows "map (\<lambda>r. (r_name r, r_permissions r, r_isSystem r)) (roles_findByTenant (ct_tenantId v) (w_db w')) =
      map (\<lambda>n. (systemRoleName_string n, permissionsFor n, True)) systemRoleNames \<and>
    map (\<lambda>m. (ent_id m, m_userId m, m_roleIds m, m_status m)) (memberships_findByTenant (ct_tenantId v) (w_db w')) =
      [(ct_ownerMembershipId v, u, [ct_owner v], MActive)] \<and>
    set (db_roles (w_db w)) \<subseteq> set (db_roles (w_db w')) \<and> set (db_memberships (w_db w)) \<subseteq> set (db_memberships (w_db w'))"
proof -
  obtain owner tenant roleO roleA roleM m where c: "users_findById u (w_db w) = Some owner"
    "tenant_create (genId env (w_ids w)) name (w_now w) = Inr tenant"
    "roleO = role_createSystemRole (genId env (w_ids w + 1)) (genId env (w_ids w)) Owner (w_now w)"
    "roleA = role_createSystemRole (genId env (w_ids w + 2)) (genId env (w_ids w)) Admin (w_now w)"
    "roleM = role_createSystemRole (genId env (w_ids w + 3)) (genId env (w_ids w)) Member (w_now w)"
    "m = membership_createOwner (genId env (w_ids w + 4)) (genId env (w_ids w)) u (ent_id roleO) (w_now w)"
    "v = \<lparr>ct_tenantId = ent_id tenant, ct_ownerMembershipId = ent_id m, ct_owner = ent_id roleO,
       ct_admin = ent_id roleA, ct_member = ent_id roleM\<rparr>"
    "w' = w\<lparr>w_ids := w_ids w + 5,
       w_db := (memberships_save m (roles_saveMany [roleO, roleA, roleM] (tenants_save tenant (w_db w))))
         \<lparr>db_outbox := db_outbox (w_db w) @ agg_events tenant @ agg_events roleO @ agg_events roleA @
            agg_events roleM @ agg_events m\<rparr>\<rparr>"
    by (rule createTenant_Inr[OF assms(3)])
  note fresh = ids_inv_fresh[OF reachable_parts(1)[OF assms(1,2)]]
  have d: "genId env a = genId env b \<longleftrightarrow> a = b" for a b using assms(2) by (simp add: inj_eq)
  have tid: "ent_id tenant = genId env (w_ids w)" using c(2) by (auto simp: tenant_create_Inr)
  have roles: "db_roles (w_db w') = db_roles (w_db w) @ map as_stored [roleO, roleA, roleM]"
    unfolding c(8) using fresh(1) d c(3-5)
    by (simp add: memberships_save_def) (subst saveMany_fresh, auto simp: tenants_save_def)
  have mems: "db_memberships (w_db w') = db_memberships (w_db w) @ [as_stored m]"
  proof -
    have "ent_id (as_stored m) \<notin> ent_id ` set (db_memberships (w_db w))"
      using fresh(2)[of "w_ids w + 4"] c(6) by (simp add: membership_createOwner_def membership_instantiate_def record_event_def)
    moreover have "db_memberships (roles_saveMany rs x) = db_memberships x" for rs x
      by (induction rs arbitrary: x) (simp_all add: roles_saveMany_def roles_save_def)
    ultimately show ?thesis by (simp add: c(8) memberships_save_def tenants_save_def upsert_fresh)
  qed
  have none: "[r \<leftarrow> db_roles (w_db w). r_tenantId r = ent_id tenant] = []" "[x \<leftarrow> db_memberships (w_db w). m_tenantId x = ent_id tenant] = []"
    using fresh(7)[OF order_refl] fresh(8)[OF order_refl] by (auto simp: tid filter_empty_conv)
  show ?thesis
    using none c(3-6) by (auto simp: roles mems c(7) roles_findByTenant_def memberships_findByTenant_def tid systemRoleNames_def
        membership_createOwner_def membership_instantiate_def record_event_def)
qed

theorem new_tenant_is_complete_witness:
  "map r_name (roles_findByTenant (sequentialId 1) (w_db demoTenant)) = [''Owner'', ''Admin'', ''Member'']"
proof -
  let ?r = "createTenant testEnv ''Acme'' (sequentialId 0) demoUser"
  have "case fst ?r of Inl e \<Rightarrow> False | Inr v \<Rightarrow> ct_tenantId v = sequentialId 1" by code_simp
  then obtain v where v: "fst ?r = Inr v" "ct_tenantId v = sequentialId 1" by (cases "fst ?r") auto
  then have "?r = (Inr v, demoTenant)" by (metis demoTenant_def prod.collapse)
  from new_tenant_is_complete[OF demo_reachable(1) testEnv_inj this]
  have "map fst (map (\<lambda>r. (r_name r, r_permissions r, r_isSystem r)) (roles_findByTenant (sequentialId 1) (w_db demoTenant))) =
      map fst (map (\<lambda>n. (systemRoleName_string n, permissionsFor n, True)) systemRoleNames)" using v(2) by metis
  then show ?thesis by (simp add: comp_def systemRoleNames_def systemRoleName_string_def)
qed

section \<open>Invitations\<close>



text \<open>Accepting joins exactly as invited. The acceptance adds one membership, for the invited address's user, in the
  invitation's tenant, active and with the invitation's roles, and touches no other membership.\<close>

theorem acceptance_grants_invited_roles:
  assumes "reachable env w" "inj (genId env)" "acceptInvitation env token dn pw w = (Inr v, w')"
  shows "\<exists>iv m. iv \<in> set (db_invitations (w_db w)) \<and> i_tokenHash iv = digest env token \<and> invitation_isActive iv (w_now w) \<and>
    map_option u_email (users_findById (ac_userId v) (w_db w')) = Some (i_email iv) \<and>
    db_memberships (w_db w') = db_memberships (w_db w) @ [m] \<and> ent_id m = ac_membershipId v \<and>
    m_userId m = ac_userId v \<and> m_tenantId m = i_tenantId iv \<and> m_status m = MActive \<and> set (m_roleIds m) = set (i_roleIds iv)"
proof -
  obtain iv0 u w1 evs m iv where a: "invitations_findByTokenHash (digest env token) (w_db w) = Some iv0"
    "invitation_isActive iv0 (w_now w)" "registered env iv0 dn pw w u w1 evs"
    "memberships_findByUserAndTenant (ent_id u) (i_tenantId iv0) (w_db w1) = None" "isUuid env (genId env (w_ids w1))"
    "membership_create (genId env (w_ids w1)) (i_tenantId iv0) (ent_id u) (i_roleIds iv0) (w_now w) = Inr m"
    "invitation_consume iv0 (w_now w) = Inr iv"
    "v = \<lparr>ac_userId = ent_id u, ac_membershipId = ent_id m, ac_tenantId = i_tenantId iv\<rparr>"
    "w' = w1\<lparr>w_ids := Suc (w_ids w1),
       w_db := (invitations_save iv (memberships_save m (w_db w1)))
         \<lparr>db_outbox := db_outbox (w_db w1) @ evs @ agg_events m @ agg_events iv\<rparr>,
       w_cache := remove_row fst (effectivePermissionsCacheKey (i_tenantId iv) (ent_id u)) (w_cache w1)\<rparr>"
    by (rule acceptInvitation_Inr[OF assms(3)])
  have iv: "iv0 \<in> set (db_invitations (w_db w))" "i_tokenHash iv0 = digest env token"
    using a(1) by (auto simp: invitations_findByTokenHash_def dest: find_cong_key)
  have w1: "db_memberships (w_db w1) = db_memberships (w_db w)" "w_ids w \<le> w_ids w1"
    using a(3) by (auto simp: registered_def passwords_save_def users_save_def split: option.splits)
  have m: "ent_id m = genId env (w_ids w1)" "m_userId m = ent_id u" "m_tenantId m = i_tenantId iv0" "m_status m = MActive"
    "set (m_roleIds m) = set (i_roleIds iv0)" using a(6) by (auto simp: membership_create_Inr)
  have "ent_id (as_stored m) \<notin> ent_id ` set (db_memberships (w_db w))"
    using ids_inv_fresh(2)[OF reachable_parts(1)[OF assms(1,2)] w1(2)] m(1) by simp
  then have rows: "db_memberships (w_db w') = db_memberships (w_db w) @ [as_stored m]"
    by (simp add: a(9) memberships_save_def invitations_save_def w1 upsert_fresh)
  have rows_users: "distinct (map ent_id (db_users (w_db w)))" using reachable_parts(2)[OF assms(1,2)] by (simp add: rows_inv_def)
  have "map_option u_email (users_findById (ent_id u) (w_db w1)) = Some (i_email iv0)"
  proof (cases "users_findByEmail (i_email iv0) (w_db w)")
    case None
    then show ?thesis using a(3) lookup_upsert_same[of ent_id "as_stored u"] reachable_parts(2)[OF assms(1,2)] iv(1)
      by (auto simp: registered_def passwords_save_def users_save_def users_findById_def user_create_Inr rows_inv_def
          invitation_wf_def)
  next
    case (Some u0)
    then have u0: "u0 \<in> set (db_users (w_db w))" "u_email u0 = i_email iv0" "u = u0" "w1 = w"
      using a(3) reachable_parts(2)[OF assms(1,2)] iv(1)
      by (auto simp: registered_def users_findByEmail_def rows_inv_def invitation_wf_def dest!: find_cong_key)
    then show ?thesis using lookup_row_in[OF rows_users] by (simp add: users_findById_def)
  qed
  then have "map_option u_email (users_findById (ac_userId v) (w_db w')) = Some (i_email iv0)"
    by (simp add: a(8,9) users_findById_def invitations_save_def memberships_save_def)
  then show ?thesis using iv a(2,8) rows m by (intro exI[of _ iv0] exI[of _ "as_stored m"]) simp
qed

theorem acceptance_grants_invited_roles_witness:
  "\<exists>m. db_memberships (w_db demoAccepted) = db_memberships (w_db demoInvited) @ [m]"
proof -
  let ?r = "acceptInvitation testEnv (sequentialId 6) (Some ''Bob'') (Some ''battery staple'') demoInvited"
  have "case fst ?r of Inl e \<Rightarrow> False | Inr v \<Rightarrow> True" by code_simp
  then obtain v where "fst ?r = Inr v" by (cases "fst ?r") auto
  then have "?r = (Inr v, demoAccepted)" by (metis demoAccepted_def prod.collapse)
  from acceptance_grants_invited_roles[OF demo_runs_reachable(1) testEnv_inj this] show ?thesis by blast
qed

section \<open>Roles\<close>

text \<open>Replaced roles take effect at once. After a member's roles are replaced in a reachable state, the member passes a
  check for a permission exactly when one of the new roles grants it (provided the membership is active), and the cached answer
  of before the change is not used.\<close>

theorem replaced_roles_take_effect:
  assumes "reachable env w" "inj (genId env)" "addressable env w t" "replaceMembershipRoles a t i rs w = (Inr v, w')"
    "memberships_findById i (w_db w) = Some m" "m_status m = MActive"
  shows "(\<exists>w''. authz_require (userActor (m_userId m)) p t w' = (Inr (), w'')) \<longleftrightarrow>
    (\<exists>r \<in> set rs. \<exists>role. roles_findById r (w_db w) = Some role \<and> p \<in> set (r_permissions role))"
proof -
  obtain w1 m0 m' where r: "authz_require a tenancyMembersManage t w = (Inr (), w1)" "same_but_cache w w1"
    "memberships_findById i (w_db w) = Some m0" "m_tenantId m0 = t" "OwnerRole_assertAssignable t rs (w_db w) = Inr ()"
    "membership_replaceRoleIds m0 rs (w_now w) = Inr m'"
    "w' = w1\<lparr>w_db := (memberships_save m' (w_db w))\<lparr>db_outbox := db_outbox (w_db w) @ agg_events m'\<rparr>,
       w_cache := remove_row fst (effectivePermissionsCacheKey t (m_userId m')) (w_cache w1)\<rparr>"
    by (rule replaceMembershipRoles_Inr[OF assms(4)])
  have t: "CHR '':'' \<notin> set t" using assms(3) by (simp add: addressable_def)
  have m': "ent_id m' = ent_id m" "m_userId m' = m_userId m" "m_tenantId m' = t" "m_status m' = MActive" "set (m_roleIds m') = set rs"
    using r(3,4,6) assms(5,6) by (auto simp: membership_replaceRoleIds_Inr)
  have mem: "m \<in> set (db_memberships (w_db w))" "ent_id m = i" "m_tenantId m = t"
    using r(3,4) assms(5) by (auto simp: memberships_findById_def dest: find_id_in_table)
  have step: "reachable env w'"
    using reachable_step[OF assms(1) step_replaceMembershipRoles[OF assms(3)]] assms(4) by (metis snd_conv)
  have rows: "rows_inv (w_db w)" by (rule reachable_parts(2)[OF assms(1,2)])
  then have set': "set (db_memberships (w_db w')) = insert (as_stored m') {y \<in> set (db_memberships (w_db w)). ent_id y \<noteq> i}"
    using upsert_set_distinct[of ent_id "db_memberships (w_db w)" "as_stored m'"] m'(1) mem(2)
    by (simp add: r(7) memberships_save_def rows_inv_def)
  have found: "memberships_findByUserAndTenant (m_userId m) t (w_db w') = Some (as_stored m')"
    unfolding memberships_findByUserAndTenant_def
  proof (rule find_unique)
    show "as_stored m' \<in> set (db_memberships (w_db w'))" using set' by simp
    show "m_userId (as_stored m') = m_userId m \<and> m_tenantId (as_stored m') = t" using m' by simp
    fix y assume y: "y \<in> set (db_memberships (w_db w'))" "m_userId y = m_userId m \<and> m_tenantId y = t"
    have "inj_on (\<lambda>m. (m_userId m, m_tenantId m)) (set (db_memberships (w_db w)))" using rows by (simp add: rows_inv_def)
    then show "y = as_stored m'" using y set' mem by (auto dest!: inj_onD[where y = m])
  qed
  have roles: "roles_findById x (w_db w') = roles_findById x (w_db w)" for x
    by (simp add: roles_findById_def r(7) memberships_save_def)
  have own: "r_tenantId role = t" if "x \<in> set rs" "roles_findById x (w_db w) = Some role" for x role
    using assertAssignable_Inr(1)[OF r(5) that(1)] that(2) by auto
  have "user_cache_coherent w'" using reachable_parts(5)[OF step assms(2)] .
  then have "answers w' (userActor (m_userId m)) t = resolvePermissions (m_userId m) t (w_db w')" by (rule coherent_answers[OF _ t])
  moreover have "(\<exists>w''. authz_require (userActor (m_userId m)) p t w' = (Inr (), w'')) \<longleftrightarrow>
      p \<in> set (answers w' (userActor (m_userId m)) t)"
    by (rule authz_require_eval[of "userActor (m_userId m)" p t w']) auto
  ultimately show ?thesis using own by (auto simp: resolvePermissions_set found m' roles) 
qed

theorem replaced_roles_take_effect_witness:
  "\<exists>w''. authz_require (userActor (sequentialId 8)) ''tenancy.members.manage'' (sequentialId 1)
     (snd (replaceMembershipRoles (userActor (sequentialId 0)) (sequentialId 1) (sequentialId 9) [sequentialId 3] demoAccepted)) = (Inr (), w'')"
proof -
  let ?r = "replaceMembershipRoles (userActor (sequentialId 0)) (sequentialId 1) (sequentialId 9) [sequentialId 3] demoAccepted"
  have "case fst ?r of Inl e \<Rightarrow> False | Inr v \<Rightarrow> True" by code_simp
  then obtain v where "fst ?r = Inr v" by (cases "fst ?r") auto
  then have r: "?r = (Inr v, snd ?r)" by (metis prod.collapse)
  have "case memberships_findById (sequentialId 9) (w_db demoAccepted) of None \<Rightarrow> False
      | Some m \<Rightarrow> m_status m = MActive \<and> m_userId m = sequentialId 8" by code_simp
  then obtain m where m: "memberships_findById (sequentialId 9) (w_db demoAccepted) = Some m" "m_status m = MActive" "m_userId m = sequentialId 8"
    by (auto split: option.splits)
  have "case roles_findById (sequentialId 3) (w_db demoAccepted) of None \<Rightarrow> False
      | Some role \<Rightarrow> ''tenancy.members.manage'' \<in> set (r_permissions role)" by code_simp
  then show ?thesis
    using replaced_roles_take_effect[OF demo_runs_reachable(2) testEnv_inj demo_addressable r m(1,2)] m(3)
    by (auto split: option.splits)
qed

text \<open>A role's permissions are a normal form. Creating a role from a list of permissions succeeds exactly when the name is
  not blank or reserved and the list is a non-empty subset of the catalog; the stored list is then the catalog's order without
  repetitions, so two roles with the same permissions store the same list.\<close>

theorem role_permissions_normal_form:
  "map_sum (\<lambda>_. ()) (\<lambda>r. (r_name r, r_permissions r)) (role_create i t n ps at) =
     (if js_trim n \<noteq> [] \<and> js_trim n \<notin> {''Owner'', ''Admin'', ''Member''} \<and> ps \<noteq> [] \<and> set ps \<subseteq> set catalog_all
      then Inr (js_trim n, filter (\<lambda>p. p \<in> set ps) catalog_all) else Inl ())"
proof -
  have names: "reserved_name x \<longleftrightarrow> x \<in> {''Owner'', ''Admin'', ''Member''}" for x
    by (simp add: reserved_name_def systemRoleNames_def systemRoleName_string_def)
  show ?thesis
  proof (cases "role_create i t n ps at")
    case (Inl e)
    then have "\<nexists>r. role_create i t n ps at = Inr r" by simp
    then show ?thesis unfolding role_create_Inr role_normalize_Inr using Inl by (auto simp: names)
  next
    case (Inr r)
    then have "map_sum (\<lambda>_. ()) (\<lambda>r. (r_name r, r_permissions r)) (role_create i t n ps at) = Inr (r_name r, r_permissions r)"
      by simp
    also have "\<dots> = (if js_trim n \<noteq> [] \<and> js_trim n \<notin> {''Owner'', ''Admin'', ''Member''} \<and> ps \<noteq> [] \<and> set ps \<subseteq> set catalog_all
      then Inr (js_trim n, filter (\<lambda>p. p \<in> set ps) catalog_all) else Inl ())"
      using Inr by (auto simp: role_create_Inr role_normalize_Inr names)
    finally show ?thesis .
  qed
qed

text \<open>Deleting a role is refused for a system role, a role of another tenant and a role some member of the tenant holds; when it
  succeeds exactly that role is gone, and no membership of the tenant refers to it.\<close>

theorem deleted_role_was_unused:
  assumes "deleteCustomRole a t i w = (Inr (), w')"
  shows "(\<exists>r. roles_findById i (w_db w) = Some r \<and> r_tenantId r = t \<and> \<not> r_isSystem r) \<and>
    db_roles (w_db w') = filter (\<lambda>r. ent_id r \<noteq> i) (db_roles (w_db w)) \<and>
    db_memberships (w_db w') = db_memberships (w_db w) \<and>
    {m \<in> set (db_memberships (w_db w')). m_tenantId m = t \<and> i \<in> set (m_roleIds m)} = {}"
proof -
  obtain w1 role where r: "same_but_cache w w1" "roles_findById i (w_db w) = Some role" "r_tenantId role = t" "\<not> r_isSystem role"
    "memberships_findByTenantAndRole t i (w_db w) = []" "w' = w1\<lparr>w_db := roles_delete i (w_db w)\<rparr>"
    using assms by (rule deleteCustomRole_Inr)
  have "{m \<in> set (db_memberships (w_db w)). m_tenantId m = t \<and> i \<in> set (m_roleIds m)} = {}"
    using r(5) by (auto simp: memberships_findByTenantAndRole_def filter_empty_conv)
  then show ?thesis using r(2,3,4) by (simp add: r(6) roles_delete_def remove_row_def)
qed

definition demoRole :: world where
  "demoRole = snd (createCustomRole testEnv (userActor (sequentialId 0)) (sequentialId 1) '' Auditor '' [''tenancy.tenant.read''] demoTenant)"

theorem deleted_role_was_unused_witness:
  "length (db_roles (w_db demoRole)) = 4 \<and>
   db_roles (w_db (snd (deleteCustomRole (userActor (sequentialId 0)) (sequentialId 1) (sequentialId 6) demoRole))) =
     filter (\<lambda>r. ent_id r \<noteq> sequentialId 6) (db_roles (w_db demoRole))"
proof
  let ?r = "deleteCustomRole (userActor (sequentialId 0)) (sequentialId 1) (sequentialId 6) demoRole"
  show "length (db_roles (w_db demoRole)) = 4" by code_simp
  have "fst ?r = Inr ()" by code_simp
  then have "?r = (Inr (), snd ?r)" by (metis prod.collapse)
  from deleted_role_was_unused[OF this]
  show "db_roles (w_db (snd ?r)) = filter (\<lambda>r. ent_id r \<noteq> sequentialId 6) (db_roles (w_db demoRole))" by blast
qed

section \<open>Tenant isolation\<close>

text \<open>An id of another tenant is as good as no id: updating or deleting a role, replacing a member's roles, and updating or
  revoking an API key by an id that belongs to another tenant never succeed and leave the database as it was.\<close>

theorem foreign_ids_not_found:
  assumes "r_tenantId r \<noteq> t" "roles_findById i (w_db w) = Some r" "m_tenantId m \<noteq> t" "memberships_findById j (w_db w) = Some m"
    "k_tenantId k \<noteq> t" "apiKeys_findById l (w_db w) = Some k"
  shows "(\<exists>e w'. updateCustomRole env a t i no pso w = (Inl e, w') \<and> w_db w' = w_db w) \<and>
    (\<exists>e w'. deleteCustomRole a t i w = (Inl e, w') \<and> w_db w' = w_db w) \<and>
    (\<exists>e w'. replaceMembershipRoles a t j rs w = (Inl e, w') \<and> w_db w' = w_db w) \<and>
    (\<exists>e w'. updateApiKey a t l no' pso' w = (Inl e, w') \<and> w_db w' = w_db w) \<and>
    (\<exists>e w'. revokeApiKey a t l w = (Inl e, w') \<and> w_db w' = w_db w)"
proof -
  have fails: "\<exists>e w'. x w = (Inl e, w') \<and> w_db w' = w_db w" if "atomic x" "\<And>v w'. x w \<noteq> (Inr v, w')" for x :: "'b app"
    using that unfolding atomic_def by (metis obj_sumE prod.collapse)
  have held: "w_db w2 = w_db w" if "authz_require a p t w = (Inr (), w1)" "getEffectivePermissions u t w1 = (Inr ps, w2)" for p w1 u ps w2
    using getEffectivePermissions_eval[of u t w1] authz_require_Inr(2)[OF that(1)] that(2) by (metis prod.inject same_but_cache_def)
  show ?thesis
  proof (intro conjI fails)
    show "atomic (updateCustomRole env a t i no pso)" "atomic (deleteCustomRole a t i)" "atomic (replaceMembershipRoles a t j rs)"
      "atomic (updateApiKey a t l no' pso')" "atomic (revokeApiKey a t l)"
      by (rule use_cases_atomic)+
    show "updateCustomRole env a t i no pso w \<noteq> (Inr v, w')" for v w'
      using assms(1,2) by (auto elim!: updateCustomRole_Inr)
    show "deleteCustomRole a t i w \<noteq> (Inr v, w')" for v w' using assms(1,2) by (auto elim!: deleteCustomRole_Inr)
    show "replaceMembershipRoles a t j rs w \<noteq> (Inr v, w')" for v w' using assms(3,4) by (auto elim!: replaceMembershipRoles_Inr)
    show "revokeApiKey a t l w \<noteq> (Inr v, w')" for v w' using assms(5,6) by (auto elim!: revokeApiKey_Inr)
    show "updateApiKey a t l no' pso' w \<noteq> (Inr v, w')" for v w'
    proof
      assume "updateApiKey a t l no' pso' w = (Inr v, w')"
      then obtain w1 w2 key0 where "authz_require a identityApiKeysManage t w = (Inr (), w1)"
        "case (pso', a) of
           (Some p, userActor u) \<Rightarrow> getEffectivePermissions u t w1 = (Inr (answers w1 a t), w2) \<and> assertHeld (answers w1 a t) p = Inr ()
         | _ \<Rightarrow> w2 = w1" "apiKeys_findById l (w_db w2) = Some key0" "k_tenantId key0 = t"
        by (rule updateApiKey_Inr)
      moreover have "w_db w2 = w_db w"
        using held[OF calculation(1)] same_but_cache_db[OF authz_require_Inr(2)[OF calculation(1)]] calculation(2)
        by (auto split: option.splits tenantActor.splits)
      ultimately show False using assms(5,6) by simp
    qed
  qed
qed

theorem foreign_ids_not_found_witness:
  "\<exists>e w'. revokeApiKey (userActor (sequentialId 0)) (sequentialId 50) (sequentialId 8) demoKey = (Inl e, w') \<and> w_db w' = w_db demoKey"
proof -
  have "case roles_findById (sequentialId 2) (w_db demoKey) of None \<Rightarrow> False | Some r \<Rightarrow> r_tenantId r \<noteq> sequentialId 50"
    "case memberships_findById (sequentialId 5) (w_db demoKey) of None \<Rightarrow> False | Some m \<Rightarrow> m_tenantId m \<noteq> sequentialId 50"
    "case apiKeys_findById (sequentialId 8) (w_db demoKey) of None \<Rightarrow> False | Some k \<Rightarrow> k_tenantId k \<noteq> sequentialId 50"
    by code_simp+
  then obtain r m k where "r_tenantId r \<noteq> sequentialId 50" "roles_findById (sequentialId 2) (w_db demoKey) = Some r"
    "m_tenantId m \<noteq> sequentialId 50" "memberships_findById (sequentialId 5) (w_db demoKey) = Some m"
    "k_tenantId k \<noteq> sequentialId 50" "apiKeys_findById (sequentialId 8) (w_db demoKey) = Some k"
    by (auto split: option.splits)
  from foreign_ids_not_found[OF this] show ?thesis by blast
qed

text \<open>Cache entries never cross tenants or principals: for tenant ids without a colon, the keys of two cached permission
  answers are equal only for the same tenant and the same user, or the same tenant and the same API key.\<close>

theorem permission_cache_keys_separate:
  assumes "CHR '':'' \<notin> set t" "CHR '':'' \<notin> set t'"
  shows "principal_key a t = principal_key a' t' \<longleftrightarrow> a = a' \<and> t = t'"
  using permission_keys_inj[OF assms] permission_keys_inj(3)[OF assms(2,1)]
  by (cases a; cases a') (auto simp: principal_key_def dest: sym)

theorem permission_cache_keys_separate_witness:
  "principal_key (userActor ''a:b'') ''t'' \<noteq> principal_key (userActor ''b'') ''t''"
  using permission_cache_keys_separate[of "''t''" "''t''" "userActor ''a:b''" "userActor ''b''"] by simp

section \<open>Failures and maintenance\<close>


text \<open>A maintenance purge is bounded and safe: one run over the sessions deletes at most 500 rows, keeps every session that is
  still active, adds none, and when it deletes fewer than 500 no inactive session is left.\<close>

theorem session_purge_bounded:
  assumes "reachable env w" "inj (genId env)" "purgeRefreshSessions w = (Inr n, w')"
  shows "n \<le> 500 \<and> set (db_sessions (w_db w')) \<subseteq> set (db_sessions (w_db w)) \<and>
    (\<forall>s \<in> set (db_sessions (w_db w)). session_isActive s (w_now w) \<longrightarrow> s \<in> set (db_sessions (w_db w'))) \<and>
    (n < 500 \<longrightarrow> (\<forall>s \<in> set (db_sessions (w_db w')). session_isActive s (w_now w)))"
proof -
  have "distinct (map ent_id (db_sessions (w_db w)))"
    using reachable_parts(4)[OF assms(1,2)] by (simp add: session_inv_def)
  then show ?thesis
    using sessionPurge.at_most_batch[OF assms(3)] sessionPurge.nothing_added[OF assms(3)]
      sessionPurge.live_rows_kept[OF assms(3)] sessionPurge.short_batch_is_last[OF assms(3)]
    by (auto simp: PURGE_BATCH_SIZE_def)
qed

theorem session_purge_bounded_witness:
  "\<exists>n w'. purgeRefreshSessions demoLogin = (Inr n, w') \<and> n \<le> 500"
proof -
  obtain n w' where p: "purgeRefreshSessions demoLogin = (Inr n, w')"
    by (cases "sessions_deleteExpiredOrRevoked (w_now demoLogin) PURGE_BATCH_SIZE (w_db demoLogin)") (auto simp: purges_run)
  then show ?thesis using session_purge_bounded[OF demo_runs_reachable(4) testEnv_inj p] by blast
qed

end
