(* ===== verification/Credentials.thy ===== *)
theory Credentials
  imports Outcomes Examples
begin

text \<open>
  What the identity use cases guarantee: logins, refresh sessions, passwords and API keys.
\<close>

section \<open>Refresh sessions\<close>

text \<open>C12: In every reachable state a token family has at most one session that is not revoked, so of all the refresh
  tokens issued since one login at most one is good.\<close>

theorem one_live_session_per_family:
  assumes "reachable env w" "inj (genId env)" "s \<in> set (db_sessions (w_db w))" "s' \<in> set (db_sessions (w_db w))"
    "s_familyId s = s_familyId s'" "session_isActive s (w_now w)" "session_isActive s' (w_now w)"
  shows "s = s'"
  using reachable_parts(4)[OF assms(1,2)] assms(3-) by (auto simp: session_inv_def session_isActive_def)

theorem one_live_session_per_family_witness:
  "hd (db_sessions (w_db demoLogin)) = last (db_sessions (w_db demoLogin))"
proof -
  let ?ss = "db_sessions (w_db demoLogin)"
  have "hd ?ss \<in> set ?ss" "last ?ss \<in> set ?ss" "s_familyId (hd ?ss) = s_familyId (last ?ss)"
    "session_isActive (hd ?ss) (w_now demoLogin)" "session_isActive (last ?ss) (w_now demoLogin)"
    by code_simp+
  then show ?thesis by (rule one_live_session_per_family[OF demo_runs_reachable(4) testEnv_inj])
qed

lemma rotated_db:
  assumes "session_inv env n d" "sessions_findByTokenHash h d = Some s" "s_revokedAt s = None"
    "\<And>y. y \<in> set (db_sessions d) \<Longrightarrow> ent_id y \<noteq> ent_id s2" "s_tokenHash s1 = s_tokenHash s" "ent_id s1 = ent_id s"
  shows "sessions_findByTokenHash h (sessions_save s2 (sessions_save s1 d)) = Some s1"
proof -
  have f: "find (\<lambda>x. s_tokenHash x = h) (db_sessions d) = Some s" "s_tokenHash s = h" "s \<in> set (db_sessions d)"
    using assms(2) by (auto simp: sessions_findByTokenHash_def dest: find_cong_key)
  then have "find (\<lambda>x. s_tokenHash x = h) (upsert ent_id s1 (db_sessions d)) = Some s1"
    using assms(5,6) by (intro find_after_upsert) auto
  moreover have "ent_id s2 \<notin> ent_id ` set (upsert ent_id s1 (db_sessions d))"
    unfolding upsert_keys using assms(4,6) f(3) by (auto simp: image_iff) metis+
  ultimately show ?thesis
    by (simp add: sessions_findByTokenHash_def sessions_save_def upsert_fresh find_after_append)
qed



section \<open>Passwords\<close>

text \<open>C13: A password reset works once and ends every session. After a successful reset the stored hash is the hash of the
  new password, no session of that user is active at any later time, and the same token is refused from then on.\<close>

theorem password_reset_once:
  assumes "resetPassword env token pw w = (Inr (), w')"
  shows "\<exists>u. (\<exists>t \<in> set (db_resetTokens (w_db w)). ent_id t = u \<and> t_tokenHash t = digest env token \<and> resetToken_isActive t (w_now w)) \<and>
    map_option p_passwordHash (passwords_findByUserId u (w_db w')) = Some (hashPw env (w_salt w) pw) \<and>
    (\<forall>s \<in> set (db_sessions (w_db w')). s_userId s = u \<longrightarrow> \<not> session_isActive s n) \<and>
    fst (resetPassword env token pw2 (w'\<lparr>w_now := n\<rparr>)) \<noteq> Inr ()"
proof -
  obtain t c where t: "MIN_PASSWORD_LENGTH \<le> length pw" "resetTokens_findByTokenHash (digest env token) (w_db w) = Some t"
    "resetToken_isActive t (w_now w)" "passwords_findByUserId (ent_id t) (w_db w) = Some c"
    "w' = w\<lparr>w_salt := Suc (w_salt w),
       w_db := sessions_revokeAllForUser (ent_id t) (w_now w)
         (passwords_save (localPassword_replaceHash c (hashPw env (w_salt w) pw))
           (resetTokens_save (resetToken_consume t (w_now w)) (w_db w)))\<rparr>"
    using assms by (rule resetPassword_Inr)
  let ?d = "passwords_save (localPassword_replaceHash c (hashPw env (w_salt w) pw))
           (resetTokens_save (resetToken_consume t (w_now w)) (w_db w))"
  have tok: "t \<in> set (db_resetTokens (w_db w))" "t_tokenHash t = digest env token"
    using t(2) by (auto simp: resetTokens_findByTokenHash_def dest: find_cong_key)
  have c: "ent_id c = ent_id t" using t(4) by (auto simp: passwords_findByUserId_def dest: lookup_row_Some)
  have hash: "map_option p_passwordHash (passwords_findByUserId (ent_id t) (w_db w')) = Some (hashPw env (w_salt w) pw)"
    using lookup_upsert_same[of ent_id "localPassword_replaceHash c (hashPw env (w_salt w) pw)"] c
    by (simp add: t(5) passwords_findByUserId_def passwords_save_def sessions_revokeAllForUser_def localPassword_replaceHash_def)
  have dead: "\<not> session_isActive s n" if "s \<in> set (db_sessions (w_db w'))" "s_userId s = ent_id t" for s
    using that userSessions.none_active[of s "ent_id t" "w_now w" ?d n] by (simp add: t(5))
  have "resetTokens_findByTokenHash (digest env token) (w_db w') = Some (resetToken_consume t (w_now w))"
    using t(2) find_after_upsert[of "\<lambda>x. t_tokenHash x = digest env token" "db_resetTokens (w_db w)" t
        "resetToken_consume t (w_now w)" ent_id] tok
    by (simp add: t(5) resetTokens_findByTokenHash_def resetTokens_save_def passwords_save_def sessions_revokeAllForUser_def
        resetToken_consume_def)
  then have found: "resetTokens_findByTokenHash (digest env token) (w_db (w'\<lparr>w_now := n\<rparr>)) = Some (resetToken_consume t (w_now w))"
    by simp
  have again: "fst (resetPassword env token pw2 (w'\<lparr>w_now := n\<rparr>)) \<noteq> Inr ()"
  proof
    assume "fst (resetPassword env token pw2 (w'\<lparr>w_now := n\<rparr>)) = Inr ()"
    then obtain w2 where "resetPassword env token pw2 (w'\<lparr>w_now := n\<rparr>) = (Inr (), w2)" by (metis prod.collapse)
    then obtain t2 c2 where "resetTokens_findByTokenHash (digest env token) (w_db (w'\<lparr>w_now := n\<rparr>)) = Some t2"
      "resetToken_isActive t2 (w_now (w'\<lparr>w_now := n\<rparr>))" by (rule resetPassword_Inr)
    then show False using found by simp
  qed
  show ?thesis using tok t(3) hash dead again by blast
qed

theorem password_reset_once_witness:
  "fst (resetPassword testEnv (sequentialId 9) ''new password'' demoReset) = Inr () \<and>
   fst (resetPassword testEnv (sequentialId 9) ''newer password'' ((snd (resetPassword testEnv (sequentialId 9) ''new password'' demoReset))\<lparr>w_now := 7\<rparr>)) \<noteq> Inr ()"
proof
  show f: "fst (resetPassword testEnv (sequentialId 9) ''new password'' demoReset) = Inr ()" by code_simp
  then have "resetPassword testEnv (sequentialId 9) ''new password'' demoReset =
      (Inr (), snd (resetPassword testEnv (sequentialId 9) ''new password'' demoReset))"
    by (metis prod.collapse)
  from password_reset_once[OF this]
  show "fst (resetPassword testEnv (sequentialId 9) ''newer password'' ((snd (resetPassword testEnv (sequentialId 9) ''new password'' demoReset))\<lparr>w_now := 7\<rparr>)) \<noteq> Inr ()"
    by blast
qed

section \<open>Login\<close>



section \<open>API keys\<close>

text \<open>C15: A minted key holds no more than its creator. In a reachable state a key that a user creates is stored for that
  tenant and that user with exactly the requested permissions, each of them granted to the user by a role at that
  moment, and the permission to manage keys is not among them.\<close>

theorem minted_key_within_creator:
  assumes "reachable env w" "inj (genId env)" "CHR '':'' \<notin> set t"
    "createApiKey env (userActor u) t n ps x w = (Inr (i, token), w')"
  shows "\<exists>k. apiKeys_findById i (w_db w') = Some k \<and> k_tenantId k = t \<and> k_createdByUserId k = u \<and>
    k_secretHash k = digest env token \<and> set (k_permissions k) = set ps \<and> ps \<noteq> [] \<and>
    set ps \<subseteq> set (resolvePermissions u t (w_db w)) \<and> managePermission \<notin> set ps"
proof -
  obtain u' w1 w2 key where c: "userActor u = userActor u'" "authz_require (userActor u) identityApiKeysManage t w = (Inr (), w1)"
    "getEffectivePermissions u' t w1 = (Inr (answers w1 (userActor u) t), w2)"
    "assertHeld (answers w1 (userActor u) t) ps = Inr ()"
    "apiKey_create (genId env (Suc (Suc (w_ids w2)))) t u' n (token_displayPrefix (token_compactId (genId env (w_ids w2))))
       (digest env (snd (i, token))) ps (w_now w2) x = Inr key"
    "(i, token) = (ent_id key, token_create (token_compactId (genId env (w_ids w2))) (filter (\<lambda>c. c \<noteq> CHR ''-'') (genId env (Suc (w_ids w2)))))"
    "w' = w2\<lparr>w_ids := w_ids w2 + 3, w_db := (apiKeys_save key (w_db w2))\<lparr>db_outbox := db_outbox (w_db w2) @ agg_events key\<rparr>\<rparr>"
    by (rule createApiKey_Inr[OF assms(4)])
  have "answers w1 (userActor u) t = resolvePermissions u t (w_db w)"
    using answers_after_require[OF c(2)] reachable_answers[OF assms(1-3)] by simp
  then have held: "set ps \<subseteq> set (resolvePermissions u t (w_db w))" using c(4) by (simp add: assertHeld_Inr)
  have row: "apiKeys_findById i (w_db w') = Some (as_stored key)"
    using c(6,7) lookup_upsert_same[of ent_id "as_stored key"] by (simp add: apiKeys_findById_def apiKeys_save_def)
  show ?thesis using row held c(1,5) by (auto simp: apiKey_create_Inr)
qed

theorem minted_key_within_creator_witness:
  "set [''tenancy.members.read''] \<subseteq> set (resolvePermissions (sequentialId 0) (sequentialId 1) (w_db demoTenant))"
proof -
  let ?r = "createApiKey testEnv (userActor (sequentialId 0)) (sequentialId 1) ''ci'' [''tenancy.members.read''] None demoTenant"
  have c: "CHR '':'' \<notin> set (sequentialId 1)" by code_simp
  have "case fst ?r of Inl e \<Rightarrow> False | Inr y \<Rightarrow> True" by code_simp
  then obtain y where "fst ?r = Inr y" by (cases "fst ?r") auto
  then obtain i token w' where "?r = (Inr (i, token), w')" by (metis prod.collapse)
  then show ?thesis using minted_key_within_creator[OF demo_reachable(2) testEnv_inj c] by blast
qed

lemma uuid_shaped_token:
  assumes "uuid_shaped a" "uuid_shaped b"
  shows "token_parse (token_create (token_compactId a) (filter (\<lambda>c. c \<noteq> CHR ''-'') b)) =
    Some (token_displayPrefix (token_compactId a))"
proof (rule token_parse_create)
  show "length (token_compactId a) = publicPrefixLength" using assms(1) by (simp add: uuid_shaped_def token_compactId_def)
  show "list_all lower_alnum (token_compactId a)"
    using assms(1) by (auto simp: uuid_shaped_def token_compactId_def list_all_iff dest!: in_set_takeD)
  show "filter (\<lambda>c. c \<noteq> CHR ''-'') b \<noteq> []" using assms(2) by (auto simp: uuid_shaped_def publicPrefixLength_def)
  have "\<not> is_line_end c" if "lower_alnum c" for c
    using that by (auto simp: lower_alnum_def is_line_end_def is_lower_letter_def is_digit_def Let_def)
  then show "list_all (\<lambda>c. \<not> is_line_end c) (filter (\<lambda>c. c \<noteq> CHR ''-'') b)"
    using assms(2) by (auto simp: uuid_shaped_def list_all_iff)
qed

text \<open>C16: The token handed out at creation is the key. Right after a key is created, and until it expires, presenting its
  token resolves to that key and its tenant, if the generator's ids have the shape of a UUID, the digest matches itself
  and no stored key already has the same public prefix.\<close>

theorem created_key_resolves:
  assumes "createApiKey env a t n ps x w = (Inr (i, token), w')" "\<forall>k. uuid_shaped (genId env k)"
    "\<forall>v. digestMatches env v (digest env v)" "\<forall>e. x = Some e \<longrightarrow> w_now w' < e"
    "token_displayPrefix (token_compactId (genId env (w_ids w))) \<notin> k_prefix ` set (db_apiKeys (w_db w))"
    "reachable env w" "inj (genId env)"
  shows "resolveApiKey env token w' = (Inr (Some (i, t)), w')"
proof -
  obtain u w1 w2 key where c: "a = userActor u" "authz_require a identityApiKeysManage t w = (Inr (), w1)"
    "getEffectivePermissions u t w1 = (Inr (answers w1 a t), w2)" "assertHeld (answers w1 a t) ps = Inr ()"
    "apiKey_create (genId env (Suc (Suc (w_ids w2)))) t u n (token_displayPrefix (token_compactId (genId env (w_ids w2))))
       (digest env (snd (i, token))) ps (w_now w2) x = Inr key"
    "(i, token) = (ent_id key, token_create (token_compactId (genId env (w_ids w2))) (filter (\<lambda>c. c \<noteq> CHR ''-'') (genId env (Suc (w_ids w2)))))"
    "w' = w2\<lparr>w_ids := w_ids w2 + 3, w_db := (apiKeys_save key (w_db w2))\<lparr>db_outbox := db_outbox (w_db w2) @ agg_events key\<rparr>\<rparr>"
    by (rule createApiKey_Inr[OF assms(1)])
  obtain w3 where w3: "getEffectivePermissions u t w1 = (Inr (answers w1 (userActor u) t), w3)" "same_but_cache w1 w3"
    by (rule getEffectivePermissions_eval[of u t w1])
  have same: "w_db w2 = w_db w" "w_ids w2 = w_ids w"
    using authz_require_Inr(2)[OF c(2)] w3 c(1,3) by (auto simp: same_but_cache_def)
  have k: "k_prefix key = token_displayPrefix (token_compactId (genId env (w_ids w)))" "k_secretHash key = digest env token"
    "k_tenantId key = t" "k_expiresAt key = x" "k_revokedAt key = None" "ent_id key = i" "i = genId env (w_ids w + 2)"
    using c(5,6) same by (auto simp: apiKey_create_Inr)
  have fresh: "ent_id (as_stored key) \<notin> ent_id ` set (db_apiKeys (w_db w))" 
    using reachable_parts(1)[OF assms(6,7)] k(6,7) by (auto simp: ids_inv_def known_def) 
  have "find (\<lambda>y. k_prefix y = k_prefix key) (db_apiKeys (w_db w)) = None"
    using assms(5) k(1) by (auto simp: find_None_iff image_iff)
  then have found: "apiKeys_findByPrefix (k_prefix key) (w_db w') = Some (as_stored key)"
    using fresh same(1) c(7) by (simp add: apiKeys_findByPrefix_def apiKeys_save_def upsert_fresh find_append_new)
  have "token_parse token = Some (k_prefix key)"
    using c(6) k(1) same uuid_shaped_token assms(2) by simp
  then show ?thesis
    using found k assms(3,4) by (auto simp: resolveApiKey_def app_run apiKey_usable_iff split: option.splits)
qed

theorem created_key_resolves_witness:
  "\<exists>i token w'. createApiKey testEnv (userActor (sequentialId 0)) (sequentialId 1) ''ci'' [''tenancy.members.read''] None demoTenant =
     (Inr (i, token), w') \<and> resolveApiKey testEnv token w' = (Inr (Some (i, sequentialId 1)), w')"
proof -
  let ?r = "createApiKey testEnv (userActor (sequentialId 0)) (sequentialId 1) ''ci'' [''tenancy.members.read''] None demoTenant"
  have "case fst ?r of Inl e \<Rightarrow> False | Inr y \<Rightarrow> True" by code_simp
  then obtain y where "fst ?r = Inr y" by (cases "fst ?r") auto
  then obtain i token w' where r: "?r = (Inr (i, token), w')" by (metis prod.collapse)
  have "db_apiKeys (w_db demoTenant) = []" by code_simp
  then show ?thesis
    using created_key_resolves[OF r testEnv_uuid_shaped _ _ _ demo_reachable(2) testEnv_inj] r by (auto simp: testEnv_def)
qed

text \<open>A token is accepted only for a stored key that is not revoked and not expired, whose public prefix is the one the
  token carries and whose secret hash the token's digest matches; resolving a token never changes the state.\<close>

theorem resolved_key_is_usable:
  assumes "resolveApiKey env token w = (Inr (Some (i, t)), w')"
  shows "w' = w \<and> (\<exists>k \<in> set (db_apiKeys (w_db w)). ent_id k = i \<and> k_tenantId k = t \<and> k_revokedAt k = None \<and>
    (case k_expiresAt k of None \<Rightarrow> True | Some e \<Rightarrow> w_now w < e) \<and> token_parse token = Some (k_prefix k) \<and>
    digestMatches env token (k_secretHash k))"
  using assms
  by (auto simp: resolveApiKey_def app_run apiKeys_findByPrefix_def apiKey_usable_iff split: option.splits if_splits
      dest!: find_cong_key)

theorem resolved_key_is_usable_witness:
  "\<exists>k \<in> set (db_apiKeys (w_db demoKey)). ent_id k = sequentialId 8 \<and> k_revokedAt k = None"
proof -
  let ?tk = "''bsk_000000000000_'' @ filter (\<lambda>c. c \<noteq> CHR ''-'') (sequentialId 7)"
  have "fst (resolveApiKey testEnv ?tk demoKey) = Inr (Some (sequentialId 8, sequentialId 1))" by code_simp
  then have "resolveApiKey testEnv ?tk demoKey = (Inr (Some (sequentialId 8, sequentialId 1)), snd (resolveApiKey testEnv ?tk demoKey))"
    by (metis prod.collapse)
  from resolved_key_is_usable[OF this] show ?thesis by blast
qed



end
