(* ===== verification/JsValue.thy ===== *)
theory JsValue
  imports Prelude Complex_Main
begin

text \<open>
  JavaScript values as the untyped edges of the program see them (rows from a driver, JSON payloads,
  request bodies), with the helpers of packages/shared/utils: TypeScriptUtils, ObjectUtils,
  ArrayUtils, NumberUtils and StringUtils.

  An object is the list of its own enumerable properties in insertion order, its keys distinct;
  \<open>obj_set\<close> is an assignment \<open>o[k] = v\<close> of a name other than \<open>__proto__\<close>.  A number is one of
  the three non-finite values or a rational: products and sums are exact and become infinite above
  the range of a double, but the rounding to 53 bits is not modelled, nor is the sign of zero.
\<close>

section \<open>Numbers\<close>

datatype number = NaN | PosInf | NegInf | Fin rat

definition MAX_DOUBLE :: rat where
  "MAX_DOUBLE = 2 ^ 1024 - 2 ^ 970"

definition to_number :: "rat \<Rightarrow> number" where
  "to_number x = (if MAX_DOUBLE \<le> x then PosInf else if x \<le> - MAX_DOUBLE then NegInf else Fin x)"

definition num :: "int \<Rightarrow> number" where
  "num n = Fin (of_int n)"

definition isFinite :: "number \<Rightarrow> bool" where
  "isFinite x = (case x of Fin _ \<Rightarrow> True | _ \<Rightarrow> False)"

definition numIsInteger :: "number \<Rightarrow> bool" where
  "numIsInteger x = (case x of Fin q \<Rightarrow> of_int \<lfloor>q\<rfloor> = q | _ \<Rightarrow> False)"

text \<open>\<open><=\<close> and \<open><\<close>: false as soon as one side is NaN.\<close>

fun num_le :: "number \<Rightarrow> number \<Rightarrow> bool" where
  "num_le NaN y = False"
| "num_le x NaN = False"
| "num_le NegInf y = True"
| "num_le x PosInf = True"
| "num_le (Fin a) (Fin b) = (a \<le> b)"
| "num_le x y = False"

definition num_lt :: "number \<Rightarrow> number \<Rightarrow> bool" where
  "num_lt x y = (num_le x y \<and> x \<noteq> y)"

definition num_max :: "number \<Rightarrow> number \<Rightarrow> number" where
  "num_max x y = (if x = NaN \<or> y = NaN then NaN else if num_le x y then y else x)"

definition num_min :: "number \<Rightarrow> number \<Rightarrow> number" where
  "num_min x y = (if x = NaN \<or> y = NaN then NaN else if num_le x y then x else y)"

lemma isFinite_simps [simp]:
  "isFinite (Fin q)" "isFinite (num n)" "\<not> isFinite NaN" "\<not> isFinite PosInf" "\<not> isFinite NegInf"
  by (simp_all add: isFinite_def num_def)

lemma num_inject [simp]: "num a = num b \<longleftrightarrow> a = b"
  by (simp add: num_def)

lemma num_le_num [simp]: "num_le (num a) (num b) \<longleftrightarrow> a \<le> b"
  by (simp add: num_def)

lemma num_le_refl: "x \<noteq> NaN \<Longrightarrow> num_le x x"
  by (cases x) auto

lemma num_le_trans: "num_le x y \<Longrightarrow> num_le y z \<Longrightarrow> num_le x z"
  by (cases x; cases y; cases z) auto

lemma num_le_total: "x \<noteq> NaN \<Longrightarrow> y \<noteq> NaN \<Longrightarrow> num_le x y \<or> num_le y x"
  by (cases x; cases y) auto

lemma num_le_antisym: "num_le x y \<Longrightarrow> num_le y x \<Longrightarrow> x = y"
  by (cases x; cases y) auto

section \<open>Values\<close>

datatype (plugins del: quickcheck_random quickcheck_exhaustive quickcheck_bounded_forall
    quickcheck_full_exhaustive quickcheck_narrowing) jsval =
    JUndefined | JNull | JBool bool | JNum number | JStr string
  | JDate "int option" | JArr "jsval list" | JObj "(string \<times> jsval) list"
  | JMap "(jsval \<times> jsval) list" | JSet "jsval list" | JInstance string | JFunction

type_synonym js_object = "(string \<times> jsval) list"

datatype jsError = RangeError | TypeError | Error string

definition obj_get :: "js_object \<Rightarrow> string \<Rightarrow> jsval option" where
  "obj_get ob k = map_of ob k"

definition obj_set :: "js_object \<Rightarrow> string \<Rightarrow> jsval \<Rightarrow> js_object" where
  "obj_set ob k v = upsert fst (k, v) ob"

text \<open>Reading \<open>o[k]\<close> for a name that is no member of \<open>Object.prototype\<close>.\<close>

definition obj_read :: "js_object \<Rightarrow> string \<Rightarrow> jsval" where
  "obj_read ob k = (case obj_get ob k of Some v \<Rightarrow> v | None \<Rightarrow> JUndefined)"

lemma map_of_upsert: "map_of (upsert fst (k, v) ob) = (map_of ob)(k \<mapsto> v)"
  by (induction ob) auto

lemma map_of_remove: "map_of (remove_row fst k' ob) k = (if k = k' then None else map_of ob k)"
  by (induction ob) (auto simp: remove_row_def)

lemma obj_get_set [simp]: "obj_get (obj_set ob k v) k' = (if k' = k then Some v else obj_get ob k')"
  by (simp add: obj_get_def obj_set_def map_of_upsert)

lemma obj_read_set [simp]: "obj_read (obj_set ob k v) k' = (if k' = k then v else obj_read ob k')"
  by (simp add: obj_read_def)

lemma obj_set_distinct [simp]: "distinct (map fst ob) \<Longrightarrow> distinct (map fst (obj_set ob k v))"
  by (simp add: obj_set_def upsert_distinct)

lemma obj_set_id: "obj_get ob k = Some v \<Longrightarrow> distinct (map fst ob) \<Longrightarrow> obj_set ob k v = ob"
  by (induction ob) (auto simp: obj_get_def obj_set_def)

lemma obj_set_set [simp]: "obj_set (obj_set ob k v) k v' = obj_set ob k v'"
  by (induction ob) (auto simp: obj_set_def)

section \<open>TypeScriptUtils\<close>

text \<open>\<open>String(value)\<close> in the default message stays a parameter: the message is an argument.\<close>

definition assertNever :: "string \<Rightarrow> jsError + 'a" where
  "assertNever message = Inl (Error message)"

definition isDefined :: "jsval \<Rightarrow> bool" where
  "isDefined v \<longleftrightarrow> v \<noteq> JNull \<and> v \<noteq> JUndefined"

definition assertDefined :: "jsval \<Rightarrow> string \<Rightarrow> jsError + unit" where
  "assertDefined v message = throwIf (v = JNull \<or> v = JUndefined) (Error message)"

definition isNil :: "jsval \<Rightarrow> bool" where
  "isNil v \<longleftrightarrow> v = JNull \<or> v = JUndefined"

definition isString :: "jsval \<Rightarrow> bool" where
  "isString v = (case v of JStr _ \<Rightarrow> True | _ \<Rightarrow> False)"

definition isNonEmptyString :: "jsval \<Rightarrow> bool" where
  "isNonEmptyString v = (case v of JStr s \<Rightarrow> 0 < length s | _ \<Rightarrow> False)"

definition isNumber :: "jsval \<Rightarrow> bool" where
  "isNumber v = (case v of JNum _ \<Rightarrow> True | _ \<Rightarrow> False)"

definition ts_fail :: "string \<Rightarrow> jsError + 'a" where
  "ts_fail message = Inl (Error message)"

section \<open>ObjectUtils\<close>

definition isPlainObject :: "jsval \<Rightarrow> bool" where
  "isPlainObject v = (case v of JObj _ \<Rightarrow> True | _ \<Rightarrow> False)"

definition isEmpty :: "jsval \<Rightarrow> bool" where
  "isEmpty v = (case v of
     JUndefined \<Rightarrow> True | JNull \<Rightarrow> True
   | JStr s \<Rightarrow> length s = 0 | JArr vs \<Rightarrow> length vs = 0
   | JMap es \<Rightarrow> length es = 0 | JSet vs \<Rightarrow> length vs = 0
   | JObj ps \<Rightarrow> length (map fst ps) = 0
   | _ \<Rightarrow> False)"

definition obj_keys :: "js_object \<Rightarrow> string list" where
  "obj_keys ob = map fst ob"

definition obj_values :: "js_object \<Rightarrow> jsval list" where
  "obj_values ob = map snd ob"

definition obj_entries :: "js_object \<Rightarrow> (string \<times> jsval) list" where
  "obj_entries ob = ob"

definition hasOwn :: "js_object \<Rightarrow> string \<Rightarrow> bool" where
  "hasOwn ob k \<longleftrightarrow> k \<in> set (map fst ob)"

definition pick :: "js_object \<Rightarrow> string list \<Rightarrow> js_object" where
  "pick ob ks = foldl (\<lambda>result k. if hasOwn ob k then obj_set result k (obj_read ob k) else result) [] ks"

definition omit :: "js_object \<Rightarrow> string list \<Rightarrow> js_object" where
  "omit ob ks = foldl (\<lambda>result k. if k \<notin> set ks then obj_set result k (obj_read ob k) else result) []
     (obj_keys ob)"

definition fromEntries :: "(string \<times> jsval) list \<Rightarrow> js_object" where
  "fromEntries es = foldl (\<lambda>result e. obj_set result (fst e) (snd e)) [] es"

text \<open>\<open>Object.assign({}, target, ...sources)\<close>.\<close>

definition assign :: "js_object \<Rightarrow> js_object \<Rightarrow> js_object" where
  "assign result source = foldl (\<lambda>r e. obj_set r (fst e) (snd e)) result source"

definition merge :: "js_object \<Rightarrow> js_object list \<Rightarrow> js_object" where
  "merge target sources = foldl assign [] (target # sources)"

lemma hasOwn_get: "hasOwn ob k \<longleftrightarrow> obj_get ob k \<noteq> None"
  by (force simp: hasOwn_def obj_get_def map_of_eq_None_iff)

lemma hasOwn_read: "hasOwn ob k \<Longrightarrow> obj_get ob k = Some (obj_read ob k)"
  by (auto simp: hasOwn_get obj_read_def)

lemma pick_aux:
  "obj_get (foldl (\<lambda>result k. if hasOwn ob k then obj_set result k (obj_read ob k) else result) acc ks) k =
     (if k \<in> set ks \<and> hasOwn ob k then obj_get ob k else obj_get acc k)"
  by (induction ks arbitrary: acc) (auto simp: hasOwn_read)

lemma obj_get_pick: "obj_get (pick ob ks) k = (if k \<in> set ks then obj_get ob k else None)"
  unfolding pick_def pick_aux by (auto simp: hasOwn_get obj_get_def)

lemma omit_aux:
  "obj_get (foldl (\<lambda>result k. if k \<notin> set ks then obj_set result k (obj_read ob k) else result) acc xs) k =
     (if k \<in> set xs \<and> k \<notin> set ks then Some (obj_read ob k) else obj_get acc k)"
  by (induction xs arbitrary: acc) auto

lemma obj_get_omit: "obj_get (omit ob ks) k = (if k \<in> set ks then None else obj_get ob k)"
proof -
  have "hasOwn ob k \<longleftrightarrow> k \<in> set (obj_keys ob)" by (simp add: hasOwn_def obj_keys_def)
  then show ?thesis
    unfolding omit_def omit_aux
    by (cases "hasOwn ob k") (auto simp: hasOwn_read, auto simp: hasOwn_get obj_get_def)
qed

lemma assign_get:
  "distinct (map fst source) \<Longrightarrow>
   obj_get (assign result source) k = (case obj_get source k of Some v \<Rightarrow> Some v | None \<Rightarrow> obj_get result k)"
proof (induction source arbitrary: result)
  case Nil
  then show ?case by (simp add: assign_def obj_get_def)
next
  case (Cons e source)
  have "obj_get (assign result (e # source)) k = obj_get (assign (obj_set result (fst e) (snd e)) source) k"
    by (simp add: assign_def)
  also have "\<dots> = (case obj_get source k of Some v \<Rightarrow> Some v | None \<Rightarrow> obj_get (obj_set result (fst e) (snd e)) k)"
    using Cons by simp
  also have "\<dots> = (case obj_get (e # source) k of Some v \<Rightarrow> Some v | None \<Rightarrow> obj_get result k)"
  proof -
    have "obj_get source (fst e) = None" using Cons.prems by (simp add: obj_get_def map_of_eq_None_iff)
    moreover have "obj_get (e # source) k = (if k = fst e then Some (snd e) else obj_get source k)"
      by (simp add: obj_get_def)
    ultimately show ?thesis by (auto split: option.splits)
  qed
  finally show ?case .
qed

lemma assign_distinct: "distinct (map fst result) \<Longrightarrow> distinct (map fst (assign result source))"
proof (induction source arbitrary: result)
  case (Cons e source)
  have "distinct (map fst (assign (obj_set result (fst e) (snd e)) source))" using Cons by simp
  then show ?case by (simp add: assign_def)
qed (simp add: assign_def)

section \<open>ArrayUtils\<close>

definition isNonEmpty :: "'a list \<Rightarrow> bool" where
  "isNonEmpty arr \<longleftrightarrow> length arr > 0"

definition first :: "'a list \<Rightarrow> 'a option" where
  "first arr = (case arr of [] \<Rightarrow> None | x # _ \<Rightarrow> Some x)"

definition last_of :: "'a list \<Rightarrow> 'a option" where
  "last_of arr = (if length arr = 0 then None else Some (arr ! (length arr - 1)))"

text \<open>A JavaScript \<open>Set\<close> iterates in insertion order; the elements are compared by SameValueZero,
  which is equality on the values here.\<close>

definition unique :: "'a list \<Rightarrow> 'a list" where
  "unique arr = uniq arr"

definition uniqueBy :: "('a \<Rightarrow> 'k) \<Rightarrow> 'a list \<Rightarrow> 'a list" where
  "uniqueBy keyFn arr = snd (foldl (\<lambda>(seen, result) item.
     let key = keyFn item in
     if key \<notin> set seen then (seen @ [key], result @ [item]) else (seen, result)) ([], []) arr)"

text \<open>The members an object literal inherits: reading one of these names yields a value that has no
  \<open>push\<close>.\<close>

definition objectPrototype :: "string list" where
  "objectPrototype = [''constructor'', ''__defineGetter__'', ''__defineSetter__'', ''hasOwnProperty'',
     ''__lookupGetter__'', ''__lookupSetter__'', ''isPrototypeOf'', ''propertyIsEnumerable'', ''toString'',
     ''valueOf'', ''__proto__'', ''toLocaleString'']"

fun groupBy_loop :: "('a \<Rightarrow> string) \<Rightarrow> 'a list \<Rightarrow> (string \<times> 'a list) list \<Rightarrow> jsError + (string \<times> 'a list) list" where
  "groupBy_loop keyFn [] result = Inr result"
| "groupBy_loop keyFn (item # items) result =
     (let key = keyFn item in
      case map_of result key of
        Some grp \<Rightarrow> groupBy_loop keyFn items (upsert fst (key, grp @ [item]) result)
      | None \<Rightarrow>
          if key \<in> set objectPrototype then Inl TypeError
          else groupBy_loop keyFn items (upsert fst (key, [item]) result))"

definition groupBy :: "('a \<Rightarrow> string) \<Rightarrow> 'a list \<Rightarrow> jsError + (string \<times> 'a list) list" where
  "groupBy keyFn arr = groupBy_loop keyFn arr []"

fun partition_loop :: "('a \<Rightarrow> bool) \<Rightarrow> 'a list \<Rightarrow> 'a list \<Rightarrow> 'a list \<Rightarrow> 'a list \<times> 'a list" where
  "partition_loop predicate [] pass fails = (pass, fails)"
| "partition_loop predicate (item # items) pass fails =
     (if predicate item then partition_loop predicate items (pass @ [item]) fails
      else partition_loop predicate items pass (fails @ [item]))"

definition partition_by :: "('a \<Rightarrow> bool) \<Rightarrow> 'a list \<Rightarrow> 'a list \<times> 'a list" where
  "partition_by predicate arr = partition_loop predicate arr [] []"

text \<open>The loop of \<open>chunk\<close> from \<open>index\<close>; \<open>arr.slice(index, index + size)\<close> stops at the end.\<close>

function chunk_loop :: "'a list \<Rightarrow> nat \<Rightarrow> nat \<Rightarrow> 'a list list \<Rightarrow> 'a list list" where
  "chunk_loop arr sz index result =
     (if index < length arr \<and> 0 < sz
      then chunk_loop arr sz (index + sz) (result @ [take sz (drop index arr)])
      else result)"
  by pat_completeness auto
termination by (relation "measure (\<lambda>(arr, sz, index, result). length arr - index)") auto

declare chunk_loop.simps [simp del]

definition chunk :: "'a list \<Rightarrow> number \<Rightarrow> jsError + 'a list list" where
  "chunk arr sz = (if \<not> numIsInteger sz \<or> num_lt sz (num 1) then Inl RangeError
     else case sz of Fin q \<Rightarrow> Inr (chunk_loop arr (nat \<lfloor>q\<rfloor>) 0 []) | _ \<Rightarrow> Inl RangeError)"

definition compact :: "jsval list \<Rightarrow> jsval list" where
  "compact arr = foldl (\<lambda>result item. if item \<noteq> JNull \<and> item \<noteq> JUndefined then result @ [item] else result) [] arr"

definition filterMap :: "('a \<Rightarrow> jsval) \<Rightarrow> 'a list \<Rightarrow> jsval list" where
  "filterMap fn arr = foldl (\<lambda>result item. let mapped = fn item in
     if mapped \<noteq> JNull \<and> mapped \<noteq> JUndefined then result @ [mapped] else result) [] arr"

section \<open>NumberUtils\<close>

definition isFiniteNumber :: "jsval \<Rightarrow> bool" where
  "isFiniteNumber v = (case v of JNum x \<Rightarrow> isFinite x | _ \<Rightarrow> False)"

definition isInteger :: "jsval \<Rightarrow> bool" where
  "isInteger v = (case v of JNum x \<Rightarrow> numIsInteger x | _ \<Rightarrow> False)"

definition isInRange :: "number \<Rightarrow> number \<Rightarrow> number \<Rightarrow> bool" where
  "isInRange v lo hi \<longleftrightarrow> num_le lo v \<and> num_le v hi"

definition clamp :: "number \<Rightarrow> number \<Rightarrow> number \<Rightarrow> jsError + number" where
  "clamp v lo hi = (if num_lt hi lo then Inl RangeError else Inr (num_min (num_max v lo) hi))"

text \<open>\<open>stringToNumber\<close> is the built-in conversion \<open>Number(s)\<close> of a non-empty trimmed string.\<close>

definition parseFinite :: "(string \<Rightarrow> number) \<Rightarrow> jsval \<Rightarrow> number option" where
  "parseFinite stringToNumber v = (case v of
     JNum x \<Rightarrow> if isFinite x then Some x else None
   | JStr s \<Rightarrow> (let trimmed = js_trim s in
       if length trimmed = 0 then None
       else let parsed = stringToNumber trimmed in if isFinite parsed then Some parsed else None)
   | _ \<Rightarrow> None)"

section \<open>StringUtils\<close>

definition isBlank :: "string option \<Rightarrow> bool" where
  "isBlank v = (case v of None \<Rightarrow> True | Some s \<Rightarrow> length (js_trim s) = 0)"

definition isNotBlank :: "string option \<Rightarrow> bool" where
  "isNotBlank v \<longleftrightarrow> \<not> isBlank v"

definition trimToUndefined :: "string option \<Rightarrow> string option" where
  "trimToUndefined v = (case v of None \<Rightarrow> None
     | Some s \<Rightarrow> (let trimmed = js_trim s in if length trimmed = 0 then None else Some trimmed))"

definition truncate :: "string \<Rightarrow> number \<Rightarrow> string \<Rightarrow> jsError + string" where
  "truncate v maxLength omission = (if \<not> numIsInteger maxLength \<or> num_lt maxLength (num 0) then Inl RangeError
     else case maxLength of
       Fin q \<Rightarrow> (let n = nat \<lfloor>q\<rfloor> in
         if length v \<le> n then Inr v
         else if length omission \<ge> n then Inr (take n omission)
         else Inr (take (n - length omission) v @ omission))
     | _ \<Rightarrow> Inl RangeError)"

text \<open>\<open>toUpperCase\<close> of one Latin-1 code unit.  The sharp s becomes two letters; the micro sign and
  the y with diaeresis have their capitals outside Latin-1 and are left as they are here.\<close>

definition js_upper_char :: "char \<Rightarrow> string" where
  "js_upper_char c = (let n = of_char c :: nat in
     if n = 223 then ''SS''
     else if (97 \<le> n \<and> n \<le> 122) \<or> (224 \<le> n \<and> n \<le> 254 \<and> n \<noteq> 247) then [char_of (n - 32)] else [c])"

definition capitalize :: "string \<Rightarrow> string" where
  "capitalize v = (case v of [] \<Rightarrow> v | c # cs \<Rightarrow> js_upper_char c @ cs)"

definition camel_left :: "char \<Rightarrow> bool" where
  "camel_left c \<longleftrightarrow> is_lower_letter c \<or> is_digit c"

text \<open>\<open>.replace(/([a-z0-9])([A-Z])/g, '$1 $2')\<close>: two matches never overlap, since the second
  character of one is no first character of another.\<close>

fun splitCamel :: "string \<Rightarrow> string" where
  "splitCamel [] = []"
| "splitCamel [c] = [c]"
| "splitCamel (c # d # cs) =
     (if camel_left c \<and> is_upper_letter d then c # CHR '' '' # splitCamel (d # cs) else c # splitCamel (d # cs))"

definition word_sep :: "char \<Rightarrow> bool" where
  "word_sep c \<longleftrightarrow> c = CHR ''-'' \<or> c = CHR ''_'' \<or> js_space c"

text \<open>\<open>.replace(/[sep]+/g, ' ')\<close> collapses each run; \<open>split_spaces\<close> is \<open>.split(/\s+/)\<close>.\<close>

fun collapse :: "(char \<Rightarrow> bool) \<Rightarrow> string \<Rightarrow> string" where
  "collapse sep [] = []"
| "collapse sep (c # cs) =
     (if sep c then (if cs \<noteq> [] \<and> sep (hd cs) then collapse sep cs else CHR '' '' # collapse sep cs)
      else c # collapse sep cs)"

definition split_spaces :: "string \<Rightarrow> string list" where
  "split_spaces s = split_on (CHR '' '') (collapse js_space s)"

definition splitWords :: "string \<Rightarrow> string list" where
  "splitWords v = map js_lower (filter (\<lambda>word. length word > 0)
     (split_spaces (js_trim (collapse word_sep (splitCamel v)))))"

definition toCamelCase :: "string \<Rightarrow> string" where
  "toCamelCase v = (case splitWords v of [] \<Rightarrow> [] | w # ws \<Rightarrow> w @ concat (map capitalize ws))"

definition toPascalCase :: "string \<Rightarrow> string" where
  "toPascalCase v = concat (map capitalize (splitWords v))"

definition toKebabCase :: "string \<Rightarrow> string" where
  "toKebabCase v = join_with ''-'' (splitWords v)"

definition toSnakeCase :: "string \<Rightarrow> string" where
  "toSnakeCase v = join_with ''_'' (splitWords v)"

end
