(* ===== verification/Helpers.thy ===== *)
theory Helpers
  imports JsValue
begin

text \<open>
  What the helpers of packages/shared/utils promise: grouping, chunking and the case conversions.
\<close>

section \<open>Words\<close>

definition word_ok :: "string \<Rightarrow> bool" where
  "word_ok w \<longleftrightarrow> w \<noteq> [] \<and> (\<forall>c \<in> set w. \<not> word_sep c \<and> \<not> is_upper_letter c)"

lemma lower_not_upper [simp]: "\<not> is_upper_letter (js_lower_char c)"
proof -
  have "(of_char c :: nat) < 256" by simp
  then show ?thesis by (auto simp: is_upper_letter_def js_lower_char_def Let_def)
qed

lemma lower_char_cases: "js_lower_char c = c \<or> 97 \<le> (of_char (js_lower_char c) :: nat)"
proof -
  have "(of_char c :: nat) < 256" by simp
  then show ?thesis by (auto simp: js_lower_char_def Let_def)
qed

lemma word_sep_lower [simp]: "word_sep (js_lower_char c) = word_sep c"
proof -
  have "js_lower_char c = d \<longleftrightarrow> c = d" if "d = CHR ''-'' \<or> d = CHR ''_''" for d
  proof
    assume "js_lower_char c = d"
    moreover have "(of_char d :: nat) < 97" using that by auto
    ultimately show "c = d" using lower_char_cases[of c] by auto
  qed (use that in \<open>auto simp: js_lower_char_def\<close>)
  then show ?thesis by (auto simp: word_sep_def)
qed

lemma splitCamel_no_upper: "\<forall>c \<in> set s. \<not> is_upper_letter c \<Longrightarrow> splitCamel s = s"
  by (induction s rule: splitCamel.induct) auto

lemma collapse_plain: "\<forall>c \<in> set s. \<not> sep c \<Longrightarrow> collapse sep s = s"
  by (induction s) auto

lemma collapse_append_sep:
  assumes "\<forall>c \<in> set w. \<not> sep c" "sep d" "s \<noteq> []" "\<not> sep (hd s)"
  shows "collapse sep (w @ d # s) = w @ CHR '' '' # collapse sep s"
  using assms(1)
proof (induction w)
  case Nil
  then show ?case using assms(2-4) by (cases s) auto
qed simp

lemma join_with_hd: "ws \<noteq> [] \<Longrightarrow> hd ws \<noteq> [] \<Longrightarrow> join_with sep ws \<noteq> [] \<and> hd (join_with sep ws) = hd (hd ws)"
  by (induction sep ws rule: join_with.induct) auto

lemma join_with_last:
  "ws \<noteq> [] \<Longrightarrow> last ws \<noteq> [] \<Longrightarrow> join_with sep ws \<noteq> [] \<and> last (join_with sep ws) = last (last ws)"
proof (induction sep ws rule: join_with.induct)
  case (3 sep p q ps)
  then show ?case by auto
qed auto

lemma join_with_set: "set (join_with sep ws) \<subseteq> set sep \<union> \<Union> (set ` set ws)"
  by (induction sep ws rule: join_with.induct) auto

lemma collapse_join:
  assumes "sep d" "\<forall>w \<in> set ws. w \<noteq> [] \<and> (\<forall>c \<in> set w. \<not> sep c)"
  shows "collapse sep (join_with [d] ws) = join_with '' '' ws"
  using assms(2)
proof (induction "[d]" ws rule: join_with.induct)
  case (3 p q ps)
  have "join_with [d] (q # ps) \<noteq> [] \<and> hd (join_with [d] (q # ps)) = hd q" using 3(2) join_with_hd[of "q # ps"] by simp
  moreover have "\<not> sep (hd q)" using 3(2) by (cases q) auto
  ultimately show ?case using 3 assms(1) by (simp add: collapse_append_sep)
qed (simp_all add: collapse_plain)

lemma collapse_chars: "c \<in> set (collapse sep s) \<Longrightarrow> c = CHR '' '' \<or> \<not> sep c"
  by (induction s) (auto split: if_splits)

lemma collapse_mem: "c \<in> set (collapse sep s) \<Longrightarrow> c = CHR '' '' \<or> c \<in> set s"
  by (induction s) (auto split: if_splits)

lemma join_with_mem: "u \<in> set ws \<Longrightarrow> c \<in> set u \<Longrightarrow> c \<in> set (join_with sep ws)"
  by (induction sep ws rule: join_with.induct) auto

lemma splitWords_ok: "w \<in> set (splitWords v) \<Longrightarrow> word_ok w"
proof -
  assume "w \<in> set (splitWords v)"
  then obtain u where u: "u \<in> set (split_spaces (js_trim (collapse word_sep (splitCamel v))))" "u \<noteq> []" "w = js_lower u"
    by (auto simp: splitWords_def)
  have "\<not> word_sep c" if "c \<in> set u" for c
  proof -
    let ?s = "js_trim (collapse word_sep (splitCamel v))"
    have sp: "CHR '' '' \<notin> set u" using u(1) split_on_parts unfolding split_spaces_def by metis
    have "c \<in> set (collapse js_space ?s)"
      using that u(1) by (metis join_split_on join_with_mem split_spaces_def)
    then have "c = CHR '' '' \<or> c \<in> set ?s" by (metis collapse_mem)
    then have "c \<in> set ?s" using sp that by auto
    then have "c \<in> set (collapse word_sep (splitCamel v))" using js_trim_set by blast
    then show ?thesis using collapse_chars sp that by metis
  qed
  then show ?thesis using u(2,3) by (auto simp: word_ok_def js_lower_def)
qed

lemma splitWords_join:
  assumes "\<forall>w \<in> set ws. word_ok w \<and> js_lower w = w" "word_sep d" "\<not> is_upper_letter d"
  shows "splitWords (join_with [d] ws) = ws"
proof (cases "ws = []")
  case True
  then show ?thesis by (simp add: splitWords_def split_spaces_def)
next
  case False
  let ?j = "join_with '' '' ws"
  have camel: "splitCamel (join_with [d] ws) = join_with [d] ws"
  proof (intro splitCamel_no_upper ballI)
    fix c assume "c \<in> set (join_with [d] ws)"
    then have "c = d \<or> (\<exists>w \<in> set ws. c \<in> set w)" using join_with_set[of "[d]" ws] by auto
    then show "\<not> is_upper_letter c" using assms(1,3) by (auto simp: word_ok_def)
  qed
  have coll: "collapse word_sep (join_with [d] ws) = ?j"
    using assms by (intro collapse_join) (auto simp: word_ok_def)
  have ne: "hd ws \<noteq> []" "last ws \<noteq> []" using False assms(1) by (auto simp: word_ok_def)
  have "\<not> js_space (hd ?j)" "\<not> js_space (last ?j)"
  proof -
    have "word_ok (hd ws)" "word_ok (last ws)" using False assms(1) by simp_all
    then have "\<not> word_sep (hd (hd ws))" "\<not> word_sep (last (last ws))"
      using ne by (simp_all add: word_ok_def)
    then show "\<not> js_space (hd ?j)" "\<not> js_space (last ?j)"
      using join_with_hd[OF False ne(1)] join_with_last[OF False ne(2)] by (auto simp: word_sep_def)
  qed
  then have trim: "js_trim ?j = ?j" by (intro js_trim_fixed) simp
  have sp: "js_space (CHR '' '')" by (simp add: js_space_def)
  have plain: "\<forall>w \<in> set ws. w \<noteq> [] \<and> (\<forall>c \<in> set w. \<not> js_space c)"
    using assms(1) by (auto simp: word_ok_def word_sep_def)
  have coll2: "collapse js_space ?j = ?j" by (rule collapse_join[OF sp plain])
  have "\<forall>w \<in> set ws. CHR '' '' \<notin> set w" using plain sp by metis
  then have "split_on (CHR '' '') ?j = ws" using False by (rule split_join_with[rotated])
  then have "split_spaces ?j = ws" by (simp add: split_spaces_def coll2)
  moreover have "filter (\<lambda>w. 0 < length w) ws = ws" using assms(1) by (auto simp: word_ok_def)
  moreover have "map js_lower ws = ws" using assms(1) by (simp add: map_idI)
  ultimately show ?thesis by (simp add: splitWords_def camel coll trim)
qed

lemma splitWords_lower: "w \<in> set (splitWords v) \<Longrightarrow> js_lower w = w"
  by (auto simp: splitWords_def)

lemma splitWords_again:
  "splitWords (toKebabCase v) = splitWords v"
  "splitWords (toSnakeCase v) = splitWords v"
  unfolding toKebabCase_def toSnakeCase_def
  by (rule splitWords_join, use splitWords_ok splitWords_lower in blast,
      simp add: word_sep_def, simp add: is_upper_letter_def)+

section \<open>Grouping and chunking\<close>

definition group_pairs :: "('a \<Rightarrow> string) \<Rightarrow> 'a list \<Rightarrow> (string \<times> 'a list) list" where
  "group_pairs keyFn arr = map (\<lambda>k. (k, filter (\<lambda>x. keyFn x = k) arr)) (uniq (map keyFn arr))"

lemma uniq_snoc: "uniq (xs @ [x]) = (if x \<in> set xs then uniq xs else uniq xs @ [x])"
  unfolding uniq_def by (simp add: add_unique_def)

lemma map_of_groups: "map_of (group_pairs keyFn arr) k =
    (if k \<in> keyFn ` set arr then Some (filter (\<lambda>x. keyFn x = k) arr) else None)"
  by (auto simp: group_pairs_def map_of_map_restrict restrict_map_def)

lemma upsert_map_pairs:
  assumes "distinct ks" "k \<in> set ks"
  shows "upsert fst (k, v) (map (\<lambda>k. (k, f k)) ks) = map (\<lambda>k'. (k', if k' = k then v else f k')) ks"
  using assms
proof (induction ks)
  case (Cons a ks)
  show ?case
  proof (cases "a = k")
    case True
    then have "map (\<lambda>k'. (k', if k' = k then v else f k')) ks = map (\<lambda>k. (k, f k)) ks" using Cons.prems by auto
    then show ?thesis using True by simp
  next
    case False
    then show ?thesis using Cons by simp
  qed
qed simp

lemma group_pairs_snoc:
  "group_pairs keyFn (arr @ [x]) =
     upsert fst (keyFn x, (case map_of (group_pairs keyFn arr) (keyFn x) of Some g \<Rightarrow> g @ [x] | None \<Rightarrow> [x]))
       (group_pairs keyFn arr)"
proof (cases "keyFn x \<in> keyFn ` set arr")
  case True
  then have "uniq (map keyFn (arr @ [x])) = uniq (map keyFn arr)" by (simp add: uniq_snoc)
  then show ?thesis
    unfolding map_of_groups using True
    by (simp add: group_pairs_def upsert_map_pairs)
next
  case False
  then have u: "uniq (map keyFn (arr @ [x])) = uniq (map keyFn arr) @ [keyFn x]" by (simp add: uniq_snoc)
  have e: "filter (\<lambda>y. keyFn y = keyFn x) arr = []" using False unfolding filter_empty_conv by (metis imageI)
  have "upsert fst (keyFn x, [x]) (group_pairs keyFn arr) = group_pairs keyFn arr @ [(keyFn x, [x])]"
    using False by (intro upsert_fresh) (auto simp: group_pairs_def)
  then show ?thesis
    unfolding map_of_groups using False u e by (auto simp: group_pairs_def)
qed

lemma groupBy_loop_pairs:
  "groupBy_loop keyFn items (group_pairs keyFn done') =
     (if list_ex (\<lambda>x. keyFn x \<in> set objectPrototype \<and> keyFn x \<notin> keyFn ` set done') items then Inl TypeError
      else Inr (group_pairs keyFn (done' @ items)))"
proof (induction items arbitrary: done')
  case (Cons x items)
  show ?case
  proof (cases "keyFn x \<in> keyFn ` set done'")
    case True
    have "groupBy_loop keyFn (x # items) (group_pairs keyFn done')
        = groupBy_loop keyFn items (group_pairs keyFn (done' @ [x]))"
      using True by (simp add: group_pairs_snoc map_of_groups Let_def)
    moreover have "insert (keyFn x) (keyFn ` set done') = keyFn ` set done'" using True by auto
    ultimately show ?thesis using Cons[of "done' @ [x]"] True by simp
  next
    case False
    show ?thesis
    proof (cases "keyFn x \<in> set objectPrototype")
      case True
      then show ?thesis using False by (simp add: map_of_groups Let_def)
    next
      case nproto: False
      have "groupBy_loop keyFn (x # items) (group_pairs keyFn done')
          = groupBy_loop keyFn items (group_pairs keyFn (done' @ [x]))"
        using False nproto by (simp add: group_pairs_snoc map_of_groups Let_def)
      moreover have "list_ex (\<lambda>y. keyFn y \<in> set objectPrototype \<and> keyFn y \<notin> insert (keyFn x) (keyFn ` set done')) items
          = list_ex (\<lambda>y. keyFn y \<in> set objectPrototype \<and> keyFn y \<notin> keyFn ` set done') items"
        using nproto by (intro list_ex_cong) auto
      ultimately show ?thesis using Cons[of "done' @ [x]"] False nproto by simp
    qed
  qed
qed simp

lemma chunk_loop_append:
  "0 < n \<Longrightarrow> index \<le> length arr \<Longrightarrow>
     \<exists>cs. chunk_loop arr n index result = result @ cs \<and> concat cs = drop index arr
        \<and> list_all (\<lambda>c. c \<noteq> [] \<and> length c \<le> n) cs \<and> list_all (\<lambda>c. length c = n) (butlast cs)"
proof (induction arr n index result rule: chunk_loop.induct)
  case (1 arr n index result)
  show ?case
  proof (cases "index < length arr")
    case False
    then show ?thesis by (subst chunk_loop.simps) auto
  next
    case True
    let ?c = "take n (drop index arr)"
    show ?thesis
    proof (cases "index + n \<le> length arr")
      case le: True
      obtain cs where cs: "chunk_loop arr n (index + n) (result @ [?c]) = (result @ [?c]) @ cs"
          "concat cs = drop (index + n) arr" "list_all (\<lambda>c. c \<noteq> [] \<and> length c \<le> n) cs"
          "list_all (\<lambda>c. length c = n) (butlast cs)"
        using 1 True le by blast
      have "concat (?c # cs) = drop index arr" using cs(2) by (simp add: drop_drop add.commute flip: append_take_drop_id)
        (metis append_take_drop_id drop_drop add.commute)
      then show ?thesis using 1(2) True le cs
        by (intro exI[of _ "?c # cs"]) (subst chunk_loop.simps, auto)
    next
      case False
      have "chunk_loop arr n (index + n) (result @ [?c]) = result @ [?c]"
        using False by (subst chunk_loop.simps) simp
      then show ?thesis using 1(2) True False
        by (intro exI[of _ "[?c]"]) (subst chunk_loop.simps, auto)
    qed
  qed
qed

text \<open>The function \<open>groupBy\<close> keeps, for each key in the order of its first occurrence, exactly the items
  with that key in their order; but it throws a TypeError as soon as one key is the name of a member of
  \<open>Object.prototype\<close>.\<close>

theorem groupBy_groups:
  "groupBy keyFn arr =
     (if list_ex (\<lambda>x. keyFn x \<in> set objectPrototype) arr then Inl TypeError
      else Inr (map (\<lambda>k. (k, filter (\<lambda>x. keyFn x = k) arr)) (uniq (map keyFn arr))))"
  using groupBy_loop_pairs[of keyFn arr "[]"] by (simp add: groupBy_def group_pairs_def uniq_def)

text \<open>\<open>chunk\<close> with a positive size cuts an array into non-empty contiguous pieces of at most
  that size, all but the last of exactly that size; any other integer is refused.\<close>

theorem chunk_pieces:
  "(n < 1 \<longrightarrow> chunk arr (num n) = Inl RangeError) \<and>
   (1 \<le> n \<longrightarrow> (\<exists>cs. chunk arr (num n) = Inr cs \<and> concat cs = arr
      \<and> list_all (\<lambda>c. c \<noteq> [] \<and> int (length c) \<le> n) cs
      \<and> list_all (\<lambda>c. int (length c) = n) (butlast cs)))"
proof (cases "1 \<le> n")
  case True
  then have "chunk arr (num n) = Inr (chunk_loop arr (nat n) 0 [])"
    by (simp add: chunk_def num_def numIsInteger_def num_lt_def)
  moreover have "int (length c) \<le> n \<longleftrightarrow> length c \<le> nat n" "int (length c) = n \<longleftrightarrow> length c = nat n" for c :: "'a list"
    using True by linarith+
  ultimately show ?thesis using chunk_loop_append[of "nat n" 0 arr "[]"] True by simp
next
  case False
  then show ?thesis by (simp add: chunk_def num_def numIsInteger_def num_lt_def)
qed

theorem chunk_pieces_witness:
  "chunk [1, 2, 3 :: nat] (num 0) = Inl RangeError \<and>
   (\<exists>cs. chunk [1, 2, 3 :: nat] (num 2) = Inr cs \<and> concat cs = [1, 2, 3])"
  using chunk_pieces[of 0 "[1, 2, 3 :: nat]"] chunk_pieces[of 2 "[1, 2, 3 :: nat]"] by force

text \<open>The case conversions depend on the words of a string only, and kebab-case and snake-case
  keep the words: converting a converted string again, to any of the four cases, gives what the
  original gives.\<close>

theorem case_conversions_stable:
  "toKebabCase (toKebabCase v) = toKebabCase v \<and> toSnakeCase (toSnakeCase v) = toSnakeCase v \<and>
   toKebabCase (toSnakeCase v) = toKebabCase v \<and> toSnakeCase (toKebabCase v) = toSnakeCase v \<and>
   toCamelCase (toKebabCase v) = toCamelCase v \<and> toPascalCase (toSnakeCase v) = toPascalCase v"
proof -
  have k: "toKebabCase u = toKebabCase v" "toSnakeCase u = toSnakeCase v" "toCamelCase u = toCamelCase v"
      "toPascalCase u = toPascalCase v" if "splitWords u = splitWords v" for u
    using that by (simp_all add: toKebabCase_def toSnakeCase_def toCamelCase_def toPascalCase_def)
  show ?thesis using k[OF splitWords_again(1)] k[OF splitWords_again(2)] by simp
qed

end
