(* ===== verification/JsDate.thy ===== *)
theory JsDate
  imports JsValue
begin

text \<open>
  The built-in \<open>Date\<close> as far as the program uses it (time values, \<open>toISOString\<close>, the constructor
  from a string, the UTC calendar fields, \<open>Date.UTC\<close>), and the DateUtils helpers of
  packages/shared/utils on top of it.

  A date is its time value in milliseconds, \<open>None\<close> for an Invalid Date; a valid time value is an
  integer of at most 8.64e15 in size.  A string that is not of the exact form \<open>toISOString\<close> writes is
  read by \<open>otherFormat\<close>, a parameter: the rest of \<open>Date.parse\<close> depends on the engine and on the local
  time zone.
\<close>

type_synonym date = "int option"

section \<open>The proleptic Gregorian calendar\<close>

definition MS_PER_DAY :: int where
  "MS_PER_DAY = 86400000"

definition MAX_TIME :: int where
  "MAX_TIME = 8640000000000000"

definition leap :: "int \<Rightarrow> bool" where
  "leap y \<longleftrightarrow> 4 dvd y \<and> (\<not> 100 dvd y \<or> 400 dvd y)"

text \<open>The day number of January 1st of a year, days before 1970 being negative.\<close>

definition dayFromYear :: "int \<Rightarrow> int" where
  "dayFromYear y = 365 * (y - 1970) + (y - 1969) div 4 - (y - 1901) div 100 + (y - 1601) div 400"

definition yearFromDay :: "int \<Rightarrow> int" where
  "yearFromDay d = (let e = 1970 + (d * 400) div 146097 in
     if d < dayFromYear e then e - 1 else if dayFromYear (e + 1) \<le> d then e + 1 else e)"

text \<open>Days of the year before the first day of month \<open>m\<close> (0 is January, 12 the end of the year).\<close>

definition monthStart :: "bool \<Rightarrow> nat \<Rightarrow> int" where
  "monthStart l m = [0, 31, 59, 90, 120, 151, 181, 212, 243, 273, 304, 334, 365] ! m + (if l \<and> 2 \<le> m then 1 else 0)"

fun monthFrom :: "bool \<Rightarrow> int \<Rightarrow> nat \<Rightarrow> nat" where
  "monthFrom l doy 0 = 0"
| "monthFrom l doy (Suc m) = (if monthStart l (Suc m) \<le> doy then Suc m else monthFrom l doy m)"

definition monthLength :: "bool \<Rightarrow> nat \<Rightarrow> int" where
  "monthLength l m = monthStart l (Suc m) - monthStart l m"

definition dayNumber :: "int \<Rightarrow> nat \<Rightarrow> int \<Rightarrow> int" where
  "dayNumber y m d = dayFromYear y + monthStart (leap y) m + d - 1"

definition getUTCFullYear :: "int \<Rightarrow> int" where
  "getUTCFullYear t = yearFromDay (t div MS_PER_DAY)"

definition getUTCMonth :: "int \<Rightarrow> nat" where
  "getUTCMonth t = (let d = t div MS_PER_DAY; y = yearFromDay d in monthFrom (leap y) (d - dayFromYear y) 11)"

definition getUTCDate :: "int \<Rightarrow> int" where
  "getUTCDate t = (let d = t div MS_PER_DAY; y = yearFromDay d; doy = d - dayFromYear y in
     doy - monthStart (leap y) (monthFrom (leap y) doy 11) + 1)"

lemma int_div_succ: "(k + 1) div n = k div n + (if n dvd k + 1 then 1 else 0)" if "0 < n" for k n :: int
proof (cases "k mod n = n - 1")
  case True
  then have e: "k + 1 = n * (k div n + 1)" using mult_div_mod_eq[of n k] unfolding distrib_left by linarith
  have "(k + 1) div n = k div n + 1" unfolding e using that by simp
  moreover have "n dvd k + 1" unfolding e by simp
  ultimately show ?thesis by simp
next
  case False
  have r: "0 \<le> k mod n" "k mod n < n - 1" using False pos_mod_bound[OF that, of k] pos_mod_sign[OF that, of k] by linarith+
  have e: "k + 1 = n * (k div n) + (k mod n + 1)" using mult_div_mod_eq[of n k] by simp
  have "(k + 1) div n = k div n" using r int_div_pos_eq[OF e] by simp
  moreover have "(k + 1) mod n = k mod n + 1" using r int_mod_pos_eq[OF e] by simp
  ultimately show ?thesis using r by (auto simp: dvd_eq_mod_eq_0)
qed

lemma dayFromYear_Suc: "dayFromYear (y + 1) = dayFromYear y + (if leap y then 366 else 365)"
proof -
  have f: "(y - 1968) div 4 = (y - 1969) div 4 + (if 4 dvd y - 1968 then 1 else 0)"
    "(y - 1900) div 100 = (y - 1901) div 100 + (if 100 dvd y - 1900 then 1 else 0)"
    "(y - 1600) div 400 = (y - 1601) div 400 + (if 400 dvd y - 1600 then 1 else 0)"
    using int_div_succ[of 4 "y - 1969"] int_div_succ[of 100 "y - 1901"] int_div_succ[of 400 "y - 1601"] by simp_all
  have m: "4 dvd y - 1968 \<longleftrightarrow> 4 dvd y" "100 dvd y - 1900 \<longleftrightarrow> 100 dvd y" "400 dvd y - 1600 \<longleftrightarrow> 400 dvd y"
    by (rule dvd_diff_left_iff, simp)+
  have d: "400 dvd y \<Longrightarrow> 100 dvd y" "100 dvd y \<Longrightarrow> 4 dvd y"
    using dvd_trans[of 100 400 y] dvd_trans[of 4 100 y] by simp_all
  have "dayFromYear (y + 1) = 365 * (y - 1970) + 365 + (y - 1968) div 4 - (y - 1900) div 100 + (y - 1600) div 400"
    by (simp add: dayFromYear_def)
  then have "dayFromYear (y + 1) = dayFromYear y + 365 + (if 4 dvd y then 1 else 0)
      - (if 100 dvd y then 1 else 0) + (if 400 dvd y then 1 else 0)"
    unfolding f m dayFromYear_def by simp
  then show ?thesis using d by (cases "4 dvd y"; cases "100 dvd y"; cases "400 dvd y") (simp_all add: leap_def)
qed

lemma div_bounds: "n * (k div n) \<le> k" "k \<le> n * (k div n) + (n - 1)" if "0 < n" for k n :: int
  using mult_div_mod_eq[of n k] pos_mod_bound[OF that, of k] pos_mod_sign[OF that, of k] by linarith+

lemma dayFromYear_bounds:
  "400 * dayFromYear y \<le> 146097 * (y - 1970) + 897"
  "146097 * (y - 1970) - 891 \<le> 400 * dayFromYear y"
proof -
  define a where "a = (y - 1969) div 4"
  define b where "b = (y - 1901) div 100"
  define c where "c = (y - 1601) div 400"
  have "4 * a \<le> y - 1969" "y - 1969 \<le> 4 * a + 3" "100 * b \<le> y - 1901" "y - 1901 \<le> 100 * b + 99"
      "400 * c \<le> y - 1601" "y - 1601 \<le> 400 * c + 399"
    using div_bounds[of 4 "y - 1969"] div_bounds[of 100 "y - 1901"] div_bounds[of 400 "y - 1601"]
    by (simp_all add: a_def b_def c_def)
  then have "400 * (365 * (y - 1970) + a - b + c) \<le> 146097 * (y - 1970) + 897"
      "146097 * (y - 1970) - 891 \<le> 400 * (365 * (y - 1970) + a - b + c)"
    by (simp_all add: algebra_simps)
  moreover have "dayFromYear y = 365 * (y - 1970) + a - b + c"
    by (simp add: dayFromYear_def a_def b_def c_def)
  ultimately show "400 * dayFromYear y \<le> 146097 * (y - 1970) + 897"
      "146097 * (y - 1970) - 891 \<le> 400 * dayFromYear y" by simp_all
qed

lemma yearFromDay_bounds: "dayFromYear (yearFromDay d) \<le> d" "d < dayFromYear (yearFromDay d + 1)"
proof -
  define e where "e = 1970 + (d * 400) div 146097"
  have e: "146097 * (e - 1970) \<le> 400 * d" "400 * d \<le> 146097 * (e - 1970) + 146096"
    using div_bounds[of 146097 "d * 400"] by (simp_all add: e_def)
  have y: "yearFromDay d = (if d < dayFromYear e then e - 1 else if dayFromYear (e + 1) \<le> d then e + 1 else e)"
    by (simp add: yearFromDay_def e_def Let_def)
  have lo: "dayFromYear (e - 1) \<le> d" using dayFromYear_bounds(1)[of "e - 1"] e by simp
  have hi: "d < dayFromYear (e + 1 + 1)" using dayFromYear_bounds(2)[of "e + 1 + 1"] e by simp
  show "dayFromYear (yearFromDay d) \<le> d" using lo y by simp
  show "d < dayFromYear (yearFromDay d + 1)" using hi y by simp
qed

lemma yearFromDay_unique:
  assumes "dayFromYear y \<le> d" "d < dayFromYear (y + 1)"
  shows "yearFromDay d = y"
proof -
  have mono: "dayFromYear a + int n \<le> dayFromYear (a + int n)" for a n
  proof (induction n)
    case (Suc n)
    have "dayFromYear (a + int (Suc n)) = dayFromYear (a + int n + 1)" by (simp add: algebra_simps)
    then show ?case using Suc dayFromYear_Suc[of "a + int n"] by auto
  qed simp
  have le: "dayFromYear a \<le> dayFromYear b" if "a \<le> b" for a b
    using mono[of a "nat (b - a)"] that by simp
  have "\<not> yearFromDay d + 1 \<le> y"
    using le[of "yearFromDay d + 1" y] yearFromDay_bounds(2)[of d] assms(1) by linarith
  moreover have "\<not> y + 1 \<le> yearFromDay d"
    using le[of "y + 1" "yearFromDay d"] yearFromDay_bounds(1)[of d] assms(2) by linarith
  ultimately show ?thesis by linarith
qed

lemma monthStart_simps [simp]:
  "monthStart l 0 = 0"
  "monthStart l 12 = (if l then 366 else 365)"
  by (simp_all add: monthStart_def)

lemma monthFrom_bounds:
  "monthFrom l doy n \<le> n \<and> (0 \<le> doy \<longrightarrow> monthStart l (monthFrom l doy n) \<le> doy)
    \<and> (doy < monthStart l (Suc n) \<longrightarrow> doy < monthStart l (Suc (monthFrom l doy n)))"
  by (induction n) auto

lemma year_length: "monthStart (leap y) 12 = dayFromYear (y + 1) - dayFromYear y"
  by (simp add: dayFromYear_Suc)

text \<open>The calendar fields of a time value name its day.\<close>

lemma fields_of_time:
  fixes t :: int
  defines "y \<equiv> getUTCFullYear t" and "m \<equiv> getUTCMonth t" and "d \<equiv> getUTCDate t"
  shows "dayNumber y m d = t div MS_PER_DAY" "m \<le> 11" "1 \<le> d" "d \<le> monthLength (leap y) m"
proof -
  define D where "D = t div MS_PER_DAY"
  have y: "y = yearFromDay D" by (simp add: y_def getUTCFullYear_def D_def)
  define doy where "doy = D - dayFromYear y"
  have m: "m = monthFrom (leap y) doy 11"
    by (simp add: m_def getUTCMonth_def Let_def doy_def y D_def)
  have d: "d = doy - monthStart (leap y) m + 1"
    by (simp add: d_def getUTCDate_def Let_def m doy_def y D_def)
  have "0 \<le> doy" "doy < monthStart (leap y) (Suc 11)"
    using yearFromDay_bounds[of D] year_length[of y] by (simp_all add: doy_def y)
  then have b: "m \<le> 11" "monthStart (leap y) m \<le> doy" "doy < monthStart (leap y) (Suc m)"
    using monthFrom_bounds[of "leap y" doy 11] m by simp_all
  show "dayNumber y m d = t div MS_PER_DAY" by (simp add: dayNumber_def d doy_def D_def)
  show "m \<le> 11" "1 \<le> d" "d \<le> monthLength (leap y) m" using b by (simp_all add: d monthLength_def)
qed

section \<open>ISO strings\<close>

text \<open>\<open>digits w n\<close> is the last \<open>w\<close> decimal digits of \<open>n\<close>; \<open>digits_value\<close> reads them back.\<close>

fun digits :: "nat \<Rightarrow> int \<Rightarrow> string" where
  "digits 0 n = []"
| "digits (Suc w) n = digits w (n div 10) @ [char_of (48 + nat (n mod 10))]"

fun digits_value :: "int \<Rightarrow> string \<Rightarrow> int option" where
  "digits_value acc [] = Some acc"
| "digits_value acc (c # cs) = (if is_digit c then digits_value (acc * 10 + (of_char c - 48)) cs else None)"

definition year_string :: "int \<Rightarrow> string" where
  "year_string y = (if 0 \<le> y \<and> y \<le> 9999 then digits 4 y
     else if 0 \<le> y then CHR ''+'' # digits 6 y else CHR ''-'' # digits 6 (- y))"

definition rest_string :: "int \<Rightarrow> string" where
  "rest_string t = (let s = t mod MS_PER_DAY in
     ''-'' @ digits 2 (int (getUTCMonth t) + 1) @ ''-'' @ digits 2 (getUTCDate t) @ ''T'' @ digits 2 (s div 3600000) @
     '':'' @ digits 2 (s div 60000 mod 60) @ '':'' @ digits 2 (s div 1000 mod 60) @ ''.'' @ digits 3 (s mod 1000) @ ''Z'')"

definition toISOString :: "date \<Rightarrow> jsError + string" where
  "toISOString dt = (case dt of None \<Rightarrow> Inl RangeError
     | Some t \<Rightarrow> Inr (year_string (getUTCFullYear t) @ rest_string t))"

definition parse_year :: "string \<Rightarrow> int option" where
  "parse_year s = (case s of
     [] \<Rightarrow> None
   | c # cs \<Rightarrow>
       if length s = 4 then digits_value 0 s
       else if length s = 7 \<and> c = CHR ''+'' then digits_value 0 cs
       else if length s = 7 \<and> c = CHR ''-'' then
         (case digits_value 0 cs of None \<Rightarrow> None | Some y \<Rightarrow> if y = 0 then None else Some (- y))
       else None)"

definition field :: "nat \<Rightarrow> nat \<Rightarrow> string \<Rightarrow> int option" where
  "field i w s = digits_value 0 (take w (drop i s))"

text \<open>The part after the year, \<open>-MM-DDTHH:mm:ss.sssZ\<close>: the month, the day and the time of day.\<close>

definition parse_rest :: "string \<Rightarrow> (int \<times> int \<times> int) option" where
  "parse_rest s = (if length s = 20 \<and> s ! 0 = CHR ''-'' \<and> s ! 3 = CHR ''-'' \<and> s ! 6 = CHR ''T'' \<and> s ! 9 = CHR '':''
       \<and> s ! 12 = CHR '':'' \<and> s ! 15 = CHR ''.'' \<and> s ! 19 = CHR ''Z''
     then (case (field 1 2 s, field 4 2 s, field 7 2 s, field 10 2 s, field 13 2 s, field 16 3 s) of
         (Some m, Some d, Some h, Some mi, Some sec, Some ms) \<Rightarrow>
           if h < 24 \<and> mi < 60 \<and> sec < 60 then Some (m, d, h * 3600000 + mi * 60000 + sec * 1000 + ms) else None
       | _ \<Rightarrow> None)
     else None)"

definition timeClip :: "int \<Rightarrow> date" where
  "timeClip t = (if \<bar>t\<bar> \<le> MAX_TIME then Some t else None)"

definition parse_iso_form :: "string \<Rightarrow> date option" where
  "parse_iso_form s = (let n = length s - 20 in
     case (parse_year (take n s), parse_rest (drop n s)) of
       (Some y, Some (m, d, tod)) \<Rightarrow>
         if 1 \<le> m \<and> m \<le> 12 \<and> 1 \<le> d \<and> d \<le> monthLength (leap y) (nat (m - 1))
         then Some (timeClip (dayNumber y (nat (m - 1)) d * MS_PER_DAY + tod)) else None
     | _ \<Rightarrow> None)"

definition dateOfString :: "(string \<Rightarrow> date) \<Rightarrow> string \<Rightarrow> date" where
  "dateOfString otherFormat s = (case parse_iso_form s of Some dt \<Rightarrow> dt | None \<Rightarrow> otherFormat s)"

lemma digits_length [simp]: "length (digits w n) = w"
  by (induction w arbitrary: n) auto

lemma digits_value_append:
  "digits_value acc (xs @ ys) = (case digits_value acc xs of None \<Rightarrow> None | Some a \<Rightarrow> digits_value a ys)"
  by (induction xs arbitrary: acc) auto

lemma digit_char: "0 \<le> k \<Longrightarrow> k < 10 \<Longrightarrow>
    is_digit (char_of (48 + nat k)) \<and> (of_char (char_of (48 + nat k) :: char) :: int) = 48 + k"
proof -
  assume k: "0 \<le> k" "k < 10"
  have "(of_char (char_of (48 + nat k) :: char) :: nat) = 48 + nat k" using k by (simp add: of_char_of)
  moreover have "(of_char c :: int) = int (of_char c :: nat)" for c :: char
    by (metis of_nat_of_char)
  ultimately show ?thesis using k by (auto simp: is_digit_def Let_def)
qed

lemma digits_value_digits:
  "0 \<le> n \<Longrightarrow> digits_value acc (digits w n) = Some (acc * 10 ^ w + n mod 10 ^ w)"
proof (induction w arbitrary: n)
  case (Suc w)
  have k: "0 \<le> n mod 10" "n mod 10 < 10" by simp_all
  have "n mod 10 ^ Suc w = 10 * (n div 10 mod 10 ^ w) + n mod 10"
    using mod_mult2_eq'[of n 10 "10 ^ w"] by (simp add: mult.commute)
  then show ?case using Suc.IH[of "n div 10"] Suc.prems digit_char[OF k]
    by (simp add: digits_value_append algebra_simps)
qed simp

lemma digits_value_small:
  "0 \<le> n \<Longrightarrow> n < 10 ^ w \<Longrightarrow> digits_value 0 (digits w n) = Some n"
  by (simp add: digits_value_digits)

lemma two_chars: "length xs = 2 \<Longrightarrow> \<exists>a b. xs = [a, b]"
  by (cases xs; cases "tl xs") auto

lemma three_chars: "length xs = 3 \<Longrightarrow> \<exists>a b c. xs = [a, b, c]"
  by (cases xs; cases "tl xs"; cases "tl (tl xs)") auto

lemma parse_rest_of:
  assumes "length M = 2" "length D = 2" "length H = 2" "length I = 2" "length S = 2" "length L = 3"
    and "digits_value 0 M = Some m" "digits_value 0 D = Some d" "digits_value 0 H = Some h"
    and "digits_value 0 I = Some mi" "digits_value 0 S = Some sec" "digits_value 0 L = Some ms"
    and "h < 24" "mi < 60" "sec < 60"
  shows "parse_rest (''-'' @ M @ ''-'' @ D @ ''T'' @ H @ '':'' @ I @ '':'' @ S @ ''.'' @ L @ ''Z'') =
    Some (m, d, h * 3600000 + mi * 60000 + sec * 1000 + ms)"
proof -
  obtain a1 a2 b1 b2 c1 c2 d1 d2 e1 e2 where e: "M = [a1, a2]" "D = [b1, b2]" "H = [c1, c2]" "I = [d1, d2]" "S = [e1, e2]"
    using two_chars[OF assms(1)] two_chars[OF assms(2)] two_chars[OF assms(3)] two_chars[OF assms(4)]
      two_chars[OF assms(5)] by blast
  obtain f1 f2 f3 where l: "L = [f1, f2, f3]" using three_chars[OF assms(6)] by blast
  let ?s = "[CHR ''-'', a1, a2, CHR ''-'', b1, b2, CHR ''T'', c1, c2, CHR '':'', d1, d2, CHR '':'', e1, e2, CHR ''.'', f1, f2, f3, CHR ''Z'']"
  have f: "field 1 2 ?s = Some m" "field 4 2 ?s = Some d" "field 7 2 ?s = Some h" "field 10 2 ?s = Some mi"
      "field 13 2 ?s = Some sec" "field 16 3 ?s = Some ms"
    using assms(7-12) unfolding e l by (simp_all add: field_def numeral_eq_Suc)
  have "parse_rest ?s = Some (m, d, h * 3600000 + mi * 60000 + sec * 1000 + ms)"
    unfolding parse_rest_def f using assms(13-15) by simp
  then show ?thesis by (simp add: e l)
qed

lemma monthLength_le: "m \<le> 11 \<Longrightarrow> monthLength l m \<le> 31"
proof -
  assume "m \<le> 11"
  then have "m = 0 \<or> m = 1 \<or> m = 2 \<or> m = 3 \<or> m = 4 \<or> m = 5 \<or> m = 6 \<or> m = 7 \<or> m = 8 \<or> m = 9 \<or> m = 10 \<or> m = 11"
    by presburger
  then show ?thesis by (auto simp: monthLength_def monthStart_def)
qed

lemma rest_length [simp]: "length (rest_string t) = 20"
  by (simp add: rest_string_def Let_def)

lemma parse_rest_string:
  "parse_rest (rest_string t) = Some (int (getUTCMonth t) + 1, getUTCDate t, t mod MS_PER_DAY)"
proof -
  define s where "s = t mod MS_PER_DAY"
  have s: "0 \<le> s" "s < 86400000" by (simp_all add: s_def MS_PER_DAY_def)
  have d: "0 \<le> getUTCDate t" "getUTCDate t < 100"
    using fields_of_time[of t] monthLength_le[of "getUTCMonth t" "leap (getUTCFullYear t)"] by simp_all
  have m: "int (getUTCMonth t) + 1 < 100" using fields_of_time(2)[of t] by simp
  have h: "0 \<le> s div 3600000" "s div 3600000 < 24" using s by auto
  have sum: "s = s div 3600000 * 3600000 + s div 60000 mod 60 * 60000 + s div 1000 mod 60 * 1000 + s mod 1000"
  proof -
    have "s div 60000 div 60 = s div 3600000" "s div 1000 div 60 = s div 60000"
      by (simp_all flip: zdiv_zmult2_eq)
    then show ?thesis using mult_div_mod_eq[of 60 "s div 60000"] mult_div_mod_eq[of 60 "s div 1000"]
        mult_div_mod_eq[of 1000 s] by linarith
  qed
  have "parse_rest (rest_string t) = Some (int (getUTCMonth t) + 1, getUTCDate t,
      s div 3600000 * 3600000 + s div 60000 mod 60 * 60000 + s div 1000 mod 60 * 1000 + s mod 1000)"
    unfolding rest_string_def Let_def s_def[symmetric]
  proof (rule parse_rest_of)
    show "digits_value 0 (digits 3 (s mod 1000)) = Some (s mod 1000)" by (rule digits_value_small) simp_all
    show "digits_value 0 (digits 2 (s div 3600000)) = Some (s div 3600000)" using h by (intro digits_value_small) simp_all
    show "digits_value 0 (digits 2 (s div 60000 mod 60)) = Some (s div 60000 mod 60)"
      using pos_mod_bound[of 60 "s div 60000"] by (intro digits_value_small) simp_all
    show "digits_value 0 (digits 2 (s div 1000 mod 60)) = Some (s div 1000 mod 60)"
      using pos_mod_bound[of 60 "s div 1000"] by (intro digits_value_small) simp_all
    show "digits_value 0 (digits 2 (int (getUTCMonth t) + 1)) = Some (int (getUTCMonth t) + 1)"
      using m by (intro digits_value_small) simp_all
    show "digits_value 0 (digits 2 (getUTCDate t)) = Some (getUTCDate t)" using d by (intro digits_value_small) simp_all
  qed (use h in simp_all)
  then show ?thesis unfolding sum[symmetric] unfolding s_def .
qed

lemma year_in_range:
  assumes "\<bar>t\<bar> \<le> MAX_TIME"
  shows "- 1000000 < getUTCFullYear t" "getUTCFullYear t < 1000000"
proof -
  define D where "D = t div MS_PER_DAY"
  have D: "- 100000000 \<le> D" "D \<le> 100000000"
    using assms by (auto simp: D_def MS_PER_DAY_def MAX_TIME_def)
  have y: "getUTCFullYear t = yearFromDay D" by (simp add: getUTCFullYear_def D_def)
  show "- 1000000 < getUTCFullYear t"
    using D yearFromDay_bounds(2)[of D] dayFromYear_bounds(1)[of "yearFromDay D + 1"] unfolding y by simp
  show "getUTCFullYear t < 1000000"
    using D yearFromDay_bounds(1)[of D] dayFromYear_bounds(2)[of "yearFromDay D"] unfolding y by simp
qed

lemma parse_year_string:
  assumes "- 1000000 < y" "y < 1000000"
  shows "parse_year (year_string y) = Some y"
proof -
  have len: "length cs = 4 \<Longrightarrow> parse_year cs = digits_value 0 cs" for cs
    by (cases cs) (auto simp: parse_year_def)
  consider "0 \<le> y" "y \<le> 9999" | "9999 < y" | "y < 0" by linarith
  then show ?thesis
  proof cases
    case 1
    then show ?thesis by (simp add: year_string_def len digits_value_small)
  next
    case 2
    then show ?thesis using assms by (simp add: year_string_def parse_year_def digits_value_small)
  next
    case 3
    then show ?thesis using assms by (simp add: year_string_def parse_year_def digits_value_small)
  qed
qed

lemma parse_iso_of_toISO:
  assumes "\<bar>t\<bar> \<le> MAX_TIME" "toISOString (Some t) = Inr s"
  shows "parse_iso_form s = Some (Some t)"
proof -
  let ?y = "getUTCFullYear t" and ?m = "getUTCMonth t" and ?d = "getUTCDate t"
  have s: "s = year_string ?y @ rest_string t" using assms(2) by (simp add: toISOString_def)
  have "dayNumber ?y ?m ?d * MS_PER_DAY + t mod MS_PER_DAY = t" by (simp add: fields_of_time(1))
  moreover have "parse_year (year_string ?y) = Some ?y" using year_in_range[OF assms(1)] parse_year_string by blast
  ultimately show ?thesis using fields_of_time[of t] assms(1)
    by (simp add: s parse_iso_form_def parse_rest_string timeClip_def)
qed

section \<open>DateUtils\<close>

definition isValid :: "date \<Rightarrow> bool" where
  "isValid v \<longleftrightarrow> v \<noteq> None"

definition assertValid :: "date \<Rightarrow> jsError + unit" where
  "assertValid v = throwIf (\<not> isValid v) RangeError"

definition assertFinite :: "number \<Rightarrow> jsError + unit" where
  "assertFinite x = throwIf (\<not> isFinite x) RangeError"

definition getTime :: "date \<Rightarrow> number" where
  "getTime v = (case v of None \<Rightarrow> NaN | Some t \<Rightarrow> num t)"

text \<open>\<open>new Date(x)\<close> for a number: the fraction is cut off towards zero.\<close>

definition dateOfNumber :: "number \<Rightarrow> date" where
  "dateOfNumber x = (case x of
     Fin q \<Rightarrow> if \<bar>q\<bar> \<le> of_int MAX_TIME then Some (if 0 \<le> q then \<lfloor>q\<rfloor> else \<lceil>q\<rceil>) else None
   | _ \<Rightarrow> None)"

text \<open>\<open>Date.UTC(y, m, d, ...)\<close> of integer fields: a year from 0 to 99 means 1900 to 1999.\<close>

definition dateUTC :: "int \<Rightarrow> nat \<Rightarrow> int \<Rightarrow> int \<Rightarrow> date" where
  "dateUTC y m d tod = (let y' = (if 0 \<le> y \<and> y \<le> 99 then 1900 + y else y) in
     timeClip (dayNumber y' m d * MS_PER_DAY + tod))"

definition parseIso :: "(string \<Rightarrow> date) \<Rightarrow> string \<Rightarrow> date" where
  "parseIso otherFormat v = (let parsed = dateOfString otherFormat v in
     if isValid parsed then parsed else None)"

definition toIsoString :: "date \<Rightarrow> jsError + string" where
  "toIsoString v = bindR (assertValid v) (\<lambda>_. toISOString v)"

definition fromUnixMs :: "number \<Rightarrow> jsError + date" where
  "fromUnixMs ms = bindR (throwIf (\<not> isFinite ms) RangeError) (\<lambda>_.
     let dt = dateOfNumber ms in bindR (assertValid dt) (\<lambda>_. Inr dt))"

definition toUnixMs :: "date \<Rightarrow> jsError + number" where
  "toUnixMs v = bindR (assertValid v) (\<lambda>_. Inr (getTime v))"

definition startOfUtcDay :: "date \<Rightarrow> jsError + date" where
  "startOfUtcDay v = bindR (assertValid v) (\<lambda>_. case v of
     Some t \<Rightarrow> Inr (dateUTC (getUTCFullYear t) (getUTCMonth t) (getUTCDate t) 0) | None \<Rightarrow> Inl RangeError)"

definition endOfUtcDay :: "date \<Rightarrow> jsError + date" where
  "endOfUtcDay v = bindR (assertValid v) (\<lambda>_. case v of
     Some t \<Rightarrow> Inr (dateUTC (getUTCFullYear t) (getUTCMonth t) (getUTCDate t)
       (23 * 3600000 + 59 * 60000 + 59 * 1000 + 999)) | None \<Rightarrow> Inl RangeError)"

text \<open>Sums and products of numbers, infinite beyond the range of a double.\<close>

definition num_plus :: "number \<Rightarrow> number \<Rightarrow> number" where
  "num_plus x y = (case (x, y) of
     (Fin a, Fin b) \<Rightarrow> to_number (a + b)
   | (NaN, _) \<Rightarrow> NaN | (_, NaN) \<Rightarrow> NaN
   | (PosInf, NegInf) \<Rightarrow> NaN | (NegInf, PosInf) \<Rightarrow> NaN
   | (PosInf, _) \<Rightarrow> PosInf | (_, PosInf) \<Rightarrow> PosInf | _ \<Rightarrow> NegInf)"

definition num_scale :: "number \<Rightarrow> int \<Rightarrow> number" where
  "num_scale x k = (case x of Fin a \<Rightarrow> to_number (a * of_int k) | _ \<Rightarrow> x)"

definition MS_PER_SEC :: int where "MS_PER_SEC = 1000"

definition SEC_PER_MIN :: int where "SEC_PER_MIN = 60"

definition SEC_PER_HOUR :: int where "SEC_PER_HOUR = 60 * 60"

definition SEC_PER_DAY :: int where "SEC_PER_DAY = 24 * 60 * 60"

definition dayToSec :: "number \<Rightarrow> jsError + number" where
  "dayToSec days = bindR (assertFinite days) (\<lambda>_. Inr (num_scale days SEC_PER_DAY))"

definition hourToSec :: "number \<Rightarrow> jsError + number" where
  "hourToSec hours = bindR (assertFinite hours) (\<lambda>_. Inr (num_scale hours SEC_PER_HOUR))"

definition minToSec :: "number \<Rightarrow> jsError + number" where
  "minToSec minutes = bindR (assertFinite minutes) (\<lambda>_. Inr (num_scale minutes SEC_PER_MIN))"

definition secToMs :: "number \<Rightarrow> jsError + number" where
  "secToMs seconds = bindR (assertFinite seconds) (\<lambda>_. Inr (num_scale seconds MS_PER_SEC))"

definition addUtcMs :: "date \<Rightarrow> number \<Rightarrow> jsError + date" where
  "addUtcMs v ms = bindR (assertValid v) (\<lambda>_. bindR (assertFinite ms) (\<lambda>_.
     Inr (dateOfNumber (num_plus (getTime v) ms))))"

definition addUtcDays :: "date \<Rightarrow> number \<Rightarrow> jsError + date" where
  "addUtcDays v days = bindR (dayToSec days) (\<lambda>sec. bindR (secToMs sec) (\<lambda>ms. addUtcMs v ms))"

definition addUtcHours :: "date \<Rightarrow> number \<Rightarrow> jsError + date" where
  "addUtcHours v hours = bindR (hourToSec hours) (\<lambda>sec. bindR (secToMs sec) (\<lambda>ms. addUtcMs v ms))"

definition addUtcMinutes :: "date \<Rightarrow> number \<Rightarrow> jsError + date" where
  "addUtcMinutes v minutes = bindR (minToSec minutes) (\<lambda>sec. bindR (secToMs sec) (\<lambda>ms. addUtcMs v ms))"

definition diffUtcMs :: "date \<Rightarrow> date \<Rightarrow> jsError + int" where
  "diffUtcMs a b = bindR (assertValid a) (\<lambda>_. bindR (assertValid b) (\<lambda>_.
     case (a, b) of (Some s, Some t) \<Rightarrow> Inr (s - t) | _ \<Rightarrow> Inl RangeError))"

definition compareDates :: "date \<Rightarrow> date \<Rightarrow> jsError + int" where
  "compareDates a b = bindR (diffUtcMs a b) (\<lambda>diff.
     Inr (if diff < 0 then -1 else if 0 < diff then 1 else 0))"

section \<open>What the date helpers promise\<close>

lemma time_of_fields: "dayNumber (getUTCFullYear t) (getUTCMonth t) (getUTCDate t) * MS_PER_DAY = t - t mod MS_PER_DAY"
  by (simp add: fields_of_time(1) minus_mod_eq_div_mult)

lemma day_start_in_range:
  assumes "\<bar>t\<bar> \<le> MAX_TIME"
  shows "\<bar>t - t mod MS_PER_DAY\<bar> \<le> MAX_TIME"
proof -
  have e: "t - t mod MS_PER_DAY = MS_PER_DAY * (t div MS_PER_DAY)" by (simp add: minus_mod_eq_mult_div)
  have "- 100000000 \<le> t div MS_PER_DAY" "t div MS_PER_DAY \<le> 100000000"
    using assms by (auto simp: MS_PER_DAY_def MAX_TIME_def)
  then show ?thesis unfolding e by (simp add: MS_PER_DAY_def MAX_TIME_def)
qed

lemma month_day_fits:
  assumes "m \<le> 11" "1 \<le> d" "d \<le> monthLength l m"
  shows "0 \<le> monthStart l' m + d - 1" "monthStart l' m + d - 1 < 365 + (if l' then 1 else 0)"
proof -
  have "m = 0 \<or> m = 1 \<or> m = 2 \<or> m = 3 \<or> m = 4 \<or> m = 5 \<or> m = 6 \<or> m = 7 \<or> m = 8 \<or> m = 9 \<or> m = 10 \<or> m = 11"
    using assms(1) by presburger
  then show "0 \<le> monthStart l' m + d - 1" "monthStart l' m + d - 1 < 365 + (if l' then 1 else 0)"
    using assms(2,3) by (auto simp: monthLength_def monthStart_def split: if_splits)
qed

lemma dayNumber_year:
  assumes "m \<le> 11" "1 \<le> d" "d \<le> monthLength l m"
  shows "yearFromDay (dayNumber y m d) = y"
  using month_day_fits[OF assms, of "leap y"]
  by (intro yearFromDay_unique) (auto simp: dayNumber_def dayFromYear_Suc)

text \<open>an ISO string written by \<open>toIsoString\<close> is read back by \<open>parseIso\<close> as the same date, for
  every valid date (years -271821 to 275760), whatever the engine does with other formats; an invalid
  date is refused.\<close>

theorem iso_roundtrip:
  "(\<bar>t\<bar> \<le> MAX_TIME \<longrightarrow> (\<exists>s. toIsoString (Some t) = Inr s \<and> parseIso otherFormat s = Some t))
   \<and> toIsoString None = Inl RangeError"
proof -
  have "\<exists>s. toIsoString (Some t) = Inr s \<and> parseIso otherFormat s = Some t" if t: "\<bar>t\<bar> \<le> MAX_TIME"
  proof -
    obtain s where s: "toISOString (Some t) = Inr s" by (simp add: toISOString_def)
    show ?thesis using parse_iso_of_toISO[OF t s] s
      by (simp add: toIsoString_def assertValid_def isValid_def parseIso_def dateOfString_def)
  qed
  then show ?thesis by (simp add: toIsoString_def assertValid_def isValid_def)
qed

theorem iso_roundtrip_witness:
  "\<exists>s. toIsoString (Some (-62198755200001)) = Inr s \<and> parseIso (\<lambda>_. None) s = Some (-62198755200001)"
  using iso_roundtrip[of "-62198755200001" "\<lambda>_. None"] by (simp add: MAX_TIME_def)

text \<open>the UTC day bounds of a date are the first and the last millisecond of its day, except that
  the end of the very last day is no date, and that a year from 0 to 99 comes out as 1900 to 1999.\<close>

theorem utc_day_bounds:
  assumes "\<bar>t\<bar> \<le> MAX_TIME"
  shows "(getUTCFullYear t < 0 \<or> 99 < getUTCFullYear t \<longrightarrow>
      startOfUtcDay (Some t) = Inr (Some (t - t mod MS_PER_DAY)) \<and>
      endOfUtcDay (Some t) = Inr (let e = t - t mod MS_PER_DAY + (MS_PER_DAY - 1) in if e \<le> MAX_TIME then Some e else None))
    \<and> (0 \<le> getUTCFullYear t \<and> getUTCFullYear t \<le> 99 \<longrightarrow>
      (\<exists>t'. startOfUtcDay (Some t) = Inr (Some t') \<and> getUTCFullYear t' = 1900 + getUTCFullYear t))"
proof (intro conjI impI)
  assume "getUTCFullYear t < 0 \<or> 99 < getUTCFullYear t"
  then have y: "\<not> (0 \<le> getUTCFullYear t \<and> getUTCFullYear t \<le> 99)" by linarith
  have utc: "dateUTC (getUTCFullYear t) (getUTCMonth t) (getUTCDate t) tod = timeClip (t - t mod MS_PER_DAY + tod)" for tod
    unfolding dateUTC_def Let_def if_not_P[OF y] time_of_fields ..
  show "startOfUtcDay (Some t) = Inr (Some (t - t mod MS_PER_DAY))"
    using day_start_in_range[OF assms]
    by (simp add: startOfUtcDay_def assertValid_def isValid_def utc timeClip_def)
  have "t - t mod MS_PER_DAY + (MS_PER_DAY - 1) \<ge> - MAX_TIME"
    using day_start_in_range[OF assms] by (simp add: MS_PER_DAY_def)
  then have "timeClip (t - t mod MS_PER_DAY + 86399999) = (if t - t mod MS_PER_DAY + (MS_PER_DAY - 1) \<le> MAX_TIME
      then Some (t - t mod MS_PER_DAY + (MS_PER_DAY - 1)) else None)"
    by (simp add: timeClip_def MS_PER_DAY_def abs_le_iff)
  then show "endOfUtcDay (Some t) = Inr (let e = t - t mod MS_PER_DAY + (MS_PER_DAY - 1) in if e \<le> MAX_TIME then Some e else None)"
    by (simp add: endOfUtcDay_def assertValid_def isValid_def utc)
next
  assume y: "0 \<le> getUTCFullYear t \<and> getUTCFullYear t \<le> 99"
  define D where "D = dayNumber (1900 + getUTCFullYear t) (getUTCMonth t) (getUTCDate t)"
  have D: "yearFromDay D = 1900 + getUTCFullYear t"
    unfolding D_def by (rule dayNumber_year[OF fields_of_time(2-4)])
  have "\<bar>D\<bar> \<le> 100000000"
    using yearFromDay_bounds[of D] dayFromYear_bounds[of "yearFromDay D"] dayFromYear_bounds[of "yearFromDay D + 1"] y
    unfolding D by auto
  then have "\<bar>D * MS_PER_DAY\<bar> \<le> MAX_TIME" by (simp add: MS_PER_DAY_def MAX_TIME_def)
  then have "startOfUtcDay (Some t) = Inr (Some (D * MS_PER_DAY))"
    using y by (simp add: startOfUtcDay_def assertValid_def isValid_def dateUTC_def Let_def timeClip_def D_def)
  moreover have "getUTCFullYear (D * MS_PER_DAY) = 1900 + getUTCFullYear t"
    using D by (simp add: getUTCFullYear_def MS_PER_DAY_def)
  ultimately show "\<exists>t'. startOfUtcDay (Some t) = Inr (Some t') \<and> getUTCFullYear t' = 1900 + getUTCFullYear t" by blast
qed

theorem utc_day_bounds_witness:
  "startOfUtcDay (Some 1000) = Inr (Some 0) \<and> endOfUtcDay (Some 1000) = Inr (Some 86399999) \<and>
   (\<exists>t'. startOfUtcDay (Some (-60000000000000)) = Inr (Some t') \<and> getUTCFullYear t' = 1968)"
proof -
  have y: "getUTCFullYear 1000 = 1970" "getUTCFullYear (-60000000000000) = 68" by code_simp+
  show ?thesis
    using utc_day_bounds[of 1000] utc_day_bounds[of "-60000000000000"] unfolding y
    by (simp add: MAX_TIME_def MS_PER_DAY_def)
qed

lemma to_number_small: "\<bar>x\<bar> \<le> 2 ^ 900 \<Longrightarrow> to_number x = Fin x"
proof -
  assume a: "\<bar>x\<bar> \<le> 2 ^ 900"
  have "(2 :: rat) ^ 900 < MAX_DOUBLE" by (simp add: MAX_DOUBLE_def)
  then show ?thesis using a by (auto simp: to_number_def)
qed

text \<open>Adding whole days moves a date by exactly that many times 86,400,000 ms, or gives an
  Invalid Date when the result leaves the range; the difference and the comparison then tell the number of
  days, and adding the opposite number comes back.\<close>

theorem addUtcDays_shifts:
  assumes "\<bar>t\<bar> \<le> MAX_TIME" "\<bar>n\<bar> \<le> 2 ^ 53" "\<bar>t + n * MS_PER_DAY\<bar> \<le> MAX_TIME"
  shows "addUtcDays (Some t) (num n) = Inr (Some (t + n * MS_PER_DAY)) \<and>
    diffUtcMs (Some (t + n * MS_PER_DAY)) (Some t) = Inr (n * MS_PER_DAY) \<and>
    compareDates (Some (t + n * MS_PER_DAY)) (Some t) = Inr (sgn n) \<and>
    addUtcDays (Some (t + n * MS_PER_DAY)) (num (- n)) = Inr (Some t)"
proof -
  have add: "addUtcDays (Some a) (num k) = Inr (Some (a + k * MS_PER_DAY))"
    if "\<bar>a\<bar> \<le> MAX_TIME" "\<bar>k\<bar> \<le> 2 ^ 53" "\<bar>a + k * MS_PER_DAY\<bar> \<le> MAX_TIME" for a k
  proof -
    have big: "to_number (of_int i) = num i" if "\<bar>i\<bar> \<le> 2 ^ 53 * 86400000 + MAX_TIME" for i
    proof -
      have "(of_int \<bar>i\<bar> :: rat) \<le> of_int (2 ^ 53 * 86400000 + MAX_TIME)" using that of_int_le_iff by blast
      also have "\<dots> \<le> 2 ^ 900" by (simp add: MAX_TIME_def)
      finally show ?thesis by (simp add: num_def to_number_small)
    qed
    have k1: "num_scale (num k) SEC_PER_DAY = num (k * 86400)"
      using big[of "k * 86400"] that(2) by (simp add: num_scale_def num_def SEC_PER_DAY_def abs_mult MAX_TIME_def)
    have k2: "num_scale (num (k * 86400)) MS_PER_SEC = num (k * MS_PER_DAY)"
      using big[of "k * MS_PER_DAY"] that(2)
      by (simp add: num_scale_def num_def MS_PER_SEC_def MS_PER_DAY_def abs_mult MAX_TIME_def mult.commute)
    have k3: "num_plus (num a) (num (k * MS_PER_DAY)) = num (a + k * MS_PER_DAY)"
      using big[of "a + k * MS_PER_DAY"] that(3) by (simp add: num_plus_def num_def MAX_TIME_def)
    have "dateOfNumber (num i) = Some i" if "\<bar>i\<bar> \<le> MAX_TIME" for i
    proof -
      have "(of_int \<bar>i\<bar> :: rat) \<le> of_int MAX_TIME" using that of_int_le_iff by blast
      then show ?thesis by (simp add: dateOfNumber_def num_def)
    qed
    then show ?thesis using k1 k2 k3 that(3)
      by (simp add: addUtcDays_def dayToSec_def secToMs_def addUtcMs_def assertFinite_def assertValid_def
          isValid_def getTime_def)
  qed
  have "addUtcDays (Some (t + n * MS_PER_DAY)) (num (- n)) = Inr (Some (t + n * MS_PER_DAY + (- n) * MS_PER_DAY))"
    using assms by (intro add) simp_all
  then show ?thesis using add[OF assms]
    by (auto simp: diffUtcMs_def compareDates_def assertValid_def isValid_def MS_PER_DAY_def sgn_if)
qed

theorem addUtcDays_shifts_witness:
  "addUtcDays (Some 5) (num (-3)) = Inr (Some (5 + (-3) * MS_PER_DAY))"
  using addUtcDays_shifts[of 5 "-3"] by (simp add: MAX_TIME_def MS_PER_DAY_def)

end
