(* ===== verification/Events.thy ===== *)
theory Events
  imports JsDate Kernel
begin

text \<open>
  The domain events as the JavaScript objects the aggregates record: one definition per event type of
  packages/domain/src/*/events, its properties in the order the aggregates write them, and the object
  of a modelled \<open>domainEvent\<close>.
\<close>

type_synonym integrationEvent = js_object

definition domainEventBase :: "string \<Rightarrow> millis \<Rightarrow> js_object" where
  "domainEventBase type occurredAt = [(''type'', JStr type), (''occurredAt'', JDate (Some occurredAt))]"

definition invitationConsumedEvent :: "millis \<Rightarrow> string \<Rightarrow> string \<Rightarrow> string \<Rightarrow> js_object" where
  "invitationConsumedEvent occurredAt invitationId tenantId email = domainEventBase ''InvitationConsumed'' occurredAt @
     [(''invitationId'', JStr invitationId), (''tenantId'', JStr tenantId), (''email'', JStr email)]"

definition invitationCreatedEvent :: "millis \<Rightarrow> string \<Rightarrow> string \<Rightarrow> string \<Rightarrow> string \<Rightarrow> js_object" where
  "invitationCreatedEvent occurredAt invitationId tenantId email invitedByUserId = domainEventBase ''InvitationCreated'' occurredAt @
     [(''invitationId'', JStr invitationId), (''tenantId'', JStr tenantId), (''email'', JStr email), (''invitedByUserId'', JStr invitedByUserId)]"

definition membershipActivatedEvent :: "millis \<Rightarrow> string \<Rightarrow> string \<Rightarrow> string \<Rightarrow> js_object" where
  "membershipActivatedEvent occurredAt membershipId tenantId userId = domainEventBase ''MembershipActivated'' occurredAt @
     [(''membershipId'', JStr membershipId), (''tenantId'', JStr tenantId), (''userId'', JStr userId)]"

definition membershipCreatedEvent :: "millis \<Rightarrow> string \<Rightarrow> string \<Rightarrow> string \<Rightarrow> string list \<Rightarrow> membershipStatus \<Rightarrow> js_object" where
  "membershipCreatedEvent occurredAt membershipId tenantId userId roleIds st = domainEventBase ''MembershipCreated'' occurredAt @
     [(''membershipId'', JStr membershipId), (''tenantId'', JStr tenantId), (''userId'', JStr userId), (''roleIds'', JArr (map JStr roleIds)), (''status'', JStr (membershipStatus_name st))]"

definition membershipRolesReplacedEvent :: "millis \<Rightarrow> string \<Rightarrow> string \<Rightarrow> string \<Rightarrow> string list \<Rightarrow> js_object" where
  "membershipRolesReplacedEvent occurredAt membershipId tenantId userId roleIds = domainEventBase ''MembershipRolesReplaced'' occurredAt @
     [(''membershipId'', JStr membershipId), (''tenantId'', JStr tenantId), (''userId'', JStr userId), (''roleIds'', JArr (map JStr roleIds))]"

definition membershipSuspendedEvent :: "millis \<Rightarrow> string \<Rightarrow> string \<Rightarrow> string \<Rightarrow> js_object" where
  "membershipSuspendedEvent occurredAt membershipId tenantId userId = domainEventBase ''MembershipSuspended'' occurredAt @
     [(''membershipId'', JStr membershipId), (''tenantId'', JStr tenantId), (''userId'', JStr userId)]"

definition tenantActivatedEvent :: "millis \<Rightarrow> string \<Rightarrow> js_object" where
  "tenantActivatedEvent occurredAt tenantId = domainEventBase ''TenantActivated'' occurredAt @
     [(''tenantId'', JStr tenantId)]"

definition tenantCreatedEvent :: "millis \<Rightarrow> string \<Rightarrow> string \<Rightarrow> js_object" where
  "tenantCreatedEvent occurredAt tenantId nam = domainEventBase ''TenantCreated'' occurredAt @
     [(''tenantId'', JStr tenantId), (''name'', JStr nam)]"

definition tenantRenamedEvent :: "millis \<Rightarrow> string \<Rightarrow> string \<Rightarrow> js_object" where
  "tenantRenamedEvent occurredAt tenantId nam = domainEventBase ''TenantRenamed'' occurredAt @
     [(''tenantId'', JStr tenantId), (''name'', JStr nam)]"

definition tenantSuspendedEvent :: "millis \<Rightarrow> string \<Rightarrow> js_object" where
  "tenantSuspendedEvent occurredAt tenantId = domainEventBase ''TenantSuspended'' occurredAt @
     [(''tenantId'', JStr tenantId)]"

definition apiKeyCreatedEvent :: "millis \<Rightarrow> string \<Rightarrow> string \<Rightarrow> string \<Rightarrow> string \<Rightarrow> js_object" where
  "apiKeyCreatedEvent occurredAt apiKeyId tenantId createdByUserId pre = domainEventBase ''ApiKeyCreated'' occurredAt @
     [(''apiKeyId'', JStr apiKeyId), (''tenantId'', JStr tenantId), (''createdByUserId'', JStr createdByUserId), (''prefix'', JStr pre)]"

definition apiKeyPermissionsReplacedEvent :: "millis \<Rightarrow> string \<Rightarrow> string \<Rightarrow> js_object" where
  "apiKeyPermissionsReplacedEvent occurredAt apiKeyId tenantId = domainEventBase ''ApiKeyPermissionsReplaced'' occurredAt @
     [(''apiKeyId'', JStr apiKeyId), (''tenantId'', JStr tenantId)]"

definition apiKeyRevokedEvent :: "millis \<Rightarrow> string \<Rightarrow> string \<Rightarrow> js_object" where
  "apiKeyRevokedEvent occurredAt apiKeyId tenantId = domainEventBase ''ApiKeyRevoked'' occurredAt @
     [(''apiKeyId'', JStr apiKeyId), (''tenantId'', JStr tenantId)]"

definition userActivatedEvent :: "millis \<Rightarrow> string \<Rightarrow> js_object" where
  "userActivatedEvent occurredAt userId = domainEventBase ''UserActivated'' occurredAt @
     [(''userId'', JStr userId)]"

definition userCreatedEvent :: "millis \<Rightarrow> string \<Rightarrow> string \<Rightarrow> js_object" where
  "userCreatedEvent occurredAt userId email = domainEventBase ''UserCreated'' occurredAt @
     [(''userId'', JStr userId), (''email'', JStr email)]"

definition userSuspendedEvent :: "millis \<Rightarrow> string \<Rightarrow> js_object" where
  "userSuspendedEvent occurredAt userId = domainEventBase ''UserSuspended'' occurredAt @
     [(''userId'', JStr userId)]"

definition roleCreatedEvent :: "millis \<Rightarrow> string \<Rightarrow> string \<Rightarrow> string \<Rightarrow> bool \<Rightarrow> js_object" where
  "roleCreatedEvent occurredAt roleId tenantId nam isSystem = domainEventBase ''RoleCreated'' occurredAt @
     [(''roleId'', JStr roleId), (''tenantId'', JStr tenantId), (''name'', JStr nam), (''isSystem'', JBool isSystem)]"

definition roleRenamedEvent :: "millis \<Rightarrow> string \<Rightarrow> string \<Rightarrow> string \<Rightarrow> js_object" where
  "roleRenamedEvent occurredAt roleId tenantId nam = domainEventBase ''RoleRenamed'' occurredAt @
     [(''roleId'', JStr roleId), (''tenantId'', JStr tenantId), (''name'', JStr nam)]"

definition rolePermissionsReplacedEvent :: "millis \<Rightarrow> string \<Rightarrow> string \<Rightarrow> js_object" where
  "rolePermissionsReplacedEvent occurredAt roleId tenantId = domainEventBase ''RolePermissionsReplaced'' occurredAt @
     [(''roleId'', JStr roleId), (''tenantId'', JStr tenantId)]"

text \<open>The object of an event, by its constructor.\<close>

fun event_object :: "domainEvent \<Rightarrow> js_object" where
  "event_object (InvitationConsumed ms a b c) = invitationConsumedEvent ms a b c"
| "event_object (InvitationCreated ms a b c d) = invitationCreatedEvent ms a b c d"
| "event_object (MembershipActivated ms a b c) = membershipActivatedEvent ms a b c"
| "event_object (MembershipCreated ms a b c d e) = membershipCreatedEvent ms a b c d e"
| "event_object (MembershipRolesReplaced ms a b c d) = membershipRolesReplacedEvent ms a b c d"
| "event_object (MembershipSuspended ms a b c) = membershipSuspendedEvent ms a b c"
| "event_object (TenantActivated ms a) = tenantActivatedEvent ms a"
| "event_object (TenantCreated ms a b) = tenantCreatedEvent ms a b"
| "event_object (TenantRenamed ms a b) = tenantRenamedEvent ms a b"
| "event_object (TenantSuspended ms a) = tenantSuspendedEvent ms a"
| "event_object (ApiKeyCreated ms a b c d) = apiKeyCreatedEvent ms a b c d"
| "event_object (ApiKeyPermissionsReplaced ms a b) = apiKeyPermissionsReplacedEvent ms a b"
| "event_object (ApiKeyRevoked ms a b) = apiKeyRevokedEvent ms a b"
| "event_object (UserActivated ms a) = userActivatedEvent ms a"
| "event_object (UserCreated ms a b) = userCreatedEvent ms a b"
| "event_object (UserSuspended ms a) = userSuspendedEvent ms a"
| "event_object (RoleCreated ms a b c d) = roleCreatedEvent ms a b c d"
| "event_object (RoleRenamed ms a b c) = roleRenamedEvent ms a b c"
| "event_object (RolePermissionsReplaced ms a b) = rolePermissionsReplacedEvent ms a b"

lemmas event_defs = domainEventBase_def invitationConsumedEvent_def invitationCreatedEvent_def membershipActivatedEvent_def membershipCreatedEvent_def membershipRolesReplacedEvent_def membershipSuspendedEvent_def tenantActivatedEvent_def tenantCreatedEvent_def tenantRenamedEvent_def tenantSuspendedEvent_def apiKeyCreatedEvent_def apiKeyPermissionsReplacedEvent_def apiKeyRevokedEvent_def userActivatedEvent_def userCreatedEvent_def userSuspendedEvent_def roleCreatedEvent_def roleRenamedEvent_def rolePermissionsReplacedEvent_def

fun event_time :: "domainEvent \<Rightarrow> millis" where
  "event_time (InvitationConsumed ms _ _ _) = ms"
| "event_time (InvitationCreated ms _ _ _ _) = ms"
| "event_time (MembershipActivated ms _ _ _) = ms"
| "event_time (MembershipCreated ms _ _ _ _ _) = ms"
| "event_time (MembershipRolesReplaced ms _ _ _ _) = ms"
| "event_time (MembershipSuspended ms _ _ _) = ms"
| "event_time (TenantActivated ms _) = ms"
| "event_time (TenantCreated ms _ _) = ms"
| "event_time (TenantRenamed ms _ _) = ms"
| "event_time (TenantSuspended ms _) = ms"
| "event_time (ApiKeyCreated ms _ _ _ _) = ms"
| "event_time (ApiKeyPermissionsReplaced ms _ _) = ms"
| "event_time (ApiKeyRevoked ms _ _) = ms"
| "event_time (UserActivated ms _) = ms"
| "event_time (UserCreated ms _ _) = ms"
| "event_time (UserSuspended ms _) = ms"
| "event_time (RoleCreated ms _ _ _ _) = ms"
| "event_time (RoleRenamed ms _ _ _) = ms"
| "event_time (RolePermissionsReplaced ms _ _) = ms"

lemma event_object_keys: "distinct (map fst (event_object ev))"
  by (cases ev) (simp_all add: event_defs)

lemma event_object_base:
  "obj_read (event_object ev) ''occurredAt'' = JDate (Some (event_time ev))"
  "\<exists>s. obj_read (event_object ev) ''type'' = JStr s"
  by (cases ev; simp add: event_defs obj_read_def obj_get_def)+

end
