(* ===== verification/Ambient.thy ===== *)
theory Ambient
  imports Kernel
begin

text \<open>
  The two ambient stores of the Postgres adapter (packages/infrastructure/postgres/src/kernel): the
  tenant context and the transaction of the unit of work, and the tenant-aware repository base that
  reads them.

  An \<open>AsyncLocalStorage\<close> is an environment: a computation is a function of the current store and
  \<open>als.run(s, work)\<close> applies \<open>work\<close> to \<open>Some s\<close>.  The rows of the database are
  the state that is passed along, and a transaction that throws gives back the rows it started from.
\<close>

section \<open>Tenant context\<close>

record tenantScope =
  ts_tenantId :: tenantId
  ts_actor :: tenantActor

record tenantAlsStore =
  tas_scope :: "tenantScope option"
  tas_skip :: bool

type_synonym 'a in_tenant = "tenantAlsStore option \<Rightarrow> 'a"

definition tenantContext_run :: "tenantScope \<Rightarrow> 'a in_tenant \<Rightarrow> 'a in_tenant" where
  "tenantContext_run scope work store = work (Some \<lparr>tas_scope = Some scope, tas_skip = False\<rparr>)"

definition withoutTenantScope :: "'a in_tenant \<Rightarrow> 'a in_tenant" where
  "withoutTenantScope work store =
     work (Some \<lparr>tas_scope = (case store of None \<Rightarrow> None | Some s \<Rightarrow> tas_scope s), tas_skip = True\<rparr>)"

definition requireScope :: "(error + tenantScope) in_tenant" where
  "requireScope store = (case store of
     None \<Rightarrow> Inl TenantContextNotEstablishedError
   | Some s \<Rightarrow> (case tas_scope s of None \<Rightarrow> Inl TenantContextNotEstablishedError | Some sc \<Rightarrow> Inr sc))"

definition getTenantId :: "(error + tenantId) in_tenant" where
  "getTenantId store = bindR (requireScope store) (\<lambda>sc. Inr (ts_tenantId sc))"

definition getActor :: "(error + tenantActor) in_tenant" where
  "getActor store = bindR (requireScope store) (\<lambda>sc. Inr (ts_actor sc))"

section \<open>Tenant-aware repositories\<close>

definition isTenantScopeSkipped :: "bool in_tenant" where
  "isTenantScopeSkipped store = (case store of None \<Rightarrow> False | Some s \<Rightarrow> tas_skip s)"

text \<open>\<open>scoped\<close> adds the tenant condition to a query; the query is its list of rows here.\<close>

definition scoped :: "('r \<Rightarrow> tenantId) \<Rightarrow> 'r list \<Rightarrow> (error + 'r list) in_tenant" where
  "scoped tenantOf rows store =
     (if isTenantScopeSkipped store then Inr rows
      else bindR (getTenantId store) (\<lambda>t. Inr (filter (\<lambda>r. tenantOf r = t) rows)))"

text \<open>The tenant id a row is written with, from the one it carries.\<close>

definition stampTenantId :: "tenantId option \<Rightarrow> (error + tenantId) in_tenant" where
  "stampTenantId rowTenantId store =
     (if isTenantScopeSkipped store
      then (case rowTenantId of None \<Rightarrow> Inl TenantContextMismatchError | Some t \<Rightarrow> Inr t)
      else bindR (getTenantId store) (\<lambda>ambient.
        if rowTenantId \<noteq> None \<and> rowTenantId \<noteq> Some ambient then Inl TenantContextMismatchError
        else Inr ambient))"

definition assertTenant :: "tenantId \<Rightarrow> (error + unit) in_tenant" where
  "assertTenant tenantId store =
     (if isTenantScopeSkipped store then Inr ()
      else bindR (getTenantId store) (\<lambda>ambient. throwIf (ambient \<noteq> tenantId) TenantContextMismatchError))"

definition hasEstablishedTenantScope :: "bool in_tenant" where
  "hasEstablishedTenantScope store = (case store of None \<Rightarrow> False
     | Some s \<Rightarrow> tas_scope s \<noteq> None \<and> \<not> tas_skip s)"

text \<open>The store inside \<open>run\<close>, and the one inside \<open>withoutTenantScope\<close>.\<close>

abbreviation in_scope :: "tenantId \<Rightarrow> tenantActor \<Rightarrow> tenantAlsStore option" where
  "in_scope t a \<equiv> Some \<lparr>tas_scope = Some \<lparr>ts_tenantId = t, ts_actor = a\<rparr>, tas_skip = False\<rparr>"

lemma in_scope_simps [simp]:
  "\<not> isTenantScopeSkipped (in_scope t a)"
  "getTenantId (in_scope t a) = Inr t"
  "getActor (in_scope t a) = Inr a"
  "hasEstablishedTenantScope (in_scope t a)"
  "isTenantScopeSkipped (Some \<lparr>tas_scope = sc, tas_skip = True\<rparr>)"
  "\<not> hasEstablishedTenantScope (Some \<lparr>tas_scope = sc, tas_skip = True\<rparr>)"
  by (simp_all add: isTenantScopeSkipped_def getTenantId_def getActor_def requireScope_def
      hasEstablishedTenantScope_def)

lemma scoped_in_scope [simp]: "scoped f rows (in_scope t a) = Inr (filter (\<lambda>r. f r = t) rows)"
  by (simp add: scoped_def)

lemma scoped_skipped [simp]: "isTenantScopeSkipped store \<Longrightarrow> scoped f rows store = Inr rows"
  by (simp add: scoped_def)

lemma assertTenant_in_scope [simp]:
  "assertTenant t' (in_scope t a) = (if t = t' then Inr () else Inl TenantContextMismatchError)"
  by (simp add: assertTenant_def)

lemma stamp_in_scope [simp]:
  "stampTenantId (Some t') (in_scope t a) = (if t = t' then Inr t else Inl TenantContextMismatchError)"
  by (auto simp: stampTenantId_def)

section \<open>The unit of work\<close>

text \<open>The ambient transaction: its id.  A computation over the database state \<open>'d\<close>.\<close>

type_synonym ('d, 'a) tx_work = "string option \<Rightarrow> 'd \<Rightarrow> (error + 'a) \<times> 'd"

definition dataSource_transaction :: "('d \<Rightarrow> (error + 'a) \<times> 'd) \<Rightarrow> 'd \<Rightarrow> (error + 'a) \<times> 'd" where
  "dataSource_transaction work d = (case work d of (Inl e, _) \<Rightarrow> (Inl e, d) | (Inr x, d') \<Rightarrow> (Inr x, d'))"

text \<open>\<open>freshId\<close> is the id \<open>randomUUID\<close> returns; the work gets the id of the transaction it is in.\<close>

definition typeormUow_run :: "string \<Rightarrow> (string \<Rightarrow> ('d, 'a) tx_work) \<Rightarrow> ('d, 'a) tx_work" where
  "typeormUow_run freshId work store = (case store of
     Some txId \<Rightarrow> work txId store
   | None \<Rightarrow> dataSource_transaction (work freshId (Some freshId)))"

definition assertAmbientTransaction :: "string option \<Rightarrow> error + unit" where
  "assertAmbientTransaction store = throwIf (store = None) AmbientTransactionRequiredError"

definition requireManager :: "string option \<Rightarrow> error + string" where
  "requireManager store = bindR (assertAmbientTransaction store) (\<lambda>_.
     case store of None \<Rightarrow> Inl AmbientTransactionRequiredError | Some m \<Rightarrow> Inr m)"

definition tx_bind :: "('d, 'a) tx_work \<Rightarrow> ('a \<Rightarrow> ('d, 'b) tx_work) \<Rightarrow> ('d, 'b) tx_work" where
  "tx_bind m f store d = (case m store d of (Inl e, d') \<Rightarrow> (Inl e, d') | (Inr x, d') \<Rightarrow> f x store d')"

text \<open>\<open>try \<dots> catch\<close> around a piece of work, with what the handler does.\<close>

definition tx_catch :: "('d, 'a) tx_work \<Rightarrow> (error \<Rightarrow> ('d, 'a) tx_work) \<Rightarrow> ('d, 'a) tx_work" where
  "tx_catch m h store d = (case m store d of (Inl e, d') \<Rightarrow> h e store d' | (Inr x, d') \<Rightarrow> (Inr x, d'))"

lemma run_joins: "typeormUow_run i work (Some j) d = work j (Some j) d"
  by (simp add: typeormUow_run_def)

lemma run_outermost_error:
  "fst (typeormUow_run i work None d) = Inl e \<Longrightarrow> snd (typeormUow_run i work None d) = d"
  by (auto simp: typeormUow_run_def dataSource_transaction_def split: prod.splits sum.splits)

end
