(* ===== verification/Outbox.thy ===== *)
theory Outbox
  imports Events Ambient
begin

text \<open>
  The transactional outbox of packages/infrastructure/postgres/src/kernel/outbox: the serializer, the
  mapper of raw rows, the publisher that writes rows in the ambient transaction, and the relay's
  statements over the table.

  The table is a list of rows.  A statement is applied whole; \<open>now\<close> is the clock of the
  statement.  What the Postgres driver hands over for a selected row is a parameter \<open>driver\<close>,
  which rows other transactions hold locked is the predicate \<open>locked\<close>, and \<open>otherFormat\<close>
  is the date parameter of the theory on dates.
\<close>

section \<open>Rows\<close>

datatype outboxStatus = OPending | OProcessing | OProcessed | OFailed

definition outboxStatus_name :: "outboxStatus \<Rightarrow> string" where
  "outboxStatus_name s = (case s of OPending \<Rightarrow> ''pending'' | OProcessing \<Rightarrow> ''processing''
     | OProcessed \<Rightarrow> ''processed'' | OFailed \<Rightarrow> ''failed'')"

definition outboxStatus_parse :: "string \<Rightarrow> outboxStatus option" where
  "outboxStatus_parse s = map_of [(''pending'', OPending), (''processing'', OProcessing),
     (''processed'', OProcessed), (''failed'', OFailed)] s"

record outboxRow =
  or_id :: string
  or_eventType :: string
  or_payload :: js_object
  or_tenantId :: "string option"
  or_status :: outboxStatus
  or_createdAt :: millis
  or_updatedAt :: millis
  or_processedAt :: "millis option"
  or_attemptCount :: int

lemma outboxStatus_roundtrip [simp]: "outboxStatus_parse (outboxStatus_name s) = Some s"
  by (cases s) (simp_all add: outboxStatus_parse_def outboxStatus_name_def)

section \<open>OutboxSerializer\<close>

text \<open>A RangeError or TypeError of the engine, as an error value.\<close>

definition engineError :: "jsError \<Rightarrow> error" where
  "engineError e = PlainError (case e of RangeError \<Rightarrow> ''RangeError'' | TypeError \<Rightarrow> ''TypeError'' | Error m \<Rightarrow> m)"

definition serialize :: "integrationEvent \<Rightarrow> error + js_object" where
  "serialize event = (case obj_read event ''occurredAt'' of
     JDate d \<Rightarrow> (case toISOString d of Inl e \<Rightarrow> Inl (engineError e)
       | Inr s \<Rightarrow> Inr (obj_set event ''occurredAt'' (JStr s)))
   | _ \<Rightarrow> Inl (engineError TypeError))"

definition deserialize :: "(string \<Rightarrow> date) \<Rightarrow> js_object \<Rightarrow> error + integrationEvent" where
  "deserialize otherFormat payload = (case obj_read payload ''type'' of
     JStr type \<Rightarrow> (case obj_read payload ''occurredAt'' of
       JStr occurredAtRaw \<Rightarrow>
         Inr (obj_set (obj_set payload ''type'' (JStr type)) ''occurredAt'' (JDate (dateOfString otherFormat occurredAtRaw)))
     | _ \<Rightarrow> Inl (PlainError ''Outbox payload is missing occurredAt''))
   | _ \<Rightarrow> Inl (PlainError ''Outbox payload is missing event type''))"

definition extractTenantId :: "integrationEvent \<Rightarrow> string option" where
  "extractTenantId event =
     (if hasOwn event ''tenantId'' then (case obj_read event ''tenantId'' of JStr t \<Rightarrow> Some t | _ \<Rightarrow> None) else None)"

section \<open>OutboxPendingRowMapper\<close>

record outboxPendingRow =
  pr_id :: string
  pr_event_type :: string
  pr_payload :: js_object
  pr_tenant_id :: "string option"
  pr_status :: string
  pr_created_at :: date
  pr_processed_at :: "date option"
  pr_attempt_count :: number

record outboxEntity =
  oe_id :: string
  oe_eventType :: string
  oe_payload :: js_object
  oe_tenantId :: "string option"
  oe_status :: outboxStatus
  oe_createdAt :: date
  oe_processedAt :: "date option"
  oe_attemptCount :: number

definition readString :: "js_object \<Rightarrow> string \<Rightarrow> error + string" where
  "readString record key = (case obj_read record key of JStr s \<Rightarrow> Inr s
     | _ \<Rightarrow> Inl (PlainError (''Outbox row field '' @ key @ '' must be a string'')))"

definition readNullableString :: "jsval \<Rightarrow> error + string option" where
  "readNullableString v = (case v of JNull \<Rightarrow> Inr None | JStr s \<Rightarrow> Inr (Some s)
     | _ \<Rightarrow> Inl (PlainError ''Outbox row field tenant_id must be a string or null''))"

definition readPayload :: "jsval \<Rightarrow> error + js_object" where
  "readPayload v = (case v of JObj p \<Rightarrow> Inr p | _ \<Rightarrow> Inl (PlainError ''Outbox row field payload must be an object''))"

definition readNumber :: "jsval \<Rightarrow> string \<Rightarrow> error + number" where
  "readNumber v key = (case v of JNum x \<Rightarrow> Inr x
     | _ \<Rightarrow> Inl (PlainError (''Outbox row field '' @ key @ '' must be a number'')))"

definition readDate :: "(string \<Rightarrow> date) \<Rightarrow> jsval \<Rightarrow> string \<Rightarrow> error + date" where
  "readDate otherFormat v key = (case v of JDate d \<Rightarrow> Inr d | JStr s \<Rightarrow> Inr (dateOfString otherFormat s)
     | _ \<Rightarrow> Inl (PlainError (''Outbox row field '' @ key @ '' must be a date'')))"

definition readNullableDate :: "(string \<Rightarrow> date) \<Rightarrow> jsval \<Rightarrow> error + date option" where
  "readNullableDate otherFormat v = (if v = JNull then Inr None
     else bindR (readDate otherFormat v ''processed_at'') (\<lambda>d. Inr (Some d)))"

definition parseRow :: "(string \<Rightarrow> date) \<Rightarrow> jsval \<Rightarrow> error + outboxPendingRow" where
  "parseRow otherFormat raw = (case raw of
     JObj r \<Rightarrow>
       bindR (readString r ''id'') (\<lambda>i.
       bindR (readString r ''event_type'') (\<lambda>et.
       bindR (readPayload (obj_read r ''payload'')) (\<lambda>p.
       bindR (readNullableString (obj_read r ''tenant_id'')) (\<lambda>t.
       bindR (readString r ''status'') (\<lambda>st.
       bindR (readDate otherFormat (obj_read r ''created_at'') ''created_at'') (\<lambda>c.
       bindR (readNullableDate otherFormat (obj_read r ''processed_at'')) (\<lambda>pa.
       bindR (readNumber (obj_read r ''attempt_count'') ''attempt_count'') (\<lambda>n.
       Inr \<lparr>pr_id = i, pr_event_type = et, pr_payload = p, pr_tenant_id = t, pr_status = st,
            pr_created_at = c, pr_processed_at = pa, pr_attempt_count = n\<rparr>))))))))
   | _ \<Rightarrow> Inl (PlainError ''Invalid outbox row''))"

text \<open>\<open>raw.map(f)\<close> with an \<open>f\<close> that may throw: the first error ends it.\<close>

fun mapR :: "('a \<Rightarrow> 'e + 'b) \<Rightarrow> 'a list \<Rightarrow> 'e + 'b list" where
  "mapR f [] = Inr []"
| "mapR f (x # xs) = bindR (f x) (\<lambda>y. bindR (mapR f xs) (\<lambda>ys. Inr (y # ys)))"

definition parseRows :: "(string \<Rightarrow> date) \<Rightarrow> jsval \<Rightarrow> error + outboxPendingRow list" where
  "parseRows otherFormat raw = (case raw of JArr rows \<Rightarrow> mapR (parseRow otherFormat) rows | _ \<Rightarrow> Inr [])"

definition toEntity :: "outboxPendingRow \<Rightarrow> outboxEntity" where
  "toEntity row = \<lparr>oe_id = pr_id row, oe_eventType = pr_event_type row, oe_payload = pr_payload row,
     oe_tenantId = pr_tenant_id row, oe_status = OProcessing, oe_createdAt = pr_created_at row,
     oe_processedAt = pr_processed_at row, oe_attemptCount = pr_attempt_count row\<rparr>"

section \<open>PostgresEventPublisher\<close>

definition outboxEntry :: "millis \<Rightarrow> string \<Rightarrow> integrationEvent \<Rightarrow> error + outboxRow" where
  "outboxEntry now i event =
     bindR (readString event ''type'') (\<lambda>type.
     bindR (serialize event) (\<lambda>payload.
     Inr \<lparr>or_id = i, or_eventType = type, or_payload = payload, or_tenantId = extractTenantId event,
          or_status = OPending, or_createdAt = now, or_updatedAt = now, or_processedAt = None, or_attemptCount = 0\<rparr>))"

text \<open>\<open>uuids\<close> are the values of the successive \<open>randomUUID()\<close> calls; \<open>save\<close> replaces
  a row whose primary key exists and inserts the others.\<close>

definition eventPublisher_publish ::
    "(nat \<Rightarrow> string) \<Rightarrow> millis \<Rightarrow> integrationEvent list \<Rightarrow> (outboxRow list, unit) tx_work" where
  "eventPublisher_publish uuids now events store rows =
     (if length events = 0 then (Inr (), rows)
      else if store = None then (Inl EventPublisherOutsideTransactionError, rows)
      else case mapR (\<lambda>(i, event). outboxEntry now (uuids i) event) (zip [0 ..< length events] events) of
        Inl e \<Rightarrow> (Inl e, rows)
      | Inr entries \<Rightarrow> (Inr (), foldl (\<lambda>rs e. upsert or_id e rs) rows entries))"

section \<open>OutboxRelay\<close>

definition WORKER_ACTOR_ID :: userId where
  "WORKER_ACTOR_ID = ''00000000-0000-4000-8000-000000000001''"

record claimedOutboxRow =
  cr_id :: string
  cr_eventType :: string
  cr_tenantId :: "string option"

text \<open>\<open>SELECT \<dots> WHERE status = 'pending' ORDER BY created_at ASC LIMIT n FOR UPDATE SKIP LOCKED\<close>;
  rows created at the same instant keep their table order.\<close>

definition select_pending :: "(string \<Rightarrow> bool) \<Rightarrow> nat \<Rightarrow> outboxRow list \<Rightarrow> outboxRow list" where
  "select_pending locked n rows =
     take n (sort_key or_createdAt (filter (\<lambda>r. or_status r = OPending \<and> \<not> locked (or_id r)) rows))"

definition claimPending :: "(string \<Rightarrow> date) \<Rightarrow> (outboxRow \<Rightarrow> jsval) \<Rightarrow> (string \<Rightarrow> bool) \<Rightarrow> millis \<Rightarrow> nat \<Rightarrow>
    outboxRow list \<Rightarrow> (error + outboxEntity list) \<times> outboxRow list" where
  "claimPending otherFormat driver locked now batchSize table =
     (case parseRows otherFormat (JArr (map driver (select_pending locked batchSize table))) of
        Inl e \<Rightarrow> (Inl e, table)
      | Inr rows \<Rightarrow>
          if length rows = 0 then (Inr [], table)
          else let ids = map pr_id rows in
            (Inr (map toEntity rows),
             map (\<lambda>r. if or_id r \<in> set ids then r\<lparr>or_status := OProcessing, or_updatedAt := now\<rparr> else r) table))"

definition claimBatch :: "(string \<Rightarrow> date) \<Rightarrow> (outboxRow \<Rightarrow> jsval) \<Rightarrow> (string \<Rightarrow> bool) \<Rightarrow> millis \<Rightarrow> nat \<Rightarrow>
    outboxRow list \<Rightarrow> (error + claimedOutboxRow list) \<times> outboxRow list" where
  "claimBatch otherFormat driver locked now batchSize = dataSource_transaction (\<lambda>table.
     case claimPending otherFormat driver locked now batchSize table of
       (Inl e, t) \<Rightarrow> (Inl e, t)
     | (Inr claimed, t) \<Rightarrow>
         (Inr (map (\<lambda>entry. \<lparr>cr_id = oe_id entry, cr_eventType = oe_eventType entry, cr_tenantId = oe_tenantId entry\<rparr>)
            claimed), t))"

definition findById :: "string \<Rightarrow> outboxRow list \<Rightarrow> outboxRow option" where
  "findById i rows = lookup_row or_id i rows"

definition outbox_complete :: "millis \<Rightarrow> string \<Rightarrow> outboxRow list \<Rightarrow> outboxRow list" where
  "outbox_complete now i rows = map (\<lambda>r. if or_id r = i \<and> or_status r = OProcessing
     then r\<lparr>or_status := OProcessed, or_processedAt := Some now, or_updatedAt := now\<rparr> else r) rows"

definition outbox_fail :: "millis \<Rightarrow> string \<Rightarrow> outboxRow list \<Rightarrow> outboxRow list" where
  "outbox_fail now i rows = map (\<lambda>r. if or_id r = i \<and> or_status r = OProcessing
     then r\<lparr>or_status := OFailed, or_attemptCount := or_attemptCount r + 1, or_updatedAt := now\<rparr> else r) rows"

text \<open>The rows of the \<open>stale\<close> subquery.\<close>

definition stale_rows :: "(string \<Rightarrow> bool) \<Rightarrow> millis \<Rightarrow> nat \<Rightarrow> outboxRow list \<Rightarrow> outboxRow list" where
  "stale_rows locked olderThan n rows =
     take n (sort_key or_updatedAt
       (filter (\<lambda>r. or_status r = OProcessing \<and> or_updatedAt r < olderThan \<and> \<not> locked (or_id r)) rows))"

text \<open>\<open>SqlCount.parse\<close>; \<open>stringToNumber\<close> is the built-in \<open>Number(s)\<close>.\<close>

definition sqlCount_parse :: "(string \<Rightarrow> number) \<Rightarrow> jsval \<Rightarrow> number" where
  "sqlCount_parse stringToNumber rows = (case rows of
     JArr (JObj row # _) \<Rightarrow> (case obj_read row ''count'' of JNum n \<Rightarrow> n | JStr s \<Rightarrow> stringToNumber s | _ \<Rightarrow> num 0)
   | _ \<Rightarrow> num 0)"

text \<open>\<open>countRow k\<close> is what the driver returns for the final \<open>SELECT COUNT(*)::int AS count\<close> of
  \<open>k\<close> rows.\<close>

definition reclaimStaleProcessing :: "(nat \<Rightarrow> jsval) \<Rightarrow> (string \<Rightarrow> number) \<Rightarrow> (string \<Rightarrow> bool) \<Rightarrow> millis \<Rightarrow> millis \<Rightarrow>
    nat \<Rightarrow> outboxRow list \<Rightarrow> number \<times> outboxRow list" where
  "reclaimStaleProcessing countRow stringToNumber locked now olderThan limit rows = (let
       ids = map or_id (stale_rows locked olderThan limit rows);
       reset = (\<lambda>r. or_id r \<in> set ids) in
     (sqlCount_parse stringToNumber (countRow (length (filter reset rows))),
      map (\<lambda>r. if reset r then r\<lparr>or_status := OPending, or_updatedAt := now\<rparr> else r) rows))"

section \<open>Facts about the table\<close>

abbreviation ids_ok :: "outboxRow list \<Rightarrow> bool" where
  "ids_ok rows \<equiv> distinct (map or_id rows)"

lemma filter_map_update:
  assumes "\<And>r. P (f r) \<longleftrightarrow> P r \<and> \<not> c r" "\<And>r. \<not> c r \<Longrightarrow> f r = r"
  shows "filter P (map f rows) = filter (\<lambda>r. P r \<and> \<not> c r) rows"
  using assms by (induction rows) auto

lemma select_pending_in: "r \<in> set (select_pending locked n rows) \<Longrightarrow>
    r \<in> set rows \<and> or_status r = OPending \<and> \<not> locked (or_id r)"
  unfolding select_pending_def by (drule in_set_takeD) simp

lemma id_selected:
  assumes "ids_ok rows" "r \<in> set rows" "set sel \<subseteq> set rows"
  shows "or_id r \<in> or_id ` set sel \<longleftrightarrow> r \<in> set sel"
proof
  assume "or_id r \<in> or_id ` set sel"
  then obtain q where "q \<in> set sel" "or_id q = or_id r" by (metis imageE)
  then show "r \<in> set sel" using assms by (metis (no_types, lifting) distinct_map inj_onD subsetD)
qed simp

lemma mapR_all: "(\<And>x. x \<in> set xs \<Longrightarrow> f x = Inr (g x)) \<Longrightarrow> mapR f xs = Inr (map g xs)"
  by (induction xs) auto

lemma mapR_Inr: "mapR f xs = Inr ys \<Longrightarrow> list_all2 (\<lambda>x y. f x = Inr y) xs ys"
  by (induction xs arbitrary: ys) auto

end
