(* ===== verification/Delivery.thy ===== *)
theory Delivery
  imports Outbox IdentityUseCases
begin

text \<open>
  The worker: the in-process event bus (packages/platform/src/events), the job scheduler and the worker
  factory (packages/infrastructure/messaging), the outbox relay and processor services and the
  maintenance jobs (packages/composition/src/worker).

  Handlers, the BullMQ queue and failures of single statements are parameters: a handler is a function of
  the tenant context and the event over a state \<open>'w\<close> of the outside world, \<open>queueAdd\<close> is
  \<open>queue.add(name, data, options)\<close> over a queue \<open>'q\<close>, and \<open>outage\<close> says which of the
  two statements after a dispatch fails, and with what.
\<close>

section \<open>InProcessEventBus\<close>

type_synonym 'w handler = "tenantAlsStore option \<Rightarrow> integrationEvent \<Rightarrow> 'w \<Rightarrow> (error + unit) \<times> 'w"

record 'w eventBus =
  bus_handlers :: "(string \<times> 'w handler list) list"
  bus_catchAll :: "'w handler list"

definition bus_empty :: "'w eventBus" where
  "bus_empty = \<lparr>bus_handlers = [], bus_catchAll = []\<rparr>"

definition handlers_get :: "string \<Rightarrow> 'w eventBus \<Rightarrow> 'w handler list" where
  "handlers_get type bus = (case map_of (bus_handlers bus) type of Some hs \<Rightarrow> hs | None \<Rightarrow> [])"

definition bus_register :: "string \<Rightarrow> 'w handler \<Rightarrow> 'w eventBus \<Rightarrow> 'w eventBus" where
  "bus_register type handler bus = (let existing = handlers_get type bus in
     bus\<lparr>bus_handlers := upsert fst (type, existing @ [handler]) (bus_handlers bus)\<rparr>)"

definition bus_registerAll :: "'w handler \<Rightarrow> 'w eventBus \<Rightarrow> 'w eventBus" where
  "bus_registerAll handler bus = bus\<lparr>bus_catchAll := bus_catchAll bus @ [handler]\<rparr>"

fun run_handlers :: "'w handler list \<Rightarrow> tenantAlsStore option \<Rightarrow> integrationEvent \<Rightarrow> 'w \<Rightarrow> (error + unit) \<times> 'w" where
  "run_handlers [] store event w = (Inr (), w)"
| "run_handlers (handler # hs) store event w =
     (case handler store event w of (Inl e, w') \<Rightarrow> (Inl e, w') | (Inr _, w') \<Rightarrow> run_handlers hs store event w')"

definition event_type :: "integrationEvent \<Rightarrow> string" where
  "event_type event = (case obj_read event ''type'' of JStr s \<Rightarrow> s | _ \<Rightarrow> [])"

fun bus_dispatch :: "'w eventBus \<Rightarrow> integrationEvent list \<Rightarrow> tenantAlsStore option \<Rightarrow> 'w \<Rightarrow> (error + unit) \<times> 'w" where
  "bus_dispatch bus [] store w = (Inr (), w)"
| "bus_dispatch bus (event # events) store w =
     (case run_handlers (handlers_get (event_type event) bus @ bus_catchAll bus) store event w of
        (Inl e, w') \<Rightarrow> (Inl e, w')
      | (Inr _, w') \<Rightarrow> bus_dispatch bus events store w')"

section \<open>Queues\<close>

record outboxJobPayload =
  oj_outboxId :: string
  oj_eventType :: string
  oj_tenantId :: "string option"

record outboxJob =
  job_data :: outboxJobPayload
  job_attemptsMade :: nat
  job_maxAttempts :: nat

type_synonym 'q queueAdd = "string \<Rightarrow> outboxJobPayload \<Rightarrow> string \<Rightarrow> 'q \<Rightarrow> (error + unit) \<times> 'q"

definition DEFAULT_ATTEMPTS :: nat where
  "DEFAULT_ATTEMPTS = 3"

definition addOutboxJob :: "'q queueAdd \<Rightarrow> outboxJobPayload \<Rightarrow> 'q \<Rightarrow> (error + unit) \<times> 'q" where
  "addOutboxJob queueAdd payload q = queueAdd (oj_eventType payload) payload (oj_outboxId payload) q"

text \<open>The job a handler sees, from the data, \<open>attemptsMade\<close> and \<open>opts.attempts\<close> of a BullMQ job.\<close>

definition worker_job :: "outboxJobPayload \<Rightarrow> nat \<Rightarrow> nat option \<Rightarrow> outboxJob" where
  "worker_job payload attemptsMade attempts = \<lparr>job_data = payload, job_attemptsMade = attemptsMade,
     job_maxAttempts = (case attempts of Some n \<Rightarrow> n | None \<Rightarrow> 1)\<rparr>"

text \<open>The message the \<open>failed\<close> listener logs; \<open>None\<close> is a job that is gone.\<close>

definition failed_message :: "(nat \<times> nat option) option \<Rightarrow> string" where
  "failed_message job = (let
       maxAttempts = (case job of Some (_, Some n) \<Rightarrow> n | _ \<Rightarrow> 1);
       attemptsMade = (case job of Some (n, _) \<Rightarrow> n | None \<Rightarrow> 0);
       exhausted = attemptsMade \<ge> maxAttempts in
     if exhausted then ''job exhausted'' else ''job failed'')"

section \<open>OutboxEventProcessorService\<close>

definition outbox_dispatch :: "(string \<Rightarrow> bool) \<Rightarrow> 'w eventBus \<Rightarrow> string option \<Rightarrow> integrationEvent \<Rightarrow> 'w \<Rightarrow> (error + unit) \<times> 'w" where
  "outbox_dispatch validUuid bus tenantId event w = (case tenantId of
     None \<Rightarrow> bus_dispatch bus [event] None w
   | Some t \<Rightarrow>
       if \<not> validUuid t then (Inl ZodError, w)
       else tenantContext_run \<lparr>ts_tenantId = t, ts_actor = userActor WORKER_ACTOR_ID\<rparr> (bus_dispatch bus [event]) None w)"

datatype outboxStatement = SComplete | SFail

definition outbox_process :: "(string \<Rightarrow> date) \<Rightarrow> (string \<Rightarrow> bool) \<Rightarrow> (outboxStatement \<Rightarrow> error option) \<Rightarrow> millis \<Rightarrow>
    'w eventBus \<Rightarrow> outboxJob \<Rightarrow> outboxRow list \<times> 'w \<Rightarrow> (error + unit) \<times> (outboxRow list \<times> 'w)" where
  "outbox_process otherFormat validUuid outage now bus job = (\<lambda>(rows, w).
     case findById (oj_outboxId (job_data job)) rows of
       None \<Rightarrow> (Inr (), (rows, w))
     | Some entry \<Rightarrow>
         if or_status entry \<noteq> OProcessing then (Inr (), (rows, w))
         else
           let (dispatched, w') = (case deserialize otherFormat (or_payload entry) of
                 Inl e \<Rightarrow> (Inl e, w)
               | Inr event \<Rightarrow> outbox_dispatch validUuid bus (or_tenantId entry) event w);
               (tried, rows') = (case dispatched of
                 Inl e \<Rightarrow> (Inl e, rows)
               | Inr _ \<Rightarrow> (case outage SComplete of Some e \<Rightarrow> (Inl e, rows)
                            | None \<Rightarrow> (Inr (), outbox_complete now (or_id entry) rows)))
           in (case tried of
                 Inr _ \<Rightarrow> (Inr (), (rows', w'))
               | Inl err \<Rightarrow>
                   if job_attemptsMade job + 1 \<ge> job_maxAttempts job
                   then (case outage SFail of Some e \<Rightarrow> (Inl e, (rows', w'))
                         | None \<Rightarrow> (Inl err, (outbox_fail now (or_id entry) rows', w')))
                   else (Inl err, (rows', w'))))"

section \<open>OutboxRelayService\<close>

fun enqueue_claimed :: "'q queueAdd \<Rightarrow> claimedOutboxRow list \<Rightarrow> 'q \<Rightarrow> (error + unit) \<times> 'q" where
  "enqueue_claimed queueAdd [] q = (Inr (), q)"
| "enqueue_claimed queueAdd (row # claimed) q =
     (case addOutboxJob queueAdd \<lparr>oj_outboxId = cr_id row, oj_eventType = cr_eventType row, oj_tenantId = cr_tenantId row\<rparr> q of
        (Inl e, q') \<Rightarrow> (Inl e, q')
      | (Inr _, q') \<Rightarrow> enqueue_claimed queueAdd claimed q')"

text \<open>The loop of \<open>#drain\<close>; the fuel bounds the number of further batches, \<open>None\<close> is running out.
  \<open>claim\<close> is \<open>relay.claimBatch(batchSize)\<close>.\<close>

fun drain_loop :: "nat \<Rightarrow> (outboxRow list \<Rightarrow> (error + claimedOutboxRow list) \<times> outboxRow list) \<Rightarrow> nat \<Rightarrow> 'q queueAdd \<Rightarrow>
    claimedOutboxRow list \<Rightarrow> outboxRow list \<times> 'q \<Rightarrow> ((error + unit) \<times> (outboxRow list \<times> 'q)) option" where
  "drain_loop fuel claim batchSize queueAdd claimed (rows, q) =
     (if length claimed = 0 then Some (Inr (), (rows, q))
      else case enqueue_claimed queueAdd claimed q of
        (Inl e, q') \<Rightarrow> Some (Inl e, (rows, q'))
      | (Inr _, q') \<Rightarrow>
          if length claimed < batchSize then Some (Inr (), (rows, q'))
          else case fuel of
            0 \<Rightarrow> None
          | Suc fuel' \<Rightarrow> (case claim rows of
              (Inl e, rows') \<Rightarrow> Some (Inl e, (rows', q'))
            | (Inr claimed', rows') \<Rightarrow> drain_loop fuel' claim batchSize queueAdd claimed' (rows', q')))"

declare drain_loop.simps [simp del]

definition outbox_drain :: "nat \<Rightarrow> (outboxRow list \<Rightarrow> (error + claimedOutboxRow list) \<times> outboxRow list) \<Rightarrow> nat \<Rightarrow>
    'q queueAdd \<Rightarrow> outboxRow list \<times> 'q \<Rightarrow> ((error + unit) \<times> (outboxRow list \<times> 'q)) option" where
  "outbox_drain fuel claim batchSize queueAdd = (\<lambda>(rows, q). case claim rows of
     (Inl e, rows') \<Rightarrow> Some (Inl e, (rows', q))
   | (Inr claimed, rows') \<Rightarrow> drain_loop fuel claim batchSize queueAdd claimed (rows', q))"

text \<open>The poll timer of the service.  A tick drains and then, unless stopped, arms the timer.\<close>

record relayService =
  rs_stopped :: bool
  rs_timer :: bool
  rs_ticking :: nat

definition relay_onModuleInit :: "relayService \<Rightarrow> relayService" where
  "relay_onModuleInit s = s\<lparr>rs_stopped := False, rs_ticking := rs_ticking s + 1\<rparr>"

definition relay_onModuleDestroy :: "relayService \<Rightarrow> relayService" where
  "relay_onModuleDestroy s = s\<lparr>rs_stopped := True, rs_timer := False\<rparr>"

definition relay_tick_end :: "relayService \<Rightarrow> relayService" where
  "relay_tick_end s = (let s' = s\<lparr>rs_ticking := rs_ticking s - 1\<rparr> in
     if rs_stopped s' then s' else s'\<lparr>rs_timer := True\<rparr>)"

definition relay_timer_fires :: "relayService \<Rightarrow> relayService" where
  "relay_timer_fires s = s\<lparr>rs_timer := False, rs_ticking := rs_ticking s + 1\<rparr>"

section \<open>Maintenance\<close>

datatype maintenanceJobName = JPurgeRefreshSessions | JPurgePasswordResetTokens | JPurgeStaleInvitations | JReclaimStaleOutbox

definition maintenanceJob_name :: "maintenanceJobName \<Rightarrow> string" where
  "maintenanceJob_name j = (case j of
     JPurgeRefreshSessions \<Rightarrow> ''purge-refresh-sessions''
   | JPurgePasswordResetTokens \<Rightarrow> ''purge-password-reset-tokens''
   | JPurgeStaleInvitations \<Rightarrow> ''purge-stale-invitations''
   | JReclaimStaleOutbox \<Rightarrow> ''reclaim-stale-outbox'')"

definition maintenanceJobs :: "maintenanceJobName list" where
  "maintenanceJobs = [JPurgeRefreshSessions, JPurgePasswordResetTokens, JPurgeStaleInvitations, JReclaimStaleOutbox]"

record maintenanceConfig =
  mc_refreshSessionsEveryMs :: int
  mc_passwordResetTokensEveryMs :: int
  mc_staleInvitationsEveryMs :: int
  mc_reclaimStaleOutboxEveryMs :: int
  mc_staleProcessingMs :: int

definition MAINTENANCE_JOB_SCHEDULES :: "maintenanceJobName \<Rightarrow> maintenanceConfig \<Rightarrow> int" where
  "MAINTENANCE_JOB_SCHEDULES j config = (case j of
     JPurgeRefreshSessions \<Rightarrow> mc_refreshSessionsEveryMs config
   | JPurgePasswordResetTokens \<Rightarrow> mc_passwordResetTokensEveryMs config
   | JPurgeStaleInvitations \<Rightarrow> mc_staleInvitationsEveryMs config
   | JReclaimStaleOutbox \<Rightarrow> mc_reclaimStaleOutboxEveryMs config)"

text \<open>\<open>upsertJobScheduler(name, everyMs)\<close> for every job, in the order of the keys.\<close>

definition scheduler_onModuleInit :: "maintenanceConfig \<Rightarrow> (string \<times> int) list \<Rightarrow> (string \<times> int) list" where
  "scheduler_onModuleInit config schedulers = foldl (\<lambda>s j.
     upsert fst (maintenanceJob_name j, MAINTENANCE_JOB_SCHEDULES j config) s) schedulers maintenanceJobs"

text \<open>What a maintenance job works on: the world of the use cases, the outbox table, and the names of the
  jobs added to the maintenance queue.\<close>

record maintenanceState =
  ms_world :: world
  ms_outbox :: "outboxRow list"
  ms_added :: "string list"

record driverPorts =
  dp_countRow :: "nat \<Rightarrow> jsval"
  dp_stringToNumber :: "string \<Rightarrow> number"
  dp_locked :: "string \<Rightarrow> bool"

definition run_purge :: "nat app \<Rightarrow> maintenanceState \<Rightarrow> (error + number) \<times> maintenanceState" where
  "run_purge purge s = (case purge (ms_world s) of
     (Inl e, w) \<Rightarrow> (Inl e, s\<lparr>ms_world := w\<rparr>)
   | (Inr deleted, w) \<Rightarrow> (Inr (num (int deleted)), s\<lparr>ms_world := w\<rparr>))"

definition reclaimStaleOutbox :: "driverPorts \<Rightarrow> maintenanceConfig \<Rightarrow> maintenanceState \<Rightarrow> (error + number) \<times> maintenanceState" where
  "reclaimStaleOutbox ports config s = (let now = w_now (ms_world s) in
     case bindR (toUnixMs (Some now)) (\<lambda>ms. fromUnixMs (num_plus ms (num (- mc_staleProcessingMs config)))) of
       Inr (Some olderThan) \<Rightarrow>
         (let (count, rows) = reclaimStaleProcessing (dp_countRow ports) (dp_stringToNumber ports) (dp_locked ports)
                now olderThan PURGE_BATCH_SIZE (ms_outbox s) in
          (Inr count, s\<lparr>ms_outbox := rows\<rparr>))
     | Inr None \<Rightarrow> (Inl (engineError RangeError), s)
     | Inl e \<Rightarrow> (Inl (engineError e), s))"

definition maintenance_handler :: "driverPorts \<Rightarrow> maintenanceConfig \<Rightarrow> maintenanceJobName \<Rightarrow> maintenanceState \<Rightarrow>
    (error + number) \<times> maintenanceState" where
  "maintenance_handler ports config j = (case j of
     JPurgeRefreshSessions \<Rightarrow> run_purge purgeRefreshSessions
   | JPurgePasswordResetTokens \<Rightarrow> run_purge purgePasswordResetTokens
   | JPurgeStaleInvitations \<Rightarrow> run_purge purgeStaleInvitations
   | JReclaimStaleOutbox \<Rightarrow> reclaimStaleOutbox ports config)"

definition maintenance_run :: "driverPorts \<Rightarrow> maintenanceConfig \<Rightarrow> string \<Rightarrow> maintenanceState \<Rightarrow> (error + number) \<times> maintenanceState" where
  "maintenance_run ports config name s = (case find (\<lambda>j. maintenanceJob_name j = name) maintenanceJobs of
     None \<Rightarrow> (Inl (PlainError (''Unknown maintenance job: '' @ name)), s)
   | Some j \<Rightarrow> maintenance_handler ports config j s)"

definition maintenance_onJob :: "driverPorts \<Rightarrow> maintenanceConfig \<Rightarrow> string \<Rightarrow> maintenanceState \<Rightarrow> (error + unit) \<times> maintenanceState" where
  "maintenance_onJob ports config name s = (case maintenance_run ports config name s of
     (Inl e, s') \<Rightarrow> (Inl e, s')
   | (Inr deleted, s') \<Rightarrow>
       (Inr (), if deleted = num (int PURGE_BATCH_SIZE) then s'\<lparr>ms_added := ms_added s' @ [name]\<rparr> else s'))"

section \<open>DomainEventLoggingHandler\<close>

record handledLog =
  hl_eventType :: string
  hl_tenantId :: "string option"

definition logging_handle :: "integrationEvent \<Rightarrow> handledLog list \<Rightarrow> handledLog list" where
  "logging_handle event handled = handled @ [\<lparr>hl_eventType = event_type event, hl_tenantId = extractTenantId event\<rparr>]"

definition subscription_onModuleInit :: "handledLog list eventBus \<Rightarrow> handledLog list eventBus" where
  "subscription_onModuleInit bus = bus_registerAll (\<lambda>_ event handled. (Inr (), logging_handle event handled)) bus"

end
