(* ===== verification/Reliability.thy ===== *)
theory Reliability
  imports Delivery "HOL-Library.Multiset"
begin

text \<open>
  What the outbox and the worker promise together: events survive serialisation, every pending row is
  enqueued once, a row's status only moves forward until it is final, a processed row was handled, and
  the background jobs work off what is due.
\<close>

section \<open>Serialisation\<close>

lemma event_read_time: "obj_read (event_object ev) ''occurredAt'' = JDate (Some (event_time ev))"
  by (rule event_object_base)

lemma obj_set_same: "obj_read ob k = v \<Longrightarrow> hasOwn ob k \<Longrightarrow> distinct (map fst ob) \<Longrightarrow> obj_set ob k v = ob"
  by (auto simp: hasOwn_get obj_read_def intro!: obj_set_id)

lemma hasOwn_read_defined: "obj_read ob k = v \<Longrightarrow> v \<noteq> JUndefined \<Longrightarrow> hasOwn ob k"
  by (auto simp: hasOwn_get obj_read_def split: option.splits)

lemma serialize_deserialize:
  assumes "distinct (map fst event)" "obj_read event ''type'' = JStr ty" "serialize event = Inr p"
    "obj_read event ''occurredAt'' = JDate (Some t)" "\<bar>t\<bar> \<le> MAX_TIME"
  shows "deserialize otherFormat p = Inr event"
proof -
  obtain s where s: "toISOString (Some t) = Inr s" "p = obj_set event ''occurredAt'' (JStr s)"
    using assms(3,4) by (auto simp: serialize_def split: sum.splits)
  have d: "dateOfString otherFormat s = Some t"
    using parse_iso_of_toISO[OF assms(5) s(1)] by (simp add: dateOfString_def)
  have ty: "obj_set p ''type'' (JStr ty) = p"
    using assms(1,2) s(2) by (intro obj_set_same) (auto intro!: hasOwn_read_defined[of _ _ "JStr ty"])
  have "obj_set p ''occurredAt'' (JDate (Some t)) = event"
    using assms(1,4) s(2) by (auto intro!: obj_set_same hasOwn_read_defined[of _ _ "JDate (Some t)"])
  then show ?thesis using assms(2) s(2) d ty by (simp add: deserialize_def)
qed

lemma serialize_succeeds: "obj_read event ''occurredAt'' = JDate (Some t) \<Longrightarrow> \<exists>p. serialize event = Inr p"
  by (simp add: serialize_def toISOString_def)

lemma serialize_reads: "serialize event = Inr p \<Longrightarrow> k \<noteq> ''occurredAt'' \<Longrightarrow>
    obj_read p k = obj_read event k \<and> hasOwn p k = hasOwn event k"
  by (auto simp: serialize_def hasOwn_get split: jsval.splits sum.splits)

section \<open>Claiming\<close>

text \<open>What the driver returns for a selected row: the columns by name, timestamps as dates.\<close>

definition driver_columns :: "(outboxRow \<Rightarrow> jsval) \<Rightarrow> bool" where
  "driver_columns driver \<longleftrightarrow> (\<forall>r. driver r = JObj [
     (''id'', JStr (or_id r)), (''event_type'', JStr (or_eventType r)), (''payload'', JObj (or_payload r)),
     (''tenant_id'', (case or_tenantId r of None \<Rightarrow> JNull | Some t \<Rightarrow> JStr t)),
     (''status'', JStr (outboxStatus_name (or_status r))), (''created_at'', JDate (Some (or_createdAt r))),
     (''processed_at'', (case or_processedAt r of None \<Rightarrow> JNull | Some d \<Rightarrow> JDate (Some d))),
     (''attempt_count'', JNum (num (or_attemptCount r)))])"

definition claimed_row :: "outboxRow \<Rightarrow> claimedOutboxRow" where
  "claimed_row r = \<lparr>cr_id = or_id r, cr_eventType = or_eventType r, cr_tenantId = or_tenantId r\<rparr>"

definition pending_queue :: "outboxRow list \<Rightarrow> outboxRow list" where
  "pending_queue rows = sort_key or_createdAt (filter (\<lambda>r. or_status r = OPending) rows)"

definition mark_processing :: "millis \<Rightarrow> outboxRow \<Rightarrow> outboxRow" where
  "mark_processing now r = r\<lparr>or_status := OProcessing, or_updatedAt := now\<rparr>"

lemma parseRow_driver:
  assumes "driver_columns driver"
  shows "parseRow otherFormat (driver r) = Inr \<lparr>pr_id = or_id r, pr_event_type = or_eventType r,
    pr_payload = or_payload r, pr_tenant_id = or_tenantId r, pr_status = outboxStatus_name (or_status r),
    pr_created_at = Some (or_createdAt r), pr_processed_at = map_option Some (or_processedAt r),
    pr_attempt_count = num (or_attemptCount r)\<rparr>"
proof -
  have "driver r = JObj [
     (''id'', JStr (or_id r)), (''event_type'', JStr (or_eventType r)), (''payload'', JObj (or_payload r)),
     (''tenant_id'', (case or_tenantId r of None \<Rightarrow> JNull | Some t \<Rightarrow> JStr t)),
     (''status'', JStr (outboxStatus_name (or_status r))), (''created_at'', JDate (Some (or_createdAt r))),
     (''processed_at'', (case or_processedAt r of None \<Rightarrow> JNull | Some d \<Rightarrow> JDate (Some d))),
     (''attempt_count'', JNum (num (or_attemptCount r)))]" using assms by (simp add: driver_columns_def)
  then show ?thesis
    by (cases "or_tenantId r"; cases "or_processedAt r")
      (simp_all add: parseRow_def readString_def readPayload_def readNullableString_def readDate_def
        readNullableDate_def readNumber_def obj_read_def obj_get_def)
qed

lemma claimBatch_selected:
  assumes "driver_columns driver"
  shows "claimBatch otherFormat driver locked now n rows =
    (let sel = select_pending locked n rows in
     (Inr (map claimed_row sel),
      map (\<lambda>r. if or_id r \<in> or_id ` set sel then mark_processing now r else r) rows))"
proof -
  define sel where "sel = select_pending locked n rows"
  define pr where "pr r = \<lparr>pr_id = or_id r, pr_event_type = or_eventType r,
    pr_payload = or_payload r, pr_tenant_id = or_tenantId r, pr_status = outboxStatus_name (or_status r),
    pr_created_at = Some (or_createdAt r), pr_processed_at = map_option Some (or_processedAt r),
    pr_attempt_count = num (or_attemptCount r)\<rparr>" for r :: outboxRow
  have "mapR (parseRow otherFormat) (map driver sel) = Inr (map pr sel)"
    by (induction sel) (simp_all add: parseRow_driver[OF assms] pr_def)
  then have "parseRows otherFormat (JArr (map driver sel)) = Inr (map pr sel)" by (simp add: parseRows_def)
  moreover have "map pr_id (map pr sel) = map or_id sel" by (simp add: pr_def)
  ultimately show ?thesis
    by (cases "sel = []")
      (auto simp: claimBatch_def claimPending_def dataSource_transaction_def Let_def mark_processing_def claimed_row_def
        toEntity_def pr_def comp_def simp flip: sel_def)
qed

lemma claim_pending_queue:
  assumes "ids_ok rows" "sel = take n (pending_queue rows)"
  shows "pending_queue (map (\<lambda>r. if or_id r \<in> or_id ` set sel then mark_processing now r else r) rows)
     = drop n (pending_queue rows)"
proof -
  let ?L = "pending_queue rows"
  let ?f = "\<lambda>r. if or_id r \<in> or_id ` set sel then mark_processing now r else r"
  have dist: "distinct ?L" using assms(1) by (simp add: pending_queue_def distinct_map)
  have selr: "set sel \<subseteq> set rows" using assms(2) set_take_subset[of n ?L] by (auto simp: pending_queue_def)
  have in_sel: "or_id r \<in> or_id ` set sel \<longleftrightarrow> r \<in> set sel" if "r \<in> set rows" for r
    using id_selected[OF assms(1) that selr] .
  have "filter (\<lambda>r. or_status r = OPending) (map ?f rows)
      = filter (\<lambda>r. or_status r = OPending \<and> or_id r \<notin> or_id ` set sel) rows"
    by (rule filter_map_update) (auto simp: mark_processing_def)
  also have "\<dots> = filter (\<lambda>r. r \<notin> set sel) (filter (\<lambda>r. or_status r = OPending) rows)"
    using in_sel by (auto intro: filter_cong)
  finally have "pending_queue (map ?f rows) = filter (\<lambda>r. r \<notin> set sel) ?L"
    by (simp add: pending_queue_def filter_sort)
  also have "\<dots> = drop n ?L"
  proof -
    have sp: "?L = take n ?L @ drop n ?L" by simp
    have "set (take n ?L) \<inter> set (drop n ?L) = {}" using dist by (metis distinct_append sp)
    then have "filter (\<lambda>r. r \<notin> set sel) (take n ?L) = []" "filter (\<lambda>r. r \<notin> set sel) (drop n ?L) = drop n ?L"
      using assms(2) by (auto simp: filter_empty_conv filter_id_conv)
    then show ?thesis by (metis append_Nil filter_append sp)
  qed
  finally show ?thesis .
qed

lemma ids_ok_map: "(\<And>r. or_id (f r) = or_id r) \<Longrightarrow> ids_ok rows \<Longrightarrow> ids_ok (map f rows)"
  by (simp add: comp_def)

section \<open>Draining\<close>

definition job_of :: "outboxRow \<Rightarrow> outboxJobPayload" where
  "job_of r = \<lparr>oj_outboxId = or_id r, oj_eventType = or_eventType r, oj_tenantId = or_tenantId r\<rparr>"

definition enqueue_row :: "'q queueAdd \<Rightarrow> 'q \<Rightarrow> outboxRow \<Rightarrow> 'q" where
  "enqueue_row queueAdd q r = snd (addOutboxJob queueAdd (job_of r) q)"

definition all_marked :: "millis \<Rightarrow> outboxRow list \<Rightarrow> outboxRow list" where
  "all_marked now rows = map (\<lambda>r. if or_status r = OPending then mark_processing now r else r) rows"

lemma enqueue_claimed_fold:
  assumes "\<And>name p j q. fst (queueAdd name p j q) = Inr ()"
  shows "enqueue_claimed queueAdd (map claimed_row rs) q = (Inr (), foldl (enqueue_row queueAdd) q rs)"
proof (induction rs arbitrary: q)
  case (Cons r rs)
  obtain q' where "addOutboxJob queueAdd (job_of r) q = (Inr (), q')"
    using assms by (metis addOutboxJob_def prod.collapse)
  then show ?case using Cons by (simp add: claimed_row_def job_of_def enqueue_row_def)
qed simp

lemma all_marked_claim:
  assumes "ids_ok rows" "sel = take n (pending_queue rows)"
  shows "all_marked now (map (\<lambda>r. if or_id r \<in> or_id ` set sel then mark_processing now r else r) rows) = all_marked now rows"
proof -
  have "set sel \<subseteq> set rows \<and> (\<forall>r \<in> set sel. or_status r = OPending)"
    using assms(2) set_take_subset[of n "pending_queue rows"] by (auto simp: pending_queue_def)
  then have "or_status r = OPending" if "r \<in> set rows" "or_id r \<in> or_id ` set sel" for r
    using that id_selected[OF assms(1) that(1)] by blast
  then show ?thesis by (auto simp: all_marked_def mark_processing_def)
qed

lemma pending_queue_Nil: "pending_queue rows = [] \<Longrightarrow> all_marked now rows = rows"
proof -
  assume "pending_queue rows = []"
  then have "\<forall>r \<in> set rows. or_status r \<noteq> OPending"
    by (metis (mono_tags, lifting) filter_empty_conv pending_queue_def set_sort set_empty)
  then show ?thesis by (simp add: all_marked_def map_idI)
qed

lemma drain_loop_Nil: "drain_loop fuel claim n queueAdd [] (rows, q) = Some (Inr (), (rows, q))"
  by (subst drain_loop.simps) simp

lemma drain_loop_all:
  assumes "driver_columns driver" "\<And>name p j q. fst (queueAdd name p j q) = Inr ()" "0 < n"
  shows "ids_ok rows \<Longrightarrow> length (pending_queue rows) < fuel \<Longrightarrow> (length cl < n \<Longrightarrow> pending_queue rows = []) \<Longrightarrow>
    drain_loop fuel (claimBatch otherFormat driver (\<lambda>_. False) now n) n queueAdd (map claimed_row cl) (rows, q) =
      Some (Inr (), (all_marked now rows, foldl (enqueue_row queueAdd) q (cl @ pending_queue rows)))"
proof (induction fuel arbitrary: rows cl q)
  case (Suc fuel)
  show ?case
  proof (cases "length cl < n")
    case True
    then show ?thesis using Suc.prems(3)
      by (subst drain_loop.simps) (auto simp: enqueue_claimed_fold[OF assms(2)] pending_queue_Nil)
  next
    case False
    then have "cl \<noteq> []" using assms(3) by auto
    define sel where "sel = take n (pending_queue rows)"
    define rows' where "rows' = map (\<lambda>r. if or_id r \<in> or_id ` set sel then mark_processing now r else r) rows"
    define q' where "q' = foldl (enqueue_row queueAdd) q cl"
    have "select_pending (\<lambda>_. False) n rows = sel" by (simp add: select_pending_def sel_def pending_queue_def)
    then have claim: "claimBatch otherFormat driver (\<lambda>_. False) now n rows = (Inr (map claimed_row sel), rows')"
      by (simp add: claimBatch_selected[OF assms(1)] Let_def rows'_def)
    have pq: "pending_queue rows' = drop n (pending_queue rows)"
      unfolding rows'_def by (rule claim_pending_queue[OF Suc.prems(1) sel_def])
    have mk: "all_marked now rows' = all_marked now rows"
      unfolding rows'_def by (rule all_marked_claim[OF Suc.prems(1) sel_def])
    have ok: "ids_ok rows'" unfolding rows'_def using Suc.prems(1) by (intro ids_ok_map) (simp_all add: mark_processing_def)
    have "drain_loop (Suc fuel) (claimBatch otherFormat driver (\<lambda>_. False) now n) n queueAdd (map claimed_row cl) (rows, q)
        = drain_loop fuel (claimBatch otherFormat driver (\<lambda>_. False) now n) n queueAdd (map claimed_row sel) (rows', q')"
      using False assms(3) \<open>cl \<noteq> []\<close> by (subst drain_loop.simps) (simp add: enqueue_claimed_fold[OF assms(2)] claim q'_def)
    also have "\<dots> = Some (Inr (), (all_marked now rows', foldl (enqueue_row queueAdd) q' (sel @ pending_queue rows')))"
    proof (cases "sel = []")
      case True
      then have "pending_queue rows = []" using assms(3) by (simp add: sel_def)
      then show ?thesis using True by (simp add: drain_loop_Nil pq pending_queue_Nil)
    next
      case sel: False
      then have "length (pending_queue rows') < fuel" using Suc.prems(2) assms(3) by (cases "pending_queue rows") (auto simp: pq sel_def)
      then show ?thesis by (intro Suc.IH[OF ok]) (auto simp: pq sel_def)
    qed
    moreover have "sel @ pending_queue rows' = pending_queue rows" by (simp add: pq sel_def)
    ultimately show ?thesis by (simp add: mk q'_def)
  qed
qed simp

text \<open>C25: a drain terminates; when it starts on a table with distinct ids and nothing else runs, it
  enqueues every pending row exactly once, oldest first, and leaves no row pending: only the status (and
  the update time) of those rows changes.\<close>

theorem drain_enqueues_each_once:
  assumes "driver_columns driver" "\<And>name p j q. fst (queueAdd name p j q) = Inr ()" "0 < n" "ids_ok rows"
  shows "outbox_drain (Suc (length rows)) (claimBatch otherFormat driver (\<lambda>_. False) now n) n queueAdd (rows, q) =
      Some (Inr (), (all_marked now rows,
        foldl (\<lambda>q r. snd (addOutboxJob queueAdd (job_of r) q)) q (pending_queue rows)))
    \<and> mset (pending_queue rows) = {# r \<in># mset rows. or_status r = OPending #}
    \<and> sorted (map or_createdAt (pending_queue rows))
    \<and> (\<forall>r. r \<in> set (all_marked now rows) \<longrightarrow> or_status r \<noteq> OPending)"
proof -
  define sel where "sel = take n (pending_queue rows)"
  define rows' where "rows' = map (\<lambda>r. if or_id r \<in> or_id ` set sel then mark_processing now r else r) rows"
  have "select_pending (\<lambda>_. False) n rows = sel" by (simp add: select_pending_def sel_def pending_queue_def)
  then have claim: "claimBatch otherFormat driver (\<lambda>_. False) now n rows = (Inr (map claimed_row sel), rows')"
    by (simp add: claimBatch_selected[OF assms(1)] Let_def rows'_def)
  have pq: "pending_queue rows' = drop n (pending_queue rows)"
    unfolding rows'_def by (rule claim_pending_queue[OF assms(4) sel_def])
  have mk: "all_marked now rows' = all_marked now rows"
    unfolding rows'_def by (rule all_marked_claim[OF assms(4) sel_def])
  have ok: "ids_ok rows'" unfolding rows'_def using assms(4) by (intro ids_ok_map) (simp_all add: mark_processing_def)
  have len: "length (pending_queue rows) \<le> length rows" by (simp add: pending_queue_def)
  have "outbox_drain (Suc (length rows)) (claimBatch otherFormat driver (\<lambda>_. False) now n) n queueAdd (rows, q)
      = Some (Inr (), (all_marked now rows', foldl (enqueue_row queueAdd) q (sel @ pending_queue rows')))"
    unfolding outbox_drain_def claim prod.case sum.case
    by (rule drain_loop_all[OF assms(1-3) ok]) (use len in \<open>auto simp: pq sel_def\<close>)
  moreover have "sel @ pending_queue rows' = pending_queue rows" by (simp add: pq sel_def)
  ultimately have "outbox_drain (Suc (length rows)) (claimBatch otherFormat driver (\<lambda>_. False) now n) n queueAdd (rows, q) =
      Some (Inr (), (all_marked now rows, foldl (enqueue_row queueAdd) q (pending_queue rows)))"
    by (simp only: mk)
  then show ?thesis
    by (auto simp: enqueue_row_def[abs_def] pending_queue_def all_marked_def mark_processing_def mset_filter
        split: if_splits)
qed

section \<open>Publishing\<close>

text \<open>The table holds a list of domain events: each payload reads back as the event's object.\<close>

definition outbox_holds :: "(string \<Rightarrow> date) \<Rightarrow> outboxRow list \<Rightarrow> domainEvent list \<Rightarrow> bool" where
  "outbox_holds otherFormat = list_all2 (\<lambda>r ev. deserialize otherFormat (or_payload r) = Inr (event_object ev)
     \<and> or_eventType r = event_type (event_object ev) \<and> or_tenantId r = extractTenantId (event_object ev))"

lemma readString_type: "readString (event_object ev) ''type'' = Inr (event_type (event_object ev))"
  using event_object_base(2)[of ev] by (auto simp: readString_def event_type_def)

lemma outboxEntry_event:
  assumes "\<bar>event_time ev\<bar> \<le> MAX_TIME"
  shows "\<exists>row. outboxEntry now i (event_object ev) = Inr row \<and> or_id row = i \<and> or_status row = OPending
    \<and> deserialize otherFormat (or_payload row) = Inr (event_object ev)
    \<and> or_eventType row = event_type (event_object ev) \<and> or_tenantId row = extractTenantId (event_object ev)"
proof -
  obtain p where p: "serialize (event_object ev) = Inr p" using serialize_succeeds event_read_time by blast
  obtain ty where ty: "obj_read (event_object ev) ''type'' = JStr ty" using event_object_base(2) by blast
  have "deserialize otherFormat p = Inr (event_object ev)"
    by (rule serialize_deserialize[OF event_object_keys ty p event_read_time assms])
  then show ?thesis by (simp add: outboxEntry_def readString_type p)
qed

lemma mapR_entries:
  assumes "list_all (\<lambda>ev. \<bar>event_time ev\<bar> \<le> MAX_TIME) evs" "length is = length evs"
  shows "\<exists>es. mapR (\<lambda>(i, event). outboxEntry now i event) (zip is (map event_object evs)) = Inr es
    \<and> map or_id es = is \<and> list_all (\<lambda>r. or_status r = OPending) es \<and> outbox_holds otherFormat es evs"
  using assms
proof (induction evs arbitrary: "is")
  case Nil
  then show ?case by (simp add: outbox_holds_def)
next
  case (Cons ev evs)
  obtain i js where i: "is = i # js" "length js = length evs" using Cons.prems(2) by (cases "is") auto
  obtain es where es: "mapR (\<lambda>(i, event). outboxEntry now i event) (zip js (map event_object evs)) = Inr es"
    "map or_id es = js" "list_all (\<lambda>r. or_status r = OPending) es" "outbox_holds otherFormat es evs"
    using Cons.IH[of js] Cons.prems(1) i(2) by auto
  obtain row where "outboxEntry now i (event_object ev) = Inr row" "or_id row = i" "or_status row = OPending"
    "deserialize otherFormat (or_payload row) = Inr (event_object ev)"
    "or_eventType row = event_type (event_object ev)" "or_tenantId row = extractTenantId (event_object ev)"
    using outboxEntry_event[of ev now i otherFormat] Cons.prems(1) by auto
  then show ?case using es by (auto simp: i outbox_holds_def)
qed

lemma mapR_zip_index:
  "mapR (\<lambda>(i, event). f (u i) event) (zip [0 ..< length xs] xs) = mapR (\<lambda>(i, event). f i event) (zip (map u [0 ..< length xs]) xs)"
proof -
  have "mapR (\<lambda>(i, event). f (u i) event) (zip is ys) = mapR (\<lambda>(i, event). f i event) (zip (map u is) ys)" for "is" ys
  proof (induction ys arbitrary: "is")
    case (Cons y ys)
    then show ?case by (cases "is") auto
  qed simp
  then show ?thesis .
qed

lemma foldl_upsert_fresh:
  "distinct (map key es) \<Longrightarrow> set (map key es) \<inter> key ` set rows = {} \<Longrightarrow> foldl (\<lambda>rs e. upsert key e rs) rows es = rows @ es"
proof (induction es arbitrary: rows)
  case (Cons e es)
  have "upsert key e rows = rows @ [e]" using Cons.prems by (intro upsert_fresh) auto
  moreover have "foldl (\<lambda>rs e. upsert key e rs) (rows @ [e]) es = (rows @ [e]) @ es"
    using Cons.prems by (intro Cons.IH) auto
  ultimately show ?case by simp
qed simp

text \<open>Fresh ids, as \<open>randomUUID\<close> gives them.\<close>

definition fresh_ids :: "(nat \<Rightarrow> string) \<Rightarrow> nat \<Rightarrow> outboxRow list \<Rightarrow> bool" where
  "fresh_ids uuids n rows \<longleftrightarrow> distinct (map uuids [0 ..< n]) \<and> set (map uuids [0 ..< n]) \<inter> or_id ` set rows = {}"

lemma publish_appends:
  assumes "list_all (\<lambda>ev. \<bar>event_time ev\<bar> \<le> MAX_TIME) evs" "fresh_ids uuids (length evs) rows"
  shows "\<exists>es. eventPublisher_publish uuids now (map event_object evs) (Some tx) rows = (Inr (), rows @ es)
    \<and> map or_id es = map uuids [0 ..< length evs] \<and> list_all (\<lambda>r. or_status r = OPending) es \<and> outbox_holds otherFormat es evs"
proof (cases "evs = []")
  case True
  then show ?thesis by (simp add: eventPublisher_publish_def outbox_holds_def)
next
  case False
  obtain es where es: "mapR (\<lambda>(i, event). outboxEntry now i event)
        (zip (map uuids [0 ..< length evs]) (map event_object evs)) = Inr es"
    "map or_id es = map uuids [0 ..< length evs]" "list_all (\<lambda>r. or_status r = OPending) es" "outbox_holds otherFormat es evs"
    using mapR_entries[OF assms(1), of "map uuids [0 ..< length evs]"] by auto
  have "mapR (\<lambda>(i, event). outboxEntry now (uuids i) event) (zip [0 ..< length evs] (map event_object evs)) = Inr es"
    using es(1) mapR_zip_index[of "outboxEntry now" uuids "map event_object evs"] by simp
  moreover have "foldl (\<lambda>rs e. upsert or_id e rs) rows es = rows @ es"
    using assms(2) es(2) by (intro foldl_upsert_fresh) (auto simp: fresh_ids_def)
  ultimately show ?thesis using False es by (simp add: eventPublisher_publish_def)
qed

text \<open>publishing refines the append of the abstract outbox: in a transaction the table then also
  holds the new events, in order, as pending rows; outside a transaction a non-empty batch is refused and
  nothing is written; and when the surrounding unit of work throws, the rows are gone with it.\<close>

theorem publish_refines_append:
  assumes "outbox_holds otherFormat rows evs" "list_all (\<lambda>ev. \<bar>event_time ev\<bar> \<le> MAX_TIME) new"
    "fresh_ids uuids (length new) rows" "new \<noteq> []"
  shows "(\<exists>rows'. typeormUow_run tx (\<lambda>_. eventPublisher_publish uuids now (map event_object new)) None rows = (Inr (), rows')
        \<and> outbox_holds otherFormat rows' (evs @ new))
    \<and> eventPublisher_publish uuids now (map event_object new) None rows = (Inl EventPublisherOutsideTransactionError, rows)
    \<and> typeormUow_run tx (\<lambda>_. tx_bind (eventPublisher_publish uuids now (map event_object new)) (\<lambda>_ _ d. (Inl e, d))) None rows
        = (Inl e :: error + unit, rows)"
proof -
  obtain es where es: "eventPublisher_publish uuids now (map event_object new) (Some tx) rows = (Inr (), rows @ es)"
    "outbox_holds otherFormat es new"
    using publish_appends[OF assms(2,3)] by blast
  have "outbox_holds otherFormat (rows @ es) (evs @ new)"
    using assms(1) es(2) by (simp add: outbox_holds_def list_all2_appendI)
  then show ?thesis using es(1) assms(4)
    by (simp add: typeormUow_run_def dataSource_transaction_def tx_bind_def eventPublisher_publish_def)
qed

section \<open>The life of a row\<close>

text \<open>What can happen to the table and the outside world: a committed publish, a claim, a job run by a
  worker (with whatever statement failures), a reclaim of stale rows.\<close>

inductive outbox_step for otherFormat :: "string \<Rightarrow> date" and driver :: "outboxRow \<Rightarrow> jsval"
    and validUuid :: "string \<Rightarrow> bool" and bus :: "'w eventBus" where
  publishes: "list_all (\<lambda>ev. \<bar>event_time ev\<bar> \<le> MAX_TIME) evs \<Longrightarrow> fresh_ids uuids (length evs) rows \<Longrightarrow>
    eventPublisher_publish uuids now (map event_object evs) (Some tx) rows = (Inr (), rows') \<Longrightarrow>
    outbox_step otherFormat driver validUuid bus (rows, w) (rows', w)"
| claims: "outbox_step otherFormat driver validUuid bus (rows, w) (snd (claimBatch otherFormat driver locked now n rows), w)"
| processes: "outbox_step otherFormat driver validUuid bus s (snd (outbox_process otherFormat validUuid outage now bus job s))"
| reclaims: "outbox_step otherFormat driver validUuid bus (rows, w)
    (snd (reclaimStaleProcessing countRow stringToNumber locked now olderThan n rows), w)"

text \<open>The transitions of one row.\<close>

definition row_moves :: "outboxRow \<Rightarrow> outboxRow \<Rightarrow> bool" where
  "row_moves r r' \<longleftrightarrow> or_id r' = or_id r \<and> or_eventType r' = or_eventType r \<and> or_payload r' = or_payload r
     \<and> or_tenantId r' = or_tenantId r \<and> or_createdAt r' = or_createdAt r
     \<and> (r' = r \<or> (or_status r, or_status r') \<in> {(OPending, OProcessing), (OProcessing, OProcessed),
          (OProcessing, OFailed), (OProcessing, OPending)})"

definition table_moves :: "outboxRow list \<Rightarrow> outboxRow list \<Rightarrow> bool" where
  "table_moves rows rows' \<longleftrightarrow> (\<exists>f es. rows' = map f rows @ es \<and> (\<forall>r \<in> set rows. row_moves r (f r))
     \<and> ids_ok rows' \<and> list_all (\<lambda>r. or_status r = OPending) es)"

lemma row_moves_refl [simp]: "row_moves r r"
  by (simp add: row_moves_def)

lemma row_moves_id: "row_moves r r' \<Longrightarrow> or_id r' = or_id r"
  by (simp add: row_moves_def)

lemma table_moves_map:
  assumes "ids_ok rows" "\<And>r. r \<in> set rows \<Longrightarrow> row_moves r (f r)"
  shows "table_moves rows (map f rows)"
proof -
  have "map or_id (map f rows) = map or_id rows" using assms(2) by (simp add: row_moves_id)
  then have "ids_ok (map f rows)" using assms(1) by metis
  then show ?thesis using assms(2) unfolding table_moves_def by (intro exI[of _ f] exI[of _ "[]"]) simp
qed

lemma table_moves_refl: "ids_ok rows \<Longrightarrow> table_moves rows rows"
  using table_moves_map[of rows "\<lambda>r. r"] by simp

lemma table_moves_ids: "table_moves rows rows' \<Longrightarrow> ids_ok rows'"
  by (auto simp: table_moves_def)

lemma complete_moves: "ids_ok rows \<Longrightarrow> table_moves rows (outbox_complete now i rows)"
  unfolding outbox_complete_def by (rule table_moves_map) (auto simp: row_moves_def)

lemma fail_moves: "ids_ok rows \<Longrightarrow> table_moves rows (outbox_fail now i rows)"
  unfolding outbox_fail_def by (rule table_moves_map) (auto simp: row_moves_def)

lemma claim_moves:
  assumes "driver_columns driver" "ids_ok rows"
  shows "table_moves rows (snd (claimBatch otherFormat driver locked now n rows))"
proof -
  define sel where "sel = select_pending locked n rows"
  have "row_moves r (if or_id r \<in> or_id ` set sel then mark_processing now r else r)" if "r \<in> set rows" for r
  proof (cases "or_id r \<in> or_id ` set sel")
    case True
    have "set sel \<subseteq> set rows" using select_pending_in by (auto simp: sel_def)
    then have "r \<in> set sel" using True id_selected[OF assms(2) that] by blast
    then have "or_status r = OPending" using select_pending_in sel_def by blast
    then show ?thesis by (simp add: row_moves_def mark_processing_def)
  qed simp
  then have "table_moves rows (map (\<lambda>r. if or_id r \<in> or_id ` set sel then mark_processing now r else r) rows)"
    by (rule table_moves_map[OF assms(2)])
  then show ?thesis by (simp add: claimBatch_selected[OF assms(1)] Let_def sel_def)
qed

lemma reclaim_moves:
  assumes "ids_ok rows"
  shows "table_moves rows (snd (reclaimStaleProcessing countRow stringToNumber locked now olderThan n rows))"
proof -
  define sel where "sel = stale_rows locked olderThan n rows"
  have sel: "set sel \<subseteq> {r \<in> set rows. or_status r = OProcessing}"
    by (auto simp: sel_def stale_rows_def dest!: in_set_takeD)
  have "row_moves r (if or_id r \<in> or_id ` set sel then r\<lparr>or_status := OPending, or_updatedAt := now\<rparr> else r)"
    if "r \<in> set rows" for r
  proof (cases "or_id r \<in> or_id ` set sel")
    case True
    then have "or_status r = OProcessing" using sel id_selected[OF assms that, of sel] by auto
    then show ?thesis by (simp add: row_moves_def)
  qed simp
  then have "table_moves rows (map (\<lambda>r. if or_id r \<in> or_id ` set sel then r\<lparr>or_status := OPending, or_updatedAt := now\<rparr> else r) rows)"
    by (rule table_moves_map[OF assms])
  then show ?thesis by (simp add: reclaimStaleProcessing_def Let_def sel_def)
qed

lemma publish_moves:
  assumes "list_all (\<lambda>ev. \<bar>event_time ev\<bar> \<le> MAX_TIME) evs" "fresh_ids uuids (length evs) rows"
    "eventPublisher_publish uuids now (map event_object evs) (Some tx) rows = (Inr (), rows')" "ids_ok rows"
  shows "table_moves rows rows'"
proof -
  obtain es where es: "rows' = rows @ es" "map or_id es = map uuids [0 ..< length evs]" "list_all (\<lambda>r. or_status r = OPending) es"
    using publish_appends[OF assms(1,2)] assms(3) by (metis prod.inject)
  have "or_id ` set es = set (map or_id es)" by simp
  then have "ids_ok rows'" using assms(2,4) es(2) by (auto simp: es(1) fresh_ids_def)
  then show ?thesis using es unfolding table_moves_def by (intro exI[of _ "\<lambda>r. r"] exI[of _ es]) simp
qed

lemma findById_in: "findById i rows = Some r \<Longrightarrow> r \<in> set rows \<and> or_id r = i"
  using lookup_row_Some by (metis findById_def)

lemma process_moves:
  assumes "ids_ok rows" "outbox_process otherFormat validUuid outage now bus job (rows, w) = (res, (rows', w'))"
  shows "table_moves rows rows'"
proof -
  have "rows' = rows \<or> (\<exists>i. rows' = outbox_complete now i rows) \<or> (\<exists>i. rows' = outbox_fail now i rows)"
    using assms(2) unfolding outbox_process_def
    by (auto simp: Let_def split: option.splits sum.splits prod.splits if_splits)
  then show ?thesis using table_moves_refl complete_moves fail_moves assms(1) by metis
qed

lemma outbox_step_moves:
  assumes "driver_columns driver" "outbox_step otherFormat driver validUuid bus (rows, w) (rows', w')" "ids_ok rows"
  shows "table_moves rows rows'"
  using assms(2)
proof (cases rule: outbox_step.cases)
  case (publishes evs uuids now tx)
  then show ?thesis using publish_moves assms(3) by blast
next
  case (claims locked now n)
  then show ?thesis using claim_moves[OF assms(1,3)] by simp
next
  case (processes outage now job)
  then show ?thesis using process_moves[OF assms(3)] by (metis prod.collapse)
next
  case (reclaims countRow stringToNumber locked now olderThan n)
  then show ?thesis using reclaim_moves[OF assms(3)] by simp
qed

abbreviation outbox_steps where
  "outbox_steps otherFormat driver validUuid bus \<equiv> (outbox_step otherFormat driver validUuid bus)\<^sup>*\<^sup>*"

definition final_status :: "outboxStatus \<Rightarrow> bool" where
  "final_status s \<longleftrightarrow> s = OProcessed \<or> s = OFailed"

lemma row_moves_final: "row_moves r r' \<Longrightarrow> final_status (or_status r) \<Longrightarrow> r' = r"
  by (auto simp: row_moves_def final_status_def)


section \<open>Processed means handled\<close>

abbreviation worker_bus :: "handledLog list eventBus" where
  "worker_bus \<equiv> subscription_onModuleInit bus_empty"

definition row_log :: "outboxRow \<Rightarrow> handledLog" where
  "row_log r = \<lparr>hl_eventType = or_eventType r, hl_tenantId = or_tenantId r\<rparr>"

definition processed_log :: "outboxRow list \<Rightarrow> handledLog multiset" where
  "processed_log rows = mset (map row_log (filter (\<lambda>r. or_status r = OProcessed) rows))"

text \<open>The columns of a row agree with its payload.\<close>

definition row_ok :: "(string \<Rightarrow> date) \<Rightarrow> outboxRow \<Rightarrow> bool" where
  "row_ok otherFormat r \<longleftrightarrow> (\<exists>event. deserialize otherFormat (or_payload r) = Inr event
     \<and> event_type event = or_eventType r \<and> extractTenantId event = or_tenantId r)"

lemma worker_dispatch:
  "outbox_dispatch validUuid worker_bus t event handled =
     (if (case t of None \<Rightarrow> True | Some u \<Rightarrow> validUuid u) then (Inr (), logging_handle event handled) else (Inl ZodError, handled))"
  by (simp add: outbox_dispatch_def subscription_onModuleInit_def bus_registerAll_def bus_empty_def handlers_get_def
      tenantContext_run_def split: option.splits)

lemma processed_log_map:
  assumes "\<And>r. r \<in> set rows \<Longrightarrow> or_status (f r) = OProcessed \<or> or_status r = OProcessed \<Longrightarrow> f r = r"
  shows "processed_log (map f rows) = processed_log rows"
  using assms
proof (induction rows)
  case (Cons r rows)
  have IH: "processed_log (map f rows) = processed_log rows" using Cons by simp
  show ?case
  proof (cases "or_status (f r) = OProcessed \<or> or_status r = OProcessed")
    case True
    then have fr: "f r = r" using Cons.prems by simp
    show ?thesis using IH unfolding list.map fr by (simp add: processed_log_def)
  next
    case False
    then show ?thesis using IH by (simp add: processed_log_def)
  qed
qed simp

lemma processed_log_complete:
  assumes "ids_ok rows" "e \<in> set rows" "or_status e = OProcessing"
  shows "processed_log (outbox_complete now (or_id e) rows) = add_mset (row_log e) (processed_log rows)"
  using assms
proof (induction rows)
  case (Cons r rows)
  show ?case
  proof (cases "r = e")
    case True
    have "outbox_complete now (or_id e) rows = rows"
      using Cons.prems(1) True unfolding outbox_complete_def by (intro map_idI) (auto simp: image_iff)
    then show ?thesis using True Cons.prems(3) by (simp add: outbox_complete_def processed_log_def row_log_def)
  next
    case False
    then have e: "e \<in> set rows" using Cons.prems(2) by simp
    then have "or_id r \<noteq> or_id e" using Cons.prems(1) by (metis distinct.simps(2) image_eqI list.set_map list.simps(9))
    then show ?thesis using Cons.IH Cons.prems(1,3) e
      by (simp add: outbox_complete_def processed_log_def row_log_def)
  qed
qed simp

definition delivery_inv :: "(string \<Rightarrow> date) \<Rightarrow> outboxRow list \<times> handledLog list \<Rightarrow> bool" where
  "delivery_inv otherFormat s \<longleftrightarrow> ids_ok (fst s) \<and> list_all (row_ok otherFormat) (fst s)
     \<and> processed_log (fst s) \<subseteq># mset (snd s)"

lemma moves_rows_ok:
  assumes "list_all (row_ok otherFormat) rows" "\<forall>r \<in> set rows. row_moves r (f r)"
  shows "list_all (row_ok otherFormat) (map f rows)"
  using assms by (auto simp: list_all_iff row_ok_def row_moves_def)

lemma holds_rows_ok: "outbox_holds otherFormat es evs \<Longrightarrow> list_all (row_ok otherFormat) es"
  unfolding outbox_holds_def
  by (induction rule: list_all2_induct) (auto simp: row_ok_def)

lemma outbox_fail_log: "processed_log (outbox_fail now i rows) = processed_log rows"
  unfolding outbox_fail_def by (rule processed_log_map) auto

lemma fail_inv: "delivery_inv otherFormat (rows, h) \<Longrightarrow> delivery_inv otherFormat (outbox_fail now i rows, h)"
proof -
  assume inv: "delivery_inv otherFormat (rows, h)"
  then have "ids_ok (outbox_fail now i rows)" using table_moves_ids[OF fail_moves] by (simp add: delivery_inv_def)
  moreover have "list_all (row_ok otherFormat) (outbox_fail now i rows)"
    using inv unfolding outbox_fail_def by (intro moves_rows_ok) (auto simp: delivery_inv_def row_moves_def)
  ultimately show ?thesis using inv by (simp add: delivery_inv_def outbox_fail_log)
qed

lemma handled_inv: "delivery_inv otherFormat (rows, h) \<Longrightarrow> delivery_inv otherFormat (rows, h @ h2)"
  by (simp add: delivery_inv_def subset_mset.add_increasing2)

lemma complete_inv:
  assumes "delivery_inv otherFormat (rows, h)" "e \<in> set rows" "or_status e = OProcessing"
  shows "delivery_inv otherFormat (outbox_complete now (or_id e) rows, h @ [row_log e])"
proof -
  have ok: "ids_ok rows" using assms(1) by (simp add: delivery_inv_def)
  have "list_all (row_ok otherFormat) (outbox_complete now (or_id e) rows)"
    using assms(1) unfolding outbox_complete_def by (intro moves_rows_ok) (auto simp: delivery_inv_def row_moves_def)
  moreover have "ids_ok (outbox_complete now (or_id e) rows)" using complete_moves[OF ok] table_moves_ids by blast
  ultimately show ?thesis using assms(1) processed_log_complete[OF ok assms(2,3)]
    by (simp add: delivery_inv_def)
qed

lemma process_inv:
  assumes inv: "delivery_inv otherFormat (rows, h)"
    and run: "outbox_process otherFormat validUuid outage now worker_bus job (rows, h) = (res, (rows', h'))"
  shows "delivery_inv otherFormat (rows', h')"
proof (cases "findById (oj_outboxId (job_data job)) rows")
  case None
  then show ?thesis using inv run by (simp add: outbox_process_def)
next
  case (Some e)
  show ?thesis
  proof (cases "or_status e = OProcessing")
    case False
    then show ?thesis using inv run Some by (simp add: outbox_process_def)
  next
    case True
    have e: "e \<in> set rows" using findById_in Some by blast
    then obtain event where event: "deserialize otherFormat (or_payload e) = Inr event"
      "event_type event = or_eventType e" "extractTenantId event = or_tenantId e"
      using inv by (auto simp: delivery_inv_def list_all_iff row_ok_def)
    have logged: "logging_handle event h = h @ [row_log e]" using event by (simp add: logging_handle_def row_log_def)
    have "(rows', h') \<in> {(rows, h), (outbox_fail now (or_id e) rows, h), (rows, h @ [row_log e]),
        (outbox_fail now (or_id e) rows, h @ [row_log e]), (outbox_complete now (or_id e) rows, h @ [row_log e])}"
      using run Some True unfolding outbox_process_def
      by (auto simp: Let_def event(1) worker_dispatch logged split: option.splits sum.splits prod.splits if_splits)
    then show ?thesis using inv complete_inv[OF inv e True] fail_inv handled_inv by blast
  qed
qed

lemma step_inv:
  assumes "driver_columns driver" "outbox_step otherFormat driver validUuid worker_bus s s'" "delivery_inv otherFormat s"
  shows "delivery_inv otherFormat s'"
  using assms(2)
proof (cases rule: outbox_step.cases)
  case (publishes evs uuids rows now tx rows' w)
  obtain es where es: "rows' = rows @ es" "list_all (\<lambda>r. or_status r = OPending) es" "outbox_holds otherFormat es evs"
    using publish_appends[OF publishes(3,4), of now tx otherFormat] publishes(5) by (metis prod.inject)
  have "processed_log rows' = processed_log rows"
    using es(2) by (auto simp: es(1) processed_log_def filter_empty_conv list_all_iff)
  moreover have "ids_ok rows'" using publish_moves[OF publishes(3-5)] assms(3) publishes(1) table_moves_ids by (auto simp: delivery_inv_def)
  ultimately show ?thesis using assms(3) publishes(1,2) holds_rows_ok[OF es(3)] by (simp add: delivery_inv_def es(1))
next
  case (claims rows w locked now n)
  have inv: "ids_ok rows" "list_all (row_ok otherFormat) rows" using assms(3) claims(1) by (simp_all add: delivery_inv_def)
  define sel where "sel = select_pending locked n rows"
  let ?f = "\<lambda>r. if or_id r \<in> or_id ` set sel then mark_processing now r else r"
  have c: "snd (claimBatch otherFormat driver locked now n rows) = map ?f rows"
    by (simp add: claimBatch_selected[OF assms(1)] Let_def sel_def)
  have selr: "set sel \<subseteq> set rows" "\<forall>r \<in> set sel. or_status r = OPending"
    using select_pending_in unfolding sel_def by blast+
  have "processed_log (map ?f rows) = processed_log rows"
    using id_selected[OF inv(1) _ selr(1)] selr(2) by (intro processed_log_map) (auto simp: mark_processing_def split: if_splits)
  moreover have "list_all (row_ok otherFormat) (map ?f rows)"
    using inv(2) by (auto simp: list_all_iff row_ok_def mark_processing_def)
  moreover have "ids_ok (map ?f rows)" using inv(1) by (intro ids_ok_map) (simp_all add: mark_processing_def)
  ultimately show ?thesis using assms(3) claims by (simp add: delivery_inv_def c)
next
  case (processes outage now job)
  then show ?thesis using process_inv assms(3) by (metis prod.collapse)
next
  case (reclaims rows w countRow stringToNumber locked now olderThan n)
  have inv: "ids_ok rows" "list_all (row_ok otherFormat) rows" using assms(3) reclaims(1) by (simp_all add: delivery_inv_def)
  define sel where "sel = stale_rows locked olderThan n rows"
  let ?f = "\<lambda>r. if or_id r \<in> or_id ` set sel then r\<lparr>or_status := OPending, or_updatedAt := now\<rparr> else r"
  have c: "snd (reclaimStaleProcessing countRow stringToNumber locked now olderThan n rows) = map ?f rows"
    by (simp add: reclaimStaleProcessing_def Let_def sel_def)
  have selr: "set sel \<subseteq> set rows" "\<forall>r \<in> set sel. or_status r = OProcessing"
    by (auto simp: sel_def stale_rows_def dest!: in_set_takeD)
  have "processed_log (map ?f rows) = processed_log rows"
    using id_selected[OF inv(1) _ selr(1)] selr(2) by (intro processed_log_map) (auto split: if_splits)
  moreover have "list_all (row_ok otherFormat) (map ?f rows)" using inv(2) by (auto simp: list_all_iff row_ok_def)
  moreover have "ids_ok (map ?f rows)" using inv(1) by (intro ids_ok_map) simp_all
  ultimately show ?thesis using assms(3) reclaims by (simp add: delivery_inv_def c)
qed

text \<open>C22: at-least-once delivery of the worker.  Starting from an empty table, whatever is published,
  claimed, processed, retried and reclaimed, with any statement failures, every row marked processed has its
  own entry in the record of handled events, with the row's event type and tenant.\<close>

theorem processed_rows_were_handled:
  assumes "driver_columns driver" "outbox_steps otherFormat driver validUuid worker_bus ([], []) (rows, handled)"
  shows "processed_log rows \<subseteq># mset handled"
proof -
  have "delivery_inv otherFormat (rows, handled)"
    using assms(2)
  proof (induction "(rows, handled)" arbitrary: rows handled rule: rtranclp_induct)
    case base
    then show ?case by (simp add: delivery_inv_def processed_log_def)
  next
    case (step y)
    obtain rows1 h1 where y: "y = (rows1, h1)" by (cases y)
    show ?case using step_inv[OF assms(1) step.hyps(2)] step.hyps(3)[OF y] y by simp
  qed
  then show ?thesis by (simp add: delivery_inv_def)
qed

section \<open>Failing jobs\<close>

lemma lookup_map: "(\<And>r. key (f r) = key r) \<Longrightarrow> lookup_row key i (map f rows) = map_option f (lookup_row key i rows)"
  by (induction rows) (simp_all add: lookup_row_def)

text \<open>when a job of a claimed row ends in an error, the row becomes failed (with one more attempt
  counted) exactly when the queue logs the job as exhausted; before that it stays processing, so that
  the retry finds it again.\<close>

theorem failed_iff_exhausted:
  assumes "findById (oj_outboxId payload) rows = Some e" "or_status e = OProcessing" "outage SFail = None"
    "outbox_process otherFormat validUuid outage now bus (worker_job payload n att) (rows, w) = (Inl err, (rows', w'))"
  shows "(if failed_message (Some (n + 1, att)) = ''job exhausted''
      then findById (oj_outboxId payload) rows' = Some (e\<lparr>or_status := OFailed, or_attemptCount := or_attemptCount e + 1, or_updatedAt := now\<rparr>)
      else rows' = rows \<and> findById (oj_outboxId payload) rows' = Some e)"
proof -
  have id: "or_id e = oj_outboxId payload" using findById_in[OF assms(1)] by simp
  have ex: "failed_message (Some (n + 1, att)) = ''job exhausted'' \<longleftrightarrow> n + 1 \<ge> (case att of Some k \<Rightarrow> k | None \<Rightarrow> 1)"
    by (auto simp: failed_message_def Let_def split: option.splits)
  have r: "rows' = (if n + 1 \<ge> (case att of Some k \<Rightarrow> k | None \<Rightarrow> 1) then outbox_fail now (or_id e) rows else rows)"
    using assms by (auto simp: outbox_process_def worker_job_def Let_def split: option.splits sum.splits prod.splits if_splits)
  have "findById (oj_outboxId payload) (outbox_fail now (or_id e) rows)
      = Some (e\<lparr>or_status := OFailed, or_attemptCount := or_attemptCount e + 1, or_updatedAt := now\<rparr>)"
    using assms(1,2) unfolding findById_def outbox_fail_def by (subst lookup_map) (simp_all add: id)
  then show ?thesis using assms(1) r ex by simp
qed

section \<open>The order of handlers\<close>

datatype 'w registration = Typed string "'w handler" | CatchAll "'w handler"

definition apply_registration :: "'w eventBus \<Rightarrow> 'w registration \<Rightarrow> 'w eventBus" where
  "apply_registration bus g = (case g of Typed ty h \<Rightarrow> bus_register ty h bus | CatchAll h \<Rightarrow> bus_registerAll h bus)"

definition typed_for :: "string \<Rightarrow> 'w registration list \<Rightarrow> 'w handler list" where
  "typed_for ty regs = concat (map (\<lambda>g. case g of Typed t h \<Rightarrow> if t = ty then [h] else [] | CatchAll h \<Rightarrow> []) regs)"

definition catch_alls :: "'w registration list \<Rightarrow> 'w handler list" where
  "catch_alls regs = concat (map (\<lambda>g. case g of Typed t h \<Rightarrow> [] | CatchAll h \<Rightarrow> [h]) regs)"

lemma handlers_get_register: "handlers_get ty (bus_register ty' h bus) = handlers_get ty bus @ (if ty' = ty then [h] else [])"
  by (auto simp: handlers_get_def bus_register_def map_of_upsert Let_def)

lemma catchAll_register: "bus_catchAll (bus_register ty h bus) = bus_catchAll bus"
  by (simp add: bus_register_def Let_def)

lemma bus_empty_handlers [simp]: "handlers_get ty bus_empty = []" "bus_catchAll bus_empty = []"
  by (simp_all add: handlers_get_def bus_empty_def)

lemma registered_handlers:
  "handlers_get ty (foldl apply_registration bus regs) = handlers_get ty bus @ typed_for ty regs \<and>
   bus_catchAll (foldl apply_registration bus regs) = bus_catchAll bus @ catch_alls regs"
proof (induction regs arbitrary: bus)
  case (Cons g regs)
  show ?case
  proof (cases g)
    case (Typed t h)
    then show ?thesis using Cons[of "bus_register t h bus"]
      by (simp add: apply_registration_def handlers_get_register catchAll_register typed_for_def catch_alls_def)
  next
    case (CatchAll h)
    then show ?thesis using Cons[of "bus_registerAll h bus"]
      by (simp add: apply_registration_def bus_registerAll_def typed_for_def catch_alls_def handlers_get_def)
  qed
qed (simp add: typed_for_def catch_alls_def)

text \<open>after any sequence of registrations, an event runs through the handlers registered for its
  type and then through the catch-all handlers, each group in registration order; events are dispatched one
  after the other, and the first error ends the dispatch.\<close>

theorem bus_runs_in_order:
  "bus_dispatch (foldl apply_registration bus_empty regs) (event # events) store w =
     (case run_handlers (typed_for (event_type event) regs @ catch_alls regs) store event w of
        (Inl e, w') \<Rightarrow> (Inl e, w')
      | (Inr _, w') \<Rightarrow> bus_dispatch (foldl apply_registration bus_empty regs) events store w')"
proof -
  show ?thesis
    using registered_handlers[of "event_type event" bus_empty regs] by simp
qed

section \<open>Maintenance\<close>

definition due_rows :: "millis \<Rightarrow> outboxRow list \<Rightarrow> outboxRow list" where
  "due_rows olderThan rows = filter (\<lambda>r. or_status r = OProcessing \<and> or_updatedAt r < olderThan) rows"

lemma to_number_int: "\<bar>i\<bar> \<le> MAX_TIME \<Longrightarrow> to_number (of_int i) = num i"
proof -
  assume "\<bar>i\<bar> \<le> MAX_TIME"
  then have "(of_int \<bar>i\<bar> :: rat) \<le> of_int MAX_TIME" using of_int_le_iff by blast
  also have "\<dots> \<le> 2 ^ 900" by (simp add: MAX_TIME_def)
  finally show ?thesis by (simp add: num_def to_number_small)
qed

lemma dateOfNumber_int: "\<bar>i\<bar> \<le> MAX_TIME \<Longrightarrow> dateOfNumber (num i) = Some i"
proof -
  assume "\<bar>i\<bar> \<le> MAX_TIME"
  then have "(of_int \<bar>i\<bar> :: rat) \<le> of_int MAX_TIME" using of_int_le_iff by blast
  then show ?thesis by (simp add: dateOfNumber_def num_def)
qed

lemma stale_instant:
  "\<bar>now - k\<bar> \<le> MAX_TIME \<Longrightarrow> bindR (toUnixMs (Some now)) (\<lambda>ms. fromUnixMs (num_plus ms (num (- k)))) = Inr (Some (now - k))"
proof -
  assume a: "\<bar>now - k\<bar> \<le> MAX_TIME"
  have "num_plus (num now) (num (- k)) = num (now - k)"
    using to_number_int[OF a] by (simp add: num_plus_def num_def)
  then show ?thesis using dateOfNumber_int[OF a]
    by (simp add: toUnixMs_def assertValid_def isValid_def getTime_def fromUnixMs_def)
qed

lemma length_selected:
  assumes "ids_ok rows" "set sel \<subseteq> set rows" "distinct sel"
  shows "length (filter (\<lambda>r. or_id r \<in> or_id ` set sel) rows) = length sel"
proof -
  have d: "distinct rows" using assms(1) by (simp add: distinct_map)
  have "filter (\<lambda>r. or_id r \<in> or_id ` set sel) rows = filter (\<lambda>r. r \<in> set sel) rows"
    using id_selected[OF assms(1) _ assms(2)] by (auto intro: filter_cong)
  then have "length (filter (\<lambda>r. or_id r \<in> or_id ` set sel) rows) = card (set sel \<inter> set rows)"
    using distinct_length_filter[OF d, of "\<lambda>r. r \<in> set sel"] by simp
  also have "\<dots> = length sel" using assms(2,3) by (simp add: Int_absorb2 distinct_card)
  finally show ?thesis .
qed

lemma reclaim_due:
  assumes "ids_ok rows" "\<And>k. countRow k = JArr [JObj [(''count'', JNum (num (int k)))]]"
  shows "\<exists>rows'. reclaimStaleProcessing countRow stringToNumber (\<lambda>_. False) now olderThan n rows =
      (num (int (min n (length (due_rows olderThan rows)))), rows')
    \<and> length (due_rows olderThan rows') = length (due_rows olderThan rows) - n"
proof -
  define D where "D = due_rows olderThan rows"
  define sel where "sel = stale_rows (\<lambda>_. False) olderThan n rows"
  have s: "sel = take n (sort_key or_updatedAt D)" by (simp add: sel_def stale_rows_def D_def due_rows_def)
  have dD: "distinct D" using assms(1) by (simp add: D_def due_rows_def distinct_map)
  have sub: "set sel \<subseteq> set D" using set_take_subset[of n "sort_key or_updatedAt D"] by (simp add: s)
  have subr: "set sel \<subseteq> set rows" using sub by (auto simp: D_def due_rows_def)
  have ds: "distinct sel" using dD by (simp add: s)
  have len: "length sel = min n (length D)" by (simp add: s min.commute)
  let ?f = "\<lambda>r. if or_id r \<in> or_id ` set sel then r\<lparr>or_status := OPending, or_updatedAt := now\<rparr> else r"
  have "due_rows olderThan (map ?f rows) = filter (\<lambda>r. (or_status r = OProcessing \<and> or_updatedAt r < olderThan) \<and> or_id r \<notin> or_id ` set sel) rows"
    unfolding due_rows_def by (rule filter_map_update) auto
  also have "\<dots> = filter (\<lambda>r. r \<notin> set sel) D"
    using id_selected[OF assms(1) _ subr] by (auto simp: D_def due_rows_def intro: filter_cong)
  finally have left: "length (due_rows olderThan (map ?f rows)) = length (filter (\<lambda>r. r \<notin> set sel) D)" by simp
  have "length (filter (\<lambda>r. r \<in> set sel) D) = length sel"
    using distinct_length_filter[OF dD, of "\<lambda>r. r \<in> set sel"] sub ds by (simp add: Int_absorb2 distinct_card)
  then have "length (filter (\<lambda>r. r \<notin> set sel) D) = length D - n"
    using sum_length_filter_compl[of "\<lambda>r. r \<in> set sel" D] len by simp
  then have "length (due_rows olderThan (map ?f rows)) = length D - n" using left by simp
  moreover have "reclaimStaleProcessing countRow stringToNumber (\<lambda>_. False) now olderThan n rows = (num (int (min n (length D))), map ?f rows)"
    using length_selected[OF assms(1) subr ds] len
    by (simp add: reclaimStaleProcessing_def Let_def sqlCount_parse_def assms(2) obj_read_def obj_get_def flip: sel_def)
  ultimately show ?thesis by (simp add: D_def)
qed


section \<open>The poll timer\<close>

text \<open>The service as Nest runs it: initialised once, then ticks, timers and possibly the shutdown.\<close>

inductive relay_reachable :: "relayService \<Rightarrow> bool" where
  starts: "relay_reachable (relay_onModuleInit \<lparr>rs_stopped = False, rs_timer = False, rs_ticking = 0\<rparr>)"
| tick_ends: "relay_reachable s \<Longrightarrow> 0 < rs_ticking s \<Longrightarrow> relay_reachable (relay_tick_end s)"
| timer_fires: "relay_reachable s \<Longrightarrow> rs_timer s \<Longrightarrow> relay_reachable (relay_timer_fires s)"
| shuts_down: "relay_reachable s \<Longrightarrow> relay_reachable (relay_onModuleDestroy s)"

text \<open>at most one drain runs at a time, a service that is not stopped always has exactly one
  drain running or one timer armed, and a stopped one never has a timer, so it never drains again.\<close>

theorem relay_single_drain:
  assumes "relay_reachable s"
  shows "(if rs_stopped s then rs_ticking s \<le> 1 \<and> \<not> rs_timer s
    else rs_ticking s + (if rs_timer s then 1 else 0) = 1)"
  using assms
  by induction (auto simp: relay_onModuleInit_def relay_onModuleDestroy_def relay_tick_end_def relay_timer_fires_def
      Let_def split: if_splits)

section \<open>Concrete runs\<close>

definition sampleDriver :: "outboxRow \<Rightarrow> jsval" where
  "sampleDriver r = JObj [
     (''id'', JStr (or_id r)), (''event_type'', JStr (or_eventType r)), (''payload'', JObj (or_payload r)),
     (''tenant_id'', (case or_tenantId r of None \<Rightarrow> JNull | Some t \<Rightarrow> JStr t)),
     (''status'', JStr (outboxStatus_name (or_status r))), (''created_at'', JDate (Some (or_createdAt r))),
     (''processed_at'', (case or_processedAt r of None \<Rightarrow> JNull | Some d \<Rightarrow> JDate (Some d))),
     (''attempt_count'', JNum (num (or_attemptCount r)))]"

lemma sampleDriver_columns: "driver_columns sampleDriver"
  by (simp add: driver_columns_def sampleDriver_def)

definition sampleRow :: "string \<Rightarrow> outboxStatus \<Rightarrow> millis \<Rightarrow> outboxRow" where
  "sampleRow i st t = \<lparr>or_id = i, or_eventType = ''TenantRenamed'', or_payload =
     [(''type'', JStr ''TenantRenamed''), (''occurredAt'', JStr ''1970-01-01T00:00:00.000Z''), (''tenantId'', JStr ''t'')],
     or_tenantId = Some ''t'', or_status = st, or_createdAt = t, or_updatedAt = t, or_processedAt = None, or_attemptCount = 0\<rparr>"

lemma sampleRow_sel [simp]:
  "or_id (sampleRow i st t) = i" "or_status (sampleRow i st t) = st" "or_eventType (sampleRow i st t) = ''TenantRenamed''"
  "or_createdAt (sampleRow i st t) = t" "or_attemptCount (sampleRow i st t) = 0" "or_tenantId (sampleRow i st t) = Some ''t''"
  by (simp_all add: sampleRow_def)

definition sampleQueueAdd :: "(string \<times> string) list queueAdd" where
  "sampleQueueAdd name p j q = (Inr (), q @ [(j, name)])"

theorem drain_enqueues_each_once_witness:
  "\<exists>rows'. outbox_drain 4 (claimBatch (\<lambda>_. None) sampleDriver (\<lambda>_. False) 9 2) 2 sampleQueueAdd
      ([sampleRow ''a'' OPending 3, sampleRow ''b'' OProcessed 1, sampleRow ''c'' OPending 2], []) =
      Some (Inr (), (rows', [(''c'', ''TenantRenamed''), (''a'', ''TenantRenamed'')]))"
proof -
  let ?rows = "[sampleRow ''a'' OPending 3, sampleRow ''b'' OProcessed 1, sampleRow ''c'' OPending 2]"
  have q: "pending_queue ?rows = [sampleRow ''c'' OPending 2, sampleRow ''a'' OPending 3]"
    by (simp add: pending_queue_def)
  have "outbox_drain (Suc (length ?rows)) (claimBatch (\<lambda>_. None) sampleDriver (\<lambda>_. False) 9 2) 2 sampleQueueAdd (?rows, []) =
      Some (Inr (), (all_marked 9 ?rows,
        foldl (\<lambda>q r. snd (addOutboxJob sampleQueueAdd (job_of r) q)) [] (pending_queue ?rows)))"
    by (rule conjunct1[OF drain_enqueues_each_once[OF sampleDriver_columns]]) (simp_all add: sampleQueueAdd_def)
  moreover have "Suc (length ?rows) = 4" by simp
  moreover have "foldl (\<lambda>q r. snd (addOutboxJob sampleQueueAdd (job_of r) q)) [] (pending_queue ?rows)
      = [(''c'', ''TenantRenamed''), (''a'', ''TenantRenamed'')]"
    unfolding q by (simp add: sampleQueueAdd_def addOutboxJob_def job_of_def)
  ultimately show ?thesis by metis
qed

theorem publish_refines_append_witness:
  "\<exists>rows'. typeormUow_run ''tx'' (\<lambda>_. eventPublisher_publish (\<lambda>_. ''e1'') 5 (map event_object [TenantRenamed 7 ''t'' ''Acme'']))
      None [] = (Inr (), rows') \<and> outbox_holds (\<lambda>_. None) rows' [TenantRenamed 7 ''t'' ''Acme'']"
  using publish_refines_append[of "\<lambda>_. None" "[]" "[]" "[TenantRenamed 7 ''t'' ''Acme'']" "\<lambda>_. ''e1''" "''tx''" 5]
  by (simp add: outbox_holds_def fresh_ids_def MAX_TIME_def)


definition sampleProcessing :: outboxRow where
  "sampleProcessing = sampleRow ''a'' OProcessing 3"

theorem failed_iff_exhausted_witness:
  "\<exists>rows'. outbox_process (\<lambda>_. None) (\<lambda>_. False) (\<lambda>_. None) 9 worker_bus
      (worker_job \<lparr>oj_outboxId = ''a'', oj_eventType = ''TenantRenamed'', oj_tenantId = Some ''t''\<rparr> 2 (Some 3)) ([sampleProcessing], [])
        = (Inl ZodError, (rows', []))
    \<and> findById ''a'' rows' = Some (sampleProcessing\<lparr>or_status := OFailed, or_attemptCount := 1, or_updatedAt := 9\<rparr>)"
proof -
  let ?p = "\<lparr>oj_outboxId = ''a'', oj_eventType = ''TenantRenamed'', oj_tenantId = Some ''t''\<rparr>"
  have f: "findById ''a'' [sampleProcessing] = Some sampleProcessing"
    by (simp add: findById_def lookup_row_def sampleProcessing_def sampleRow_def)
  have d: "\<exists>ev. deserialize (\<lambda>_. None) (or_payload sampleProcessing) = Inr ev"
    by (simp add: deserialize_def sampleProcessing_def sampleRow_def obj_read_def obj_get_def)
  then have "\<exists>rows'. outbox_process (\<lambda>_. None) (\<lambda>_. False) (\<lambda>_. None) 9 worker_bus (worker_job ?p 2 (Some 3)) ([sampleProcessing], [])
      = (Inl ZodError, (rows', []))"
    by (auto simp: outbox_process_def worker_job_def f worker_dispatch Let_def)
      (simp_all add: sampleProcessing_def sampleRow_def)
  then obtain rows' where r: "outbox_process (\<lambda>_. None) (\<lambda>_. False) (\<lambda>_. None) 9 worker_bus (worker_job ?p 2 (Some 3)) ([sampleProcessing], [])
      = (Inl ZodError, (rows', []))" by blast
  have "or_status sampleProcessing = OProcessing" "or_attemptCount sampleProcessing = 0"
    by (simp_all add: sampleProcessing_def sampleRow_def)
  then show ?thesis using failed_iff_exhausted[of ?p "[sampleProcessing]" sampleProcessing "\<lambda>_. None", OF _ _ _ r] f r
    by (simp add: failed_message_def)
qed

theorem relay_single_drain_witness:
  "rs_stopped (relay_tick_end (relay_onModuleDestroy (relay_onModuleInit \<lparr>rs_stopped = False, rs_timer = False, rs_ticking = 0\<rparr>)))
   \<and> \<not> rs_timer (relay_tick_end (relay_onModuleDestroy (relay_onModuleInit \<lparr>rs_stopped = False, rs_timer = False, rs_ticking = 0\<rparr>)))"
proof -
  let ?s = "relay_onModuleDestroy (relay_onModuleInit \<lparr>rs_stopped = False, rs_timer = False, rs_ticking = 0\<rparr>)"
  have r: "relay_reachable (relay_tick_end ?s)"
    by (rule relay_reachable.tick_ends, rule relay_reachable.shuts_down, rule relay_reachable.starts)
      (simp add: relay_onModuleInit_def relay_onModuleDestroy_def)
  have "rs_stopped (relay_tick_end ?s)" by (simp add: relay_onModuleInit_def relay_onModuleDestroy_def relay_tick_end_def Let_def)
  then show ?thesis using relay_single_drain[OF r] by simp
qed

text \<open>One event published, claimed and processed.\<close>

definition publishedRows :: "outboxRow list" where
  "publishedRows = snd (eventPublisher_publish (\<lambda>_. ''e1'') 5 (map event_object [TenantRenamed 7 ''t'' ''Acme'']) (Some ''tx'') [])"

definition claimedRows :: "outboxRow list" where
  "claimedRows = snd (claimBatch (\<lambda>_. None) sampleDriver (\<lambda>_. False) 9 2 publishedRows)"

definition sampleJob :: outboxJob where
  "sampleJob = worker_job \<lparr>oj_outboxId = ''e1'', oj_eventType = ''TenantRenamed'', oj_tenantId = Some ''t''\<rparr> 0 (Some 3)"

definition processedRun :: "outboxRow list \<times> handledLog list" where
  "processedRun = snd (outbox_process (\<lambda>_. None) (\<lambda>_. True) (\<lambda>_. None) 11 worker_bus sampleJob (claimedRows, []))"

theorem processed_rows_were_handled_witness:
  "processed_log (fst processedRun) = {# \<lparr>hl_eventType = ''TenantRenamed'', hl_tenantId = Some ''t''\<rparr> #} \<and>
   processed_log (fst processedRun) \<subseteq># mset (snd processedRun)"
proof -
  let ?steps = "outbox_steps (\<lambda>_. None) sampleDriver (\<lambda>_. True) worker_bus"
  have pub: "eventPublisher_publish (\<lambda>_. ''e1'') 5 (map event_object [TenantRenamed 7 ''t'' ''Acme'']) (Some ''tx'') [] = (Inr (), publishedRows)"
  proof -
    have "\<exists>es. eventPublisher_publish (\<lambda>_. ''e1'') 5 (map event_object [TenantRenamed 7 ''t'' ''Acme'']) (Some ''tx'') [] = (Inr (), [] @ es)"
      using publish_appends[of "[TenantRenamed 7 ''t'' ''Acme'']" "\<lambda>_. ''e1''" "[]" 5 "''tx''" "\<lambda>_. None"]
      by (fastforce simp: fresh_ids_def MAX_TIME_def)
    then show ?thesis unfolding publishedRows_def by (metis snd_conv)
  qed
  have s1: "outbox_step (\<lambda>_. None) sampleDriver (\<lambda>_. True) worker_bus ([], []) (publishedRows, [])"
    by (rule outbox_step.publishes[OF _ _ pub]) (simp_all add: MAX_TIME_def fresh_ids_def)
  have s2: "outbox_step (\<lambda>_. None) sampleDriver (\<lambda>_. True) worker_bus (publishedRows, []) (claimedRows, [])"
    unfolding claimedRows_def by (rule outbox_step.claims)
  have s3: "outbox_step (\<lambda>_. None) sampleDriver (\<lambda>_. True) worker_bus (claimedRows, []) processedRun"
    unfolding processedRun_def by (rule outbox_step.processes)
  have "?steps ([], []) (fst processedRun, snd processedRun)" using s1 s2 s3 by simp
  then have "processed_log (fst processedRun) \<subseteq># mset (snd processedRun)"
    by (rule processed_rows_were_handled[OF sampleDriver_columns])
  moreover have "map row_log (filter (\<lambda>r. or_status r = OProcessed) (fst processedRun))
      = [\<lparr>hl_eventType = ''TenantRenamed'', hl_tenantId = Some ''t''\<rparr>]" by code_simp
  then have "processed_log (fst processedRun) = {# \<lparr>hl_eventType = ''TenantRenamed'', hl_tenantId = Some ''t''\<rparr> #}"
    unfolding processed_log_def by simp
  ultimately show ?thesis by blast
qed

definition idleState :: maintenanceState where
  "idleState = \<lparr>ms_world = \<lparr>w_db = empty_db, w_cache = [], w_ids = 0, w_salt = 0, w_mails = [], w_now = 1000\<rparr>,
     ms_outbox = [sampleRow ''a'' OProcessing 3, sampleRow ''b'' OProcessing 990], ms_added = []\<rparr>"


end
