(* ===== verification/Postgres.thy ===== *)
theory Postgres
  imports Outbox Repositories "HOL-Library.List_Lexorder" "HOL-Library.Char_ord" "HOL-Library.Multiset"
begin

text \<open>
  The Postgres repositories (packages/infrastructure/postgres/src/contexts): entities and mappers, the
  writer of a parent row with its child rows, and one repository per aggregate over the tables.

  A table is a list of rows, a query is a filter of the list, and a query with no order returns the rows
  in table order.  What TypeORM and the database do on their own is in \<open>ormPorts\<close>: the check of the
  zod id schemas, the stamping of the audit columns on a save, the refusal of a write (a constraint, a lock,
  a version mismatch), the order in which the rows of a join come, the collation of names, and the driver's
  row for a count.  Row locks have no effect on a single sequence of statements.
\<close>

record auditedRow =
  ar_createdAt :: "millis option"
  ar_version :: "nat option"

datatype refusal = OptimisticLockVersionMismatch | RefusedWith error

record ormPorts =
  op_validUuid :: "string \<Rightarrow> bool"
  op_stamp :: "auditedRow option \<Rightarrow> auditedRow \<Rightarrow> auditedRow"
  op_refuses :: "string \<Rightarrow> string \<Rightarrow> refusal option"
  op_joinOrder :: "(string \<times> string) list \<Rightarrow> (string \<times> string) list"
  op_collate :: "string \<Rightarrow> string"
  op_countRow :: "nat \<Rightarrow> jsval"
  op_stringToNumber :: "string \<Rightarrow> number"

section \<open>Entities\<close>

record tenantEntity = auditedRow +
  te_id :: string
  te_tenantId :: string
  te_name :: string
  te_status :: string

record roleEntity = auditedRow +
  re_id :: string
  re_tenantId :: string
  re_name :: string
  re_isSystem :: bool

record membershipEntity = auditedRow +
  me_id :: string
  me_tenantId :: string
  me_userId :: string
  me_status :: string

record invitationEntity = auditedRow +
  ie_id :: string
  ie_tenantId :: string
  ie_email :: string
  ie_tokenHash :: string
  ie_expiresAt :: millis
  ie_invitedByUserId :: string
  ie_consumedAt :: "millis option"

record userEntity = auditedRow +
  ue_id :: string
  ue_email :: string
  ue_displayName :: string
  ue_status :: string

record localPasswordEntity = auditedRow +
  pe_userId :: string
  pe_passwordHash :: string

record refreshSessionEntity = auditedRow +
  se_id :: string
  se_userId :: string
  se_familyId :: string
  se_tokenHash :: string
  se_expiresAt :: millis
  se_revokedAt :: "millis option"

record passwordResetTokenEntity = auditedRow +
  pt_userId :: string
  pt_tokenHash :: string
  pt_expiresAt :: millis
  pt_consumedAt :: "millis option"

record apiKeyEntity = auditedRow +
  ke_id :: string
  ke_tenantId :: string
  ke_createdByUserId :: string
  ke_name :: string
  ke_prefix :: string
  ke_secretHash :: string
  ke_permissions :: "string list"
  ke_expiresAt :: "millis option"
  ke_revokedAt :: "millis option"
  ke_lastUsedAt :: "millis option"

text \<open>The child tables are pairs of a parent id and a value: a permission or a role id.\<close>

record pgDb =
  pg_tenants :: "tenantEntity list"
  pg_roles :: "roleEntity list"
  pg_rolePermissions :: "(string \<times> string) list"
  pg_memberships :: "membershipEntity list"
  pg_membershipRoles :: "(string \<times> string) list"
  pg_invitations :: "invitationEntity list"
  pg_invitationRoles :: "(string \<times> string) list"
  pg_users :: "userEntity list"
  pg_localPasswords :: "localPasswordEntity list"
  pg_refreshSessions :: "refreshSessionEntity list"
  pg_passwordResetTokens :: "passwordResetTokenEntity list"
  pg_apiKeys :: "apiKeyEntity list"

section \<open>Mappers\<close>

definition parseUuid :: "ormPorts \<Rightarrow> string \<Rightarrow> error + string" where
  "parseUuid ports s = (if op_validUuid ports s then Inr s else Inl ZodError)"

definition parseEnum :: "(string \<Rightarrow> 'a option) \<Rightarrow> string \<Rightarrow> error + 'a" where
  "parseEnum parse s = (case parse s of Some x \<Rightarrow> Inr x | None \<Rightarrow> Inl ZodError)"

definition parsePermission :: "string \<Rightarrow> error + permission" where
  "parsePermission = parseEnum permission_parse"

definition tenantMapper_toDomain :: "ormPorts \<Rightarrow> tenantEntity \<Rightarrow> error + tenant" where
  "tenantMapper_toDomain ports row =
     bindR (parseUuid ports (te_id row)) (\<lambda>i.
     bindR (parseEnum accountStatus_parse (te_status row)) (\<lambda>st.
     Inr (tenant_reconstitute i (te_name row) st)))"

definition tenantMapper_toEntity :: "tenant \<Rightarrow> tenantEntity" where
  "tenantMapper_toEntity t = \<lparr>ar_createdAt = None, ar_version = None, te_id = ent_id t, te_tenantId = ent_id t,
     te_name = tenant_name t, te_status = accountStatus_name (tenant_status t)\<rparr>"

definition roleMapper_toDomain :: "ormPorts \<Rightarrow> roleEntity \<Rightarrow> string list \<Rightarrow> error + role" where
  "roleMapper_toDomain ports row permissions =
     bindR (parseUuid ports (re_id row)) (\<lambda>i.
     bindR (parseUuid ports (re_tenantId row)) (\<lambda>t.
     bindR (mapR parsePermission permissions) (\<lambda>ps.
     role_reconstitute i t (re_name row) ps (re_isSystem row))))"

definition roleMapper_toEntity :: "role \<Rightarrow> roleEntity \<times> (string \<times> string) list" where
  "roleMapper_toEntity r = (\<lparr>ar_createdAt = None, ar_version = None, re_id = ent_id r, re_tenantId = r_tenantId r,
     re_name = r_name r, re_isSystem = r_isSystem r\<rparr>, map (\<lambda>p. (ent_id r, p)) (r_permissions r))"

definition membershipMapper_toDomain :: "ormPorts \<Rightarrow> membershipEntity \<Rightarrow> string list \<Rightarrow> error + membership" where
  "membershipMapper_toDomain ports row roleIds =
     bindR (parseUuid ports (me_id row)) (\<lambda>i.
     bindR (parseUuid ports (me_tenantId row)) (\<lambda>t.
     bindR (parseUuid ports (me_userId row)) (\<lambda>u.
     bindR (mapR (parseUuid ports) roleIds) (\<lambda>rs.
     bindR (parseEnum membershipStatus_parse (me_status row)) (\<lambda>st.
     Inr (membership_reconstitute i t u rs st))))))"

definition membershipMapper_toEntity :: "membership \<Rightarrow> membershipEntity \<times> (string \<times> string) list" where
  "membershipMapper_toEntity m = (\<lparr>ar_createdAt = None, ar_version = None, me_id = ent_id m, me_tenantId = m_tenantId m,
     me_userId = m_userId m, me_status = membershipStatus_name (m_status m)\<rparr>, map (\<lambda>r. (ent_id m, r)) (m_roleIds m))"

definition invitationMapper_toDomain :: "ormPorts \<Rightarrow> invitationEntity \<Rightarrow> string list \<Rightarrow> error + invitation" where
  "invitationMapper_toDomain ports row roleIds =
     bindR (parseUuid ports (ie_id row)) (\<lambda>i.
     bindR (parseUuid ports (ie_tenantId row)) (\<lambda>t.
     bindR (mapR (parseUuid ports) roleIds) (\<lambda>rs.
     bindR (parseUuid ports (ie_invitedByUserId row)) (\<lambda>u.
     Inr (invitation_reconstitute i t (ie_email row) rs (ie_tokenHash row) (ie_expiresAt row) u (ie_consumedAt row))))))"

definition invitationMapper_toEntity :: "invitation \<Rightarrow> invitationEntity \<times> (string \<times> string) list" where
  "invitationMapper_toEntity iv = (\<lparr>ar_createdAt = None, ar_version = None, ie_id = ent_id iv, ie_tenantId = i_tenantId iv,
     ie_email = i_email iv, ie_tokenHash = i_tokenHash iv, ie_expiresAt = i_expiresAt iv,
     ie_invitedByUserId = i_invitedByUserId iv, ie_consumedAt = i_consumedAt iv\<rparr>,
     map (\<lambda>r. (ent_id iv, r)) (i_roleIds iv))"

definition userMapper_toDomain :: "ormPorts \<Rightarrow> userEntity \<Rightarrow> error + user" where
  "userMapper_toDomain ports row =
     bindR (parseUuid ports (ue_id row)) (\<lambda>i.
     bindR (parseEnum accountStatus_parse (ue_status row)) (\<lambda>st.
     Inr (user_reconstitute i (ue_email row) (ue_displayName row) st)))"

definition userMapper_toEntity :: "user \<Rightarrow> userEntity" where
  "userMapper_toEntity u = \<lparr>ar_createdAt = None, ar_version = None, ue_id = ent_id u, ue_email = u_email u,
     ue_displayName = u_displayName u, ue_status = accountStatus_name (u_status u)\<rparr>"

definition localPasswordMapper_toDomain :: "ormPorts \<Rightarrow> localPasswordEntity \<Rightarrow> error + localPassword" where
  "localPasswordMapper_toDomain ports row =
     bindR (parseUuid ports (pe_userId row)) (\<lambda>u. Inr \<lparr>ent_id = u, p_passwordHash = pe_passwordHash row\<rparr>)"

definition localPasswordMapper_toEntity :: "localPassword \<Rightarrow> localPasswordEntity" where
  "localPasswordMapper_toEntity p = \<lparr>ar_createdAt = None, ar_version = None, pe_userId = ent_id p,
     pe_passwordHash = p_passwordHash p\<rparr>"

definition refreshSessionMapper_toDomain :: "ormPorts \<Rightarrow> refreshSessionEntity \<Rightarrow> error + refreshSession" where
  "refreshSessionMapper_toDomain ports row =
     bindR (parseUuid ports (se_id row)) (\<lambda>i.
     bindR (parseUuid ports (se_userId row)) (\<lambda>u.
     bindR (parseUuid ports (se_familyId row)) (\<lambda>f.
     Inr (session_reconstitute i u f (se_tokenHash row) (se_expiresAt row) (se_revokedAt row)))))"

definition refreshSessionMapper_toEntity :: "refreshSession \<Rightarrow> refreshSessionEntity" where
  "refreshSessionMapper_toEntity s = \<lparr>ar_createdAt = None, ar_version = None, se_id = ent_id s, se_userId = s_userId s,
     se_familyId = s_familyId s, se_tokenHash = s_tokenHash s, se_expiresAt = s_expiresAt s, se_revokedAt = s_revokedAt s\<rparr>"

definition passwordResetTokenMapper_toDomain :: "ormPorts \<Rightarrow> passwordResetTokenEntity \<Rightarrow> error + passwordResetToken" where
  "passwordResetTokenMapper_toDomain ports row =
     bindR (parseUuid ports (pt_userId row)) (\<lambda>u.
     Inr (resetToken_reconstitute u (pt_tokenHash row) (pt_expiresAt row) (pt_consumedAt row)))"

definition passwordResetTokenMapper_toEntity :: "passwordResetToken \<Rightarrow> passwordResetTokenEntity" where
  "passwordResetTokenMapper_toEntity t = \<lparr>ar_createdAt = None, ar_version = None, pt_userId = ent_id t,
     pt_tokenHash = t_tokenHash t, pt_expiresAt = t_expiresAt t, pt_consumedAt = t_consumedAt t\<rparr>"

definition apiKeyMapper_toDomain :: "ormPorts \<Rightarrow> apiKeyEntity \<Rightarrow> error + apiKey" where
  "apiKeyMapper_toDomain ports row =
     bindR (parseUuid ports (ke_id row)) (\<lambda>i.
     bindR (parseUuid ports (ke_tenantId row)) (\<lambda>t.
     bindR (parseUuid ports (ke_createdByUserId row)) (\<lambda>u.
     bindR (mapR parsePermission (ke_permissions row)) (\<lambda>ps.
     Inr (apiKey_reconstitute i t u (ke_name row) (ke_prefix row) (ke_secretHash row) ps (ke_expiresAt row)
       (ke_revokedAt row) (ke_lastUsedAt row))))))"

definition apiKeyMapper_toEntity :: "apiKey \<Rightarrow> apiKeyEntity" where
  "apiKeyMapper_toEntity k = \<lparr>ar_createdAt = None, ar_version = None, ke_id = ent_id k, ke_tenantId = k_tenantId k,
     ke_createdByUserId = k_createdByUserId k, ke_name = k_name k, ke_prefix = k_prefix k, ke_secretHash = k_secretHash k,
     ke_permissions = k_permissions k, ke_expiresAt = k_expiresAt k, ke_revokedAt = k_revokedAt k,
     ke_lastUsedAt = k_lastUsedAt k\<rparr>"

section \<open>Statements\<close>

definition manager_save :: "ormPorts \<Rightarrow> string \<Rightarrow> ('r auditedRow_scheme \<Rightarrow> string) \<Rightarrow> 'r auditedRow_scheme \<Rightarrow>
    'r auditedRow_scheme list \<Rightarrow> refusal + 'r auditedRow_scheme list" where
  "manager_save ports table key row rows = (case op_refuses ports table (key row) of
     Some r \<Rightarrow> Inl r
   | None \<Rightarrow>
       let stamped = op_stamp ports (map_option auditedRow.truncate (lookup_row key (key row) rows)) (auditedRow.truncate row) in
       Inr (upsert key (row\<lparr>ar_createdAt := ar_createdAt stamped, ar_version := ar_version stamped\<rparr>) rows))"

text \<open>An error of the ORM that nothing catches.\<close>

definition refusalError :: "refusal \<Rightarrow> error" where
  "refusalError r = (case r of OptimisticLockVersionMismatch \<Rightarrow> PlainError ''OptimisticLockVersionMismatchError'' | RefusedWith e \<Rightarrow> e)"

text \<open>The values joined to a parent row.\<close>

definition joined :: "ormPorts \<Rightarrow> (string \<times> string) list \<Rightarrow> string \<Rightarrow> string list" where
  "joined ports children parentId = map snd (filter (\<lambda>c. fst c = parentId) (op_joinOrder ports children))"

text \<open>\<open>getOne\<close> with the mapping of the row that follows it.\<close>

definition getOne :: "('r \<Rightarrow> error + 'a) \<Rightarrow> 'r list \<Rightarrow> error + 'a option" where
  "getOne toDomain rows = (case rows of [] \<Rightarrow> Inr None | row # _ \<Rightarrow> bindR (toDomain row) (\<lambda>x. Inr (Some x)))"

section \<open>ChildCollectionWriter\<close>

definition replaceChildren :: "ormPorts \<Rightarrow> string \<Rightarrow> string \<Rightarrow> (string \<times> string) list \<Rightarrow> (string \<times> string) list \<Rightarrow>
    (error + unit) \<times> (string \<times> string) list" where
  "replaceChildren ports childTable parentId children rows = (let kept = filter (\<lambda>c. fst c \<noteq> parentId) rows in
     if length children = 0 then (Inr (), kept)
     else case op_refuses ports childTable parentId of
       Some r \<Rightarrow> (Inl (refusalError r), kept)
     | None \<Rightarrow> (Inr (), kept @ children))"

definition saveVersionedParentAndReplaceChildren :: "ormPorts \<Rightarrow> string option \<Rightarrow> string \<Rightarrow> string \<Rightarrow>
    ('r auditedRow_scheme \<Rightarrow> string) \<Rightarrow> 'r auditedRow_scheme \<Rightarrow> (string \<times> string) list \<Rightarrow>
    'r auditedRow_scheme list \<times> (string \<times> string) list \<Rightarrow> (error + unit) \<times> ('r auditedRow_scheme list \<times> (string \<times> string) list)" where
  "saveVersionedParentAndReplaceChildren ports tx table childTable key built children = (\<lambda>(parents, childRows).
     case assertAmbientTransaction tx of
       Inl e \<Rightarrow> (Inl e, (parents, childRows))
     | Inr _ \<Rightarrow>
         let parent = (case lookup_row key (key built) parents of
               None \<Rightarrow> built
             | Some existing \<Rightarrow> built\<lparr>ar_createdAt := ar_createdAt existing, ar_version := ar_version existing\<rparr>) in
         (case manager_save ports table key parent parents of
            Inl OptimisticLockVersionMismatch \<Rightarrow> (Inl OptimisticConcurrencyError, (parents, childRows))
          | Inl (RefusedWith e) \<Rightarrow> (Inl e, (parents, childRows))
          | Inr parents' \<Rightarrow>
              (let (r, childRows') = replaceChildren ports childTable (key built) children childRows in
               (r, (parents', childRows')))))"

definition saveAuditableParentAndReplaceChildren :: "ormPorts \<Rightarrow> string option \<Rightarrow> string \<Rightarrow> string \<Rightarrow>
    ('r auditedRow_scheme \<Rightarrow> string) \<Rightarrow> 'r auditedRow_scheme \<Rightarrow> (string \<times> string) list \<Rightarrow>
    'r auditedRow_scheme list \<times> (string \<times> string) list \<Rightarrow> (error + unit) \<times> ('r auditedRow_scheme list \<times> (string \<times> string) list)" where
  "saveAuditableParentAndReplaceChildren ports tx table childTable key built children = (\<lambda>(parents, childRows).
     case assertAmbientTransaction tx of
       Inl e \<Rightarrow> (Inl e, (parents, childRows))
     | Inr _ \<Rightarrow>
         let parent = (case lookup_row key (key built) parents of
               None \<Rightarrow> built
             | Some existing \<Rightarrow> built\<lparr>ar_createdAt := ar_createdAt existing\<rparr>) in
         (case manager_save ports table key parent parents of
            Inl r \<Rightarrow> (Inl (refusalError r), (parents, childRows))
          | Inr parents' \<Rightarrow>
              (let (r, childRows') = replaceChildren ports childTable (key built) children childRows in
               (r, (parents', childRows')))))"

definition deleteParentAndChildren :: "string option \<Rightarrow> ('r \<Rightarrow> string) \<Rightarrow> string \<Rightarrow>
    'r list \<times> (string \<times> string) list \<Rightarrow> (error + unit) \<times> ('r list \<times> (string \<times> string) list)" where
  "deleteParentAndChildren tx key parentId = (\<lambda>(parents, childRows).
     case assertAmbientTransaction tx of
       Inl e \<Rightarrow> (Inl e, (parents, childRows))
     | Inr _ \<Rightarrow> (case lookup_row key parentId parents of
         None \<Rightarrow> (Inr (), (parents, childRows))
       | Some _ \<Rightarrow> (Inr (), (remove_row key parentId parents, filter (\<lambda>c. fst c \<noteq> parentId) childRows))))"

end
