(* ===== verification/PostgresRepositories.thy ===== *)
theory PostgresRepositories
  imports Postgres
begin

text \<open>
  The TypeORM repositories of packages/infrastructure/postgres/src/contexts, one group per aggregate.  A
  read depends on the ambient tenant store and the database; a write also on the ambient transaction.  A
  repository that leaves the tenant scope runs its query inside \<open>withoutTenantScope\<close>.
\<close>

type_synonym 'a pgRead = "tenantAlsStore option \<Rightarrow> pgDb \<Rightarrow> error + 'a"
type_synonym pgWrite = "string option \<Rightarrow> tenantAlsStore option \<Rightarrow> pgDb \<Rightarrow> (error + unit) \<times> pgDb"

definition pg_unscoped :: "'a pgRead \<Rightarrow> 'a pgRead" where
  "pg_unscoped work store d = withoutTenantScope (\<lambda>s. work s d) store"

section \<open>Tenants\<close>

definition pgTenants_findById :: "ormPorts \<Rightarrow> tenantId \<Rightarrow> tenant option pgRead" where
  "pgTenants_findById ports i store d =
     bindR (scoped te_tenantId (filter (\<lambda>r. te_id r = i) (pg_tenants d)) store) (getOne (tenantMapper_toDomain ports))"

definition pgTenants_save :: "ormPorts \<Rightarrow> tenant \<Rightarrow> pgWrite" where
  "pgTenants_save ports t tx store d = (let row = tenantMapper_toEntity t in
     case stampTenantId (Some (te_tenantId row)) store of
       Inl e \<Rightarrow> (Inl e, d)
     | Inr stamped \<Rightarrow> (case manager_save ports ''tenants'' te_id (row\<lparr>te_tenantId := stamped\<rparr>) (pg_tenants d) of
         Inl r \<Rightarrow> (Inl (refusalError r), d)
       | Inr rows \<Rightarrow> (Inr (), d\<lparr>pg_tenants := rows\<rparr>)))"

section \<open>Roles\<close>

definition pgRole :: "ormPorts \<Rightarrow> pgDb \<Rightarrow> roleEntity \<Rightarrow> error + role" where
  "pgRole ports d row = roleMapper_toDomain ports row (joined ports (pg_rolePermissions d) (re_id row))"

definition pgRoles_findById :: "ormPorts \<Rightarrow> roleId \<Rightarrow> role option pgRead" where
  "pgRoles_findById ports i store d =
     bindR (scoped re_tenantId (filter (\<lambda>r. re_id r = i) (pg_roles d)) store) (getOne (pgRole ports d))"

definition pgRoles_findByIds :: "ormPorts \<Rightarrow> roleId list \<Rightarrow> role list pgRead" where
  "pgRoles_findByIds ports ids store d =
     (if isEmpty (JArr (map JStr ids)) then Inr []
      else bindR (scoped re_tenantId (filter (\<lambda>r. re_id r \<in> set ids) (pg_roles d)) store) (mapR (pgRole ports d)))"

definition pgRoles_findByTenant :: "ormPorts \<Rightarrow> tenantId \<Rightarrow> role list pgRead" where
  "pgRoles_findByTenant ports t store d =
     bindR (assertTenant t store) (\<lambda>_.
     bindR (scoped re_tenantId (filter (\<lambda>r. re_tenantId r = t) (pg_roles d)) store) (\<lambda>rows.
     mapR (pgRole ports d) (sort_key (\<lambda>r. op_collate ports (re_name r)) rows)))"

definition pgRoles_save :: "ormPorts \<Rightarrow> role \<Rightarrow> pgWrite" where
  "pgRoles_save ports r tx store d = (let (entity, permissions) = roleMapper_toEntity r in
     case stampTenantId (Some (re_tenantId entity)) store of
       Inl e \<Rightarrow> (Inl e, d)
     | Inr stamped \<Rightarrow>
         let built = \<lparr>ar_createdAt = None, ar_version = None, re_id = re_id entity, re_tenantId = stamped,
               re_name = re_name entity, re_isSystem = re_isSystem entity\<rparr>;
             (res, (rows, children)) = saveVersionedParentAndReplaceChildren ports tx ''roles'' ''role_permissions'' re_id built
               (map (\<lambda>p. (re_id entity, snd p)) permissions) (pg_roles d, pg_rolePermissions d) in
         (res, d\<lparr>pg_roles := rows, pg_rolePermissions := children\<rparr>))"

fun pgRoles_saveMany :: "ormPorts \<Rightarrow> role list \<Rightarrow> pgWrite" where
  "pgRoles_saveMany ports [] tx store d = (Inr (), d)"
| "pgRoles_saveMany ports (r # rs) tx store d = (case pgRoles_save ports r tx store d of
     (Inl e, d') \<Rightarrow> (Inl e, d') | (Inr _, d') \<Rightarrow> pgRoles_saveMany ports rs tx store d')"

definition pgRoles_delete :: "ormPorts \<Rightarrow> roleId \<Rightarrow> pgWrite" where
  "pgRoles_delete ports i tx store d = (case pgRoles_findById ports i store d of
     Inl e \<Rightarrow> (Inl e, d)
   | Inr None \<Rightarrow> (Inr (), d)
   | Inr (Some _) \<Rightarrow>
       (let (res, (rows, children)) = deleteParentAndChildren tx re_id i (pg_roles d, pg_rolePermissions d) in
        (res, d\<lparr>pg_roles := rows, pg_rolePermissions := children\<rparr>)))"

section \<open>Memberships\<close>

definition pgMembership :: "ormPorts \<Rightarrow> pgDb \<Rightarrow> membershipEntity \<Rightarrow> error + membership" where
  "pgMembership ports d row = membershipMapper_toDomain ports row (joined ports (pg_membershipRoles d) (me_id row))"

definition pgMemberships_findById :: "ormPorts \<Rightarrow> membershipId \<Rightarrow> membership option pgRead" where
  "pgMemberships_findById ports i store d =
     bindR (scoped me_tenantId (filter (\<lambda>r. me_id r = i) (pg_memberships d)) store) (getOne (pgMembership ports d))"

definition pgMemberships_findByTenant :: "ormPorts \<Rightarrow> tenantId \<Rightarrow> membership list pgRead" where
  "pgMemberships_findByTenant ports t store d =
     bindR (assertTenant t store) (\<lambda>_.
     bindR (scoped me_tenantId (filter (\<lambda>r. me_tenantId r = t) (pg_memberships d)) store) (\<lambda>rows.
     mapR (pgMembership ports d) (sort_key me_id rows)))"

definition pgMemberships_findByTenantAndRole :: "ormPorts \<Rightarrow> tenantId \<Rightarrow> roleId \<Rightarrow> membership list pgRead" where
  "pgMemberships_findByTenantAndRole ports t role store d =
     bindR (assertTenant t store) (\<lambda>_.
     bindR (scoped me_tenantId
       (filter (\<lambda>r. me_tenantId r = t \<and> (me_id r, role) \<in> set (pg_membershipRoles d)) (pg_memberships d)) store) (\<lambda>rows.
     mapR (pgMembership ports d) (sort_key me_id rows)))"

definition pgMemberships_findByUser :: "ormPorts \<Rightarrow> userId \<Rightarrow> membership list pgRead" where
  "pgMemberships_findByUser ports u = pg_unscoped (\<lambda>_ d.
     mapR (pgMembership ports d) (sort_key me_id (filter (\<lambda>r. me_userId r = u) (pg_memberships d))))"

definition pgMemberships_findByUserAndTenant :: "ormPorts \<Rightarrow> userId \<Rightarrow> tenantId \<Rightarrow> membership option pgRead" where
  "pgMemberships_findByUserAndTenant ports u t store d =
     bindR (if hasEstablishedTenantScope store then assertTenant t store else Inr ()) (\<lambda>_.
     pg_unscoped (\<lambda>_ d. getOne (pgMembership ports d)
       (filter (\<lambda>r. me_userId r = u \<and> me_tenantId r = t) (pg_memberships d))) store d)"

definition pgMemberships_save :: "ormPorts \<Rightarrow> membership \<Rightarrow> pgWrite" where
  "pgMemberships_save ports m tx store d = (let (entity, roleRows) = membershipMapper_toEntity m in
     case stampTenantId (Some (me_tenantId entity)) store of
       Inl e \<Rightarrow> (Inl e, d)
     | Inr stamped \<Rightarrow>
         let built = \<lparr>ar_createdAt = None, ar_version = None, me_id = me_id entity, me_tenantId = stamped,
               me_userId = me_userId entity, me_status = me_status entity\<rparr>;
             (res, (rows, children)) = saveVersionedParentAndReplaceChildren ports tx ''memberships'' ''membership_roles'' me_id built
               (map (\<lambda>r. (me_id entity, snd r)) roleRows) (pg_memberships d, pg_membershipRoles d) in
         (res, d\<lparr>pg_memberships := rows, pg_membershipRoles := children\<rparr>))"

section \<open>Invitations\<close>

definition pgInvitation :: "ormPorts \<Rightarrow> pgDb \<Rightarrow> invitationEntity \<Rightarrow> error + invitation" where
  "pgInvitation ports d row = invitationMapper_toDomain ports row (joined ports (pg_invitationRoles d) (ie_id row))"

definition pgInvitations_findById :: "ormPorts \<Rightarrow> invitationId \<Rightarrow> invitation option pgRead" where
  "pgInvitations_findById ports i store d =
     bindR (scoped ie_tenantId (filter (\<lambda>r. ie_id r = i) (pg_invitations d)) store) (getOne (pgInvitation ports d))"

definition pgInvitations_findActiveByTenantAndEmail :: "ormPorts \<Rightarrow> tenantId \<Rightarrow> string \<Rightarrow> invitation option pgRead" where
  "pgInvitations_findActiveByTenantAndEmail ports t email store d =
     bindR (assertTenant t store) (\<lambda>_.
     bindR (scoped ie_tenantId
       (filter (\<lambda>r. ie_tenantId r = t \<and> ie_email r = email \<and> ie_consumedAt r = None) (pg_invitations d)) store)
       (getOne (pgInvitation ports d)))"

definition pgInvitations_findByTokenHash :: "ormPorts \<Rightarrow> string \<Rightarrow> invitation option pgRead" where
  "pgInvitations_findByTokenHash ports h = pg_unscoped (\<lambda>_ d.
     getOne (pgInvitation ports d) (filter (\<lambda>r. ie_tokenHash r = h) (pg_invitations d)))"

definition pgInvitations_save :: "ormPorts \<Rightarrow> invitation \<Rightarrow> pgWrite" where
  "pgInvitations_save ports iv tx store d = (let (entity, roleRows) = invitationMapper_toEntity iv in
     case stampTenantId (Some (ie_tenantId entity)) store of
       Inl e \<Rightarrow> (Inl e, d)
     | Inr stamped \<Rightarrow>
         let built = \<lparr>ar_createdAt = None, ar_version = None, ie_id = ie_id entity, ie_tenantId = stamped,
               ie_email = ie_email entity, ie_tokenHash = ie_tokenHash entity, ie_expiresAt = ie_expiresAt entity,
               ie_invitedByUserId = ie_invitedByUserId entity, ie_consumedAt = ie_consumedAt entity\<rparr>;
             (res, (rows, children)) = saveAuditableParentAndReplaceChildren ports tx ''invitations'' ''invitation_roles'' ie_id built
               (map (\<lambda>r. (ie_id entity, snd r)) roleRows) (pg_invitations d, pg_invitationRoles d) in
         (res, d\<lparr>pg_invitations := rows, pg_invitationRoles := children\<rparr>))"

text \<open>\<open>WITH stale AS (SELECT id \<dots> ORDER BY expires_at ASC LIMIT n)\<close> and the deletes that use it.\<close>

definition stale_ids :: "('r \<Rightarrow> string) \<Rightarrow> ('r \<Rightarrow> millis) \<Rightarrow> ('r \<Rightarrow> bool) \<Rightarrow> nat \<Rightarrow> 'r list \<Rightarrow> string list" where
  "stale_ids key expiresAt stale limit rows = map key (take limit (sort_key expiresAt (filter stale rows)))"

definition pgInvitations_deleteStale :: "ormPorts \<Rightarrow> millis \<Rightarrow> nat \<Rightarrow> pgDb \<Rightarrow> number \<times> pgDb" where
  "pgInvitations_deleteStale ports before limit d = (let
       ids = stale_ids ie_id ie_expiresAt (\<lambda>r. ie_consumedAt r \<noteq> None \<or> ie_expiresAt r < before) limit (pg_invitations d);
       gone = filter (\<lambda>r. ie_id r \<in> set ids) (pg_invitations d) in
     (sqlCount_parse (op_stringToNumber ports) (op_countRow ports (length gone)),
      d\<lparr>pg_invitations := filter (\<lambda>r. ie_id r \<notin> set ids) (pg_invitations d),
        pg_invitationRoles := filter (\<lambda>c. fst c \<notin> set ids) (pg_invitationRoles d)\<rparr>))"

section \<open>Users, passwords, sessions and reset tokens\<close>

definition pgUsers_findById :: "ormPorts \<Rightarrow> userId \<Rightarrow> pgDb \<Rightarrow> error + user option" where
  "pgUsers_findById ports i d = getOne (userMapper_toDomain ports) (filter (\<lambda>r. ue_id r = i) (pg_users d))"

definition pgUsers_findByEmail :: "ormPorts \<Rightarrow> string \<Rightarrow> pgDb \<Rightarrow> error + user option" where
  "pgUsers_findByEmail ports email d =
     getOne (userMapper_toDomain ports) (filter (\<lambda>r. ue_email r = js_lower (js_trim email)) (pg_users d))"

text \<open>\<open>manager.save(entity, row)\<close> as the whole of a repository's \<open>save\<close>.\<close>

definition plain_save :: "ormPorts \<Rightarrow> string \<Rightarrow> ('r auditedRow_scheme \<Rightarrow> string) \<Rightarrow> ('r auditedRow_scheme list \<Rightarrow> pgDb \<Rightarrow> pgDb) \<Rightarrow>
    'r auditedRow_scheme \<Rightarrow> 'r auditedRow_scheme list \<Rightarrow> pgDb \<Rightarrow> (error + unit) \<times> pgDb" where
  "plain_save ports table key put row rows d = (case manager_save ports table key row rows of
     Inl r \<Rightarrow> (Inl (refusalError r), d) | Inr rows' \<Rightarrow> (Inr (), put rows' d))"

definition pgUsers_save :: "ormPorts \<Rightarrow> user \<Rightarrow> pgDb \<Rightarrow> (error + unit) \<times> pgDb" where
  "pgUsers_save ports u d = plain_save ports ''users'' ue_id (\<lambda>rows d. d\<lparr>pg_users := rows\<rparr>) (userMapper_toEntity u) (pg_users d) d"

definition pgPasswords_findByUserId :: "ormPorts \<Rightarrow> userId \<Rightarrow> pgDb \<Rightarrow> error + localPassword option" where
  "pgPasswords_findByUserId ports u d =
     getOne (localPasswordMapper_toDomain ports) (filter (\<lambda>r. pe_userId r = u) (pg_localPasswords d))"

definition pgPasswords_save :: "ormPorts \<Rightarrow> localPassword \<Rightarrow> pgDb \<Rightarrow> (error + unit) \<times> pgDb" where
  "pgPasswords_save ports p d = plain_save ports ''local_passwords'' pe_userId (\<lambda>rows d. d\<lparr>pg_localPasswords := rows\<rparr>)
     (localPasswordMapper_toEntity p) (pg_localPasswords d) d"

definition pgSessions_findByTokenHash :: "ormPorts \<Rightarrow> string \<Rightarrow> pgDb \<Rightarrow> error + refreshSession option" where
  "pgSessions_findByTokenHash ports h d =
     getOne (refreshSessionMapper_toDomain ports) (filter (\<lambda>r. se_tokenHash r = h) (pg_refreshSessions d))"

definition pgSessions_save :: "ormPorts \<Rightarrow> refreshSession \<Rightarrow> pgDb \<Rightarrow> (error + unit) \<times> pgDb" where
  "pgSessions_save ports s d = plain_save ports ''refresh_sessions'' se_id (\<lambda>rows d. d\<lparr>pg_refreshSessions := rows\<rparr>)
     (refreshSessionMapper_toEntity s) (pg_refreshSessions d) d"

definition pgSessions_revokeFamily :: "familyId \<Rightarrow> millis \<Rightarrow> pgDb \<Rightarrow> pgDb" where
  "pgSessions_revokeFamily f when d = d\<lparr>pg_refreshSessions :=
     map (\<lambda>r. if se_familyId r = f \<and> se_revokedAt r = None then r\<lparr>se_revokedAt := Some when\<rparr> else r) (pg_refreshSessions d)\<rparr>"

definition pgSessions_revokeAllForUser :: "userId \<Rightarrow> millis \<Rightarrow> pgDb \<Rightarrow> pgDb" where
  "pgSessions_revokeAllForUser u when d = d\<lparr>pg_refreshSessions :=
     map (\<lambda>r. if se_userId r = u \<and> se_revokedAt r = None then r\<lparr>se_revokedAt := Some when\<rparr> else r) (pg_refreshSessions d)\<rparr>"

definition pgSessions_deleteExpiredOrRevoked :: "ormPorts \<Rightarrow> millis \<Rightarrow> nat \<Rightarrow> pgDb \<Rightarrow> number \<times> pgDb" where
  "pgSessions_deleteExpiredOrRevoked ports before limit d = (let
       ids = stale_ids se_id se_expiresAt (\<lambda>r. se_expiresAt r < before \<or> se_revokedAt r \<noteq> None) limit (pg_refreshSessions d);
       gone = filter (\<lambda>r. se_id r \<in> set ids) (pg_refreshSessions d) in
     (sqlCount_parse (op_stringToNumber ports) (op_countRow ports (length gone)),
      d\<lparr>pg_refreshSessions := filter (\<lambda>r. se_id r \<notin> set ids) (pg_refreshSessions d)\<rparr>))"

definition pgResetTokens_findByTokenHash :: "ormPorts \<Rightarrow> string \<Rightarrow> pgDb \<Rightarrow> error + passwordResetToken option" where
  "pgResetTokens_findByTokenHash ports h d =
     getOne (passwordResetTokenMapper_toDomain ports) (filter (\<lambda>r. pt_tokenHash r = h) (pg_passwordResetTokens d))"

definition pgResetTokens_findByUserId :: "ormPorts \<Rightarrow> userId \<Rightarrow> pgDb \<Rightarrow> error + passwordResetToken option" where
  "pgResetTokens_findByUserId ports u d =
     getOne (passwordResetTokenMapper_toDomain ports) (filter (\<lambda>r. pt_userId r = u) (pg_passwordResetTokens d))"

definition pgResetTokens_save :: "ormPorts \<Rightarrow> passwordResetToken \<Rightarrow> pgDb \<Rightarrow> (error + unit) \<times> pgDb" where
  "pgResetTokens_save ports t d = plain_save ports ''password_reset_tokens'' pt_userId
     (\<lambda>rows d. d\<lparr>pg_passwordResetTokens := rows\<rparr>) (passwordResetTokenMapper_toEntity t) (pg_passwordResetTokens d) d"

definition pgResetTokens_deleteInactive :: "ormPorts \<Rightarrow> millis \<Rightarrow> nat \<Rightarrow> pgDb \<Rightarrow> number \<times> pgDb" where
  "pgResetTokens_deleteInactive ports before limit d = (let
       ids = stale_ids pt_userId pt_expiresAt (\<lambda>r. pt_expiresAt r < before \<or> pt_consumedAt r \<noteq> None) limit (pg_passwordResetTokens d);
       gone = filter (\<lambda>r. pt_userId r \<in> set ids) (pg_passwordResetTokens d) in
     (sqlCount_parse (op_stringToNumber ports) (op_countRow ports (length gone)),
      d\<lparr>pg_passwordResetTokens := filter (\<lambda>r. pt_userId r \<notin> set ids) (pg_passwordResetTokens d)\<rparr>))"

section \<open>API keys\<close>

definition pgApiKeys_findById :: "ormPorts \<Rightarrow> apiKeyId \<Rightarrow> apiKey option pgRead" where
  "pgApiKeys_findById ports i store d =
     bindR (scoped ke_tenantId (filter (\<lambda>r. ke_id r = i) (pg_apiKeys d)) store) (getOne (apiKeyMapper_toDomain ports))"

definition pgApiKeys_findByPrefix :: "ormPorts \<Rightarrow> string \<Rightarrow> apiKey option pgRead" where
  "pgApiKeys_findByPrefix ports p = pg_unscoped (\<lambda>_ d.
     getOne (apiKeyMapper_toDomain ports) (filter (\<lambda>r. ke_prefix r = p) (pg_apiKeys d)))"

definition pgApiKeys_findByTenant :: "ormPorts \<Rightarrow> tenantId \<Rightarrow> apiKey list pgRead" where
  "pgApiKeys_findByTenant ports t store d =
     bindR (assertTenant t store) (\<lambda>_.
     bindR (scoped ke_tenantId (filter (\<lambda>r. ke_tenantId r = t) (pg_apiKeys d)) store) (mapR (apiKeyMapper_toDomain ports)))"

definition pgApiKeys_save :: "ormPorts \<Rightarrow> apiKey \<Rightarrow> pgWrite" where
  "pgApiKeys_save ports k tx store d = (let row = apiKeyMapper_toEntity k in
     case stampTenantId (Some (ke_tenantId row)) store of
       Inl e \<Rightarrow> (Inl e, d)
     | Inr stamped \<Rightarrow>
         let row' = (case lookup_row ke_id (ent_id k) (pg_apiKeys d) of
               None \<Rightarrow> row\<lparr>ke_tenantId := stamped\<rparr>
             | Some existing \<Rightarrow> row\<lparr>ke_tenantId := stamped, ar_createdAt := ar_createdAt existing\<rparr>) in
         plain_save ports ''api_keys'' ke_id (\<lambda>rows d. d\<lparr>pg_apiKeys := rows\<rparr>) row' (pg_apiKeys d) d)"

definition pgApiKeys_touchLastUsed :: "apiKeyId \<Rightarrow> millis \<Rightarrow> pgDb \<Rightarrow> pgDb" where
  "pgApiKeys_touchLastUsed i when d = (let threshold = when - API_KEY_LAST_USED_TOUCH_MS in
     d\<lparr>pg_apiKeys := map (\<lambda>r. if ke_id r = i \<and> (case ke_lastUsedAt r of None \<Rightarrow> True | Some l \<Rightarrow> l < threshold)
       then r\<lparr>ke_lastUsedAt := Some when\<rparr> else r) (pg_apiKeys d)\<rparr>)"

end
