(* ===== verification/PostgresRefinement.thy ===== *)
theory PostgresRefinement
  imports PostgresRepositories
begin

text \<open>
  The Postgres repositories implement the store the use cases are proved over, and keep tenants apart.

  \<open>mapped_rows\<close> is the contract between a table and the list of aggregates it stands for: a row
  relation that determines the key and what the mapper returns, and that depends on a child table only
  through the values of the row's own id.  Each aggregate interprets it with its entity and mapper.
\<close>

definition vals :: "(string \<times> string) list \<Rightarrow> string \<Rightarrow> string list" where
  "vals children i = map snd (filter (\<lambda>c. fst c = i) children)"

definition same_children :: "(string \<times> string) list \<Rightarrow> (string \<times> string) list \<Rightarrow> string \<Rightarrow> bool" where
  "same_children c c' i \<longleftrightarrow> mset (vals c i) = mset (vals c' i)"

locale mapped_rows =
  fixes key :: "'e \<Rightarrow> string"
    and akey :: "'a \<Rightarrow> string"
    and rel :: "(string \<times> string) list \<Rightarrow> 'e \<Rightarrow> 'a \<Rightarrow> bool"
    and toDomain :: "(string \<times> string) list \<Rightarrow> 'e \<Rightarrow> error + 'a"
    and same :: "'a \<Rightarrow> 'a \<Rightarrow> bool"
  assumes rel_key: "rel c e a \<Longrightarrow> key e = akey a"
    and rel_domain: "rel c e a \<Longrightarrow> \<exists>a'. toDomain c e = Inr a' \<and> same a' a"
    and rel_frame: "rel c e a \<Longrightarrow> same_children c c' (key e) \<Longrightarrow> rel c' e a"
begin

lemma find_rows:
  assumes "list_all2 (rel c) es as" "\<And>e a. rel c e a \<Longrightarrow> P e \<longleftrightarrow> Q a"
  shows "\<exists>r. getOne (toDomain c) (filter P es) = Inr r \<and> rel_option same r (find Q as)"
  using assms(1)
proof (induction rule: list_all2_induct)
  case (Cons e es a as)
  show ?case
  proof (cases "P e")
    case True
    then show ?thesis using rel_domain[OF Cons(1)] assms(2)[OF Cons(1)] by (auto simp: getOne_def)
  next
    case False
    then show ?thesis using Cons assms(2)[OF Cons(1)] by simp
  qed
qed (simp add: getOne_def)

lemma lookup_rows:
  assumes "list_all2 (rel c) es as"
  shows "\<exists>r. getOne (toDomain c) (filter (\<lambda>e. key e = i) es) = Inr r \<and> rel_option same r (lookup_row akey i as)"
  unfolding lookup_row_def using assms by (rule find_rows) (auto dest: rel_key)

lemma map_rows:
  assumes "list_all2 (rel c) es as"
  shows "\<exists>xs. mapR (toDomain c) es = Inr xs \<and> list_all2 same xs as"
  using assms
proof (induction rule: list_all2_induct)
  case (Cons e es a as)
  then show ?case using rel_domain[OF Cons(1)] by auto
qed simp

lemma filter_rows:
  assumes "list_all2 (rel c) es as" "\<And>e a. rel c e a \<Longrightarrow> P e \<longleftrightarrow> Q a"
  shows "list_all2 (rel c) (filter P es) (filter Q as)"
  using assms(1) by (induction rule: list_all2_induct) (auto simp: assms(2))

text \<open>A sorted query returns the same aggregates in some order.\<close>

lemma sorted_rows:
  assumes "list_all2 (rel c) es as" "\<And>e a. rel c e a \<Longrightarrow> P e \<longleftrightarrow> Q a"
  shows "\<exists>xs ys. mapR (toDomain c) (sort_key f (filter P es)) = Inr xs \<and> list_all2 same xs ys \<and> mset ys = mset (filter Q as)"
proof -
  have "list_all2 (rel c) (filter P es) (filter Q as)" using assms by (rule filter_rows)
  moreover have "mset (sort_key f (filter P es)) = mset (filter P es)" by simp
  ultimately obtain ys where ys: "list_all2 (rel c) (sort_key f (filter P es)) ys" "mset ys = mset (filter Q as)"
    using list_all2_reorder_left_invariance by blast
  then show ?thesis using map_rows by blast
qed

lemma frame_rows:
  assumes "list_all2 (rel c) es as" "\<And>e. e \<in> set es \<Longrightarrow> same_children c c' (key e)"
  shows "list_all2 (rel c') es as"
  using assms by (induction rule: list_all2_induct) (auto intro: rel_frame)

lemma upsert_rows:
  assumes "list_all2 (rel c) es as" "distinct (map key es)" "rel c' e a"
    "\<And>i. i \<noteq> key e \<Longrightarrow> same_children c c' i"
  shows "list_all2 (rel c') (upsert key e es) (upsert akey a as)"
  using assms(1,2)
proof (induction rule: list_all2_induct)
  case Nil
  then show ?case using assms(3) by simp
next
  case (Cons e1 es a1 as)
  have k: "key e1 = akey a1" "key e = akey a" using Cons(1) assms(3) rel_key by auto
  show ?case
  proof (cases "key e1 = key e")
    case True
    have "list_all2 (rel c') es as"
    proof (rule frame_rows[OF Cons(2)])
      fix e2 assume "e2 \<in> set es"
      then have "key e2 \<noteq> key e" using Cons.prems True by (auto simp: image_iff)
      then show "same_children c c' (key e2)" by (rule assms(4))
    qed
    then show ?thesis using True k assms(3) by simp
  next
    case False
    have "rel c' e1 a1" using rel_frame[OF Cons(1)] assms(4) False by blast
    then show ?thesis using False k Cons by simp
  qed
qed

lemma remove_rows:
  assumes "list_all2 (rel c) es as" "\<And>j. j \<noteq> i \<Longrightarrow> same_children c c' j"
  shows "list_all2 (rel c') (remove_row key i es) (remove_row akey i as)"
proof -
  have "list_all2 (rel c) (filter (\<lambda>e. key e \<noteq> i) es) (filter (\<lambda>a. akey a \<noteq> i) as)"
    using assms(1) by (rule filter_rows) (auto dest: rel_key)
  then show ?thesis unfolding remove_row_def using assms(2) by (rule frame_rows) auto
qed

lemma keys_eq: "list_all2 (rel c) es as \<Longrightarrow> map key es = map akey as"
  by (induction rule: list_all2_induct) (auto dest: rel_key)

end

section \<open>Row relations\<close>

abbreviation valid :: "ormPorts \<Rightarrow> string \<Rightarrow> bool" where
  "valid \<equiv> op_validUuid"

definition tenant_rel :: "ormPorts \<Rightarrow> (string \<times> string) list \<Rightarrow> tenantEntity \<Rightarrow> tenant \<Rightarrow> bool" where
  "tenant_rel ports c e t \<longleftrightarrow> valid ports (ent_id t) \<and> agg_events t = [] \<and> te_id e = ent_id t \<and> te_tenantId e = ent_id t
     \<and> te_name e = tenant_name t \<and> te_status e = accountStatus_name (tenant_status t)"

text \<open>A join returns the rows of the child table in some order.\<close>

definition join_permutes :: "ormPorts \<Rightarrow> bool" where
  "join_permutes ports \<longleftrightarrow> (\<forall>c. mset (op_joinOrder ports c) = mset c)"

definition role_rel :: "ormPorts \<Rightarrow> (string \<times> string) list \<Rightarrow> roleEntity \<Rightarrow> role \<Rightarrow> bool" where
  "role_rel ports c e r \<longleftrightarrow> join_permutes ports \<and> valid ports (ent_id r) \<and> valid ports (r_tenantId r) \<and> agg_events r = [] \<and> is_bundle (r_permissions r)
     \<and> re_id e = ent_id r \<and> re_tenantId e = r_tenantId r \<and> re_name e = r_name r \<and> re_isSystem e = r_isSystem r
     \<and> mset (vals c (ent_id r)) = mset (r_permissions r)"

definition membership_rel :: "ormPorts \<Rightarrow> (string \<times> string) list \<Rightarrow> membershipEntity \<Rightarrow> membership \<Rightarrow> bool" where
  "membership_rel ports c e m \<longleftrightarrow> join_permutes ports \<and> list_all (valid ports) ([ent_id m, m_tenantId m, m_userId m] @ m_roleIds m) \<and> agg_events m = []
     \<and> me_id e = ent_id m \<and> me_tenantId e = m_tenantId m \<and> me_userId e = m_userId m
     \<and> me_status e = membershipStatus_name (m_status m) \<and> mset (vals c (ent_id m)) = mset (m_roleIds m)"

definition invitation_rel :: "ormPorts \<Rightarrow> (string \<times> string) list \<Rightarrow> invitationEntity \<Rightarrow> invitation \<Rightarrow> bool" where
  "invitation_rel ports c e iv \<longleftrightarrow> join_permutes ports \<and> list_all (valid ports) ([ent_id iv, i_tenantId iv, i_invitedByUserId iv] @ i_roleIds iv) \<and> agg_events iv = []
     \<and> ie_id e = ent_id iv \<and> ie_tenantId e = i_tenantId iv \<and> ie_email e = i_email iv \<and> ie_tokenHash e = i_tokenHash iv
     \<and> ie_expiresAt e = i_expiresAt iv \<and> ie_invitedByUserId e = i_invitedByUserId iv \<and> ie_consumedAt e = i_consumedAt iv
     \<and> mset (vals c (ent_id iv)) = mset (i_roleIds iv)"

definition user_rel :: "ormPorts \<Rightarrow> (string \<times> string) list \<Rightarrow> userEntity \<Rightarrow> user \<Rightarrow> bool" where
  "user_rel ports c e u \<longleftrightarrow> valid ports (ent_id u) \<and> agg_events u = [] \<and> ue_id e = ent_id u \<and> ue_email e = u_email u
     \<and> ue_displayName e = u_displayName u \<and> ue_status e = accountStatus_name (u_status u)"

definition password_rel :: "ormPorts \<Rightarrow> (string \<times> string) list \<Rightarrow> localPasswordEntity \<Rightarrow> localPassword \<Rightarrow> bool" where
  "password_rel ports c e p \<longleftrightarrow> valid ports (ent_id p) \<and> pe_userId e = ent_id p \<and> pe_passwordHash e = p_passwordHash p"

definition session_rel :: "ormPorts \<Rightarrow> (string \<times> string) list \<Rightarrow> refreshSessionEntity \<Rightarrow> refreshSession \<Rightarrow> bool" where
  "session_rel ports c e s \<longleftrightarrow> list_all (valid ports) [ent_id s, s_userId s, s_familyId s] \<and> se_id e = ent_id s \<and> se_userId e = s_userId s
     \<and> se_familyId e = s_familyId s \<and> se_tokenHash e = s_tokenHash s \<and> se_expiresAt e = s_expiresAt s \<and> se_revokedAt e = s_revokedAt s"

definition resetToken_rel :: "ormPorts \<Rightarrow> (string \<times> string) list \<Rightarrow> passwordResetTokenEntity \<Rightarrow> passwordResetToken \<Rightarrow> bool" where
  "resetToken_rel ports c e t \<longleftrightarrow> valid ports (ent_id t) \<and> pt_userId e = ent_id t \<and> pt_tokenHash e = t_tokenHash t
     \<and> pt_expiresAt e = t_expiresAt t \<and> pt_consumedAt e = t_consumedAt t"

definition apiKey_rel :: "ormPorts \<Rightarrow> (string \<times> string) list \<Rightarrow> apiKeyEntity \<Rightarrow> apiKey \<Rightarrow> bool" where
  "apiKey_rel ports c e k \<longleftrightarrow> list_all (valid ports) [ent_id k, k_tenantId k, k_createdByUserId k] \<and> agg_events k = []
     \<and> list_all (\<lambda>p. permission_parse p = Some p) (k_permissions k) \<and> ke_id e = ent_id k \<and> ke_tenantId e = k_tenantId k
     \<and> ke_createdByUserId e = k_createdByUserId k \<and> ke_name e = k_name k \<and> ke_prefix e = k_prefix k
     \<and> ke_secretHash e = k_secretHash k \<and> ke_permissions e = k_permissions k \<and> ke_expiresAt e = k_expiresAt k
     \<and> ke_revokedAt e = k_revokedAt k \<and> ke_lastUsedAt e = k_lastUsedAt k"

text \<open>Two aggregates that differ at most in the order of their role ids.\<close>

definition same_membership :: "membership \<Rightarrow> membership \<Rightarrow> bool" where
  "same_membership m' m \<longleftrightarrow> mset (m_roleIds m') = mset (m_roleIds m) \<and> m' = m\<lparr>m_roleIds := m_roleIds m'\<rparr>"

definition same_invitation :: "invitation \<Rightarrow> invitation \<Rightarrow> bool" where
  "same_invitation i' i \<longleftrightarrow> mset (i_roleIds i') = mset (i_roleIds i) \<and> i' = i\<lparr>i_roleIds := i_roleIds i'\<rparr>"

lemma joined_vals: "join_permutes ports \<Longrightarrow> mset (joined ports c i) = mset (vals c i)"
  by (simp add: joined_def vals_def join_permutes_def mset_filter)

lemma mapR_parse: "list_all (valid ports) xs \<Longrightarrow> mapR (parseUuid ports) xs = Inr xs"
  by (induction xs) (auto simp: parseUuid_def)

lemma mapR_permissions: "list_all (\<lambda>p. permission_parse p = Some p) xs \<Longrightarrow> mapR parsePermission xs = Inr xs"
  by (induction xs) (auto simp: parsePermission_def parseEnum_def)

lemma mset_valid: "mset xs = mset ys \<Longrightarrow> list_all P ys \<Longrightarrow> list_all P xs"
  by (metis list_all_iff set_mset_mset)

lemma role_normalize_cong: "set ps = set qs \<Longrightarrow> role_normalize qs = Inr rs \<Longrightarrow> role_normalize ps = Inr rs"
  unfolding role_normalize_Inr by (metis set_empty)

lemma role_rel_domain:
  assumes "role_rel ports c e r"
  shows "roleMapper_toDomain ports e (joined ports c (re_id e)) = Inr r"
proof -
  have m: "mset (joined ports c (re_id e)) = mset (r_permissions r)"
    using joined_vals assms by (simp add: role_rel_def)
  have b: "is_bundle (r_permissions r)" using assms by (simp add: role_rel_def)
  have "list_all (\<lambda>p. permission_parse p = Some p) (r_permissions r)"
    using bundle_subset[OF b] catalog_parses by (auto simp: list_all_iff)
  then have "mapR parsePermission (joined ports c (re_id e)) = Inr (joined ports c (re_id e))"
    using mset_valid[OF m] mapR_permissions by blast
  moreover have "role_normalize (joined ports c (re_id e)) = Inr (r_permissions r)"
    by (rule role_normalize_cong[OF _ bundle_normal[OF b]]) (metis m set_mset_mset)
  ultimately show ?thesis using assms
    by (simp add: roleMapper_toDomain_def role_rel_def parseUuid_def role_reconstitute_def newRole_def)
qed

lemma membership_rel_domain:
  assumes "membership_rel ports c e m"
  shows "\<exists>m'. membershipMapper_toDomain ports e (joined ports c (me_id e)) = Inr m' \<and> same_membership m' m"
proof -
  have m: "mset (joined ports c (me_id e)) = mset (m_roleIds m)"
    using joined_vals assms by (simp add: membership_rel_def)
  have "mapR (parseUuid ports) (joined ports c (me_id e)) = Inr (joined ports c (me_id e))"
    using mset_valid[OF m] assms mapR_parse by (simp add: membership_rel_def)
  then have "membershipMapper_toDomain ports e (joined ports c (me_id e)) = Inr (m\<lparr>m_roleIds := joined ports c (me_id e)\<rparr>)"
    using assms by (simp add: membershipMapper_toDomain_def membership_rel_def parseUuid_def parseEnum_def membership_reconstitute_def)
  then show ?thesis using m by (simp add: same_membership_def)
qed

lemma invitation_rel_domain:
  assumes "invitation_rel ports c e iv"
  shows "\<exists>iv'. invitationMapper_toDomain ports e (joined ports c (ie_id e)) = Inr iv' \<and> same_invitation iv' iv"
proof -
  have m: "mset (joined ports c (ie_id e)) = mset (i_roleIds iv)"
    using joined_vals assms by (simp add: invitation_rel_def)
  have "mapR (parseUuid ports) (joined ports c (ie_id e)) = Inr (joined ports c (ie_id e))"
    using mset_valid[OF m] assms mapR_parse by (simp add: invitation_rel_def)
  then have "invitationMapper_toDomain ports e (joined ports c (ie_id e)) = Inr (iv\<lparr>i_roleIds := joined ports c (ie_id e)\<rparr>)"
    using assms by (simp add: invitationMapper_toDomain_def invitation_rel_def parseUuid_def invitation_reconstitute_def)
  then show ?thesis using m by (simp add: same_invitation_def)
qed

section \<open>The contract for each aggregate\<close>

abbreviation role_of :: "ormPorts \<Rightarrow> (string \<times> string) list \<Rightarrow> roleEntity \<Rightarrow> error + role" where
  "role_of ports c e \<equiv> roleMapper_toDomain ports e (joined ports c (re_id e))"

abbreviation membership_of :: "ormPorts \<Rightarrow> (string \<times> string) list \<Rightarrow> membershipEntity \<Rightarrow> error + membership" where
  "membership_of ports c e \<equiv> membershipMapper_toDomain ports e (joined ports c (me_id e))"

abbreviation invitation_of :: "ormPorts \<Rightarrow> (string \<times> string) list \<Rightarrow> invitationEntity \<Rightarrow> error + invitation" where
  "invitation_of ports c e \<equiv> invitationMapper_toDomain ports e (joined ports c (ie_id e))"

interpretation tenantRows: mapped_rows te_id ent_id "tenant_rel ports" "\<lambda>_. tenantMapper_toDomain ports" "(=)" for ports
  by unfold_locales
    (auto simp: tenant_rel_def tenantMapper_toDomain_def parseUuid_def parseEnum_def tenant_reconstitute_def newTenant_def)

interpretation roleRows: mapped_rows re_id ent_id "role_rel ports" "role_of ports" "(=)" for ports
  by unfold_locales (auto simp: role_rel_domain, auto simp: role_rel_def same_children_def)

interpretation membershipRows: mapped_rows me_id ent_id "membership_rel ports" "membership_of ports" same_membership for ports
  by unfold_locales (auto simp: membership_rel_domain, auto simp: membership_rel_def same_children_def)

interpretation invitationRows: mapped_rows ie_id ent_id "invitation_rel ports" "invitation_of ports" same_invitation for ports
  by unfold_locales (auto simp: invitation_rel_domain, auto simp: invitation_rel_def same_children_def)

interpretation userRows: mapped_rows ue_id ent_id "user_rel ports" "\<lambda>_. userMapper_toDomain ports" "(=)" for ports
  by unfold_locales
    (auto simp: user_rel_def userMapper_toDomain_def parseUuid_def parseEnum_def user_reconstitute_def)

interpretation passwordRows: mapped_rows pe_userId ent_id "password_rel ports" "\<lambda>_. localPasswordMapper_toDomain ports" "(=)" for ports
  by unfold_locales (auto simp: password_rel_def localPasswordMapper_toDomain_def parseUuid_def)

interpretation sessionRows: mapped_rows se_id ent_id "session_rel ports" "\<lambda>_. refreshSessionMapper_toDomain ports" "(=)" for ports
  by unfold_locales (auto simp: session_rel_def refreshSessionMapper_toDomain_def parseUuid_def session_reconstitute_def)

interpretation resetTokenRows: mapped_rows pt_userId ent_id "resetToken_rel ports" "\<lambda>_. passwordResetTokenMapper_toDomain ports" "(=)" for ports
  by unfold_locales (auto simp: resetToken_rel_def passwordResetTokenMapper_toDomain_def parseUuid_def resetToken_reconstitute_def)

interpretation apiKeyRows: mapped_rows ke_id ent_id "apiKey_rel ports" "\<lambda>_. apiKeyMapper_toDomain ports" "(=)" for ports
  by unfold_locales
    (auto simp: apiKey_rel_def apiKeyMapper_toDomain_def parseUuid_def mapR_permissions apiKey_reconstitute_def)

text \<open>The database stands for the store of the use cases: table by table, in the same order.\<close>

definition pg_refines :: "ormPorts \<Rightarrow> pgDb \<Rightarrow> db \<Rightarrow> bool" where
  "pg_refines ports pg d \<longleftrightarrow>
     list_all2 (tenant_rel ports []) (pg_tenants pg) (db_tenants d) \<and> distinct (map te_id (pg_tenants pg))
   \<and> list_all2 (role_rel ports (pg_rolePermissions pg)) (pg_roles pg) (db_roles d) \<and> distinct (map re_id (pg_roles pg))
   \<and> list_all2 (membership_rel ports (pg_membershipRoles pg)) (pg_memberships pg) (db_memberships d) \<and> distinct (map me_id (pg_memberships pg))
   \<and> list_all2 (invitation_rel ports (pg_invitationRoles pg)) (pg_invitations pg) (db_invitations d) \<and> distinct (map ie_id (pg_invitations pg))
   \<and> list_all2 (user_rel ports []) (pg_users pg) (db_users d) \<and> distinct (map ue_id (pg_users pg))
   \<and> list_all2 (password_rel ports []) (pg_localPasswords pg) (db_passwords d) \<and> distinct (map pe_userId (pg_localPasswords pg))
   \<and> list_all2 (session_rel ports []) (pg_refreshSessions pg) (db_sessions d) \<and> distinct (map se_id (pg_refreshSessions pg))
   \<and> list_all2 (resetToken_rel ports []) (pg_passwordResetTokens pg) (db_resetTokens d) \<and> distinct (map pt_userId (pg_passwordResetTokens pg))
   \<and> list_all2 (apiKey_rel ports []) (pg_apiKeys pg) (db_apiKeys d) \<and> distinct (map ke_id (pg_apiKeys pg))"

section \<open>Writes\<close>

text \<open>The database refuses nothing that is written.\<close>

definition accepts :: "ormPorts \<Rightarrow> bool" where
  "accepts ports \<longleftrightarrow> (\<forall>table i. op_refuses ports table i = None)"

lemma vals_replace: "vals (filter (\<lambda>c. fst c \<noteq> p) cs @ map (Pair p) vs) i = (if i = p then vs else vals cs i)"
proof -
  have "map snd (filter (\<lambda>c. fst c = p) (map (Pair p) vs)) = vs" by (induction vs) auto
  moreover have "filter (\<lambda>c. fst c = i) (map (Pair p) vs) = []" if "i \<noteq> p" using that by (induction vs) auto
  ultimately show ?thesis by (auto simp: vals_def intro!: arg_cong[where f = "map snd"] filter_cong)
qed

lemma manager_save_accepted:
  assumes "accepts ports"
  shows "\<exists>x y. manager_save ports table key row rows = Inr (upsert key (row\<lparr>ar_createdAt := x, ar_version := y\<rparr>) rows)"
  using assms by (auto simp: manager_save_def accepts_def Let_def)

lemma replaceChildren_accepted:
  assumes "accepts ports"
  shows "replaceChildren ports childTable p (map (Pair p) vs) rows = (Inr (), filter (\<lambda>c. fst c \<noteq> p) rows @ map (Pair p) vs)"
  using assms by (auto simp: replaceChildren_def accepts_def Let_def)

lemma saveVersioned_accepted:
  assumes "accepts ports" "\<And>x y r. key (r\<lparr>ar_createdAt := x, ar_version := y\<rparr>) = key r"
  shows "\<exists>x y. saveVersionedParentAndReplaceChildren ports (Some tx) table childTable key built (map (Pair (key built)) vs) (ps, cs)
    = (Inr (), (upsert key (built\<lparr>ar_createdAt := x, ar_version := y\<rparr>) ps,
        filter (\<lambda>c. fst c \<noteq> key built) cs @ map (Pair (key built)) vs))"
proof -
  define parent where "parent = (case lookup_row key (key built) ps of None \<Rightarrow> built
    | Some existing \<Rightarrow> built\<lparr>ar_createdAt := ar_createdAt existing, ar_version := ar_version existing\<rparr>)"
  obtain x y where m: "manager_save ports table key parent ps = Inr (upsert key (parent\<lparr>ar_createdAt := x, ar_version := y\<rparr>) ps)"
    using manager_save_accepted[OF assms(1)] by blast
  have "parent\<lparr>ar_createdAt := x, ar_version := y\<rparr> = built\<lparr>ar_createdAt := x, ar_version := y\<rparr>"
    by (simp add: parent_def split: option.splits)
  then show ?thesis using m replaceChildren_accepted[OF assms(1)]
    by (auto simp: saveVersionedParentAndReplaceChildren_def assertAmbientTransaction_def Let_def simp flip: parent_def)
qed

lemma saveAuditable_accepted:
  assumes "accepts ports" "\<And>x y r. key (r\<lparr>ar_createdAt := x, ar_version := y\<rparr>) = key r"
  shows "\<exists>x y. saveAuditableParentAndReplaceChildren ports (Some tx) table childTable key built (map (Pair (key built)) vs) (ps, cs)
    = (Inr (), (upsert key (built\<lparr>ar_createdAt := x, ar_version := y\<rparr>) ps,
        filter (\<lambda>c. fst c \<noteq> key built) cs @ map (Pair (key built)) vs))"
proof -
  define parent where "parent = (case lookup_row key (key built) ps of None \<Rightarrow> built
    | Some existing \<Rightarrow> built\<lparr>ar_createdAt := ar_createdAt existing\<rparr>)"
  obtain x y where m: "manager_save ports table key parent ps = Inr (upsert key (parent\<lparr>ar_createdAt := x, ar_version := y\<rparr>) ps)"
    using manager_save_accepted[OF assms(1)] by blast
  have "parent\<lparr>ar_createdAt := x, ar_version := y\<rparr> = built\<lparr>ar_createdAt := x, ar_version := y\<rparr>"
    by (simp add: parent_def split: option.splits)
  then show ?thesis using m replaceChildren_accepted[OF assms(1)]
    by (auto simp: saveAuditableParentAndReplaceChildren_def assertAmbientTransaction_def Let_def simp flip: parent_def)
qed

text \<open>What an aggregate needs to be written: its ids pass the id schemas, and its permissions parse.\<close>

definition storable_membership :: "ormPorts \<Rightarrow> membership \<Rightarrow> bool" where
  "storable_membership ports m \<longleftrightarrow> list_all (valid ports) ([ent_id m, m_tenantId m, m_userId m] @ m_roleIds m)"

definition storable_role :: "ormPorts \<Rightarrow> role \<Rightarrow> bool" where
  "storable_role ports r \<longleftrightarrow> valid ports (ent_id r) \<and> valid ports (r_tenantId r) \<and> role_wf r"

definition storable_invitation :: "ormPorts \<Rightarrow> invitation \<Rightarrow> bool" where
  "storable_invitation ports iv \<longleftrightarrow> list_all (valid ports) ([ent_id iv, i_tenantId iv, i_invitedByUserId iv] @ i_roleIds iv)"

definition storable_apiKey :: "ormPorts \<Rightarrow> apiKey \<Rightarrow> bool" where
  "storable_apiKey ports k \<longleftrightarrow> list_all (valid ports) [ent_id k, k_tenantId k, k_createdByUserId k]
     \<and> list_all (\<lambda>p. permission_parse p = Some p) (k_permissions k)"

lemma same_children_replace: "i \<noteq> p \<Longrightarrow> same_children cs (filter (\<lambda>c. fst c \<noteq> p) cs @ map (Pair p) vs) i"
  by (simp add: same_children_def vals_replace)

lemma membership_saved:
  assumes "pg_refines ports pg d" "accepts ports" "join_permutes ports" "storable_membership ports m"
  shows "\<exists>pg'. pgMemberships_save ports m (Some tx) (in_scope (m_tenantId m) a) pg = (Inr (), pg')
    \<and> pg_refines ports pg' (memberships_save m d)"
proof -
  define built where "built = \<lparr>ar_createdAt = None, ar_version = None, me_id = ent_id m, me_tenantId = m_tenantId m,
      me_userId = m_userId m, me_status = membershipStatus_name (m_status m)\<rparr>"
  define cs where "cs = filter (\<lambda>c. fst c \<noteq> ent_id m) (pg_membershipRoles pg) @ map (Pair (ent_id m)) (m_roleIds m)"
  have built: "me_id built = ent_id m" by (simp add: built_def)
  obtain x y where w: "saveVersionedParentAndReplaceChildren ports (Some tx) ''memberships'' ''membership_roles'' me_id built
      (map (Pair (ent_id m)) (m_roleIds m)) (pg_memberships pg, pg_membershipRoles pg)
    = (Inr (), (upsert me_id (built\<lparr>ar_createdAt := x, ar_version := y\<rparr>) (pg_memberships pg), cs))"
    using saveVersioned_accepted[OF assms(2), of me_id tx "''memberships''" "''membership_roles''" built "m_roleIds m"
        "pg_memberships pg" "pg_membershipRoles pg"] by (auto simp: built cs_def)
  define e where "e = built\<lparr>ar_createdAt := x, ar_version := y\<rparr>"
  have r: "membership_rel ports cs e (as_stored m)"
    using assms(3,4) by (simp add: membership_rel_def e_def built_def cs_def vals_replace storable_membership_def)
  have k: "me_id e = ent_id m" by (simp add: e_def built_def)
  have "list_all2 (membership_rel ports cs) (upsert me_id e (pg_memberships pg)) (upsert ent_id (as_stored m) (db_memberships d))"
  proof (rule membershipRows.upsert_rows[OF _ _ r])
    show "list_all2 (membership_rel ports (pg_membershipRoles pg)) (pg_memberships pg) (db_memberships d)"
      and "distinct (map me_id (pg_memberships pg))" using assms(1) by (simp_all add: pg_refines_def)
    show "same_children (pg_membershipRoles pg) cs i" if "i \<noteq> me_id e" for i
      using that k unfolding cs_def by (intro same_children_replace) simp
  qed
  moreover have "distinct (map me_id (upsert me_id e (pg_memberships pg)))"
    using assms(1) by (intro upsert_distinct) (simp add: pg_refines_def)
  ultimately have "pg_refines ports (pg\<lparr>pg_memberships := upsert me_id e (pg_memberships pg), pg_membershipRoles := cs\<rparr>) (memberships_save m d)"
    using assms(1) by (simp add: pg_refines_def memberships_save_def)
  moreover have "pgMemberships_save ports m (Some tx) (in_scope (m_tenantId m) a) pg
      = (Inr (), pg\<lparr>pg_memberships := upsert me_id e (pg_memberships pg), pg_membershipRoles := cs\<rparr>)"
    using w unfolding e_def built_def by (simp add: pgMemberships_save_def membershipMapper_toEntity_def Let_def comp_def)
  ultimately show ?thesis by blast
qed

lemma role_saved:
  assumes "pg_refines ports pg d" "accepts ports" "join_permutes ports" "storable_role ports r"
  shows "\<exists>pg'. pgRoles_save ports r (Some tx) (in_scope (r_tenantId r) a) pg = (Inr (), pg')
    \<and> pg_refines ports pg' (roles_save r d)"
proof -
  define built where "built = \<lparr>ar_createdAt = None, ar_version = None, re_id = ent_id r, re_tenantId = r_tenantId r,
      re_name = r_name r, re_isSystem = r_isSystem r\<rparr>"
  define cs where "cs = filter (\<lambda>c. fst c \<noteq> ent_id r) (pg_rolePermissions pg) @ map (Pair (ent_id r)) (r_permissions r)"
  have built: "re_id built = ent_id r" by (simp add: built_def)
  obtain x y where w: "saveVersionedParentAndReplaceChildren ports (Some tx) ''roles'' ''role_permissions'' re_id built
      (map (Pair (ent_id r)) (r_permissions r)) (pg_roles pg, pg_rolePermissions pg)
    = (Inr (), (upsert re_id (built\<lparr>ar_createdAt := x, ar_version := y\<rparr>) (pg_roles pg), cs))"
    using saveVersioned_accepted[OF assms(2), of re_id tx "''roles''" "''role_permissions''" built "r_permissions r"
        "pg_roles pg" "pg_rolePermissions pg"] by (auto simp: built cs_def)
  define e where "e = built\<lparr>ar_createdAt := x, ar_version := y\<rparr>"
  have r: "role_rel ports cs e (as_stored r)"
    using assms(3,4) by (simp add: role_rel_def e_def built_def cs_def vals_replace storable_role_def role_wf_def)
  have k: "re_id e = ent_id r" by (simp add: e_def built_def)
  have "list_all2 (role_rel ports cs) (upsert re_id e (pg_roles pg)) (upsert ent_id (as_stored r) (db_roles d))"
  proof (rule roleRows.upsert_rows[OF _ _ r])
    show "list_all2 (role_rel ports (pg_rolePermissions pg)) (pg_roles pg) (db_roles d)"
      and "distinct (map re_id (pg_roles pg))" using assms(1) by (simp_all add: pg_refines_def)
    show "same_children (pg_rolePermissions pg) cs i" if "i \<noteq> re_id e" for i
      using that k unfolding cs_def by (intro same_children_replace) simp
  qed
  moreover have "distinct (map re_id (upsert re_id e (pg_roles pg)))"
    using assms(1) by (intro upsert_distinct) (simp add: pg_refines_def)
  ultimately have "pg_refines ports (pg\<lparr>pg_roles := upsert re_id e (pg_roles pg), pg_rolePermissions := cs\<rparr>) (roles_save r d)"
    using assms(1) by (simp add: pg_refines_def roles_save_def)
  moreover have "pgRoles_save ports r (Some tx) (in_scope (r_tenantId r) a) pg
      = (Inr (), pg\<lparr>pg_roles := upsert re_id e (pg_roles pg), pg_rolePermissions := cs\<rparr>)"
    using w unfolding e_def built_def by (simp add: pgRoles_save_def roleMapper_toEntity_def Let_def comp_def)
  ultimately show ?thesis by blast
qed

lemma invitation_saved:
  assumes "pg_refines ports pg d" "accepts ports" "join_permutes ports" "storable_invitation ports iv"
  shows "\<exists>pg'. pgInvitations_save ports iv (Some tx) (in_scope (i_tenantId iv) a) pg = (Inr (), pg')
    \<and> pg_refines ports pg' (invitations_save iv d)"
proof -
  define built where "built = \<lparr>ar_createdAt = None, ar_version = None, ie_id = ent_id iv, ie_tenantId = i_tenantId iv,
      ie_email = i_email iv, ie_tokenHash = i_tokenHash iv, ie_expiresAt = i_expiresAt iv,
      ie_invitedByUserId = i_invitedByUserId iv, ie_consumedAt = i_consumedAt iv\<rparr>"
  define cs where "cs = filter (\<lambda>c. fst c \<noteq> ent_id iv) (pg_invitationRoles pg) @ map (Pair (ent_id iv)) (i_roleIds iv)"
  have built: "ie_id built = ent_id iv" by (simp add: built_def)
  obtain x y where w: "saveAuditableParentAndReplaceChildren ports (Some tx) ''invitations'' ''invitation_roles'' ie_id built
      (map (Pair (ent_id iv)) (i_roleIds iv)) (pg_invitations pg, pg_invitationRoles pg)
    = (Inr (), (upsert ie_id (built\<lparr>ar_createdAt := x, ar_version := y\<rparr>) (pg_invitations pg), cs))"
    using saveAuditable_accepted[OF assms(2), of ie_id tx "''invitations''" "''invitation_roles''" built "i_roleIds iv"
        "pg_invitations pg" "pg_invitationRoles pg"] by (auto simp: built cs_def)
  define e where "e = built\<lparr>ar_createdAt := x, ar_version := y\<rparr>"
  have r: "invitation_rel ports cs e (as_stored iv)"
    using assms(3,4) by (simp add: invitation_rel_def e_def built_def cs_def vals_replace storable_invitation_def)
  have k: "ie_id e = ent_id iv" by (simp add: e_def built_def)
  have "list_all2 (invitation_rel ports cs) (upsert ie_id e (pg_invitations pg)) (upsert ent_id (as_stored iv) (db_invitations d))"
  proof (rule invitationRows.upsert_rows[OF _ _ r])
    show "list_all2 (invitation_rel ports (pg_invitationRoles pg)) (pg_invitations pg) (db_invitations d)"
      and "distinct (map ie_id (pg_invitations pg))" using assms(1) by (simp_all add: pg_refines_def)
    show "same_children (pg_invitationRoles pg) cs i" if "i \<noteq> ie_id e" for i
      using that k unfolding cs_def by (intro same_children_replace) simp
  qed
  moreover have "distinct (map ie_id (upsert ie_id e (pg_invitations pg)))"
    using assms(1) by (intro upsert_distinct) (simp add: pg_refines_def)
  ultimately have "pg_refines ports (pg\<lparr>pg_invitations := upsert ie_id e (pg_invitations pg), pg_invitationRoles := cs\<rparr>) (invitations_save iv d)"
    using assms(1) by (simp add: pg_refines_def invitations_save_def)
  moreover have "pgInvitations_save ports iv (Some tx) (in_scope (i_tenantId iv) a) pg
      = (Inr (), pg\<lparr>pg_invitations := upsert ie_id e (pg_invitations pg), pg_invitationRoles := cs\<rparr>)"
    using w unfolding e_def built_def by (simp add: pgInvitations_save_def invitationMapper_toEntity_def Let_def comp_def)
  ultimately show ?thesis by blast
qed

lemma apiKey_saved:
  assumes "pg_refines ports pg d" "accepts ports" "storable_apiKey ports k"
  shows "\<exists>pg'. pgApiKeys_save ports k tx (in_scope (k_tenantId k) a) pg = (Inr (), pg') \<and> pg_refines ports pg' (apiKeys_save k d)"
proof -
  define row where "row = (case lookup_row ke_id (ent_id k) (pg_apiKeys pg) of
      None \<Rightarrow> (apiKeyMapper_toEntity k)\<lparr>ke_tenantId := k_tenantId k\<rparr>
    | Some existing \<Rightarrow> (apiKeyMapper_toEntity k)\<lparr>ke_tenantId := k_tenantId k, ar_createdAt := ar_createdAt existing\<rparr>)"
  obtain x y where m: "manager_save ports ''api_keys'' ke_id row (pg_apiKeys pg)
      = Inr (upsert ke_id (row\<lparr>ar_createdAt := x, ar_version := y\<rparr>) (pg_apiKeys pg))"
    using manager_save_accepted[OF assms(2)] by blast
  define e where "e = row\<lparr>ar_createdAt := x, ar_version := y\<rparr>"
  have r: "apiKey_rel ports [] e (as_stored k)"
    using assms(3) by (auto simp: apiKey_rel_def e_def row_def apiKeyMapper_toEntity_def storable_apiKey_def split: option.splits)
  have "list_all2 (apiKey_rel ports []) (upsert ke_id e (pg_apiKeys pg)) (upsert ent_id (as_stored k) (db_apiKeys d))"
    using assms(1) by (intro apiKeyRows.upsert_rows[OF _ _ r]) (auto simp: pg_refines_def same_children_def)
  moreover have "distinct (map ke_id (upsert ke_id e (pg_apiKeys pg)))"
    using assms(1) by (intro upsert_distinct) (simp add: pg_refines_def)
  ultimately have "pg_refines ports (pg\<lparr>pg_apiKeys := upsert ke_id e (pg_apiKeys pg)\<rparr>) (apiKeys_save k d)"
    using assms(1) by (simp add: pg_refines_def apiKeys_save_def)
  moreover have "pgApiKeys_save ports k tx (in_scope (k_tenantId k) a) pg = (Inr (), pg\<lparr>pg_apiKeys := upsert ke_id e (pg_apiKeys pg)\<rparr>)"
  proof -
    have t: "ke_tenantId (apiKeyMapper_toEntity k) = k_tenantId k" by (simp add: apiKeyMapper_toEntity_def)
    show ?thesis using m unfolding pgApiKeys_save_def Let_def t
      by (simp add: plain_save_def e_def flip: row_def)
  qed
  ultimately show ?thesis by blast
qed

text \<open>The aggregates that are saved with one statement.\<close>

lemma plain_saved:
  assumes "accepts ports"
  shows "\<exists>x y. plain_save ports table key put row rows d = (Inr (), put (upsert key (row\<lparr>ar_createdAt := x, ar_version := y\<rparr>) rows) d)"
  using manager_save_accepted[OF assms, of table key row rows] unfolding plain_save_def by force

lemma tenant_saved:
  assumes "pg_refines ports pg d" "accepts ports" "valid ports (ent_id t)"
  shows "\<exists>pg'. pgTenants_save ports t tx (in_scope (ent_id t) a) pg = (Inr (), pg') \<and> pg_refines ports pg' (tenants_save t d)"
proof -
  obtain x y where w: "manager_save ports ''tenants'' te_id (tenantMapper_toEntity t) (pg_tenants pg)
      = Inr (upsert te_id ((tenantMapper_toEntity t)\<lparr>ar_createdAt := x, ar_version := y\<rparr>) (pg_tenants pg))" (is "_ = Inr ?rows")
    using manager_save_accepted[OF assms(2)] by blast
  have r: "tenant_rel ports [] ((tenantMapper_toEntity t)\<lparr>ar_createdAt := x, ar_version := y\<rparr>) (as_stored t)"
    using assms(3) by (simp add: tenant_rel_def tenantMapper_toEntity_def)
  have "list_all2 (tenant_rel ports []) ?rows (upsert ent_id (as_stored t) (db_tenants d))"
    using assms(1) by (intro tenantRows.upsert_rows[OF _ _ r]) (auto simp: pg_refines_def same_children_def)
  then have "pg_refines ports (pg\<lparr>pg_tenants := ?rows\<rparr>) (tenants_save t d)"
    using assms(1) by (simp add: pg_refines_def tenants_save_def upsert_distinct)
  moreover have "pgTenants_save ports t tx (in_scope (ent_id t) a) pg = (Inr (), pg\<lparr>pg_tenants := ?rows\<rparr>)"
    using w by (simp add: pgTenants_save_def tenantMapper_toEntity_def)
  ultimately show ?thesis by blast
qed

lemma user_saved:
  assumes "pg_refines ports pg d" "accepts ports" "valid ports (ent_id u)"
  shows "\<exists>pg'. pgUsers_save ports u pg = (Inr (), pg') \<and> pg_refines ports pg' (users_save u d)"
proof -
  obtain x y where w: "pgUsers_save ports u pg = (Inr (), pg\<lparr>pg_users :=
      upsert ue_id ((userMapper_toEntity u)\<lparr>ar_createdAt := x, ar_version := y\<rparr>) (pg_users pg)\<rparr>)"
    unfolding pgUsers_save_def using plain_saved[OF assms(2)] by blast
  have r: "user_rel ports [] ((userMapper_toEntity u)\<lparr>ar_createdAt := x, ar_version := y\<rparr>) (as_stored u)"
    using assms(3) by (simp add: user_rel_def userMapper_toEntity_def)
  have "list_all2 (user_rel ports []) (upsert ue_id ((userMapper_toEntity u)\<lparr>ar_createdAt := x, ar_version := y\<rparr>) (pg_users pg))
      (upsert ent_id (as_stored u) (db_users d))"
    using assms(1) by (intro userRows.upsert_rows[OF _ _ r]) (auto simp: pg_refines_def same_children_def)
  then show ?thesis using w assms(1) by (simp add: pg_refines_def users_save_def upsert_distinct)
qed

lemma password_saved:
  assumes "pg_refines ports pg d" "accepts ports" "valid ports (ent_id p)"
  shows "\<exists>pg'. pgPasswords_save ports p pg = (Inr (), pg') \<and> pg_refines ports pg' (passwords_save p d)"
proof -
  obtain x y where w: "pgPasswords_save ports p pg = (Inr (), pg\<lparr>pg_localPasswords :=
      upsert pe_userId ((localPasswordMapper_toEntity p)\<lparr>ar_createdAt := x, ar_version := y\<rparr>) (pg_localPasswords pg)\<rparr>)"
    unfolding pgPasswords_save_def using plain_saved[OF assms(2)] by blast
  have r: "password_rel ports [] ((localPasswordMapper_toEntity p)\<lparr>ar_createdAt := x, ar_version := y\<rparr>) p"
    using assms(3) by (simp add: password_rel_def localPasswordMapper_toEntity_def)
  have "list_all2 (password_rel ports []) (upsert pe_userId ((localPasswordMapper_toEntity p)\<lparr>ar_createdAt := x, ar_version := y\<rparr>)
      (pg_localPasswords pg)) (upsert ent_id p (db_passwords d))"
    using assms(1) by (intro passwordRows.upsert_rows[OF _ _ r]) (auto simp: pg_refines_def same_children_def)
  then show ?thesis using w assms(1) by (simp add: pg_refines_def passwords_save_def upsert_distinct)
qed

definition storable_session :: "ormPorts \<Rightarrow> refreshSession \<Rightarrow> bool" where
  "storable_session ports s \<longleftrightarrow> list_all (valid ports) [ent_id s, s_userId s, s_familyId s]"

lemma session_saved:
  assumes "pg_refines ports pg d" "accepts ports" "storable_session ports s"
  shows "\<exists>pg'. pgSessions_save ports s pg = (Inr (), pg') \<and> pg_refines ports pg' (sessions_save s d)"
proof -
  obtain x y where w: "pgSessions_save ports s pg = (Inr (), pg\<lparr>pg_refreshSessions :=
      upsert se_id ((refreshSessionMapper_toEntity s)\<lparr>ar_createdAt := x, ar_version := y\<rparr>) (pg_refreshSessions pg)\<rparr>)"
    unfolding pgSessions_save_def using plain_saved[OF assms(2)] by blast
  have r: "session_rel ports [] ((refreshSessionMapper_toEntity s)\<lparr>ar_createdAt := x, ar_version := y\<rparr>) s"
    using assms(3) by (simp add: session_rel_def refreshSessionMapper_toEntity_def storable_session_def)
  have "list_all2 (session_rel ports []) (upsert se_id ((refreshSessionMapper_toEntity s)\<lparr>ar_createdAt := x, ar_version := y\<rparr>)
      (pg_refreshSessions pg)) (upsert ent_id s (db_sessions d))"
    using assms(1) by (intro sessionRows.upsert_rows[OF _ _ r]) (auto simp: pg_refines_def same_children_def)
  then show ?thesis using w assms(1) by (simp add: pg_refines_def sessions_save_def upsert_distinct)
qed

lemma resetToken_saved:
  assumes "pg_refines ports pg d" "accepts ports" "valid ports (ent_id t)"
  shows "\<exists>pg'. pgResetTokens_save ports t pg = (Inr (), pg') \<and> pg_refines ports pg' (resetTokens_save t d)"
proof -
  obtain x y where w: "pgResetTokens_save ports t pg = (Inr (), pg\<lparr>pg_passwordResetTokens :=
      upsert pt_userId ((passwordResetTokenMapper_toEntity t)\<lparr>ar_createdAt := x, ar_version := y\<rparr>) (pg_passwordResetTokens pg)\<rparr>)"
    unfolding pgResetTokens_save_def using plain_saved[OF assms(2)] by blast
  have r: "resetToken_rel ports [] ((passwordResetTokenMapper_toEntity t)\<lparr>ar_createdAt := x, ar_version := y\<rparr>) t"
    using assms(3) by (simp add: resetToken_rel_def passwordResetTokenMapper_toEntity_def)
  have "list_all2 (resetToken_rel ports []) (upsert pt_userId ((passwordResetTokenMapper_toEntity t)\<lparr>ar_createdAt := x, ar_version := y\<rparr>)
      (pg_passwordResetTokens pg)) (upsert ent_id t (db_resetTokens d))"
    using assms(1) by (intro resetTokenRows.upsert_rows[OF _ _ r]) (auto simp: pg_refines_def same_children_def)
  then show ?thesis using w assms(1) by (simp add: pg_refines_def resetTokens_save_def upsert_distinct)
qed

section \<open>Updates in place and deletes\<close>

lemma sessions_mapped:
  assumes "list_all2 (session_rel ports []) es as" "\<And>e a. session_rel ports [] e a \<Longrightarrow> P e \<longleftrightarrow> Q a"
  shows "list_all2 (session_rel ports []) (map (\<lambda>r. if P r then r\<lparr>se_revokedAt := Some t\<rparr> else r) es)
    (map (\<lambda>s. if Q s then session_revoke s t else s) as)"
  using assms(1)
proof (induction rule: list_all2_induct)
  case (Cons e es a as)
  then show ?case using assms(2)[OF Cons(1)] by (auto simp: session_rel_def session_revoke_def)
qed simp

lemma keys_mapped: "(\<And>r. key (f r) = key r) \<Longrightarrow> map key (map f rs) = map key rs"
  by simp

lemma sessions_revoked:
  assumes "pg_refines ports pg d"
  shows "pg_refines ports (pgSessions_revokeFamily f t pg) (sessions_revokeFamily f t d)"
    and "pg_refines ports (pgSessions_revokeAllForUser u t pg) (sessions_revokeAllForUser u t d)"
proof -
  have l: "list_all2 (session_rel ports []) (pg_refreshSessions pg) (db_sessions d)"
    and k: "distinct (map se_id (pg_refreshSessions pg))" using assms by (simp_all add: pg_refines_def)
  have k': "distinct (map se_id (map (\<lambda>r. if P r then r\<lparr>se_revokedAt := Some t\<rparr> else r) (pg_refreshSessions pg)))" for P
    using k by (subst keys_mapped) auto
  have "list_all2 (session_rel ports [])
      (map (\<lambda>r. if se_familyId r = f \<and> se_revokedAt r = None then r\<lparr>se_revokedAt := Some t\<rparr> else r) (pg_refreshSessions pg))
      (map (\<lambda>s. if s_familyId s = f \<and> s_revokedAt s = None then session_revoke s t else s) (db_sessions d))"
    by (rule sessions_mapped[OF l]) (auto simp: session_rel_def)
  then show "pg_refines ports (pgSessions_revokeFamily f t pg) (sessions_revokeFamily f t d)"
    using assms k' unfolding pg_refines_def pgSessions_revokeFamily_def sessions_revokeFamily_def by (simp del: map_map)
  have "list_all2 (session_rel ports [])
      (map (\<lambda>r. if se_userId r = u \<and> se_revokedAt r = None then r\<lparr>se_revokedAt := Some t\<rparr> else r) (pg_refreshSessions pg))
      (map (\<lambda>s. if s_userId s = u \<and> s_revokedAt s = None then session_revoke s t else s) (db_sessions d))"
    by (rule sessions_mapped[OF l]) (auto simp: session_rel_def)
  then show "pg_refines ports (pgSessions_revokeAllForUser u t pg) (sessions_revokeAllForUser u t d)"
    using assms k' unfolding pg_refines_def pgSessions_revokeAllForUser_def sessions_revokeAllForUser_def by (simp del: map_map)
qed

end
