(* ===== verification/PostgresGuarantees.thy ===== *)
theory PostgresGuarantees
  imports PostgresRefinement
begin

text \<open>
  The properties of the Postgres repositories: a sequence of writes of a unit of work simulates the store
  of the use cases, the reads of a tenant scope return what that store returns for the tenant, no read or
  write crosses tenants, and every mapper reads back what it wrote.
\<close>

section \<open>Deleting a role\<close>

lemma find_with_key:
  "distinct (map key rows) \<Longrightarrow> find (\<lambda>r. key r = k \<and> P r) rows = (case lookup_row key k rows of
     None \<Rightarrow> None | Some r \<Rightarrow> if P r then Some r else None)"
proof (induction rows)
  case (Cons x xs)
  show ?case
  proof (cases "key x = k")
    case True
    then have "lookup_row key k xs = None" using Cons.prems by (auto simp: lookup_row_None)
    then show ?thesis using True Cons by (simp add: lookup_row_def)
  qed (use Cons in \<open>simp add: lookup_row_def\<close>)
qed (simp add: lookup_row_def)

text \<open>What a scoped \<open>findById\<close> returns: the aggregate, when it belongs to the tenant.\<close>

definition of_tenant :: "tenantId \<Rightarrow> ('a \<Rightarrow> tenantId) \<Rightarrow> 'a option \<Rightarrow> 'a option" where
  "of_tenant t tenantOf r = (case r of None \<Rightarrow> None | Some x \<Rightarrow> if tenantOf x = t then Some x else None)"

lemma filter_and: "filter P (filter Q xs) = filter (\<lambda>x. Q x \<and> P x) xs"
  by simp

lemma row_mappers:
  "pgRole ports pg = role_of ports (pg_rolePermissions pg)"
  "pgMembership ports pg = membership_of ports (pg_membershipRoles pg)"
  "pgInvitation ports pg = invitation_of ports (pg_invitationRoles pg)"
  by (rule ext, simp add: pgRole_def pgMembership_def pgInvitation_def)+

lemma roleRow_found:
  assumes "pg_refines ports pg d"
  shows "pgRoles_findById ports i (in_scope t a) pg = Inr (of_tenant t r_tenantId (roles_findById i d))"
proof -
  have l: "list_all2 (role_rel ports (pg_rolePermissions pg)) (pg_roles pg) (db_roles d)"
    and k: "distinct (map re_id (pg_roles pg))" using assms by (simp_all add: pg_refines_def)
  then have "distinct (map ent_id (db_roles d))" using roleRows.keys_eq[OF l] by simp
  moreover have "\<exists>r. getOne (role_of ports (pg_rolePermissions pg)) (filter (\<lambda>e. re_id e = i \<and> re_tenantId e = t) (pg_roles pg)) = Inr r
      \<and> rel_option (=) r (find (\<lambda>r. ent_id r = i \<and> r_tenantId r = t) (db_roles d))"
    by (rule roleRows.find_rows[OF l]) (auto simp: role_rel_def)
  ultimately show ?thesis
    by (simp add: pgRoles_findById_def row_mappers roles_findById_def of_tenant_def find_with_key option.rel_eq)
qed

lemma role_deleted:
  assumes "pg_refines ports pg d" "\<forall>r. roles_findById i d = Some r \<longrightarrow> r_tenantId r = t"
  shows "\<exists>pg'. pgRoles_delete ports i (Some tx) (in_scope t a) pg = (Inr (), pg') \<and> pg_refines ports pg' (roles_delete i d)"
proof -
  have l: "list_all2 (role_rel ports (pg_rolePermissions pg)) (pg_roles pg) (db_roles d)"
    and k: "distinct (map re_id (pg_roles pg))" using assms by (simp_all add: pg_refines_def)
  have keys: "map re_id (pg_roles pg) = map ent_id (db_roles d)" using roleRows.keys_eq[OF l] .
  show ?thesis
  proof (cases "roles_findById i d")
    case None
    then have "i \<notin> ent_id ` set (db_roles d)" by (simp add: roles_findById_def lookup_row_None)
    then have "remove_row ent_id i (db_roles d) = db_roles d" by (auto simp: remove_row_def filter_id_conv)
    then have "roles_delete i d = d" by (simp add: roles_delete_def)
    moreover have "pgRoles_findById ports i (in_scope t a) pg = Inr None"
      using roleRow_found[OF assms(1)] None by (simp add: of_tenant_def)
    ultimately show ?thesis using assms(1) by (simp add: pgRoles_delete_def)
  next
    case (Some r)
    then have f: "pgRoles_findById ports i (in_scope t a) pg = Inr (Some r)"
      using roleRow_found[OF assms(1)] assms(2) by (simp add: of_tenant_def)
    have "i \<in> ent_id ` set (db_roles d)" using Some by (auto simp: roles_findById_def dest: lookup_row_Some)
    then have "i \<in> re_id ` set (pg_roles pg)" using keys by (metis set_map)
    then obtain row where row: "lookup_row re_id i (pg_roles pg) = Some row" by (metis lookup_row_None not_Some_eq)
    let ?cs = "filter (\<lambda>c. fst c \<noteq> i) (pg_rolePermissions pg)"
    have "list_all2 (role_rel ports ?cs) (remove_row re_id i (pg_roles pg)) (remove_row ent_id i (db_roles d))"
    proof (rule roleRows.remove_rows[OF l])
      show "same_children (pg_rolePermissions pg) ?cs j" if "j \<noteq> i" for j
        using same_children_replace[OF that, of "pg_rolePermissions pg" "[]"] by simp
    qed
    then have "pg_refines ports (pg\<lparr>pg_roles := remove_row re_id i (pg_roles pg), pg_rolePermissions := ?cs\<rparr>) (roles_delete i d)"
      using assms(1) by (simp add: pg_refines_def roles_delete_def remove_row_distinct)
    then show ?thesis using f row
      by (simp add: pgRoles_delete_def deleteParentAndChildren_def assertAmbientTransaction_def)
  qed
qed

section \<open>A unit of work is a sequence of writes\<close>

datatype storeWrite = SaveTenant tenant | SaveRole role | DeleteRole roleId | SaveMembership membership
  | SaveInvitation invitation | SaveUser user | SavePassword localPassword | SaveSession refreshSession
  | RevokeFamily familyId millis | RevokeAllForUser userId millis | SaveResetToken passwordResetToken | SaveApiKey apiKey

fun pg_write :: "ormPorts \<Rightarrow> storeWrite \<Rightarrow> pgWrite" where
  "pg_write ports (SaveTenant t) tx store d = pgTenants_save ports t tx store d"
| "pg_write ports (SaveRole r) tx store d = pgRoles_save ports r tx store d"
| "pg_write ports (DeleteRole i) tx store d = pgRoles_delete ports i tx store d"
| "pg_write ports (SaveMembership m) tx store d = pgMemberships_save ports m tx store d"
| "pg_write ports (SaveInvitation i) tx store d = pgInvitations_save ports i tx store d"
| "pg_write ports (SaveUser u) tx store d = pgUsers_save ports u d"
| "pg_write ports (SavePassword p) tx store d = pgPasswords_save ports p d"
| "pg_write ports (SaveSession s) tx store d = pgSessions_save ports s d"
| "pg_write ports (RevokeFamily f when) tx store d = (Inr (), pgSessions_revokeFamily f when d)"
| "pg_write ports (RevokeAllForUser u when) tx store d = (Inr (), pgSessions_revokeAllForUser u when d)"
| "pg_write ports (SaveResetToken t) tx store d = pgResetTokens_save ports t d"
| "pg_write ports (SaveApiKey k) tx store d = pgApiKeys_save ports k tx store d"

fun mem_write :: "storeWrite \<Rightarrow> db \<Rightarrow> db" where
  "mem_write (SaveTenant t) d = tenants_save t d"
| "mem_write (SaveRole r) d = roles_save r d"
| "mem_write (DeleteRole i) d = roles_delete i d"
| "mem_write (SaveMembership m) d = memberships_save m d"
| "mem_write (SaveInvitation i) d = invitations_save i d"
| "mem_write (SaveUser u) d = users_save u d"
| "mem_write (SavePassword p) d = passwords_save p d"
| "mem_write (SaveSession s) d = sessions_save s d"
| "mem_write (RevokeFamily f when) d = sessions_revokeFamily f when d"
| "mem_write (RevokeAllForUser u when) d = sessions_revokeAllForUser u when d"
| "mem_write (SaveResetToken t) d = resetTokens_save t d"
| "mem_write (SaveApiKey k) d = apiKeys_save k d"

text \<open>A write a use case of tenant \<open>t\<close> may ask for: of that tenant, with ids of the id schemas.\<close>

fun write_ok :: "ormPorts \<Rightarrow> tenantId \<Rightarrow> storeWrite \<Rightarrow> db \<Rightarrow> bool" where
  "write_ok ports t (SaveTenant x) d \<longleftrightarrow> ent_id x = t \<and> valid ports (ent_id x)"
| "write_ok ports t (SaveRole r) d \<longleftrightarrow> r_tenantId r = t \<and> storable_role ports r"
| "write_ok ports t (DeleteRole i) d \<longleftrightarrow> (case roles_findById i d of None \<Rightarrow> True | Some r \<Rightarrow> r_tenantId r = t)"
| "write_ok ports t (SaveMembership m) d \<longleftrightarrow> m_tenantId m = t \<and> storable_membership ports m"
| "write_ok ports t (SaveInvitation i) d \<longleftrightarrow> i_tenantId i = t \<and> storable_invitation ports i"
| "write_ok ports t (SaveUser u) d \<longleftrightarrow> valid ports (ent_id u)"
| "write_ok ports t (SavePassword p) d \<longleftrightarrow> valid ports (ent_id p)"
| "write_ok ports t (SaveSession s) d \<longleftrightarrow> storable_session ports s"
| "write_ok ports t (RevokeFamily f when) d \<longleftrightarrow> True"
| "write_ok ports t (RevokeAllForUser u when) d \<longleftrightarrow> True"
| "write_ok ports t (SaveResetToken x) d \<longleftrightarrow> valid ports (ent_id x)"
| "write_ok ports t (SaveApiKey k) d \<longleftrightarrow> k_tenantId k = t \<and> storable_apiKey ports k"

fun pg_writes :: "ormPorts \<Rightarrow> storeWrite list \<Rightarrow> pgWrite" where
  "pg_writes ports [] tx store d = (Inr (), d)"
| "pg_writes ports (w # ws) tx store d = (case pg_write ports w tx store d of
     (Inl e, d') \<Rightarrow> (Inl e, d') | (Inr _, d') \<Rightarrow> pg_writes ports ws tx store d')"

fun mem_writes :: "storeWrite list \<Rightarrow> db \<Rightarrow> db" where
  "mem_writes [] d = d"
| "mem_writes (w # ws) d = mem_writes ws (mem_write w d)"

fun writes_ok :: "ormPorts \<Rightarrow> tenantId \<Rightarrow> storeWrite list \<Rightarrow> db \<Rightarrow> bool" where
  "writes_ok ports t [] d \<longleftrightarrow> True"
| "writes_ok ports t (w # ws) d \<longleftrightarrow> write_ok ports t w d \<and> writes_ok ports t ws (mem_write w d)"

lemma write_refines:
  assumes "pg_refines ports pg d" "accepts ports" "join_permutes ports" "write_ok ports t w d"
  shows "\<exists>pg'. pg_write ports w (Some tx) (in_scope t a) pg = (Inr (), pg') \<and> pg_refines ports pg' (mem_write w d)"
proof (cases w)
  case (SaveTenant x) then show ?thesis using tenant_saved[OF assms(1,2), of x "Some tx" a] assms(4) by auto
next
  case (SaveRole r) then show ?thesis using role_saved[OF assms(1-3), of r tx a] assms(4) by auto
next
  case (DeleteRole i) then show ?thesis using role_deleted[OF assms(1), of i t tx a] assms(4) by (simp split: option.splits)
next
  case (SaveMembership m) then show ?thesis using membership_saved[OF assms(1-3), of m tx a] assms(4) by auto
next
  case (SaveInvitation i) then show ?thesis using invitation_saved[OF assms(1-3), of i tx a] assms(4) by auto
next
  case (SaveUser u) then show ?thesis using user_saved[OF assms(1,2), of u] assms(4) by auto
next
  case (SavePassword p) then show ?thesis using password_saved[OF assms(1,2), of p] assms(4) by auto
next
  case (SaveSession s) then show ?thesis using session_saved[OF assms(1,2), of s] assms(4) by auto
next
  case (RevokeFamily f x) then show ?thesis using sessions_revoked(1)[OF assms(1)] by simp
next
  case (RevokeAllForUser u x) then show ?thesis using sessions_revoked(2)[OF assms(1)] by simp
next
  case (SaveResetToken x) then show ?thesis using resetToken_saved[OF assms(1,2), of x] assms(4) by auto
next
  case (SaveApiKey k) then show ?thesis using apiKey_saved[OF assms(1,2), of k "Some tx" a] assms(4) by auto
qed

lemma writes_refine:
  assumes "accepts ports" "join_permutes ports"
  shows "pg_refines ports pg d \<Longrightarrow> writes_ok ports t ws d \<Longrightarrow>
    \<exists>pg'. pg_writes ports ws (Some tx) (in_scope t a) pg = (Inr (), pg') \<and> pg_refines ports pg' (mem_writes ws d)"
proof (induction ws arbitrary: pg d)
  case (Cons w ws)
  then obtain pg1 where "pg_write ports w (Some tx) (in_scope t a) pg = (Inr (), pg1)" "pg_refines ports pg1 (mem_write w d)"
    using write_refines[OF Cons.prems(1) assms, of t w tx a] by auto
  then show ?case using Cons by simp
qed simp

text \<open>A unit of work over the Postgres repositories.\<close>

definition pg_unitOfWork :: "ormPorts \<Rightarrow> string \<Rightarrow> storeWrite list \<Rightarrow> tenantAlsStore option \<Rightarrow> pgDb \<Rightarrow> (error + unit) \<times> pgDb" where
  "pg_unitOfWork ports freshId ws store = typeormUow_run freshId (\<lambda>_ tx. pg_writes ports ws tx store) None"

definition some_ports :: ormPorts where
  "some_ports = \<lparr>op_validUuid = (\<lambda>_. True), op_stamp = (\<lambda>_ row. row\<lparr>ar_createdAt := Some 5, ar_version := Some 1\<rparr>), op_refuses = (\<lambda>_ _. None),
     op_joinOrder = rev, op_collate = (\<lambda>s. s), op_countRow = (\<lambda>_. JArr []), op_stringToNumber = (\<lambda>_. NaN)\<rparr>"

lemma some_ports_simps [simp]:
  "op_validUuid some_ports = (\<lambda>_. True)" "op_refuses some_ports = (\<lambda>_ _. None)" "op_joinOrder some_ports = rev"
  "op_collate some_ports = (\<lambda>s. s)" "op_stamp some_ports = (\<lambda>_ row. row\<lparr>ar_createdAt := Some 5, ar_version := Some 1\<rparr>)"
  by (simp_all add: some_ports_def)

lemma some_ports_ok: "accepts some_ports" "join_permutes some_ports"
  by (simp_all add: accepts_def join_permutes_def)

definition empty_pg :: pgDb where
  "empty_pg = \<lparr>pg_tenants = [], pg_roles = [], pg_rolePermissions = [], pg_memberships = [], pg_membershipRoles = [],
     pg_invitations = [], pg_invitationRoles = [], pg_users = [], pg_localPasswords = [], pg_refreshSessions = [],
     pg_passwordResetTokens = [], pg_apiKeys = []\<rparr>"

lemma empty_refines: "pg_refines ports empty_pg empty_db"
  by (simp add: pg_refines_def empty_pg_def empty_db_def)

definition some_writes :: "storeWrite list" where
  "some_writes = [SaveMembership (membership_reconstitute ''m1'' ''t1'' ''u1'' [''r1'', ''r2''] MActive),
     SaveMembership (membership_reconstitute ''m1'' ''t1'' ''u1'' [''r2''] MActive),
     SavePassword \<lparr>ent_id = ''u1'', p_passwordHash = ''h''\<rparr>, DeleteRole ''r1'', RevokeFamily ''f'' 7]"

lemma some_writes_ok: "writes_ok some_ports ''t1'' some_writes empty_db"
  by (simp add: some_writes_def membership_reconstitute_def storable_membership_def empty_db_def
      memberships_save_def passwords_save_def roles_findById_def lookup_row_def)

text \<open>C23: A unit of work over the Postgres repositories, run in the scope of a tenant with writes of that tenant
  only, succeeds when the database accepts its statements, and leaves tables that stand for the store the
  same writes leave: every save, revocation and role deletion refines the store of the use cases.\<close>

theorem unit_of_work_refines:
  assumes "pg_refines ports pg d" "accepts ports" "join_permutes ports" "writes_ok ports t ws d"
  shows "\<exists>pg'. pg_unitOfWork ports txId ws (in_scope t a) pg = (Inr (), pg') \<and> pg_refines ports pg' (mem_writes ws d)"
  using writes_refine[OF assms(2,3,1,4), of txId a]
  by (auto simp: pg_unitOfWork_def typeormUow_run_def dataSource_transaction_def)

lemma unit_of_work_refines_witness:
  "\<exists>pg'. pg_unitOfWork some_ports ''tx'' some_writes (in_scope ''t1'' (userActor ''u1'')) empty_pg = (Inr (), pg')
     \<and> pg_refines some_ports pg' (mem_writes some_writes empty_db)"
  by (rule unit_of_work_refines[OF empty_refines some_ports_ok some_writes_ok])

section \<open>Reads\<close>

text \<open>The same aggregates in some order.\<close>

definition rearranged :: "('a \<Rightarrow> 'a \<Rightarrow> bool) \<Rightarrow> 'a list \<Rightarrow> 'a list \<Rightarrow> bool" where
  "rearranged same xs ys \<longleftrightarrow> (\<exists>zs. list_all2 same xs zs \<and> mset zs = mset ys)"

lemma rearranged_eq: "rearranged (=) xs ys \<longleftrightarrow> mset xs = mset ys"
  by (auto simp: rearranged_def list.rel_eq)

context mapped_rows
begin

lemma scoped_row:
  assumes "list_all2 (rel c) es as" "distinct (map key es)" "\<And>e a. rel c e a \<Longrightarrow> ten e = aten a"
  shows "\<exists>r. getOne (toDomain c) (filter (\<lambda>e. key e = i \<and> ten e = t) es) = Inr r
    \<and> rel_option same r (of_tenant t aten (lookup_row akey i as))"
proof -
  have "distinct (map akey as)" using keys_eq[OF assms(1)] assms(2) by simp
  moreover have "\<exists>r. getOne (toDomain c) (filter (\<lambda>e. key e = i \<and> ten e = t) es) = Inr r
      \<and> rel_option same r (find (\<lambda>a. akey a = i \<and> aten a = t) as)"
    using assms(1) by (rule find_rows) (auto dest: rel_key assms(3))
  ultimately show ?thesis by (simp add: find_with_key of_tenant_def)
qed

lemma rearranged_rows:
  assumes "list_all2 (rel c) es as" "\<And>e a. rel c e a \<Longrightarrow> P e \<longleftrightarrow> Q a"
  shows "\<exists>xs. mapR (toDomain c) (sort_key f (filter P es)) = Inr xs \<and> rearranged same xs (filter Q as)"
proof -
  have "\<exists>xs ys. mapR (toDomain c) (sort_key f (filter P es)) = Inr xs \<and> list_all2 same xs ys \<and> mset ys = mset (filter Q as)"
    using assms by (rule sorted_rows)
  then show ?thesis unfolding rearranged_def by blast
qed

end

lemma tables:
  assumes "pg_refines ports pg d"
  shows "list_all2 (tenant_rel ports []) (pg_tenants pg) (db_tenants d)" "distinct (map te_id (pg_tenants pg))"
    "list_all2 (role_rel ports (pg_rolePermissions pg)) (pg_roles pg) (db_roles d)" "distinct (map re_id (pg_roles pg))"
    "list_all2 (membership_rel ports (pg_membershipRoles pg)) (pg_memberships pg) (db_memberships d)"
    "distinct (map me_id (pg_memberships pg))"
    "list_all2 (invitation_rel ports (pg_invitationRoles pg)) (pg_invitations pg) (db_invitations d)"
    "distinct (map ie_id (pg_invitations pg))"
    "list_all2 (user_rel ports []) (pg_users pg) (db_users d)"
    "list_all2 (password_rel ports []) (pg_localPasswords pg) (db_passwords d)"
    "list_all2 (session_rel ports []) (pg_refreshSessions pg) (db_sessions d)"
    "list_all2 (resetToken_rel ports []) (pg_passwordResetTokens pg) (db_resetTokens d)"
    "list_all2 (apiKey_rel ports []) (pg_apiKeys pg) (db_apiKeys d)" "distinct (map ke_id (pg_apiKeys pg))"
  using assms by (simp_all add: pg_refines_def)

text \<open>\<open>findById\<close> inside a tenant scope.\<close>

lemma found_by_id:
  assumes "pg_refines ports pg d"
  shows "pgTenants_findById ports i (in_scope t a) pg = Inr (of_tenant t ent_id (tenants_findById i d))"
    and "\<exists>r. pgMemberships_findById ports i (in_scope t a) pg = Inr r
      \<and> rel_option same_membership r (of_tenant t m_tenantId (memberships_findById i d))"
    and "\<exists>r. pgInvitations_findById ports i (in_scope t a) pg = Inr r
      \<and> rel_option same_invitation r (of_tenant t i_tenantId (invitations_findById i d))"
    and "pgApiKeys_findById ports i (in_scope t a) pg = Inr (of_tenant t k_tenantId (apiKeys_findById i d))"
proof -
  note rows = tables[OF assms]
  show "pgTenants_findById ports i (in_scope t a) pg = Inr (of_tenant t ent_id (tenants_findById i d))"
    using tenantRows.scoped_row[OF rows(1,2), of te_tenantId ent_id i t]
    by (auto simp: pgTenants_findById_def tenants_findById_def tenant_rel_def option.rel_eq)
  show "\<exists>r. pgMemberships_findById ports i (in_scope t a) pg = Inr r
      \<and> rel_option same_membership r (of_tenant t m_tenantId (memberships_findById i d))"
    using membershipRows.scoped_row[OF rows(5,6), of me_tenantId m_tenantId i t]
    by (auto simp: pgMemberships_findById_def memberships_findById_def membership_rel_def row_mappers)
  show "\<exists>r. pgInvitations_findById ports i (in_scope t a) pg = Inr r
      \<and> rel_option same_invitation r (of_tenant t i_tenantId (invitations_findById i d))"
    using invitationRows.scoped_row[OF rows(7,8), of ie_tenantId i_tenantId i t]
    by (auto simp: pgInvitations_findById_def invitations_findById_def invitation_rel_def row_mappers)
  show "pgApiKeys_findById ports i (in_scope t a) pg = Inr (of_tenant t k_tenantId (apiKeys_findById i d))"
    using apiKeyRows.scoped_row[OF rows(13,14), of ke_tenantId k_tenantId i t]
    by (auto simp: pgApiKeys_findById_def apiKeys_findById_def apiKey_rel_def option.rel_eq)
qed

lemma vals_set: "v \<in> set (vals c i) \<longleftrightarrow> (i, v) \<in> set c"
  by (force simp: vals_def)

text \<open>The lists of a tenant.\<close>

lemma found_by_tenant:
  assumes "pg_refines ports pg d"
  shows "\<exists>rs. pgRoles_findByTenant ports t (in_scope t a) pg = Inr rs \<and> mset rs = mset (roles_findByTenant t d)"
    and "\<exists>ms. pgMemberships_findByTenant ports t (in_scope t a) pg = Inr ms
      \<and> rearranged same_membership ms (memberships_findByTenant t d)"
    and "\<exists>ms. pgMemberships_findByTenantAndRole ports t r (in_scope t a) pg = Inr ms
      \<and> rearranged same_membership ms (memberships_findByTenantAndRole t r d)"
    and "pgApiKeys_findByTenant ports t (in_scope t a) pg = Inr (apiKeys_findByTenant t d)"
proof -
  note rows = tables[OF assms]
  show "\<exists>rs. pgRoles_findByTenant ports t (in_scope t a) pg = Inr rs \<and> mset rs = mset (roles_findByTenant t d)"
    using roleRows.rearranged_rows[OF rows(3), where P = "\<lambda>e. re_tenantId e = t" and Q = "\<lambda>r. r_tenantId r = t" and f = "\<lambda>r. op_collate ports (re_name r)"]
    by (auto simp: pgRoles_findByTenant_def roles_findByTenant_def role_rel_def row_mappers rearranged_eq)
  show "\<exists>ms. pgMemberships_findByTenant ports t (in_scope t a) pg = Inr ms
      \<and> rearranged same_membership ms (memberships_findByTenant t d)"
    using membershipRows.rearranged_rows[OF rows(5), where P = "\<lambda>e. me_tenantId e = t" and Q = "\<lambda>r. m_tenantId r = t" and f = me_id]
    by (auto simp: pgMemberships_findByTenant_def memberships_findByTenant_def membership_rel_def row_mappers)
  have "(me_id e, r) \<in> set (pg_membershipRoles pg) \<longleftrightarrow> r \<in> set (m_roleIds m)" if "membership_rel ports (pg_membershipRoles pg) e m" for e m
    using that by (auto simp: membership_rel_def simp flip: vals_set dest: mset_eq_setD)
  then show "\<exists>ms. pgMemberships_findByTenantAndRole ports t r (in_scope t a) pg = Inr ms
      \<and> rearranged same_membership ms (memberships_findByTenantAndRole t r d)"
    using membershipRows.rearranged_rows[OF rows(5), where P = "\<lambda>e. (me_tenantId e = t \<and> (me_id e, r) \<in> set (pg_membershipRoles pg)) \<and> me_tenantId e = t"
        and Q = "\<lambda>m. m_tenantId m = t \<and> r \<in> set (m_roleIds m)" and f = me_id]
    by (auto simp: pgMemberships_findByTenantAndRole_def memberships_findByTenantAndRole_def membership_rel_def row_mappers)
  have "list_all2 (apiKey_rel ports []) (filter (\<lambda>e. ke_tenantId e = t) (pg_apiKeys pg)) (filter (\<lambda>k. k_tenantId k = t) (db_apiKeys d))"
    using rows(13) by (rule apiKeyRows.filter_rows) (simp add: apiKey_rel_def)
  then show "pgApiKeys_findByTenant ports t (in_scope t a) pg = Inr (apiKeys_findByTenant t d)"
    using apiKeyRows.map_rows by (fastforce simp: pgApiKeys_findByTenant_def apiKeys_findByTenant_def list.rel_eq)
qed

text \<open>Reads that leave the tenant scope, and the tables without a tenant.\<close>

lemma found_by_user:
  assumes "pg_refines ports pg d"
  shows "\<exists>ms. pgMemberships_findByUser ports u store pg = Inr ms \<and> rearranged same_membership ms (memberships_findByUser u d)"
    and "\<exists>m. pgMemberships_findByUserAndTenant ports u t (in_scope t a) pg = Inr m
      \<and> rel_option same_membership m (memberships_findByUserAndTenant u t d)"
    and "\<exists>iv. pgInvitations_findByTokenHash ports h store pg = Inr iv
      \<and> rel_option same_invitation iv (invitations_findByTokenHash h d)"
    and "\<exists>iv. pgInvitations_findActiveByTenantAndEmail ports t (js_lower (js_trim email)) (in_scope t a) pg = Inr iv
      \<and> rel_option same_invitation iv (invitations_findActiveByTenantAndEmail t email d)"
    and "pgApiKeys_findByPrefix ports p store pg = Inr (apiKeys_findByPrefix p d)"
proof -
  note rows = tables[OF assms]
  show "\<exists>ms. pgMemberships_findByUser ports u store pg = Inr ms \<and> rearranged same_membership ms (memberships_findByUser u d)"
    using membershipRows.rearranged_rows[OF rows(5), where P = "\<lambda>e. me_userId e = u" and Q = "\<lambda>m. m_userId m = u" and f = me_id]
    by (auto simp: pgMemberships_findByUser_def memberships_findByUser_def membership_rel_def row_mappers
        pg_unscoped_def withoutTenantScope_def)
  show "\<exists>m. pgMemberships_findByUserAndTenant ports u t (in_scope t a) pg = Inr m
      \<and> rel_option same_membership m (memberships_findByUserAndTenant u t d)"
    using membershipRows.find_rows[OF rows(5), where P = "\<lambda>e. me_userId e = u \<and> me_tenantId e = t"
        and Q = "\<lambda>m. m_userId m = u \<and> m_tenantId m = t"]
    by (auto simp: pgMemberships_findByUserAndTenant_def memberships_findByUserAndTenant_def membership_rel_def row_mappers
        pg_unscoped_def withoutTenantScope_def)
  show "\<exists>iv. pgInvitations_findByTokenHash ports h store pg = Inr iv
      \<and> rel_option same_invitation iv (invitations_findByTokenHash h d)"
    using invitationRows.find_rows[OF rows(7), where P = "\<lambda>e. ie_tokenHash e = h" and Q = "\<lambda>iv. i_tokenHash iv = h"]
    by (auto simp: pgInvitations_findByTokenHash_def invitations_findByTokenHash_def invitation_rel_def row_mappers
        pg_unscoped_def withoutTenantScope_def)
  show "\<exists>iv. pgInvitations_findActiveByTenantAndEmail ports t (js_lower (js_trim email)) (in_scope t a) pg = Inr iv
      \<and> rel_option same_invitation iv (invitations_findActiveByTenantAndEmail t email d)"
    using invitationRows.find_rows[OF rows(7), where
        P = "\<lambda>e. (ie_tenantId e = t \<and> ie_email e = js_lower (js_trim email) \<and> ie_consumedAt e = None) \<and> ie_tenantId e = t"
        and Q = "\<lambda>iv. i_tenantId iv = t \<and> i_email iv = js_lower (js_trim email) \<and> i_consumedAt iv = None"]
    by (auto simp: pgInvitations_findActiveByTenantAndEmail_def invitations_findActiveByTenantAndEmail_def
        invitation_rel_def row_mappers Let_def)
  show "pgApiKeys_findByPrefix ports p store pg = Inr (apiKeys_findByPrefix p d)"
    using apiKeyRows.find_rows[OF rows(13), where P = "\<lambda>e. ke_prefix e = p" and Q = "\<lambda>k. k_prefix k = p"]
    by (auto simp: pgApiKeys_findByPrefix_def apiKeys_findByPrefix_def apiKey_rel_def option.rel_eq
        pg_unscoped_def withoutTenantScope_def)
qed

lemma found_identity:
  assumes "pg_refines ports pg d"
  shows "pgUsers_findById ports u pg = Inr (users_findById u d)"
    and "pgUsers_findByEmail ports email pg = Inr (users_findByEmail email d)"
    and "pgPasswords_findByUserId ports u pg = Inr (passwords_findByUserId u d)"
    and "pgSessions_findByTokenHash ports h pg = Inr (sessions_findByTokenHash h d)"
    and "pgResetTokens_findByTokenHash ports h pg = Inr (resetTokens_findByTokenHash h d)"
    and "pgResetTokens_findByUserId ports u pg = Inr (resetTokens_findByUserId u d)"
proof -
  note rows = tables[OF assms]
  show "pgUsers_findById ports u pg = Inr (users_findById u d)"
    using userRows.lookup_rows[OF rows(9), of u] by (auto simp: pgUsers_findById_def users_findById_def option.rel_eq)
  show "pgUsers_findByEmail ports email pg = Inr (users_findByEmail email d)"
    using userRows.find_rows[OF rows(9), where P = "\<lambda>e. ue_email e = js_lower (js_trim email)"
        and Q = "\<lambda>u. u_email u = js_lower (js_trim email)"]
    by (auto simp: pgUsers_findByEmail_def users_findByEmail_def user_rel_def option.rel_eq Let_def)
  show "pgPasswords_findByUserId ports u pg = Inr (passwords_findByUserId u d)"
    using passwordRows.lookup_rows[OF rows(10), of u]
    by (auto simp: pgPasswords_findByUserId_def passwords_findByUserId_def option.rel_eq)
  show "pgSessions_findByTokenHash ports h pg = Inr (sessions_findByTokenHash h d)"
    using sessionRows.find_rows[OF rows(11), where P = "\<lambda>e. se_tokenHash e = h" and Q = "\<lambda>s. s_tokenHash s = h"]
    by (auto simp: pgSessions_findByTokenHash_def sessions_findByTokenHash_def session_rel_def option.rel_eq)
  show "pgResetTokens_findByTokenHash ports h pg = Inr (resetTokens_findByTokenHash h d)"
    using resetTokenRows.find_rows[OF rows(12), where P = "\<lambda>e. pt_tokenHash e = h" and Q = "\<lambda>t. t_tokenHash t = h"]
    by (auto simp: pgResetTokens_findByTokenHash_def resetTokens_findByTokenHash_def resetToken_rel_def option.rel_eq)
  show "pgResetTokens_findByUserId ports u pg = Inr (resetTokens_findByUserId u d)"
    using resetTokenRows.lookup_rows[OF rows(12), of u]
    by (auto simp: pgResetTokens_findByUserId_def resetTokens_findByUserId_def option.rel_eq)
qed


lemma some_writes_refine: "\<exists>pg. pg_refines some_ports pg (mem_writes some_writes empty_db)"
  using writes_refine[OF some_ports_ok empty_refines some_writes_ok] by blast


section \<open>Tenants are kept apart\<close>

lemma getOne_Some: "getOne f rows = Inr (Some x) \<Longrightarrow> \<exists>row \<in> set rows. f row = Inr x"
  by (cases rows) (auto simp: getOne_def bindR_eq_Inr)

lemma mapR_mem: "mapR f rows = Inr xs \<Longrightarrow> x \<in> set xs \<Longrightarrow> \<exists>row \<in> set rows. f row = Inr x"
  by (induction rows arbitrary: xs) (auto simp: bindR_eq_Inr)

lemma role_of_tenant: "roleMapper_toDomain ports row ps = Inr r \<Longrightarrow> r_tenantId r = re_tenantId row"
  by (auto simp: roleMapper_toDomain_def bindR_eq_Inr parseUuid_def role_reconstitute_def newRole_def split: if_splits)

lemma membership_of_tenant: "membershipMapper_toDomain ports row rs = Inr m \<Longrightarrow> m_tenantId m = me_tenantId row"
  by (auto simp: membershipMapper_toDomain_def bindR_eq_Inr parseUuid_def membership_reconstitute_def split: if_splits)

lemma invitation_of_tenant: "invitationMapper_toDomain ports row rs = Inr i \<Longrightarrow> i_tenantId i = ie_tenantId row"
  by (auto simp: invitationMapper_toDomain_def bindR_eq_Inr parseUuid_def invitation_reconstitute_def split: if_splits)

lemma apiKey_of_tenant: "apiKeyMapper_toDomain ports row = Inr k \<Longrightarrow> k_tenantId k = ke_tenantId row"
  by (auto simp: apiKeyMapper_toDomain_def bindR_eq_Inr parseUuid_def apiKey_reconstitute_def split: if_splits)

lemma read_one_in_tenant:
  assumes "bindR (scoped tenantOf rows (in_scope t a)) (getOne f) = Inr (Some x)" "\<And>row x. f row = Inr x \<Longrightarrow> ten x = tenantOf row"
  shows "ten x = t"
  using assms(1) by (auto dest!: getOne_Some assms(2))

lemma read_many_in_tenant:
  assumes "bindR (scoped tenantOf rows (in_scope t a)) (mapR f) = Inr xs" "\<And>row x. f row = Inr x \<Longrightarrow> ten x = tenantOf row"
  shows "\<forall>x \<in> set xs. ten x = t"
  using assms(1) by (auto dest!: mapR_mem assms(2))

lemma scoped_reads_stay:
  "pgRoles_findById ports i (in_scope t a) pg = Inr (Some r) \<Longrightarrow> r_tenantId r = t"
  "pgRoles_findByIds ports ids (in_scope t a) pg = Inr rs \<Longrightarrow> \<forall>r \<in> set rs. r_tenantId r = t"
  "pgMemberships_findById ports i (in_scope t a) pg = Inr (Some m) \<Longrightarrow> m_tenantId m = t"
  "pgInvitations_findById ports i (in_scope t a) pg = Inr (Some iv) \<Longrightarrow> i_tenantId iv = t"
  "pgApiKeys_findById ports i (in_scope t a) pg = Inr (Some k) \<Longrightarrow> k_tenantId k = t"
proof -
  show "pgRoles_findById ports i (in_scope t a) pg = Inr (Some r) \<Longrightarrow> r_tenantId r = t"
    unfolding pgRoles_findById_def by (erule read_one_in_tenant) (simp add: pgRole_def role_of_tenant)
  show "pgRoles_findByIds ports ids (in_scope t a) pg = Inr rs \<Longrightarrow> \<forall>r \<in> set rs. r_tenantId r = t"
    unfolding pgRoles_findByIds_def
    by (auto simp: pgRole_def split: if_splits dest!: mapR_mem role_of_tenant)
  show "pgMemberships_findById ports i (in_scope t a) pg = Inr (Some m) \<Longrightarrow> m_tenantId m = t"
    unfolding pgMemberships_findById_def by (erule read_one_in_tenant) (simp add: pgMembership_def membership_of_tenant)
  show "pgInvitations_findById ports i (in_scope t a) pg = Inr (Some iv) \<Longrightarrow> i_tenantId iv = t"
    unfolding pgInvitations_findById_def by (erule read_one_in_tenant) (simp add: pgInvitation_def invitation_of_tenant)
  show "pgApiKeys_findById ports i (in_scope t a) pg = Inr (Some k) \<Longrightarrow> k_tenantId k = t"
    unfolding pgApiKeys_findById_def by (erule read_one_in_tenant) (simp add: apiKey_of_tenant)
qed

lemma foreign_tenant_refused:
  assumes "t' \<noteq> t"
  shows "pgRoles_findByTenant ports t' (in_scope t a) pg = Inl TenantContextMismatchError"
    "pgMemberships_findByTenant ports t' (in_scope t a) pg = Inl TenantContextMismatchError"
    "pgMemberships_findByTenantAndRole ports t' i (in_scope t a) pg = Inl TenantContextMismatchError"
    "pgMemberships_findByUserAndTenant ports u t' (in_scope t a) pg = Inl TenantContextMismatchError"
    "pgInvitations_findActiveByTenantAndEmail ports t' email (in_scope t a) pg = Inl TenantContextMismatchError"
    "pgApiKeys_findByTenant ports t' (in_scope t a) pg = Inl TenantContextMismatchError"
  using assms by (simp_all add: pgRoles_findByTenant_def pgMemberships_findByTenant_def pgMemberships_findByTenantAndRole_def
      pgMemberships_findByUserAndTenant_def pgInvitations_findActiveByTenantAndEmail_def pgApiKeys_findByTenant_def)

lemma foreign_write_refused:
  "ent_id x \<noteq> t \<Longrightarrow> pgTenants_save ports x tx (in_scope t a) pg = (Inl TenantContextMismatchError, pg)"
  "r_tenantId r \<noteq> t \<Longrightarrow> pgRoles_save ports r tx (in_scope t a) pg = (Inl TenantContextMismatchError, pg)"
  "m_tenantId m \<noteq> t \<Longrightarrow> pgMemberships_save ports m tx (in_scope t a) pg = (Inl TenantContextMismatchError, pg)"
  "i_tenantId iv \<noteq> t \<Longrightarrow> pgInvitations_save ports iv tx (in_scope t a) pg = (Inl TenantContextMismatchError, pg)"
  "k_tenantId k \<noteq> t \<Longrightarrow> pgApiKeys_save ports k tx (in_scope t a) pg = (Inl TenantContextMismatchError, pg)"
  by (simp_all add: pgTenants_save_def tenantMapper_toEntity_def pgRoles_save_def roleMapper_toEntity_def
      pgMemberships_save_def membershipMapper_toEntity_def pgInvitations_save_def invitationMapper_toEntity_def
      pgApiKeys_save_def apiKeyMapper_toEntity_def)

lemma foreign_role_kept:
  "\<forall>row \<in> set (pg_roles pg). re_id row = i \<longrightarrow> re_tenantId row \<noteq> t \<Longrightarrow>
   pgRoles_delete ports i tx (in_scope t a) pg = (Inr (), pg)"
  by (simp add: pgRoles_delete_def pgRoles_findById_def getOne_def filter_empty_conv split: list.split)


definition shared_pg :: pgDb where
  "shared_pg = empty_pg\<lparr>pg_roles := [\<lparr>ar_createdAt = None, ar_version = None, re_id = ''r1'', re_tenantId = ''t2'', re_name = ''x'', re_isSystem = False\<rparr>]\<rparr>"


text \<open>With no tenant scope established, every query and write of a tenant's table fails and changes nothing;
  and inside a scope, a role, membership or invitation cannot be written outside a unit of work.\<close>

theorem scope_and_transaction_required:
  "pgTenants_findById ports i None pg = Inl TenantContextNotEstablishedError
   \<and> pgRoles_findById ports i None pg = Inl TenantContextNotEstablishedError
   \<and> pgRoles_findByTenant ports t None pg = Inl TenantContextNotEstablishedError
   \<and> pgMemberships_findById ports i None pg = Inl TenantContextNotEstablishedError
   \<and> pgMemberships_findByTenant ports t None pg = Inl TenantContextNotEstablishedError
   \<and> pgMemberships_findByTenantAndRole ports t i None pg = Inl TenantContextNotEstablishedError
   \<and> pgInvitations_findById ports i None pg = Inl TenantContextNotEstablishedError
   \<and> pgInvitations_findActiveByTenantAndEmail ports t email None pg = Inl TenantContextNotEstablishedError
   \<and> pgApiKeys_findById ports i None pg = Inl TenantContextNotEstablishedError
   \<and> pgApiKeys_findByTenant ports t None pg = Inl TenantContextNotEstablishedError
   \<and> pgTenants_save ports x tx None pg = (Inl TenantContextNotEstablishedError, pg)
   \<and> pgRoles_save ports r tx None pg = (Inl TenantContextNotEstablishedError, pg)
   \<and> pgRoles_delete ports i tx None pg = (Inl TenantContextNotEstablishedError, pg)
   \<and> pgMemberships_save ports m tx None pg = (Inl TenantContextNotEstablishedError, pg)
   \<and> pgInvitations_save ports iv tx None pg = (Inl TenantContextNotEstablishedError, pg)
   \<and> pgApiKeys_save ports k tx None pg = (Inl TenantContextNotEstablishedError, pg)
   \<and> pgRoles_save ports r None (in_scope (r_tenantId r) a) pg = (Inl AmbientTransactionRequiredError, pg)
   \<and> pgMemberships_save ports m None (in_scope (m_tenantId m) a) pg = (Inl AmbientTransactionRequiredError, pg)
   \<and> pgInvitations_save ports iv None (in_scope (i_tenantId iv) a) pg = (Inl AmbientTransactionRequiredError, pg)"
  by (intro conjI; simp add: pgTenants_findById_def pgRoles_findById_def pgRoles_findByTenant_def pgMemberships_findById_def
      pgMemberships_findByTenant_def pgMemberships_findByTenantAndRole_def pgInvitations_findById_def
      pgInvitations_findActiveByTenantAndEmail_def pgApiKeys_findById_def pgApiKeys_findByTenant_def pgTenants_save_def
      pgRoles_save_def pgRoles_delete_def pgMemberships_save_def pgInvitations_save_def pgApiKeys_save_def
      tenantMapper_toEntity_def roleMapper_toEntity_def membershipMapper_toEntity_def invitationMapper_toEntity_def
      apiKeyMapper_toEntity_def scoped_def assertTenant_def stampTenantId_def getTenantId_def requireScope_def
      isTenantScopeSkipped_def saveVersionedParentAndReplaceChildren_def saveAuditableParentAndReplaceChildren_def
      assertAmbientTransaction_def)

section \<open>Mappers\<close>

lemma entity_children: "map snd (snd (roleMapper_toEntity r)) = r_permissions r"
  "map snd (snd (membershipMapper_toEntity m)) = m_roleIds m" "map snd (snd (invitationMapper_toEntity iv)) = i_roleIds iv"
  by (simp_all add: roleMapper_toEntity_def membershipMapper_toEntity_def invitationMapper_toEntity_def comp_def)

lemma list_all_valid: "list_all (valid ports) xs \<Longrightarrow> x \<in> set xs \<Longrightarrow> op_validUuid ports x"
  by (simp add: list_all_iff)

text \<open>Every mapper reads back what it wrote: the entity of an aggregate, with its child rows, maps to the
  aggregate as it is stored, without the events it collected.\<close>

theorem mappers_roundtrip:
  assumes "valid ports (ent_id t)" "storable_role ports r" "storable_membership ports m" "storable_invitation ports iv"
    "valid ports (ent_id u)" "valid ports (ent_id p)" "storable_session ports s" "valid ports (ent_id k)" "storable_apiKey ports ak"
  shows "tenantMapper_toDomain ports (tenantMapper_toEntity t) = Inr (as_stored t)
    \<and> roleMapper_toDomain ports (fst (roleMapper_toEntity r)) (map snd (snd (roleMapper_toEntity r))) = Inr (as_stored r)
    \<and> membershipMapper_toDomain ports (fst (membershipMapper_toEntity m)) (map snd (snd (membershipMapper_toEntity m))) = Inr (as_stored m)
    \<and> invitationMapper_toDomain ports (fst (invitationMapper_toEntity iv)) (map snd (snd (invitationMapper_toEntity iv))) = Inr (as_stored iv)
    \<and> userMapper_toDomain ports (userMapper_toEntity u) = Inr (as_stored u)
    \<and> localPasswordMapper_toDomain ports (localPasswordMapper_toEntity p) = Inr p
    \<and> refreshSessionMapper_toDomain ports (refreshSessionMapper_toEntity s) = Inr s
    \<and> passwordResetTokenMapper_toDomain ports (passwordResetTokenMapper_toEntity k) = Inr k
    \<and> apiKeyMapper_toDomain ports (apiKeyMapper_toEntity ak) = Inr (as_stored ak)"
proof -
  have "is_bundle (r_permissions r)" using assms(2) by (simp add: storable_role_def role_wf_def)
  then have "mapR parsePermission (r_permissions r) = Inr (r_permissions r)" "role_normalize (r_permissions r) = Inr (r_permissions r)"
    using bundle_subset[of "r_permissions r"] catalog_parses bundle_normal mapR_permissions[of "r_permissions r"]
    unfolding list_all_iff by blast+
  then have "roleMapper_toDomain ports (fst (roleMapper_toEntity r)) (map snd (snd (roleMapper_toEntity r))) = Inr (as_stored r)"
    using assms(2) unfolding entity_children
    by (simp add: roleMapper_toDomain_def roleMapper_toEntity_def storable_role_def parseUuid_def role_reconstitute_def newRole_def as_stored_def)
  moreover have "membershipMapper_toDomain ports (fst (membershipMapper_toEntity m)) (map snd (snd (membershipMapper_toEntity m))) = Inr (as_stored m)"
    using assms(3) unfolding entity_children
    by (simp add: membershipMapper_toDomain_def membershipMapper_toEntity_def storable_membership_def mapR_parse parseUuid_def
        parseEnum_def membership_reconstitute_def as_stored_def)
  moreover have "invitationMapper_toDomain ports (fst (invitationMapper_toEntity iv)) (map snd (snd (invitationMapper_toEntity iv))) = Inr (as_stored iv)"
    using assms(4) unfolding entity_children
    by (simp add: invitationMapper_toDomain_def invitationMapper_toEntity_def storable_invitation_def mapR_parse parseUuid_def
        invitation_reconstitute_def as_stored_def)
  ultimately show ?thesis using assms
    by (simp add: tenantMapper_toDomain_def tenantMapper_toEntity_def tenant_reconstitute_def newTenant_def
      userMapper_toDomain_def userMapper_toEntity_def user_reconstitute_def localPasswordMapper_toDomain_def
      localPasswordMapper_toEntity_def refreshSessionMapper_toDomain_def refreshSessionMapper_toEntity_def session_reconstitute_def
      passwordResetTokenMapper_toDomain_def passwordResetTokenMapper_toEntity_def resetToken_reconstitute_def
      apiKeyMapper_toDomain_def apiKeyMapper_toEntity_def apiKey_reconstitute_def storable_apiKey_def storable_session_def
      mapR_permissions parseUuid_def parseEnum_def as_stored_def)
qed

lemma mappers_roundtrip_witness:
  "roleMapper_toDomain some_ports (fst (roleMapper_toEntity (newRole ''r1'' ''t1'' ''x'' [''tenancy.members.read''] False)))
      [''tenancy.members.read''] = Inr (newRole ''r1'' ''t1'' ''x'' [''tenancy.members.read''] False)"
proof -
  have b: "is_bundle [''tenancy.members.read'']" by code_simp
  moreover have "js_trim ''x'' = ''x''" "\<not> reserved_name ''x''" by code_simp+
  ultimately have r: "storable_role some_ports (newRole ''r1'' ''t1'' ''x'' [''tenancy.members.read''] False)"
    by (simp add: storable_role_def role_wf_def newRole_def)
  have v: "valid some_ports i" for i by simp
  have m: "storable_membership some_ports (membership_reconstitute ''m1'' ''t1'' ''u1'' [] MActive)"
    and iv: "storable_invitation some_ports (invitation_reconstitute ''i1'' ''t1'' ''e'' [] ''h'' 9 ''u1'' None)"
    and s: "storable_session some_ports (session_reconstitute ''s1'' ''u1'' ''f1'' ''h'' 9 None)"
    and k: "storable_apiKey some_ports (apiKey_reconstitute ''k1'' ''t1'' ''u1'' ''n'' ''p'' ''h'' [] None None None)"
    by (simp_all add: storable_membership_def storable_invitation_def storable_session_def storable_apiKey_def apiKey_reconstitute_def
        membership_reconstitute_def invitation_reconstitute_def)
  have "roleMapper_toDomain some_ports (fst (roleMapper_toEntity (newRole ''r1'' ''t1'' ''x'' [''tenancy.members.read''] False)))
      (map snd (snd (roleMapper_toEntity (newRole ''r1'' ''t1'' ''x'' [''tenancy.members.read''] False))))
    = Inr (as_stored (newRole ''r1'' ''t1'' ''x'' [''tenancy.members.read''] False))"
    using mappers_roundtrip[OF v r m iv v v s v k] by blast
  then show ?thesis by (simp add: roleMapper_toEntity_def newRole_def as_stored_def comp_def)
qed

end
