(* ===== verification/HttpEdge.thy ===== *)
theory HttpEdge
  imports Ambient JsValue AuthorizationService
begin

text \<open>
  The HTTP edge: packages/nest-http/src/http (request interceptor, exception filter, health paths), the rate
  limiter (packages/platform/src/rate-limit and its adapters) and the rate-limit interceptor of apps/api.

  An interceptor takes the handler after it and is a handler itself.  A handler reads the ambient tenant store
  and runs over the state of the API: the world of the use cases, the idempotency rows, the limiter's windows,
  what the request has bound so far (context, principal, response status and cookies) and the log.  Nest, the HTTP server and the
  loggers are not modelled; a logged line is its level and message.
\<close>

section \<open>Requests, failures and handlers\<close>

text \<open>A header's value is a string, an array of strings or undefined.\<close>

record httpRequest =
  rq_method :: "string option"
  rq_url :: "string option"
  rq_originalUrl :: "string option"
  rq_headers :: js_object
  rq_ip :: jsval
  rq_remoteAddress :: jsval
  rq_routePath :: jsval
  rq_body :: jsval
  rq_params :: jsval
  rq_cookies :: "js_object option"

text \<open>
  What can be thrown: an error of the repository, a Nest \<open>HttpException\<close> with its status, response and
  message, the two exceptions of the zod adapter, and any other value.
\<close>

datatype failure =
    AppFailure error
  | HttpFailure nat jsval string
  | ZodValidationFailure jsval
  | ZodSerializationFailure
  | OtherFailure jsval

definition unauthorized :: "string \<Rightarrow> failure" where
  "unauthorized m = HttpFailure 401 (JObj [(''message'', JStr m), (''error'', JStr ''Unauthorized''), (''statusCode'', JNum (num 401))]) m"

definition forbidden :: "string \<Rightarrow> failure" where
  "forbidden m = HttpFailure 403 (JObj [(''message'', JStr m), (''error'', JStr ''Forbidden''), (''statusCode'', JNum (num 403))]) m"

datatype actorKind = UserKind | ApiKeyKind

record requestContext =
  rc_requestId :: string
  rc_tenantId :: "tenantId option"
  rc_actorId :: "string option"
  rc_actorKind :: "actorKind option"

datatype authPrincipal = UserPrincipal userId "tenantId option" | ApiKeyPrincipal apiKeyId tenantId

record idempotencyKey =
  ik_id :: string
  ik_scope :: string
  ik_endpoint :: string
  ik_key :: string
  ik_fingerprint :: string
  ik_status :: string
  ik_responseStatus :: "nat option"
  ik_responseBody :: jsval
  ik_expiresAt :: "int option"
  ik_tenantId :: "string option"
  ik_actorId :: "string option"
  ik_createdAt :: millis
  ik_updatedAt :: millis

record responseCookie =
  ck_name :: string
  ck_value :: string
  ck_httpOnly :: bool
  ck_sameSite :: string
  ck_path :: string
  ck_secure :: bool
  ck_maxAge :: int

record apiState =
  as_world :: world
  as_idempotency :: "idempotencyKey list"
  as_status :: nat
  as_windows :: "(string \<times> (nat \<times> millis)) list"
  as_context :: "requestContext option"
  as_principal :: "authPrincipal option"
  as_cookies :: "responseCookie list"
  as_log :: "(string \<times> string) list"

type_synonym 'a api = "apiState \<Rightarrow> (failure + 'a) \<times> apiState"
type_synonym 'a handler = "tenantAlsStore option \<Rightarrow> 'a api"

definition throwH :: "failure \<Rightarrow> 'a api" where
  "throwH f s = (Inl f, s)"

definition bindH :: "'a api \<Rightarrow> ('a \<Rightarrow> 'b api) \<Rightarrow> 'b api" where
  "bindH m f s = (case m s of (Inl e, s') \<Rightarrow> (Inl e, s') | (Inr x, s') \<Rightarrow> f x s')"

definition liftH :: "failure + 'a \<Rightarrow> 'a api" where
  "liftH r s = (r, s)"

text \<open>A use case of the world.\<close>

definition useCase :: "'a app \<Rightarrow> 'a api" where
  "useCase m s = (case m (as_world s) of
     (Inl e, w) \<Rightarrow> (Inl (AppFailure e), s\<lparr>as_world := w\<rparr>) | (Inr x, w) \<Rightarrow> (Inr x, s\<lparr>as_world := w\<rparr>))"

definition logH :: "string \<Rightarrow> string \<Rightarrow> apiState \<Rightarrow> apiState" where
  "logH level m s = s\<lparr>as_log := as_log s @ [(level, m)]\<rparr>"

section \<open>Headers and the request context\<close>

definition readHeader :: "js_object \<Rightarrow> string \<Rightarrow> string option" where
  "readHeader headers name = (let value = obj_read headers name in
     case value of
       JStr s \<Rightarrow> if isNonEmptyString (JStr s) then Some s else None
     | JArr (JStr s # _) \<Rightarrow> if isNonEmptyString (JStr s) then Some s else None
     | _ \<Rightarrow> None)"

text \<open>\<open>/^Bearer\s+(\S+)$/i\<close>\<close>

definition bearer_match :: "string \<Rightarrow> string option" where
  "bearer_match s = (let rest = drop 6 s; token = dropWhile js_space rest in
     if js_lower (take 6 s) = ''bearer'' \<and> token \<noteq> rest \<and> token \<noteq> [] \<and> list_all (\<lambda>c. \<not> js_space c) token
     then Some token else None)"

definition readBearer :: "js_object \<Rightarrow> failure + string option" where
  "readBearer headers = (case readHeader headers ''authorization'' of
     None \<Rightarrow> Inr None
   | Some authorization \<Rightarrow> (case bearer_match authorization of
       None \<Rightarrow> Inl (unauthorized ''Authorization bearer token is invalid'')
     | Some token \<Rightarrow> Inr (Some token)))"

definition readClientIp :: "httpRequest \<Rightarrow> string" where
  "readClientIp rq = (case rq_ip rq of
     JStr s \<Rightarrow> if isNonEmptyString (JStr s) then s else (case rq_remoteAddress rq of JStr a \<Rightarrow> if isNonEmptyString (JStr a) then a else ''unknown'' | _ \<Rightarrow> ''unknown'')
   | _ \<Rightarrow> (case rq_remoteAddress rq of JStr a \<Rightarrow> if isNonEmptyString (JStr a) then a else ''unknown'' | _ \<Rightarrow> ''unknown''))"

text \<open>\<open>path.split('?')[0]\<close>, and the path without its trailing slashes.\<close>

definition beforeQuery :: "string \<Rightarrow> string" where
  "beforeQuery url = takeWhile (\<lambda>c. c \<noteq> CHR ''?'') url"

definition dropTrailingSlashes :: "string \<Rightarrow> string" where
  "dropTrailingSlashes s = rev (dropWhile (\<lambda>c. c = CHR ''/'') (rev s))"

definition ends_with :: "string \<Rightarrow> string \<Rightarrow> bool" where
  "ends_with suf s \<longleftrightarrow> suf = drop (length s - length suf) s"

definition HEALTH_SEGMENTS :: "string list" where
  "HEALTH_SEGMENTS = [''live'', ''ready'', ''health'']"

definition healthProbe_matches :: "string \<Rightarrow> bool" where
  "healthProbe_matches path = (let p = dropTrailingSlashes (beforeQuery path); normalized = (if p = [] then ''/'' else p) in
     list_ex (\<lambda>segment. normalized = CHR ''/'' # segment \<or> ends_with (CHR ''/'' # segment) normalized) HEALTH_SEGMENTS)"

definition requestUrl :: "httpRequest \<Rightarrow> string" where
  "requestUrl rq = (case rq_originalUrl rq of Some u \<Rightarrow> u | None \<Rightarrow> (case rq_url rq of Some u \<Rightarrow> u | None \<Rightarrow> []))"

definition isSwaggerPath :: "httpRequest \<Rightarrow> bool" where
  "isSwaggerPath rq = (let path = beforeQuery (requestUrl rq) in
     path = ''/docs'' \<or> js_starts_with ''/docs/'' path \<or> js_starts_with ''/docs-'' path)"

definition isHealthProbePath :: "httpRequest \<Rightarrow> bool" where
  "isHealthProbePath rq = healthProbe_matches (requestUrl rq)"

definition resolveRequestId :: "string \<Rightarrow> httpRequest \<Rightarrow> string" where
  "resolveRequestId randomId rq = (case readHeader (rq_headers rq) ''x-request-id'' of Some h \<Rightarrow> h | None \<Rightarrow> randomId)"

definition requestContext_bind :: "string option \<Rightarrow> actorKind option \<Rightarrow> tenantId option \<Rightarrow> apiState \<Rightarrow> apiState" where
  "requestContext_bind actorId kind tid s = (case as_context s of
     None \<Rightarrow> s
   | Some c \<Rightarrow> s\<lparr>as_context := Some (c\<lparr>
       rc_tenantId := (if tid = None then rc_tenantId c else tid),
       rc_actorId := (if actorId = None then rc_actorId c else actorId),
       rc_actorKind := (if kind = None then rc_actorKind c else kind)\<rparr>)\<rparr>)"

text \<open>\<open>run\<close> establishes the context for the work and restores the one outside.\<close>

definition requestContext_run :: "requestContext \<Rightarrow> 'a api \<Rightarrow> 'a api" where
  "requestContext_run c work s = (let (r, s') = work (s\<lparr>as_context := Some c\<rparr>) in (r, s'\<lparr>as_context := as_context s\<rparr>))"

definition access_level :: "nat \<Rightarrow> string" where
  "access_level statusCode = (if 500 \<le> statusCode then ''error'' else if 400 \<le> statusCode then ''warn'' else ''info'')"

definition logAccess :: "nat \<Rightarrow> apiState \<Rightarrow> apiState" where
  "logAccess statusCode = logH (access_level statusCode) ''request completed''"

text \<open>
  The handler under the request interceptor.  The header with the request id and the access log are set
  when the response is sent.
\<close>

definition REQUEST_ID_RESPONSE_HEADER :: string where
  "REQUEST_ID_RESPONSE_HEADER = ''X-Request-Id''"

definition httpRequest_intercept :: "string \<Rightarrow> httpRequest \<Rightarrow> 'a handler \<Rightarrow> 'a handler" where
  "httpRequest_intercept randomId rq next als =
     (if isSwaggerPath rq \<or> isHealthProbePath rq then next als
      else requestContext_run \<lparr>rc_requestId = resolveRequestId randomId rq, rc_tenantId = None, rc_actorId = None, rc_actorKind = None\<rparr>
        (next als))"

section \<open>Rate limits\<close>

record rateLimitOptions =
  rl_bucket :: string
  rl_limit :: nat
  rl_windowSeconds :: nat

record rateLimitDecision =
  rd_allowed :: bool
  rd_remaining :: nat
  rd_retryAfterSeconds :: int

definition toRateLimitDecision :: "nat \<Rightarrow> int \<Rightarrow> nat \<Rightarrow> nat \<Rightarrow> rateLimitDecision" where
  "toRateLimitDecision count ttlSeconds limit windowSeconds = (let allowed = count \<le> limit; remaining = limit - count in
     if allowed then \<lparr>rd_allowed = allowed, rd_remaining = remaining, rd_retryAfterSeconds = 0\<rparr>
     else let retryAfterSeconds = (if 0 < ttlSeconds then ttlSeconds else int windowSeconds) in
       \<lparr>rd_allowed = allowed, rd_remaining = remaining, rd_retryAfterSeconds = max 1 retryAfterSeconds\<rparr>)"

text \<open>\<open>InMemoryRateLimiter.consume\<close>: a window per key, its count and the time it expires.\<close>

definition memoryLimiter_consume :: "millis \<Rightarrow> string \<Rightarrow> rateLimitOptions \<Rightarrow> (string \<times> (nat \<times> millis)) list \<Rightarrow>
    rateLimitDecision \<times> (string \<times> (nat \<times> millis)) list" where
  "memoryLimiter_consume now key options windows = (let
       fresh = (1, now + int (rl_windowSeconds options) * 1000);
       entry = (case map_of windows key of
           None \<Rightarrow> fresh
         | Some (count, expiresAt) \<Rightarrow> if now \<ge> expiresAt then fresh else (count + 1, expiresAt));
       ttlSeconds = (snd entry - now + 999) div 1000 in
     (toRateLimitDecision (fst entry) ttlSeconds (rl_limit options) (rl_windowSeconds options), upsert fst (key, entry) windows))"

text \<open>
  \<open>RedisRateLimiter.consume\<close>: the script over the keys of Redis.  When a key counts as expired and how
  \<open>TTL\<close> rounds is the server's.
\<close>

record redisPorts =
  rp_expired :: "millis \<Rightarrow> millis \<Rightarrow> bool"
  rp_ttl :: "millis \<Rightarrow> int"
  rp_down :: "failure option"

definition redisLimiter_consume :: "redisPorts \<Rightarrow> millis \<Rightarrow> string \<Rightarrow> rateLimitOptions \<Rightarrow> (string \<times> (nat \<times> millis)) list \<Rightarrow>
    (failure + rateLimitDecision) \<times> (string \<times> (nat \<times> millis)) list" where
  "redisLimiter_consume ports now key options windows = (case rp_down ports of
     Some e \<Rightarrow> (Inl e, windows)
   | None \<Rightarrow> (let
       alive = (case map_of windows key of None \<Rightarrow> None | Some (c, e) \<Rightarrow> if rp_expired ports now e then None else Some (c, e));
       count = (case alive of None \<Rightarrow> 1 | Some (c, _) \<Rightarrow> c + 1);
       expiresAt = (if count = 1 then now + int (rl_windowSeconds options) * 1000 else (case alive of None \<Rightarrow> now | Some (_, e) \<Rightarrow> e));
       ttl = rp_ttl ports (expiresAt - now) in
       (Inr (toRateLimitDecision count ttl (rl_limit options) (rl_windowSeconds options)), upsert fst (key, (count, expiresAt)) windows)))"

definition rateLimit_intercept :: "redisPorts \<Rightarrow> rateLimitOptions option \<Rightarrow> httpRequest \<Rightarrow> 'a handler \<Rightarrow> 'a handler" where
  "rateLimit_intercept ports limits rq next als s = (case limits of
     None \<Rightarrow> next als s
   | Some options \<Rightarrow>
     (let key = cacheKey_global [''rate-limit'', rl_bucket options, readClientIp rq] in
      case redisLimiter_consume ports (w_now (as_world s)) key options (as_windows s) of
        (Inl e, windows) \<Rightarrow> (case e of
            AppFailure (RateLimitExceededError n) \<Rightarrow> (Inl e, s\<lparr>as_windows := windows\<rparr>)
          | _ \<Rightarrow> next als (logH ''warn'' ''rate limiter failed; allowing request'' (s\<lparr>as_windows := windows\<rparr>)))
      | (Inr decision, windows) \<Rightarrow>
          if \<not> rd_allowed decision then (Inl (AppFailure (RateLimitExceededError (rd_retryAfterSeconds decision))), s\<lparr>as_windows := windows\<rparr>)
          else next als (s\<lparr>as_windows := windows\<rparr>)))"

section \<open>The exception filter\<close>

record httpResponse =
  hr_status :: nat
  hr_headers :: "(string \<times> string) list"
  hr_body :: jsval

definition errorBody :: "string \<Rightarrow> string \<Rightarrow> jsval" where
  "errorBody code m = JObj [(''code'', JStr code), (''message'', JStr m)]"

definition httpExceptionCode :: "nat \<Rightarrow> string" where
  "httpExceptionCode status = (if status = 400 then ''BAD_REQUEST'' else if status = 401 then ''UNAUTHORIZED''
     else if status = 403 then ''FORBIDDEN'' else if status = 404 then ''NOT_FOUND'' else if status = 409 then ''CONFLICT''
     else if status = 429 then ''RATE_LIMIT_EXCEEDED'' else if status = 500 then ''INTERNAL_ERROR'' else ''HTTP_ERROR'')"

definition httpExceptionMessage :: "jsval \<Rightarrow> string \<Rightarrow> string" where
  "httpExceptionMessage body exceptionMessage = (case body of
     JStr s \<Rightarrow> if isNonEmptyString body then s else exceptionMessage
   | JObj ob \<Rightarrow> (case obj_get ob ''message'' of
       None \<Rightarrow> exceptionMessage
     | Some (JStr m) \<Rightarrow> if isNonEmptyString (JStr m) then m else exceptionMessage
     | Some (JArr (JStr m # _)) \<Rightarrow> m
     | Some _ \<Rightarrow> exceptionMessage)
   | _ \<Rightarrow> exceptionMessage)"

definition zodDetails :: "jsval \<Rightarrow> jsval" where
  "zodDetails e = (case e of JObj ob \<Rightarrow> (case obj_get ob ''issues'' of Some v \<Rightarrow> v | None \<Rightarrow> e) | _ \<Rightarrow> e)"

text \<open>An error as the object the filter looks at; the message of an application error is an argument.\<close>

definition failureObject :: "(error \<Rightarrow> string) \<Rightarrow> failure \<Rightarrow> jsval" where
  "failureObject messageOf f = (case f of
     AppFailure e \<Rightarrow> JObj ((''message'', JStr (messageOf e))
       # (case error_code e of None \<Rightarrow> [] | Some c \<Rightarrow> [(''code'', JStr c)])
       @ (case e of RateLimitExceededError n \<Rightarrow> [(''retryAfterSeconds'', JNum (num n))] | _ \<Rightarrow> []))
   | HttpFailure st body m \<Rightarrow> JObj [(''message'', JStr m), (''response'', body), (''status'', JNum (num (int st)))]
   | ZodValidationFailure e \<Rightarrow> JObj [(''message'', JStr ''Validation failed'')]
   | ZodSerializationFailure \<Rightarrow> JObj [(''message'', JStr ''Internal Server Error'')]
   | OtherFailure v \<Rightarrow> v)"

definition isCodedError :: "jsval \<Rightarrow> (string \<times> string) option" where
  "isCodedError exc = (case exc of
     JObj ob \<Rightarrow> (case (obj_get ob ''code'', obj_get ob ''message'') of (Some (JStr c), Some (JStr m)) \<Rightarrow> Some (c, m) | _ \<Rightarrow> None)
   | _ \<Rightarrow> None)"

definition readRetryAfterSeconds :: "jsval \<Rightarrow> number option" where
  "readRetryAfterSeconds exc = (case exc of
     JObj ob \<Rightarrow> (case obj_get ob ''retryAfterSeconds'' of
         Some (JNum n) \<Rightarrow> if \<not> isFinite n \<or> num_le n (num 0) then None else Some n
       | _ \<Rightarrow> None)
   | _ \<Rightarrow> None)"

text \<open>
  The status table of the kit is an object, so \<open>in\<close> also finds the members of
  \<open>Object.prototype\<close>; for these the status the response is given is no number, here \<open>None\<close>.
\<close>

definition respondCodedError :: "(string \<times> nat) list \<Rightarrow> (number \<Rightarrow> string) \<Rightarrow> jsval \<Rightarrow> string \<Rightarrow> string \<Rightarrow> apiState \<Rightarrow>
    httpResponse option \<times> apiState" where
  "respondCodedError statuses numberToString exc code m s = (case map_of statuses code of
     None \<Rightarrow>
       if code \<in> set objectPrototype then (None, s)
       else (Some \<lparr>hr_status = 409, hr_headers = [], hr_body = errorBody code m\<rparr>, logH ''warn'' ''unmapped coded error; defaulting to 409'' s)
   | Some mapped \<Rightarrow> (let s' = (if 500 \<le> mapped then logH ''error'' ''Coded error'' s else s) in
       case readRetryAfterSeconds exc of
         Some n \<Rightarrow> (Some \<lparr>hr_status = mapped, hr_headers = [(''Retry-After'', numberToString n)],
             hr_body = JObj [(''code'', JStr code), (''message'', JStr m), (''details'', JObj [(''retryAfterSeconds'', JNum n)])]\<rparr>, s')
       | None \<Rightarrow> (Some \<lparr>hr_status = mapped, hr_headers = [], hr_body = errorBody code m\<rparr>, s')))"

definition respondHttpException :: "nat \<Rightarrow> jsval \<Rightarrow> string \<Rightarrow> apiState \<Rightarrow> httpResponse \<times> apiState" where
  "respondHttpException status body m s =
     (if 500 \<le> status
      then (\<lparr>hr_status = status, hr_headers = [], hr_body = errorBody (httpExceptionCode status) ''Internal server error''\<rparr>, logH ''error'' ''Http exception'' s)
      else (\<lparr>hr_status = status, hr_headers = [], hr_body = errorBody (httpExceptionCode status) (httpExceptionMessage body m)\<rparr>, s))"

definition apiExceptionFilter_catch :: "(string \<times> nat) list \<Rightarrow> (number \<Rightarrow> string) \<Rightarrow> (error \<Rightarrow> string) \<Rightarrow> failure \<Rightarrow> apiState \<Rightarrow>
    httpResponse option \<times> apiState" where
  "apiExceptionFilter_catch statuses numberToString messageOf f s = (case f of
     ZodValidationFailure e \<Rightarrow> (Some \<lparr>hr_status = 400, hr_headers = [],
         hr_body = JObj [(''code'', JStr ''VALIDATION_ERROR''), (''message'', JStr ''Validation failed''), (''details'', zodDetails e)]\<rparr>, s)
   | ZodSerializationFailure \<Rightarrow> (Some \<lparr>hr_status = 500, hr_headers = [], hr_body = errorBody ''INTERNAL_ERROR'' ''Internal server error''\<rparr>,
         logH ''error'' ''Response serialization failed'' s)
   | HttpFailure status body m \<Rightarrow> (let (r, s') = respondHttpException status body m s in (Some r, s'))
   | _ \<Rightarrow> (let exc = failureObject messageOf f in
       case isCodedError exc of
         Some (code, m) \<Rightarrow> respondCodedError statuses numberToString exc code m s
       | None \<Rightarrow> (Some \<lparr>hr_status = 500, hr_headers = [], hr_body = errorBody ''INTERNAL_ERROR'' ''Internal server error''\<rparr>,
           logH ''error'' ''Unhandled exception'' s)))"

definition codedErrorHttpStatuses :: "(string \<times> nat) list" where
  "codedErrorHttpStatuses = [
     (''INSUFFICIENT_PERMISSION'', 403), (''USER_NOT_FOUND'', 404), (''OWNER_USER_NOT_FOUND'', 404),
     (''USER_EMAIL_TAKEN'', 409), (''INVALID_CREDENTIALS'', 401), (''USER_SUSPENDED'', 403),
     (''INVALID_PASSWORD'', 400), (''PASSWORD_ALREADY_SET'', 409), (''INVALID_REFRESH_TOKEN'', 401),
     (''INVALID_RESET_TOKEN'', 400), (''RATE_LIMIT_EXCEEDED'', 429), (''ACTIVE_MEMBERSHIP_REQUIRED'', 403),
     (''CANNOT_ASSIGN_OWNER_ROLE'', 403), (''LAST_OWNER_REQUIRED'', 409), (''INVITATION_ALREADY_PENDING'', 409),
     (''MEMBERSHIP_ALREADY_EXISTS'', 409), (''INVALID_INVITATION_TOKEN'', 400), (''INVITATION_REGISTRATION_REQUIRED'', 400),
     (''MEMBERSHIP_NOT_FOUND'', 404), (''TENANT_NOT_FOUND'', 404), (''ROLE_NOT_FOUND'', 404),
     (''API_KEY_NOT_FOUND'', 404), (''API_KEY_ALREADY_REVOKED'', 409), (''API_KEY_CANNOT_MANAGE_KEYS'', 400),
     (''API_KEY_INVALID_NAME'', 400), (''API_KEY_EMPTY_PERMISSIONS'', 400), (''ROLE_NAME_TAKEN'', 409),
     (''ROLE_IN_USE'', 409), (''SYSTEM_ROLE_IMMUTABLE'', 403), (''RESERVED_ROLE_NAME'', 409),
     (''IDEMPOTENCY_KEY_REQUIRED'', 400), (''IDEMPOTENCY_SCOPE_UNAVAILABLE'', 400), (''IDEMPOTENCY_IN_PROGRESS'', 409),
     (''IDEMPOTENCY_KEY_REUSED'', 409)]"

end
