(* ===== verification/Idempotency.thy ===== *)
theory Idempotency
  imports HttpEdge JsDate
begin

text \<open>
  Idempotent requests: the key header and the fingerprint (packages/nest-http/src/http/interceptors), the
  store over its table (packages/infrastructure/postgres/src/kernel/idempotency) and the interceptor that
  claims a key, runs the handler and records the response in one unit of work.

  Parameters are the engine's JSON, the SHA-256 of node:crypto, what a \<open>jsonb\<close> column reads back, and
  what the insert of a claim throws (a lock timeout while another transaction holds the same key, say), with
  the thrown value as the store inspects it.
\<close>

record driverThrow =
  dt_failure :: failure
  dt_value :: jsval
  dt_driverError :: "jsval option"

record idempotencyPorts =
  ip_sha256 :: "string \<Rightarrow> string"
  ip_stringify :: "jsval \<Rightarrow> string"
  ip_jsonParse :: "string \<Rightarrow> jsval"
  ip_jsonb :: "jsval \<Rightarrow> jsval"
  ip_insertThrows :: "string \<Rightarrow> string \<Rightarrow> string \<Rightarrow> driverThrow option"

section \<open>Key and fingerprint\<close>

definition IDEMPOTENCY_MAX_LENGTH :: nat where "IDEMPOTENCY_MAX_LENGTH = 255"

definition IDEMPOTENCY_TTL_HOURS :: int where "IDEMPOTENCY_TTL_HOURS = 24"

definition idempotencyHeader_read :: "js_object \<Rightarrow> string option" where
  "idempotencyHeader_read headers = (case obj_read headers ''idempotency-key'' of
     JStr s \<Rightarrow> if isNonEmptyString (JStr s) then Some s else None
   | JArr (JStr s # _) \<Rightarrow> if isNonEmptyString (JStr s) then Some s else None
   | _ \<Rightarrow> None)"

definition idempotencyHeader_isValid :: "string \<Rightarrow> bool" where
  "idempotencyHeader_isValid key \<longleftrightarrow> length key \<le> IDEMPOTENCY_MAX_LENGTH
     \<and> list_all (\<lambda>c. let code = of_char c :: nat in \<not> (code < 32 \<or> code = 127)) key"

definition canonicalJson :: "idempotencyPorts \<Rightarrow> jsval \<Rightarrow> string" where
  "canonicalJson ports body =
     (if body = JUndefined then ''null'' else ip_stringify ports (ip_jsonParse ports (ip_stringify ports body)))"

definition fingerprint_hash :: "idempotencyPorts \<Rightarrow> string \<Rightarrow> string \<Rightarrow> jsval \<Rightarrow> string" where
  "fingerprint_hash ports meth path body = ip_sha256 ports (concat (map js_upper_char meth) @ [CHR 10] @ path @ [CHR 10] @ canonicalJson ports body)"

section \<open>The store\<close>

record claimInput =
  ci_scope :: string
  ci_endpoint :: string
  ci_key :: string
  ci_fingerprint :: string
  ci_expiresAt :: "int option"

datatype idempotencyClaim = Acquired | Replay nat jsval | InFlight | FingerprintMismatch

definition hex_char :: "char \<Rightarrow> bool" where
  "hex_char c \<longleftrightarrow> is_digit c \<or> js_lower_char c \<in> set ''abcdef''"

definition IDEMPOTENCY_UUID_PATTERN :: "string \<Rightarrow> bool" where
  "IDEMPOTENCY_UUID_PATTERN s = (let segs = split_on (CHR ''-'') s in
     map length segs = [8, 4, 4, 4, 12] \<and> list_all (list_all hex_char) segs)"

definition uuidFromScope :: "string \<Rightarrow> string \<Rightarrow> string option" where
  "uuidFromScope scope pfx = (if \<not> js_starts_with pfx scope then None
     else let value = drop (length pfx) scope in if IDEMPOTENCY_UUID_PATTERN value then Some value else None)"

definition driverCode :: "jsval \<Rightarrow> string option" where
  "driverCode e = (case e of JObj ob \<Rightarrow> (case obj_get ob ''code'' of Some (JStr c) \<Rightarrow> Some c | _ \<Rightarrow> None) | _ \<Rightarrow> None)"

definition isSqlState :: "driverThrow \<Rightarrow> string \<Rightarrow> bool" where
  "isSqlState e code \<longleftrightarrow>
     (case dt_driverError e of Some d \<Rightarrow> driverCode d = Some code | None \<Rightarrow> False) \<or> driverCode (dt_value e) = Some code"

definition IDEMPOTENCY_LOCK_TIMEOUT :: string where "IDEMPOTENCY_LOCK_TIMEOUT = ''55P03''"

definition idem_find :: "string \<Rightarrow> string \<Rightarrow> string \<Rightarrow> idempotencyKey list \<Rightarrow> idempotencyKey option" where
  "idem_find scope endpoint key rows = find (\<lambda>r. ik_scope r = scope \<and> ik_endpoint r = endpoint \<and> ik_key r = key) rows"

definition requireAmbientManager :: "string option \<Rightarrow> failure + string" where
  "requireAmbientManager tx = (case tx of None \<Rightarrow> Inl (AppFailure IdempotencyOutsideTransactionError) | Some m \<Rightarrow> Inr m)"

definition existingClaim :: "claimInput \<Rightarrow> idempotencyKey list \<Rightarrow> idempotencyClaim" where
  "existingClaim input rows = (case idem_find (ci_scope input) (ci_endpoint input) (ci_key input) rows of
     None \<Rightarrow> InFlight
   | Some existing \<Rightarrow>
       if ik_fingerprint existing \<noteq> ci_fingerprint input then FingerprintMismatch
       else if ik_status existing = ''processing'' then InFlight
       else (case ik_responseStatus existing of None \<Rightarrow> InFlight | Some st \<Rightarrow> Replay st (ik_responseBody existing)))"

text \<open>\<open>INSERT \<dots> ON CONFLICT DO NOTHING RETURNING id\<close>\<close>

definition claim_insert :: "idempotencyKey \<Rightarrow> idempotencyKey list \<Rightarrow> string list \<times> idempotencyKey list" where
  "claim_insert row rows = (case idem_find (ik_scope row) (ik_endpoint row) (ik_key row) rows of
     Some _ \<Rightarrow> ([], rows) | None \<Rightarrow> ([ik_id row], rows @ [row]))"

definition claimRow :: "string \<Rightarrow> millis \<Rightarrow> claimInput \<Rightarrow> idempotencyKey" where
  "claimRow freshId now input = \<lparr>ik_id = freshId, ik_scope = ci_scope input, ik_endpoint = ci_endpoint input, ik_key = ci_key input,
     ik_fingerprint = ci_fingerprint input, ik_status = ''processing'', ik_responseStatus = None, ik_responseBody = JNull,
     ik_expiresAt = ci_expiresAt input, ik_tenantId = uuidFromScope (ci_scope input) ''t:'',
     ik_actorId = uuidFromScope (ci_scope input) ''u:'', ik_createdAt = now, ik_updatedAt = now\<rparr>"

definition idem_claim :: "idempotencyPorts \<Rightarrow> string \<Rightarrow> millis \<Rightarrow> string option \<Rightarrow> claimInput \<Rightarrow> idempotencyKey list \<Rightarrow>
    (failure + idempotencyClaim) \<times> idempotencyKey list" where
  "idem_claim ports freshId now tx input rows = (case requireAmbientManager tx of
     Inl e \<Rightarrow> (Inl e, rows)
   | Inr _ \<Rightarrow> (case ip_insertThrows ports (ci_scope input) (ci_endpoint input) (ci_key input) of
       Some e \<Rightarrow> if isSqlState e IDEMPOTENCY_LOCK_TIMEOUT then (Inr InFlight, rows) else (Inl (dt_failure e), rows)
     | None \<Rightarrow> (case claim_insert (claimRow freshId now input) rows of
         (inserted, rows') \<Rightarrow> if 0 < length inserted then (Inr Acquired, rows') else (Inr (existingClaim input rows'), rows'))))"

definition idem_complete :: "idempotencyPorts \<Rightarrow> millis \<Rightarrow> string option \<Rightarrow> string \<Rightarrow> string \<Rightarrow> string \<Rightarrow> nat \<Rightarrow> jsval \<Rightarrow>
    idempotencyKey list \<Rightarrow> (failure + unit) \<times> idempotencyKey list" where
  "idem_complete ports now tx scope endpoint key statusCode body rows = (case requireAmbientManager tx of
     Inl e \<Rightarrow> (Inl e, rows)
   | Inr _ \<Rightarrow> (case idem_find scope endpoint key rows of
       None \<Rightarrow> (Inl (AppFailure (PlainError ''Idempotency complete() has no matching claim row'')), rows)
     | Some existing \<Rightarrow> (Inr (), upsert ik_id (existing\<lparr>ik_status := ''completed'', ik_responseStatus := Some statusCode,
         ik_responseBody := ip_jsonb ports (if isNil body then JNull else body), ik_updatedAt := now\<rparr>) rows)))"

section \<open>The interceptor\<close>

definition idempotency_scope :: "requestContext option \<Rightarrow> failure + string" where
  "idempotency_scope context = (
     let tid = (case context of None \<Rightarrow> None | Some c \<Rightarrow> rc_tenantId c);
         aid = (case context of None \<Rightarrow> None | Some c \<Rightarrow> rc_actorId c) in
     case (tid, aid) of
       (Some (t # ts), _) \<Rightarrow> Inr (''t:'' @ t # ts)
     | (_, Some (u # us)) \<Rightarrow> Inr (''u:'' @ u # us)
     | _ \<Rightarrow> Inl (AppFailure IdempotencyScopeUnavailableError))"

definition idempotency_routePath :: "httpRequest \<Rightarrow> string" where
  "idempotency_routePath rq = (case rq_routePath rq of
     JStr (c # cs) \<Rightarrow> c # cs
   | _ \<Rightarrow> (let path = beforeQuery (case rq_url rq of Some u \<Rightarrow> u | None \<Rightarrow> []) in if path = [] then ''unmatched'' else path))"

definition idempotency_statusCode :: "nat option \<Rightarrow> nat \<Rightarrow> nat" where
  "idempotency_statusCode httpCode responseStatus = (case httpCode of Some c \<Rightarrow> c | None \<Rightarrow> if responseStatus = 0 then 200 else responseStatus)"

text \<open>The outermost unit of work of a request: rows and keys are the database's, the rest is not rolled back.\<close>

definition api_uow :: "'a api \<Rightarrow> 'a api" where
  "api_uow work s = (case work s of
     (Inl e, s') \<Rightarrow> (Inl e, s'\<lparr>as_world := (as_world s')\<lparr>w_db := w_db (as_world s)\<rparr>, as_idempotency := as_idempotency s\<rparr>)
   | (Inr x, s') \<Rightarrow> (Inr x, s'))"

definition overKeys :: "(idempotencyKey list \<Rightarrow> (failure + 'a) \<times> idempotencyKey list) \<Rightarrow> 'a api" where
  "overKeys f s = (case f (as_idempotency s) of (r, rows) \<Rightarrow> (r, s\<lparr>as_idempotency := rows\<rparr>))"

definition claimed_work :: "idempotencyPorts \<Rightarrow> string \<Rightarrow> string \<Rightarrow> nat option \<Rightarrow> claimInput \<Rightarrow> jsval handler \<Rightarrow> jsval handler" where
  "claimed_work ports txId freshId httpCode input next als =
     bindH (\<lambda>s. overKeys (idem_claim ports freshId (w_now (as_world s)) (Some txId) input) s) (\<lambda>claim. case claim of
       Replay st body \<Rightarrow> (\<lambda>s. (Inr body, s\<lparr>as_status := st\<rparr>))
     | InFlight \<Rightarrow> throwH (AppFailure IdempotencyInProgressError)
     | FingerprintMismatch \<Rightarrow> throwH (AppFailure IdempotencyKeyReusedError)
     | Acquired \<Rightarrow> bindH (next als) (\<lambda>result.
         bindH (\<lambda>s. overKeys (idem_complete ports (w_now (as_world s)) (Some txId) (ci_scope input) (ci_endpoint input) (ci_key input)
             (idempotency_statusCode httpCode (as_status s)) result) s) (\<lambda>_.
         liftH (Inr result))))"

definition handleMarkedRoute :: "idempotencyPorts \<Rightarrow> string \<Rightarrow> string \<Rightarrow> nat option \<Rightarrow> httpRequest \<Rightarrow> jsval handler \<Rightarrow> jsval handler" where
  "handleMarkedRoute ports txId freshId httpCode rq next als s = (case idempotencyHeader_read (rq_headers rq) of
     None \<Rightarrow> throwH (AppFailure IdempotencyKeyRequiredError) s
   | Some key \<Rightarrow>
     if \<not> idempotencyHeader_isValid key then throwH (AppFailure IdempotencyKeyRequiredError) s
     else (case idempotency_scope (as_context s) of
       Inl e \<Rightarrow> throwH e s
     | Inr scope \<Rightarrow> (let
         meth = (case rq_method rq of Some m \<Rightarrow> m | None \<Rightarrow> ''POST'');
         path = idempotency_routePath rq;
         endpoint = meth @ '' '' @ path;
         fingerprint = fingerprint_hash ports meth path (rq_body rq) in
         case addUtcHours (Some (w_now (as_world s))) (num IDEMPOTENCY_TTL_HOURS) of
           Inl e \<Rightarrow> throwH (OtherFailure (JInstance ''RangeError'')) s
         | Inr expiresAt \<Rightarrow> api_uow (claimed_work ports txId freshId httpCode
             \<lparr>ci_scope = scope, ci_endpoint = endpoint, ci_key = key, ci_fingerprint = fingerprint, ci_expiresAt = expiresAt\<rparr> next als) s)))"

definition idempotency_intercept :: "idempotencyPorts \<Rightarrow> string \<Rightarrow> string \<Rightarrow> bool option \<Rightarrow> nat option \<Rightarrow> httpRequest \<Rightarrow>
    jsval handler \<Rightarrow> jsval handler" where
  "idempotency_intercept ports txId freshId enabled httpCode rq next als =
     (if enabled \<noteq> Some True then next als else handleMarkedRoute ports txId freshId httpCode rq next als)"

end
