(* ===== verification/ApiPrincipal.thy ===== *)
theory ApiPrincipal
  imports Idempotency IdentityUseCases
begin

text \<open>
  Who a request speaks for (apps/api/src/common/auth): the access token, the principal interceptor with its
  three ways to authenticate, the active-membership lookup of packages/composition, the permission
  interceptor, and the chain of interceptors in the order \<open>CommonModule\<close> provides them.

  The signing of a JWT and the verification of its signature, issuer, audience and expiry are the \<open>jose\<close>
  package's: parameters that give the token of some claims at a time, and the claims of a token it accepts.
\<close>

record jwtPayload =
  jp_sub :: "string option"
  jp_tid :: jsval

record authPorts =
  ap_jwtVerify :: "millis \<Rightarrow> string \<Rightarrow> jwtPayload option"
  ap_jwtSign :: "millis \<Rightarrow> jwtPayload \<Rightarrow> string"
  ap_ttlSeconds :: nat
  ap_cookiePath :: string
  ap_cookieSecure :: bool
  ap_development :: bool

record jwtAccessClaims =
  jc_userId :: userId
  jc_tenantId :: "tenantId option"

section \<open>Access tokens\<close>

definition jwt_verify :: "env \<Rightarrow> authPorts \<Rightarrow> millis \<Rightarrow> string \<Rightarrow> failure + jwtAccessClaims" where
  "jwt_verify env ports now token = (let invalid = Inl (unauthorized ''access token is invalid'') in
     case ap_jwtVerify ports now token of
       None \<Rightarrow> invalid
     | Some payload \<Rightarrow> (case jp_sub payload of
         None \<Rightarrow> invalid
       | Some sub \<Rightarrow> (case parseId env sub of
           Inl _ \<Rightarrow> invalid
         | Inr u \<Rightarrow> (case jp_tid payload of
             JUndefined \<Rightarrow> Inr \<lparr>jc_userId = u, jc_tenantId = None\<rparr>
           | JStr tid \<Rightarrow> (case parseId env tid of Inl _ \<Rightarrow> invalid | Inr t \<Rightarrow> Inr \<lparr>jc_userId = u, jc_tenantId = Some t\<rparr>)
           | _ \<Rightarrow> invalid))))"

definition jwt_sign :: "authPorts \<Rightarrow> millis \<Rightarrow> userId \<Rightarrow> tenantId option \<Rightarrow> string" where
  "jwt_sign ports now u tid = ap_jwtSign ports now \<lparr>jp_sub = Some u, jp_tid = (case tid of None \<Rightarrow> JUndefined | Some t \<Rightarrow> JStr t)\<rparr>"

section \<open>The principal\<close>

definition toTenantActor :: "authPrincipal \<Rightarrow> tenantActor" where
  "toTenantActor p = (case p of UserPrincipal u _ \<Rightarrow> userActor u | ApiKeyPrincipal k _ \<Rightarrow> apiKeyActor k)"

definition requireUserPrincipal :: "authPrincipal \<Rightarrow> failure + userId" where
  "requireUserPrincipal p = (case p of
     UserPrincipal u _ \<Rightarrow> Inr u | ApiKeyPrincipal _ _ \<Rightarrow> Inl (forbidden ''user principal is required''))"

definition readDevPrincipal :: "apiState \<Rightarrow> failure + authPrincipal" where
  "readDevPrincipal s = (case as_principal s of
     None \<Rightarrow> Inl (unauthorized ''DevPrincipal is not established'') | Some p \<Rightarrow> Inr p)"

text \<open>\<open>AssertActiveMembership.findActive\<close>\<close>

definition findActive :: "userId \<Rightarrow> tenantId \<Rightarrow> membership option app" where
  "findActive u t = readDb (\<lambda>d. case memberships_findByUserAndTenant u t d of
     None \<Rightarrow> None | Some m \<Rightarrow> if m_status m \<noteq> MActive then None else Some m)"

definition bindPrincipal :: "authPrincipal \<Rightarrow> string \<Rightarrow> actorKind \<Rightarrow> tenantId option \<Rightarrow> apiState \<Rightarrow> apiState" where
  "bindPrincipal p actorId kind tid s = requestContext_bind (Some actorId) (Some kind) tid (s\<lparr>as_principal := Some p\<rparr>)"

definition in_tenant_scope :: "tenantId \<Rightarrow> tenantActor \<Rightarrow> 'a handler \<Rightarrow> 'a handler" where
  "in_tenant_scope t a next als = tenantContext_run \<lparr>ts_tenantId = t, ts_actor = a\<rparr> next als"

definition bindUserPrincipal :: "userId \<Rightarrow> tenantId option \<Rightarrow> bool \<Rightarrow> 'a handler \<Rightarrow> 'a handler" where
  "bindUserPrincipal u tid tenantOptional next als = (case tid of
     None \<Rightarrow>
       if \<not> tenantOptional then throwH (unauthorized ''tenant is required'')
       else (\<lambda>s. next als (bindPrincipal (UserPrincipal u None) u UserKind None s))
   | Some t \<Rightarrow> bindH (useCase (findActive u t)) (\<lambda>found. case found of
       None \<Rightarrow> throwH (forbidden ''active membership is required'')
     | Some _ \<Rightarrow> (\<lambda>s. in_tenant_scope t (userActor u) next als (bindPrincipal (UserPrincipal u (Some t)) u UserKind (Some t) s))))"

definition authenticateApiKey :: "env \<Rightarrow> string \<Rightarrow> 'a handler \<Rightarrow> 'a handler" where
  "authenticateApiKey env token next als = bindH (useCase (resolveApiKey env token)) (\<lambda>resolved. case resolved of
     None \<Rightarrow> throwH (unauthorized ''API key is invalid'')
   | Some (k, t) \<Rightarrow> bindH (useCase (touchApiKeyLastUsed k)) (\<lambda>_.
       (\<lambda>s. in_tenant_scope t (apiKeyActor k) next als (bindPrincipal (ApiKeyPrincipal k t) k ApiKeyKind (Some t) s))))"

definition authenticateFromHeaders :: "env \<Rightarrow> httpRequest \<Rightarrow> bool \<Rightarrow> 'a handler \<Rightarrow> 'a handler" where
  "authenticateFromHeaders env rq tenantOptional next als = (case readHeader (rq_headers rq) ''x-user-id'' of
     None \<Rightarrow> throwH (unauthorized ''x-user-id is required'')
   | Some userIdRaw \<Rightarrow> (case (case readHeader (rq_headers rq) ''x-tenant-id'' of
         None \<Rightarrow> Inr None
       | Some tenantIdRaw \<Rightarrow> bindR (parseId env tenantIdRaw) (\<lambda>t. Inr (Some t))) of
       Inl e \<Rightarrow> throwH (AppFailure e)
     | Inr tid \<Rightarrow> (case parseId env userIdRaw of
         Inl e \<Rightarrow> throwH (AppFailure e)
       | Inr u \<Rightarrow> bindUserPrincipal u tid tenantOptional next als)))"

definition authenticate :: "env \<Rightarrow> authPorts \<Rightarrow> httpRequest \<Rightarrow> bool \<Rightarrow> 'a handler \<Rightarrow> 'a handler" where
  "authenticate env ports rq tenantOptional next als s = (case readBearer (rq_headers rq) of
     Inl e \<Rightarrow> throwH e s
   | Inr (Some bearer) \<Rightarrow>
       if js_starts_with ''bsk_'' bearer then authenticateApiKey env bearer next als s
       else (case jwt_verify env ports (w_now (as_world s)) bearer of
         Inl e \<Rightarrow> throwH e s
       | Inr claims \<Rightarrow> bindUserPrincipal (jc_userId claims) (jc_tenantId claims) tenantOptional next als s)
   | Inr None \<Rightarrow>
       if ap_development ports then authenticateFromHeaders env rq tenantOptional next als s
       else throwH (unauthorized ''Authorization bearer token is required'') s)"

definition authPrincipal_intercept :: "env \<Rightarrow> authPorts \<Rightarrow> bool \<Rightarrow> bool \<Rightarrow> httpRequest \<Rightarrow> 'a handler \<Rightarrow> 'a handler" where
  "authPrincipal_intercept env ports isPublic tenantOptional rq next als =
     (if isPublic then next als else authenticate env ports rq tenantOptional next als)"

section \<open>Permissions\<close>

definition parseApiPermission :: "string \<Rightarrow> error + permission" where
  "parseApiPermission p = (case permission_parse p of Some q \<Rightarrow> Inr q | None \<Rightarrow> Inl ZodError)"

definition requirePermission :: "permission \<Rightarrow> 'a handler \<Rightarrow> 'a handler" where
  "requirePermission p next als = (case getActor als of
     Inl e \<Rightarrow> throwH (AppFailure e)
   | Inr actor \<Rightarrow> (case parseApiPermission p of
       Inl e \<Rightarrow> throwH (AppFailure e)
     | Inr q \<Rightarrow> (case getTenantId als of
         Inl e \<Rightarrow> throwH (AppFailure e)
       | Inr t \<Rightarrow> bindH (useCase (authz_require actor q t)) (\<lambda>_. next als))))"

definition requirePermission_intercept :: "bool \<Rightarrow> permission option \<Rightarrow> 'a handler \<Rightarrow> 'a handler" where
  "requirePermission_intercept isPublic permission next als =
     (if isPublic then next als else case permission of None \<Rightarrow> next als | Some p \<Rightarrow> requirePermission p next als)"

section \<open>The chain\<close>

text \<open>A route: what its decorators set.\<close>

record route =
  rt_method :: string
  rt_path :: string
  rt_public :: bool
  rt_tenantOptional :: bool
  rt_permission :: "permission option"
  rt_idempotent :: "bool option"
  rt_rateLimit :: "rateLimitOptions option"
  rt_httpCode :: "nat option"

record apiPorts =
  api_redis :: redisPorts
  api_auth :: authPorts
  api_idem :: idempotencyPorts
  api_numberToString :: "number \<Rightarrow> string"
  api_messageOf :: "error \<Rightarrow> string"
  api_randomId :: "nat \<Rightarrow> string"

text \<open>The interceptors of \<open>CommonModule\<close>, outermost first; the random ids are those of this request.\<close>

definition guarded :: "env \<Rightarrow> apiPorts \<Rightarrow> route \<Rightarrow> httpRequest \<Rightarrow> jsval handler \<Rightarrow> jsval handler" where
  "guarded env ports rt rq next =
     rateLimit_intercept (api_redis ports) (rt_rateLimit rt) rq (
     authPrincipal_intercept env (api_auth ports) (rt_public rt) (rt_tenantOptional rt) rq (
     requirePermission_intercept (rt_public rt) (rt_permission rt) (
     idempotency_intercept (api_idem ports) (api_randomId ports 1) (api_randomId ports 2) (rt_idempotent rt) (rt_httpCode rt) rq next)))"

text \<open>A request served: the chain under the request interceptor, the filter for what it throws, the access log.\<close>

definition defaultStatus :: "route \<Rightarrow> nat" where
  "defaultStatus rt = (case rt_httpCode rt of Some c \<Rightarrow> c | None \<Rightarrow> if rt_method rt = ''POST'' then 201 else 200)"

definition serve :: "env \<Rightarrow> apiPorts \<Rightarrow> route \<Rightarrow> httpRequest \<Rightarrow> jsval handler \<Rightarrow> apiState \<Rightarrow> httpResponse option \<times> apiState" where
  "serve env ports rt rq next s = (let
     covered = (\<not> isSwaggerPath rq \<and> \<not> isHealthProbePath rq);
     respond = (\<lambda>r s. if covered
       then (Some (r\<lparr>hr_headers := (REQUEST_ID_RESPONSE_HEADER, resolveRequestId (api_randomId ports 0) rq) # hr_headers r\<rparr>), logAccess (hr_status r) s)
       else (Some r, s)) in
     case httpRequest_intercept (api_randomId ports 0) rq (guarded env ports rt rq next) None
         (s\<lparr>as_status := defaultStatus rt, as_principal := None, as_context := None, as_cookies := []\<rparr>) of
       (Inl f, s') \<Rightarrow> (case apiExceptionFilter_catch codedErrorHttpStatuses (api_numberToString ports) (api_messageOf ports) f s' of
           (Some r, s'') \<Rightarrow> respond r s''
         | (None, s'') \<Rightarrow> (None, s''))
     | (Inr body, s') \<Rightarrow> respond \<lparr>hr_status = as_status s', hr_headers = [], hr_body = body\<rparr> s')"

end
