(* ===== verification/HttpGuarantees.thy ===== *)
theory HttpGuarantees
  imports ApiPrincipal Examples Outcomes
begin

text \<open>
  The guarantees of the HTTP edge: what a request must carry for its handler to run, what a client is told of
  an error, what the rate limit allows.
\<close>

section \<open>Interceptors as gates\<close>

text \<open>
  An interceptor is a gate when, whatever handler follows it, it either refuses with a failure that does not
  depend on the handler, or hands over to the handler once, with a store and a state for which \<open>P\<close> holds.
\<close>

definition gate :: "(jsval handler \<Rightarrow> jsval handler) \<Rightarrow> tenantAlsStore option \<Rightarrow> apiState \<Rightarrow> (tenantAlsStore option \<Rightarrow> apiState \<Rightarrow> bool) \<Rightarrow> bool" where
  "gate m als s P \<longleftrightarrow> (\<exists>f s'. \<forall>h. m h als s = (Inl f, s')) \<or> (\<exists>als' s'. P als' s' \<and> (\<forall>h. m h als s = h als' s'))"

lemma gate_hands_over: "P als' s' \<Longrightarrow> \<forall>h. m h als s = h als' s' \<Longrightarrow> gate m als s P"
  unfolding gate_def by blast

lemma gate_refusal: "\<exists>f s'. \<forall>h. m h als s = (Inl f, s') \<Longrightarrow> gate m als s P"
  by (simp add: gate_def)

lemma gate_cong: "(\<And>h. m h als s = n h als s) \<Longrightarrow> gate n als s P \<Longrightarrow> gate m als s P"
  by (simp add: gate_def)

lemma gate_comp:
  assumes "gate m als s P" "\<And>als' s'. P als' s' \<Longrightarrow> gate n als' s' Q"
  shows "gate (\<lambda>h. m (n h)) als s Q"
  using assms unfolding gate_def by metis

lemma gate_weaken: "gate m als s P \<Longrightarrow> (\<And>als' s'. P als' s' \<Longrightarrow> Q als' s') \<Longrightarrow> gate m als s Q"
  unfolding gate_def by blast

lemma bind_world [simp]:
  "as_world (bindPrincipal p a k t s) = as_world s" "as_idempotency (bindPrincipal p a k t s) = as_idempotency s"
  "as_principal (bindPrincipal p a k t s) = Some p"
  by (simp_all add: bindPrincipal_def requestContext_bind_def split: option.splits)

section \<open>The rate limit and the principal\<close>

lemma rateLimit_gate:
  "gate (rateLimit_intercept ports limits rq) als s (\<lambda>als' s'. als' = als \<and> as_world s' = as_world s \<and> as_idempotency s' = as_idempotency s)"
proof (cases limits)
  case None
  then show ?thesis by (intro gate_hands_over[of _ als s]) (simp_all add: rateLimit_intercept_def)
next
  case (Some options)
  let ?k = "AuthorizationService.cacheKey_global [''rate-limit'', rl_bucket options, readClientIp rq]"
  obtain r ws where r: "redisLimiter_consume ports (w_now (as_world s)) ?k options (as_windows s) = (r, ws)" by fastforce
  show ?thesis
  proof (cases r)
    case (Inr d)
    then show ?thesis
    proof (cases "rd_allowed d")
      case True
      then show ?thesis using r Inr Some
        by (intro gate_hands_over[of _ als "s\<lparr>as_windows := ws\<rparr>"]) (simp_all add: rateLimit_intercept_def Let_def)
    next
      case False
      then show ?thesis using r Inr Some by (intro gate_refusal) (simp add: rateLimit_intercept_def Let_def)
    qed
  next
    case (Inl e)
    then have "rateLimit_intercept ports limits rq h als s =
        (case e of AppFailure (RateLimitExceededError n) \<Rightarrow> (Inl e, s\<lparr>as_windows := ws\<rparr>)
         | _ \<Rightarrow> h als (logH ''warn'' ''rate limiter failed; allowing request'' (s\<lparr>as_windows := ws\<rparr>)))" for h
      using r Some by (simp add: rateLimit_intercept_def Let_def)
    note eval = this
    show ?thesis
    proof (cases "\<exists>n. e = AppFailure (RateLimitExceededError n)")
      case True
      then show ?thesis by (intro gate_refusal) (auto simp: eval)
    next
      case False
      let ?s = "logH ''warn'' ''rate limiter failed; allowing request'' (s\<lparr>as_windows := ws\<rparr>)"
      have "rateLimit_intercept ports limits rq h als s = h als ?s" for h :: "jsval handler"
        using False by (simp add: eval split: failure.splits error.splits)
      then show ?thesis by (intro gate_hands_over[of _ als ?s]) (simp_all add: logH_def)
    qed
  qed
qed

text \<open>The principal a scope stands for, in the state the handler gets.\<close>

definition named :: "env \<Rightarrow> authPorts \<Rightarrow> httpRequest \<Rightarrow> millis \<Rightarrow> userId \<Rightarrow> tenantId option \<Rightarrow> bool" where
  "named env ports rq now u tid \<longleftrightarrow>
     (\<exists>bearer. readBearer (rq_headers rq) = Inr (Some bearer) \<and>
        jwt_verify env ports now bearer = Inr \<lparr>jc_userId = u, jc_tenantId = tid\<rparr>) \<or>
     (ap_development ports \<and> readBearer (rq_headers rq) = Inr None \<and> readHeader (rq_headers rq) ''x-user-id'' = Some u \<and>
        readHeader (rq_headers rq) ''x-tenant-id'' = tid)"

definition keyed :: "env \<Rightarrow> httpRequest \<Rightarrow> world \<Rightarrow> apiKeyId \<Rightarrow> tenantId \<Rightarrow> bool" where
  "keyed env rq w k t \<longleftrightarrow> (\<exists>token. readBearer (rq_headers rq) = Inr (Some token) \<and> resolveApiKey env token w = (Inr (Some (k, t)), w))"

definition speaks_for :: "env \<Rightarrow> authPorts \<Rightarrow> httpRequest \<Rightarrow> world \<Rightarrow> tenantAlsStore option \<Rightarrow> apiState \<Rightarrow> bool" where
  "speaks_for env ports rq w als s \<longleftrightarrow> (case als of
     None \<Rightarrow> (\<exists>u. as_principal s = Some (UserPrincipal u None) \<and> named env ports rq (w_now w) u None) \<and> as_world s = w
   | Some store \<Rightarrow> \<exists>sc. tas_scope store = Some sc \<and> \<not> tas_skip store \<and> (case ts_actor sc of
       userActor u \<Rightarrow> named env ports rq (w_now w) u (Some (ts_tenantId sc)) \<and> as_world s = w \<and> as_principal s = Some (UserPrincipal u (Some (ts_tenantId sc))) \<and>
         (\<exists>m. memberships_findByUserAndTenant u (ts_tenantId sc) (w_db w) = Some m \<and> m_status m = MActive)
     | apiKeyActor k \<Rightarrow> as_world s = snd (touchApiKeyLastUsed k w) \<and> as_principal s = Some (ApiKeyPrincipal k (ts_tenantId sc)) \<and>
         keyed env rq w k (ts_tenantId sc)))"

lemma findActive_eval: "useCase (findActive u t) s = (Inr (case memberships_findByUserAndTenant u t (w_db (as_world s)) of
     None \<Rightarrow> None | Some m \<Rightarrow> if m_status m \<noteq> MActive then None else Some m), s)"
  by (simp add: useCase_def findActive_def)

lemma bindUser_gate:
  assumes "named env ports rq (w_now (as_world s)) u tid"
  shows "gate (bindUserPrincipal u tid opt) None s (\<lambda>als s'. speaks_for env ports rq (as_world s) als s' \<and> as_idempotency s' = as_idempotency s)"
proof (cases tid)
  case None
  let ?s = "bindPrincipal (UserPrincipal u None) u UserKind None s"
  show ?thesis
  proof (cases opt)
    case True
    then show ?thesis using None
      by (intro gate_hands_over[of _ None ?s]) (use assms in \<open>simp_all add: bindUserPrincipal_def speaks_for_def\<close>)
  next
    case False
    then show ?thesis using None by (intro gate_refusal) (simp add: bindUserPrincipal_def throwH_def)
  qed
next
  case (Some t)
  show ?thesis
  proof (cases "memberships_findByUserAndTenant u t (w_db (as_world s))")
    case None
    then show ?thesis using Some
      by (intro gate_refusal) (simp add: bindUserPrincipal_def throwH_def bindH_def findActive_eval)
  next
    case member: (Some m)
    let ?als = "Some \<lparr>tas_scope = Some \<lparr>ts_tenantId = t, ts_actor = userActor u\<rparr>, tas_skip = False\<rparr>"
    let ?s = "bindPrincipal (UserPrincipal u (Some t)) u UserKind (Some t) s"
    have evals: "bindUserPrincipal u tid opt h None s = (if m_status m \<noteq> MActive
        then throwH (forbidden ''active membership is required'') s else h ?als ?s)" for h :: "jsval handler"
      using Some member by (simp add: bindUserPrincipal_def bindH_def findActive_eval in_tenant_scope_def tenantContext_run_def)
    show ?thesis
    proof (cases "m_status m = MActive")
      case True
      then show ?thesis using member assms[unfolded Some]
        by (intro gate_hands_over[of _ ?als ?s]) (simp_all add: evals speaks_for_def)
    next
      case False
      then show ?thesis by (intro gate_refusal) (simp add: evals throwH_def)
    qed
  qed
qed

lemma resolveApiKey_pure: "\<exists>r. resolveApiKey env tk w = (Inr r, w)"
  by (auto simp: resolveApiKey_def app_run split: option.splits)

lemma touch_eval: "touchApiKeyLastUsed k w = (Inr (), w\<lparr>w_db := apiKeys_touchLastUsed k (w_now w) (w_db w)\<rparr>)"
  by (simp add: touchApiKeyLastUsed_def app_run)

lemma apiKey_gate:
  assumes "readBearer (rq_headers rq) = Inr (Some token)"
  shows "gate (authenticateApiKey env token) None s (\<lambda>als s'. speaks_for env ports rq (as_world s) als s' \<and> as_idempotency s' = as_idempotency s)"
proof -
  obtain r where r: "resolveApiKey env token (as_world s) = (Inr r, as_world s)" using resolveApiKey_pure by blast
  show ?thesis
  proof (cases r)
    case None
    then show ?thesis using r by (intro gate_refusal) (simp add: authenticateApiKey_def bindH_def useCase_def throwH_def)
  next
    case (Some kt)
    obtain k t where kt: "kt = (k, t)" by fastforce
    let ?s = "s\<lparr>as_world := snd (touchApiKeyLastUsed k (as_world s))\<rparr>"
    let ?als = "Some \<lparr>tas_scope = Some \<lparr>ts_tenantId = t, ts_actor = apiKeyActor k\<rparr>, tas_skip = False\<rparr>"
    let ?b = "bindPrincipal (ApiKeyPrincipal k t) k ApiKeyKind (Some t) ?s"
    have "authenticateApiKey env token h None s = h ?als ?b" for h :: "jsval handler"
      using r Some kt by (simp add: authenticateApiKey_def bindH_def useCase_def touch_eval in_tenant_scope_def tenantContext_run_def)
    then show ?thesis using r Some kt assms
      by (intro gate_hands_over[of _ ?als ?b]) (auto simp: speaks_for_def keyed_def)
  qed
qed

lemma principal_gate:
  assumes "\<not> isPublic"
  shows "gate (authPrincipal_intercept env ports isPublic opt rq) None s
    (\<lambda>als s'. speaks_for env ports rq (as_world s) als s' \<and> as_idempotency s' = as_idempotency s)"
proof -
  let ?P = "\<lambda>als s'. speaks_for env ports rq (as_world s) als s' \<and> as_idempotency s' = as_idempotency s"
  have headers: "gate (authenticateFromHeaders env rq opt) None s ?P"
    if dev: "ap_development ports" "readBearer (rq_headers rq) = Inr None"
  proof (cases "readHeader (rq_headers rq) ''x-user-id''")
    case None
    then show ?thesis by (intro gate_refusal) (simp add: authenticateFromHeaders_def throwH_def)
  next
    case (Some u)
    let ?t = "case readHeader (rq_headers rq) ''x-tenant-id'' of None \<Rightarrow> Inr None | Some t \<Rightarrow> bindR (parseId env t) (\<lambda>t. Inr (Some t))"
    show ?thesis
    proof (cases "?t")
      case (Inl e)
      then show ?thesis using Some by (intro gate_refusal) (simp add: authenticateFromHeaders_def throwH_def)
    next
      case (Inr tid)
      then have tid: "readHeader (rq_headers rq) ''x-tenant-id'' = tid"
        by (auto simp: bindR_def parseId_def split: option.splits if_splits)
      show ?thesis
      proof (cases "isUuid env u")
        case True
        then show ?thesis using Some Inr dev tid
          by (intro gate_cong[OF _ bindUser_gate[of env ports rq s u tid opt]])
            (simp_all add: authenticateFromHeaders_def parseId_def named_def)
      next
        case False
        then show ?thesis using Some Inr by (intro gate_refusal) (simp add: authenticateFromHeaders_def parseId_def throwH_def)
      qed
    qed
  qed
  have "gate (authenticate env ports rq opt) None s ?P"
  proof (cases "readBearer (rq_headers rq)")
    case (Inl e)
    then show ?thesis by (intro gate_refusal) (simp add: authenticate_def throwH_def)
  next
    case (Inr found)
    show ?thesis
    proof (cases found)
      case None
      then show ?thesis
        using Inr headers by (cases "ap_development ports") (auto intro: gate_refusal gate_cong[rotated] simp: authenticate_def throwH_def)
    next
      case (Some bearer)
      show ?thesis
      proof (cases "js_starts_with ''bsk_'' bearer")
        case True
        then show ?thesis using Inr Some by (intro gate_cong[OF _ apiKey_gate]) (simp_all add: authenticate_def)
      next
        case False
        show ?thesis
        proof (cases "jwt_verify env ports (w_now (as_world s)) bearer")
          case (Inl e)
          then show ?thesis using False \<open>readBearer _ = _\<close> Some by (intro gate_refusal) (simp add: authenticate_def throwH_def)
        next
          case claims: (Inr c)
          then have "named env ports rq (w_now (as_world s)) (jc_userId c) (jc_tenantId c)"
            using Inr Some by (simp add: named_def)
          then show ?thesis using False Inr Some claims
            by (intro gate_cong[OF _ bindUser_gate[of env ports rq s "jc_userId c" "jc_tenantId c" opt]]) (simp_all add: authenticate_def)
        qed
      qed
    qed
  qed
  then show ?thesis by (rule gate_cong[rotated]) (simp add: authPrincipal_intercept_def assms)
qed

section \<open>The permission\<close>

lemma permission_gate:
  assumes "\<not> isPublic"
  shows "gate (requirePermission_intercept isPublic (Some p)) als s (\<lambda>als' s'. als' = als \<and> as_idempotency s' = as_idempotency s \<and>
    as_principal s' = as_principal s \<and> same_but_cache (as_world s) (as_world s') \<and>
    (\<exists>sc q. requireScope als = Inr sc \<and> permission_parse p = Some q \<and> q \<in> set (answers (as_world s) (ts_actor sc) (ts_tenantId sc))))"
proof (cases "requireScope als")
  case (Inl e)
  then show ?thesis using assms
    by (intro gate_refusal) (simp add: requirePermission_intercept_def requirePermission_def getActor_def bindR_def throwH_def)
next
  case (Inr sc)
  show ?thesis
  proof (cases "permission_parse p")
    case None
    then show ?thesis using assms Inr
      by (intro gate_refusal)
        (simp add: requirePermission_intercept_def requirePermission_def getActor_def bindR_def throwH_def parseApiPermission_def)
  next
    case (Some q)
    let ?a = "ts_actor sc" and ?t = "ts_tenantId sc"
    obtain w where w: "authz_require ?a q ?t (as_world s) =
        ((if q \<in> set (answers (as_world s) ?a ?t) then Inr () else Inl (InsufficientPermissionError q)), w)"
      "same_but_cache (as_world s) w" by (rule authz_require_eval)
    have e: "requirePermission_intercept isPublic (Some p) h als s =
        bindH (useCase (authz_require ?a q ?t)) (\<lambda>_. h als) s" for h :: "jsval handler"
      using assms Inr Some by (simp add: requirePermission_intercept_def requirePermission_def getActor_def getTenantId_def
          bindR_def parseApiPermission_def)
    show ?thesis
    proof (cases "q \<in> set (answers (as_world s) ?a ?t)")
      case True
      then show ?thesis using w Inr Some
        by (intro gate_hands_over[of _ als "s\<lparr>as_world := w\<rparr>"]) (simp_all add: e bindH_def useCase_def)
    next
      case False
      then show ?thesis using w by (intro gate_refusal) (simp add: e bindH_def useCase_def)
    qed
  qed
qed

definition same_grant :: "apiKey \<Rightarrow> apiKey \<Rightarrow> bool" where
  "same_grant x y \<longleftrightarrow> k_permissions x = k_permissions y \<and> k_revokedAt x = k_revokedAt y \<and> k_expiresAt x = k_expiresAt y"

lemma touched_row: "rel_option same_grant (apiKeys_findById i (apiKeys_touchLastUsed k n d)) (apiKeys_findById i d)"
proof -
  have refl: "rel_option same_grant z z" for z by (cases z) (simp_all add: same_grant_def)
  show ?thesis
  proof (cases "apiKeys_findById k d")
    case None
    then show ?thesis by (simp add: apiKeys_touchLastUsed_def refl)
  next
    case (Some x)
    let ?y = "as_stored (apiKey_recordLastUsed x n)"
    have k: "ent_id x = k" using Some by (auto simp: apiKeys_findById_def dest: lookup_row_Some)
    have id: "ent_id ?y = k" and same: "same_grant ?y x"
      using k by (simp_all add: apiKey_recordLastUsed_def same_grant_def)
    have "rel_option same_grant (apiKeys_findById i (apiKeys_save (apiKey_recordLastUsed x n) d)) (apiKeys_findById i d)"
    proof (cases "i = k")
      case True
      then have "lookup_row ent_id i (upsert ent_id ?y (db_apiKeys d)) = Some ?y"
        using lookup_upsert_same[of ent_id ?y] id by simp
      then show ?thesis using Some True same by (simp add: apiKeys_findById_def apiKeys_save_def)
    next
      case False
      then show ?thesis using id refl by (simp add: apiKeys_findById_def apiKeys_save_def)
    qed
    then show ?thesis using Some by (auto simp: apiKeys_touchLastUsed_def refl split: option.splits)
  qed
qed

lemma touch_keeps_answers: "answers (snd (touchApiKeyLastUsed k w)) (apiKeyActor i) t = answers w (apiKeyActor i) t"
proof -
  have "apiKey_permissionsFor i n (apiKeys_touchLastUsed k m d) = apiKey_permissionsFor i n d" for n m d
    using touched_row[of i k m d]
    by (cases "apiKeys_findById i d"; cases "apiKeys_findById i (apiKeys_touchLastUsed k m d)")
      (auto simp: apiKey_permissionsFor_def apiKey_isUsable_def same_grant_def)
  then show ?thesis by (simp add: answers_def touch_eval cached_def split: option.split)
qed

lemma resolved_key: "resolveApiKey env token w = (Inr (Some (k, t)), w') \<Longrightarrow>
    \<exists>key \<in> set (db_apiKeys (w_db w)). ent_id key = k \<and> k_tenantId key = t \<and> apiKey_isUsable key (w_now w) \<and>
      digestMatches env token (k_secretHash key)"
  by (auto simp: resolveApiKey_def app_run apiKeys_findByPrefix_def split: option.splits if_splits dest!: find_cong_key)

text \<open>Past the permission, the scope is a tenant's and its actor holds the permission there.\<close>

definition may :: "env \<Rightarrow> authPorts \<Rightarrow> httpRequest \<Rightarrow> world \<Rightarrow> permission \<Rightarrow> tenantId \<Rightarrow> tenantActor \<Rightarrow> bool" where
  "may env ports rq w p t a \<longleftrightarrow> (case a of
     userActor u \<Rightarrow> named env ports rq (w_now w) u (Some t) \<and> (\<exists>m i r. memberships_findByUserAndTenant u t (w_db w) = Some m \<and> m_status m = MActive \<and>
       i \<in> set (m_roleIds m) \<and> roles_findById i (w_db w) = Some r \<and> r_tenantId r = t \<and> p \<in> set (r_permissions r))
   | apiKeyActor k \<Rightarrow> (\<exists>token. readBearer (rq_headers rq) = Inr (Some token) \<and> (\<exists>key \<in> set (db_apiKeys (w_db w)). ent_id key = k \<and> k_tenantId key = t \<and>
       apiKey_isUsable key (w_now w) \<and> digestMatches env token (k_secretHash key))) \<and>
       p \<in> set (answers w (apiKeyActor k) t))"

definition principalOf :: "tenantId \<Rightarrow> tenantActor \<Rightarrow> authPrincipal" where
  "principalOf t a = (case a of userActor u \<Rightarrow> UserPrincipal u (Some t) | apiKeyActor k \<Rightarrow> ApiKeyPrincipal k t)"

lemma scope_may:
  assumes "reachable env w" "inj (genId env)" "\<forall>m \<in> set (db_memberships (w_db w)). CHR '':'' \<notin> set (m_tenantId m)"
    "speaks_for env ports rq w als s" "requireScope als = Inr sc" "p \<in> set (answers (as_world s) (ts_actor sc) (ts_tenantId sc))"
  shows "als = in_scope (ts_tenantId sc) (ts_actor sc) \<and> may env ports rq w p (ts_tenantId sc) (ts_actor sc) \<and>
    as_principal s = Some (principalOf (ts_tenantId sc) (ts_actor sc))"
proof -
  obtain store where als: "als = Some store" using assms(5) by (cases als) (auto simp: requireScope_def)
  have sc: "tas_scope store = Some sc" "\<not> tas_skip store"
    using assms(4,5) by (auto simp: als speaks_for_def requireScope_def split: option.splits if_splits)
  have als': "als = in_scope (ts_tenantId sc) (ts_actor sc)" using als sc by (cases store; cases sc) simp
  show ?thesis
  proof (cases "ts_actor sc")
    case (userActor u)
    then obtain m where m: "memberships_findByUserAndTenant u (ts_tenantId sc) (w_db w) = Some m" "as_world s = w"
      "as_principal s = Some (UserPrincipal u (Some (ts_tenantId sc)))" "named env ports rq (w_now w) u (Some (ts_tenantId sc))"
      using assms(4) als sc by (auto simp: speaks_for_def)
    then have "CHR '':'' \<notin> set (ts_tenantId sc)"
      using assms(3) by (auto simp: memberships_findByUserAndTenant_def dest!: find_cong_key)
    then have "p \<in> set (resolvePermissions u (ts_tenantId sc) (w_db w))"
      using assms(6) m(2) userActor reachable_answers[OF assms(1,2)] by simp
    then show ?thesis using als' m userActor by (simp add: resolvePermissions_set may_def principalOf_def)
  next
    case (apiKeyActor k)
    then have k: "as_world s = snd (touchApiKeyLastUsed k w)" "as_principal s = Some (ApiKeyPrincipal k (ts_tenantId sc))"
      "keyed env rq w k (ts_tenantId sc)"
      using assms(4) als sc by (auto simp: speaks_for_def)
    then have "p \<in> set (answers w (apiKeyActor k) (ts_tenantId sc))" using assms(6) apiKeyActor touch_keeps_answers by simp
    then show ?thesis using als' k apiKeyActor by (auto simp: may_def principalOf_def keyed_def dest!: resolved_key)
  qed
qed

lemma guarded_gate:
  assumes "reachable env (as_world s)" "inj (genId env)"
    "\<forall>m \<in> set (db_memberships (w_db (as_world s))). CHR '':'' \<notin> set (m_tenantId m)"
    "\<not> rt_public rt" "rt_permission rt = Some p"
  shows "gate (\<lambda>h. rateLimit_intercept (api_redis ports) (rt_rateLimit rt) rq (
     authPrincipal_intercept env (api_auth ports) (rt_public rt) (rt_tenantOptional rt) rq (
     requirePermission_intercept (rt_public rt) (rt_permission rt) h))) None s
    (\<lambda>als' s'. \<exists>t a. als' = in_scope t a \<and> may env (api_auth ports) rq (as_world s) p t a \<and> as_principal s' = Some (principalOf t a) \<and>
      as_idempotency s' = as_idempotency s)"
proof -
  let ?P = "\<lambda>als s'. speaks_for env (api_auth ports) rq (as_world s) als s' \<and> as_idempotency s' = as_idempotency s"
  have inner: "gate (\<lambda>h. authPrincipal_intercept env (api_auth ports) (rt_public rt) (rt_tenantOptional rt) rq
      (requirePermission_intercept (rt_public rt) (rt_permission rt) h)) None s1
    (\<lambda>als' s'. \<exists>t a. als' = in_scope t a \<and> may env (api_auth ports) rq (as_world s) p t a \<and> as_principal s' = Some (principalOf t a) \<and>
      as_idempotency s' = as_idempotency s)" if s1: "as_world s1 = as_world s" "as_idempotency s1 = as_idempotency s" for s1
  proof (rule gate_comp[OF principal_gate[OF assms(4), of env "api_auth ports" _ rq s1, unfolded s1]])
    fix als' s' assume p: "?P als' s'"
    show "gate (requirePermission_intercept (rt_public rt) (rt_permission rt)) als' s'
      (\<lambda>als' s'. \<exists>t a. als' = in_scope t a \<and> may env (api_auth ports) rq (as_world s) p t a \<and> as_principal s' = Some (principalOf t a) \<and>
        as_idempotency s' = as_idempotency s)"
      unfolding assms(5)
    proof (rule gate_weaken[OF permission_gate[OF assms(4)]], elim conjE exE)
      fix als2 s2 sc q
      assume q: "als2 = als'" "as_idempotency s2 = as_idempotency s'" "as_principal s2 = as_principal s'" "requireScope als' = Inr sc"
        "permission_parse p = Some q" "q \<in> set (answers (as_world s') (ts_actor sc) (ts_tenantId sc))"
      then have "p = q" by (simp add: permission_parse_def Let_def split: if_splits)
      with q show "\<exists>t a. als2 = in_scope t a \<and> may env (api_auth ports) rq (as_world s) p t a \<and> as_principal s2 = Some (principalOf t a) \<and>
          as_idempotency s2 = as_idempotency s"
        using scope_may[OF assms(1-3) conjunct1[OF p] q(4)] p by metis
    qed
  qed
  show ?thesis
  proof (rule gate_comp[OF rateLimit_gate])
    fix als' :: "tenantAlsStore option" and s1 :: apiState assume "als' = None \<and> as_world s1 = as_world s \<and> as_idempotency s1 = as_idempotency s"
    then show "gate (\<lambda>h. authPrincipal_intercept env (api_auth ports) (rt_public rt) (rt_tenantOptional rt) rq
        (requirePermission_intercept (rt_public rt) (rt_permission rt) h)) als' s1
      (\<lambda>als' s'. \<exists>t a. als' = in_scope t a \<and> may env (api_auth ports) rq (as_world s) p t a \<and> as_principal s' = Some (principalOf t a) \<and>
        as_idempotency s' = as_idempotency s)"
      using inner by simp
  qed
qed

text \<open>A development server, a route of the members list and a request of the owner of the demo tenant.\<close>

definition devPorts :: authPorts where
  "devPorts = \<lparr>ap_jwtVerify = (\<lambda>_ _. None), ap_jwtSign = (\<lambda>_ _. []), ap_ttlSeconds = 900, ap_cookiePath = ''/'', ap_cookieSecure = False,
     ap_development = True\<rparr>"

definition devApi :: apiPorts where
  "devApi = \<lparr>api_redis = \<lparr>rp_expired = (\<lambda>n e. e \<le> n), rp_ttl = (\<lambda>d. d div 1000), rp_down = None\<rparr>, api_auth = devPorts,
     api_idem = \<lparr>ip_sha256 = (\<lambda>s. s), ip_stringify = (\<lambda>_. []), ip_jsonParse = JStr, ip_jsonb = (\<lambda>v. v), ip_insertThrows = (\<lambda>_ _ _. None)\<rparr>,
     api_numberToString = (\<lambda>_. []), api_messageOf = (\<lambda>_. []), api_randomId = (\<lambda>_. [])\<rparr>"

definition membersRoute :: route where
  "membersRoute = \<lparr>rt_method = ''GET'', rt_path = ''/members'', rt_public = False, rt_tenantOptional = False,
     rt_permission = Some ''tenancy.members.read'', rt_idempotent = None, rt_rateLimit = None, rt_httpCode = None\<rparr>"

definition devRequest :: httpRequest where
  "devRequest = \<lparr>rq_method = Some ''GET'', rq_url = Some ''/members'', rq_originalUrl = None,
     rq_headers = [(''x-user-id'', JStr (sequentialId 0)), (''x-tenant-id'', JStr (sequentialId 1))],
     rq_ip = JUndefined, rq_remoteAddress = JUndefined, rq_routePath = JUndefined, rq_body = JUndefined, rq_params = JObj [], rq_cookies = None\<rparr>"

definition idleApi :: "world \<Rightarrow> apiState" where
  "idleApi w = \<lparr>as_world = w, as_idempotency = [], as_status = 200, as_windows = [], as_context = None, as_principal = None, as_cookies = [], as_log = []\<rparr>"

text \<open>C4: No handler of a route with a permission runs without it. On such a route the chain of interceptors either answers with
  a failure that does not depend on the handler, or runs the handler (behind the idempotency interceptor) in the scope of
  one tenant with the bound principal as its actor: a user with an active membership there and a role of that tenant that
  grants the permission, or a stored API key of that tenant, not revoked and not expired, whose permissions, of the last
  sixty seconds at most, have it.\<close>

theorem handler_needs_permission:
  assumes "reachable env (as_world s)" "inj (genId env)"
    "\<forall>m \<in> set (db_memberships (w_db (as_world s))). CHR '':'' \<notin> set (m_tenantId m)"
    "\<not> rt_public rt" "rt_permission rt = Some p"
  shows "(\<exists>f s'. \<forall>handler. guarded env ports rt rq handler None s = (Inl f, s')) \<or>
    (\<exists>t a s'. may env (api_auth ports) rq (as_world s) p t a \<and> as_principal s' = Some (principalOf t a) \<and> as_idempotency s' = as_idempotency s \<and>
      (\<forall>handler. guarded env ports rt rq handler None s =
        idempotency_intercept (api_idem ports) (api_randomId ports 1) (api_randomId ports 2) (rt_idempotent rt) (rt_httpCode rt) rq
          handler (in_scope t a) s'))"
  using guarded_gate[OF assms, of ports rq] unfolding gate_def guarded_def by blast

lemma handler_needs_permission_witness:
  "\<exists>t a s'. may testEnv devPorts devRequest demoTenant ''tenancy.members.read'' t a \<and> as_principal s' = Some (principalOf t a) \<and>
    (\<forall>handler. guarded testEnv devApi membersRoute devRequest handler None (idleApi demoTenant) =
      idempotency_intercept (api_idem devApi) [] [] None None devRequest handler (in_scope t a) s')"
proof -
  let ?r = "\<lambda>h. guarded testEnv devApi membersRoute devRequest h None (idleApi demoTenant)"
  have "case fst (?r (\<lambda>als s. (Inr JNull, s))) of Inl _ \<Rightarrow> False | Inr _ \<Rightarrow> True" by code_simp
  then have runs: "\<not> (\<exists>f s'. \<forall>h. ?r h = (Inl f, s'))" by (metis fst_conv sum.simps(5))
  have colons: "\<forall>m \<in> set (db_memberships (w_db (as_world (idleApi demoTenant)))). CHR '':'' \<notin> set (m_tenantId m)" by code_simp
  have fields: "as_world (idleApi w) = w" "\<not> rt_public membersRoute" "rt_permission membersRoute = Some ''tenancy.members.read''"
    "rt_idempotent membersRoute = None" "rt_httpCode membersRoute = None" "api_randomId devApi n = []" "api_auth devApi = devPorts" for w n
    by (simp_all add: idleApi_def membersRoute_def devApi_def)
  have "reachable testEnv (as_world (idleApi demoTenant))" using demo_reachable(2) by (simp add: fields)
  from handler_needs_permission[OF this testEnv_inj colons fields(2,3), of devApi devRequest] runs show ?thesis
    unfolding fields by blast
qed

end
