(* ===== verification/HttpResponses.thy ===== *)
theory HttpResponses
  imports HttpEdge
begin

text \<open>
  What the HTTP edge answers: the exception filter with the kit's status table, and the rate limiter over
  Redis against the one in memory.
\<close>

section \<open>The exception filter\<close>

lemma table_below_500: "map_of codedErrorHttpStatuses c = Some st \<Longrightarrow> st < 500"
proof -
  have "\<forall>(c, st) \<in> set codedErrorHttpStatuses. st < 500" by (simp add: codedErrorHttpStatuses_def)
  then show "map_of codedErrorHttpStatuses c = Some st \<Longrightarrow> st < 500" by (auto dest: map_of_SomeD)
qed

lemma table_rate_limit: "map_of codedErrorHttpStatuses ''RATE_LIMIT_EXCEEDED'' = Some 429"
  by code_simp

lemma error_codes_own: "error_code e = Some c \<Longrightarrow> c \<notin> set objectPrototype"
  by (cases e) (auto simp: objectPrototype_def)

lemma positive_num: "isFinite (num n) \<and> \<not> num_le (num n) (num 0) \<longleftrightarrow> 0 < n"
  by (simp add: isFinite_def num_def not_le)

lemma app_error_object:
  "isCodedError (failureObject messageOf (AppFailure e)) = (case error_code e of None \<Rightarrow> None | Some c \<Rightarrow> Some (c, messageOf e))"
  "error_code e \<noteq> None \<Longrightarrow> readRetryAfterSeconds (failureObject messageOf (AppFailure e)) =
     (case e of RateLimitExceededError n \<Rightarrow> if 0 < n then Some (num n) else None | _ \<Rightarrow> None)"
  using positive_num
  by (auto simp: isCodedError_def failureObject_def obj_get_def readRetryAfterSeconds_def num_def isFinite_def split: option.split error.split)

text \<open>What a client is told of an application error.\<close>

definition errorAnswer :: "(number \<Rightarrow> string) \<Rightarrow> (error \<Rightarrow> string) \<Rightarrow> error \<Rightarrow> httpResponse" where
  "errorAnswer numberToString messageOf e = (case error_code e of
     None \<Rightarrow> \<lparr>hr_status = 500, hr_headers = [], hr_body = errorBody ''INTERNAL_ERROR'' ''Internal server error''\<rparr>
   | Some c \<Rightarrow> (let status = (case map_of codedErrorHttpStatuses c of Some st \<Rightarrow> st | None \<Rightarrow> 409);
       plain = \<lparr>hr_status = status, hr_headers = [], hr_body = errorBody c (messageOf e)\<rparr> in
       case e of
         RateLimitExceededError n \<Rightarrow>
           if 0 < n then \<lparr>hr_status = 429, hr_headers = [(''Retry-After'', numberToString (num n))],
             hr_body = JObj [(''code'', JStr c), (''message'', JStr (messageOf e)), (''details'', JObj [(''retryAfterSeconds'', JNum (num n))])]\<rparr>
           else plain
       | _ \<Rightarrow> plain))"

lemma filter_app_error:
  "fst (apiExceptionFilter_catch codedErrorHttpStatuses numberToString messageOf (AppFailure e) s) = Some (errorAnswer numberToString messageOf e)"
proof (cases "error_code e")
  case None
  then show ?thesis by (simp add: apiExceptionFilter_catch_def app_error_object errorAnswer_def)
next
  case (Some c)
  let ?exc = "failureObject messageOf (AppFailure e)"
  have c: "c \<notin> set objectPrototype" using error_codes_own[OF Some] .
  have f: "apiExceptionFilter_catch codedErrorHttpStatuses numberToString messageOf (AppFailure e) s =
      respondCodedError codedErrorHttpStatuses numberToString ?exc c (messageOf e) s"
    using Some by (simp add: apiExceptionFilter_catch_def app_error_object)
  have r: "readRetryAfterSeconds ?exc = (case e of RateLimitExceededError n \<Rightarrow> if 0 < n then Some (num n) else None | _ \<Rightarrow> None)"
    using Some by (simp add: app_error_object)
  show ?thesis
  proof (cases "\<exists>n. e = RateLimitExceededError n")
    case True
    then obtain n where n: "e = RateLimitExceededError n" by blast
    then have "c = ''RATE_LIMIT_EXCEEDED''" using Some by simp
    then have "map_of codedErrorHttpStatuses c = Some 429" by (simp add: table_rate_limit)
    then show ?thesis using f r n Some by (simp add: respondCodedError_def errorAnswer_def Let_def)
  next
    case False
    then have "readRetryAfterSeconds ?exc = None" using r by (simp split: error.splits)
    moreover have "errorAnswer numberToString messageOf e = \<lparr>hr_status = (case map_of codedErrorHttpStatuses c of Some st \<Rightarrow> st | None \<Rightarrow> 409),
        hr_headers = [], hr_body = errorBody c (messageOf e)\<rparr>"
      using False Some by (simp add: errorAnswer_def Let_def split: error.split)
    ultimately show ?thesis using f c by (simp add: respondCodedError_def Let_def split: option.split)
  qed
qed

lemma coded_below_500:
  "respondCodedError codedErrorHttpStatuses numberToString exc c m s = (Some r, s') \<Longrightarrow> hr_status r < 500"
  by (auto simp: respondCodedError_def Let_def dest: table_below_500 split: option.splits if_splits)

lemma server_error_is_generic:
  assumes "apiExceptionFilter_catch codedErrorHttpStatuses numberToString messageOf f s = (Some r, s')" "500 \<le> hr_status r"
  shows "hr_headers r = [] \<and> hr_body r \<in> {errorBody ''INTERNAL_ERROR'' ''Internal server error'', errorBody ''HTTP_ERROR'' ''Internal server error''}
    \<and> (\<exists>m. s' = logH ''error'' m s)"
proof (cases f)
  case (HttpFailure st body m)
  then show ?thesis using assms
    by (auto simp: apiExceptionFilter_catch_def respondHttpException_def httpExceptionCode_def split: if_splits)
next
  case (AppFailure e)
  then show ?thesis using assms
    by (auto simp: apiExceptionFilter_catch_def Let_def dest: coded_below_500 split: option.splits)
next
  case (OtherFailure v)
  then show ?thesis using assms
    by (auto simp: apiExceptionFilter_catch_def Let_def dest: coded_below_500 split: option.splits)
qed (use assms in \<open>auto simp: apiExceptionFilter_catch_def\<close>)

text \<open>C28: Every error is answered by its code, and a server error says nothing about itself. An application error is
  answered by the status of its code in the kit's table, 409 when the table has none, with its code and message, a rate
  limit with the seconds to wait as header and detail, and an error without a code by a plain 500. Whatever was thrown,
  an answer of status 500 or more holds only a generic code and the message 'Internal server error', and is
  logged as an error.\<close>

theorem errors_answered_by_code:
  "fst (apiExceptionFilter_catch codedErrorHttpStatuses numberToString messageOf (AppFailure e) s) = Some (errorAnswer numberToString messageOf e)
   \<and> (\<forall>r s'. apiExceptionFilter_catch codedErrorHttpStatuses numberToString messageOf f s = (Some r, s') \<longrightarrow> 500 \<le> hr_status r \<longrightarrow>
       hr_headers r = [] \<and>
       hr_body r \<in> {errorBody ''INTERNAL_ERROR'' ''Internal server error'', errorBody ''HTTP_ERROR'' ''Internal server error''} \<and>
       (\<exists>m. s' = logH ''error'' m s))"
  using filter_app_error server_error_is_generic by blast

definition quietApi :: apiState where
  "quietApi = \<lparr>as_world = \<lparr>w_db = empty_db, w_cache = [], w_ids = 0, w_salt = 0, w_mails = [], w_now = 0\<rparr>,
     as_idempotency = [], as_status = 200, as_windows = [], as_context = None, as_principal = None, as_cookies = [], as_log = []\<rparr>"

lemma errors_answered_by_code_witness:
  "\<exists>r s'. apiExceptionFilter_catch codedErrorHttpStatuses (\<lambda>_. ''1'') (\<lambda>_. ''no'') (HttpFailure 503 (JStr ''db at 10.0.0.1'') ''down'') quietApi = (Some r, s')
     \<and> hr_status r = 503 \<and> hr_body r = errorBody ''HTTP_ERROR'' ''Internal server error'' \<and> (\<exists>m. s' = logH ''error'' m quietApi)
     \<and> fst (apiExceptionFilter_catch codedErrorHttpStatuses (\<lambda>_. ''1'') (\<lambda>_. ''no'') (AppFailure LastOwnerRequiredError) quietApi)
       = Some \<lparr>hr_status = 409, hr_headers = [], hr_body = errorBody ''LAST_OWNER_REQUIRED'' ''no''\<rparr>"
proof -
  let ?c = "apiExceptionFilter_catch codedErrorHttpStatuses (\<lambda>_. ''1'') (\<lambda>_. ''no'') (HttpFailure 503 (JStr ''db at 10.0.0.1'') ''down'') quietApi"
  obtain r s' where r: "?c = (Some r, s')" "hr_status r = 503" "hr_body r = errorBody ''HTTP_ERROR'' ''Internal server error''"
    by (simp add: apiExceptionFilter_catch_def respondHttpException_def httpExceptionCode_def)
  have e: "errorAnswer (\<lambda>_. ''1'') (\<lambda>_. ''no'') LastOwnerRequiredError = \<lparr>hr_status = 409, hr_headers = [], hr_body = errorBody ''LAST_OWNER_REQUIRED'' ''no''\<rparr>"
    by (simp add: errorAnswer_def codedErrorHttpStatuses_def)
  have "500 \<le> hr_status r" using r(2) by simp
  with errors_answered_by_code[of "\<lambda>_. ''1''" "\<lambda>_. ''no''" LastOwnerRequiredError quietApi "HttpFailure 503 (JStr ''db at 10.0.0.1'') ''down''"] r e
  show ?thesis by metis
qed

section \<open>The rate limit\<close>

definition clocked :: "redisPorts \<Rightarrow> bool" where
  "clocked ports \<longleftrightarrow> rp_down ports = None \<and> (\<forall>now e. rp_expired ports now e \<longleftrightarrow> e \<le> now)"

text \<open>Requests of one key at the given times.\<close>

fun consume_at :: "redisPorts \<Rightarrow> string \<Rightarrow> rateLimitOptions \<Rightarrow> millis list \<Rightarrow> (string \<times> (nat \<times> millis)) list \<Rightarrow> (failure + rateLimitDecision) list" where
  "consume_at ports key options [] ws = []"
| "consume_at ports key options (n # ns) ws =
     (case redisLimiter_consume ports n key options ws of (d, ws') \<Rightarrow> d # consume_at ports key options ns ws')"

lemma decision_eq: "toRateLimitDecision count ttl limit w = \<lparr>rd_allowed = (count \<le> limit), rd_remaining = limit - count,
    rd_retryAfterSeconds = (if count \<le> limit then 0 else max 1 (if 0 < ttl then ttl else int w))\<rparr>"
  by (simp add: toRateLimitDecision_def Let_def)

lemma consume_running:
  assumes "clocked ports" "map_of ws key = Some (c, e)" "n < e" "0 < c"
  shows "redisLimiter_consume ports n key options ws =
    (Inr (toRateLimitDecision (Suc c) (rp_ttl ports (e - n)) (rl_limit options) (rl_windowSeconds options)), upsert fst (key, (Suc c, e)) ws)"
  using assms by (simp add: redisLimiter_consume_def clocked_def Let_def)

lemma consume_fresh:
  assumes "clocked ports" "case map_of ws key of None \<Rightarrow> True | Some (_, e) \<Rightarrow> e \<le> n"
  shows "redisLimiter_consume ports n key options ws =
    (let e = n + int (rl_windowSeconds options) * 1000 in
     (Inr (toRateLimitDecision 1 (rp_ttl ports (e - n)) (rl_limit options) (rl_windowSeconds options)), upsert fst (key, (1, e)) ws))"
  using assms by (auto simp: redisLimiter_consume_def clocked_def Let_def split: option.splits)

text \<open>The decision for the request that is number \<open>i\<close> of its window, from 0.\<close>

definition in_window :: "rateLimitOptions \<Rightarrow> nat \<Rightarrow> failure + rateLimitDecision \<Rightarrow> bool" where
  "in_window options i r \<longleftrightarrow> (case r of Inl _ \<Rightarrow> False | Inr d \<Rightarrow>
     rd_allowed d = (i < rl_limit options) \<and> rd_remaining d = rl_limit options - Suc i \<and>
     (if i < rl_limit options then rd_retryAfterSeconds d = 0 else 1 \<le> rd_retryAfterSeconds d))"

lemma decision_in_window: "in_window options i (Inr (toRateLimitDecision (Suc i) ttl (rl_limit options) (rl_windowSeconds options)))"
  by (auto simp: in_window_def decision_eq)

lemma running_window:
  assumes "clocked ports" "map_of ws key = Some (c, e)" "0 < c" "\<forall>n \<in> set ns. n < e"
  shows "list_all2 (in_window options) [c..<c + length ns] (consume_at ports key options ns ws)"
  using assms(2-4)
proof (induction ns arbitrary: c ws)
  case (Cons n ns)
  then have eval: "consume_at ports key options (n # ns) ws =
      Inr (toRateLimitDecision (Suc c) (rp_ttl ports (e - n)) (rl_limit options) (rl_windowSeconds options))
        # consume_at ports key options ns (upsert fst (key, (Suc c, e)) ws)"
    using consume_running[OF assms(1)] by simp
  have "list_all2 (in_window options) [Suc c..<Suc c + length ns] (consume_at ports key options ns (upsert fst (key, (Suc c, e)) ws))"
    by (rule Cons.IH) (use Cons.prems in \<open>simp_all add: map_of_upsert\<close>)
  moreover have "[c..<c + length (n # ns)] = c # [Suc c..<Suc c + length ns]" using upt_conv_Cons[of c "c + length (n # ns)"] by simp
  ultimately show ?case unfolding eval by (simp add: decision_in_window)
qed simp

text \<open>C29: A rate limit lets exactly its number of requests through. From the first request of a window on, the requests that
  come before the window ends are counted from one: the first \<open>limit\<close> of them are allowed, with the remaining number
  going down to zero, and every later one is denied with at least one second to wait.\<close>

theorem rate_limit_exact:
  assumes "clocked ports" "case map_of ws key of None \<Rightarrow> True | Some (_, e) \<Rightarrow> e \<le> n"
    "\<forall>m \<in> set ns. m < n + int (rl_windowSeconds options) * 1000"
  shows "list_all2 (in_window options) [0..<Suc (length ns)] (consume_at ports key options (n # ns) ws)"
proof -
  let ?e = "n + int (rl_windowSeconds options) * 1000"
  have "list_all2 (in_window options) [1..<1 + length ns] (consume_at ports key options ns (upsert fst (key, (1, ?e)) ws))"
    by (rule running_window[OF assms(1), where e = ?e]) (use assms(3) in \<open>simp_all add: map_of_upsert\<close>)
  then show ?thesis
    using decision_in_window[of options 0] consume_fresh[OF assms(1,2), of options]
    by (simp add: Let_def upt_conv_Cons del: upt_Suc)
qed

lemma rate_limit_exact_witness:
  "list_all2 (in_window \<lparr>rl_bucket = ''login'', rl_limit = 2, rl_windowSeconds = 60\<rparr>) [0..<4]
    (consume_at \<lparr>rp_expired = (\<lambda>n e. e \<le> n), rp_ttl = (\<lambda>d. (d + 500) div 1000), rp_down = None\<rparr> ''k''
      \<lparr>rl_bucket = ''login'', rl_limit = 2, rl_windowSeconds = 60\<rparr> [0, 10, 20000, 59999] [])"
  using rate_limit_exact[where ports = "\<lparr>rp_expired = (\<lambda>n e. e \<le> n), rp_ttl = (\<lambda>d. (d + 500) div 1000), rp_down = None\<rparr>" and ws = "[]" and key = "''k''" and n = 0 and
      ns = "[10, 20000, 59999]" and options = "\<lparr>rl_bucket = ''login'', rl_limit = 2, rl_windowSeconds = 60\<rparr>"]
  by (simp add: clocked_def eval_nat_numeral)

text \<open>The limiter over Redis decides as the one in memory: from the same windows, whose counts are positive, both
  allow the same requests with the same number remaining, keep the same windows for the next request, and when they deny both
  ask for at least a second.\<close>

theorem limiters_agree:
  assumes "clocked ports" "\<forall>(k, c, e) \<in> set ws. 0 < c"
  shows "\<exists>d. redisLimiter_consume ports now key options ws = (Inr d, snd (memoryLimiter_consume now key options ws)) \<and>
    (let m = fst (memoryLimiter_consume now key options ws) in
     rd_allowed d = rd_allowed m \<and> rd_remaining d = rd_remaining m \<and>
     (if rd_allowed d then rd_retryAfterSeconds d = 0 \<and> rd_retryAfterSeconds m = 0
      else 1 \<le> rd_retryAfterSeconds d \<and> 1 \<le> rd_retryAfterSeconds m)) \<and>
    (\<forall>(k, c, e) \<in> set (snd (memoryLimiter_consume now key options ws)). 0 < c)"
proof -
  have kept: "\<forall>(k, c, e) \<in> set (upsert fst (key, (c', e')) ws). 0 < c" if "0 < c'" for c' :: nat and e' :: int
    using assms(2) that upsert_subset[of fst "(key, c', e')" ws] by fastforce
  show ?thesis
  proof (cases "case map_of ws key of None \<Rightarrow> True | Some (_, e) \<Rightarrow> e \<le> now")
    case True
    then show ?thesis using consume_fresh[OF assms(1) True, of options] kept[of 1]
      by (auto simp: memoryLimiter_consume_def Let_def decision_eq split: option.splits)
  next
    case False
    then obtain c e where w: "map_of ws key = Some (c, e)" "now < e" by (auto split: option.splits)
    then have "0 < c" using assms(2) by (auto dest!: map_of_SomeD)
    then show ?thesis using consume_running[OF assms(1) w \<open>0 < c\<close>, of options] w kept[of "Suc c"]
      by (auto simp: memoryLimiter_consume_def Let_def decision_eq)
  qed
qed

lemma limiters_agree_witness:
  "\<exists>d. redisLimiter_consume \<lparr>rp_expired = (\<lambda>n e. e \<le> n), rp_ttl = (\<lambda>d. (d + 500) div 1000), rp_down = None\<rparr> 1000 ''k''
      \<lparr>rl_bucket = ''login'', rl_limit = 2, rl_windowSeconds = 60\<rparr> [(''k'', 2, 3000)] = (Inr d, [(''k'', 3, 3000)]) \<and> \<not> rd_allowed d"
  using limiters_agree[where ports = "\<lparr>rp_expired = (\<lambda>n e. e \<le> n), rp_ttl = (\<lambda>d. (d + 500) div 1000), rp_down = None\<rparr>" and ws = "[(''k'', 2, 3000)]" and now = 1000 and key = "''k''" and
      options = "\<lparr>rl_bucket = ''login'', rl_limit = 2, rl_windowSeconds = 60\<rparr>"]
  by (auto simp: clocked_def memoryLimiter_consume_def Let_def decision_eq)

end
