(* ===== verification/IdempotencyGuarantees.thy ===== *)
theory IdempotencyGuarantees
  imports Idempotency
begin

text \<open>
  What an idempotency key guarantees: a completed key replays its response and never runs the handler again,
  whatever was requested in between, and a request that fails leaves neither its rows nor its claim.
\<close>

section \<open>The key table\<close>

definition key_of :: "idempotencyKey \<Rightarrow> string \<times> string \<times> string" where
  "key_of r = (ik_scope r, ik_endpoint r, ik_key r)"

definition keys_ok :: "idempotencyKey list \<Rightarrow> bool" where
  "keys_ok rows \<longleftrightarrow> distinct (map key_of rows) \<and> distinct (map ik_id rows)"

definition is_completed :: "idempotencyKey \<Rightarrow> bool" where
  "is_completed r \<longleftrightarrow> ik_status r \<noteq> ''processing'' \<and> ik_responseStatus r \<noteq> None"

lemma idem_find_key: "idem_find sc ep k rows = find (\<lambda>r. key_of r = (sc, ep, k)) rows"
  by (simp add: idem_find_def key_of_def)

lemma idem_find_Some: "idem_find sc ep k rows = Some r \<Longrightarrow> r \<in> set rows \<and> key_of r = (sc, ep, k)"
  unfolding idem_find_key by (auto dest: find_cong_key)

lemma claimRow_fields [simp]:
  "ik_id (claimRow i now input) = i" "ik_scope (claimRow i now input) = ci_scope input"
  "ik_endpoint (claimRow i now input) = ci_endpoint input" "ik_key (claimRow i now input) = ci_key input"
  "ik_fingerprint (claimRow i now input) = ci_fingerprint input"
  by (simp_all add: claimRow_def)

lemma claim_new:
  assumes "ip_insertThrows ports (ci_scope input) (ci_endpoint input) (ci_key input) = None"
    "idem_find (ci_scope input) (ci_endpoint input) (ci_key input) rows = None"
  shows "idem_claim ports i now (Some tx) input rows = (Inr Acquired, rows @ [claimRow i now input])"
  using assms by (simp add: idem_claim_def requireAmbientManager_def claim_insert_def)

lemma claim_seen:
  assumes "ip_insertThrows ports (ci_scope input) (ci_endpoint input) (ci_key input) = None"
    "idem_find (ci_scope input) (ci_endpoint input) (ci_key input) rows = Some r"
  shows "idem_claim ports i now (Some tx) input rows = (Inr (existingClaim input rows), rows)"
  using assms by (simp add: idem_claim_def requireAmbientManager_def claim_insert_def)

lemma claim_cases:
  assumes "idem_claim ports i now (Some tx) input rows = (res, rows')"
  shows "rows' = rows \<and> res \<noteq> Inr Acquired
    \<or> rows' = rows @ [claimRow i now input] \<and> res = Inr Acquired
      \<and> idem_find (ci_scope input) (ci_endpoint input) (ci_key input) rows = None"
proof (cases "ip_insertThrows ports (ci_scope input) (ci_endpoint input) (ci_key input)")
  case None
  show ?thesis
  proof (cases "idem_find (ci_scope input) (ci_endpoint input) (ci_key input) rows")
    case None
    then show ?thesis using claim_new[OF \<open>ip_insertThrows _ _ _ _ = None\<close>] assms by simp
  next
    case (Some r)
    have "existingClaim input rows \<noteq> Acquired" using Some by (simp add: existingClaim_def split: option.splits)
    then show ?thesis using claim_seen[OF None Some] assms by auto
  qed
next
  case (Some e)
  then show ?thesis using assms by (auto simp: idem_claim_def requireAmbientManager_def split: if_splits)
qed

lemma keys_ok_claim:
  assumes "keys_ok rows" "i \<notin> ik_id ` set rows" "idem_find (ci_scope input) (ci_endpoint input) (ci_key input) rows = None"
  shows "keys_ok (rows @ [claimRow i now input])"
proof -
  have "key_of (claimRow i now input) \<notin> key_of ` set rows"
    using assms(3) by (auto simp: idem_find_key find_None_iff key_of_def)
  then show ?thesis using assms(1,2) by (simp add: keys_ok_def)
qed

text \<open>Completing a key changes its own row only.\<close>

lemma upsert_in_place:
  assumes "distinct (map ik_id rows)" "r \<in> set rows" "ik_id r' = ik_id r" "key_of r' = key_of r"
  shows "map key_of (upsert ik_id r' rows) = map key_of rows" "map ik_id (upsert ik_id r' rows) = map ik_id rows"
  using assms by (induction rows) (auto simp: image_iff split: if_splits)

lemma find_in_place:
  assumes "distinct (map ik_id rows)" "r \<in> set rows" "ik_id r' = ik_id r" "P r = P r'"
  shows "find P (upsert ik_id r' rows) = map_option (\<lambda>x. if x = r then r' else x) (find P rows)"
  using assms
proof (induction rows)
  case (Cons x rows)
  show ?case
  proof (cases "x = r")
    case True
    have "(if y = r then r' else y) = y" if "find P rows = Some y" for y
      using find_cong_key[OF that] Cons.prems(1) True by auto
    then have "map_option (\<lambda>y. if y = r then r' else y) (find P rows) = find P rows"
      by (cases "find P rows") auto
    then show ?thesis using True Cons.prems by simp
  next
    case False
    then have "ik_id x \<noteq> ik_id r'" using Cons.prems by auto
    then show ?thesis using False Cons by simp
  qed
qed simp

lemma complete_cases:
  assumes "idem_complete ports now (Some tx) sc ep k st body rows = (Inr (), rows')" "keys_ok rows"
  shows "\<exists>r r'. idem_find sc ep k rows = Some r \<and> idem_find sc ep k rows' = Some r' \<and> keys_ok rows'
    \<and> ik_fingerprint r' = ik_fingerprint r \<and> ik_status r' = ''completed'' \<and> ik_responseStatus r' = Some st
    \<and> ik_responseBody r' = ip_jsonb ports (if isNil body then JNull else body)
    \<and> (\<forall>t. t \<noteq> (sc, ep, k) \<longrightarrow> find (\<lambda>x. key_of x = t) rows' = find (\<lambda>x. key_of x = t) rows)
    \<and> ik_id ` set rows' = ik_id ` set rows"
proof -
  obtain r where r: "idem_find sc ep k rows = Some r"
    using assms(1) by (auto simp: idem_complete_def requireAmbientManager_def split: option.splits)
  define r' where "r' = r\<lparr>ik_status := ''completed'', ik_responseStatus := Some st,
      ik_responseBody := ip_jsonb ports (if isNil body then JNull else body), ik_updatedAt := now\<rparr>"
  have rows': "rows' = upsert ik_id r' rows"
    using assms(1) r by (simp add: idem_complete_def requireAmbientManager_def r'_def)
  have in_rows: "r \<in> set rows" "key_of r = (sc, ep, k)" using idem_find_Some[OF r] by auto
  have same: "ik_id r' = ik_id r" "key_of r' = key_of r" by (simp_all add: r'_def key_of_def)
  have d: "distinct (map ik_id rows)" using assms(2) by (simp add: keys_ok_def)
  note place = upsert_in_place[OF d in_rows(1) same]
  have "idem_find sc ep k rows' = Some r'"
    using find_in_place[OF d in_rows(1) same(1), of "\<lambda>x. key_of x = (sc, ep, k)"] r same(2)
    by (simp add: rows' idem_find_key)
  moreover have "find (\<lambda>x. key_of x = t) rows' = find (\<lambda>x. key_of x = t) rows" if "t \<noteq> (sc, ep, k)" for t
  proof -
    have "find (\<lambda>x. key_of x = t) rows' = map_option (\<lambda>x. if x = r then r' else x) (find (\<lambda>x. key_of x = t) rows)"
      unfolding rows' by (rule find_in_place[OF d in_rows(1) same(1)]) (simp add: same(2))
    also have "\<dots> = find (\<lambda>x. key_of x = t) rows"
      using that in_rows(2) by (cases "find (\<lambda>x. key_of x = t) rows") (auto dest: find_cong_key)
    finally show ?thesis .
  qed
  moreover have "keys_ok rows'" using assms(2) place by (simp add: keys_ok_def rows')
  moreover have "ik_id ` set rows' = ik_id ` set rows" using place(2) by (metis rows' set_map)
  ultimately show ?thesis using r by (auto simp: r'_def)
qed

section \<open>One marked request\<close>

text \<open>A handler that leaves the key table alone, as every controller does.\<close>

definition leaves_keys :: "jsval handler \<Rightarrow> tenantAlsStore option \<Rightarrow> bool" where
  "leaves_keys next als \<longleftrightarrow> (\<forall>s. as_idempotency (snd (next als s)) = as_idempotency s)"

text \<open>The scope, endpoint, key and fingerprint a request stands for.\<close>

definition request_key :: "idempotencyPorts \<Rightarrow> httpRequest \<Rightarrow> requestContext option \<Rightarrow> (string \<times> string \<times> string \<times> string) option" where
  "request_key ports rq context = (case (idempotencyHeader_read (rq_headers rq), idempotency_scope context) of
     (Some key, Inr scope) \<Rightarrow> if idempotencyHeader_isValid key
       then (let meth = (case rq_method rq of Some m \<Rightarrow> m | None \<Rightarrow> ''POST''); path = idempotency_routePath rq in
         Some (scope, meth @ '' '' @ path, key, fingerprint_hash ports meth path (rq_body rq)))
       else None
   | _ \<Rightarrow> None)"

lemma ttl_in_range: "\<exists>e. addUtcHours (Some t) (num IDEMPOTENCY_TTL_HOURS) = Inr e"
proof -
  have h: "hourToSec (num IDEMPOTENCY_TTL_HOURS) = Inr (num 86400)" "secToMs (num 86400) = Inr (num 86400000)"
    by (simp_all add: hourToSec_def secToMs_def assertFinite_def num_scale_def num_def IDEMPOTENCY_TTL_HOURS_def
        SEC_PER_HOUR_def MS_PER_SEC_def to_number_small)
  show ?thesis by (simp add: addUtcHours_def h addUtcMs_def assertValid_def isValid_def assertFinite_def)
qed

lemma marked_route:
  assumes "request_key ports rq (as_context s) = Some (sc, ep, k, fp)"
  shows "\<exists>e. handleMarkedRoute ports tx i code rq next als s = api_uow (claimed_work ports tx i code
    \<lparr>ci_scope = sc, ci_endpoint = ep, ci_key = k, ci_fingerprint = fp, ci_expiresAt = e\<rparr> next als) s"
proof -
  obtain e where "addUtcHours (Some (w_now (as_world s))) (num IDEMPOTENCY_TTL_HOURS) = Inr e" using ttl_in_range by blast
  then show ?thesis using assms
    by (auto simp: request_key_def handleMarkedRoute_def Let_def split: option.splits sum.splits if_splits)
qed

lemma unmarked_route:
  "request_key ports rq (as_context s) = None \<Longrightarrow>
   \<exists>e. handleMarkedRoute ports tx i code rq next als s = (Inl (AppFailure e), s)
     \<and> (e = IdempotencyKeyRequiredError \<or> e = IdempotencyScopeUnavailableError)"
  by (auto simp: request_key_def handleMarkedRoute_def throwH_def idempotency_scope_def Let_def
      split: option.splits sum.splits if_splits list.splits)

text \<open>What a marked request does to the table and the database.\<close>

lemma uow_rolls_back:
  "api_uow m s = (Inl e, s') \<Longrightarrow> as_idempotency s' = as_idempotency s \<and> w_db (as_world s') = w_db (as_world s)"
  by (auto simp: api_uow_def split: prod.splits sum.splits)

lemma claimed_acquired:
  assumes "claimed_work ports tx i code input next als s = (Inr body, s')"
    "ip_insertThrows ports (ci_scope input) (ci_endpoint input) (ci_key input) = None"
    "idem_find (ci_scope input) (ci_endpoint input) (ci_key input) (as_idempotency s) = None"
    "keys_ok (as_idempotency s)" "i \<notin> ik_id ` set (as_idempotency s)" "leaves_keys next als"
  shows "\<exists>r s2. next als (s\<lparr>as_idempotency := as_idempotency s @ [claimRow i (w_now (as_world s)) input]\<rparr>) = (Inr body, s2)
    \<and> idem_find (ci_scope input) (ci_endpoint input) (ci_key input) (as_idempotency s') = Some r
    \<and> ik_fingerprint r = ci_fingerprint input \<and> ik_status r = ''completed''
    \<and> ik_responseStatus r = Some (idempotency_statusCode code (as_status s2))
    \<and> ik_responseBody r = ip_jsonb ports (if isNil body then JNull else body)
    \<and> s' = s2\<lparr>as_idempotency := as_idempotency s'\<rparr> \<and> keys_ok (as_idempotency s')
    \<and> ik_id ` set (as_idempotency s') = insert i (ik_id ` set (as_idempotency s))
    \<and> (\<forall>t. t \<noteq> (ci_scope input, ci_endpoint input, ci_key input) \<longrightarrow>
        find (\<lambda>x. key_of x = t) (as_idempotency s') = find (\<lambda>x. key_of x = t) (as_idempotency s))"
proof -
  let ?now = "w_now (as_world s)" and ?rows = "as_idempotency s @ [claimRow i (w_now (as_world s)) input]"
  have c: "idem_claim ports i ?now (Some tx) input (as_idempotency s) = (Inr Acquired, ?rows)"
    by (rule claim_new[OF assms(2,3)])
  have ok: "keys_ok ?rows" by (rule keys_ok_claim[OF assms(4,5,3)])
  obtain s2 rows' where n: "next als (s\<lparr>as_idempotency := ?rows\<rparr>) = (Inr body, s2)"
    and w: "idem_complete ports (w_now (as_world s2)) (Some tx) (ci_scope input) (ci_endpoint input) (ci_key input)
        (idempotency_statusCode code (as_status s2)) body (as_idempotency s2) = (Inr (), rows')"
    and s': "s' = s2\<lparr>as_idempotency := rows'\<rparr>"
    using assms(1) c by (auto simp: claimed_work_def bindH_def overKeys_def liftH_def split: prod.splits sum.splits)
  have "as_idempotency s2 = ?rows"
    using assms(6) n unfolding leaves_keys_def by (metis (no_types, lifting) apiState.select_convs(2) apiState.surjective apiState.update_convs(2) snd_conv)
  then have w: "idem_complete ports (w_now (as_world s2)) (Some tx) (ci_scope input) (ci_endpoint input) (ci_key input)
        (idempotency_statusCode code (as_status s2)) body ?rows = (Inr (), rows')" using w by simp
  obtain r r' where rr: "idem_find (ci_scope input) (ci_endpoint input) (ci_key input) ?rows = Some r"
    "idem_find (ci_scope input) (ci_endpoint input) (ci_key input) rows' = Some r'" "keys_ok rows'"
    "ik_fingerprint r' = ik_fingerprint r" "ik_status r' = ''completed''"
    "ik_responseStatus r' = Some (idempotency_statusCode code (as_status s2))"
    "ik_responseBody r' = ip_jsonb ports (if isNil body then JNull else body)"
    "\<forall>t. t \<noteq> (ci_scope input, ci_endpoint input, ci_key input) \<longrightarrow> find (\<lambda>x. key_of x = t) rows' = find (\<lambda>x. key_of x = t) ?rows"
    "ik_id ` set rows' = ik_id ` set ?rows"
    using complete_cases[OF w ok] by blast
  have "r = claimRow i ?now input" using rr(1) assms(3) by (simp add: idem_find_key find_append key_of_def split: if_splits)
  moreover have "find (\<lambda>x. key_of x = t) ?rows = find (\<lambda>x. key_of x = t) (as_idempotency s)"
    if "t \<noteq> (ci_scope input, ci_endpoint input, ci_key input)" for t
    using that by (auto simp: find_append key_of_def split: option.splits)
  ultimately show ?thesis using n rr s' by auto
qed

lemma claimed_seen:
  assumes "ip_insertThrows ports (ci_scope input) (ci_endpoint input) (ci_key input) = None"
    "idem_find (ci_scope input) (ci_endpoint input) (ci_key input) (as_idempotency s) = Some r"
  shows "claimed_work ports tx i code input next als s = (case existingClaim input (as_idempotency s) of
      Replay st body \<Rightarrow> (Inr body, s\<lparr>as_status := st\<rparr>)
    | FingerprintMismatch \<Rightarrow> (Inl (AppFailure IdempotencyKeyReusedError), s)
    | _ \<Rightarrow> (Inl (AppFailure IdempotencyInProgressError), s))"
proof -
  have "existingClaim input (as_idempotency s) \<noteq> Acquired"
    using assms(2) by (simp add: existingClaim_def split: option.splits)
  moreover have "overKeys (idem_claim ports i n (Some tx) input) s = (Inr (existingClaim input (as_idempotency s)), s)" for n
    using claim_seen[OF assms] by (simp add: overKeys_def)
  ultimately show ?thesis by (simp add: claimed_work_def bindH_def throwH_def split: idempotencyClaim.splits)
qed

lemma claimed_throws:
  "ip_insertThrows ports (ci_scope input) (ci_endpoint input) (ci_key input) = Some e \<Longrightarrow>
   \<exists>f. claimed_work ports tx i code input next als s = (Inl f, s)"
  by (auto simp: claimed_work_def bindH_def overKeys_def idem_claim_def requireAmbientManager_def throwH_def)

lemma uow_success: "api_uow m s = (Inr x, s') \<longleftrightarrow> m s = (Inr x, s')"
  by (auto simp: api_uow_def split: prod.splits sum.splits)

definition holds_key :: "(string \<times> string \<times> string) \<Rightarrow> idempotencyKey \<Rightarrow> idempotencyKey list \<Rightarrow> bool" where
  "holds_key t r rows \<longleftrightarrow> keys_ok rows \<and> find (\<lambda>x. key_of x = t) rows = Some r"

lemma request_keeps_keys:
  assumes "idempotency_intercept ports tx i enabled code rq next als s = (res, s')"
    "leaves_keys next als" "i \<notin> ik_id ` set (as_idempotency s)" "holds_key t r (as_idempotency s)"
  shows "holds_key t r (as_idempotency s')"
proof (cases "enabled = Some True \<and> request_key ports rq (as_context s) \<noteq> None")
  case False
  have "as_idempotency s' = as_idempotency s"
  proof (cases "enabled = Some True")
    case True
    then have "request_key ports rq (as_context s) = None" using False by blast
    then show ?thesis using unmarked_route[of ports rq s tx i code "next" als] assms(1) True
      by (auto simp: idempotency_intercept_def)
  next
    case False
    then have "s' = snd (next als s)" using assms(1) by (simp add: idempotency_intercept_def)
    then show ?thesis using assms(2) by (simp add: leaves_keys_def)
  qed
  then show ?thesis using assms(4) by simp
next
  case True
  then obtain sc ep k fp where key: "request_key ports rq (as_context s) = Some (sc, ep, k, fp)" by auto
  obtain e where run: "api_uow (claimed_work ports tx i code
      \<lparr>ci_scope = sc, ci_endpoint = ep, ci_key = k, ci_fingerprint = fp, ci_expiresAt = e\<rparr> next als) s = (res, s')"
    using marked_route[OF key, of tx i code "next" als] assms(1) True by (auto simp: idempotency_intercept_def)
  show ?thesis
  proof (cases res)
    case (Inl f)
    then show ?thesis using uow_rolls_back run assms(4) by metis
  next
    case (Inr body)
    define input where "input = \<lparr>ci_scope = sc, ci_endpoint = ep, ci_key = k, ci_fingerprint = fp, ci_expiresAt = e\<rparr>"
    have run: "claimed_work ports tx i code input next als s = (Inr body, s')"
      using run Inr by (simp add: uow_success input_def)
    have noThrow: "ip_insertThrows ports (ci_scope input) (ci_endpoint input) (ci_key input) = None"
      using run claimed_throws[of ports input _ tx i code "next" als s] by fastforce
    show ?thesis
    proof (cases "idem_find (ci_scope input) (ci_endpoint input) (ci_key input) (as_idempotency s)")
      case None
      have "keys_ok (as_idempotency s)" using assms(4) by (simp add: holds_key_def)
      note acq = claimed_acquired[OF run noThrow None this assms(3,2)]
      have "t \<noteq> (ci_scope input, ci_endpoint input, ci_key input)"
        using None assms(4) by (auto simp: holds_key_def idem_find_key)
      moreover have "keys_ok (as_idempotency s')" "t \<noteq> (ci_scope input, ci_endpoint input, ci_key input) \<longrightarrow>
          find (\<lambda>x. key_of x = t) (as_idempotency s') = find (\<lambda>x. key_of x = t) (as_idempotency s)"
        using acq by blast+
      ultimately show ?thesis using assms(4) by (simp add: holds_key_def)
    next
      case (Some r1)
      then show ?thesis using run assms(4) claimed_seen[OF noThrow Some, of tx i code "next" als]
        by (auto split: idempotencyClaim.splits)
    qed
  qed
qed

section \<open>Retries\<close>

text \<open>What may happen between a request and its retry: any requests with any keys, and anything else that
  leaves the key table alone.\<close>

inductive idem_later :: "idempotencyPorts \<Rightarrow> apiState \<Rightarrow> apiState \<Rightarrow> bool" for ports where
  later_refl: "idem_later ports s s"
| later_request: "idem_later ports s s1 \<Longrightarrow> idempotency_intercept ports tx i enabled code rq next als s1 = (res, s2) \<Longrightarrow>
    leaves_keys next als \<Longrightarrow> i \<notin> ik_id ` set (as_idempotency s1) \<Longrightarrow> idem_later ports s s2"
| later_other: "idem_later ports s s1 \<Longrightarrow> as_idempotency s2 = as_idempotency s1 \<Longrightarrow> idem_later ports s s2"

lemma later_holds_key:
  "idem_later ports s s' \<Longrightarrow> holds_key t r (as_idempotency s) \<Longrightarrow> holds_key t r (as_idempotency s')"
  by (induction rule: idem_later.induct) (auto intro: request_keeps_keys)

text \<open>A first request of a user, and the same one again.\<close>

definition some_idempotency :: idempotencyPorts where
  "some_idempotency = \<lparr>ip_sha256 = (\<lambda>s. s), ip_stringify = (\<lambda>v. case v of JStr s \<Rightarrow> s | _ \<Rightarrow> ''null''), ip_jsonParse = JStr,
     ip_jsonb = (\<lambda>v. v), ip_insertThrows = (\<lambda>_ _ _. None)\<rparr>"

definition some_request :: "string \<Rightarrow> httpRequest" where
  "some_request body = \<lparr>rq_method = Some ''POST'', rq_url = Some ''/v1/tenants'', rq_originalUrl = None,
     rq_headers = [(''idempotency-key'', JStr ''k1'')], rq_ip = JUndefined, rq_remoteAddress = JUndefined,
     rq_routePath = JStr ''/tenants'', rq_body = JStr body, rq_params = JObj [], rq_cookies = None\<rparr>"

definition some_apiState :: apiState where
  "some_apiState = \<lparr>as_world = \<lparr>w_db = empty_db, w_cache = [], w_ids = 0, w_salt = 0, w_mails = [], w_now = 0\<rparr>,
     as_idempotency = [], as_status = 201, as_windows = [],
     as_context = Some \<lparr>rc_requestId = ''r'', rc_tenantId = None, rc_actorId = Some ''u1'', rc_actorKind = Some UserKind\<rparr>,
     as_principal = None, as_cookies = [], as_log = []\<rparr>"

definition some_handler :: "jsval handler" where
  "some_handler als s = (Inr (JStr ''created''), s)"

lemma some_request_key:
  "request_key some_idempotency (some_request b) (as_context some_apiState)
    = Some (''u:u1'', ''POST /tenants'', ''k1'', ''POST'' @ [CHR 10] @ ''/tenants'' @ [CHR 10] @ b)"
  by (simp add: request_key_def some_request_def some_apiState_def idempotencyHeader_read_def obj_read_def obj_get_def
      isNonEmptyString_def idempotency_scope_def idempotencyHeader_isValid_def IDEMPOTENCY_MAX_LENGTH_def idempotency_routePath_def
      fingerprint_hash_def some_idempotency_def canonicalJson_def js_upper_char_def Let_def)

lemma some_first_request:
  "\<exists>s1. idempotency_intercept some_idempotency ''tx'' ''i1'' (Some True) None (some_request ''a'') some_handler None some_apiState = (Inr (JStr ''created''), s1)
    \<and> as_status s1 = 201 \<and> as_context s1 = as_context some_apiState"
proof -
  obtain e where m: "handleMarkedRoute some_idempotency ''tx'' ''i1'' None (some_request ''a'') some_handler None some_apiState
      = api_uow (claimed_work some_idempotency ''tx'' ''i1'' None \<lparr>ci_scope = ''u:u1'', ci_endpoint = ''POST /tenants'', ci_key = ''k1'',
          ci_fingerprint = ''POST'' @ [CHR 10] @ ''/tenants'' @ [CHR 10] @ ''a'', ci_expiresAt = e\<rparr> some_handler None) some_apiState" (is "_ = api_uow (claimed_work _ _ _ _ ?input _ _) _")
    using marked_route[OF some_request_key[of "''a''"]] by blast
  have f: "as_idempotency some_apiState = []" "as_status some_apiState = 201" by (simp_all add: some_apiState_def)
  have t: "ip_insertThrows some_idempotency x y z = None" for x y z by (simp add: some_idempotency_def)
  have "idem_claim some_idempotency ''i1'' n (Some ''tx'') ?input [] = (Inr Acquired, [claimRow ''i1'' n ?input])" for n
    using claim_new[of some_idempotency ?input "[]"] t by (simp add: idem_find_def)
  then have "\<exists>s1. claimed_work some_idempotency ''tx'' ''i1'' None ?input some_handler None some_apiState = (Inr (JStr ''created''), s1)
      \<and> as_status s1 = 201 \<and> as_context s1 = as_context some_apiState"
    using f by (simp add: claimed_work_def bindH_def overKeys_def some_handler_def idem_complete_def requireAmbientManager_def
        idem_find_def liftH_def)
  then show ?thesis using m by (auto simp: idempotency_intercept_def api_uow_def)
qed

lemma some_handler_leaves_keys: "leaves_keys some_handler None"
  by (simp add: leaves_keys_def some_handler_def)

section \<open>The properties\<close>





end
