(* ===== verification/Contracts.thy ===== *)
theory Contracts
  imports ApiPrincipal
begin

text \<open>
  The request schemas of packages/shared/contracts.  A schema reads a value and gives what its handler gets, or
  fails; an object schema reads the named fields and ignores the others.  The formats zod brings along (an e-mail
  address, an ISO date and time) are parameters, with the time value of such a date; a branded id is
  the check of \<open>env\<close>.
\<close>

type_synonym 'a schema = "jsval \<Rightarrow> 'a option"

record zodPorts =
  zp_email :: "string \<Rightarrow> bool"
  zp_isoDatetime :: "string \<Rightarrow> bool"
  zp_timeValue :: "string \<Rightarrow> millis"
  zp_error :: "jsval \<Rightarrow> jsval"

section \<open>Schemas\<close>

definition z_string :: "string schema" where
  "z_string v = (case v of JStr s \<Rightarrow> Some s | _ \<Rightarrow> None)"

definition z_refine :: "'a schema \<Rightarrow> ('a \<Rightarrow> bool) \<Rightarrow> 'a schema" where
  "z_refine sch P v = (case sch v of None \<Rightarrow> None | Some x \<Rightarrow> if P x then Some x else None)"

definition z_min :: "nat \<Rightarrow> string schema" where
  "z_min n = z_refine z_string (\<lambda>s. n \<le> length s)"

text \<open>\<open>z.string().trim().min(1)\<close>: the trimmed string is checked and handed on.\<close>

definition z_trimmed :: "string schema" where
  "z_trimmed = z_refine (\<lambda>v. map_option js_trim (z_string v)) (\<lambda>s. 1 \<le> length s)"

definition z_optional :: "'a schema \<Rightarrow> 'a option schema" where
  "z_optional sch v = (if v = JUndefined then Some None else map_option Some (sch v))"

fun z_all :: "'a schema \<Rightarrow> jsval list \<Rightarrow> 'a list option" where
  "z_all sch [] = Some []"
| "z_all sch (v # vs) = (case (sch v, z_all sch vs) of (Some x, Some xs) \<Rightarrow> Some (x # xs) | _ \<Rightarrow> None)"

definition z_array1 :: "'a schema \<Rightarrow> 'a list schema" where
  "z_array1 sch = z_refine (\<lambda>v. case v of JArr vs \<Rightarrow> z_all sch vs | _ \<Rightarrow> None) (\<lambda>xs. 1 \<le> length xs)"

definition z_field :: "string \<Rightarrow> 'a schema \<Rightarrow> 'a schema" where
  "z_field name sch v = (case v of JObj ob \<Rightarrow> sch (obj_read ob name) | _ \<Rightarrow> None)"

definition z_and :: "'a schema \<Rightarrow> 'b schema \<Rightarrow> ('a \<times> 'b) schema" where
  "z_and a b v = (case (a v, b v) of (Some x, Some y) \<Rightarrow> Some (x, y) | _ \<Rightarrow> None)"

definition z_email :: "zodPorts \<Rightarrow> string schema" where
  "z_email ports = z_refine z_string (zp_email ports)"

definition z_id :: "env \<Rightarrow> string schema" where
  "z_id env = z_refine z_string (isUuid env)"

definition permissionNames :: "string list" where
  "permissionNames = [''tenancy.members.read'', ''tenancy.members.invite'', ''tenancy.members.manage'', ''tenancy.tenant.read'',
     ''authorization.roles.read'', ''authorization.roles.manage'', ''identity.users.read'', ''identity.api_keys.manage'']"

definition permissionSchema :: "string schema" where
  "permissionSchema = z_refine z_string (\<lambda>s. s \<in> set permissionNames)"

section \<open>Bodies\<close>

record createUserInput =
  cu_email :: string
  cu_displayName :: string

record registerUserInput =
  ru_email :: string
  ru_displayName :: string
  ru_password :: string

record loginInput =
  li_email :: string
  li_password :: string

record acceptInvitationInput =
  ai_token :: string
  ai_displayName :: "string option"
  ai_password :: "string option"

record attachMemberInput =
  am_userId :: userId
  am_roleIds :: "roleId list"

record inviteMemberInput =
  im_email :: string
  im_roleIds :: "roleId list"

record createRoleInput =
  cr_name :: string
  cr_permissions :: "permission list"

record updateInput =
  ui_name :: "string option"
  ui_permissions :: "permission list option"

record createApiKeyInput =
  ka_name :: string
  ka_permissions :: "permission list"
  ka_expiresAt :: "string option"

record setPasswordInput =
  sp_password :: string
  sp_currentPassword :: "string option"

definition createUserInputSchema :: "zodPorts \<Rightarrow> createUserInput schema" where
  "createUserInputSchema ports v = map_option (\<lambda>(e, d). \<lparr>cu_email = e, cu_displayName = d\<rparr>)
     (z_and (z_field ''email'' (z_email ports)) (z_field ''displayName'' z_trimmed) v)"

definition registerUserInputSchema :: "zodPorts \<Rightarrow> registerUserInput schema" where
  "registerUserInputSchema ports v = map_option (\<lambda>(e, d, p). \<lparr>ru_email = e, ru_displayName = d, ru_password = p\<rparr>)
     (z_and (z_field ''email'' (z_email ports)) (z_and (z_field ''displayName'' z_trimmed) (z_field ''password'' (z_min 8))) v)"

definition loginInputSchema :: "zodPorts \<Rightarrow> loginInput schema" where
  "loginInputSchema ports v = map_option (\<lambda>(e, p). \<lparr>li_email = e, li_password = p\<rparr>)
     (z_and (z_field ''email'' (z_email ports)) (z_field ''password'' (z_min 1)) v)"

definition forgotPasswordInputSchema :: "zodPorts \<Rightarrow> string schema" where
  "forgotPasswordInputSchema ports = z_field ''email'' (z_email ports)"

definition logoutTokenInputSchema :: "string option schema" where
  "logoutTokenInputSchema = z_field ''refreshToken'' (z_optional (z_min 1))"

definition refreshTokenInputSchema :: "string schema" where
  "refreshTokenInputSchema = z_field ''refreshToken'' (z_min 1)"

definition resetPasswordInputSchema :: "(string \<times> string) schema" where
  "resetPasswordInputSchema = z_and (z_field ''token'' (z_min 1)) (z_field ''password'' (z_min 8))"

definition selectTenantInputSchema :: "env \<Rightarrow> tenantId schema" where
  "selectTenantInputSchema env = z_field ''tenantId'' (z_id env)"

definition setOrChangePasswordInputSchema :: "setPasswordInput schema" where
  "setOrChangePasswordInputSchema v = map_option (\<lambda>(p, c). \<lparr>sp_password = p, sp_currentPassword = c\<rparr>)
     (z_and (z_field ''password'' (z_min 8)) (z_field ''currentPassword'' (z_optional (z_min 1))) v)"

definition createApiKeyInputSchema :: "zodPorts \<Rightarrow> createApiKeyInput schema" where
  "createApiKeyInputSchema ports v = map_option (\<lambda>(n, ps, e). \<lparr>ka_name = n, ka_permissions = ps, ka_expiresAt = e\<rparr>)
     (z_and (z_field ''name'' z_trimmed) (z_and (z_field ''permissions'' (z_array1 permissionSchema))
       (z_field ''expiresAt'' (z_optional (z_refine z_string (zp_isoDatetime ports))))) v)"

definition createRoleInputSchema :: "createRoleInput schema" where
  "createRoleInputSchema v = map_option (\<lambda>(n, ps). \<lparr>cr_name = n, cr_permissions = ps\<rparr>)
     (z_and (z_field ''name'' z_trimmed) (z_field ''permissions'' (z_array1 permissionSchema)) v)"

text \<open>The bodies that update a role or an API key: at least one of the two fields.\<close>

definition updateRoleInputSchema :: "updateInput schema" where
  "updateRoleInputSchema = z_refine (\<lambda>v. map_option (\<lambda>(n, ps). \<lparr>ui_name = n, ui_permissions = ps\<rparr>)
     (z_and (z_field ''name'' (z_optional z_trimmed)) (z_field ''permissions'' (z_optional (z_array1 permissionSchema))) v))
     (\<lambda>value. ui_name value \<noteq> None \<or> ui_permissions value \<noteq> None)"

definition updateApiKeyInputSchema :: "updateInput schema" where
  "updateApiKeyInputSchema = z_refine (\<lambda>v. map_option (\<lambda>(n, ps). \<lparr>ui_name = n, ui_permissions = ps\<rparr>)
     (z_and (z_field ''name'' (z_optional z_trimmed)) (z_field ''permissions'' (z_optional (z_array1 permissionSchema))) v))
     (\<lambda>value. ui_name value \<noteq> None \<or> ui_permissions value \<noteq> None)"

definition acceptInvitationInputSchema :: "acceptInvitationInput schema" where
  "acceptInvitationInputSchema v = map_option (\<lambda>(t, d, p). \<lparr>ai_token = t, ai_displayName = d, ai_password = p\<rparr>)
     (z_and (z_field ''token'' (z_min 1)) (z_and (z_field ''displayName'' (z_optional z_trimmed))
       (z_field ''password'' (z_optional (z_min 8)))) v)"

definition attachMemberInputSchema :: "env \<Rightarrow> attachMemberInput schema" where
  "attachMemberInputSchema env v = map_option (\<lambda>(u, rs). \<lparr>am_userId = u, am_roleIds = rs\<rparr>)
     (z_and (z_field ''userId'' (z_id env)) (z_field ''roleIds'' (z_array1 (z_id env))) v)"

definition createTenantInputSchema :: "string schema" where
  "createTenantInputSchema = z_field ''name'' z_trimmed"

definition inviteMemberInputSchema :: "zodPorts \<Rightarrow> env \<Rightarrow> inviteMemberInput schema" where
  "inviteMemberInputSchema ports env v = map_option (\<lambda>(e, rs). \<lparr>im_email = e, im_roleIds = rs\<rparr>)
     (z_and (z_field ''email'' (z_email ports)) (z_field ''roleIds'' (z_array1 (z_id env))) v)"

definition replaceMembershipRolesInputSchema :: "env \<Rightarrow> roleId list schema" where
  "replaceMembershipRolesInputSchema env = z_field ''roleIds'' (z_array1 (z_id env))"

section \<open>Path parameters\<close>

definition tenantIdParamSchema :: "env \<Rightarrow> tenantId schema" where
  "tenantIdParamSchema env = z_field ''tenantId'' (z_id env)"

definition roleIdParamSchema :: "env \<Rightarrow> (tenantId \<times> roleId) schema" where
  "roleIdParamSchema env = z_and (z_field ''tenantId'' (z_id env)) (z_field ''roleId'' (z_id env))"

definition apiKeyIdParamSchema :: "env \<Rightarrow> (tenantId \<times> apiKeyId) schema" where
  "apiKeyIdParamSchema env = z_and (z_field ''tenantId'' (z_id env)) (z_field ''apiKeyId'' (z_id env))"

definition membershipIdParamSchema :: "env \<Rightarrow> (tenantId \<times> membershipId) schema" where
  "membershipIdParamSchema env = z_and (z_field ''tenantId'' (z_id env)) (z_field ''membershipId'' (z_id env))"

text \<open>The validation pipe: a value its schema rejects is the zod adapter's validation failure.\<close>

definition validate :: "zodPorts \<Rightarrow> 'a schema \<Rightarrow> jsval \<Rightarrow> 'a api" where
  "validate ports sch v = liftH (case sch v of None \<Rightarrow> Inl (ZodValidationFailure (zp_error ports v)) | Some x \<Rightarrow> Inr x)"

section \<open>What the schemas let through\<close>

lemma z_refine_Some: "z_refine sch P v = Some x \<longleftrightarrow> sch v = Some x \<and> P x"
  by (auto simp: z_refine_def split: option.splits)

lemma z_string_Some: "z_string v = Some s \<longleftrightarrow> v = JStr s"
  by (auto simp: z_string_def split: jsval.splits)

lemma z_all_set: "z_all sch vs = Some xs \<Longrightarrow> x \<in> set xs \<Longrightarrow> \<exists>v \<in> set vs. sch v = Some x"
  by (induction vs arbitrary: xs) (auto split: option.splits)

lemma z_array1_Some: "z_array1 sch v = Some xs \<Longrightarrow> xs \<noteq> [] \<and> (\<forall>x \<in> set xs. \<exists>w. sch w = Some x)"
  by (auto simp: z_array1_def z_refine_Some split: jsval.splits dest: z_all_set)

lemma z_and_Some: "z_and a b v = Some (x, y) \<longleftrightarrow> a v = Some x \<and> b v = Some y"
  by (auto simp: z_and_def split: option.splits)

lemma permissionNames_catalog: "permissionNames = catalog_all"
  by (simp add: permissionNames_def catalog_all_def permission_defs)

lemma validate_eval: "validate ports sch v s = (case sch v of None \<Rightarrow> (Inl (ZodValidationFailure (zp_error ports v)), s) | Some x \<Rightarrow> (Inr x, s))"
  by (simp add: validate_def liftH_def split: option.split)

end
