(* ===== verification/ApiServices.thy ===== *)
theory ApiServices
  imports Contracts RoleUseCases TenancyUseCases Outbox
begin

text \<open>
  The services of apps/api/src/modules with their mappers: each calls one use case with what the body
  carries, and gives the output as the object the response holds.
\<close>

section \<open>Mappers\<close>

definition jStrings :: "string list \<Rightarrow> jsval" where
  "jStrings xs = JArr (map JStr xs)"

definition permissionSchema_parse :: "permission list \<Rightarrow> failure + jsval" where
  "permissionSchema_parse ps = (if set ps \<subseteq> set permissionNames then Inr (jStrings ps) else Inl (AppFailure ZodError))"

definition parsePermissions :: "permission list \<Rightarrow> failure + permission list" where
  "parsePermissions ps =
     (if list_all (\<lambda>p. permission_parse p = Some p) ps then Inr ps else Inl (AppFailure ZodError))"

definition createUser_toOutput :: "userId \<Rightarrow> jsval" where
  "createUser_toOutput u = JObj [(''id'', JStr u)]"

definition registerUser_toOutput :: "userId \<Rightarrow> jsval" where
  "registerUser_toOutput u = JObj [(''userId'', JStr u)]"

definition me_toOutput :: "profile \<Rightarrow> failure + jsval" where
  "me_toOutput r = bindR (permissionSchema_parse (pf_effectivePermissions r)) (\<lambda>permissions. Inr (JObj [
     (''user'', JObj [(''id'', JStr (pf_id r)), (''email'', JStr (pf_email r)), (''displayName'', JStr (pf_displayName r)),
        (''status'', JStr (accountStatus_name (pf_status r)))]),
     (''membership'', case pf_membership r of None \<Rightarrow> JNull | Some m \<Rightarrow> JObj [
        (''membershipId'', JStr (pm_membershipId m)), (''tenantId'', JStr (pm_tenantId m)), (''roleIds'', jStrings (pm_roleIds m)),
        (''status'', JStr (membershipStatus_name (pm_status m)))]),
     (''effectivePermissions'', permissions)]))"

definition optionalDate :: "string \<Rightarrow> millis option \<Rightarrow> failure + (string \<times> jsval) list" where
  "optionalDate name v = (case v of None \<Rightarrow> Inr [] | Some t \<Rightarrow> (case toISOString (Some t) of
     Inl e \<Rightarrow> Inl (OtherFailure (JInstance ''RangeError'')) | Inr s \<Rightarrow> Inr [(name, JStr s)]))"

definition apiKeys_toCreateOutput :: "apiKeyId \<times> string \<Rightarrow> jsval" where
  "apiKeys_toCreateOutput r = JObj [(''id'', JStr (fst r)), (''token'', JStr (snd r))]"

definition apiKeys_toApiKeyOutput :: "apiKeyView \<Rightarrow> failure + jsval" where
  "apiKeys_toApiKeyOutput item =
     bindR (optionalDate ''expiresAt'' (av_expiresAt item)) (\<lambda>e.
     bindR (optionalDate ''revokedAt'' (av_revokedAt item)) (\<lambda>r.
     bindR (optionalDate ''lastUsedAt'' (av_lastUsedAt item)) (\<lambda>l.
       Inr (JObj ([(''id'', JStr (av_apiKeyId item)), (''name'', JStr (av_name item)), (''prefix'', JStr (av_prefix item)),
         (''permissions'', jStrings (av_permissions item))] @ e @ r @ l)))))"

definition apiKeys_toListOutput :: "apiKeyView list \<Rightarrow> failure + jsval" where
  "apiKeys_toListOutput rs = bindR (mapR apiKeys_toApiKeyOutput rs) (\<lambda>xs. Inr (JObj [(''apiKeys'', JArr xs)]))"

definition attachMember_toOutput :: "membershipId \<Rightarrow> jsval" where
  "attachMember_toOutput i = JObj [(''id'', JStr i)]"

definition tenantMembers_toOutput :: "memberView list \<Rightarrow> jsval" where
  "tenantMembers_toOutput ms = JObj [(''members'', JArr (map (\<lambda>m. JObj ([
     (''membershipId'', JStr (mv_membershipId m)), (''userId'', JStr (mv_userId m)), (''roleIds'', jStrings (mv_roleIds m)),
     (''status'', JStr (membershipStatus_name (mv_status m)))]
     @ (case mv_user m of None \<Rightarrow> [] | Some (email, displayName) \<Rightarrow>
         [(''user'', JObj [(''email'', JStr email), (''displayName'', JStr displayName)])]))) ms))]"

definition replaceMembershipRoles_toOutput :: "membershipId \<times> roleId list \<Rightarrow> jsval" where
  "replaceMembershipRoles_toOutput r = JObj [(''membershipId'', JStr (fst r)), (''roleIds'', jStrings (snd r))]"

definition roles_toRoleOutput :: "roleView \<Rightarrow> failure + jsval" where
  "roles_toRoleOutput r = bindR (permissionSchema_parse (rv_permissions r)) (\<lambda>permissions.
     Inr (JObj [(''id'', JStr (rv_roleId r)), (''name'', JStr (rv_name r)), (''permissions'', permissions), (''isSystem'', JBool (rv_isSystem r))]))"

definition roles_toListOutput :: "roleView list \<Rightarrow> failure + jsval" where
  "roles_toListOutput rs = bindR (mapR roles_toRoleOutput rs) (\<lambda>xs. Inr (JObj [(''roles'', JArr xs)]))"

definition getTenant_toOutput :: "tenantId \<times> string \<Rightarrow> jsval" where
  "getTenant_toOutput r = JObj [(''id'', JStr (fst r)), (''name'', JStr (snd r))]"

definition createTenant_toOutput :: "createTenantResult \<Rightarrow> jsval" where
  "createTenant_toOutput r = JObj [(''id'', JStr (ct_tenantId r)), (''ownerMembershipId'', JStr (ct_ownerMembershipId r)),
     (''roleIds'', JObj [(''owner'', JStr (ct_owner r)), (''admin'', JStr (ct_admin r)), (''member'', JStr (ct_member r))])]"

definition inviteMember_toOutput :: "invitationId \<Rightarrow> jsval" where
  "inviteMember_toOutput i = JObj [(''id'', JStr i)]"

definition acceptInvitation_toOutput :: "acceptResult \<Rightarrow> jsval" where
  "acceptInvitation_toOutput r = JObj [(''userId'', JStr (ac_userId r)), (''membershipId'', JStr (ac_membershipId r)),
     (''tenantId'', JStr (ac_tenantId r))]"

section \<open>Authentication\<close>

definition thenOutput :: "'a api \<Rightarrow> ('a \<Rightarrow> failure + jsval) \<Rightarrow> jsval api" where
  "thenOutput m out = bindH m (\<lambda>r. liftH (out r))"

definition auth_register :: "env \<Rightarrow> registerUserInput \<Rightarrow> jsval api" where
  "auth_register env input =
     thenOutput (useCase (registerUser env (ru_email input) (ru_displayName input) (ru_password input))) (\<lambda>r. Inr (registerUser_toOutput r))"

definition auth_session :: "authPorts \<Rightarrow> userId \<Rightarrow> tenantId option \<Rightarrow> js_object api" where
  "auth_session ports u tid s = (Inr ([(''accessToken'', JStr (jwt_sign ports (w_now (as_world s)) u tid)),
       (''expiresIn'', JNum (num (int (ap_ttlSeconds ports)))), (''userId'', JStr u)]
     @ (case tid of None \<Rightarrow> [] | Some t \<Rightarrow> [(''tenantId'', JStr t)])), s)"

definition auth_signIn :: "env \<Rightarrow> authPorts \<Rightarrow> loginInput \<Rightarrow> (js_object \<times> string) api" where
  "auth_signIn env ports input = bindH (useCase (login env (li_email input) (li_password input))) (\<lambda>result.
     bindH (auth_session ports (lr_userId result) (lr_tenantId result)) (\<lambda>session. liftH (Inr (session, lr_refreshToken result))))"

definition auth_refresh :: "env \<Rightarrow> authPorts \<Rightarrow> string option \<Rightarrow> (js_object \<times> string) api" where
  "auth_refresh env ports refreshToken = (case refreshToken of
     None \<Rightarrow> throwH (AppFailure InvalidRefreshTokenError)
   | Some token \<Rightarrow> bindH (useCase (rotateRefresh env token)) (\<lambda>(u, newToken).
       bindH (auth_session ports u None) (\<lambda>session. liftH (Inr (session, newToken)))))"

definition withRefreshToken :: "js_object \<times> string \<Rightarrow> failure + jsval" where
  "withRefreshToken r = Inr (JObj (fst r @ [(''refreshToken'', JStr (snd r))]))"

definition auth_tokenSignIn :: "env \<Rightarrow> authPorts \<Rightarrow> loginInput \<Rightarrow> jsval api" where
  "auth_tokenSignIn env ports input = thenOutput (auth_signIn env ports input) withRefreshToken"

definition auth_tokenRefresh :: "env \<Rightarrow> authPorts \<Rightarrow> string \<Rightarrow> jsval api" where
  "auth_tokenRefresh env ports refreshToken = thenOutput (auth_refresh env ports (Some refreshToken)) withRefreshToken"

definition auth_signOut :: "env \<Rightarrow> string option \<Rightarrow> unit api" where
  "auth_signOut env refreshToken = useCase (logout env refreshToken)"

definition auth_tokenSignOut :: "env \<Rightarrow> string option \<Rightarrow> unit api" where
  "auth_tokenSignOut env refreshToken = auth_signOut env refreshToken"

definition auth_chooseTenant :: "authPorts \<Rightarrow> userId \<Rightarrow> tenantId \<Rightarrow> jsval api" where
  "auth_chooseTenant ports u t = bindH (useCase (selectTenant u t)) (\<lambda>(u', t').
     bindH (auth_session ports u' (Some t')) (\<lambda>session. liftH (Inr (JObj session))))"

definition auth_forgotPassword :: "env \<Rightarrow> string \<Rightarrow> unit api" where
  "auth_forgotPassword env email = useCase (requestPasswordReset env email)"

definition auth_reset :: "env \<Rightarrow> string \<times> string \<Rightarrow> unit api" where
  "auth_reset env input = useCase (resetPassword env (fst input) (snd input))"

definition auth_updatePassword :: "env \<Rightarrow> userId \<Rightarrow> setPasswordInput \<Rightarrow> unit api" where
  "auth_updatePassword env u input = useCase (setOrChangePassword env u (sp_password input) (sp_currentPassword input))"

section \<open>Users and profile\<close>

definition users_create :: "env \<Rightarrow> createUserInput \<Rightarrow> jsval api" where
  "users_create env input = thenOutput (useCase (createUser env (cu_email input) (cu_displayName input))) (\<lambda>r. Inr (createUser_toOutput r))"

definition me_get :: "jsval handler" where
  "me_get als = (case getActor als of
     Inl e \<Rightarrow> throwH (AppFailure e)
   | Inr (apiKeyActor k) \<Rightarrow> throwH (forbidden ''user principal is required'')
   | Inr (userActor u) \<Rightarrow> (case getTenantId als of
       Inl e \<Rightarrow> throwH (AppFailure e)
     | Inr t \<Rightarrow> thenOutput (useCase (getMyProfile u t)) me_toOutput))"

section \<open>API keys\<close>

definition apiKeysService_create :: "env \<Rightarrow> zodPorts \<Rightarrow> tenantId \<Rightarrow> tenantActor \<Rightarrow> createApiKeyInput \<Rightarrow> jsval api" where
  "apiKeysService_create env zod t a input = bindH (liftH (parsePermissions (ka_permissions input))) (\<lambda>ps.
     thenOutput (useCase (createApiKey env a t (ka_name input) ps (map_option (zp_timeValue zod) (ka_expiresAt input))))
       (\<lambda>r. Inr (apiKeys_toCreateOutput r)))"

definition apiKeysService_list :: "tenantId \<Rightarrow> tenantActor \<Rightarrow> jsval api" where
  "apiKeysService_list t a = thenOutput (useCase (listApiKeys a t)) apiKeys_toListOutput"

text \<open>The optional permissions of an update: \<open>input.permissions?.map(Permission.parse)\<close>.\<close>

definition parseOptionalPermissions :: "permission list option \<Rightarrow> failure + permission list option" where
  "parseOptionalPermissions pso = (case pso of None \<Rightarrow> Inr None | Some ps \<Rightarrow> bindR (parsePermissions ps) (\<lambda>ps. Inr (Some ps)))"

definition apiKeysService_update :: "tenantId \<Rightarrow> apiKeyId \<Rightarrow> tenantActor \<Rightarrow> updateInput \<Rightarrow> jsval api" where
  "apiKeysService_update t k a input = bindH (liftH (parseOptionalPermissions (ui_permissions input))) (\<lambda>pso.
     thenOutput (useCase (updateApiKey a t k (ui_name input) pso)) apiKeys_toApiKeyOutput)"

definition apiKeysService_revoke :: "tenantId \<Rightarrow> apiKeyId \<Rightarrow> tenantActor \<Rightarrow> unit api" where
  "apiKeysService_revoke t k a = useCase (revokeApiKey a t k)"

section \<open>Members\<close>

definition membersService_list :: "tenantId \<Rightarrow> tenantActor \<Rightarrow> jsval api" where
  "membersService_list t a = thenOutput (useCase (listTenantMembers a t)) (\<lambda>r. Inr (tenantMembers_toOutput r))"

definition membersService_attach :: "env \<Rightarrow> tenantId \<Rightarrow> tenantActor \<Rightarrow> attachMemberInput \<Rightarrow> jsval api" where
  "membersService_attach env t a input =
     thenOutput (useCase (attachMember env a t (am_userId input) (am_roleIds input))) (\<lambda>r. Inr (attachMember_toOutput r))"

definition membersService_replaceRoles :: "tenantId \<Rightarrow> membershipId \<Rightarrow> tenantActor \<Rightarrow> roleId list \<Rightarrow> jsval api" where
  "membersService_replaceRoles t m a roleIds =
     thenOutput (useCase (replaceMembershipRoles a t m roleIds)) (\<lambda>r. Inr (replaceMembershipRoles_toOutput r))"

section \<open>Roles\<close>

definition rolesService_list :: "tenantId \<Rightarrow> tenantActor \<Rightarrow> jsval api" where
  "rolesService_list t a = thenOutput (useCase (listRoles a t)) roles_toListOutput"

definition rolesService_create :: "env \<Rightarrow> tenantId \<Rightarrow> tenantActor \<Rightarrow> createRoleInput \<Rightarrow> jsval api" where
  "rolesService_create env t a input = bindH (liftH (parsePermissions (cr_permissions input))) (\<lambda>ps.
     thenOutput (useCase (createCustomRole env a t (cr_name input) ps)) roles_toRoleOutput)"

definition rolesService_update :: "env \<Rightarrow> tenantId \<Rightarrow> roleId \<Rightarrow> tenantActor \<Rightarrow> updateInput \<Rightarrow> jsval api" where
  "rolesService_update env t r a input = bindH (liftH (parseOptionalPermissions (ui_permissions input))) (\<lambda>pso.
     thenOutput (useCase (updateCustomRole env a t r (ui_name input) pso)) roles_toRoleOutput)"

definition rolesService_delete :: "tenantId \<Rightarrow> roleId \<Rightarrow> tenantActor \<Rightarrow> unit api" where
  "rolesService_delete t r a = useCase (deleteCustomRole a t r)"

section \<open>Tenants and invitations\<close>

definition tenantsService_create :: "env \<Rightarrow> string \<Rightarrow> userId \<Rightarrow> jsval handler" where
  "tenantsService_create env name owner als =
     thenOutput (withoutTenantScope (\<lambda>_. useCase (createTenant env name owner)) als) (\<lambda>r. Inr (createTenant_toOutput r))"

definition tenantsService_get :: "tenantId \<Rightarrow> tenantActor \<Rightarrow> jsval api" where
  "tenantsService_get t a = thenOutput (useCase (getTenant a t)) (\<lambda>r. Inr (getTenant_toOutput r))"

definition invitationsService_invite :: "env \<Rightarrow> tenantId \<Rightarrow> tenantActor \<Rightarrow> inviteMemberInput \<Rightarrow> jsval api" where
  "invitationsService_invite env t a input =
     thenOutput (useCase (inviteMember env a t (im_email input) (im_roleIds input))) (\<lambda>r. Inr (inviteMember_toOutput r))"

definition invitationsService_accept :: "env \<Rightarrow> acceptInvitationInput \<Rightarrow> jsval handler" where
  "invitationsService_accept env input als =
     thenOutput (withoutTenantScope (\<lambda>_. useCase (acceptInvitation env (ai_token input) (ai_displayName input) (ai_password input))) als)
       (\<lambda>r. Inr (acceptInvitation_toOutput r))"

end
