(* ===== verification/ApiRoutes.thy ===== *)
theory ApiRoutes
  imports ApiPrincipal
begin

text \<open>
  The route tables of apps/api/src/modules (one \<open>*.routes.ts\<close> each) and the decorator that applies an entry to a handler.
\<close>

record routeMetadata =
  rm_method :: string
  rm_path :: string
  rm_summary :: "string option"
  rm_operationId :: "string option"
  rm_tags :: "string list option"

definition AuthRoutes_register :: routeMetadata where
  "AuthRoutes_register = \<lparr>rm_method = ''POST'', rm_path = ''auth/register'',
     rm_summary = Some ''Register with email and password'', rm_operationId = Some ''registerUser'', rm_tags = Some [''auth'']\<rparr>"

definition AuthRoutes_login :: routeMetadata where
  "AuthRoutes_login = \<lparr>rm_method = ''POST'', rm_path = ''auth/login'',
     rm_summary = Some ''Sign in and return access plus refresh tokens'', rm_operationId = Some ''login'', rm_tags = Some [''auth'']\<rparr>"

definition AuthRoutes_refresh :: routeMetadata where
  "AuthRoutes_refresh = \<lparr>rm_method = ''POST'', rm_path = ''auth/refresh'',
     rm_summary = Some ''Rotate a refresh token from the request body'', rm_operationId = Some ''refreshSession'', rm_tags = Some [''auth'']\<rparr>"

definition AuthRoutes_logout :: routeMetadata where
  "AuthRoutes_logout = \<lparr>rm_method = ''POST'', rm_path = ''auth/logout'',
     rm_summary = Some ''Revoke the refresh family using a body token'', rm_operationId = Some ''logout'', rm_tags = Some [''auth'']\<rparr>"

definition AuthRoutes_webLogin :: routeMetadata where
  "AuthRoutes_webLogin = \<lparr>rm_method = ''POST'', rm_path = ''auth/web/login'',
     rm_summary = Some ''Sign in and set the refresh cookie'', rm_operationId = Some ''webLogin'', rm_tags = Some [''auth'']\<rparr>"

definition AuthRoutes_webRefresh :: routeMetadata where
  "AuthRoutes_webRefresh = \<lparr>rm_method = ''POST'', rm_path = ''auth/web/refresh'',
     rm_summary = Some ''Rotate the refresh cookie and issue a new access token'', rm_operationId = Some ''webRefreshSession'', rm_tags = Some [''auth'']\<rparr>"

definition AuthRoutes_webLogout :: routeMetadata where
  "AuthRoutes_webLogout = \<lparr>rm_method = ''POST'', rm_path = ''auth/web/logout'',
     rm_summary = Some ''Revoke the refresh family and clear the cookie'', rm_operationId = Some ''webLogout'', rm_tags = Some [''auth'']\<rparr>"

definition AuthRoutes_selectTenant :: routeMetadata where
  "AuthRoutes_selectTenant = \<lparr>rm_method = ''POST'', rm_path = ''auth/select-tenant'',
     rm_summary = Some ''Issue an access token for an active membership'', rm_operationId = Some ''selectTenant'', rm_tags = Some [''auth'']\<rparr>"

definition AuthRoutes_forgotPassword :: routeMetadata where
  "AuthRoutes_forgotPassword = \<lparr>rm_method = ''POST'', rm_path = ''auth/forgot-password'',
     rm_summary = Some ''Request a password-reset token'', rm_operationId = Some ''forgotPassword'', rm_tags = Some [''auth'']\<rparr>"

definition AuthRoutes_resetPassword :: routeMetadata where
  "AuthRoutes_resetPassword = \<lparr>rm_method = ''POST'', rm_path = ''auth/reset-password'',
     rm_summary = Some ''Reset a password with a mailed token'', rm_operationId = Some ''resetPassword'', rm_tags = Some [''auth'']\<rparr>"

definition AuthRoutes_setOrChangePassword :: routeMetadata where
  "AuthRoutes_setOrChangePassword = \<lparr>rm_method = ''POST'', rm_path = ''auth/password'',
     rm_summary = Some ''Set a missing local password or change the current one'', rm_operationId = Some ''setOrChangePassword'', rm_tags = Some [''auth'']\<rparr>"

definition UsersRoutes_create :: routeMetadata where
  "UsersRoutes_create = \<lparr>rm_method = ''POST'', rm_path = ''users'',
     rm_summary = Some ''Create a user'', rm_operationId = Some ''createUser'', rm_tags = Some [''users'']\<rparr>"

definition MeRoutes_get :: routeMetadata where
  "MeRoutes_get = \<lparr>rm_method = ''GET'', rm_path = ''me'',
     rm_summary = Some ''Get the current user profile'', rm_operationId = Some ''getMe'', rm_tags = Some [''me'']\<rparr>"

definition ApiKeysRoutes_create :: routeMetadata where
  "ApiKeysRoutes_create = \<lparr>rm_method = ''POST'', rm_path = ''tenants/:tenantId/api-keys'',
     rm_summary = Some ''Create a tenant API key'', rm_operationId = Some ''createApiKey'', rm_tags = Some [''api-keys'']\<rparr>"

definition ApiKeysRoutes_list :: routeMetadata where
  "ApiKeysRoutes_list = \<lparr>rm_method = ''GET'', rm_path = ''tenants/:tenantId/api-keys'',
     rm_summary = Some ''List tenant API keys'', rm_operationId = Some ''listApiKeys'', rm_tags = Some [''api-keys'']\<rparr>"

definition ApiKeysRoutes_update :: routeMetadata where
  "ApiKeysRoutes_update = \<lparr>rm_method = ''PATCH'', rm_path = ''tenants/:tenantId/api-keys/:apiKeyId'',
     rm_summary = Some ''Update an API key'', rm_operationId = Some ''updateApiKey'', rm_tags = Some [''api-keys'']\<rparr>"

definition ApiKeysRoutes_revoke :: routeMetadata where
  "ApiKeysRoutes_revoke = \<lparr>rm_method = ''DELETE'', rm_path = ''tenants/:tenantId/api-keys/:apiKeyId'',
     rm_summary = Some ''Revoke an API key'', rm_operationId = Some ''revokeApiKey'', rm_tags = Some [''api-keys'']\<rparr>"

definition MembersRoutes_list :: routeMetadata where
  "MembersRoutes_list = \<lparr>rm_method = ''GET'', rm_path = ''tenants/:tenantId/members'',
     rm_summary = Some ''List tenant members'', rm_operationId = Some ''listTenantMembers'', rm_tags = Some [''members'']\<rparr>"

definition MembersRoutes_attach :: routeMetadata where
  "MembersRoutes_attach = \<lparr>rm_method = ''POST'', rm_path = ''tenants/:tenantId/members'',
     rm_summary = Some ''Attach an existing user as a member'', rm_operationId = Some ''attachMember'', rm_tags = Some [''members'']\<rparr>"

definition MembersRoutes_replaceRoles :: routeMetadata where
  "MembersRoutes_replaceRoles = \<lparr>rm_method = ''PATCH'', rm_path = ''tenants/:tenantId/memberships/:membershipId/roles'',
     rm_summary = Some ''Replace membership roles'', rm_operationId = Some ''replaceMembershipRoles'', rm_tags = Some [''members'']\<rparr>"

definition RolesRoutes_list :: routeMetadata where
  "RolesRoutes_list = \<lparr>rm_method = ''GET'', rm_path = ''tenants/:tenantId/roles'',
     rm_summary = Some ''List tenant roles'', rm_operationId = Some ''listRoles'', rm_tags = Some [''roles'']\<rparr>"

definition RolesRoutes_create :: routeMetadata where
  "RolesRoutes_create = \<lparr>rm_method = ''POST'', rm_path = ''tenants/:tenantId/roles'',
     rm_summary = Some ''Create a custom role'', rm_operationId = Some ''createCustomRole'', rm_tags = Some [''roles'']\<rparr>"

definition RolesRoutes_update :: routeMetadata where
  "RolesRoutes_update = \<lparr>rm_method = ''PATCH'', rm_path = ''tenants/:tenantId/roles/:roleId'',
     rm_summary = Some ''Update a custom role'', rm_operationId = Some ''updateCustomRole'', rm_tags = Some [''roles'']\<rparr>"

definition RolesRoutes_delete :: routeMetadata where
  "RolesRoutes_delete = \<lparr>rm_method = ''DELETE'', rm_path = ''tenants/:tenantId/roles/:roleId'',
     rm_summary = Some ''Delete a custom role'', rm_operationId = Some ''deleteCustomRole'', rm_tags = Some [''roles'']\<rparr>"

definition TenantsRoutes_create :: routeMetadata where
  "TenantsRoutes_create = \<lparr>rm_method = ''POST'', rm_path = ''tenants'',
     rm_summary = Some ''Create a tenant'', rm_operationId = Some ''createTenant'', rm_tags = Some [''tenants'']\<rparr>"

definition TenantsRoutes_get :: routeMetadata where
  "TenantsRoutes_get = \<lparr>rm_method = ''GET'', rm_path = ''tenants/:tenantId'',
     rm_summary = Some ''Get a tenant'', rm_operationId = Some ''getTenant'', rm_tags = Some [''tenants'']\<rparr>"

definition InvitationsRoutes_invite :: routeMetadata where
  "InvitationsRoutes_invite = \<lparr>rm_method = ''POST'', rm_path = ''tenants/:tenantId/invitations'',
     rm_summary = Some ''Invite a member by email'', rm_operationId = Some ''inviteMember'', rm_tags = Some [''invitations'']\<rparr>"

definition InvitationsRoutes_accept :: routeMetadata where
  "InvitationsRoutes_accept = \<lparr>rm_method = ''POST'', rm_path = ''invitations/accept'',
     rm_summary = Some ''Accept an invitation'', rm_operationId = Some ''acceptInvitation'', rm_tags = Some [''invitations'']\<rparr>"

text \<open>The decorator: the method and the path of the handler; the rest is documentation for OpenAPI.\<close>

definition ApiRoute :: "routeMetadata \<Rightarrow> route" where
  "ApiRoute meta = \<lparr>rt_method = rm_method meta, rt_path = rm_path meta, rt_public = False, rt_tenantOptional = False, rt_permission = None,
     rt_idempotent = None, rt_rateLimit = None, rt_httpCode = None\<rparr>"

section \<open>Rate limits\<close>

definition rateLimits :: "string \<Rightarrow> nat \<Rightarrow> nat \<Rightarrow> rateLimitOptions option" where
  "rateLimits bucket limit windowSeconds = Some \<lparr>rl_bucket = bucket, rl_limit = limit, rl_windowSeconds = windowSeconds\<rparr>"

definition authRateLimit :: "string \<Rightarrow> rateLimitOptions option" where
  "authRateLimit name = (if name = ''login'' then rateLimits ''login'' 10 900 else if name = ''register'' then rateLimits ''register'' 5 900
     else if name = ''forgotPassword'' then rateLimits ''forgot'' 5 900 else if name = ''resetPassword'' then rateLimits ''reset'' 10 900
     else if name = ''refresh'' then rateLimits ''refresh'' 60 60 else if name = ''logout'' then rateLimits ''logout'' 30 60 else None)"

definition apiKeyRateLimit :: "string \<Rightarrow> rateLimitOptions option" where
  "apiKeyRateLimit name = (if name = ''create'' then rateLimits ''api-keys-create'' 10 900
     else if name = ''list'' then rateLimits ''api-keys-list'' 60 60 else if name = ''revoke'' then rateLimits ''api-keys-revoke'' 30 60 else None)"

section \<open>What the decorators of the handlers set\<close>

definition authController_register_route :: route where
  "authController_register_route = (ApiRoute AuthRoutes_register)\<lparr>rt_public := True,
     rt_rateLimit := authRateLimit ''register'', rt_httpCode := Some 201\<rparr>"

definition authController_login_route :: route where
  "authController_login_route = (ApiRoute AuthRoutes_login)\<lparr>rt_public := True, rt_rateLimit := authRateLimit ''login'',
     rt_httpCode := Some 200\<rparr>"

definition authController_refresh_route :: route where
  "authController_refresh_route = (ApiRoute AuthRoutes_refresh)\<lparr>rt_public := True, rt_rateLimit := authRateLimit ''refresh'',
     rt_httpCode := Some 200\<rparr>"

definition authController_logout_route :: route where
  "authController_logout_route = (ApiRoute AuthRoutes_logout)\<lparr>rt_public := True, rt_rateLimit := authRateLimit ''logout'',
     rt_httpCode := Some 200\<rparr>"

definition authController_webLogin_route :: route where
  "authController_webLogin_route = (ApiRoute AuthRoutes_webLogin)\<lparr>rt_public := True, rt_rateLimit := authRateLimit ''login'',
     rt_httpCode := Some 200\<rparr>"

definition authController_webRefresh_route :: route where
  "authController_webRefresh_route = (ApiRoute AuthRoutes_webRefresh)\<lparr>rt_public := True,
     rt_rateLimit := authRateLimit ''refresh'', rt_httpCode := Some 200\<rparr>"

definition authController_webLogout_route :: route where
  "authController_webLogout_route = (ApiRoute AuthRoutes_webLogout)\<lparr>rt_public := True,
     rt_rateLimit := authRateLimit ''logout'', rt_httpCode := Some 200\<rparr>"

definition authController_selectTenant_route :: route where
  "authController_selectTenant_route = (ApiRoute AuthRoutes_selectTenant)\<lparr>rt_tenantOptional := True, rt_httpCode := Some 200\<rparr>"

definition authController_forgotPassword_route :: route where
  "authController_forgotPassword_route = (ApiRoute AuthRoutes_forgotPassword)\<lparr>rt_public := True,
     rt_rateLimit := authRateLimit ''forgotPassword'', rt_httpCode := Some 200\<rparr>"

definition authController_resetPassword_route :: route where
  "authController_resetPassword_route = (ApiRoute AuthRoutes_resetPassword)\<lparr>rt_public := True,
     rt_rateLimit := authRateLimit ''resetPassword'', rt_httpCode := Some 200\<rparr>"

definition authController_setOrChangePassword_route :: route where
  "authController_setOrChangePassword_route = (ApiRoute AuthRoutes_setOrChangePassword)\<lparr>rt_tenantOptional := True,
     rt_httpCode := Some 200\<rparr>"

definition usersController_create_route :: route where
  "usersController_create_route = (ApiRoute UsersRoutes_create)\<lparr>rt_public := True, rt_httpCode := Some 201\<rparr>"

definition meController_get_route :: route where
  "meController_get_route = (ApiRoute MeRoutes_get)\<lparr>rt_httpCode := Some 200\<rparr>"

definition apiKeysController_create_route :: route where
  "apiKeysController_create_route = (ApiRoute ApiKeysRoutes_create)\<lparr>rt_permission := Some identityApiKeysManage,
     rt_idempotent := Some True, rt_rateLimit := apiKeyRateLimit ''create'', rt_httpCode := Some 201\<rparr>"

definition apiKeysController_list_route :: route where
  "apiKeysController_list_route = (ApiRoute ApiKeysRoutes_list)\<lparr>rt_permission := Some identityApiKeysManage,
     rt_rateLimit := apiKeyRateLimit ''list'', rt_httpCode := Some 200\<rparr>"

definition apiKeysController_update_route :: route where
  "apiKeysController_update_route = (ApiRoute ApiKeysRoutes_update)\<lparr>rt_permission := Some identityApiKeysManage,
     rt_httpCode := Some 200\<rparr>"

definition apiKeysController_revoke_route :: route where
  "apiKeysController_revoke_route = (ApiRoute ApiKeysRoutes_revoke)\<lparr>rt_permission := Some identityApiKeysManage,
     rt_rateLimit := apiKeyRateLimit ''revoke'', rt_httpCode := Some 204\<rparr>"

definition membersController_list_route :: route where
  "membersController_list_route = (ApiRoute MembersRoutes_list)\<lparr>rt_permission := Some tenancyMembersRead,
     rt_httpCode := Some 200\<rparr>"

definition membersController_attach_route :: route where
  "membersController_attach_route = (ApiRoute MembersRoutes_attach)\<lparr>rt_permission := Some tenancyMembersManage,
     rt_idempotent := Some True, rt_httpCode := Some 201\<rparr>"

definition membersController_replaceRoles_route :: route where
  "membersController_replaceRoles_route = (ApiRoute MembersRoutes_replaceRoles)\<lparr>rt_permission := Some tenancyMembersManage,
     rt_httpCode := Some 200\<rparr>"

definition rolesController_list_route :: route where
  "rolesController_list_route = (ApiRoute RolesRoutes_list)\<lparr>rt_permission := Some authorizationRolesRead,
     rt_httpCode := Some 200\<rparr>"

definition rolesController_create_route :: route where
  "rolesController_create_route = (ApiRoute RolesRoutes_create)\<lparr>rt_permission := Some authorizationRolesManage,
     rt_idempotent := Some True, rt_httpCode := Some 201\<rparr>"

definition rolesController_update_route :: route where
  "rolesController_update_route = (ApiRoute RolesRoutes_update)\<lparr>rt_permission := Some authorizationRolesManage,
     rt_httpCode := Some 200\<rparr>"

definition rolesController_delete_route :: route where
  "rolesController_delete_route = (ApiRoute RolesRoutes_delete)\<lparr>rt_permission := Some authorizationRolesManage,
     rt_httpCode := Some 204\<rparr>"

definition tenantsController_create_route :: route where
  "tenantsController_create_route = (ApiRoute TenantsRoutes_create)\<lparr>rt_tenantOptional := True, rt_idempotent := Some True,
     rt_httpCode := Some 201\<rparr>"

definition tenantsController_get_route :: route where
  "tenantsController_get_route = (ApiRoute TenantsRoutes_get)\<lparr>rt_permission := Some tenancyTenantRead,
     rt_httpCode := Some 200\<rparr>"

definition invitationsController_invite_route :: route where
  "invitationsController_invite_route = (ApiRoute InvitationsRoutes_invite)\<lparr>rt_permission := Some tenancyMembersInvite,
     rt_idempotent := Some True, rt_httpCode := Some 201\<rparr>"

definition invitationsController_accept_route :: route where
  "invitationsController_accept_route = (ApiRoute InvitationsRoutes_accept)\<lparr>rt_public := True, rt_httpCode := Some 201\<rparr>"

section \<open>The endpoints\<close>

datatype endpoint =
    AuthRegister | AuthLogin | AuthRefresh | AuthLogout | AuthWebLogin | AuthWebRefresh | AuthWebLogout | AuthSelectTenant
  | AuthForgotPassword | AuthResetPassword | AuthSetOrChangePassword | UsersCreate | MeGet
  | ApiKeysCreate | ApiKeysList | ApiKeysUpdate | ApiKeysRevoke | MembersList | MembersAttach | MembersReplaceRoles
  | RolesList | RolesCreate | RolesUpdate | RolesDelete | TenantsCreate | TenantsGet | InvitationsInvite | InvitationsAccept

primrec endpoint_route :: "endpoint \<Rightarrow> route" where
  "endpoint_route AuthRegister = authController_register_route"
| "endpoint_route AuthLogin = authController_login_route"
| "endpoint_route AuthRefresh = authController_refresh_route"
| "endpoint_route AuthLogout = authController_logout_route"
| "endpoint_route AuthWebLogin = authController_webLogin_route"
| "endpoint_route AuthWebRefresh = authController_webRefresh_route"
| "endpoint_route AuthWebLogout = authController_webLogout_route"
| "endpoint_route AuthSelectTenant = authController_selectTenant_route"
| "endpoint_route AuthForgotPassword = authController_forgotPassword_route"
| "endpoint_route AuthResetPassword = authController_resetPassword_route"
| "endpoint_route AuthSetOrChangePassword = authController_setOrChangePassword_route"
| "endpoint_route UsersCreate = usersController_create_route"
| "endpoint_route MeGet = meController_get_route"
| "endpoint_route ApiKeysCreate = apiKeysController_create_route"
| "endpoint_route ApiKeysList = apiKeysController_list_route"
| "endpoint_route ApiKeysUpdate = apiKeysController_update_route"
| "endpoint_route ApiKeysRevoke = apiKeysController_revoke_route"
| "endpoint_route MembersList = membersController_list_route"
| "endpoint_route MembersAttach = membersController_attach_route"
| "endpoint_route MembersReplaceRoles = membersController_replaceRoles_route"
| "endpoint_route RolesList = rolesController_list_route"
| "endpoint_route RolesCreate = rolesController_create_route"
| "endpoint_route RolesUpdate = rolesController_update_route"
| "endpoint_route RolesDelete = rolesController_delete_route"
| "endpoint_route TenantsCreate = tenantsController_create_route"
| "endpoint_route TenantsGet = tenantsController_get_route"
| "endpoint_route InvitationsInvite = invitationsController_invite_route"
| "endpoint_route InvitationsAccept = invitationsController_accept_route"

definition endpoints :: "endpoint list" where
  "endpoints = [
     AuthRegister, AuthLogin, AuthRefresh, AuthLogout, AuthWebLogin, AuthWebRefresh, AuthWebLogout,
     AuthSelectTenant, AuthForgotPassword, AuthResetPassword, AuthSetOrChangePassword, UsersCreate, MeGet, ApiKeysCreate,
     ApiKeysList, ApiKeysUpdate, ApiKeysRevoke, MembersList, MembersAttach, MembersReplaceRoles, RolesList,
     RolesCreate, RolesUpdate, RolesDelete, TenantsCreate, TenantsGet, InvitationsInvite, InvitationsAccept]"

lemma endpoints_all: "e \<in> set endpoints"
  by (cases e) (simp_all add: endpoints_def)

lemmas decorators = authController_register_route_def authController_login_route_def authController_refresh_route_def authController_logout_route_def
  authController_webLogin_route_def authController_webRefresh_route_def authController_webLogout_route_def authController_selectTenant_route_def
  authController_forgotPassword_route_def authController_resetPassword_route_def authController_setOrChangePassword_route_def usersController_create_route_def
  meController_get_route_def apiKeysController_create_route_def apiKeysController_list_route_def apiKeysController_update_route_def
  apiKeysController_revoke_route_def membersController_list_route_def membersController_attach_route_def membersController_replaceRoles_route_def
  rolesController_list_route_def rolesController_create_route_def rolesController_update_route_def rolesController_delete_route_def
  tenantsController_create_route_def tenantsController_get_route_def invitationsController_invite_route_def invitationsController_accept_route_def

lemmas route_metadata = AuthRoutes_register_def AuthRoutes_login_def AuthRoutes_refresh_def AuthRoutes_logout_def AuthRoutes_webLogin_def
  AuthRoutes_webRefresh_def AuthRoutes_webLogout_def AuthRoutes_selectTenant_def AuthRoutes_forgotPassword_def AuthRoutes_resetPassword_def
  AuthRoutes_setOrChangePassword_def UsersRoutes_create_def MeRoutes_get_def ApiKeysRoutes_create_def ApiKeysRoutes_list_def
  ApiKeysRoutes_update_def ApiKeysRoutes_revoke_def MembersRoutes_list_def MembersRoutes_attach_def MembersRoutes_replaceRoles_def
  RolesRoutes_list_def RolesRoutes_create_def RolesRoutes_update_def RolesRoutes_delete_def TenantsRoutes_create_def
  TenantsRoutes_get_def InvitationsRoutes_invite_def InvitationsRoutes_accept_def

text \<open>No two endpoints share a method and a path, and none shares the operation id of another.\<close>

lemma endpoints_addressed:
  "distinct (map (\<lambda>e. (rt_method (endpoint_route e), rt_path (endpoint_route e))) endpoints)"
  "distinct (map rm_operationId [AuthRoutes_register, AuthRoutes_login, AuthRoutes_refresh, AuthRoutes_logout, AuthRoutes_webLogin, AuthRoutes_webRefresh, AuthRoutes_webLogout, AuthRoutes_selectTenant, AuthRoutes_forgotPassword, AuthRoutes_resetPassword, AuthRoutes_setOrChangePassword, UsersRoutes_create, MeRoutes_get, ApiKeysRoutes_create, ApiKeysRoutes_list, ApiKeysRoutes_update, ApiKeysRoutes_revoke, MembersRoutes_list, MembersRoutes_attach, MembersRoutes_replaceRoles, RolesRoutes_list, RolesRoutes_create, RolesRoutes_update, RolesRoutes_delete, TenantsRoutes_create, TenantsRoutes_get, InvitationsRoutes_invite, InvitationsRoutes_accept])"
  by (simp_all add: endpoints_def decorators ApiRoute_def route_metadata)

end
