(* ===== verification/Api.thy ===== *)
theory Api
  imports ApiServices ApiRoutes
begin

text \<open>
  The controllers of apps/api/src/modules as one table of endpoints: what the decorators of each handler set,
  and the handler itself.  Nest reads a handler's arguments in order: the principal is read at once, the
  path parameters and the body pass the validation pipe after it.
\<close>

section \<open>Arguments of a handler\<close>

record apiConfig =
  cfg_env :: env
  cfg_zod :: zodPorts
  cfg_ports :: apiPorts

definition principalArg :: "(authPrincipal \<Rightarrow> 'a api) \<Rightarrow> 'a api" where
  "principalArg k s = bindH (\<lambda>s. (readDevPrincipal s, s)) k s"

definition actorArg :: "(tenantActor \<Rightarrow> 'a api) \<Rightarrow> 'a api" where
  "actorArg k = principalArg (\<lambda>p. k (toTenantActor p))"

definition userArg :: "(userId \<Rightarrow> 'a api) \<Rightarrow> 'a api" where
  "userArg k = principalArg (\<lambda>p. bindH (liftH (requireUserPrincipal p)) k)"

definition okOutput :: "unit api \<Rightarrow> jsval api" where
  "okOutput m = thenOutput m (\<lambda>_. Inr (JObj [(''ok'', JBool True)]))"

definition noOutput :: "unit api \<Rightarrow> jsval api" where
  "noOutput m = thenOutput m (\<lambda>_. Inr JUndefined)"

section \<open>The refresh cookie\<close>

definition REFRESH_COOKIE_NAME :: string where "REFRESH_COOKIE_NAME = ''refresh_token''"

definition refreshCookie_read :: "httpRequest \<Rightarrow> string option" where
  "refreshCookie_read rq = (case rq_cookies rq of
     None \<Rightarrow> None
   | Some cs \<Rightarrow> (case obj_read cs REFRESH_COOKIE_NAME of JStr v \<Rightarrow> if 0 < length v then Some v else None | _ \<Rightarrow> None))"

definition refreshCookie_options :: "authPorts \<Rightarrow> string \<Rightarrow> string \<Rightarrow> int \<Rightarrow> responseCookie" where
  "refreshCookie_options ports name v maxAge = \<lparr>ck_name = name, ck_value = v, ck_httpOnly = True, ck_sameSite = ''lax'',
     ck_path = ap_cookiePath ports, ck_secure = ap_cookieSecure ports, ck_maxAge = maxAge\<rparr>"

definition refreshCookie_set :: "authPorts \<Rightarrow> string \<Rightarrow> unit api" where
  "refreshCookie_set ports refreshToken s =
     (Inr (), s\<lparr>as_cookies := as_cookies s @ [refreshCookie_options ports REFRESH_COOKIE_NAME refreshToken REFRESH_TTL_MS]\<rparr>)"

text \<open>Clearing sends the cookie empty, to expire at once.\<close>

definition refreshCookie_clear :: "authPorts \<Rightarrow> unit api" where
  "refreshCookie_clear ports s = (Inr (), s\<lparr>as_cookies := as_cookies s @ [refreshCookie_options ports REFRESH_COOKIE_NAME [] 0]\<rparr>)"

section \<open>Authentication\<close>

definition auth_session_cookie :: "authPorts \<Rightarrow> (js_object \<times> string) api \<Rightarrow> jsval api" where
  "auth_session_cookie ports m = bindH m (\<lambda>(session, refreshToken).
     bindH (refreshCookie_set ports refreshToken) (\<lambda>_. liftH (Inr (JObj session))))"

definition authController_register :: "apiConfig \<Rightarrow> httpRequest \<Rightarrow> jsval api" where
  "authController_register cfg rq = bindH (validate (cfg_zod cfg) (registerUserInputSchema (cfg_zod cfg)) (rq_body rq)) (auth_register (cfg_env cfg))"

definition authController_login :: "apiConfig \<Rightarrow> httpRequest \<Rightarrow> jsval api" where
  "authController_login cfg rq = bindH (validate (cfg_zod cfg) (loginInputSchema (cfg_zod cfg)) (rq_body rq))
     (auth_tokenSignIn (cfg_env cfg) (api_auth (cfg_ports cfg)))"

definition authController_refresh :: "apiConfig \<Rightarrow> httpRequest \<Rightarrow> jsval api" where
  "authController_refresh cfg rq = bindH (validate (cfg_zod cfg) refreshTokenInputSchema (rq_body rq))
     (auth_tokenRefresh (cfg_env cfg) (api_auth (cfg_ports cfg)))"

definition authController_logout :: "apiConfig \<Rightarrow> httpRequest \<Rightarrow> jsval api" where
  "authController_logout cfg rq = bindH (validate (cfg_zod cfg) logoutTokenInputSchema (rq_body rq))
     (\<lambda>body. okOutput (auth_tokenSignOut (cfg_env cfg) body))"

definition authController_webLogin :: "apiConfig \<Rightarrow> httpRequest \<Rightarrow> jsval api" where
  "authController_webLogin cfg rq = bindH (validate (cfg_zod cfg) (loginInputSchema (cfg_zod cfg)) (rq_body rq)) (\<lambda>body.
     auth_session_cookie (api_auth (cfg_ports cfg)) (auth_signIn (cfg_env cfg) (api_auth (cfg_ports cfg)) body))"

definition authController_webRefresh :: "apiConfig \<Rightarrow> httpRequest \<Rightarrow> jsval api" where
  "authController_webRefresh cfg rq =
     auth_session_cookie (api_auth (cfg_ports cfg)) (auth_refresh (cfg_env cfg) (api_auth (cfg_ports cfg)) (refreshCookie_read rq))"

definition authController_webLogout :: "apiConfig \<Rightarrow> httpRequest \<Rightarrow> jsval api" where
  "authController_webLogout cfg rq =
     okOutput (bindH (auth_signOut (cfg_env cfg) (refreshCookie_read rq)) (\<lambda>_. refreshCookie_clear (api_auth (cfg_ports cfg))))"

definition authController_selectTenant :: "apiConfig \<Rightarrow> httpRequest \<Rightarrow> jsval api" where
  "authController_selectTenant cfg rq = principalArg (\<lambda>p.
     bindH (validate (cfg_zod cfg) (selectTenantInputSchema (cfg_env cfg)) (rq_body rq)) (\<lambda>t.
     bindH (liftH (requireUserPrincipal p)) (\<lambda>u. auth_chooseTenant (api_auth (cfg_ports cfg)) u t)))"

definition authController_forgotPassword :: "apiConfig \<Rightarrow> httpRequest \<Rightarrow> jsval api" where
  "authController_forgotPassword cfg rq = bindH (validate (cfg_zod cfg) (forgotPasswordInputSchema (cfg_zod cfg)) (rq_body rq))
     (\<lambda>email. okOutput (auth_forgotPassword (cfg_env cfg) email))"

definition authController_resetPassword :: "apiConfig \<Rightarrow> httpRequest \<Rightarrow> jsval api" where
  "authController_resetPassword cfg rq = bindH (validate (cfg_zod cfg) resetPasswordInputSchema (rq_body rq))
     (\<lambda>body. okOutput (auth_reset (cfg_env cfg) body))"

definition authController_setOrChangePassword :: "apiConfig \<Rightarrow> httpRequest \<Rightarrow> jsval api" where
  "authController_setOrChangePassword cfg rq = principalArg (\<lambda>p.
     bindH (validate (cfg_zod cfg) setOrChangePasswordInputSchema (rq_body rq)) (\<lambda>body.
     bindH (liftH (requireUserPrincipal p)) (\<lambda>u. okOutput (auth_updatePassword (cfg_env cfg) u body))))"

section \<open>The other controllers\<close>

definition usersController_create :: "apiConfig \<Rightarrow> httpRequest \<Rightarrow> jsval api" where
  "usersController_create cfg rq = bindH (validate (cfg_zod cfg) (createUserInputSchema (cfg_zod cfg)) (rq_body rq)) (users_create (cfg_env cfg))"

definition meController_get :: "jsval handler" where
  "meController_get als = userArg (\<lambda>_. me_get als)"

text \<open>The path parameters and the body of a handler, through the validation pipe.\<close>

definition paramsArg :: "apiConfig \<Rightarrow> httpRequest \<Rightarrow> 'p schema \<Rightarrow> ('p \<Rightarrow> 'a api) \<Rightarrow> 'a api" where
  "paramsArg cfg rq sch k = bindH (validate (cfg_zod cfg) sch (rq_params rq)) k"

definition bodyArg :: "apiConfig \<Rightarrow> httpRequest \<Rightarrow> 'b schema \<Rightarrow> ('b \<Rightarrow> 'a api) \<Rightarrow> 'a api" where
  "bodyArg cfg rq sch k = bindH (validate (cfg_zod cfg) sch (rq_body rq)) k"

definition apiKeysController_create :: "apiConfig \<Rightarrow> httpRequest \<Rightarrow> jsval api" where
  "apiKeysController_create cfg rq = actorArg (\<lambda>a. paramsArg cfg rq (tenantIdParamSchema (cfg_env cfg)) (\<lambda>t.
     bodyArg cfg rq (createApiKeyInputSchema (cfg_zod cfg)) (apiKeysService_create (cfg_env cfg) (cfg_zod cfg) t a)))"

definition apiKeysController_list :: "apiConfig \<Rightarrow> httpRequest \<Rightarrow> jsval api" where
  "apiKeysController_list cfg rq = actorArg (\<lambda>a. paramsArg cfg rq (tenantIdParamSchema (cfg_env cfg)) (\<lambda>t. apiKeysService_list t a))"

definition apiKeysController_update :: "apiConfig \<Rightarrow> httpRequest \<Rightarrow> jsval api" where
  "apiKeysController_update cfg rq = actorArg (\<lambda>a. paramsArg cfg rq (apiKeyIdParamSchema (cfg_env cfg)) (\<lambda>(t, k).
     bodyArg cfg rq updateApiKeyInputSchema (apiKeysService_update t k a)))"

definition apiKeysController_revoke :: "apiConfig \<Rightarrow> httpRequest \<Rightarrow> jsval api" where
  "apiKeysController_revoke cfg rq = actorArg (\<lambda>a. paramsArg cfg rq (apiKeyIdParamSchema (cfg_env cfg)) (\<lambda>(t, k).
     noOutput (apiKeysService_revoke t k a)))"

definition membersController_list :: "apiConfig \<Rightarrow> httpRequest \<Rightarrow> jsval api" where
  "membersController_list cfg rq = actorArg (\<lambda>a. paramsArg cfg rq (tenantIdParamSchema (cfg_env cfg)) (\<lambda>t. membersService_list t a))"

definition membersController_attach :: "apiConfig \<Rightarrow> httpRequest \<Rightarrow> jsval api" where
  "membersController_attach cfg rq = actorArg (\<lambda>a. paramsArg cfg rq (tenantIdParamSchema (cfg_env cfg)) (\<lambda>t.
     bodyArg cfg rq (attachMemberInputSchema (cfg_env cfg)) (membersService_attach (cfg_env cfg) t a)))"

definition membersController_replaceRoles :: "apiConfig \<Rightarrow> httpRequest \<Rightarrow> jsval api" where
  "membersController_replaceRoles cfg rq = actorArg (\<lambda>a. paramsArg cfg rq (membershipIdParamSchema (cfg_env cfg)) (\<lambda>(t, m).
     bodyArg cfg rq (replaceMembershipRolesInputSchema (cfg_env cfg)) (membersService_replaceRoles t m a)))"

definition rolesController_list :: "apiConfig \<Rightarrow> httpRequest \<Rightarrow> jsval api" where
  "rolesController_list cfg rq = actorArg (\<lambda>a. paramsArg cfg rq (tenantIdParamSchema (cfg_env cfg)) (\<lambda>t. rolesService_list t a))"

definition rolesController_create :: "apiConfig \<Rightarrow> httpRequest \<Rightarrow> jsval api" where
  "rolesController_create cfg rq = actorArg (\<lambda>a. paramsArg cfg rq (tenantIdParamSchema (cfg_env cfg)) (\<lambda>t.
     bodyArg cfg rq createRoleInputSchema (rolesService_create (cfg_env cfg) t a)))"

definition rolesController_update :: "apiConfig \<Rightarrow> httpRequest \<Rightarrow> jsval api" where
  "rolesController_update cfg rq = actorArg (\<lambda>a. paramsArg cfg rq (roleIdParamSchema (cfg_env cfg)) (\<lambda>(t, r).
     bodyArg cfg rq updateRoleInputSchema (rolesService_update (cfg_env cfg) t r a)))"

definition rolesController_delete :: "apiConfig \<Rightarrow> httpRequest \<Rightarrow> jsval api" where
  "rolesController_delete cfg rq = actorArg (\<lambda>a. paramsArg cfg rq (roleIdParamSchema (cfg_env cfg)) (\<lambda>(t, r).
     noOutput (rolesService_delete t r a)))"

definition tenantsController_create :: "apiConfig \<Rightarrow> httpRequest \<Rightarrow> jsval handler" where
  "tenantsController_create cfg rq als = principalArg (\<lambda>p. bodyArg cfg rq createTenantInputSchema (\<lambda>name.
     bindH (liftH (requireUserPrincipal p)) (\<lambda>u. tenantsService_create (cfg_env cfg) name u als)))"

definition tenantsController_get :: "apiConfig \<Rightarrow> httpRequest \<Rightarrow> jsval api" where
  "tenantsController_get cfg rq = actorArg (\<lambda>a. paramsArg cfg rq (tenantIdParamSchema (cfg_env cfg)) (\<lambda>t. tenantsService_get t a))"

definition invitationsController_invite :: "apiConfig \<Rightarrow> httpRequest \<Rightarrow> jsval api" where
  "invitationsController_invite cfg rq = actorArg (\<lambda>a. paramsArg cfg rq (tenantIdParamSchema (cfg_env cfg)) (\<lambda>t.
     bodyArg cfg rq (inviteMemberInputSchema (cfg_zod cfg) (cfg_env cfg)) (invitationsService_invite (cfg_env cfg) t a)))"

definition invitationsController_accept :: "apiConfig \<Rightarrow> httpRequest \<Rightarrow> jsval handler" where
  "invitationsController_accept cfg rq als = bodyArg cfg rq acceptInvitationInputSchema (\<lambda>body. invitationsService_accept (cfg_env cfg) body als)"

section \<open>The endpoints\<close>

primrec endpoint_handler :: "apiConfig \<Rightarrow> httpRequest \<Rightarrow> endpoint \<Rightarrow> jsval handler" where
  "endpoint_handler cfg rq AuthRegister = (\<lambda>_. authController_register cfg rq)"
| "endpoint_handler cfg rq AuthLogin = (\<lambda>_. authController_login cfg rq)"
| "endpoint_handler cfg rq AuthRefresh = (\<lambda>_. authController_refresh cfg rq)"
| "endpoint_handler cfg rq AuthLogout = (\<lambda>_. authController_logout cfg rq)"
| "endpoint_handler cfg rq AuthWebLogin = (\<lambda>_. authController_webLogin cfg rq)"
| "endpoint_handler cfg rq AuthWebRefresh = (\<lambda>_. authController_webRefresh cfg rq)"
| "endpoint_handler cfg rq AuthWebLogout = (\<lambda>_. authController_webLogout cfg rq)"
| "endpoint_handler cfg rq AuthSelectTenant = (\<lambda>_. authController_selectTenant cfg rq)"
| "endpoint_handler cfg rq AuthForgotPassword = (\<lambda>_. authController_forgotPassword cfg rq)"
| "endpoint_handler cfg rq AuthResetPassword = (\<lambda>_. authController_resetPassword cfg rq)"
| "endpoint_handler cfg rq AuthSetOrChangePassword = (\<lambda>_. authController_setOrChangePassword cfg rq)"
| "endpoint_handler cfg rq UsersCreate = (\<lambda>_. usersController_create cfg rq)"
| "endpoint_handler cfg rq MeGet = meController_get"
| "endpoint_handler cfg rq ApiKeysCreate = (\<lambda>_. apiKeysController_create cfg rq)"
| "endpoint_handler cfg rq ApiKeysList = (\<lambda>_. apiKeysController_list cfg rq)"
| "endpoint_handler cfg rq ApiKeysUpdate = (\<lambda>_. apiKeysController_update cfg rq)"
| "endpoint_handler cfg rq ApiKeysRevoke = (\<lambda>_. apiKeysController_revoke cfg rq)"
| "endpoint_handler cfg rq MembersList = (\<lambda>_. membersController_list cfg rq)"
| "endpoint_handler cfg rq MembersAttach = (\<lambda>_. membersController_attach cfg rq)"
| "endpoint_handler cfg rq MembersReplaceRoles = (\<lambda>_. membersController_replaceRoles cfg rq)"
| "endpoint_handler cfg rq RolesList = (\<lambda>_. rolesController_list cfg rq)"
| "endpoint_handler cfg rq RolesCreate = (\<lambda>_. rolesController_create cfg rq)"
| "endpoint_handler cfg rq RolesUpdate = (\<lambda>_. rolesController_update cfg rq)"
| "endpoint_handler cfg rq RolesDelete = (\<lambda>_. rolesController_delete cfg rq)"
| "endpoint_handler cfg rq TenantsCreate = tenantsController_create cfg rq"
| "endpoint_handler cfg rq TenantsGet = (\<lambda>_. tenantsController_get cfg rq)"
| "endpoint_handler cfg rq InvitationsInvite = (\<lambda>_. invitationsController_invite cfg rq)"
| "endpoint_handler cfg rq InvitationsAccept = invitationsController_accept cfg rq"

definition api_serve :: "apiConfig \<Rightarrow> endpoint \<Rightarrow> httpRequest \<Rightarrow> apiState \<Rightarrow> httpResponse option \<times> apiState" where
  "api_serve cfg e rq = serve (cfg_env cfg) (cfg_ports cfg) (endpoint_route e) rq (endpoint_handler cfg rq e)"

end
