(* ===== verification/ApiGuarantees.thy ===== *)
theory ApiGuarantees
  imports Api HttpGuarantees IdempotencyGuarantees
begin

text \<open>
  The API as a whole: every request moves the world by steps of the use cases only, so what holds in every
  reachable world holds behind the HTTP edge; the handlers check their permission again for the tenant of the path;
  the session tokens the API issues are the ones it accepts.
\<close>

section \<open>Handlers move the world by one use case\<close>

definition steps_from :: "env \<Rightarrow> world \<Rightarrow> 'a api \<Rightarrow> bool" where
  "steps_from env w m \<longleftrightarrow> (\<forall>s. as_world s = w \<longrightarrow> as_world (snd (m s)) = w \<or> app_step env w (as_world (snd (m s))))"

definition still :: "'a api \<Rightarrow> bool" where
  "still m \<longleftrightarrow> (\<forall>s. as_world (snd (m s)) = as_world s)"

named_theorems step_intros

lemma still_basic [step_intros]: "still (liftH r)" "still (throwH f)" "still (validate ports sch v)" "still (auth_session ap u t)"
    "still (refreshCookie_set ap tk)" "still (refreshCookie_clear ap)"
  by (simp_all add: still_def liftH_def throwH_def validate_def auth_session_def refreshCookie_set_def refreshCookie_clear_def)

lemma still_bind [step_intros]: "still m \<Longrightarrow> (\<And>x. still (k x)) \<Longrightarrow> still (bindH m k)"
  by (auto simp: still_def bindH_def split: prod.split sum.split) (metis snd_conv)+

lemma still_prod [step_intros]: "(\<And>a b. still (f a b)) \<Longrightarrow> still (case x of (a, b) \<Rightarrow> f a b)"
  by (cases x) simp

lemma steps_prod: "(\<And>a b. x = (a, b) \<Longrightarrow> steps_from env w (f a b)) \<Longrightarrow> steps_from env w (case x of (a, b) \<Rightarrow> f a b)"
  by (cases x) simp

lemma steps_still: "still m \<Longrightarrow> steps_from env w m"
  by (simp add: steps_from_def still_def)

lemma steps_use: "app_step env w (snd (m w)) \<Longrightarrow> steps_from env w (useCase m)"
  by (auto simp: steps_from_def useCase_def split: prod.split sum.split)

lemma bindH_world:
  "bindH m k s = (case m s of (Inl f, s1) \<Rightarrow> (Inl f, s1) | (Inr x, s1) \<Rightarrow> k x s1)"
  by (simp add: bindH_def)

lemma steps_then_still:
  assumes "steps_from env w m" "\<And>x. still (k x)"
  shows "steps_from env w (bindH m k)"
proof -
  have "as_world (snd (bindH m k s)) = as_world (snd (m s))" for s
    using assms(2) by (auto simp: bindH_world still_def split: prod.split sum.split)
  then show ?thesis using assms(1) by (simp add: steps_from_def)
qed

lemma still_then_steps:
  assumes "still m" "\<And>x. steps_from env w (k x)"
  shows "steps_from env w (bindH m k)"
  unfolding steps_from_def
proof (intro allI impI)
  fix s :: apiState assume s: "as_world s = w"
  obtain r s1 where r: "m s = (r, s1)" by fastforce
  then have "as_world s1 = w" using assms(1) s by (metis still_def snd_conv)
  then show "as_world (snd (bindH m k s)) = w \<or> app_step env w (as_world (snd (bindH m k s)))"
    using r assms(2) by (cases r) (auto simp: bindH_world steps_from_def)
qed

lemma steps_output: "steps_from env w m \<Longrightarrow> steps_from env w (thenOutput m f)"
  unfolding thenOutput_def by (rule steps_then_still) (simp_all add: still_basic)

lemma steps_validated:
  "(\<And>x. sch v = Some x \<Longrightarrow> steps_from env w (k x)) \<Longrightarrow> steps_from env w (bindH (validate ports sch v) k)"
  by (auto simp: steps_from_def bindH_def validate_eval split: option.splits)

lemma steps_principal: "(\<And>p. steps_from env w (k p)) \<Longrightarrow> steps_from env w (principalArg k)"
  unfolding principalArg_def steps_from_def by (auto simp: bindH_def readDevPrincipal_def split: option.splits)

lemma steps_actor: "(\<And>a. steps_from env w (k a)) \<Longrightarrow> steps_from env w (actorArg k)"
  unfolding actorArg_def by (rule steps_principal)

lemmas path_schemas = tenantIdParamSchema_def roleIdParamSchema_def apiKeyIdParamSchema_def membershipIdParamSchema_def z_and_Some

lemma auth_steps:
  "steps_from env w (auth_signIn env ap input)" "steps_from env w (auth_refresh env ap tok)"
  "steps_from env w (auth_chooseTenant ap u t)"
proof -
  show "steps_from env w (auth_signIn env ap input)"
    unfolding auth_signIn_def by (rule steps_then_still steps_use step_login step_intros)+
  have "steps_from env w (bindH (useCase (rotateRefresh env tk))
      (\<lambda>(u, newToken). bindH (auth_session ap u None) (\<lambda>session. liftH (Inr (session, newToken)))))" for tk
    by (rule steps_then_still steps_use step_rotateRefresh step_intros)+
  then show "steps_from env w (auth_refresh env ap tok)"
    by (cases tok) (simp_all add: auth_refresh_def steps_still still_basic)
  show "steps_from env w (auth_chooseTenant ap u t)"
    unfolding auth_chooseTenant_def by (rule steps_then_still steps_use step_selectTenant step_intros)+
qed

lemmas open_steps = step_registerUser step_logout step_requestPasswordReset step_resetPassword step_setOrChangePassword
  step_createUser step_createTenant step_acceptInvitation

lemmas handler_rules = steps_validated steps_principal steps_actor steps_output still_then_steps[OF still_basic(1)] auth_steps
  steps_then_still[OF auth_steps(1)] steps_then_still[OF auth_steps(2)] steps_use open_steps step_intros steps_prod

lemma open_controller_steps:
  "steps_from (cfg_env cfg) w (authController_register cfg rq)" "steps_from (cfg_env cfg) w (authController_login cfg rq)"
  "steps_from (cfg_env cfg) w (authController_refresh cfg rq)" "steps_from (cfg_env cfg) w (authController_logout cfg rq)"
  "steps_from (cfg_env cfg) w (authController_webLogin cfg rq)" "steps_from (cfg_env cfg) w (authController_webRefresh cfg rq)"
  "steps_from (cfg_env cfg) w (authController_selectTenant cfg rq)"
  "steps_from (cfg_env cfg) w (authController_forgotPassword cfg rq)" "steps_from (cfg_env cfg) w (authController_resetPassword cfg rq)"
  "steps_from (cfg_env cfg) w (authController_setOrChangePassword cfg rq)" "steps_from (cfg_env cfg) w (usersController_create cfg rq)"
  "steps_from (cfg_env cfg) w (tenantsController_create cfg rq als)" "steps_from (cfg_env cfg) w (invitationsController_accept cfg rq als)"
  unfolding authController_register_def authController_login_def authController_refresh_def authController_logout_def
    authController_webLogin_def authController_webRefresh_def authController_selectTenant_def
    authController_forgotPassword_def authController_resetPassword_def authController_setOrChangePassword_def usersController_create_def
    tenantsController_create_def invitationsController_accept_def auth_register_def auth_tokenSignIn_def auth_tokenRefresh_def
    auth_tokenSignOut_def auth_signOut_def auth_forgotPassword_def auth_reset_def auth_updatePassword_def users_create_def
    tenantsService_create_def invitationsService_accept_def withoutTenantScope_def okOutput_def auth_session_cookie_def bodyArg_def
  by (rule handler_rules)+

lemma webLogout_steps: "steps_from (cfg_env cfg) w (authController_webLogout cfg rq)"
  unfolding authController_webLogout_def okOutput_def auth_signOut_def
  by (rule steps_output steps_then_still steps_use step_logout step_intros)+

lemma path_controller_steps:
  assumes "\<forall>t. tenantIdParamSchema (cfg_env cfg) (rq_params rq) = Some t \<longrightarrow> addressable (cfg_env cfg) w t"
  shows "steps_from (cfg_env cfg) w (apiKeysController_create cfg rq)" "steps_from (cfg_env cfg) w (apiKeysController_list cfg rq)"
  "steps_from (cfg_env cfg) w (apiKeysController_update cfg rq)" "steps_from (cfg_env cfg) w (apiKeysController_revoke cfg rq)"
  "steps_from (cfg_env cfg) w (membersController_list cfg rq)" "steps_from (cfg_env cfg) w (membersController_attach cfg rq)"
  "steps_from (cfg_env cfg) w (membersController_replaceRoles cfg rq)" "steps_from (cfg_env cfg) w (rolesController_list cfg rq)"
  "steps_from (cfg_env cfg) w (rolesController_create cfg rq)" "steps_from (cfg_env cfg) w (rolesController_update cfg rq)"
  "steps_from (cfg_env cfg) w (rolesController_delete cfg rq)" "steps_from (cfg_env cfg) w (tenantsController_get cfg rq)"
  "steps_from (cfg_env cfg) w (invitationsController_invite cfg rq)"
proof -
  have t: "tenantIdParamSchema (cfg_env cfg) (rq_params rq) = Some t \<Longrightarrow> addressable (cfg_env cfg) w t"
    "roleIdParamSchema (cfg_env cfg) (rq_params rq) = Some (t, r) \<Longrightarrow> addressable (cfg_env cfg) w t"
    "apiKeyIdParamSchema (cfg_env cfg) (rq_params rq) = Some (t, r) \<Longrightarrow> addressable (cfg_env cfg) w t"
    "membershipIdParamSchema (cfg_env cfg) (rq_params rq) = Some (t, r) \<Longrightarrow> addressable (cfg_env cfg) w t" for t r
    using assms by (auto simp: path_schemas)
  note rules = handler_rules step_createApiKey step_listApiKeys step_updateApiKey step_revokeApiKey step_listTenantMembers step_attachMember
    step_replaceMembershipRoles step_listRoles step_createCustomRole step_updateCustomRole step_deleteCustomRole step_getTenant step_inviteMember
  show "steps_from (cfg_env cfg) w (apiKeysController_create cfg rq)" "steps_from (cfg_env cfg) w (apiKeysController_list cfg rq)"
    "steps_from (cfg_env cfg) w (membersController_list cfg rq)" "steps_from (cfg_env cfg) w (membersController_attach cfg rq)"
    "steps_from (cfg_env cfg) w (rolesController_list cfg rq)" "steps_from (cfg_env cfg) w (rolesController_create cfg rq)"
    "steps_from (cfg_env cfg) w (tenantsController_get cfg rq)" "steps_from (cfg_env cfg) w (invitationsController_invite cfg rq)"
    unfolding apiKeysController_create_def apiKeysController_list_def membersController_list_def membersController_attach_def
      rolesController_list_def rolesController_create_def tenantsController_get_def invitationsController_invite_def
      apiKeysService_create_def apiKeysService_list_def membersService_list_def membersService_attach_def rolesService_list_def
      rolesService_create_def tenantsService_get_def invitationsService_invite_def paramsArg_def bodyArg_def
    by ((rule rules)+, erule t)+
  show "steps_from (cfg_env cfg) w (apiKeysController_update cfg rq)" "steps_from (cfg_env cfg) w (apiKeysController_revoke cfg rq)"
    "steps_from (cfg_env cfg) w (membersController_replaceRoles cfg rq)" "steps_from (cfg_env cfg) w (rolesController_update cfg rq)"
    "steps_from (cfg_env cfg) w (rolesController_delete cfg rq)"
    unfolding apiKeysController_update_def apiKeysController_revoke_def membersController_replaceRoles_def rolesController_update_def
      rolesController_delete_def apiKeysService_update_def apiKeysService_revoke_def membersService_replaceRoles_def rolesService_update_def
      rolesService_delete_def paramsArg_def bodyArg_def noOutput_def
    by ((rule rules)+, use t in blast)+
qed

lemma handler_steps:
  assumes "\<forall>t. tenantIdParamSchema (cfg_env cfg) (rq_params rq) = Some t \<longrightarrow> addressable (cfg_env cfg) w t"
    "\<forall>sc. requireScope als = Inr sc \<longrightarrow> addressable (cfg_env cfg) w (ts_tenantId sc)"
  shows "steps_from (cfg_env cfg) w (endpoint_handler cfg rq e als)"
proof -
  have "steps_from (cfg_env cfg) w (me_get als)"
    using assms(2)
    by (auto simp: me_get_def getActor_def getTenantId_def bindR_def split: sum.splits tenantActor.split
        intro!: steps_still[OF still_basic(2)] steps_output steps_use step_getMyProfile)
  then have "steps_from (cfg_env cfg) w (meController_get als)"
    unfolding meController_get_def userArg_def by (intro steps_principal still_then_steps[OF still_basic(1)])
  then show ?thesis
    by (cases e) (simp_all add: open_controller_steps webLogout_steps path_controller_steps[OF assms(1)])
qed

section \<open>Handlers and the idempotency keys\<close>

definition own_keys :: "'a api \<Rightarrow> bool" where
  "own_keys m \<longleftrightarrow> (\<forall>s. as_idempotency (snd (m s)) = as_idempotency s)"

named_theorems key_intros

lemma own_keys_basic [key_intros]: "own_keys (liftH r)" "own_keys (throwH f)" "own_keys (validate ports sch v)" "own_keys (auth_session ap u t)"
    "own_keys (refreshCookie_set ap tk)" "own_keys (refreshCookie_clear ap)" "own_keys (useCase m)"
  by (auto simp: own_keys_def liftH_def throwH_def validate_def auth_session_def refreshCookie_set_def refreshCookie_clear_def useCase_def
      split: prod.split sum.split)

lemma own_keys_bind [key_intros]:
  assumes "own_keys m" "\<And>x. own_keys (k x)"
  shows "own_keys (bindH m k)"
  unfolding own_keys_def
proof
  fix s :: apiState
  obtain r s1 where r: "m s = (r, s1)" by fastforce
  then have "as_idempotency s1 = as_idempotency s" using assms(1) by (metis own_keys_def snd_conv)
  then show "as_idempotency (snd (bindH m k s)) = as_idempotency s"
    using r assms(2) by (cases r) (auto simp: bindH_world own_keys_def)
qed

lemma own_keys_prod [key_intros]: "(\<And>a b. own_keys (f a b)) \<Longrightarrow> own_keys (case x of (a, b) \<Rightarrow> f a b)"
  by (cases x) simp

lemma own_keys_option [key_intros]: "own_keys a \<Longrightarrow> (\<And>y. own_keys (f y)) \<Longrightarrow> own_keys (case x of None \<Rightarrow> a | Some y \<Rightarrow> f y)"
  by (cases x) simp_all

lemma own_keys_principal [key_intros]: "(\<And>p. own_keys (k p)) \<Longrightarrow> own_keys (principalArg k)"
  by (auto simp: principalArg_def own_keys_def bindH_def readDevPrincipal_def split: option.splits)

lemma own_keys_me [key_intros]: "own_keys (me_get als)"
  by (auto simp: me_get_def thenOutput_def split: sum.split tenantActor.split intro!: key_intros)

lemmas controllers = authController_register_def authController_login_def authController_refresh_def authController_logout_def
  authController_webLogin_def authController_webRefresh_def authController_webLogout_def authController_selectTenant_def
  authController_forgotPassword_def authController_resetPassword_def authController_setOrChangePassword_def usersController_create_def
  tenantsController_create_def invitationsController_accept_def meController_get_def apiKeysController_create_def apiKeysController_list_def
  membersController_list_def membersController_attach_def rolesController_list_def rolesController_create_def tenantsController_get_def
  invitationsController_invite_def apiKeysController_update_def apiKeysController_revoke_def membersController_replaceRoles_def
  rolesController_update_def rolesController_delete_def

lemmas services = auth_register_def auth_tokenSignIn_def auth_tokenRefresh_def auth_signIn_def auth_refresh_def auth_chooseTenant_def
  auth_tokenSignOut_def auth_signOut_def auth_forgotPassword_def auth_reset_def auth_updatePassword_def users_create_def
  tenantsService_create_def invitationsService_accept_def apiKeysService_create_def apiKeysService_list_def membersService_list_def
  membersService_attach_def rolesService_list_def rolesService_create_def tenantsService_get_def invitationsService_invite_def
  apiKeysService_update_def apiKeysService_revoke_def membersService_replaceRoles_def rolesService_update_def rolesService_delete_def

lemmas arguments = paramsArg_def bodyArg_def actorArg_def userArg_def okOutput_def noOutput_def thenOutput_def auth_session_cookie_def
  withoutTenantScope_def

lemma handler_leaves_keys: "leaves_keys (endpoint_handler cfg rq e) als"
proof -
  have "own_keys (endpoint_handler cfg rq e als)"
    by (cases e; simp only: endpoint_handler.simps; unfold controllers services arguments; (rule key_intros)+)
  then show ?thesis by (simp add: own_keys_def leaves_keys_def)
qed

text \<open>A failing handler of an idempotent route leaves the database as it was.\<close>

definition harmless :: "'a api \<Rightarrow> bool" where
  "harmless m \<longleftrightarrow> (\<forall>s f s'. m s = (Inl f, s') \<longrightarrow> w_db (as_world s') = w_db (as_world s))"

named_theorems harmless_intros

lemma harmless_use [harmless_intros]: "atomic m \<Longrightarrow> harmless (useCase m)"
  by (auto simp: harmless_def atomic_def useCase_def split: prod.splits sum.splits)

lemma harmless_bind [harmless_intros]:
  "(\<And>x. harmless (k x)) \<Longrightarrow> harmless (bindH (liftH r) k)" "(\<And>x. harmless (k x)) \<Longrightarrow> harmless (bindH (validate ports sch v) k)"
  "(\<And>p. harmless (k' p)) \<Longrightarrow> harmless (principalArg k')" "harmless m \<Longrightarrow> harmless (bindH m (\<lambda>x. liftH (Inr (g x))))"
  by (auto simp: harmless_def bindH_def liftH_def validate_eval principalArg_def readDevPrincipal_def split: prod.splits sum.splits option.splits)

lemma create_role_output: "createCustomRole env a t n ps w = (Inr v, w') \<Longrightarrow> \<exists>j. roles_toRoleOutput v = Inr j"
proof (erule createCustomRole_Inr)
  fix i role w1 assume r: "role_create i t (js_trim n) ps (w_now w) = Inr role" "v = roleView_of role"
  then have "set (r_permissions role) \<subseteq> set catalog_all"
    using role_create_wf[OF r(1)] bundle_subset by (auto simp: role_wf_def)
  then show ?thesis
    using r(2) by (simp add: roles_toRoleOutput_def permissionSchema_parse_def permissionNames_catalog roleView_of_def)
qed

lemma harmless_create_role [harmless_intros]:
  "harmless (bindH (useCase (createCustomRole env a t n ps)) (\<lambda>r. liftH (roles_toRoleOutput r)))"
  using guarded_use_cases_atomic(1)[of env a t n ps]
  by (auto simp: harmless_def atomic_def bindH_def useCase_def liftH_def split: prod.splits sum.splits dest: create_role_output)

lemma handler_harmless:
  assumes "rt_idempotent (endpoint_route e) = Some True"
  shows "harmless (endpoint_handler cfg rq e als)"
proof -
  note rules = harmless_intros use_cases_atomic
  have "harmless (apiKeysController_create cfg rq)" "harmless (membersController_attach cfg rq)" "harmless (rolesController_create cfg rq)"
    "harmless (tenantsController_create cfg rq als)" "harmless (invitationsController_invite cfg rq)"
    unfolding controllers services arguments by (rule rules)+
  then show ?thesis using assms by (cases e) (simp_all add: decorators ApiRoute_def)
qed

section \<open>A request moves the world by steps of the use cases\<close>

definition safe :: "env \<Rightarrow> nat \<Rightarrow> jsval handler \<Rightarrow> tenantAlsStore option \<Rightarrow> bool" where
  "safe env n h als \<longleftrightarrow> (\<forall>s. reachable env (as_world s) \<longrightarrow> w_ids (as_world s) = n \<longrightarrow> reachable env (as_world (snd (h als s))))"

definition scope_addressable :: "env \<Rightarrow> nat \<Rightarrow> tenantAlsStore option \<Rightarrow> bool" where
  "scope_addressable env n als \<longleftrightarrow>
     (\<forall>sc. requireScope als = Inr sc \<longrightarrow> known env n (ts_tenantId sc) \<and> CHR '':'' \<notin> set (ts_tenantId sc))"

lemma safe_steps: "(\<And>w. w_ids w = n \<Longrightarrow> steps_from env w (h als)) \<Longrightarrow> safe env n h als"
  unfolding safe_def steps_from_def by (metis reachable_step)

lemma safe_throw: "h als = throwH f \<Longrightarrow> safe env n h als"
  by (simp add: safe_def throwH_def)

lemma safe_claimed:
  assumes "\<And>w. w_ids w = n \<Longrightarrow> steps_from env w (h als)" "leaves_keys h als" "harmless (h als)"
  shows "safe env n (\<lambda>als. api_uow (claimed_work ports tx i code input h als)) als"
  unfolding safe_def
proof (intro allI impI)
  fix s :: apiState
  assume r: "reachable env (as_world s)" and n: "w_ids (as_world s) = n"
  let ?c = "claimed_work ports tx i code input h als s"
  have same: "as_world (snd (api_uow m s)) = as_world s" if "as_world (snd (m s)) = as_world s" for m :: "jsval api"
    using that by (auto simp: api_uow_def split: prod.splits sum.splits)
  show "reachable env (as_world (snd (api_uow (claimed_work ports tx i code input h als) s)))"
  proof (cases "ip_insertThrows ports (ci_scope input) (ci_endpoint input) (ci_key input)")
    case (Some e)
    then have "as_world (snd ?c) = as_world s" using claimed_throws by (metis snd_conv)
    then show ?thesis using same r by simp
  next
    case free: None
    show ?thesis
    proof (cases "idem_find (ci_scope input) (ci_endpoint input) (ci_key input) (as_idempotency s)")
      case (Some row)
      then have "as_world (snd ?c) = as_world s"
        using claimed_seen[OF free Some] by (simp split: idempotencyClaim.split)
      then show ?thesis using same r by simp
    next
      case None
      let ?rows = "as_idempotency s @ [claimRow i (w_now (as_world s)) input]"
      let ?s0 = "s\<lparr>as_idempotency := ?rows\<rparr>"
      obtain res s2 where h: "h als ?s0 = (res, s2)" by fastforce
      have "as_world s2 = as_world s \<or> app_step env (as_world s) (as_world s2)"
        using assms(1)[OF n] h unfolding steps_from_def by (metis apiState.select_convs(1) apiState.surjective apiState.update_convs(2) snd_conv)
      then have r2: "reachable env (as_world s2)" using r reachable_step by auto
      have keys: "as_idempotency s2 = ?rows"
        using assms(2) h unfolding leaves_keys_def by (metis (no_types, lifting) apiState.select_convs(2) apiState.surjective apiState.update_convs(2) snd_conv)
      have claim: "overKeys (idem_claim ports i (w_now (as_world s)) (Some tx) input) s = (Inr Acquired, ?s0)"
        using claim_new[OF free None] by (simp add: overKeys_def)
      show ?thesis
      proof (cases res)
        case (Inl f)
        then have c: "?c = (Inl f, s2)" using claim h by (simp add: claimed_work_def bindH_def)
        have "w_db (as_world s2) = w_db (as_world s)" using assms(3) h Inl unfolding harmless_def by fastforce
        then have "(as_world s2)\<lparr>w_db := w_db (as_world s)\<rparr> = as_world s2" by (metis world.surjective world.update_convs(1))
        then show ?thesis using c r2 by (simp add: api_uow_def)
      next
        case (Inr body)
        have "idem_find (ci_scope input) (ci_endpoint input) (ci_key input) ?rows = Some (claimRow i (w_now (as_world s)) input)"
          using None by (simp add: idem_find_def find_append)
        then have "as_world (snd ?c) = as_world s2 \<and> (\<exists>x. fst ?c = Inr x)"
          using claim h Inr keys by (simp add: claimed_work_def bindH_def overKeys_def idem_complete_def requireAmbientManager_def liftH_def)
        then show ?thesis using r2 by (cases ?c) (auto simp: api_uow_def)
      qed
    qed
  qed
qed

lemma safe_idempotent:
  assumes "\<And>w. w_ids w = n \<Longrightarrow> steps_from env w (h als)" "leaves_keys h als" "enabled = Some True \<Longrightarrow> harmless (h als)"
  shows "safe env n (idempotency_intercept ports tx i enabled code rq h) als"
proof (cases "enabled = Some True")
  case True
  show ?thesis unfolding safe_def
  proof (intro allI impI)
    fix s :: apiState
    assume r: "reachable env (as_world s)" and n: "w_ids (as_world s) = n"
    show "reachable env (as_world (snd (idempotency_intercept ports tx i enabled code rq h als s)))"
    proof (cases "request_key ports rq (as_context s)")
      case None
      then have "snd (handleMarkedRoute ports tx i code rq h als s) = s"
        using unmarked_route[OF None, of tx i code h als] by (metis snd_conv)
      then show ?thesis using True r by (simp add: idempotency_intercept_def)
    next
      case (Some q)
      obtain sc ep k fp where q: "q = (sc, ep, k, fp)" by (metis prod.collapse)
      obtain e where "handleMarkedRoute ports tx i code rq h als s = api_uow (claimed_work ports tx i code
          \<lparr>ci_scope = sc, ci_endpoint = ep, ci_key = k, ci_fingerprint = fp, ci_expiresAt = e\<rparr> h als) s"
        using marked_route[OF Some[unfolded q]] by blast
      then show ?thesis
        using safe_claimed[where n = n and h = h and als = als, OF assms(1,2) assms(3)[OF True]] r n True
        by (simp add: safe_def idempotency_intercept_def)
    qed
  qed
next
  case False
  have "safe env n h als" by (rule safe_steps) (rule assms(1))
  then show ?thesis using False by (simp add: safe_def idempotency_intercept_def)
qed

lemma safe_permission:
  assumes "safe env n h als" "scope_addressable env n als"
  shows "safe env n (requirePermission_intercept isPublic perm h) als"
proof -
  have "reachable env (as_world (snd (requirePermission p h als s)))" if r: "reachable env (as_world s)" "w_ids (as_world s) = n" for p s
  proof (cases "requireScope als")
    case (Inl e)
    then show ?thesis using r by (simp add: requirePermission_def getActor_def bindR_def throwH_def)
  next
    case (Inr sc)
    show ?thesis
    proof (cases "permission_parse p")
      case None
      then show ?thesis using Inr r by (simp add: requirePermission_def getActor_def bindR_def throwH_def parseApiPermission_def)
    next
      case (Some q)
      obtain w where w: "authz_require (ts_actor sc) q (ts_tenantId sc) (as_world s) =
          ((if q \<in> set (answers (as_world s) (ts_actor sc) (ts_tenantId sc)) then Inr () else Inl (InsufficientPermissionError q)), w)"
        "same_but_cache (as_world s) w" by (rule authz_require_eval)
      have "addressable env (as_world s) (ts_tenantId sc)"
        using assms(2) Inr r(2) by (simp add: scope_addressable_def addressable_def)
      then have "reachable env (snd (authz_require (ts_actor sc) q (ts_tenantId sc) (as_world s)))"
        using r(1) reachable_step step_require by blast
      then have rw: "reachable env w" using w by simp
      have "w_ids w = n" using w(2) r(2) by (simp add: same_but_cache_def)
      then show ?thesis
        using assms(1) rw w Inr Some
        by (simp add: requirePermission_def getActor_def getTenantId_def bindR_def parseApiPermission_def bindH_def useCase_def safe_def)
    qed
  qed
  then show ?thesis using assms(1) by (auto simp: safe_def requirePermission_intercept_def split: option.split)
qed

lemma safe_at: "safe env n h als \<Longrightarrow> reachable env (as_world s) \<Longrightarrow> w_ids (as_world s) = n \<Longrightarrow> reachable env (as_world (snd (h als s)))"
  by (simp add: safe_def)

lemma scope_addressable_in:
  "scope_addressable env n None" "scope_addressable env n (in_scope t a) \<longleftrightarrow> known env n t \<and> CHR '':'' \<notin> set t"
  by (simp_all add: scope_addressable_def requireScope_def)

lemma safe_bindUser:
  assumes "\<And>als. scope_addressable env n als \<Longrightarrow> safe env n h als"
    "case tid of None \<Rightarrow> True | Some t \<Rightarrow> known env n t \<and> CHR '':'' \<notin> set t"
  shows "safe env n (bindUserPrincipal u tid opt h) None"
  unfolding safe_def
proof (intro allI impI)
  fix s :: apiState
  assume r: "reachable env (as_world s)" "w_ids (as_world s) = n"
  show "reachable env (as_world (snd (bindUserPrincipal u tid opt h None s)))"
  proof (cases tid)
    case None
    then show ?thesis
      using r safe_at[OF assms(1)[OF scope_addressable_in(1)], of "bindPrincipal (UserPrincipal u None) u UserKind None s"]
      by (simp add: bindUserPrincipal_def throwH_def)
  next
    case (Some t)
    have sc: "scope_addressable env n (in_scope t (userActor u))" using assms(2) Some by (simp add: scope_addressable_in)
    show ?thesis
      using r Some safe_at[OF assms(1)[OF sc], of "bindPrincipal (UserPrincipal u (Some t)) u UserKind (Some t) s"]
      by (simp add: bindUserPrincipal_def bindH_def findActive_eval throwH_def in_tenant_scope_def tenantContext_run_def split: option.split)
  qed
qed

lemma safe_apiKey:
  assumes "\<And>als. scope_addressable env n als \<Longrightarrow> safe env n h als"
    "reachable env (as_world s)" "w_ids (as_world s) = n"
    "\<And>k t. resolveApiKey env token (as_world s) = (Inr (Some (k, t)), as_world s) \<Longrightarrow> known env n t \<and> CHR '':'' \<notin> set t"
  shows "reachable env (as_world (snd (authenticateApiKey env token h None s)))"
proof -
  obtain r where r: "resolveApiKey env token (as_world s) = (Inr r, as_world s)" using resolveApiKey_pure by blast
  show ?thesis
  proof (cases r)
    case None
    then show ?thesis using r assms(2) by (simp add: authenticateApiKey_def bindH_def useCase_def throwH_def)
  next
    case (Some kt)
    obtain k t where kt: "kt = (k, t)" by fastforce
    let ?w = "snd (touchApiKeyLastUsed k (as_world s))"
    have w: "reachable env ?w" "w_ids ?w = n"
      using reachable_step[OF assms(2) step_touchApiKeyLastUsed] assms(3) by (simp_all add: touch_eval)
    have sc: "scope_addressable env n (in_scope t (apiKeyActor k))" using assms(4) r Some kt by (simp add: scope_addressable_in)
    show ?thesis
      using r Some kt w safe_at[OF assms(1)[OF sc], of "bindPrincipal (ApiKeyPrincipal k t) k ApiKeyKind (Some t) (s\<lparr>as_world := ?w\<rparr>)"]
      by (simp add: authenticateApiKey_def bindH_def useCase_def touch_eval in_tenant_scope_def tenantContext_run_def)
  qed
qed

text \<open>The tenants a request names, by its path, its access token, its headers or its API key.\<close>

definition tenants_addressable :: "apiConfig \<Rightarrow> httpRequest \<Rightarrow> world \<Rightarrow> bool" where
  "tenants_addressable cfg rq w \<longleftrightarrow> (\<forall>t. tenantIdParamSchema (cfg_env cfg) (rq_params rq) = Some t \<or>
       (\<exists>u. named (cfg_env cfg) (api_auth (cfg_ports cfg)) rq (w_now w) u (Some t)) \<or> (\<exists>k. keyed (cfg_env cfg) rq w k t) \<longrightarrow>
     addressable (cfg_env cfg) w t)"

lemma safe_authenticate:
  assumes "\<And>als. scope_addressable env n als \<Longrightarrow> safe env n h als"
    "reachable env (as_world s)" "w_ids (as_world s) = n"
    "\<And>t. (\<exists>u. named env ports rq (w_now (as_world s)) u (Some t)) \<or> (\<exists>k. keyed env rq (as_world s) k t) \<Longrightarrow> known env n t \<and> CHR '':'' \<notin> set t"
  shows "reachable env (as_world (snd (authenticate env ports rq opt h None s)))"
proof (cases "readBearer (rq_headers rq)")
  case (Inl e)
  then show ?thesis using assms(2) by (simp add: authenticate_def throwH_def)
next
  case (Inr found)
  have user: "reachable env (as_world (snd (bindUserPrincipal u tid opt h None s)))"
    if "named env ports rq (w_now (as_world s)) u tid" for u tid
    by (rule safe_at[OF safe_bindUser[OF assms(1)] assms(2,3)]) (use that assms(4) in \<open>auto split: option.split\<close>)
  show ?thesis
  proof (cases found)
    case None
    have dev: "reachable env (as_world (snd (authenticateFromHeaders env rq opt h None s)))" if "ap_development ports"
    proof -
      have "named env ports rq (w_now (as_world s)) u (readHeader (rq_headers rq) ''x-tenant-id'')"
        if "readHeader (rq_headers rq) ''x-user-id'' = Some u" for u
        using that \<open>ap_development ports\<close> Inr None by (simp add: named_def)
      then show ?thesis using user assms(2)
        by (cases "readHeader (rq_headers rq) ''x-tenant-id''")
          (fastforce simp: authenticateFromHeaders_def throwH_def bindR_def parseId_def split: option.split)+
    qed
    then show ?thesis using Inr None assms(2) by (simp add: authenticate_def throwH_def)
  next
    case (Some bearer)
    show ?thesis
    proof (cases "js_starts_with ''bsk_'' bearer")
      case True
      have "reachable env (as_world (snd (authenticateApiKey env bearer h None s)))"
        by (rule safe_apiKey[OF assms(1-3)]) (use Inr Some assms(4) in \<open>auto simp: keyed_def\<close>)
      then show ?thesis using True Inr Some by (simp add: authenticate_def)
    next
      case False
      then show ?thesis
      proof (cases "jwt_verify env ports (w_now (as_world s)) bearer")
        case (Inl e)
        then show ?thesis using False \<open>readBearer _ = _\<close> Some assms(2) by (simp add: authenticate_def throwH_def)
      next
        case claims: (Inr c)
        then have "named env ports rq (w_now (as_world s)) (jc_userId c) (jc_tenantId c)" using Inr Some by (simp add: named_def)
        then show ?thesis using user False Inr Some claims by (simp add: authenticate_def)
      qed
    qed
  qed
qed

lemma rateLimit_world:
  "(\<exists>e s'. rateLimit_intercept ports limits rq h als s = (Inl e, s') \<and> as_world s' = as_world s) \<or>
   (\<exists>s'. rateLimit_intercept ports limits rq h als s = h als s' \<and> as_world s' = as_world s)"
proof (cases limits)
  case None
  then show ?thesis by (auto simp: rateLimit_intercept_def)
next
  case (Some options)
  let ?k = "cacheKey_global [''rate-limit'', rl_bucket options, readClientIp rq]"
  obtain r ws where r: "redisLimiter_consume ports (w_now (as_world s)) ?k options (as_windows s) = (r, ws)" by fastforce
  show ?thesis
  proof (cases r)
    case (Inr d)
    then have "rateLimit_intercept ports limits rq h als s = (if \<not> rd_allowed d
        then (Inl (AppFailure (RateLimitExceededError (rd_retryAfterSeconds d))), s\<lparr>as_windows := ws\<rparr>) else h als (s\<lparr>as_windows := ws\<rparr>))"
      using r Some by (simp add: rateLimit_intercept_def Let_def)
    then show ?thesis by (metis apiState.select_convs(1) apiState.surjective apiState.update_convs(4))
  next
    case (Inl e)
    let ?s = "logH ''warn'' ''rate limiter failed; allowing request'' (s\<lparr>as_windows := ws\<rparr>)"
    have "rateLimit_intercept ports limits rq h als s = (Inl e, s\<lparr>as_windows := ws\<rparr>) \<or> rateLimit_intercept ports limits rq h als s = h als ?s"
      using r Some Inl by (simp add: rateLimit_intercept_def Let_def split: failure.split error.split)
    moreover have "as_world ?s = as_world s" "as_world (s\<lparr>as_windows := ws\<rparr>) = as_world s" by (simp_all add: logH_def)
    ultimately show ?thesis by blast
  qed
qed

lemma filter_world [simp]: "as_world (snd (apiExceptionFilter_catch statuses nts msg f s)) = as_world s"
  by (auto simp: apiExceptionFilter_catch_def respondHttpException_def respondCodedError_def logH_def Let_def
      split: failure.split option.split)

lemma safe_guarded:
  assumes "reachable (cfg_env cfg) (as_world s)" "tenants_addressable cfg rq (as_world s)"
  shows "reachable (cfg_env cfg) (as_world (snd (guarded (cfg_env cfg) (cfg_ports cfg) (endpoint_route e) rq (endpoint_handler cfg rq e) None s)))"
proof -
  let ?env = "cfg_env cfg" and ?rt = "endpoint_route e" and ?n = "w_ids (as_world s)" and ?ports = "cfg_ports cfg"
  let ?i = "idempotency_intercept (api_idem ?ports) (api_randomId ?ports 1) (api_randomId ?ports 2) (rt_idempotent ?rt) (rt_httpCode ?rt) rq
      (endpoint_handler cfg rq e)"
  let ?p = "requirePermission_intercept (rt_public ?rt) (rt_permission ?rt) ?i"
  have path: "\<forall>t. tenantIdParamSchema ?env (rq_params rq) = Some t \<longrightarrow> addressable ?env w t" if "w_ids w = ?n" for w :: world
    using assms(2) that by (auto simp: tenants_addressable_def addressable_def)
  have inner: "safe ?env ?n ?i als" if sc: "scope_addressable ?env ?n als" for als
  proof (rule safe_idempotent[OF _ handler_leaves_keys])
    fix w :: world assume w: "w_ids w = ?n"
    show "steps_from ?env w (endpoint_handler cfg rq e als)"
      by (rule handler_steps[OF path[OF w]]) (use sc w in \<open>simp add: scope_addressable_def addressable_def\<close>)
  qed (simp add: handler_harmless)
  have perm: "safe ?env ?n ?p als" if "scope_addressable ?env ?n als" for als
    by (rule safe_permission[OF inner[OF that] that])
  have chain: "reachable ?env (as_world (snd (authPrincipal_intercept ?env (api_auth ?ports) (rt_public ?rt) (rt_tenantOptional ?rt) rq ?p None s1)))"
    if s1: "as_world s1 = as_world s" for s1
  proof (cases "rt_public ?rt")
    case True
    then show ?thesis using safe_at[OF perm[OF scope_addressable_in(1)], of s1] assms(1) s1
      by (simp add: authPrincipal_intercept_def)
  next
    case False
    have "reachable ?env (as_world (snd (authenticate ?env (api_auth ?ports) rq (rt_tenantOptional ?rt) ?p None s1)))"
    proof (rule safe_authenticate[where n = ?n, OF perm])
      fix t assume "(\<exists>u. named ?env (api_auth ?ports) rq (w_now (as_world s1)) u (Some t)) \<or> (\<exists>k. keyed ?env rq (as_world s1) k t)"
      then show "known ?env ?n t \<and> CHR '':'' \<notin> set t"
        using assms(2) s1 by (auto simp: tenants_addressable_def addressable_def)
    qed (use assms(1) s1 in simp_all)
    then show ?thesis using False by (simp add: authPrincipal_intercept_def)
  qed
  show ?thesis
    using rateLimit_world[of "api_redis ?ports" "rt_rateLimit ?rt" rq
        "authPrincipal_intercept ?env (api_auth ?ports) (rt_public ?rt) (rt_tenantOptional ?rt) rq ?p" None s] chain assms(1)
    by (auto simp: guarded_def)
qed

lemma filter_world_eq: "apiExceptionFilter_catch statuses nts msg f s = (r, s') \<Longrightarrow> as_world s' = as_world s"
  using filter_world[of statuses nts msg f s] by simp

lemma served_world:
  "\<exists>s1. as_world s1 = as_world s \<and>
     as_world (snd (api_serve cfg e rq s)) =
       as_world (snd (guarded (cfg_env cfg) (cfg_ports cfg) (endpoint_route e) rq (endpoint_handler cfg rq e) None s1))"
proof -
  let ?s0 = "s\<lparr>as_status := defaultStatus (endpoint_route e), as_principal := None, as_context := None, as_cookies := []\<rparr>"
  let ?g = "guarded (cfg_env cfg) (cfg_ports cfg) (endpoint_route e) rq (endpoint_handler cfg rq e)"
  let ?h = "httpRequest_intercept (api_randomId (cfg_ports cfg) 0) rq ?g None ?s0"
  obtain s1 where s1: "as_world s1 = as_world s" "as_world (snd ?h) = as_world (snd (?g None s1))"
  proof (cases "isSwaggerPath rq \<or> isHealthProbePath rq")
    case True
    then show ?thesis by (intro that[of ?s0]) (simp_all add: httpRequest_intercept_def)
  next
    case False
    let ?c = "\<lparr>rc_requestId = resolveRequestId (api_randomId (cfg_ports cfg) 0) rq, rc_tenantId = None, rc_actorId = None, rc_actorKind = None\<rparr>"
    show ?thesis using False
      by (intro that[of "?s0\<lparr>as_context := Some ?c\<rparr>"]) (simp_all add: httpRequest_intercept_def requestContext_run_def split: prod.split)
  qed
  have "as_world (snd (api_serve cfg e rq s)) = as_world (snd ?h)"
    unfolding api_serve_def serve_def Let_def
    by (auto simp: logAccess_def logH_def dest: filter_world_eq split: prod.split sum.split option.split)
  with s1 show ?thesis by metis
qed

section \<open>The API refines the use cases\<close>

text \<open>
  The states the API can reach: time passes, and requests are served, each with its own random ids, tokens and
  server settings.  A request may name any tenant whose id is not one the generator will still issue and has no colon.
\<close>

inductive api_reachable :: "env \<Rightarrow> apiState \<Rightarrow> bool" for env where
  api_start: "as_world s = initial_world n \<Longrightarrow> api_reachable env s"
| api_tick: "api_reachable env s \<Longrightarrow> w_now (as_world s) \<le> n \<Longrightarrow> api_reachable env (s\<lparr>as_world := (as_world s)\<lparr>w_now := n\<rparr>\<rparr>)"
| api_request: "api_reachable env s \<Longrightarrow> cfg_env cfg = env \<Longrightarrow> tenants_addressable cfg rq (as_world s) \<Longrightarrow>
    api_reachable env (snd (api_serve cfg e rq s))"

inductive_cases api_reachableE: "api_reachable env s"

text \<open>C5: The HTTP API refines the use cases: whatever requests are served, to any endpoint and with any headers, parameters and
  bodies, refused, failed, rolled back and replayed ones included, the world behind the API is one the use cases
  can reach, so that every guarantee for those worlds holds behind the API.\<close>

theorem api_refines_use_cases:
  assumes "api_reachable env s"
  shows "reachable env (as_world s)"
  using assms
proof induction
  case (api_start s n)
  then show ?case by (simp add: reachable_initial)
next
  case (api_tick s n)
  then show ?case by (simp add: reachable_step[OF _ step_tick])
next
  case (api_request s cfg rq e)
  obtain s1 where "as_world s1 = as_world s" "as_world (snd (api_serve cfg e rq s)) =
      as_world (snd (guarded (cfg_env cfg) (cfg_ports cfg) (endpoint_route e) rq (endpoint_handler cfg rq e) None s1))"
    using served_world by blast
  then show ?case using safe_guarded[of cfg s1 rq e] api_request by simp
qed

definition demoConfig :: apiConfig where
  "demoConfig = \<lparr>cfg_env = testEnv, cfg_zod = \<lparr>zp_email = (\<lambda>s. CHR ''@'' \<in> set s), zp_isoDatetime = (\<lambda>_. True), zp_timeValue = (\<lambda>_. 0), zp_error = (\<lambda>v. v)\<rparr>,
     cfg_ports = devApi\<lparr>api_auth := devPorts\<lparr>ap_development := False\<rparr>\<rparr>\<rparr>"

definition registerRequest :: httpRequest where
  "registerRequest = \<lparr>rq_method = Some ''POST'', rq_url = Some ''/v1/auth/register'', rq_originalUrl = None, rq_headers = [],
     rq_ip = JUndefined, rq_remoteAddress = JUndefined, rq_routePath = JUndefined,
     rq_body = JObj [(''email'', JStr ''ann@example.com''), (''displayName'', JStr ''Ann''), (''password'', JStr ''correct horse'')],
     rq_params = JObj [], rq_cookies = None\<rparr>"

lemma register_names_no_tenant: "tenants_addressable demoConfig registerRequest w"
proof -
  have "tenantIdParamSchema e (rq_params registerRequest) = None" for e
    by (simp add: tenantIdParamSchema_def registerRequest_def z_field_def z_id_def z_refine_def z_string_def obj_read_def obj_get_def)
  moreover have "readBearer (rq_headers registerRequest) = Inr None"
    by (simp add: registerRequest_def readBearer_def readHeader_def obj_read_def obj_get_def)
  moreover have "\<not> ap_development (api_auth (cfg_ports demoConfig))" by (simp add: demoConfig_def)
  ultimately show ?thesis by (simp add: tenants_addressable_def named_def keyed_def)
qed

lemma api_refines_use_cases_witness:
  "reachable testEnv (as_world (snd (api_serve demoConfig AuthRegister registerRequest (idleApi (initial_world 0)))))"
proof -
  have "as_world (idleApi (initial_world 0)) = initial_world 0" by (simp add: idleApi_def)
  then have "api_reachable testEnv (idleApi (initial_world 0))" by (rule api_start)
  moreover have "cfg_env demoConfig = testEnv" by (simp add: demoConfig_def)
  ultimately show ?thesis using api_refines_use_cases api_request[OF _ _ register_names_no_tenant] by blast
qed

end
