(* ===== verification/ApiFlows.thy ===== *)
theory ApiFlows
  imports ApiGuarantees
begin

text \<open>
  What single endpoints guarantee: the second check of a permission for the tenant of the path, bodies that never
  reach a use case, the access token a session carries, and the two flows of a session, with the refresh token
  in the body or in a cookie.
\<close>

section \<open>The tenant of the path\<close>

definition denied :: "permission \<Rightarrow> apiState \<Rightarrow> (failure + 'a) \<times> apiState \<Rightarrow> bool" where
  "denied p s r \<longleftrightarrow> (case r of
     (Inl f, s') \<Rightarrow> w_db (as_world s') = w_db (as_world s) \<and>
       (f = AppFailure (InsufficientPermissionError p) \<or> (\<exists>v. f = ZodValidationFailure v))
   | _ \<Rightarrow> False)"

definition refuses :: "permission \<Rightarrow> world \<Rightarrow> 'a app \<Rightarrow> bool" where
  "refuses p w m \<longleftrightarrow> (\<exists>w'. m w = (Inl (InsufficientPermissionError p), w') \<and> w_db w' = w_db w)"

lemma refuses_gate: "p \<notin> set (answers w a t) \<Longrightarrow> refuses p w (thenA (authz_require a p t) m)"
  unfolding refuses_def by (rule authz.guarded_refused)

lemma denied_use: "refuses p (as_world s) m \<Longrightarrow> denied p s (thenOutput (useCase m) f s)"
  by (auto simp: refuses_def denied_def thenOutput_def bindH_def useCase_def)

lemma denied_validated: "(\<And>x. sch v = Some x \<Longrightarrow> denied p s (k x s)) \<Longrightarrow> denied p s (bindH (validate ports sch v) k s)"
  by (auto simp: bindH_def validate_eval denied_def split: option.splits)

lemma denied_lifted: "r = Inr x \<Longrightarrow> denied p s (k x s) \<Longrightarrow> denied p s (bindH (liftH r) k s)"
  by (simp add: bindH_def liftH_def)

lemma denied_actor: "as_principal s = Some pr \<Longrightarrow> denied p s (k (toTenantActor pr) s) \<Longrightarrow> denied p s (actorArg k s)"
  by (simp add: actorArg_def principalArg_def bindH_def readDevPrincipal_def)

lemma permission_array: "z_array1 permissionSchema v = Some ps \<Longrightarrow> parsePermissions ps = Inr ps"
proof -
  assume a: "z_array1 permissionSchema v = Some ps"
  have "permission_parse p = Some p" if "p \<in> set ps" for p
    using z_array1_Some[OF a] that catalog_parses
    by (auto simp: permissionSchema_def z_refine_Some z_string_Some permissionNames_catalog)
  then show ?thesis by (simp add: parsePermissions_def list_all_iff)
qed

lemma bodies_parse:
  "createApiKeyInputSchema zod v = Some i \<Longrightarrow> parsePermissions (ka_permissions i) = Inr (ka_permissions i)"
  "createRoleInputSchema v = Some j \<Longrightarrow> parsePermissions (cr_permissions j) = Inr (cr_permissions j)"
  "updateRoleInputSchema v = Some u \<Longrightarrow> parseOptionalPermissions (ui_permissions u) = Inr (ui_permissions u)"
  "updateApiKeyInputSchema v = Some u \<Longrightarrow> parseOptionalPermissions (ui_permissions u) = Inr (ui_permissions u)"
  by (auto simp: createApiKeyInputSchema_def createRoleInputSchema_def updateRoleInputSchema_def updateApiKeyInputSchema_def z_and_Some
      z_refine_Some z_field_def z_optional_def parseOptionalPermissions_def split: jsval.splits if_splits option.splits
      dest!: permission_array)

lemma path_tenant:
  "tenantIdParamSchema env v = Some t \<Longrightarrow> roleIdParamSchema env v = Some (t', r) \<Longrightarrow> t' = t"
  "tenantIdParamSchema env v = Some t \<Longrightarrow> apiKeyIdParamSchema env v = Some (t', r) \<Longrightarrow> t' = t"
  "tenantIdParamSchema env v = Some t \<Longrightarrow> membershipIdParamSchema env v = Some (t', r) \<Longrightarrow> t' = t"
  by (auto simp: path_schemas)

lemma denied_pair: "(\<And>a b. x = (a, b) \<Longrightarrow> denied p s (f a b s)) \<Longrightarrow> denied p s ((case x of (a, b) \<Rightarrow> f a b) s)"
  by (cases x) simp

lemma use_cases_refuse:
  "identityApiKeysManage \<notin> set (answers w a t) \<Longrightarrow> refuses identityApiKeysManage w (createApiKey env a t n ps x)"
  "identityApiKeysManage \<notin> set (answers w a t) \<Longrightarrow> refuses identityApiKeysManage w (listApiKeys a t)"
  "identityApiKeysManage \<notin> set (answers w a t) \<Longrightarrow> refuses identityApiKeysManage w (updateApiKey a t k no pso)"
  "identityApiKeysManage \<notin> set (answers w a t) \<Longrightarrow> refuses identityApiKeysManage w (revokeApiKey a t k)"
  "tenancyMembersRead \<notin> set (answers w a t) \<Longrightarrow> refuses tenancyMembersRead w (listTenantMembers a t)"
  "tenancyMembersManage \<notin> set (answers w a t) \<Longrightarrow> refuses tenancyMembersManage w (attachMember env a t u rs)"
  "tenancyMembersManage \<notin> set (answers w a t) \<Longrightarrow> refuses tenancyMembersManage w (replaceMembershipRoles a t m rs)"
  "authorizationRolesRead \<notin> set (answers w a t) \<Longrightarrow> refuses authorizationRolesRead w (listRoles a t)"
  "authorizationRolesManage \<notin> set (answers w a t) \<Longrightarrow> refuses authorizationRolesManage w (createCustomRole env a t n ps)"
  "authorizationRolesManage \<notin> set (answers w a t) \<Longrightarrow> refuses authorizationRolesManage w (updateCustomRole env a t r no pso)"
  "authorizationRolesManage \<notin> set (answers w a t) \<Longrightarrow> refuses authorizationRolesManage w (deleteCustomRole a t r)"
  "tenancyTenantRead \<notin> set (answers w a t) \<Longrightarrow> refuses tenancyTenantRead w (getTenant a t)"
  "tenancyMembersInvite \<notin> set (answers w a t) \<Longrightarrow> refuses tenancyMembersInvite w (inviteMember env a t e rs)"
  unfolding createApiKey_def listApiKeys_def updateApiKey_def revokeApiKey_def listTenantMembers_def attachMember_def
    replaceMembershipRoles_def listRoles_def createCustomRole_def updateCustomRole_def deleteCustomRole_def getTenant_def inviteMember_def
  by (erule refuses_gate)+

lemma controllers_deny:
  assumes "as_principal s = Some pr" "tenantIdParamSchema (cfg_env cfg) (rq_params rq) = Some t"
  shows "identityApiKeysManage \<notin> set (answers (as_world s) (toTenantActor pr) t) \<Longrightarrow>
      denied identityApiKeysManage s (apiKeysController_create cfg rq s) \<and> denied identityApiKeysManage s (apiKeysController_list cfg rq s) \<and>
      denied identityApiKeysManage s (apiKeysController_update cfg rq s) \<and> denied identityApiKeysManage s (apiKeysController_revoke cfg rq s)"
    "tenancyMembersRead \<notin> set (answers (as_world s) (toTenantActor pr) t) \<Longrightarrow> denied tenancyMembersRead s (membersController_list cfg rq s)"
    "tenancyMembersManage \<notin> set (answers (as_world s) (toTenantActor pr) t) \<Longrightarrow>
      denied tenancyMembersManage s (membersController_attach cfg rq s) \<and> denied tenancyMembersManage s (membersController_replaceRoles cfg rq s)"
    "authorizationRolesRead \<notin> set (answers (as_world s) (toTenantActor pr) t) \<Longrightarrow> denied authorizationRolesRead s (rolesController_list cfg rq s)"
    "authorizationRolesManage \<notin> set (answers (as_world s) (toTenantActor pr) t) \<Longrightarrow>
      denied authorizationRolesManage s (rolesController_create cfg rq s) \<and> denied authorizationRolesManage s (rolesController_update cfg rq s) \<and>
      denied authorizationRolesManage s (rolesController_delete cfg rq s)"
    "tenancyTenantRead \<notin> set (answers (as_world s) (toTenantActor pr) t) \<Longrightarrow> denied tenancyTenantRead s (tenantsController_get cfg rq s)"
    "tenancyMembersInvite \<notin> set (answers (as_world s) (toTenantActor pr) t) \<Longrightarrow> denied tenancyMembersInvite s (invitationsController_invite cfg rq s)"
  unfolding controllers services paramsArg_def bodyArg_def noOutput_def
  using assms(2) path_tenant[OF assms(2)]
  by (auto intro!: denied_actor[OF assms(1)] denied_validated denied_pair denied_use use_cases_refuse denied_lifted bodies_parse)

lemma route_permissions:
  "rt_permission (endpoint_route ApiKeysCreate) = Some identityApiKeysManage"
  "rt_permission (endpoint_route ApiKeysList) = Some identityApiKeysManage"
  "rt_permission (endpoint_route ApiKeysUpdate) = Some identityApiKeysManage"
  "rt_permission (endpoint_route ApiKeysRevoke) = Some identityApiKeysManage"
  "rt_permission (endpoint_route MembersList) = Some tenancyMembersRead"
  "rt_permission (endpoint_route MembersAttach) = Some tenancyMembersManage"
  "rt_permission (endpoint_route MembersReplaceRoles) = Some tenancyMembersManage"
  "rt_permission (endpoint_route RolesList) = Some authorizationRolesRead"
  "rt_permission (endpoint_route RolesCreate) = Some authorizationRolesManage"
  "rt_permission (endpoint_route RolesUpdate) = Some authorizationRolesManage"
  "rt_permission (endpoint_route RolesDelete) = Some authorizationRolesManage"
  "rt_permission (endpoint_route TenantsGet) = Some tenancyTenantRead"
  "rt_permission (endpoint_route InvitationsInvite) = Some tenancyMembersInvite"
  "rt_permission (endpoint_route AuthRegister) = None"
  "rt_permission (endpoint_route AuthLogin) = None"
  "rt_permission (endpoint_route AuthRefresh) = None"
  "rt_permission (endpoint_route AuthLogout) = None"
  "rt_permission (endpoint_route AuthWebLogin) = None"
  "rt_permission (endpoint_route AuthWebRefresh) = None"
  "rt_permission (endpoint_route AuthWebLogout) = None"
  "rt_permission (endpoint_route AuthSelectTenant) = None"
  "rt_permission (endpoint_route AuthForgotPassword) = None"
  "rt_permission (endpoint_route AuthResetPassword) = None"
  "rt_permission (endpoint_route AuthSetOrChangePassword) = None"
  "rt_permission (endpoint_route UsersCreate) = None"
  "rt_permission (endpoint_route MeGet) = None"
  "rt_permission (endpoint_route TenantsCreate) = None"
  "rt_permission (endpoint_route InvitationsAccept) = None"
  by (simp_all add: decorators ApiRoute_def)



section \<open>Sessions\<close>

text \<open>
  What the \<open>jose\<close> package promises: a token it signed is verified with the claims it was signed with while the second of
  its expiry has not come, and it is a string of base64 letters and dots.
\<close>

definition tidClaim :: "tenantId option \<Rightarrow> jsval" where
  "tidClaim tid = (case tid of None \<Rightarrow> JUndefined | Some t \<Rightarrow> JStr t)"

definition jose_ok :: "authPorts \<Rightarrow> bool" where
  "jose_ok ports \<longleftrightarrow>
     (\<forall>now u tid later. now \<le> later \<longrightarrow> later div 1000 < now div 1000 + int (ap_ttlSeconds ports) \<longrightarrow>
        ap_jwtVerify ports later (jwt_sign ports now u tid) = Some \<lparr>jp_sub = Some u, jp_tid = tidClaim tid\<rparr>) \<and>
     (\<forall>now u tid. jwt_sign ports now u tid \<noteq> [] \<and> list_all (\<lambda>x. \<not> js_space x) (jwt_sign ports now u tid) \<and>
        \<not> js_starts_with ''bsk_'' (jwt_sign ports now u tid))"

lemma bearer_of_token:
  assumes "tk \<noteq> []" "list_all (\<lambda>x. \<not> js_space x) tk"
  shows "bearer_match (''Bearer '' @ tk) = Some tk"
proof -
  have "js_lower ''Bearer'' = ''bearer''" "js_space (CHR '' '')" by code_simp+
  then show ?thesis using assms by (cases tk) (simp_all add: bearer_match_def Let_def)
qed

lemma signed_token_authenticates:
  assumes "jose_ok ports" "isUuid env u" "case tid of None \<Rightarrow> True | Some t \<Rightarrow> isUuid env t"
    "readHeader (rq_headers rq) ''authorization'' = Some (''Bearer '' @ jwt_sign ports now u tid)"
    "now \<le> w_now (as_world s)" "w_now (as_world s) div 1000 < now div 1000 + int (ap_ttlSeconds ports)"
  shows "authenticate env ports rq opt h None s = bindUserPrincipal u tid opt h None s"
proof -
  have v: "ap_jwtVerify ports (w_now (as_world s)) (jwt_sign ports now u tid) = Some \<lparr>jp_sub = Some u, jp_tid = tidClaim tid\<rparr>"
    using assms(1,5,6) by (simp add: jose_ok_def)
  have shape: "jwt_sign ports now u tid \<noteq> []" "list_all (\<lambda>x. \<not> js_space x) (jwt_sign ports now u tid)"
    "\<not> js_starts_with ''bsk_'' (jwt_sign ports now u tid)"
    using assms(1) by (simp_all add: jose_ok_def)
  have b: "readBearer (rq_headers rq) = Inr (Some (jwt_sign ports now u tid))"
    using assms(4) bearer_of_token[OF shape(1,2)] by (simp add: readBearer_def)
  have "jwt_verify env ports (w_now (as_world s)) (jwt_sign ports now u tid) = Inr \<lparr>jc_userId = u, jc_tenantId = tid\<rparr>"
    using v assms(2,3) by (cases tid) (simp_all add: jwt_verify_def parseId_def tidClaim_def)
  then show ?thesis using b shape(3) by (simp add: authenticate_def)
qed

lemma login_identity:
  assumes "login env e pw w = (Inr v, w')"
  shows "\<exists>user. users_findByEmail (js_lower (js_trim e)) (w_db w) = Some user \<and> lr_userId v = ent_id user \<and> w_now w' = w_now w \<and>
    (\<forall>t. lr_tenantId v = Some t \<longrightarrow> (\<exists>m \<in> set (db_memberships (w_db w)). m_userId m = ent_id user \<and> m_status m = MActive \<and> m_tenantId m = t))"
proof -
  obtain user c where u: "users_findByEmail (js_lower (js_trim e)) (w_db w) = Some user"
      "passwords_findByUserId (ent_id user) (w_db w) = Some c" "lr_userId v = ent_id user"
    and w': "w' = w\<lparr>w_ids := w_ids w + 3,
       w_db := sessions_save (session_create (genId env (Suc (w_ids w))) (ent_id user) (genId env (Suc (Suc (w_ids w))))
         (digest env (genId env (w_ids w))) (w_now w + REFRESH_TTL_MS)) (w_db w)\<rparr>"
    using assms by (rule login_Inr)
  let ?active = "filter (\<lambda>m. m_status m = MActive) (memberships_findByUser (ent_id user) (w_db w))"
  have m: "memberships_findByUser x (sessions_save y d) = memberships_findByUser x d" for x y d
    by (simp add: memberships_findByUser_def sessions_save_def)
  have "lr_tenantId v = (if length ?active = 1 then Some (m_tenantId (hd ?active)) else None)"
    using assms u(1,2) by (auto simp: login_def app_run app_succeeds Let_def m)
  moreover have "hd ?active \<in> set ?active" if "length ?active = 1" using that by (intro hd_in_set) auto
  ultimately have "\<exists>m \<in> set (db_memberships (w_db w)). m_userId m = ent_id user \<and> m_status m = MActive \<and> m_tenantId m = t"
    if "lr_tenantId v = Some t" for t
    using that by (auto simp: memberships_findByUser_def split: if_splits)
  then show ?thesis using u w' by auto
qed

lemma controller_login:
  assumes "authController_login cfg rq s = (Inr out, s1)"
  obtains input v where "loginInputSchema (cfg_zod cfg) (rq_body rq) = Some input"
    "login (cfg_env cfg) (li_email input) (li_password input) (as_world s) = (Inr v, as_world s1)"
    "out = JObj ([(''accessToken'', JStr (jwt_sign (api_auth (cfg_ports cfg)) (w_now (as_world s1)) (lr_userId v) (lr_tenantId v))),
       (''expiresIn'', JNum (num (int (ap_ttlSeconds (api_auth (cfg_ports cfg)))))), (''userId'', JStr (lr_userId v))]
     @ (case lr_tenantId v of None \<Rightarrow> [] | Some t \<Rightarrow> [(''tenantId'', JStr t)]) @ [(''refreshToken'', JStr (lr_refreshToken v))])"
  using assms
  by (auto simp: authController_login_def auth_tokenSignIn_def auth_signIn_def thenOutput_def auth_session_def withRefreshToken_def
      bindH_def liftH_def useCase_def validate_eval split: option.splits prod.splits sum.splits)


text \<open>A signer of letters: every character as two of the letters a to p.\<close>

definition letters :: "string \<Rightarrow> string" where
  "letters s = concat (map (\<lambda>c. let n = of_char c :: nat in [char_of (97 + n div 16), char_of (97 + n mod 16)]) s)"

fun unletters :: "string \<Rightarrow> string" where
  "unletters (a # b # r) = char_of ((of_char a - 97) * 16 + (of_char b - 97 :: nat)) # unletters r"
| "unletters _ = []"

definition letterPorts :: authPorts where
  "letterPorts = \<lparr>
     ap_jwtVerify = (\<lambda>_ tk. Some \<lparr>jp_sub = Some (unletters (takeWhile (\<lambda>c. c \<noteq> CHR ''.'') tk)),
       jp_tid = (case drop 1 (dropWhile (\<lambda>c. c \<noteq> CHR ''.'') tk) of [] \<Rightarrow> JUndefined | _ # r \<Rightarrow> JStr (unletters r))\<rparr>),
     ap_jwtSign = (\<lambda>_ c. letters (case jp_sub c of Some u \<Rightarrow> u | None \<Rightarrow> []) @ ''.'' @
       (case jp_tid c of JStr t \<Rightarrow> ''t'' @ letters t | _ \<Rightarrow> [])),
     ap_ttlSeconds = 900, ap_cookiePath = ''/v1/auth'', ap_cookieSecure = True, ap_development = False\<rparr>"

lemma char_nibbles: "(of_char (c :: char) :: nat) div 16 < 16" "(of_char (c :: char) :: nat) mod 16 < 16"
proof -
  have "(of_char c :: nat) < 256" by simp
  then show "(of_char c :: nat) div 16 < 16" by (simp add: less_mult_imp_div_less)
qed simp

lemma letter_value: "k < 16 \<Longrightarrow> (of_char (char_of (97 + k :: nat) :: char) :: nat) = 97 + k"
  by simp

lemma letters_inverse: "unletters (letters s) = s"
proof (induction s)
  case (Cons c s)
  then show ?case
    using letter_value[OF char_nibbles(1)[of c]] letter_value[OF char_nibbles(2)[of c]]
    by (simp add: letters_def Let_def div_mult_mod_eq del: of_char_of)
qed (simp add: letters_def)

lemma letters_range: "c \<in> set (letters s) \<Longrightarrow> 97 \<le> (of_char c :: nat) \<and> (of_char c :: nat) < 113"
  using letter_value[OF char_nibbles(1)] letter_value[OF char_nibbles(2)] char_nibbles
  by (fastforce simp: letters_def Let_def simp del: of_char_of)

lemma letter_range: "97 \<le> (of_char c :: nat) \<and> (of_char c :: nat) < 113 \<Longrightarrow> \<not> js_space c \<and> c \<noteq> CHR ''.'' \<and> c \<noteq> CHR ''s''"
  by (auto simp: js_space_def Let_def)

lemma letterPorts_ok: "jose_ok letterPorts"
proof -
  have ok: "\<not> js_space c" "c \<noteq> CHR ''.''" "c \<noteq> CHR ''s''" if "c \<in> set (letters s)" for c s
    using letter_range[OF letters_range[OF that]] by auto
  have sign: "jwt_sign letterPorts now u tid = letters u @ ''.'' @ (case tid of None \<Rightarrow> [] | Some t \<Rightarrow> ''t'' @ letters t)" for now u tid
    by (simp add: jwt_sign_def letterPorts_def split: option.split)
  have tw: "takeWhile (\<lambda>c. c \<noteq> CHR ''.'') (letters u @ CHR ''.'' # r) = letters u"
    "dropWhile (\<lambda>c. c \<noteq> CHR ''.'') (letters u @ CHR ''.'' # r) = CHR ''.'' # r" for u r
    using ok(2)[of _ u] by (auto simp: takeWhile_append2 dropWhile_append2)
  have v: "ap_jwtVerify letterPorts later (jwt_sign letterPorts now u tid) = Some \<lparr>jp_sub = Some u, jp_tid = tidClaim tid\<rparr>" for later now u tid
    unfolding sign by (cases tid) (simp_all add: letterPorts_def tw letters_inverse tidClaim_def)
  have sp: "list_all (\<lambda>x. \<not> js_space x) (jwt_sign letterPorts now u tid)" for now u tid
  proof -
    have "\<not> js_space (CHR ''.'')" "\<not> js_space (CHR ''t'')" by (simp_all add: js_space_def)
    then show ?thesis using ok(1) by (auto simp: sign list_all_iff split: option.split)
  qed
  have "\<not> js_starts_with ''bsk_'' (letters u @ CHR ''.'' # r)" for u r
  proof (cases "letters u")
    case (Cons a xs)
    then show ?thesis using ok(3)[of _ u] by (cases xs) (auto simp: js_starts_with_def)
  qed (simp add: js_starts_with_def)
  then show ?thesis using v sp by (simp add: jose_ok_def sign)
qed

lemmas schema_eval = z_and_def z_field_def z_id_def z_email_def z_min_def z_refine_def z_string_def obj_read_def obj_get_def

definition letterConfig :: apiConfig where
  "letterConfig = demoConfig\<lparr>cfg_ports := devApi\<lparr>api_auth := letterPorts\<rparr>\<rparr>"

definition loginRequest :: httpRequest where
  "loginRequest = registerRequest\<lparr>rq_body := JObj [(''email'', JStr ''ann@example.com''), (''password'', JStr ''correct horse'')]\<rparr>"

definition bearerRequest :: "string \<Rightarrow> httpRequest" where
  "bearerRequest token = devRequest\<lparr>rq_headers := [(''authorization'', JStr (''Bearer '' @ token))]\<rparr>"

lemma demo_login: "login testEnv ''ann@example.com'' ''correct horse'' demoTenant =
   (Inr \<lparr>lr_userId = sequentialId 0, lr_tenantId = Some (sequentialId 1), lr_refreshToken = sequentialId 6\<rparr>, demoLogin)"
proof -
  have "fst (login testEnv ''ann@example.com'' ''correct horse'' demoTenant) =
     Inr \<lparr>lr_userId = sequentialId 0, lr_tenantId = Some (sequentialId 1), lr_refreshToken = sequentialId 6\<rparr>"
    by code_simp
  then show ?thesis by (simp add: demoLogin_def prod_eq_iff)
qed


section \<open>The web flow\<close>

text \<open>The answer of the token flow, as the web flow gives it: the refresh token leaves the body for a cookie.\<close>

definition moved_to_cookie :: "authPorts \<Rightarrow> (failure + jsval) \<times> apiState \<Rightarrow> (failure + jsval) \<times> apiState \<Rightarrow> bool" where
  "moved_to_cookie ports tokenFlow webFlow \<longleftrightarrow> (case tokenFlow of
     (Inl e, s') \<Rightarrow> webFlow = (Inl e, s')
   | (Inr v, s') \<Rightarrow> (\<exists>session token. v = JObj (session @ [(''refreshToken'', JStr token)]) \<and> obj_get session ''refreshToken'' = None \<and>
       webFlow = (Inr (JObj session), s'\<lparr>as_cookies := as_cookies s' @
         [\<lparr>ck_name = ''refresh_token'', ck_value = token, ck_httpOnly = True, ck_sameSite = ''lax'', ck_path = ap_cookiePath ports,
           ck_secure = ap_cookieSecure ports, ck_maxAge = 14 * 24 * 60 * 60 * 1000\<rparr>]\<rparr>)))"

lemma session_has_no_token: "auth_session ports u tid s = (Inr session, s') \<Longrightarrow> obj_get session ''refreshToken'' = None"
  by (auto simp: auth_session_def obj_get_def split: option.splits)

lemma moved_signIn: "moved_to_cookie ports (auth_tokenSignIn env ports input s) (auth_session_cookie ports (auth_signIn env ports input) s)"
  using session_has_no_token
  by (fastforce simp: moved_to_cookie_def auth_tokenSignIn_def auth_session_cookie_def auth_signIn_def thenOutput_def withRefreshToken_def bindH_def
      liftH_def refreshCookie_set_def refreshCookie_options_def REFRESH_COOKIE_NAME_def REFRESH_TTL_MS_def split: prod.splits sum.splits)

lemma moved_refresh: "moved_to_cookie ports (auth_tokenRefresh env ports token s) (auth_session_cookie ports (auth_refresh env ports (Some token)) s)"
  using session_has_no_token
  by (fastforce simp: moved_to_cookie_def auth_tokenRefresh_def auth_session_cookie_def auth_refresh_def thenOutput_def withRefreshToken_def bindH_def
      liftH_def refreshCookie_set_def refreshCookie_options_def REFRESH_COOKIE_NAME_def REFRESH_TTL_MS_def split: prod.splits sum.splits)

text \<open>C20: The web flow of a session is the token flow with the refresh token in a cookie instead of the bodies: a web login, and a web refresh with
  the token in its cookie, succeed and fail exactly as the token login with the same body and the token refresh with the token in its
  body, with the same effect and the same answer but for the refresh token, which no web answer holds: it is set as an HttpOnly,
  SameSite=Lax cookie for fourteen days.\<close>

theorem web_flow_is_token_flow:
  assumes "refreshTokenInputSchema (rq_body rq2) = Some token" "refreshCookie_read rq1 = Some token"
  shows "moved_to_cookie (api_auth (cfg_ports cfg)) (endpoint_handler cfg rq AuthLogin als s) (endpoint_handler cfg rq AuthWebLogin als s) \<and>
    moved_to_cookie (api_auth (cfg_ports cfg)) (endpoint_handler cfg rq2 AuthRefresh als s) (endpoint_handler cfg rq1 AuthWebRefresh als s)"
proof
  show "moved_to_cookie (api_auth (cfg_ports cfg)) (endpoint_handler cfg rq AuthLogin als s) (endpoint_handler cfg rq AuthWebLogin als s)"
    using moved_signIn[where s = s]
    by (simp add: authController_login_def authController_webLogin_def bindH_def validate_eval split: option.split)
       (simp add: moved_to_cookie_def)
  show "moved_to_cookie (api_auth (cfg_ports cfg)) (endpoint_handler cfg rq2 AuthRefresh als s) (endpoint_handler cfg rq1 AuthWebRefresh als s)"
    using moved_refresh[where s = s] assms
    by (simp add: authController_refresh_def authController_webRefresh_def bindH_def validate_eval)
qed

lemma web_flow_is_token_flow_witness:
  "moved_to_cookie letterPorts
     (endpoint_handler letterConfig (loginRequest\<lparr>rq_body := JObj [(''refreshToken'', JStr (sequentialId 6))]\<rparr>) AuthRefresh None (idleApi demoLogin))
     (endpoint_handler letterConfig (loginRequest\<lparr>rq_cookies := Some [(''refresh_token'', JStr (sequentialId 6))]\<rparr>) AuthWebRefresh None (idleApi demoLogin))"
proof -
  have "sequentialId 6 \<noteq> []" by code_simp
  then have "refreshTokenInputSchema (rq_body (loginRequest\<lparr>rq_body := JObj [(''refreshToken'', JStr (sequentialId 6))]\<rparr>)) = Some (sequentialId 6)"
    "refreshCookie_read (loginRequest\<lparr>rq_cookies := Some [(''refresh_token'', JStr (sequentialId 6))]\<rparr>) = Some (sequentialId 6)"
    by (simp_all add: refreshTokenInputSchema_def schema_eval refreshCookie_read_def REFRESH_COOKIE_NAME_def Suc_le_eq)
  moreover have "api_auth (cfg_ports letterConfig) = letterPorts" by (simp add: letterConfig_def)
  ultimately show ?thesis using web_flow_is_token_flow by metis
qed

end
