(* ===== verification/HttpClient.thy ===== *)
theory HttpClient
  imports JsValue
begin

text \<open>
  packages/infrastructure/http-client: the outbound client.  The network, the URL parser of the platform, JSON, text decoding
  and the random numbers are ports; the client's own part is modelled whole: merged defaults, headers, bodies,
  the response cap, redirects, the retry loop with its backoff, and the errors it throws.
\<close>

section \<open>Requests, responses, policies\<close>

datatype httpMethod = GET | HEAD | POST | PUT | PATCH | DELETE

datatype retryTrigger = OnGET | OnHEAD | OnNetwork | OnTimeout | On429 | On503

record retryPolicy =
  rp_maxRetries :: int
  rp_retryOn :: "retryTrigger list"
  rp_backoffMin :: rat
  rp_backoffMax :: rat

text \<open>A body: missing, text, bytes or any other value, which is sent as JSON.\<close>

datatype requestBody = NoBody | TextBody string | BytesBody "nat list" | ValueBody jsval

text \<open>The caller's signal: whether it is aborted at a time.\<close>

record outRequest =
  hq_method :: httpMethod
  hq_url :: string
  hq_query :: "(string \<times> jsval) list option"
  hq_headers :: "(string \<times> string) list"
  hq_body :: requestBody
  hq_timeoutMs :: "int option"
  hq_retry :: "retryPolicy option"
  hq_idempotencyKey :: "string option"
  hq_signal :: "(int \<Rightarrow> bool) option"

record outResponse =
  os_status :: nat
  os_headers :: "(string \<times> string) list"
  os_body :: jsval

record clientScope =
  sc_name :: string
  sc_baseUrl :: "string option"
  sc_headers :: "(string \<times> string) list"
  sc_timeoutMs :: "int option"
  sc_retry :: "retryPolicy option"

record httpClientConfig =
  hc_timeoutMs :: int
  hc_maxResponseBytes :: nat
  hc_userAgent :: string
  hc_maxRedirects :: nat

text \<open>What a call can throw: the client's errors, another error by its name, or a value that is no error.\<close>

datatype transportError = HttpTimeoutError | HttpAbortedError | HttpResponseTooLargeError nat
  | HttpNetworkError "transportError option" | ErrorNamed string | NotAnError

fun error_name :: "transportError \<Rightarrow> string option" where
  "error_name HttpTimeoutError = Some ''HttpTimeoutError''"
| "error_name HttpAbortedError = Some ''HttpAbortedError''"
| "error_name (HttpResponseTooLargeError _) = Some ''HttpResponseTooLargeError''"
| "error_name (HttpNetworkError _) = Some ''HttpNetworkError''"
| "error_name (ErrorNamed n) = Some n"
| "error_name NotAnError = None"

section \<open>The wire\<close>

record wireRequest =
  wr_method :: httpMethod
  wr_url :: string
  wr_headers :: "(string \<times> string) list"
  wr_body :: requestBody

text \<open>A response as \<open>fetch\<close> gives it; reading its body takes time of its own and may fail.\<close>

record wireResponse =
  ws_status :: nat
  ws_headers :: "(string \<times> string) list"
  ws_body :: "transportError + nat list"
  ws_bodyMs :: int

record exchange =
  ex_elapsed :: int
  ex_result :: "transportError + wireResponse"

text \<open>
  The ports: the network by the number of fetches so far, \<open>new URL\<close> with its base as the normal form of an address, the
  host and \<open>searchParams.set\<close> of a normal form, \<open>String\<close>, \<open>Number\<close>, JSON, UTF-8, and the random numbers by how many were drawn.
\<close>

record clientPorts =
  cp_fetch :: "nat \<Rightarrow> wireRequest \<Rightarrow> exchange"
  cp_url :: "string \<Rightarrow> string option \<Rightarrow> string option"
  cp_host :: "string \<Rightarrow> string"
  cp_setParam :: "string \<Rightarrow> string \<Rightarrow> string \<Rightarrow> string"
  cp_string :: "jsval \<Rightarrow> string"
  cp_number :: "string \<Rightarrow> number"
  cp_stringify :: "jsval \<Rightarrow> string"
  cp_jsonParse :: "string \<Rightarrow> jsval option"
  cp_decode :: "nat list \<Rightarrow> string"
  cp_random :: "nat \<Rightarrow> rat"

record clientLog =
  cg_level :: string
  cg_context :: string
  cg_method :: httpMethod
  cg_host :: string
  cg_status :: "nat option"
  cg_durationMs :: int

record clientState =
  cs_now :: int
  cs_requestId :: "string option"
  cs_sent :: "wireRequest list"
  cs_log :: "clientLog list"
  cs_backoffs :: "rat list"

record httpClient =
  cl_config :: httpClientConfig
  cl_defaults :: clientScope

section \<open>The client's own steps\<close>

definition defaultRetry :: retryPolicy where
  "defaultRetry = \<lparr>rp_maxRetries = 2, rp_retryOn = [OnGET, OnHEAD, OnNetwork, OnTimeout, On429, On503], rp_backoffMin = 50, rp_backoffMax = 250\<rparr>"

definition safeMethods :: "httpMethod list" where "safeMethods = [GET, HEAD]"

definition redirectStatuses :: "nat list" where "redirectStatuses = [301, 302, 303, 307, 308]"

definition orElse :: "'a option \<Rightarrow> 'a option \<Rightarrow> 'a option" where
  "orElse a b = (case a of None \<Rightarrow> b | Some x \<Rightarrow> Some x)"

definition client_new :: "httpClientConfig \<Rightarrow> clientScope \<Rightarrow> httpClient" where
  "client_new config defaults = \<lparr>cl_config = config,
     cl_defaults = defaults\<lparr>sc_timeoutMs := orElse (sc_timeoutMs defaults) (Some (hc_timeoutMs config))\<rparr>\<rparr>"

text \<open>\<open>{...a, ...b}\<close> on records of strings.\<close>

definition spread :: "(string \<times> string) list \<Rightarrow> (string \<times> string) list \<Rightarrow> (string \<times> string) list" where
  "spread a b = fold (upsert fst) b (fold (upsert fst) a [])"

definition client_scope :: "httpClient \<Rightarrow> clientScope \<Rightarrow> httpClient" where
  "client_scope cl d = client_new (cl_config cl) \<lparr>sc_name = sc_name d,
     sc_baseUrl = orElse (sc_baseUrl d) (sc_baseUrl (cl_defaults cl)),
     sc_headers = spread (sc_headers (cl_defaults cl)) (sc_headers d),
     sc_timeoutMs = orElse (sc_timeoutMs d) (sc_timeoutMs (cl_defaults cl)),
     sc_retry = orElse (sc_retry d) (sc_retry (cl_defaults cl))\<rparr>"

fun isJsonBody :: "requestBody \<Rightarrow> bool" where
  "isJsonBody (ValueBody _) = True"
| "isJsonBody _ = False"

definition encodeBody :: "clientPorts \<Rightarrow> outRequest \<Rightarrow> requestBody" where
  "encodeBody ports req = (case hq_body req of ValueBody v \<Rightarrow> TextBody (cp_stringify ports v) | b \<Rightarrow> b)"

definition hasHeader :: "(string \<times> string) list \<Rightarrow> string \<Rightarrow> bool" where
  "hasHeader hs k \<longleftrightarrow> k \<in> set (map fst hs)"

definition buildHeaders :: "httpClient \<Rightarrow> outRequest \<Rightarrow> string option \<Rightarrow> (string \<times> string) list" where
  "buildHeaders cl req contextId = (let
     h0 = spread (sc_headers (cl_defaults cl)) (hq_headers req);
     h1 = (if hasHeader h0 ''user-agent'' then h0 else upsert fst (''user-agent'', hc_userAgent (cl_config cl)) h0);
     h2 = (case hq_idempotencyKey req of None \<Rightarrow> h1 | Some k \<Rightarrow> upsert fst (''idempotency-key'', k) h1);
     h3 = (case contextId of None \<Rightarrow> h2 | Some i \<Rightarrow> if hasHeader h2 ''x-request-id'' then h2 else upsert fst (''x-request-id'', i) h2) in
     if isJsonBody (hq_body req) \<and> \<not> hasHeader h3 ''content-type'' then upsert fst (''content-type'', ''application/json'') h3 else h3)"

definition resolveUrl :: "clientPorts \<Rightarrow> httpClient \<Rightarrow> outRequest \<Rightarrow> string option" where
  "resolveUrl ports cl req = map_option
     (\<lambda>u. case hq_query req of None \<Rightarrow> u | Some q \<Rightarrow>
        fold (\<lambda>(k, v) u. if v = JUndefined then u else cp_setParam ports u k (cp_string ports v)) q u)
     (cp_url ports (hq_url req) (sc_baseUrl (cl_defaults cl)))"

definition resolveRetry :: "httpClient \<Rightarrow> outRequest \<Rightarrow> retryPolicy option" where
  "resolveRetry cl req = (case hq_retry req of Some p \<Rightarrow> Some p | None \<Rightarrow> (case sc_retry (cl_defaults cl) of Some p \<Rightarrow> Some p | None \<Rightarrow>
     if hq_method req \<notin> set safeMethods \<and> hq_idempotencyKey req = None then None else Some defaultRetry))"

definition shouldRetryStatus :: "nat \<Rightarrow> retryPolicy \<Rightarrow> bool" where
  "shouldRetryStatus status p \<longleftrightarrow> (status = 429 \<and> On429 \<in> set (rp_retryOn p)) \<or> (status = 503 \<and> On503 \<in> set (rp_retryOn p))"

fun shouldRetryError :: "transportError \<Rightarrow> retryPolicy \<Rightarrow> bool" where
  "shouldRetryError HttpTimeoutError p = (OnTimeout \<in> set (rp_retryOn p))"
| "shouldRetryError (HttpNetworkError _) p = (OnNetwork \<in> set (rp_retryOn p))"
| "shouldRetryError _ p = False"

definition backoff :: "clientPorts \<Rightarrow> retryPolicy \<Rightarrow> clientState \<Rightarrow> clientState" where
  "backoff ports p s = (let delay = rp_backoffMin p + cp_random ports (length (cs_backoffs s)) * max (rp_backoffMax p - rp_backoffMin p) 0 in
     s\<lparr>cs_now := cs_now s + max 1 \<lfloor>delay\<rfloor>, cs_backoffs := cs_backoffs s @ [delay]\<rparr>)"

definition contains :: "string \<Rightarrow> string \<Rightarrow> bool" where
  "contains s p \<longleftrightarrow> (\<exists>n \<in> set [0..<Suc (length s)]. js_starts_with p (drop n s))"

text \<open>The body of a response, within the cap; JSON when it says so.\<close>

definition declaredTooLarge :: "clientPorts \<Rightarrow> httpClient \<Rightarrow> wireResponse \<Rightarrow> bool" where
  "declaredTooLarge ports cl r = (case map_of (ws_headers r) ''content-length'' of None \<Rightarrow> False
     | Some n \<Rightarrow> num_lt (num (int (hc_maxResponseBytes (cl_config cl)))) (cp_number ports n))"

definition readBody :: "clientPorts \<Rightarrow> httpClient \<Rightarrow> wireResponse \<Rightarrow> transportError + outResponse" where
  "readBody ports cl r = (let cap = hc_maxResponseBytes (cl_config cl) in
     if declaredTooLarge ports cl r then Inl (HttpResponseTooLargeError cap)
     else bindR (ws_body r) (\<lambda>bytes.
       if cap < length bytes then Inl (HttpResponseTooLargeError cap)
       else let contentType = (case map_of (ws_headers r) ''content-type'' of None \<Rightarrow> '''' | Some c \<Rightarrow> c); raw = cp_decode ports bytes in
         bindR (if contains contentType ''application/json'' \<and> raw \<noteq> ''''
           then (case cp_jsonParse ports raw of None \<Rightarrow> Inl (ErrorNamed ''SyntaxError'') | Some v \<Rightarrow> Inr v) else Inr (JStr raw)) (\<lambda>body.
         Inr \<lparr>os_status = ws_status r, os_headers = fold (upsert fst) (ws_headers r) [], os_body = body\<rparr>)))"

text \<open>The request that follows a redirect, when one is followed: only for safe methods, within the limit, on the same host.\<close>

definition followRedirect :: "clientPorts \<Rightarrow> httpClient \<Rightarrow> outRequest \<Rightarrow> wireResponse \<Rightarrow> nat \<Rightarrow> transportError + outRequest option" where
  "followRedirect ports cl req r redirectCount =
     (if ws_status r \<notin> set redirectStatuses \<or> hq_method req \<notin> set safeMethods then Inr None
      else case map_of (ws_headers r) ''location'' of
        None \<Rightarrow> Inr None
      | Some location \<Rightarrow> if hc_maxRedirects (cl_config cl) \<le> redirectCount then Inr None
          else (case Option.bind (resolveUrl ports cl req) (\<lambda>u. cp_url ports u None) of
            None \<Rightarrow> Inl (ErrorNamed ''TypeError'')
          | Some current \<Rightarrow> (case cp_url ports location (Some current) of
              None \<Rightarrow> Inl (ErrorNamed ''TypeError'')
            | Some nxt \<Rightarrow> if cp_host ports nxt \<noteq> cp_host ports current then Inr None
                else Inr (Some (req\<lparr>hq_url := nxt, hq_query := None\<rparr>)))))"

definition rethrow :: "transportError \<Rightarrow> bool \<Rightarrow> bool \<Rightarrow> transportError" where
  "rethrow err timedOut callerAborted =
     (if callerAborted then HttpAbortedError
      else if timedOut \<or> error_name err = Some ''TimeoutError'' then HttpTimeoutError
      else if error_name err = Some ''AbortError'' then HttpAbortedError
      else case err of HttpTimeoutError \<Rightarrow> err | HttpAbortedError \<Rightarrow> err | HttpResponseTooLargeError _ \<Rightarrow> err
        | _ \<Rightarrow> HttpNetworkError (Some err))"

section \<open>A dispatch and a request\<close>

text \<open>The failure path of one dispatch: the warning and the error the caller sees; the timeout has fired when its time is up.\<close>

definition caught :: "httpClient \<Rightarrow> outRequest \<Rightarrow> string \<Rightarrow> int \<Rightarrow> int \<Rightarrow> transportError \<Rightarrow> clientState \<Rightarrow> (transportError + outResponse) \<times> clientState" where
  "caught cl req host started timeoutMs err s =
     (Inl (rethrow err (timeoutMs \<le> cs_now s - started) (case hq_signal req of None \<Rightarrow> False | Some sig \<Rightarrow> sig (cs_now s))),
      s\<lparr>cs_log := cs_log s @ [\<lparr>cg_level = ''warn'', cg_context = sc_name (cl_defaults cl), cg_method = hq_method req, cg_host = host,
         cg_status = None, cg_durationMs = cs_now s - started\<rparr>]\<rparr>)"

lemma followed_redirect:
  assumes "followRedirect ports cl req r n = Inr (Some req')"
  shows "n < hc_maxRedirects (cl_config cl)" "hq_method req \<in> set safeMethods" "hq_method req' = hq_method req" "hq_query req' = None"
    "\<exists>u cur. resolveUrl ports cl req = Some u \<and> cp_url ports u None = Some cur \<and> cp_host ports (hq_url req') = cp_host ports cur \<and>
       (\<exists>l. cp_url ports l (Some cur) = Some (hq_url req'))"
  using assms by (auto simp: followRedirect_def split: if_splits option.splits Option.bind_splits)

function dispatch :: "clientPorts \<Rightarrow> httpClient \<Rightarrow> int \<Rightarrow> outRequest \<Rightarrow> nat \<Rightarrow> clientState \<Rightarrow> (transportError + outResponse) \<times> clientState" where
  "dispatch ports cl timeoutMs req redirectCount s = (case resolveUrl ports cl req of
     None \<Rightarrow> (Inl (ErrorNamed ''TypeError''), s)
   | Some u \<Rightarrow> (case cp_url ports u None of
       None \<Rightarrow> (Inl (ErrorNamed ''TypeError''), s)
     | Some parsed \<Rightarrow> (let
         started = cs_now s; host = cp_host ports parsed;
         wire = \<lparr>wr_method = hq_method req, wr_url = u, wr_headers = buildHeaders cl req (cs_requestId s), wr_body = encodeBody ports req\<rparr>;
         ex = cp_fetch ports (length (cs_sent s)) wire;
         s1 = s\<lparr>cs_now := started + ex_elapsed ex, cs_sent := cs_sent s @ [wire]\<rparr> in
         case ex_result ex of
           Inl e \<Rightarrow> caught cl req host started timeoutMs e s1
         | Inr r \<Rightarrow> (case followRedirect ports cl req r redirectCount of
             Inl e \<Rightarrow> caught cl req host started timeoutMs e s1
           | Inr (Some req') \<Rightarrow> (case dispatch ports cl timeoutMs req' (Suc redirectCount) s1 of
               (Inl e, s2) \<Rightarrow> caught cl req host started timeoutMs e s2
             | (Inr v, s2) \<Rightarrow> (Inr v, s2))
           | Inr None \<Rightarrow> (let s2 = (if declaredTooLarge ports cl r then s1 else s1\<lparr>cs_now := cs_now s1 + ws_bodyMs r\<rparr>) in
               case readBody ports cl r of
                 Inl e \<Rightarrow> caught cl req host started timeoutMs e s2
               | Inr v \<Rightarrow> (Inr v, s2\<lparr>cs_log := cs_log s2 @ [\<lparr>cg_level = ''info'', cg_context = sc_name (cl_defaults cl),
                   cg_method = hq_method req, cg_host = host, cg_status = Some (os_status v), cg_durationMs = cs_now s2 - started\<rparr>]\<rparr>))))))"
  by pat_completeness auto
termination
  by (relation "measure (\<lambda>(ports, cl, t, req, n, s). hc_maxRedirects (cl_config cl) - n)") (auto dest: followed_redirect(1))

declare dispatch.simps [simp del]

text \<open>The loop over the attempts: \<open>n\<close> are left.\<close>

fun request_loop :: "clientPorts \<Rightarrow> httpClient \<Rightarrow> int \<Rightarrow> outRequest \<Rightarrow> retryPolicy option \<Rightarrow> nat \<Rightarrow> int \<Rightarrow> clientState
    \<Rightarrow> (transportError + outResponse) \<times> clientState" where
  "request_loop ports cl timeoutMs req retry 0 attempt s = (Inl (HttpNetworkError None), s)"
| "request_loop ports cl timeoutMs req retry (Suc n) attempt s = (case dispatch ports cl timeoutMs req 0 s of
     (Inr v, s1) \<Rightarrow> (case retry of
         None \<Rightarrow> (Inr v, s1)
       | Some p \<Rightarrow> if rp_maxRetries p \<le> attempt \<or> \<not> shouldRetryStatus (os_status v) p then (Inr v, s1)
           else request_loop ports cl timeoutMs req retry n (attempt + 1) (backoff ports p s1))
   | (Inl e, s1) \<Rightarrow> (case retry of
         None \<Rightarrow> (Inl e, s1)
       | Some p \<Rightarrow> if rp_maxRetries p \<le> attempt \<or> \<not> shouldRetryError e p then (Inl e, s1)
           else request_loop ports cl timeoutMs req retry n (attempt + 1) (backoff ports p s1)))"

definition client_request :: "clientPorts \<Rightarrow> httpClient \<Rightarrow> outRequest \<Rightarrow> clientState \<Rightarrow> (transportError + outResponse) \<times> clientState" where
  "client_request ports cl req s = (let
     timeoutMs = (case orElse (hq_timeoutMs req) (sc_timeoutMs (cl_defaults cl)) of Some t \<Rightarrow> t | None \<Rightarrow> hc_timeoutMs (cl_config cl));
     retry = resolveRetry cl req;
     maxAttempts = 1 + (case retry of None \<Rightarrow> 0 | Some p \<Rightarrow> rp_maxRetries p) in
     request_loop ports cl timeoutMs req retry (nat maxAttempts) 0 s)"

section \<open>What a request sends and throws\<close>

text \<open>What the platform's \<open>URL\<close> promises: a normal form parses to itself, whatever the base, and stays one when a parameter is set.\<close>

definition url_ok :: "clientPorts \<Rightarrow> bool" where
  "url_ok ports \<longleftrightarrow>
     (\<forall>s b h. cp_url ports s b = Some h \<longrightarrow> (\<forall>b'. cp_url ports h b' = Some h)) \<and>
     (\<forall>h k v. cp_url ports h None = Some h \<longrightarrow> cp_url ports (cp_setParam ports h k v) None = Some (cp_setParam ports h k v))"

lemma resolved_normal:
  assumes "url_ok ports" "resolveUrl ports cl req = Some u"
  shows "cp_url ports u None = Some u"
proof -
  have params: "cp_url ports (fold (\<lambda>(k, v) u. if v = JUndefined then u else cp_setParam ports u k (cp_string ports v)) q h) None =
      Some (fold (\<lambda>(k, v) u. if v = JUndefined then u else cp_setParam ports u k (cp_string ports v)) q h)"
    if "cp_url ports h None = Some h" for h q
    using that assms(1) by (induction q arbitrary: h) (auto simp: url_ok_def)
  obtain h where h: "cp_url ports (hq_url req) (sc_baseUrl (cl_defaults cl)) = Some h"
    "u = (case hq_query req of None \<Rightarrow> h | Some q \<Rightarrow>
        fold (\<lambda>(k, v) u. if v = JUndefined then u else cp_setParam ports u k (cp_string ports v)) q h)"
    using assms(2) by (auto simp: resolveUrl_def)
  have "cp_url ports h None = Some h" using assms(1) h(1) by (auto simp: url_ok_def)
  then show ?thesis using params h(2) by (cases "hq_query req") simp_all
qed

lemma caught_sent [simp]: "cs_sent (snd (caught cl req host t tm e s)) = cs_sent s"
  by (simp add: caught_def)

lemma backoff_sent [simp]: "cs_sent (backoff ports p s) = cs_sent s"
  by (simp add: backoff_def Let_def)

text \<open>The errors the client throws.\<close>

fun client_error :: "transportError \<Rightarrow> bool" where
  "client_error HttpTimeoutError = True"
| "client_error HttpAbortedError = True"
| "client_error (HttpResponseTooLargeError _) = True"
| "client_error (HttpNetworkError _) = True"
| "client_error _ = False"

lemma rethrow_typed: "client_error (rethrow e b c)"
  by (cases e) (simp_all add: rethrow_def)

definition unresolvable :: "clientPorts \<Rightarrow> httpClient \<Rightarrow> outRequest \<Rightarrow> bool" where
  "unresolvable ports cl req \<longleftrightarrow> Option.bind (resolveUrl ports cl req) (\<lambda>u. cp_url ports u None) = None"

text \<open>One dispatch: an address that is none, one request on the wire, or one and a redirect that is followed.\<close>

lemma dispatch_cases:
  obtains (bad) "unresolvable ports cl req" "dispatch ports cl t req n s = (Inl (ErrorNamed ''TypeError''), s)"
  | (one) u w where "\<not> unresolvable ports cl req" "resolveUrl ports cl req = Some u" "wr_url w = u" "wr_method w = hq_method req"
      "cs_sent (snd (dispatch ports cl t req n s)) = cs_sent s @ [w]" "\<And>e. fst (dispatch ports cl t req n s) = Inl e \<Longrightarrow> client_error e"
  | (more) u w r req' s1 where "\<not> unresolvable ports cl req" "resolveUrl ports cl req = Some u" "wr_url w = u" "wr_method w = hq_method req"
      "followRedirect ports cl req r n = Inr (Some req')" "cs_sent s1 = cs_sent s @ [w]"
      "cs_sent (snd (dispatch ports cl t req n s)) = cs_sent (snd (dispatch ports cl t req' (Suc n) s1))"
      "\<And>e. fst (dispatch ports cl t req n s) = Inl e \<Longrightarrow> client_error e"
proof (cases "Option.bind (resolveUrl ports cl req) (\<lambda>u. cp_url ports u None)")
  case None
  then show thesis by (intro bad) (auto simp: unresolvable_def dispatch.simps[of ports cl t req] split: Option.bind_splits)
next
  case (Some parsed)
  then obtain u where u: "resolveUrl ports cl req = Some u" "cp_url ports u None = Some parsed" by (auto split: Option.bind_splits)
  have ok: "\<not> unresolvable ports cl req" using Some by (simp add: unresolvable_def)
  let ?w = "\<lparr>wr_method = hq_method req, wr_url = u, wr_headers = buildHeaders cl req (cs_requestId s), wr_body = encodeBody ports req\<rparr>"
  let ?ex = "cp_fetch ports (length (cs_sent s)) ?w"
  let ?s1 = "s\<lparr>cs_now := cs_now s + ex_elapsed ?ex, cs_sent := cs_sent s @ [?w]\<rparr>"
  show thesis
  proof (cases "\<exists>r req'. ex_result ?ex = Inr r \<and> followRedirect ports cl req r n = Inr (Some req')")
    case True
    then obtain r req' where r: "ex_result ?ex = Inr r" "followRedirect ports cl req r n = Inr (Some req')" by blast
    show thesis
      by (rule more[of u ?w r req' ?s1, OF ok u(1) _ _ r(2)])
         (use r u in \<open>auto simp: dispatch.simps[of ports cl t req] Let_def caught_def rethrow_typed split: prod.splits sum.splits\<close>)
  next
    case False
    show thesis
      by (rule one[of u ?w, OF ok u(1)])
         (use False u in \<open>auto simp: dispatch.simps[of ports cl t req] Let_def caught_def rethrow_typed split: sum.splits option.splits\<close>)
  qed
qed

text \<open>The requests one dispatch sends: one, and one for each redirect it follows.\<close>

lemma dispatch_sends:
  "\<exists>ws. cs_sent (snd (dispatch ports cl t req n s)) = cs_sent s @ ws \<and>
     length ws \<le> (if hq_method req \<in> set safeMethods then Suc (hc_maxRedirects (cl_config cl) - n) else 1) \<and>
     (\<forall>w \<in> set ws. wr_method w = hq_method req)"
proof (induction "hc_maxRedirects (cl_config cl) - n" arbitrary: req n s rule: less_induct)
  case less
  show ?case
  proof (cases rule: dispatch_cases[of ports cl req t n s])
    case (more u w r req' s1)
    note f = followed_redirect[OF more(5)]
    have shorter: "hc_maxRedirects (cl_config cl) - Suc n < hc_maxRedirects (cl_config cl) - n" using f(1) by simp
    obtain ws where "cs_sent (snd (dispatch ports cl t req' (Suc n) s1)) = cs_sent s1 @ ws"
      "length ws \<le> Suc (hc_maxRedirects (cl_config cl) - Suc n)" "\<forall>w \<in> set ws. wr_method w = hq_method req"
      using less[OF shorter, of req' s1] f(2,3) by auto
    then show ?thesis using more(4,6,7) f(1,2) by (intro exI[of _ "w # ws"]) auto
  qed auto
qed

lemma dispatch_hosts:
  assumes "url_ok ports" "resolveUrl ports cl req = Some u"
  shows "\<exists>ws. cs_sent (snd (dispatch ports cl t req n s)) = cs_sent s @ ws \<and> (\<forall>w \<in> set ws. cp_host ports (wr_url w) = cp_host ports u)"
  using assms(2)
proof (induction "hc_maxRedirects (cl_config cl) - n" arbitrary: req u n s rule: less_induct)
  case less
  show ?case
  proof (cases rule: dispatch_cases[of ports cl req t n s])
    case (more u' w r req' s1)
    note f = followed_redirect[OF more(5)]
    have shorter: "hc_maxRedirects (cl_config cl) - Suc n < hc_maxRedirects (cl_config cl) - n" using f(1) by simp
    have "cp_url ports u None = Some u" by (rule resolved_normal[OF assms(1) less.prems])
    then obtain l where l: "cp_url ports l (Some u) = Some (hq_url req')" "cp_host ports (hq_url req') = cp_host ports u"
      using f(5) less.prems by auto
    then have r: "resolveUrl ports cl req' = Some (hq_url req')"
      using f(4) assms(1) by (auto simp: resolveUrl_def url_ok_def)
    obtain ws where "cs_sent (snd (dispatch ports cl t req' (Suc n) s1)) = cs_sent s1 @ ws"
      "\<forall>w \<in> set ws. cp_host ports (wr_url w) = cp_host ports (hq_url req')"
      using less.hyps[OF shorter r, of s1] by auto
    then show ?thesis using more less.prems l(2) by (intro exI[of _ "w # ws"]) auto
  qed (use less.prems in auto)
qed

text \<open>What every dispatch of a request keeps, the loop keeps; the number of dispatches is bounded by its fuel.\<close>

lemma loop_sends:
  assumes "\<And>s. \<exists>ws. cs_sent (snd (dispatch ports cl t req 0 s)) = cs_sent s @ ws \<and> length ws \<le> k \<and> (\<forall>w \<in> set ws. P w)"
  shows "\<exists>ws. cs_sent (snd (request_loop ports cl t req retry n i s)) = cs_sent s @ ws \<and> length ws \<le> n * k \<and> (\<forall>w \<in> set ws. P w)"
proof (induction n arbitrary: i s)
  case (Suc n)
  obtain r s1 where d: "dispatch ports cl t req 0 s = (r, s1)" by fastforce
  then obtain ws where ws: "cs_sent s1 = cs_sent s @ ws" "length ws \<le> k" "\<forall>w \<in> set ws. P w" using assms[of s] by auto
  have stop: ?case if "request_loop ports cl t req retry (Suc n) i s = (r, s1)"
    using that ws by (intro exI[of _ ws]) auto
  have again: ?case if "request_loop ports cl t req retry (Suc n) i s = request_loop ports cl t req retry n (i + 1) (backoff ports p s1)" for p
  proof -
    obtain vs where "cs_sent (snd (request_loop ports cl t req retry n (i + 1) (backoff ports p s1))) = cs_sent s1 @ vs"
      "length vs \<le> n * k" "\<forall>w \<in> set vs. P w" using Suc[of "i + 1" "backoff ports p s1"] by auto
    then show ?thesis using that ws by (intro exI[of _ "ws @ vs"]) auto
  qed
  show ?case
  proof (cases retry)
    case None
    then show ?thesis using stop d by (simp split: sum.split)
  next
    case (Some p)
    then show ?thesis using stop again[of p] d by (cases r) (auto split: if_splits)
  qed
qed simp

end
