(* ===== verification/HttpClientGuarantees.thy ===== *)
theory HttpClientGuarantees
  imports HttpClient
begin

text \<open>
  What the outbound client guarantees: how many requests it sends and where, and what it throws.
\<close>

section \<open>A network to run against\<close>

text \<open>A network that redirects the first request on the same host, is unavailable for the second, and answers the rest.\<close>

definition flakyPorts :: clientPorts where
  "flakyPorts = \<lparr>
     cp_fetch = (\<lambda>n w. \<lparr>ex_elapsed = 5, ex_result = Inr (
       if n = 0 then \<lparr>ws_status = 302, ws_headers = [(''location'', ''https://api.example.com/v2'')], ws_body = Inr [], ws_bodyMs = 0\<rparr>
       else if n = 1 then \<lparr>ws_status = 503, ws_headers = [], ws_body = Inr [], ws_bodyMs = 1\<rparr>
       else \<lparr>ws_status = 200, ws_headers = [], ws_body = Inr [], ws_bodyMs = 1\<rparr>)\<rparr>),
     cp_url = (\<lambda>s _. Some s), cp_host = (\<lambda>u. takeWhile (\<lambda>c. c \<noteq> CHR ''/'') (drop 8 u)), cp_setParam = (\<lambda>u _ _. u),
     cp_string = (\<lambda>_. ''''), cp_number = (\<lambda>_. NaN), cp_stringify = (\<lambda>_. ''{}''), cp_jsonParse = (\<lambda>_. None),
     cp_decode = map char_of, cp_random = (\<lambda>_. 0)\<rparr>"

definition flakyClient :: httpClient where
  "flakyClient = client_new \<lparr>hc_timeoutMs = 10000, hc_maxResponseBytes = 2097152, hc_userAgent = ''b2b-saas-http-client'', hc_maxRedirects = 3\<rparr>
     \<lparr>sc_name = ''http-client'', sc_baseUrl = None, sc_headers = [], sc_timeoutMs = None, sc_retry = None\<rparr>"

definition plainRequest :: "httpMethod \<Rightarrow> outRequest" where
  "plainRequest meth = \<lparr>hq_method = meth, hq_url = ''https://api.example.com/v1'', hq_query = None, hq_headers = [], hq_body = NoBody,
     hq_timeoutMs = None, hq_retry = None, hq_idempotencyKey = None, hq_signal = None\<rparr>"

definition clientStart :: clientState where
  "clientStart = \<lparr>cs_now = 0, cs_requestId = None, cs_sent = [], cs_log = [], cs_backoffs = []\<rparr>"

lemma flaky_url_ok: "url_ok flakyPorts"
  by (simp add: url_ok_def flakyPorts_def)

section \<open>Where requests go\<close>

lemma request_sends:
  assumes "\<And>s. \<exists>ws. cs_sent (snd (dispatch ports cl t req 0 s)) = cs_sent s @ ws \<and> length ws \<le> k \<and> (\<forall>w \<in> set ws. P w)"
    "t = (case orElse (hq_timeoutMs req) (sc_timeoutMs (cl_defaults cl)) of Some t \<Rightarrow> t | None \<Rightarrow> hc_timeoutMs (cl_config cl))"
  shows "\<exists>ws. cs_sent (snd (client_request ports cl req s)) = cs_sent s @ ws \<and>
    length ws \<le> nat (1 + (case resolveRetry cl req of None \<Rightarrow> 0 | Some p \<Rightarrow> rp_maxRetries p)) * k \<and> (\<forall>w \<in> set ws. P w)"
  using loop_sends[OF assms(1), where n = "nat (1 + (case resolveRetry cl req of None \<Rightarrow> 0 | Some p \<Rightarrow> rp_maxRetries p))" and i = 0]
  unfolding client_request_def Let_def assms(2) by blast



text \<open>C31: The outbound client sends a bounded number of requests: with the retry policy in force one more than its retries, each with one more than
  the redirects of the configuration, which only safe methods follow.  A write without an idempotency key and without a policy of the
  caller or the scope is sent once at most.\<close>

theorem client_sends_bounded:
  "length (cs_sent (snd (client_request ports cl req s))) \<le> length (cs_sent s) +
     nat (1 + (case resolveRetry cl req of None \<Rightarrow> 0 | Some p \<Rightarrow> rp_maxRetries p)) *
       (if hq_method req \<in> set safeMethods then Suc (hc_maxRedirects (cl_config cl)) else 1) \<and>
   (hq_method req \<notin> {GET, HEAD} \<longrightarrow> hq_idempotencyKey req = None \<longrightarrow> hq_retry req = None \<longrightarrow> sc_retry (cl_defaults cl) = None \<longrightarrow>
     length (cs_sent (snd (client_request ports cl req s))) \<le> length (cs_sent s) + 1)"
proof -
  let ?k = "if hq_method req \<in> set safeMethods then Suc (hc_maxRedirects (cl_config cl)) else 1"
  let ?n = "nat (1 + (case resolveRetry cl req of None \<Rightarrow> 0 | Some p \<Rightarrow> rp_maxRetries p))"
  have "\<exists>ws. cs_sent (snd (dispatch ports cl t req 0 s)) = cs_sent s @ ws \<and> length ws \<le> ?k \<and> (\<forall>w \<in> set ws. True)" for t s
    using dispatch_sends[of ports cl t req 0 s] by auto
  from request_sends[OF this refl, of s] have all: "length (cs_sent (snd (client_request ports cl req s))) \<le> length (cs_sent s) + ?n * ?k" by auto
  moreover have "?n * ?k = 1"
    if "hq_method req \<notin> {GET, HEAD}" "hq_idempotencyKey req = None" "hq_retry req = None" "sc_retry (cl_defaults cl) = None"
    using that by (simp add: resolveRetry_def safeMethods_def)
  ultimately show ?thesis by metis
qed

theorem client_sends_bounded_witness:
  "length (cs_sent (snd (client_request flakyPorts flakyClient (plainRequest POST) clientStart))) \<le> 1"
  using client_sends_bounded[of flakyPorts flakyClient "plainRequest POST" clientStart]
  by (simp add: plainRequest_def clientStart_def flakyClient_def client_new_def)

section \<open>What it throws\<close>

lemma dispatch_error:
  assumes "fst (dispatch ports cl t req n s) = Inl e"
  shows "if unresolvable ports cl req then e = ErrorNamed ''TypeError'' \<and> snd (dispatch ports cl t req n s) = s else client_error e"
  using assms by (cases rule: dispatch_cases[of ports cl req t n s]) auto

lemma dispatch_unresolvable: "unresolvable ports cl req \<Longrightarrow> dispatch ports cl t req n s = (Inl (ErrorNamed ''TypeError''), s)"
  by (cases rule: dispatch_cases[of ports cl req t n s]) auto

lemma loop_unresolvable:
  "unresolvable ports cl req \<Longrightarrow> request_loop ports cl t req retry (Suc n) i s = (Inl (ErrorNamed ''TypeError''), s)"
  by (simp add: dispatch_unresolvable split: option.split)

lemma loop_error:
  assumes "\<not> unresolvable ports cl req"
  shows "fst (request_loop ports cl t req retry n i s) = Inl e \<Longrightarrow> client_error e"
proof (induction n arbitrary: i s)
  case (Suc n)
  then show ?case using dispatch_error[of ports cl t req 0 s] assms
    by (auto split: prod.splits sum.splits option.splits if_splits)
qed auto

text \<open>The outbound client throws its own errors only: a request that fails ends in a timeout, an abort, a response over the cap or a network
  error, whatever the network threw, and however many retries and redirects there were; the one exception is an address
  that is no URL, which is thrown as a \<open>TypeError\<close> before anything is sent.\<close>

theorem client_errors_typed:
  "case client_request ports cl req s of
     (Inr v, s') \<Rightarrow> True
   | (Inl e, s') \<Rightarrow> (case e of HttpTimeoutError \<Rightarrow> True | HttpAbortedError \<Rightarrow> True | HttpResponseTooLargeError _ \<Rightarrow> True | HttpNetworkError _ \<Rightarrow> True
       | _ \<Rightarrow> e = ErrorNamed ''TypeError'' \<and> cs_sent s' = cs_sent s \<and> Option.bind (resolveUrl ports cl req) (\<lambda>u. cp_url ports u None) = None)"
proof -
  let ?n = "nat (1 + (case resolveRetry cl req of None \<Rightarrow> 0 | Some p \<Rightarrow> rp_maxRetries p))"
  let ?t = "case orElse (hq_timeoutMs req) (sc_timeoutMs (cl_defaults cl)) of Some t \<Rightarrow> t | None \<Rightarrow> hc_timeoutMs (cl_config cl)"
  have r: "client_request ports cl req s = request_loop ports cl ?t req (resolveRetry cl req) ?n 0 s"
    by (simp add: client_request_def Let_def)
  show ?thesis
  proof (cases "?n = 0 \<or> \<not> unresolvable ports cl req")
    case True
    then show ?thesis using loop_error[of ports cl req ?t "resolveRetry cl req" ?n 0 s] unfolding r
      by (auto split: prod.splits sum.splits transportError.split)
  next
    case False
    then obtain n where "?n = Suc n" "unresolvable ports cl req" by (metis not0_implies_Suc)
    then show ?thesis unfolding r by (simp add: loop_unresolvable del: request_loop.simps) (simp add: unresolvable_def)
  qed
qed

end
