(* ===== verification/Config.thy ===== *)
theory Config
  imports JsValue "HOL-Library.Sublist"
begin

text \<open>
  packages/shared/config: configuration merged from YAML files, laid over with environment variables, and
  validated.  The file system, the YAML parser and the schema are ports.
\<close>

section \<open>Deep merge\<close>

function deepMerge :: "js_object \<Rightarrow> js_object \<Rightarrow> js_object" where
  "deepMerge result [] = result"
| "deepMerge result ((k, v) # source) = deepMerge
     (case v of
        JObj n \<Rightarrow> (case obj_read result k of JObj existing \<Rightarrow> obj_set result k (JObj (deepMerge existing n)) | _ \<Rightarrow> obj_set result k v)
      | _ \<Rightarrow> obj_set result k v) source"
  by pat_completeness auto
termination
  by (relation "measure (\<lambda>(result, source). size (JObj source))") auto

section \<open>The environment overlay\<close>

text \<open>Setting at a path of segments; a segment that holds no plain object is replaced by one.\<close>

fun setByPath :: "js_object \<Rightarrow> string list \<Rightarrow> string \<Rightarrow> jsval \<Rightarrow> jsError + js_object" where
  "setByPath target [] path v = Inl (Error (''Invalid env overlay path '' @ [CHR 34] @ path @ [CHR 34]))"
| "setByPath target [leaf] path v =
     (if leaf = '''' then Inl (Error (''Invalid env overlay path '' @ [CHR 34] @ path @ [CHR 34])) else Inr (obj_set target leaf v))"
| "setByPath target (segment # seg2 # rest) path v =
     bindR (setByPath (case obj_read target segment of JObj nxt \<Rightarrow> nxt | _ \<Rightarrow> []) (seg2 # rest) path v) (\<lambda>nested.
       Inr (obj_set target segment (JObj nested)))"

fun envOverlay_loop :: "js_object \<Rightarrow> (string \<times> string) list \<Rightarrow> (string \<Rightarrow> string option) \<Rightarrow> jsError + js_object" where
  "envOverlay_loop result [] env = Inr result"
| "envOverlay_loop result ((path, envKey) # overlay) env = (case env envKey of
     None \<Rightarrow> envOverlay_loop result overlay env
   | Some v \<Rightarrow> bindR (setByPath result (split_on (CHR ''.'') path) path (JStr v)) (\<lambda>result. envOverlay_loop result overlay env))"

definition envOverlay_apply :: "js_object \<Rightarrow> (string \<times> string) list \<Rightarrow> (string \<Rightarrow> string option) \<Rightarrow> jsError + js_object" where
  "envOverlay_apply target overlay env = envOverlay_loop target overlay env"

section \<open>Sources\<close>

text \<open>The environment as the list of its variables.\<close>

record envOptions =
  eo_prefix :: "string option"
  eo_keys :: "string list option"
  eo_env :: "(string \<times> string) list"

definition envSource_load :: "envOptions \<Rightarrow> js_object" where
  "envSource_load opts = (case eo_keys opts of
     Some keys \<Rightarrow> foldl (\<lambda>result k. case map_of (eo_env opts) (case eo_prefix opts of None \<Rightarrow> k | Some p \<Rightarrow> p @ k) of
         None \<Rightarrow> result | Some v \<Rightarrow> obj_set result k (JStr v)) [] keys
   | None \<Rightarrow> foldl (\<lambda>result (name, v). case eo_prefix opts of
         None \<Rightarrow> obj_set result name (JStr v)
       | Some p \<Rightarrow> if js_starts_with p name then obj_set result (drop (length p) name) (JStr v) else result) [] (eo_env opts))"

text \<open>Names that end in \<open>.yml\<close> or \<open>.yaml\<close>, in any case.\<close>

definition yamlPattern_matches :: "string \<Rightarrow> bool" where
  "yamlPattern_matches name \<longleftrightarrow> (let r = rev (js_lower name) in
     js_starts_with (rev ''.yml'') r \<or> js_starts_with (rev ''.yaml'') r)"

text \<open>\<open>sort()\<close> of names, by their code units.\<close>

fun name_le :: "string \<Rightarrow> string \<Rightarrow> bool" where
  "name_le [] _ = True"
| "name_le (_ # _) [] = False"
| "name_le (a # s) (b # t) = (if a = b then name_le s t else (of_char a :: nat) < of_char b)"

fun insert_name :: "string \<Rightarrow> string list \<Rightarrow> string list" where
  "insert_name x [] = [x]"
| "insert_name x (y # ys) = (if name_le x y then x # y # ys else y # insert_name x ys)"

definition sort_names :: "string list \<Rightarrow> string list" where
  "sort_names xs = foldr insert_name xs []"

record filePorts =
  fp_readdir :: "string \<Rightarrow> string + string list"
  fp_exists :: "string \<Rightarrow> bool"
  fp_readFile :: "string \<Rightarrow> jsError + string"
  fp_join :: "string \<Rightarrow> string \<Rightarrow> string"
  fp_loadYaml :: "string \<Rightarrow> jsError + jsval"
  fp_typeof :: "jsval \<Rightarrow> string"

record yamlOptions =
  yo_directory :: string
  yo_files :: "string list option"
  yo_envOverlay :: "(string \<times> string) list option"
  yo_env :: "(string \<times> string) list"

text \<open>A message with a quoted part.\<close>

definition quoted :: "string \<Rightarrow> string \<Rightarrow> string \<Rightarrow> string" where
  "quoted before s after = before @ [CHR 34] @ s @ [CHR 34] @ after"

definition resolveFileNames :: "filePorts \<Rightarrow> yamlOptions \<Rightarrow> jsError + string list" where
  "resolveFileNames ports opts =
     bindR (case yo_files opts of
       Some fs \<Rightarrow> Inr fs
     | None \<Rightarrow> (case fp_readdir ports (yo_directory opts) of
         Inl reason \<Rightarrow> Inl (Error (quoted ''Cannot read config directory '' (yo_directory opts) ('': '' @ reason)))
       | Inr names \<Rightarrow> Inr (sort_names (filter yamlPattern_matches names)))) (\<lambda>fileNames.
     if length fileNames = 0 then Inl (Error (quoted ''No YAML config files found in '' (yo_directory opts) '''')) else Inr fileNames)"

text \<open>One file: an empty one leaves the merge as it is, one that is no mapping is an error.\<close>

definition mergeFile :: "filePorts \<Rightarrow> string \<Rightarrow> js_object \<Rightarrow> string \<Rightarrow> jsError + js_object" where
  "mergeFile ports dir merged fileName = (let filePath = fp_join ports dir fileName in
     bindR (fp_readFile ports filePath) (\<lambda>content. bindR (fp_loadYaml ports content) (\<lambda>parsed.
       case parsed of JNull \<Rightarrow> Inr merged | JUndefined \<Rightarrow> Inr merged
       | JObj ob \<Rightarrow> Inr (deepMerge merged ob)
       | _ \<Rightarrow> Inl (Error (quoted ''Config file '' filePath ('' must contain a YAML mapping (object), got '' @ fp_typeof ports parsed))))))"

fun mergeFiles :: "filePorts \<Rightarrow> string \<Rightarrow> js_object \<Rightarrow> string list \<Rightarrow> jsError + js_object" where
  "mergeFiles ports dir merged [] = Inr merged"
| "mergeFiles ports dir merged (f # fs) = bindR (mergeFile ports dir merged f) (\<lambda>merged. mergeFiles ports dir merged fs)"

definition yamlSource_load :: "filePorts \<Rightarrow> yamlOptions \<Rightarrow> jsError + js_object" where
  "yamlSource_load ports opts = bindR (resolveFileNames ports opts) (mergeFiles ports (yo_directory opts) [])"

section \<open>The loader\<close>

datatype loadOptions = FromYaml yamlOptions | FromEnv envOptions

fun loadRaw :: "filePorts \<Rightarrow> loadOptions \<Rightarrow> jsError + js_object" where
  "loadRaw ports (FromEnv opts) = Inr (envSource_load opts)"
| "loadRaw ports (FromYaml opts) = bindR (yamlSource_load ports opts) (\<lambda>yaml.
     case yo_envOverlay opts of None \<Rightarrow> Inr yaml | Some overlay \<Rightarrow> envOverlay_apply yaml overlay (map_of (yo_env opts)))"

datatype configError = LoadError jsError | ConfigValidationError jsval

text \<open>The schema gives the configuration or what it has against the raw object.\<close>

definition configLoader_load :: "filePorts \<Rightarrow> (js_object \<Rightarrow> jsval + 'a) \<Rightarrow> loadOptions \<Rightarrow> configError + 'a" where
  "configLoader_load ports schema opts = (case loadRaw ports opts of
     Inl e \<Rightarrow> Inl (LoadError e)
   | Inr raw \<Rightarrow> (case schema raw of Inl issues \<Rightarrow> Inl (ConfigValidationError issues) | Inr config \<Rightarrow> Inr config))"

text \<open>The default files of an application.\<close>

definition appConfigFiles_resolve :: "filePorts \<Rightarrow> string \<Rightarrow> (string \<Rightarrow> string option) \<Rightarrow> jsError + string list" where
  "appConfigFiles_resolve ports dir env = (let
     files = ''default.yml'' # (if fp_exists ports (fp_join ports dir ''local.yml'') then [''local.yml''] else []) in
     case env ''CONFIG_OVERLAY'' of
       None \<Rightarrow> Inr files
     | Some overlay \<Rightarrow> if length overlay = 0 then Inr files
         else if \<not> fp_exists ports (fp_join ports dir overlay)
         then Inl (Error (quoted ''CONFIG_OVERLAY '' overlay (quoted '' was not found in '' dir '''')))
         else Inr (files @ [overlay]))"

definition appConfigFiles_resolveDirectory :: "string \<Rightarrow> (string \<Rightarrow> string option) \<Rightarrow> string" where
  "appConfigFiles_resolveDirectory fallback env = (case env ''CONFIG_DIR'' of None \<Rightarrow> fallback
     | Some configured \<Rightarrow> if length configured = 0 then fallback else configured)"

section \<open>Paths into a configuration\<close>

fun path_get :: "jsval \<Rightarrow> string list \<Rightarrow> jsval option" where
  "path_get v [] = Some v"
| "path_get (JObj ob) (k # ks) = (case obj_get ob k of None \<Rightarrow> None | Some v \<Rightarrow> path_get v ks)"
| "path_get _ (k # ks) = None"

text \<open>A mapping says nothing about a path: along it there are mappings only, and the last of them lacks the next key.\<close>

fun silent :: "js_object \<Rightarrow> string list \<Rightarrow> bool" where
  "silent ob [] = False"
| "silent ob (k # ks) = (case obj_get ob k of None \<Rightarrow> True | Some (JObj n) \<Rightarrow> silent n ks | Some _ \<Rightarrow> False)"

text \<open>Keys are unique, at every depth.\<close>

fun keys_unique :: "jsval \<Rightarrow> bool" where
  "keys_unique (JObj ob) = (distinct (map fst ob) \<and> (\<forall>kv \<in> set ob. keys_unique (snd kv)))"
| "keys_unique _ = True"

lemma keys_unique_get: "keys_unique (JObj ob) \<Longrightarrow> obj_get ob k = Some v \<Longrightarrow> keys_unique v"
  by (force simp: obj_get_def dest: map_of_SomeD)

lemma silent_path: "silent ob ks \<Longrightarrow> path_get (JObj ob) ks = None"
  by (induction ob ks rule: silent.induct) (auto split: option.splits jsval.splits)

lemma path_get_scalar: "\<not> isPlainObject v \<Longrightarrow> ks \<noteq> [] \<Longrightarrow> path_get v ks = None"
  by (cases v; cases ks) (auto simp: isPlainObject_def)

definition merge_at :: "jsval \<Rightarrow> jsval \<Rightarrow> jsval" where
  "merge_at old v = (case v of JObj n \<Rightarrow> (case old of JObj existing \<Rightarrow> JObj (deepMerge existing n) | _ \<Rightarrow> v) | _ \<Rightarrow> v)"

lemma merge_at_simps:
  "merge_at (JObj e) (JObj n) = JObj (deepMerge e n)" "\<not> isPlainObject v \<Longrightarrow> merge_at old v = v"
  "\<not> isPlainObject old \<Longrightarrow> merge_at old v = v"
proof -
  show "merge_at (JObj e) (JObj n) = JObj (deepMerge e n)" by (simp add: merge_at_def)
  show "\<not> isPlainObject v \<Longrightarrow> merge_at old v = v" by (cases v) (simp_all add: merge_at_def isPlainObject_def)
  show "\<not> isPlainObject old \<Longrightarrow> merge_at old v = v" by (cases old; cases v) (simp_all add: merge_at_def isPlainObject_def)
qed

lemma deepMerge_Cons: "deepMerge t ((k, v) # s) = deepMerge (obj_set t k (merge_at (obj_read t k) v)) s"
  by (simp add: merge_at_def split: jsval.split)

lemma deepMerge_get:
  "distinct (map fst s) \<Longrightarrow> obj_get (deepMerge t s) k =
     (case obj_get s k of None \<Rightarrow> obj_get t k | Some v \<Rightarrow> Some (merge_at (obj_read t k) v))"
proof (induction s arbitrary: t)
  case (Cons e s)
  obtain k' v where e: "e = (k', v)" by fastforce
  have s: "obj_get s k' = None" using Cons.prems e by (simp add: obj_get_def map_of_eq_None_iff)
  have "obj_get (e # s) k = (if k = k' then Some v else obj_get s k)" using e by (simp add: obj_get_def)
  then show ?case using Cons s e by (auto simp: deepMerge_Cons simp del: deepMerge.simps split: option.split)
qed (simp add: obj_get_def)

lemma deepMerge_leaf:
  assumes "keys_unique (JObj s)" "path_get (JObj s) ks = Some v" "\<not> isPlainObject v"
  shows "path_get (JObj (deepMerge t s)) ks = Some v"
  using assms
proof (induction ks arbitrary: s t)
  case (Cons k ks)
  obtain w where w: "obj_get s k = Some w" "path_get w ks = Some v" using Cons.prems(2) by (auto split: option.splits)
  have d: "distinct (map fst s)" using Cons.prems(1) by simp
  show ?case
  proof (cases w)
    case (JObj n)
    have u: "keys_unique (JObj n)" using keys_unique_get[OF Cons.prems(1) w(1)] JObj by simp
    have "path_get (JObj (deepMerge e n)) ks = Some v" for e
      using Cons.IH[OF u _ Cons.prems(3)] w(2) JObj by simp
    then have "path_get (merge_at (obj_read t k) (JObj n)) ks = Some v"
      using w(2) JObj by (cases "obj_read t k") (simp_all add: merge_at_def)
    then show ?thesis using w(1) JObj by (simp add: deepMerge_get[OF d])
  qed (use w in \<open>simp_all add: deepMerge_get[OF d] merge_at_simps(2) isPlainObject_def\<close>)
qed (auto simp: isPlainObject_def)

lemma deepMerge_silent:
  assumes "keys_unique (JObj s)" "silent s ks"
  shows "path_get (JObj (deepMerge t s)) ks = path_get (JObj t) ks"
  using assms
proof (induction ks arbitrary: s t)
  case (Cons k ks)
  have d: "distinct (map fst s)" using Cons.prems(1) by simp
  show ?case
  proof (cases "obj_get s k")
    case (Some w)
    then obtain n where n: "w = JObj n" "silent n ks" using Cons.prems(2) by (cases w) auto
    have u: "keys_unique (JObj n)" using keys_unique_get[OF Cons.prems(1) Some] n(1) by simp
    have ks: "ks \<noteq> []" using n(2) by auto
    show ?thesis
    proof (cases "\<exists>e. obj_get t k = Some (JObj e)")
      case True
      then show ?thesis using Cons.IH[OF u n(2)] Some n(1) by (auto simp: deepMerge_get[OF d] obj_read_def merge_at_simps(1))
    next
      case False
      then have "case obj_get t k of None \<Rightarrow> True | Some x \<Rightarrow> path_get x ks = None"
        using path_get_scalar[OF _ ks] by (auto simp: isPlainObject_def split: option.splits jsval.splits)
      moreover have "obj_get (deepMerge t s) k = Some (JObj n)"
        using False Some n(1) by (auto simp: deepMerge_get[OF d] obj_read_def merge_at_def split: option.splits jsval.splits)
      ultimately show ?thesis using silent_path[OF n(2)] by (auto split: option.splits)
    qed
  qed (simp add: deepMerge_get[OF d])
qed simp

lemma setByPath_leaf: "setByPath ob segs path v = Inr ob' \<Longrightarrow> path_get (JObj ob') segs = Some v"
  by (induction ob segs path v arbitrary: ob' rule: setByPath.induct) (auto simp: bindR_eq_Inr split: if_splits)

lemma setByPath_other:
  "setByPath ob segs path v = Inr ob' \<Longrightarrow> \<not> prefix ks segs \<Longrightarrow> \<not> prefix segs ks \<Longrightarrow> path_get (JObj ob') ks = path_get (JObj ob) ks"
proof (induction ob segs path v arbitrary: ob' ks rule: setByPath.induct)
  case (2 target leaf path v)
  then show ?case by (cases ks) (auto split: if_splits)
next
  case (3 target segment seg2 rest path v)
  let ?old = "case obj_read target segment of JObj nxt \<Rightarrow> nxt | _ \<Rightarrow> []"
  obtain nested where n: "setByPath ?old (seg2 # rest) path v = Inr nested" "ob' = obj_set target segment (JObj nested)"
    using 3(2) by (auto simp: bindR_eq_Inr)
  show ?case
  proof (cases "\<exists>ks'. ks = segment # ks'")
    case True
    then obtain ks' where ks: "ks = segment # ks'" by blast
    have same: "path_get (JObj nested) ks' = path_get (JObj ?old) ks'" by (rule 3(1)[OF n(1)]) (use 3(3,4) ks in auto)
    have "ks' \<noteq> []" using 3(3) ks by auto
    then have "path_get (JObj ?old) ks' = (case obj_get target segment of None \<Rightarrow> None | Some w \<Rightarrow> path_get w ks')"
      by (cases "obj_get target segment"; cases "obj_read target segment"; cases ks')
         (auto simp: obj_read_def obj_get_def[of "[]"] split: option.splits)
    then show ?thesis using same ks n(2) by (simp split: option.split)
  next
    case False
    then show ?thesis using n(2) 3(3) by (cases ks) auto
  qed
qed auto

lemma overlay_other:
  assumes "envOverlay_loop ob overlay env = Inr ob'"
    "\<forall>(path, key) \<in> set overlay. \<not> prefix ks (split_on (CHR ''.'') path) \<and> \<not> prefix (split_on (CHR ''.'') path) ks"
  shows "path_get (JObj ob') ks = path_get (JObj ob) ks"
  using assms
proof (induction ob overlay env arbitrary: ob' rule: envOverlay_loop.induct)
  case (2 result path key overlay env)
  then show ?case
    by (cases "env key") (auto simp: bindR_eq_Inr setByPath_other)
qed simp

lemma overlay_append: "envOverlay_loop r (xs @ ys) e = bindR (envOverlay_loop r xs e) (\<lambda>r. envOverlay_loop r ys e)"
  by (induction r xs e rule: envOverlay_loop.induct) (auto simp: bindR_def split: option.split sum.split)

lemma overlay_value:
  assumes "envOverlay_loop ob (entries @ (path, key) # later) env = Inr raw" "env key = Some value"
    "\<forall>(p, k) \<in> set later. \<not> prefix (split_on (CHR ''.'') path) (split_on (CHR ''.'') p) \<and>
       \<not> prefix (split_on (CHR ''.'') p) (split_on (CHR ''.'') path)"
  shows "path_get (JObj raw) (split_on (CHR ''.'') path) = Some (JStr value)"
proof -
  obtain r1 r2 where r: "setByPath r1 (split_on (CHR ''.'') path) path (JStr value) = Inr r2" "envOverlay_loop r2 later env = Inr raw"
    using assms(1,2) by (auto simp: overlay_append bindR_eq_Inr)
  show ?thesis using setByPath_leaf[OF r(1)] overlay_other[OF r(2) assms(3)] by simp
qed

section \<open>Precedence\<close>

text \<open>What a file holds.\<close>

definition fileContent :: "filePorts \<Rightarrow> string \<Rightarrow> string \<Rightarrow> jsError + jsval" where
  "fileContent ports dir f = bindR (fp_readFile ports (fp_join ports dir f)) (fp_loadYaml ports)"

definition saysNothing :: "jsval \<Rightarrow> string list \<Rightarrow> bool" where
  "saysNothing v ks \<longleftrightarrow> v = JNull \<or> v = JUndefined \<or> (\<exists>ob. v = JObj ob \<and> keys_unique v \<and> silent ob ks)"

lemma mergeFile_content:
  "mergeFile ports dir merged f = Inr m \<longleftrightarrow> (\<exists>v. fileContent ports dir f = Inr v \<and>
     ((v = JNull \<or> v = JUndefined) \<and> m = merged \<or> (\<exists>ob. v = JObj ob \<and> m = deepMerge merged ob)))"
proof -
  have run: "mergeFile ports dir merged f = bindR (fileContent ports dir f) (\<lambda>parsed. case parsed of JNull \<Rightarrow> Inr merged | JUndefined \<Rightarrow> Inr merged
       | JObj ob \<Rightarrow> Inr (deepMerge merged ob)
       | _ \<Rightarrow> Inl (Error (quoted ''Config file '' (fp_join ports dir f) ('' must contain a YAML mapping (object), got '' @ fp_typeof ports parsed))))"
    by (simp add: mergeFile_def fileContent_def Let_def bindR_def split: sum.split)
  show ?thesis
  proof (cases "fileContent ports dir f")
    case (Inr v)
    then show ?thesis unfolding run by (cases v) auto
  qed (simp add: run)
qed

lemma mergeFiles_append: "mergeFiles ports dir m (fs @ gs) = bindR (mergeFiles ports dir m fs) (\<lambda>m. mergeFiles ports dir m gs)"
  by (induction fs arbitrary: m) (auto simp: bindR_def split: sum.split)

lemma mergeFiles_silent:
  assumes "mergeFiles ports dir merged fs = Inr m" "\<forall>g \<in> set fs. \<forall>v. fileContent ports dir g = Inr v \<longrightarrow> saysNothing v ks"
  shows "path_get (JObj m) ks = path_get (JObj merged) ks"
  using assms
proof (induction fs arbitrary: merged)
  case (Cons f fs)
  obtain m1 where m1: "mergeFile ports dir merged f = Inr m1" "mergeFiles ports dir m1 fs = Inr m"
    using Cons.prems(1) by (auto simp: bindR_eq_Inr)
  have "path_get (JObj m1) ks = path_get (JObj merged) ks"
    using m1(1) Cons.prems(2) deepMerge_silent unfolding mergeFile_content saysNothing_def by fastforce
  then show ?case using Cons.IH[OF m1(2)] Cons.prems(2) by simp
qed simp

text \<open>Configuration has the precedence its loader promises.  A value of a file survives every later file that says nothing about its path, wins over
  every earlier file, and reaches the raw configuration unless the overlay names a path that begins it or that it begins; and a variable of the
  environment that the overlay names is found at its path, unless a later entry's path clashes with it.\<close>

theorem config_precedence:
  assumes "loadRaw ports (FromYaml opts) = Inr raw"
    "resolveFileNames ports opts = Inr (before @ f # after)" "yo_envOverlay opts = Some (entries @ (path, key) # later)"
    "fileContent ports (yo_directory opts) f = Inr (JObj ob)" "keys_unique (JObj ob)" "path_get (JObj ob) ks = Some v" "\<not> isPlainObject v"
    "\<forall>g \<in> set after. \<forall>c. fileContent ports (yo_directory opts) g = Inr c \<longrightarrow> saysNothing c ks"
    "\<forall>(p, k) \<in> set (entries @ (path, key) # later). \<not> prefix ks (split_on (CHR ''.'') p) \<and> \<not> prefix (split_on (CHR ''.'') p) ks"
    "map_of (yo_env opts) key = Some value"
    "\<forall>(p, k) \<in> set later. \<not> prefix (split_on (CHR ''.'') path) (split_on (CHR ''.'') p) \<and>
       \<not> prefix (split_on (CHR ''.'') p) (split_on (CHR ''.'') path)"
  shows "path_get (JObj raw) ks = Some v \<and> path_get (JObj raw) (split_on (CHR ''.'') path) = Some (JStr value)"
proof -
  let ?dir = "yo_directory opts" and ?env = "map_of (yo_env opts)"
  obtain yaml where y: "mergeFiles ports ?dir [] (before @ f # after) = Inr yaml"
    and o: "envOverlay_loop yaml (entries @ (path, key) # later) ?env = Inr raw"
    using assms(1-3) by (auto simp: bindR_eq_Inr yamlSource_load_def envOverlay_apply_def)
  obtain m0 m1 where m: "mergeFile ports ?dir m0 f = Inr m1" "mergeFiles ports ?dir m1 after = Inr yaml"
    using y by (auto simp: mergeFiles_append bindR_eq_Inr)
  have "path_get (JObj m1) ks = Some v"
    using m(1) assms(4) deepMerge_leaf[OF assms(5-7)] by (auto simp: mergeFile_content)
  then have "path_get (JObj raw) ks = Some v"
    using mergeFiles_silent[OF m(2) assms(8)] overlay_other[OF o assms(9)] by simp
  moreover have "path_get (JObj raw) (split_on (CHR ''.'') path) = Some (JStr value)"
    using overlay_value[OF o assms(10)] assms(11) by blast
  ultimately show ?thesis ..
qed

text \<open>Two files and one variable.\<close>

definition demoFiles :: filePorts where
  "demoFiles = \<lparr>fp_readdir = (\<lambda>_. Inr [''local.yml'', ''default.yml'', ''notes.txt'']), fp_exists = (\<lambda>_. True), fp_readFile = Inr, fp_join = (\<lambda>d f. f),
     fp_loadYaml = (\<lambda>c. if c = ''default.yml'' then Inr (JObj [(''log'', JObj [(''level'', JStr ''info'')])])
       else Inr (JObj [(''http'', JObj [(''host'', JStr ''localhost'')])])), fp_typeof = (\<lambda>_. [])\<rparr>"

definition demoYaml :: yamlOptions where
  "demoYaml = \<lparr>yo_directory = ''config'', yo_files = None, yo_envOverlay = Some [(''postgres.url'', ''DATABASE_URL'')],
     yo_env = [(''DATABASE_URL'', ''postgres://db'')]\<rparr>"

theorem config_precedence_witness:
  "\<exists>raw. loadRaw demoFiles (FromYaml demoYaml) = Inr raw \<and> path_get (JObj raw) [''log'', ''level''] = Some (JStr ''info'') \<and>
     path_get (JObj raw) [''postgres'', ''url''] = Some (JStr ''postgres://db'')"
proof -
  have names: "sort_names (filter yamlPattern_matches [''local.yml'', ''default.yml'', ''notes.txt'']) = [''default.yml'', ''local.yml'']"
    by code_simp
  have url: "split_on (CHR ''.'') ''postgres.url'' = [''postgres'', ''url'']" by simp
  have files: "resolveFileNames demoFiles demoYaml = Inr ([] @ ''default.yml'' # [''local.yml''])"
    using names by (simp add: resolveFileNames_def demoFiles_def demoYaml_def)
  have content: "fileContent demoFiles (yo_directory demoYaml) ''default.yml'' = Inr (JObj [(''log'', JObj [(''level'', JStr ''info'')])])"
    "fileContent demoFiles (yo_directory demoYaml) ''local.yml'' = Inr (JObj [(''http'', JObj [(''host'', JStr ''localhost'')])])"
    by (simp_all add: fileContent_def demoFiles_def)
  obtain raw where raw: "loadRaw demoFiles (FromYaml demoYaml) = Inr raw"
  proof (cases "loadRaw demoFiles (FromYaml demoYaml)")
    case (Inl e)
    then show thesis using files
      by (simp add: yamlSource_load_def mergeFile_def Let_def demoFiles_def) (simp add: demoYaml_def url envOverlay_apply_def)
  qed
  have "path_get (JObj raw) [''log'', ''level''] = Some (JStr ''info'') \<and>
      path_get (JObj raw) (split_on (CHR ''.'') ''postgres.url'') = Some (JStr ''postgres://db'')"
  proof (rule config_precedence[OF raw files _ content(1), where entries = "[]" and later = "[]" and key = "''DATABASE_URL''"])
    show "\<forall>g \<in> set [''local.yml'']. \<forall>c. fileContent demoFiles (yo_directory demoYaml) g = Inr c \<longrightarrow> saysNothing c [''log'', ''level'']"
      using content(2) by (simp add: saysNothing_def obj_get_def)
  qed (simp_all add: demoYaml_def obj_get_def isPlainObject_def)
  then show ?thesis using raw unfolding url by blast
qed

end
