(* ===== verification/Outputs.thy ===== *)
theory Outputs
  imports Contracts
begin

text \<open>
  The output schemas of packages/shared/contracts.  A schema here reads a value and gives the value that is sent:
  an object with the fields of the schema, in their order, without any other.
\<close>

section \<open>Schemas of values\<close>

definition o_when :: "(jsval \<Rightarrow> bool) \<Rightarrow> jsval schema" where
  "o_when P v = (if P v then Some v else None)"

definition o_string :: "jsval schema" where
  "o_string = o_when (\<lambda>v. case v of JStr _ \<Rightarrow> True | _ \<Rightarrow> False)"

definition o_text :: "(string \<Rightarrow> bool) \<Rightarrow> jsval schema" where
  "o_text P = o_when (\<lambda>v. case v of JStr s \<Rightarrow> P s | _ \<Rightarrow> False)"

definition o_id :: "env \<Rightarrow> jsval schema" where
  "o_id env = o_text (isUuid env)"

definition o_boolean :: "jsval schema" where
  "o_boolean = o_when (\<lambda>v. case v of JBool _ \<Rightarrow> True | _ \<Rightarrow> False)"

text \<open>\<open>int()\<close> takes the safe integers.\<close>

definition safeInt :: "number \<Rightarrow> bool" where
  "safeInt n \<longleftrightarrow> numIsInteger n \<and> num_le (num (- 9007199254740991)) n \<and> num_le n (num 9007199254740991)"

definition o_positiveInt :: "jsval schema" where
  "o_positiveInt = o_when (\<lambda>v. case v of JNum n \<Rightarrow> safeInt n \<and> num_lt (num 0) n | _ \<Rightarrow> False)"

definition o_naturalInt :: "jsval schema" where
  "o_naturalInt = o_when (\<lambda>v. case v of JNum n \<Rightarrow> safeInt n \<and> num_le (num 0) n | _ \<Rightarrow> False)"

definition o_literal :: "jsval \<Rightarrow> jsval schema" where
  "o_literal x = o_when (\<lambda>v. v = x)"

definition o_enum :: "string list \<Rightarrow> jsval schema" where
  "o_enum names = o_text (\<lambda>s. s \<in> set names)"

definition o_nullable :: "jsval schema \<Rightarrow> jsval schema" where
  "o_nullable sch v = (if v = JNull then Some JNull else sch v)"

definition o_optional :: "jsval schema \<Rightarrow> jsval schema" where
  "o_optional sch v = (if v = JUndefined then Some JUndefined else sch v)"

definition o_array :: "jsval schema \<Rightarrow> jsval schema" where
  "o_array sch v = (case v of JArr vs \<Rightarrow> map_option JArr (z_all sch vs) | _ \<Rightarrow> None)"

fun o_fields :: "(string \<times> jsval schema) list \<Rightarrow> js_object \<Rightarrow> js_object option" where
  "o_fields [] ob = Some []"
| "o_fields ((name, sch) # flds) ob = (case (sch (obj_read ob name), o_fields flds ob) of
     (Some x, Some rest) \<Rightarrow> Some (if x = JUndefined \<and> \<not> hasOwn ob name then rest else (name, x) # rest) | _ \<Rightarrow> None)"

definition o_object :: "(string \<times> jsval schema) list \<Rightarrow> jsval schema" where
  "o_object flds v = (case v of JObj ob \<Rightarrow> map_option JObj (o_fields flds ob) | _ \<Rightarrow> None)"

definition o_record :: "jsval schema \<Rightarrow> jsval schema" where
  "o_record sch v = (case v of JObj ob \<Rightarrow> map_option (\<lambda>xs. JObj (zip (map fst ob) xs)) (z_all sch (map snd ob)) | _ \<Rightarrow> None)"

definition o_permission :: "jsval schema" where
  "o_permission = o_enum permissionNames"

section \<open>Common envelopes\<close>

definition errorOutputSchema :: "jsval schema" where
  "errorOutputSchema = o_object [(''code'', o_text (\<lambda>s. 1 \<le> length s)), (''message'', o_text (\<lambda>s. 1 \<le> length s)), (''details'', Some)]"

definition healthCheckResultSchema :: "jsval schema" where
  "healthCheckResultSchema = o_object [(''status'', o_enum [''up'', ''down'']), (''message'', o_optional (o_text (\<lambda>s. 1 \<le> length s)))]"

definition healthOutputSchema :: "jsval schema" where
  "healthOutputSchema = o_object [(''status'', o_enum [''ok'', ''error'']), (''checks'', o_optional (o_record healthCheckResultSchema))]"

definition paginatedOutputSchema :: "jsval schema \<Rightarrow> jsval schema" where
  "paginatedOutputSchema item = o_object [(''items'', o_array item), (''page'', o_positiveInt), (''pageSize'', o_positiveInt), (''total'', o_naturalInt)]"

section \<open>Identity\<close>

definition apiKeyOutputSchema :: "zodPorts \<Rightarrow> env \<Rightarrow> jsval schema" where
  "apiKeyOutputSchema zod env = o_object [(''id'', o_id env), (''name'', o_string), (''prefix'', o_string), (''permissions'', o_array o_permission),
     (''expiresAt'', o_optional (o_text (zp_isoDatetime zod))), (''revokedAt'', o_optional (o_text (zp_isoDatetime zod))),
     (''lastUsedAt'', o_optional (o_text (zp_isoDatetime zod)))]"

definition tenantApiKeysOutputSchema :: "zodPorts \<Rightarrow> env \<Rightarrow> jsval schema" where
  "tenantApiKeysOutputSchema zod env = o_object [(''apiKeys'', o_array (apiKeyOutputSchema zod env))]"

definition createApiKeyOutputSchema :: "env \<Rightarrow> jsval schema" where
  "createApiKeyOutputSchema env = o_object [(''id'', o_id env), (''token'', o_string)]"

definition authOkOutputSchema :: "jsval schema" where
  "authOkOutputSchema = o_object [(''ok'', o_literal (JBool True))]"

definition authSessionFields :: "env \<Rightarrow> (string \<times> jsval schema) list" where
  "authSessionFields env = [(''accessToken'', o_text (\<lambda>s. 1 \<le> length s)), (''expiresIn'', o_positiveInt), (''userId'', o_id env),
     (''tenantId'', o_optional (o_id env))]"

definition authSessionOutputSchema :: "env \<Rightarrow> jsval schema" where
  "authSessionOutputSchema env = o_object (authSessionFields env)"

definition authTokenSessionOutputSchema :: "env \<Rightarrow> jsval schema" where
  "authTokenSessionOutputSchema env = o_object (authSessionFields env @ [(''refreshToken'', o_text (\<lambda>s. 1 \<le> length s))])"

definition createUserOutputSchema :: "env \<Rightarrow> jsval schema" where
  "createUserOutputSchema env = o_object [(''id'', o_id env)]"

definition registerUserOutputSchema :: "env \<Rightarrow> jsval schema" where
  "registerUserOutputSchema env = o_object [(''userId'', o_id env)]"

definition meUserSchema :: "zodPorts \<Rightarrow> env \<Rightarrow> jsval schema" where
  "meUserSchema zod env = o_object [(''id'', o_id env), (''email'', o_text (zp_email zod)), (''displayName'', o_string),
     (''status'', o_enum (map accountStatus_name [Active, Suspended]))]"

definition meMembershipSchema :: "env \<Rightarrow> jsval schema" where
  "meMembershipSchema env = o_object [(''membershipId'', o_id env), (''tenantId'', o_id env), (''roleIds'', o_array (o_id env)),
     (''status'', o_enum (map membershipStatus_name [MInvited, MActive, MSuspended]))]"

definition meOutputSchema :: "zodPorts \<Rightarrow> env \<Rightarrow> jsval schema" where
  "meOutputSchema zod env = o_object [(''user'', meUserSchema zod env), (''membership'', o_nullable (meMembershipSchema env)),
     (''effectivePermissions'', o_array o_permission)]"

section \<open>Authorization and tenancy\<close>

definition roleOutputSchema :: "env \<Rightarrow> jsval schema" where
  "roleOutputSchema env = o_object [(''id'', o_id env), (''name'', o_string), (''permissions'', o_array o_permission), (''isSystem'', o_boolean)]"

definition tenantRolesOutputSchema :: "env \<Rightarrow> jsval schema" where
  "tenantRolesOutputSchema env = o_object [(''roles'', o_array (roleOutputSchema env))]"

definition acceptInvitationOutputSchema :: "env \<Rightarrow> jsval schema" where
  "acceptInvitationOutputSchema env = o_object [(''userId'', o_id env), (''membershipId'', o_id env), (''tenantId'', o_id env)]"

definition attachMemberOutputSchema :: "env \<Rightarrow> jsval schema" where
  "attachMemberOutputSchema env = o_object [(''id'', o_id env)]"

definition createTenantOutputSchema :: "env \<Rightarrow> jsval schema" where
  "createTenantOutputSchema env = o_object [(''id'', o_id env), (''ownerMembershipId'', o_id env),
     (''roleIds'', o_object [(''owner'', o_id env), (''admin'', o_id env), (''member'', o_id env)])]"

definition getTenantOutputSchema :: "env \<Rightarrow> jsval schema" where
  "getTenantOutputSchema env = o_object [(''id'', o_id env), (''name'', o_string)]"

definition inviteMemberOutputSchema :: "env \<Rightarrow> jsval schema" where
  "inviteMemberOutputSchema env = o_object [(''id'', o_id env)]"

definition replaceMembershipRolesOutputSchema :: "env \<Rightarrow> jsval schema" where
  "replaceMembershipRolesOutputSchema env = o_object [(''membershipId'', o_id env), (''roleIds'', o_array (o_id env))]"

definition tenantMemberUserSchema :: "zodPorts \<Rightarrow> jsval schema" where
  "tenantMemberUserSchema zod = o_object [(''email'', o_text (zp_email zod)), (''displayName'', o_string)]"

definition tenantMemberSchema :: "zodPorts \<Rightarrow> env \<Rightarrow> jsval schema" where
  "tenantMemberSchema zod env = o_object [(''membershipId'', o_id env), (''userId'', o_id env), (''roleIds'', o_array (o_id env)),
     (''status'', o_enum (map membershipStatus_name [MInvited, MActive, MSuspended])), (''user'', o_optional (tenantMemberUserSchema zod))]"

definition tenantMembersOutputSchema :: "zodPorts \<Rightarrow> env \<Rightarrow> jsval schema" where
  "tenantMembersOutputSchema zod env = o_object [(''members'', o_array (tenantMemberSchema zod env))]"

section \<open>Values that are read\<close>

lemma o_fields_Cons:
  assumes "o_fields ((name, sch) # flds) ob = Some ob'"
  obtains x rest where "sch (obj_read ob name) = Some x" "o_fields flds ob = Some rest"
    "ob' = (if x = JUndefined \<and> \<not> hasOwn ob name then rest else (name, x) # rest)"
  using assms by (auto simp del: obj_read_def split: option.splits)

lemma o_fields_keys: "o_fields flds ob = Some ob' \<Longrightarrow> set (map fst ob') \<subseteq> set (map fst flds)"
proof (induction flds arbitrary: ob')
  case (Cons f flds)
  obtain name sch where f: "f = (name, sch)" by (cases f)
  obtain x rest where "o_fields flds ob = Some rest" "ob' = (if x = JUndefined \<and> \<not> hasOwn ob name then rest else (name, x) # rest)"
    using Cons.prems unfolding f by (rule o_fields_Cons)
  then show ?case using Cons.IH[of rest] by (cases "x = JUndefined \<and> \<not> hasOwn ob name") (auto simp: f)
qed simp

lemma o_fields_read:
  assumes "o_fields flds ob = Some ob'" "distinct (map fst flds)" "(n, sch) \<in> set flds"
  shows "sch (obj_read ob n) = Some (obj_read ob' n)"
  using assms
proof (induction flds arbitrary: ob')
  case (Cons f flds)
  obtain name sch' where f: "f = (name, sch')" by (cases f)
  obtain x rest where x: "sch' (obj_read ob name) = Some x" "o_fields flds ob = Some rest"
    and ob': "ob' = (if x = JUndefined \<and> \<not> hasOwn ob name then rest else (name, x) # rest)"
    using Cons.prems(1) unfolding f by (rule o_fields_Cons)
  have absent: "obj_read rest name = JUndefined"
    using o_fields_keys[OF x(2)] Cons.prems(2) map_of_eq_None_iff[of rest name] by (auto simp: f obj_read_def obj_get_def)
  show ?case
  proof (cases "n = name")
    case True
    then have "sch = sch'" using Cons.prems(2,3) by (auto simp: f rev_image_eqI)
    then show ?thesis using x absent True by (auto simp: ob' obj_read_def obj_get_def)
  next
    case False
    then have "sch (obj_read ob n) = Some (obj_read rest n)" using Cons.IH[OF x(2)] Cons.prems(2,3) by (auto simp: f)
    then show ?thesis using False by (auto simp: ob' obj_read_def obj_get_def)
  qed
qed simp

lemma o_object_read:
  assumes "o_object flds (JObj ob) = Some v" "distinct (map fst flds)"
  obtains ob' where "v = JObj ob'" "\<And>n sch. (n, sch) \<in> set flds \<Longrightarrow> sch (obj_read ob n) = Some (obj_read ob' n)"
  using assms o_fields_read by (auto simp: o_object_def)

section \<open>Values that pass unchanged\<close>

definition fits :: "jsval schema \<Rightarrow> jsval \<Rightarrow> bool" where
  "fits sch v \<longleftrightarrow> sch v = Some v"

named_theorems fits_simps \<open>values their schema passes unchanged\<close>

lemma fits_basic [fits_simps]:
  "fits o_string (JStr s)" "fits (o_text P) (JStr s) \<longleftrightarrow> P s" "fits (o_id env) (JStr s) \<longleftrightarrow> isUuid env s" "fits o_boolean (JBool b)"
  "fits (o_literal x) x" "fits (o_enum ns) (JStr s) \<longleftrightarrow> s \<in> set ns" "fits o_permission (JStr s) \<longleftrightarrow> s \<in> set permissionNames"
  "fits (o_nullable sch) JNull" "v \<noteq> JNull \<Longrightarrow> fits (o_nullable sch) v \<longleftrightarrow> fits sch v"
  "fits (o_optional sch) JUndefined" "v \<noteq> JUndefined \<Longrightarrow> fits (o_optional sch) v \<longleftrightarrow> fits sch v"
  by (auto simp: fits_def o_string_def o_text_def o_id_def o_boolean_def o_literal_def o_enum_def o_permission_def o_nullable_def
      o_optional_def o_when_def)

lemma fits_array [fits_simps]: "fits (o_array sch) (JArr vs) \<longleftrightarrow> (\<forall>v \<in> set vs. fits sch v)"
proof -
  have "z_all sch vs = Some vs \<longleftrightarrow> (\<forall>v \<in> set vs. sch v = Some v)"
    by (induction vs) (auto split: option.splits)
  then show ?thesis by (auto simp: fits_def o_array_def)
qed

lemma fits_object [fits_simps]: "fits (o_object flds) (JObj ob) \<longleftrightarrow> o_fields flds ob = Some ob"
  by (auto simp: fits_def o_object_def)

text \<open>The fields of an object, read one after the other.\<close>

fun fields_fit :: "(string \<times> jsval schema) list \<Rightarrow> js_object \<Rightarrow> bool" where
  "fields_fit [] ob = (ob = [])"
| "fields_fit ((name, sch) # flds) [] = (fits sch JUndefined \<and> fields_fit flds [])"
| "fields_fit ((name, sch) # flds) ((k, v) # ob) =
     (if k = name then fits sch v \<and> fields_fit flds ob else fits sch JUndefined \<and> fields_fit flds ((k, v) # ob))"

lemma fields_fit_keys: "fields_fit flds ob \<Longrightarrow> set (map fst ob) \<subseteq> set (map fst flds)"
  by (induction flds ob rule: fields_fit.induct) (auto split: if_splits)

lemma o_fields_cong: "(\<And>n. n \<in> set (map fst flds) \<Longrightarrow> map_of a n = map_of b n) \<Longrightarrow> o_fields flds a = o_fields flds b"
proof (induction flds)
  case (Cons f flds)
  obtain name sch where f: "f = (name, sch)" by (cases f)
  have "map_of a name = map_of b name" using Cons.prems[of name] f by simp
  then have "obj_read a name = obj_read b name" "hasOwn a name = hasOwn b name"
    by (simp_all add: obj_read_def obj_get_def hasOwn_get)
  moreover have "o_fields flds a = o_fields flds b" using Cons by simp
  ultimately show ?case by (simp add: f split: option.split)
qed simp

lemma fits_fields:
  assumes "distinct (map fst flds)" "fields_fit flds ob"
  shows "o_fields flds ob = Some ob"
  using assms
proof (induction flds ob rule: fields_fit.induct)
  case (2 name sch flds)
  then show ?case by (simp add: fits_def obj_read_def obj_get_def hasOwn_def)
next
  case (3 name sch flds k v ob)
  show ?case
  proof (cases "k = name")
    case True
    have "o_fields flds ((k, v) # ob) = o_fields flds ob"
      by (rule o_fields_cong) (use 3(3) True in auto)
    then show ?thesis using 3 True by (simp add: fits_def obj_read_def obj_get_def hasOwn_def)
  next
    case False
    have "name \<notin> set (map fst ((k, v) # ob))" using fields_fit_keys[of flds "(k, v) # ob"] 3(3,4) False by auto
    then have "obj_read ((k, v) # ob) name = JUndefined" "\<not> hasOwn ((k, v) # ob) name"
      by (simp_all add: obj_read_def obj_get_def hasOwn_get map_of_eq_None_iff[THEN iffD2])
    then show ?thesis using 3 False by (simp add: fits_def)
  qed
qed simp

lemma fits_objectI: "distinct (map fst flds) \<Longrightarrow> fields_fit flds ob \<Longrightarrow> fits (o_object flds) (JObj ob)"
  by (simp add: fits_object fits_fields)

end
