(* ===== verification/Deployment.thy ===== *)
theory Deployment
  imports Config Outputs Api
begin

text \<open>
  The configuration of the API and of the worker: the schemas with their defaults, the variables laid over the files, the maps to
  the infrastructure (packages/composition/src/config), and the start of the API (apps/api/src/bootstrap) up to the calls on the
  Nest application.

  A parsed configuration is the object the schema gives.  The URL check of zod and the built-in \<open>Number\<close> are parameters.
\<close>

section \<open>Schemas with defaults\<close>

record valuePorts =
  vp_url :: "string \<Rightarrow> bool"
  vp_number :: "jsval \<Rightarrow> number"

definition o_default :: "jsval \<Rightarrow> jsval schema \<Rightarrow> jsval schema" where
  "o_default d sch v = (if v = JUndefined then Some d else sch v)"

definition o_union :: "jsval schema \<Rightarrow> jsval schema \<Rightarrow> jsval schema" where
  "o_union a b v = (case a v of Some x \<Rightarrow> Some x | None \<Rightarrow> b v)"

definition o_coerce :: "valuePorts \<Rightarrow> jsval schema \<Rightarrow> jsval schema" where
  "o_coerce ports sch v = sch (JNum (vp_number ports v))"

definition o_nonEmpty :: "jsval schema" where
  "o_nonEmpty = o_text (\<lambda>s. 1 \<le> length s)"

definition o_url :: "valuePorts \<Rightarrow> jsval schema" where
  "o_url ports = o_text (vp_url ports)"

definition jnum :: "int \<Rightarrow> jsval" where
  "jnum n = JNum (num n)"

section \<open>Shared schemas\<close>

definition nodeEnvSchema :: "jsval schema" where
  "nodeEnvSchema v = (case v of
     JUndefined \<Rightarrow> Some (JStr ''development'')
   | JStr s \<Rightarrow> Some (JStr (if s = ''production'' then ''production'' else ''development''))
   | _ \<Rightarrow> None)"

definition appEnvSchema :: "jsval schema" where
  "appEnvSchema = o_enum [''staging'', ''production'']"

definition kitAppEnvSchema :: "jsval schema" where
  "kitAppEnvSchema = o_union appEnvSchema (o_literal (JStr ''development''))"

definition logSchema :: "jsval schema" where
  "logSchema = o_default (JObj [(''level'', JStr ''info'')]) (o_object [
     (''level'', o_default (JStr ''info'') (o_enum [''trace'', ''debug'', ''info'', ''warn'', ''error'', ''fatal''])),
     (''pretty'', o_optional o_boolean)])"

definition smtpMailProviderSchema :: "jsval schema" where
  "smtpMailProviderSchema = o_object [(''transport'', o_literal (JStr ''smtp'')), (''from'', o_nonEmpty), (''host'', o_nonEmpty),
     (''port'', o_default (jnum 587) o_positiveInt), (''user'', o_optional o_nonEmpty), (''pass'', o_optional o_nonEmpty),
     (''secure'', o_default (JBool False) o_boolean)]"

definition httpMailProviderSchema :: "valuePorts \<Rightarrow> jsval schema" where
  "httpMailProviderSchema ports = o_object [(''transport'', o_literal (JStr ''http'')), (''from'', o_nonEmpty), (''url'', o_url ports),
     (''apiKey'', o_optional o_nonEmpty)]"

definition mailProviderSchema :: "valuePorts \<Rightarrow> jsval schema" where
  "mailProviderSchema ports = o_union smtpMailProviderSchema (httpMailProviderSchema ports)"

definition telemetrySchema :: "jsval schema" where
  "telemetrySchema = o_default (JObj [(''enabled'', JBool False)]) (o_object [
     (''enabled'', o_default (JBool False) o_boolean), (''otlpEndpoint'', o_optional o_nonEmpty), (''serviceName'', o_optional o_nonEmpty)])"

section \<open>The configuration of the API\<close>

definition DEV_JWT_ACCESS_SECRET :: string where "DEV_JWT_ACCESS_SECRET = ''dev-only-jwt-access-secret-change-me''"
definition JWT_ACCESS_TTL_SECONDS :: int where "JWT_ACCESS_TTL_SECONDS = 900"
definition JWT_ISSUER :: string where "JWT_ISSUER = ''b2b-saas-starter-kit''"
definition JWT_AUDIENCE :: string where "JWT_AUDIENCE = ''b2b-saas-api''"

definition redisSchema :: "valuePorts \<Rightarrow> jsval schema" where
  "redisSchema ports = o_object [(''url'', o_url ports), (''keyPrefix'', o_default (JStr '''') o_string)]"

text \<open>The two applications differ in the default name.\<close>

definition postgresFields :: "valuePorts \<Rightarrow> string \<Rightarrow> (string \<times> jsval schema) list" where
  "postgresFields ports name = [(''url'', o_url ports), (''poolMax'', o_default (jnum 10) o_positiveInt),
     (''connectTimeoutMs'', o_default (jnum 5000) o_positiveInt), (''statementTimeoutMs'', o_default (jnum 15000) o_naturalInt),
     (''lockTimeoutMs'', o_default (jnum 5000) o_naturalInt), (''idleInTxTimeoutMs'', o_default (jnum 30000) o_naturalInt),
     (''applicationName'', o_default (JStr name) o_nonEmpty), (''slowQueryMs'', o_default (jnum 500) o_naturalInt)]"

definition api_postgresSchema :: "valuePorts \<Rightarrow> jsval schema" where
  "api_postgresSchema ports = o_object (postgresFields ports ''b2b-saas'')"

definition httpClientSchema :: "jsval schema" where
  "httpClientSchema = o_default (JObj []) (o_object [(''timeoutMs'', o_optional o_positiveInt),
     (''connectTimeoutMs'', o_optional o_positiveInt), (''poolMax'', o_optional o_positiveInt), (''maxResponseBytes'', o_optional o_positiveInt),
     (''userAgent'', o_optional o_nonEmpty), (''maxRedirects'', o_optional o_naturalInt), (''httpsProxy'', o_optional o_string),
     (''noProxy'', o_optional o_string)])"

definition jwtSchema :: "jsval schema" where
  "jwtSchema = o_object [(''accessSecret'', o_default (JStr DEV_JWT_ACCESS_SECRET) o_nonEmpty),
     (''ttlSeconds'', o_default (jnum JWT_ACCESS_TTL_SECONDS) o_positiveInt), (''issuer'', o_default (JStr JWT_ISSUER) o_nonEmpty),
     (''audience'', o_default (JStr JWT_AUDIENCE) o_nonEmpty)]"

definition api_appTypeSchema :: "jsval schema" where
  "api_appTypeSchema = o_default (JStr ''api'') (o_literal (JStr ''api''))"

definition corsSchema :: "jsval schema" where
  "corsSchema = o_object [(''origins'', o_default (JArr []) (o_array o_nonEmpty)), (''credentials'', o_default (JBool False) o_boolean)]"

definition swaggerBasicAuthSchema :: "jsval schema" where
  "swaggerBasicAuthSchema = o_object [(''username'', o_nonEmpty), (''password'', o_nonEmpty)]"

definition swaggerSchema :: "jsval schema" where
  "swaggerSchema = o_default (JObj [(''path'', JStr ''/docs'')]) (o_object [(''enabled'', o_optional o_boolean),
     (''path'', o_default (JStr ''/docs'') o_nonEmpty), (''basicAuth'', o_optional swaggerBasicAuthSchema)])"

definition httpSchema :: "valuePorts \<Rightarrow> jsval schema" where
  "httpSchema ports = o_object [(''title'', o_default (JStr ''B2B SaaS API'') o_nonEmpty),
     (''port'', o_default (jnum 3000) (o_coerce ports o_positiveInt)), (''host'', o_optional o_nonEmpty),
     (''version'', o_default (JStr ''1'') o_nonEmpty), (''globalPrefix'', o_optional o_nonEmpty),
     (''plainHttp'', o_default (JBool False) o_boolean), (''refreshCookiePath'', o_default (JStr ''/v1/auth'') o_nonEmpty),
     (''cors'', corsSchema), (''swagger'', swaggerSchema)]"

definition apiConfigSchema :: "valuePorts \<Rightarrow> jsval schema" where
  "apiConfigSchema ports = o_object [(''appEnv'', kitAppEnvSchema), (''nodeEnv'', nodeEnvSchema), (''appType'', api_appTypeSchema),
     (''http'', httpSchema ports), (''postgres'', api_postgresSchema ports), (''redis'', redisSchema ports), (''httpClient'', httpClientSchema),
     (''jwt'', jwtSchema), (''log'', logSchema), (''telemetry'', telemetrySchema), (''mail'', o_optional (mailProviderSchema ports))]"

definition API_ENV_OVERLAY :: "(string \<times> string) list" where
  "API_ENV_OVERLAY = [(''nodeEnv'', ''NODE_ENV''), (''http.port'', ''PORT''), (''postgres.url'', ''DATABASE_URL''), (''redis.url'', ''REDIS_URL''),
     (''jwt.accessSecret'', ''JWT_ACCESS_SECRET''), (''http.swagger.basicAuth.password'', ''SWAGGER_BASIC_AUTH_PASSWORD''),
     (''mail.pass'', ''MAIL_PASS''), (''mail.apiKey'', ''MAIL_API_KEY'')]"

text \<open>The report of a schema that refuses; its text is zod's.\<close>

definition schema_result :: "jsval schema \<Rightarrow> js_object \<Rightarrow> jsval + jsval" where
  "schema_result sch raw = (case sch (JObj raw) of None \<Rightarrow> Inl JUndefined | Some v \<Rightarrow> Inr v)"

definition loadAppConfig :: "jsval schema \<Rightarrow> (string \<times> string) list \<Rightarrow> filePorts \<Rightarrow> string \<Rightarrow> (string \<times> string) list \<Rightarrow> configError + jsval" where
  "loadAppConfig sch overlay files dir env = (case appConfigFiles_resolve files dir (map_of env) of
     Inl e \<Rightarrow> Inl (LoadError e)
   | Inr names \<Rightarrow> configLoader_load files (schema_result sch)
       (FromYaml \<lparr>yo_directory = dir, yo_files = Some names, yo_envOverlay = Some overlay, yo_env = env\<rparr>))"

definition loadApiConfig :: "valuePorts \<Rightarrow> filePorts \<Rightarrow> string \<Rightarrow> (string \<times> string) list \<Rightarrow> configError + jsval" where
  "loadApiConfig ports = loadAppConfig (apiConfigSchema ports) API_ENV_OVERLAY"

section \<open>The configuration of the worker\<close>

definition worker_postgresSchema :: "valuePorts \<Rightarrow> jsval schema" where
  "worker_postgresSchema ports = o_object (postgresFields ports ''b2b-saas-worker'')"

definition messagingSchema :: "jsval schema" where
  "messagingSchema = o_object [(''prefix'', o_default (JStr ''bsk:bull'') o_nonEmpty)]"

definition outboxSchema :: "jsval schema" where
  "outboxSchema = o_object [(''pollIntervalMs'', o_default (jnum 1000) o_positiveInt), (''batchSize'', o_default (jnum 25) o_positiveInt),
     (''staleProcessingMs'', o_default (jnum 300000) o_positiveInt)]"

definition maintenanceSchema :: "jsval schema" where
  "maintenanceSchema = o_object [(''refreshSessionsEveryMs'', o_default (jnum 3600000) o_positiveInt),
     (''passwordResetTokensEveryMs'', o_default (jnum 86400000) o_positiveInt), (''staleInvitationsEveryMs'', o_default (jnum 86400000) o_positiveInt),
     (''reclaimStaleOutboxEveryMs'', o_default (jnum 60000) o_positiveInt)]"

definition worker_appTypeSchema :: "jsval schema" where
  "worker_appTypeSchema = o_default (JStr ''worker'') (o_literal (JStr ''worker''))"

definition workerConfigSchema :: "valuePorts \<Rightarrow> jsval schema" where
  "workerConfigSchema ports = o_object [(''appEnv'', kitAppEnvSchema), (''nodeEnv'', nodeEnvSchema), (''appType'', worker_appTypeSchema),
     (''postgres'', worker_postgresSchema ports), (''redis'', redisSchema ports), (''messaging'', messagingSchema), (''outbox'', outboxSchema),
     (''maintenance'', maintenanceSchema), (''log'', logSchema), (''telemetry'', telemetrySchema), (''mail'', o_optional (mailProviderSchema ports))]"

definition WORKER_ENV_OVERLAY :: "(string \<times> string) list" where
  "WORKER_ENV_OVERLAY = [(''nodeEnv'', ''NODE_ENV''), (''postgres.url'', ''DATABASE_URL''), (''redis.url'', ''REDIS_URL''),
     (''mail.pass'', ''MAIL_PASS''), (''mail.apiKey'', ''MAIL_API_KEY'')]"

definition loadWorkerConfig :: "valuePorts \<Rightarrow> filePorts \<Rightarrow> string \<Rightarrow> (string \<times> string) list \<Rightarrow> configError + jsval" where
  "loadWorkerConfig ports = loadAppConfig (workerConfigSchema ports) WORKER_ENV_OVERLAY"

section \<open>The configuration of the infrastructure\<close>

definition postgresConfigSchema :: "valuePorts \<Rightarrow> jsval schema" where
  "postgresConfigSchema ports = o_object [(''DATABASE_URL'', o_url ports),
     (''POSTGRES_POOL_MAX'', o_default (jnum 10) (o_coerce ports o_positiveInt)),
     (''POSTGRES_CONNECT_TIMEOUT_MS'', o_default (jnum 5000) (o_coerce ports o_positiveInt)),
     (''POSTGRES_STATEMENT_TIMEOUT_MS'', o_default (jnum 15000) (o_coerce ports o_naturalInt)),
     (''POSTGRES_LOCK_TIMEOUT_MS'', o_default (jnum 5000) (o_coerce ports o_naturalInt)),
     (''POSTGRES_IDLE_IN_TX_TIMEOUT_MS'', o_default (jnum 30000) (o_coerce ports o_naturalInt)),
     (''POSTGRES_APPLICATION_NAME'', o_default (JStr ''b2b-saas'') o_nonEmpty),
     (''POSTGRES_SLOW_QUERY_MS'', o_default (jnum 500) (o_coerce ports o_naturalInt))]"

definition redisConfigSchema :: "valuePorts \<Rightarrow> jsval schema" where
  "redisConfigSchema ports = o_object [(''REDIS_URL'', o_url ports), (''REDIS_KEY_PREFIX'', o_default (JStr '''') o_string)]"

definition httpClientConfigSchema :: "valuePorts \<Rightarrow> jsval schema" where
  "httpClientConfigSchema ports = o_object [(''HTTP_CLIENT_TIMEOUT_MS'', o_default (jnum 10000) (o_coerce ports o_positiveInt)),
     (''HTTP_CLIENT_CONNECT_TIMEOUT_MS'', o_default (jnum 5000) (o_coerce ports o_positiveInt)),
     (''HTTP_CLIENT_POOL_MAX'', o_default (jnum 16) (o_coerce ports o_positiveInt)),
     (''HTTP_CLIENT_MAX_RESPONSE_BYTES'', o_default (jnum (2 * 1024 * 1024)) (o_coerce ports o_positiveInt)),
     (''HTTP_CLIENT_USER_AGENT'', o_default (JStr ''b2b-saas-http-client'') o_nonEmpty),
     (''HTTP_CLIENT_MAX_REDIRECTS'', o_default (jnum 3) (o_coerce ports o_naturalInt)),
     (''HTTPS_PROXY'', o_optional o_string), (''NO_PROXY'', o_optional o_string)]"

definition smtpConfigSchema :: "valuePorts \<Rightarrow> jsval schema" where
  "smtpConfigSchema ports = o_object [(''SMTP_HOST'', o_nonEmpty), (''SMTP_PORT'', o_default (jnum 587) (o_coerce ports o_positiveInt)),
     (''SMTP_USER'', o_optional o_nonEmpty), (''SMTP_PASS'', o_optional o_nonEmpty), (''SMTP_FROM'', o_nonEmpty),
     (''SMTP_SECURE'', o_optional (o_enum [''true'', ''false'']))]"

definition httpMailerConfigSchema :: "valuePorts \<Rightarrow> jsval schema" where
  "httpMailerConfigSchema ports = o_object [(''url'', o_url ports), (''from'', o_nonEmpty), (''apiKey'', o_optional o_nonEmpty)]"

definition infra_postgres :: "valuePorts \<Rightarrow> js_object \<Rightarrow> jsval option" where
  "infra_postgres ports slice = postgresConfigSchema ports (JObj [(''DATABASE_URL'', obj_read slice ''url''),
     (''POSTGRES_POOL_MAX'', obj_read slice ''poolMax''), (''POSTGRES_CONNECT_TIMEOUT_MS'', obj_read slice ''connectTimeoutMs''),
     (''POSTGRES_STATEMENT_TIMEOUT_MS'', obj_read slice ''statementTimeoutMs''), (''POSTGRES_LOCK_TIMEOUT_MS'', obj_read slice ''lockTimeoutMs''),
     (''POSTGRES_IDLE_IN_TX_TIMEOUT_MS'', obj_read slice ''idleInTxTimeoutMs''), (''POSTGRES_APPLICATION_NAME'', obj_read slice ''applicationName''),
     (''POSTGRES_SLOW_QUERY_MS'', obj_read slice ''slowQueryMs'')])"

definition infra_redis :: "valuePorts \<Rightarrow> js_object \<Rightarrow> jsval option" where
  "infra_redis ports slice = redisConfigSchema ports (JObj [(''REDIS_URL'', obj_read slice ''url''), (''REDIS_KEY_PREFIX'', obj_read slice ''keyPrefix'')])"

definition infra_httpClient :: "valuePorts \<Rightarrow> js_object option \<Rightarrow> jsval option" where
  "infra_httpClient ports slice = (let get = (\<lambda>k. case slice of None \<Rightarrow> JUndefined | Some ob \<Rightarrow> obj_read ob k) in
     httpClientConfigSchema ports (JObj [(''HTTP_CLIENT_TIMEOUT_MS'', get ''timeoutMs''), (''HTTP_CLIENT_CONNECT_TIMEOUT_MS'', get ''connectTimeoutMs''),
       (''HTTP_CLIENT_POOL_MAX'', get ''poolMax''), (''HTTP_CLIENT_MAX_RESPONSE_BYTES'', get ''maxResponseBytes''),
       (''HTTP_CLIENT_USER_AGENT'', get ''userAgent''), (''HTTP_CLIENT_MAX_REDIRECTS'', get ''maxRedirects''), (''HTTPS_PROXY'', get ''httpsProxy''),
       (''NO_PROXY'', get ''noProxy'')]))"

definition infra_smtp :: "valuePorts \<Rightarrow> js_object \<Rightarrow> jsval option" where
  "infra_smtp ports slice = smtpConfigSchema ports (JObj [(''SMTP_HOST'', obj_read slice ''host''), (''SMTP_PORT'', obj_read slice ''port''),
     (''SMTP_FROM'', obj_read slice ''from''), (''SMTP_USER'', obj_read slice ''user''), (''SMTP_PASS'', obj_read slice ''pass''),
     (''SMTP_SECURE'', case obj_read slice ''secure'' of JUndefined \<Rightarrow> JUndefined | JNull \<Rightarrow> JUndefined
        | v \<Rightarrow> JStr (if v = JBool True then ''true'' else ''false''))])"

definition infra_httpMail :: "valuePorts \<Rightarrow> js_object \<Rightarrow> jsval option" where
  "infra_httpMail ports slice = httpMailerConfigSchema ports (JObj [(''url'', obj_read slice ''url''), (''from'', obj_read slice ''from''),
     (''apiKey'', obj_read slice ''apiKey'')])"

text \<open>The configuration the composition runs on: the slices, and \<open>null\<close> for mail that is not configured.\<close>

record compositionRuntimeConfig =
  cr_postgres :: jsval
  cr_redis :: jsval
  cr_httpClient :: jsval
  cr_mail :: jsval

definition toCompositionRuntimeConfig :: "jsval \<Rightarrow> jsval \<Rightarrow> jsval \<Rightarrow> jsval \<Rightarrow> compositionRuntimeConfig" where
  "toCompositionRuntimeConfig postgres redis httpClient mail = \<lparr>cr_postgres = postgres, cr_redis = redis, cr_httpClient = httpClient,
     cr_mail = (if mail = JUndefined \<or> mail = JNull then JNull else mail)\<rparr>"

section \<open>What the API is started with\<close>

text \<open>The value at a path of a parsed configuration.\<close>

definition cfg_at :: "jsval \<Rightarrow> string list \<Rightarrow> jsval" where
  "cfg_at config ks = (case path_get config ks of None \<Rightarrow> JUndefined | Some v \<Rightarrow> v)"

definition asText :: "jsval \<Rightarrow> string" where
  "asText v = (case v of JStr s \<Rightarrow> s | _ \<Rightarrow> [])"

definition asList :: "jsval \<Rightarrow> jsval list" where
  "asList v = (case v of JArr vs \<Rightarrow> vs | _ \<Rightarrow> [])"

record authBootstrapInput =
  ab_nodeEnv :: string
  ab_appEnv :: string
  ab_jwtAccessSecret :: string
  ab_corsOrigins :: "jsval list"

definition assertAuthBootstrap :: "authBootstrapInput \<Rightarrow> jsError + unit" where
  "assertAuthBootstrap input = (if length (ab_jwtAccessSecret input) = 0 then Inl (Error ''JWT_ACCESS_SECRET is required'')
     else let isDeployedSurface = ab_nodeEnv input = ''production'' \<or> ab_appEnv input = ''staging'' \<or> ab_appEnv input = ''production'' in
       if isDeployedSurface \<and> ab_jwtAccessSecret input = DEV_JWT_ACCESS_SECRET
       then Inl (Error ''JWT_ACCESS_SECRET must not be the development default in production or staging'')
       else if ab_appEnv input \<noteq> ''development'' \<and> length (ab_corsOrigins input) = 0
       then Inl (Error ''http.cors.origins must be non-empty when appEnv is not development'')
       else Inr ())"

record swaggerConfig =
  sw_enabled :: bool
  sw_path :: string
  sw_basicAuth :: "(string \<times> string) option"

record apiHttpConfig =
  ah_title :: string
  ah_port :: jsval
  ah_host :: "string option"
  ah_version :: string
  ah_globalPrefix :: "string option"
  ah_isProduction :: bool
  ah_isPlainHttp :: bool
  ah_corsOrigins :: "jsval list"
  ah_corsCredentials :: bool
  ah_swagger :: swaggerConfig

definition optText :: "jsval \<Rightarrow> string option" where
  "optText v = (case v of JStr s \<Rightarrow> Some s | _ \<Rightarrow> None)"

definition mapApiHttpConfig :: "jsval \<Rightarrow> apiHttpConfig" where
  "mapApiHttpConfig config = (let isProduction = cfg_at config [''nodeEnv''] = JStr ''production'' in
     \<lparr>ah_title = asText (cfg_at config [''http'', ''title'']), ah_port = cfg_at config [''http'', ''port''],
      ah_host = optText (cfg_at config [''http'', ''host'']), ah_version = asText (cfg_at config [''http'', ''version'']),
      ah_globalPrefix = optText (cfg_at config [''http'', ''globalPrefix'']), ah_isProduction = isProduction,
      ah_isPlainHttp = (cfg_at config [''http'', ''plainHttp''] = JBool True),
      ah_corsOrigins = asList (cfg_at config [''http'', ''cors'', ''origins'']),
      ah_corsCredentials = (cfg_at config [''http'', ''cors'', ''credentials''] = JBool True),
      ah_swagger = \<lparr>
        sw_enabled = (case cfg_at config [''http'', ''swagger'', ''enabled''] of JBool b \<Rightarrow> b | _ \<Rightarrow> \<not> isProduction),
        sw_path = asText (cfg_at config [''http'', ''swagger'', ''path'']),
        sw_basicAuth = (case (optText (cfg_at config [''http'', ''swagger'', ''basicAuth'', ''username'']),
            optText (cfg_at config [''http'', ''swagger'', ''basicAuth'', ''password''])) of
          (Some u, Some p) \<Rightarrow> Some (u, p) | _ \<Rightarrow> None)\<rparr>\<rparr>)"

record jwtAccessConfig =
  ja_secret :: string
  ja_ttlSeconds :: jsval
  ja_issuer :: string
  ja_audience :: string
  ja_nodeEnv :: string
  ja_cookieSecure :: bool
  ja_cookiePath :: string

definition mapJwtAccessConfig :: "jsval \<Rightarrow> jwtAccessConfig" where
  "mapJwtAccessConfig config = \<lparr>ja_secret = asText (cfg_at config [''jwt'', ''accessSecret'']), ja_ttlSeconds = cfg_at config [''jwt'', ''ttlSeconds''],
     ja_issuer = asText (cfg_at config [''jwt'', ''issuer'']), ja_audience = asText (cfg_at config [''jwt'', ''audience'']),
     ja_nodeEnv = asText (cfg_at config [''nodeEnv'']),
     ja_cookieSecure = (cfg_at config [''nodeEnv''] = JStr ''production'' \<and> cfg_at config [''http'', ''plainHttp''] \<noteq> JBool True),
     ja_cookiePath = asText (cfg_at config [''http'', ''refreshCookiePath''])\<rparr>"

section \<open>The Nest application\<close>

text \<open>The calls the builder makes on the application, in their order.\<close>

datatype appCall = UseHelmet | UseCookieParser | EnableCors "jsval list" bool | EnableVersioning string
  | SetGlobalPrefix string "string list" | EnableShutdownHooks | SetupOpenApi apiHttpConfig | Listen jsval "string option"

type_synonym builder = "appCall list \<Rightarrow> jsError + appCall list"

definition apiBuilder_useSecurity :: "apiHttpConfig \<Rightarrow> builder" where
  "apiBuilder_useSecurity config app = Inr (if ah_isPlainHttp config then app else app @ [UseHelmet])"

definition apiBuilder_useCookies :: builder where
  "apiBuilder_useCookies app = Inr (app @ [UseCookieParser])"

definition apiBuilder_enableCors :: "apiHttpConfig \<Rightarrow> builder" where
  "apiBuilder_enableCors config app = (if ah_isProduction config \<and> length (ah_corsOrigins config) = 0
     then Inl (Error ''CORS origins must be configured when isProduction is true'')
     else Inr (app @ [EnableCors (ah_corsOrigins config) (ah_corsCredentials config)]))"

definition apiBuilder_enableVersioning :: "apiHttpConfig \<Rightarrow> builder" where
  "apiBuilder_enableVersioning config app = Inr (app @ [EnableVersioning (ah_version config)])"

definition apiBuilder_useGlobalPrefix :: "apiHttpConfig \<Rightarrow> builder" where
  "apiBuilder_useGlobalPrefix config app = Inr (case ah_globalPrefix config of
     None \<Rightarrow> app | Some prfx \<Rightarrow> if prfx = [] then app else app @ [SetGlobalPrefix prfx HEALTH_SEGMENTS])"

definition apiBuilder_enableShutdownHooks :: builder where
  "apiBuilder_enableShutdownHooks app = Inr (app @ [EnableShutdownHooks])"

definition apiBuilder_setupSwagger :: "apiHttpConfig \<Rightarrow> builder" where
  "apiBuilder_setupSwagger config app = Inr (app @ [SetupOpenApi config])"

definition apiBuilder_listen :: "apiHttpConfig \<Rightarrow> builder" where
  "apiBuilder_listen config app = Inr (app @ [Listen (ah_port config) (ah_host config)])"

definition apiBootstrap_listen :: "jsval \<Rightarrow> jsError + appCall list" where
  "apiBootstrap_listen config = (let http = mapApiHttpConfig config in
     bindR (apiBuilder_useSecurity http []) (\<lambda>app. bindR (apiBuilder_useCookies app) (\<lambda>app. bindR (apiBuilder_enableCors http app) (\<lambda>app.
     bindR (apiBuilder_enableVersioning http app) (\<lambda>app. bindR (apiBuilder_useGlobalPrefix http app) (\<lambda>app.
     bindR (apiBuilder_enableShutdownHooks app) (\<lambda>app. bindR (apiBuilder_setupSwagger http app) (apiBuilder_listen http))))))))"

section \<open>The bootstrap\<close>

definition apiBootstrap_assertAuth :: "jsval \<Rightarrow> jsError + unit" where
  "apiBootstrap_assertAuth config = assertAuthBootstrap \<lparr>ab_nodeEnv = asText (cfg_at config [''nodeEnv'']),
     ab_appEnv = asText (cfg_at config [''appEnv'']), ab_jwtAccessSecret = asText (cfg_at config [''jwt'', ''accessSecret'']),
     ab_corsOrigins = asList (cfg_at config [''http'', ''cors'', ''origins''])\<rparr>"

datatype bootError = ConfigRefused configError | StartRefused jsError

text \<open>A started API: its configuration and the calls on its application.  Telemetry, the logger and the signal handlers do not
  decide whether it starts; the directory is the one of the environment, where it names one.\<close>

definition apiBootstrap_run :: "valuePorts \<Rightarrow> filePorts \<Rightarrow> string \<Rightarrow> (string \<times> string) list \<Rightarrow> bootError + jsval \<times> appCall list" where
  "apiBootstrap_run ports files configDirectory env =
     (case loadApiConfig ports files (appConfigFiles_resolveDirectory configDirectory (map_of env)) env of
       Inl e \<Rightarrow> Inl (ConfigRefused e)
     | Inr config \<Rightarrow> (case bindR (apiBootstrap_assertAuth config) (\<lambda>_. apiBootstrap_listen config) of
         Inl e \<Rightarrow> Inl (StartRefused e) | Inr calls \<Rightarrow> Inr (config, calls)))"

text \<open>The user that is seeded for development; an address that is taken is no failure.\<close>

definition devSeeder_onModuleInit :: "env \<Rightarrow> jsval \<Rightarrow> unit app" where
  "devSeeder_onModuleInit env config w = (if cfg_at config [''nodeEnv''] \<noteq> JStr ''development'' then (Inr (), w)
     else case createUser env ''dev@example.com'' ''Dev'' w of
       (Inr _, w') \<Rightarrow> (Inr (), w')
     | (Inl e, w') \<Rightarrow> if error_code e = Some ''USER_EMAIL_TAKEN'' then (Inr (), w') else (Inl e, w'))"

text \<open>The authentication of an API that is started with a configuration, over the token library \<open>lib\<close>.\<close>

definition configured_ports :: "authPorts \<Rightarrow> jsval \<Rightarrow> authPorts" where
  "configured_ports lib config = (let jwt = mapJwtAccessConfig config in
     lib\<lparr>ap_ttlSeconds := (case ja_ttlSeconds jwt of JNum (Fin q) \<Rightarrow> nat \<lfloor>q\<rfloor> | _ \<Rightarrow> 0), ap_cookiePath := ja_cookiePath jwt,
       ap_cookieSecure := ja_cookieSecure jwt, ap_development := (ja_nodeEnv jwt = ''development'')\<rparr>)"

end
