(* ===== verification/DeploymentGuarantees.thy ===== *)
theory DeploymentGuarantees
  imports Deployment ApiFlows
begin

text \<open>
  What the configuration guarantees of a deployment: what the schemas accept reaches the infrastructure unchanged, an API that
  starts has a secret of its own wherever it is deployed, and the headers are trusted by the process environment alone.
\<close>

section \<open>Values of a parsed configuration\<close>

lemma cfg_at_obj: "cfg_at (JObj ob) (k # ks) = cfg_at (obj_read ob k) ks"
  by (cases "obj_get ob k"; cases ks) (simp_all add: cfg_at_def obj_read_def)

lemma cfg_at_Nil: "cfg_at v [] = v"
  by (simp add: cfg_at_def)

lemma int_Some: "o_positiveInt v = Some x \<Longrightarrow> \<exists>n. x = JNum n \<and> o_positiveInt x = Some x"
    "o_naturalInt v = Some x \<Longrightarrow> \<exists>n. x = JNum n \<and> o_naturalInt x = Some x"
  by (auto simp: o_positiveInt_def o_naturalInt_def o_when_def split: jsval.splits if_splits)

lemma text_Some: "o_text P v = Some x \<Longrightarrow> \<exists>s. x = JStr s \<and> o_text P x = Some x"
  by (auto simp: o_text_def o_when_def split: jsval.splits if_splits)

lemma jnum_int: "0 < k \<Longrightarrow> k \<le> 9007199254740991 \<Longrightarrow> o_positiveInt (jnum k) = Some (jnum k)"
    "0 \<le> k \<Longrightarrow> k \<le> 9007199254740991 \<Longrightarrow> o_naturalInt (jnum k) = Some (jnum k)"
  by (simp_all add: jnum_def o_positiveInt_def o_naturalInt_def o_when_def safeInt_def num_lt_def) (simp_all add: numIsInteger_def num_def)

text \<open>A value the first schema gives is one the second takes as it is.\<close>

lemma positive_again:
  assumes "\<And>n. vp_number ports (JNum n) = n" "o_default (jnum k) o_positiveInt v = Some x" "0 < k" "k \<le> 9007199254740991"
  shows "o_default d (o_coerce ports o_positiveInt) x = Some x"
  using assms int_Some(1)[of v x] int_Some(1)[of "jnum k" x] jnum_int(1)[of k] by (auto simp: o_default_def o_coerce_def split: if_splits)

lemma natural_again:
  assumes "\<And>n. vp_number ports (JNum n) = n" "o_default (jnum k) o_naturalInt v = Some x" "0 \<le> k" "k \<le> 9007199254740991"
  shows "o_default d (o_coerce ports o_naturalInt) x = Some x"
  using assms int_Some(2)[of v x] int_Some(2)[of "jnum k" x] jnum_int(2)[of k] by (auto simp: o_default_def o_coerce_def split: if_splits)

lemma text_again:
  assumes "o_default (JStr s) (o_text P) v = Some x" "P s"
  shows "o_default d (o_text P) x = Some x"
  using assms text_Some[of P v x] by (auto simp: o_default_def o_text_def o_when_def split: if_splits)

lemma obj_read_cons: "obj_read ((k, v) # ob) n = (if n = k then v else obj_read ob n)" "hasOwn ((k, v) # ob) n \<longleftrightarrow> n = k \<or> hasOwn ob n"
  by (simp_all add: obj_read_def obj_get_def hasOwn_def eq_commute)

lemma postgres_slice:
  assumes "\<And>n. vp_number ports (JNum n) = n" "o_object (postgresFields ports name) v = Some x" "name \<noteq> []"
  shows "\<exists>pg. x = JObj pg \<and> infra_postgres ports pg = Some (JObj [(''DATABASE_URL'', obj_read pg ''url''),
     (''POSTGRES_POOL_MAX'', obj_read pg ''poolMax''), (''POSTGRES_CONNECT_TIMEOUT_MS'', obj_read pg ''connectTimeoutMs''),
     (''POSTGRES_STATEMENT_TIMEOUT_MS'', obj_read pg ''statementTimeoutMs''), (''POSTGRES_LOCK_TIMEOUT_MS'', obj_read pg ''lockTimeoutMs''),
     (''POSTGRES_IDLE_IN_TX_TIMEOUT_MS'', obj_read pg ''idleInTxTimeoutMs''), (''POSTGRES_APPLICATION_NAME'', obj_read pg ''applicationName''),
     (''POSTGRES_SLOW_QUERY_MS'', obj_read pg ''slowQueryMs'')])"
proof -
  obtain ob where v: "v = JObj ob" using assms(2) by (cases v) (auto simp: o_object_def)
  obtain pg where x: "x = JObj pg" and read: "\<And>n sch. (n, sch) \<in> set (postgresFields ports name) \<Longrightarrow> sch (obj_read ob n) = Some (obj_read pg n)"
    using assms(2) unfolding v by (rule o_object_read) (auto simp: postgresFields_def)
  have url: "o_url ports (obj_read pg ''url'') = Some (obj_read pg ''url'')"
    using read[of "''url''" "o_url ports"] text_Some by (force simp: postgresFields_def o_url_def)
  have app: "o_default (JStr ''b2b-saas'') o_nonEmpty (obj_read pg ''applicationName'') = Some (obj_read pg ''applicationName'')"
    using read[of "''applicationName''" "o_default (JStr name) o_nonEmpty"] text_again[of name _ "obj_read ob ''applicationName''"] assms(3)
    by (auto simp: postgresFields_def o_nonEmpty_def Suc_le_eq)
  have pos: "o_default d (o_coerce ports o_positiveInt) (obj_read pg n) = Some (obj_read pg n)"
    if "(n, o_default (jnum k) o_positiveInt) \<in> set (postgresFields ports name)" "0 < k" "k \<le> 9007199254740991" for d n k
    using positive_again[OF assms(1) read[OF that(1)] that(2,3)] .
  have nat: "o_default d (o_coerce ports o_naturalInt) (obj_read pg n) = Some (obj_read pg n)"
    if "(n, o_default (jnum k) o_naturalInt) \<in> set (postgresFields ports name)" "0 \<le> k" "k \<le> 9007199254740991" for d n k
    using natural_again[OF assms(1) read[OF that(1)] that(2,3)] .
  have ints: "o_default d (o_coerce ports o_positiveInt) (obj_read pg ''poolMax'') = Some (obj_read pg ''poolMax'')"
    "o_default d (o_coerce ports o_positiveInt) (obj_read pg ''connectTimeoutMs'') = Some (obj_read pg ''connectTimeoutMs'')"
    "o_default d (o_coerce ports o_naturalInt) (obj_read pg ''statementTimeoutMs'') = Some (obj_read pg ''statementTimeoutMs'')"
    "o_default d (o_coerce ports o_naturalInt) (obj_read pg ''lockTimeoutMs'') = Some (obj_read pg ''lockTimeoutMs'')"
    "o_default d (o_coerce ports o_naturalInt) (obj_read pg ''idleInTxTimeoutMs'') = Some (obj_read pg ''idleInTxTimeoutMs'')"
    "o_default d (o_coerce ports o_naturalInt) (obj_read pg ''slowQueryMs'') = Some (obj_read pg ''slowQueryMs'')" for d
    by (rule pos[of _ 10] pos[of _ 5000] nat[of _ 15000] nat[of _ 5000] nat[of _ 30000] nat[of _ 500]; simp add: postgresFields_def)+
  show ?thesis
    by (intro exI[of _ pg] conjI x)
      (simp add: infra_postgres_def postgresConfigSchema_def o_object_def obj_read_cons url app ints)
qed

lemma redis_slice:
  assumes "redisSchema ports v = Some x"
  shows "\<exists>rd. x = JObj rd \<and> infra_redis ports rd = Some (JObj [(''REDIS_URL'', obj_read rd ''url''), (''REDIS_KEY_PREFIX'', obj_read rd ''keyPrefix'')])"
proof -
  obtain ob where v: "v = JObj ob" using assms by (cases v) (auto simp: redisSchema_def o_object_def)
  obtain rd where x: "x = JObj rd" and read: "\<And>n sch. (n, sch) \<in> set [(''url'', o_url ports), (''keyPrefix'', o_default (JStr []) o_string)] \<Longrightarrow>
      sch (obj_read ob n) = Some (obj_read rd n)"
    using assms unfolding v redisSchema_def by (rule o_object_read) auto
  have url: "o_url ports (obj_read rd ''url'') = Some (obj_read rd ''url'')"
    using read[of "''url''" "o_url ports"] text_Some by (force simp: o_url_def)
  have prfx: "o_default (JStr []) o_string (obj_read rd ''keyPrefix'') = Some (obj_read rd ''keyPrefix'')"
    using read[of "''keyPrefix''" "o_default (JStr []) o_string"] by (auto simp: o_default_def o_string_def o_when_def split: if_splits jsval.splits)
  show ?thesis
    by (intro exI[of _ rd] conjI x) (simp add: infra_redis_def redisConfigSchema_def o_object_def obj_read_cons url prfx)
qed

definition or_default :: "jsval \<Rightarrow> jsval \<Rightarrow> jsval" where
  "or_default d x = (if x = JUndefined then d else x)"

lemma optional_again:
  assumes "\<And>n. vp_number ports (JNum n) = n"
  shows "o_optional o_positiveInt v = Some x \<Longrightarrow> o_default d (o_coerce ports o_positiveInt) x = Some (or_default d x)"
    "o_optional o_naturalInt v = Some x \<Longrightarrow> o_default d (o_coerce ports o_naturalInt) x = Some (or_default d x)"
    "o_optional (o_text P) v = Some x \<Longrightarrow> o_default d (o_text P) x = Some (or_default d x)"
    "o_optional (o_text P) v = Some x \<Longrightarrow> o_optional (o_text P) x = Some x"
    "o_optional o_string v = Some x \<Longrightarrow> o_optional o_string x = Some x"
  using int_Some[of v x] text_Some[of P v x] assms
  by (auto simp: o_optional_def o_default_def o_coerce_def or_default_def o_string_def o_when_def split: if_splits)

lemma httpClient_slice:
  assumes "\<And>n. vp_number ports (JNum n) = n" "httpClientSchema v = Some x"
  shows "\<exists>hc. x = JObj hc \<and> infra_httpClient ports (Some hc) = Some (JObj [
     (''HTTP_CLIENT_TIMEOUT_MS'', or_default (jnum 10000) (obj_read hc ''timeoutMs'')),
     (''HTTP_CLIENT_CONNECT_TIMEOUT_MS'', or_default (jnum 5000) (obj_read hc ''connectTimeoutMs'')),
     (''HTTP_CLIENT_POOL_MAX'', or_default (jnum 16) (obj_read hc ''poolMax'')),
     (''HTTP_CLIENT_MAX_RESPONSE_BYTES'', or_default (jnum (2 * 1024 * 1024)) (obj_read hc ''maxResponseBytes'')),
     (''HTTP_CLIENT_USER_AGENT'', or_default (JStr ''b2b-saas-http-client'') (obj_read hc ''userAgent'')),
     (''HTTP_CLIENT_MAX_REDIRECTS'', or_default (jnum 3) (obj_read hc ''maxRedirects'')),
     (''HTTPS_PROXY'', obj_read hc ''httpsProxy''), (''NO_PROXY'', obj_read hc ''noProxy'')])"
proof -
  let ?flds = "[(''timeoutMs'', o_optional o_positiveInt),
     (''connectTimeoutMs'', o_optional o_positiveInt), (''poolMax'', o_optional o_positiveInt), (''maxResponseBytes'', o_optional o_positiveInt),
     (''userAgent'', o_optional o_nonEmpty), (''maxRedirects'', o_optional o_naturalInt), (''httpsProxy'', o_optional o_string),
     (''noProxy'', o_optional o_string)]"
  obtain hc where x: "x = JObj hc" and read: "\<And>n sch. (n, sch) \<in> set ?flds \<Longrightarrow> \<exists>w. sch w = Some (obj_read hc n)"
  proof (cases "v = JUndefined")
    case True
    have "\<exists>w. sch w = Some (obj_read [] n)" if "(n, sch) \<in> set ?flds" for n sch
      using that by (auto simp: obj_read_def obj_get_def o_optional_def intro!: exI[of _ JUndefined])
    then show ?thesis using that[of "[]"] assms(2) True by (auto simp: httpClientSchema_def o_default_def)
  next
    case False
    then have o: "o_object ?flds v = Some x" using assms(2) by (simp add: httpClientSchema_def o_default_def)
    then obtain ob where v: "v = JObj ob" by (cases v) (auto simp: o_object_def)
    obtain hc where "x = JObj hc" "\<And>n sch. (n, sch) \<in> set ?flds \<Longrightarrow> sch (obj_read ob n) = Some (obj_read hc n)"
      using o unfolding v by (rule o_object_read) auto
    then show ?thesis using that by blast
  qed
  have ints: "o_default d (o_coerce ports o_positiveInt) (obj_read hc n) = Some (or_default d (obj_read hc n))"
    if "(n, o_optional o_positiveInt) \<in> set ?flds" for d n
    using read[OF that] optional_again(1)[OF assms(1)] by blast
  have ints: "o_default d (o_coerce ports o_positiveInt) (obj_read hc ''timeoutMs'') = Some (or_default d (obj_read hc ''timeoutMs''))"
    "o_default d (o_coerce ports o_positiveInt) (obj_read hc ''connectTimeoutMs'') = Some (or_default d (obj_read hc ''connectTimeoutMs''))"
    "o_default d (o_coerce ports o_positiveInt) (obj_read hc ''poolMax'') = Some (or_default d (obj_read hc ''poolMax''))"
    "o_default d (o_coerce ports o_positiveInt) (obj_read hc ''maxResponseBytes'') = Some (or_default d (obj_read hc ''maxResponseBytes''))" for d
    by (rule ints; simp)+
  have nat: "o_default d (o_coerce ports o_naturalInt) (obj_read hc ''maxRedirects'') = Some (or_default d (obj_read hc ''maxRedirects''))" for d
    using read[of "''maxRedirects''" "o_optional o_naturalInt"] optional_again(2)[OF assms(1)] by auto
  have agent: "o_default d o_nonEmpty (obj_read hc ''userAgent'') = Some (or_default d (obj_read hc ''userAgent''))" for d
    using read[of "''userAgent''" "o_optional o_nonEmpty"] optional_again(3)[OF assms(1)] by (auto simp: o_nonEmpty_def)
  have proxies: "o_optional o_string (obj_read hc ''httpsProxy'') = Some (obj_read hc ''httpsProxy'')"
    "o_optional o_string (obj_read hc ''noProxy'') = Some (obj_read hc ''noProxy'')"
    using read[of "''httpsProxy''" "o_optional o_string"] read[of "''noProxy''" "o_optional o_string"] optional_again(5)[OF assms(1)] by auto
  show ?thesis
    by (intro exI[of _ hc] conjI x)
      (simp add: infra_httpClient_def httpClientConfigSchema_def o_object_def obj_read_cons ints nat agent proxies Let_def)
qed

lemma mail_slice:
  assumes "\<And>n. vp_number ports (JNum n) = n" "mailProviderSchema ports v = Some x"
  shows "\<exists>m. x = JObj m \<and> (obj_read m ''transport'' = JStr ''smtp'' \<and> infra_smtp ports m = Some (JObj [(''SMTP_HOST'', obj_read m ''host''),
       (''SMTP_PORT'', obj_read m ''port''), (''SMTP_USER'', obj_read m ''user''), (''SMTP_PASS'', obj_read m ''pass''), (''SMTP_FROM'', obj_read m ''from''),
       (''SMTP_SECURE'', JStr (if obj_read m ''secure'' = JBool True then ''true'' else ''false''))]) \<or>
     obj_read m ''transport'' = JStr ''http'' \<and> infra_httpMail ports m = Some (JObj [(''url'', obj_read m ''url''), (''from'', obj_read m ''from''),
       (''apiKey'', obj_read m ''apiKey'')]))"
proof (cases "smtpMailProviderSchema v")
  case (Some y)
  then have y: "y = x" using assms(2) by (simp add: mailProviderSchema_def o_union_def)
  obtain ob where v: "v = JObj ob" using Some by (cases v) (auto simp: smtpMailProviderSchema_def o_object_def)
  let ?flds = "[(''transport'', o_literal (JStr ''smtp'')), (''from'', o_nonEmpty), (''host'', o_nonEmpty),
     (''port'', o_default (jnum 587) o_positiveInt), (''user'', o_optional o_nonEmpty), (''pass'', o_optional o_nonEmpty),
     (''secure'', o_default (JBool False) o_boolean)]"
  obtain m where x: "x = JObj m" and read: "\<And>n sch. (n, sch) \<in> set ?flds \<Longrightarrow> sch (obj_read ob n) = Some (obj_read m n)"
    using Some unfolding v y smtpMailProviderSchema_def by (rule o_object_read) auto
  have transport: "obj_read m ''transport'' = JStr ''smtp''"
    using read[of "''transport''"] by (auto simp: o_literal_def o_when_def split: if_splits)
  have texts: "o_nonEmpty (obj_read m ''from'') = Some (obj_read m ''from'')" "o_nonEmpty (obj_read m ''host'') = Some (obj_read m ''host'')"
    using read[of "''from''" o_nonEmpty] read[of "''host''" o_nonEmpty] text_Some by (force simp: o_nonEmpty_def)+
  have optionals: "o_optional o_nonEmpty (obj_read m ''user'') = Some (obj_read m ''user'')"
      "o_optional o_nonEmpty (obj_read m ''pass'') = Some (obj_read m ''pass'')"
    using read[of "''user''" "o_optional o_nonEmpty"] read[of "''pass''" "o_optional o_nonEmpty"] optional_again(4)[OF assms(1)]
    by (auto simp: o_nonEmpty_def)
  have port: "o_default d (o_coerce ports o_positiveInt) (obj_read m ''port'') = Some (obj_read m ''port'')" for d
    using positive_again[OF assms(1) read[of "''port''" "o_default (jnum 587) o_positiveInt"]] by simp
  obtain b where secure: "obj_read m ''secure'' = JBool b"
    using read[of "''secure''" "o_default (JBool False) o_boolean"]
    by (auto simp: o_default_def o_boolean_def o_when_def split: if_splits jsval.splits dest!: sym[where t = "obj_read m _"])
  define t where "t = (if obj_read m ''secure'' = JBool True then ''true'' else ''false'')"
  have sec: "o_optional (o_enum [''true'', ''false'']) (JStr t) = Some (JStr t)"
    by (simp add: t_def o_optional_def o_enum_def o_text_def o_when_def)
  have flag: "(case obj_read m ''secure'' of JUndefined \<Rightarrow> JUndefined | JNull \<Rightarrow> JUndefined
        | v \<Rightarrow> JStr (if v = JBool True then ''true'' else ''false'')) = JStr t"
    by (simp add: secure t_def)
  have "infra_smtp ports m = Some (JObj [(''SMTP_HOST'', obj_read m ''host''),
       (''SMTP_PORT'', obj_read m ''port''), (''SMTP_USER'', obj_read m ''user''), (''SMTP_PASS'', obj_read m ''pass''), (''SMTP_FROM'', obj_read m ''from''),
       (''SMTP_SECURE'', JStr (if obj_read m ''secure'' = JBool True then ''true'' else ''false''))])"
    unfolding t_def[symmetric] infra_smtp_def smtpConfigSchema_def o_object_def flag
    by (simp add: obj_read_cons texts optionals port sec)
  then show ?thesis using x transport by blast
next
  case None
  then have h: "httpMailProviderSchema ports v = Some x" using assms(2) by (simp add: mailProviderSchema_def o_union_def)
  then obtain ob where v: "v = JObj ob" by (cases v) (auto simp: httpMailProviderSchema_def o_object_def)
  let ?flds = "[(''transport'', o_literal (JStr ''http'')), (''from'', o_nonEmpty), (''url'', o_url ports), (''apiKey'', o_optional o_nonEmpty)]"
  obtain m where x: "x = JObj m" and read: "\<And>n sch. (n, sch) \<in> set ?flds \<Longrightarrow> sch (obj_read ob n) = Some (obj_read m n)"
    using h unfolding v httpMailProviderSchema_def by (rule o_object_read) auto
  have transport: "obj_read m ''transport'' = JStr ''http''"
    using read[of "''transport''"] by (auto simp: o_literal_def o_when_def split: if_splits)
  have texts: "o_nonEmpty (obj_read m ''from'') = Some (obj_read m ''from'')" "o_url ports (obj_read m ''url'') = Some (obj_read m ''url'')"
    using read[of "''from''" o_nonEmpty] read[of "''url''" "o_url ports"] text_Some by (force simp: o_nonEmpty_def o_url_def)+
  have key: "o_optional o_nonEmpty (obj_read m ''apiKey'') = Some (obj_read m ''apiKey'')"
    using read[of "''apiKey''" "o_optional o_nonEmpty"] optional_again(4)[OF assms(1)] by (auto simp: o_nonEmpty_def)
  have "infra_httpMail ports m = Some (JObj [(''url'', obj_read m ''url''), (''from'', obj_read m ''from''), (''apiKey'', obj_read m ''apiKey'')])"
    by (simp add: infra_httpMail_def httpMailerConfigSchema_def o_object_def obj_read_cons texts key)
  then show ?thesis using x transport by blast
qed

section \<open>The start of the API\<close>

lemma config_object:
  assumes "apiConfigSchema ports (JObj raw) = Some config"
  obtains c where "config = JObj c" "kitAppEnvSchema (obj_read raw ''appEnv'') = Some (obj_read c ''appEnv'')"
    "nodeEnvSchema (obj_read raw ''nodeEnv'') = Some (obj_read c ''nodeEnv'')" "httpSchema ports (obj_read raw ''http'') = Some (obj_read c ''http'')"
    "api_postgresSchema ports (obj_read raw ''postgres'') = Some (obj_read c ''postgres'')"
    "redisSchema ports (obj_read raw ''redis'') = Some (obj_read c ''redis'')"
    "httpClientSchema (obj_read raw ''httpClient'') = Some (obj_read c ''httpClient'')" "jwtSchema (obj_read raw ''jwt'') = Some (obj_read c ''jwt'')"
    "o_optional (mailProviderSchema ports) (obj_read raw ''mail'') = Some (obj_read c ''mail'')"
  using assms unfolding apiConfigSchema_def by (rule o_object_read) (auto intro: that)

text \<open>The slices both applications share.\<close>

lemma app_slices:
  assumes "apiConfigSchema ports (JObj raw) = Some config \<or> workerConfigSchema ports (JObj raw) = Some config"
    and "\<And>c v name. config = JObj c \<Longrightarrow> o_object (postgresFields ports name) v = Some (obj_read c ''postgres'') \<Longrightarrow> name \<noteq> [] \<Longrightarrow>
      redisSchema ports (obj_read raw ''redis'') = Some (obj_read c ''redis'') \<Longrightarrow>
      obj_read c ''httpClient'' = JUndefined \<or> httpClientSchema (obj_read raw ''httpClient'') = Some (obj_read c ''httpClient'') \<Longrightarrow>
      o_optional (mailProviderSchema ports) (obj_read raw ''mail'') = Some (obj_read c ''mail'') \<Longrightarrow> P"
  shows P
  using assms(1)
proof
  assume "apiConfigSchema ports (JObj raw) = Some config"
  then obtain c where "config = JObj c" "api_postgresSchema ports (obj_read raw ''postgres'') = Some (obj_read c ''postgres'')"
    "redisSchema ports (obj_read raw ''redis'') = Some (obj_read c ''redis'')"
    "httpClientSchema (obj_read raw ''httpClient'') = Some (obj_read c ''httpClient'')"
    "o_optional (mailProviderSchema ports) (obj_read raw ''mail'') = Some (obj_read c ''mail'')"
    by (rule config_object)
  then show P by (intro assms(2)[of c "''b2b-saas''" "obj_read raw ''postgres''"]) (simp_all add: api_postgresSchema_def)
next
  assume w: "workerConfigSchema ports (JObj raw) = Some config"
  then obtain ob where o: "config = JObj ob" "o_fields [(''appEnv'', kitAppEnvSchema), (''nodeEnv'', nodeEnvSchema), (''appType'', worker_appTypeSchema),
     (''postgres'', worker_postgresSchema ports), (''redis'', redisSchema ports), (''messaging'', messagingSchema), (''outbox'', outboxSchema),
     (''maintenance'', maintenanceSchema), (''log'', logSchema), (''telemetry'', telemetrySchema), (''mail'', o_optional (mailProviderSchema ports))] raw = Some ob"
    by (auto simp: workerConfigSchema_def o_object_def simp del: o_fields.simps)
  have "''httpClient'' \<notin> set (map fst ob)" using o_fields_keys[OF o(2)] by auto
  then have http: "obj_read ob ''httpClient'' = JUndefined" by (simp add: obj_read_def obj_get_def map_of_eq_None_iff[THEN iffD2])
  have "worker_postgresSchema ports (obj_read raw ''postgres'') = Some (obj_read ob ''postgres'')"
    "redisSchema ports (obj_read raw ''redis'') = Some (obj_read ob ''redis'')"
    "o_optional (mailProviderSchema ports) (obj_read raw ''mail'') = Some (obj_read ob ''mail'')"
    by (rule o_fields_read[OF o(2)]; simp)+
  then show P using o(1) http
    by (intro assms(2)[of ob "''b2b-saas-worker''" "obj_read raw ''postgres''"]) (simp_all add: worker_postgresSchema_def)
qed

lemma jwt_secret:
  assumes "jwtSchema v = Some x"
  shows "\<exists>s. cfg_at x [''accessSecret''] = JStr s \<and> s \<noteq> [] \<and> (\<forall>t. cfg_at v [''accessSecret''] = JStr t \<longrightarrow> s = t)"
proof -
  obtain ob where v: "v = JObj ob" using assms by (cases v) (auto simp: jwtSchema_def o_object_def)
  obtain j where x: "x = JObj j" and "o_default (JStr DEV_JWT_ACCESS_SECRET) o_nonEmpty (obj_read ob ''accessSecret'') = Some (obj_read j ''accessSecret'')"
    using assms unfolding v jwtSchema_def by (rule o_object_read) auto
  then show ?thesis unfolding x v
    by (auto simp: cfg_at_obj cfg_at_Nil o_default_def o_nonEmpty_def o_text_def o_when_def DEV_JWT_ACCESS_SECRET_def split: if_splits jsval.splits
        dest!: sym[where t = "obj_read j _"])
qed

lemma loaded_config:
  assumes "loadApiConfig ports files dir env = Inr config"
  obtains yaml raw where "envOverlay_loop yaml API_ENV_OVERLAY (map_of env) = Inr raw" "apiConfigSchema ports (JObj raw) = Some config"
  using assms
  by (auto simp: loadApiConfig_def loadAppConfig_def configLoader_load_def schema_result_def envOverlay_apply_def bindR_eq_Inr
      split: sum.splits option.splits)

lemma overlaid_secret:
  assumes "envOverlay_loop yaml API_ENV_OVERLAY env = Inr raw" "env ''JWT_ACCESS_SECRET'' = Some v"
  shows "cfg_at (obj_read raw ''jwt'') [''accessSecret''] = JStr v"
proof -
  have paths: "split_on (CHR ''.'') ''jwt.accessSecret'' = [''jwt'', ''accessSecret'']"
    "map (split_on (CHR ''.'')) [''http.swagger.basicAuth.password'', ''mail.pass'', ''mail.apiKey''] =
       [[''http'', ''swagger'', ''basicAuth'', ''password''], [''mail'', ''pass''], [''mail'', ''apiKey'']]" by code_simp+
  have "path_get (JObj raw) (split_on (CHR ''.'') ''jwt.accessSecret'') = Some (JStr v)"
    by (rule overlay_value[where entries = "take 4 API_ENV_OVERLAY" and later = "drop 5 API_ENV_OVERLAY" and env = env and ob = yaml])
      (use assms paths in \<open>simp_all add: API_ENV_OVERLAY_def\<close>)
  then show ?thesis using cfg_at_obj[of raw "''jwt''" "[''accessSecret'']"] by (simp add: paths cfg_at_def)
qed

lemma overlaid_node_env:
  assumes "envOverlay_loop yaml API_ENV_OVERLAY env = Inr raw" "env ''NODE_ENV'' = Some v"
  shows "obj_read raw ''nodeEnv'' = JStr v"
proof -
  have paths: "split_on (CHR ''.'') ''nodeEnv'' = [''nodeEnv'']"
    "map (split_on (CHR ''.'')) [''http.port'', ''postgres.url'', ''redis.url'', ''jwt.accessSecret'', ''http.swagger.basicAuth.password'', ''mail.pass'', ''mail.apiKey''] =
       [[''http'', ''port''], [''postgres'', ''url''], [''redis'', ''url''], [''jwt'', ''accessSecret''], [''http'', ''swagger'', ''basicAuth'', ''password''],
        [''mail'', ''pass''], [''mail'', ''apiKey'']]" by code_simp+
  have "path_get (JObj raw) (split_on (CHR ''.'') ''nodeEnv'') = Some (JStr v)"
    by (rule overlay_value[where entries = "[]" and later = "drop 1 API_ENV_OVERLAY" and env = env and ob = yaml])
      (use assms paths in \<open>simp_all add: API_ENV_OVERLAY_def\<close>)
  then show ?thesis by (simp add: paths obj_read_def split: option.splits)
qed

lemma node_env_value:
  assumes "nodeEnvSchema v = Some x"
  shows "x = JStr (if v = JStr ''production'' then ''production'' else ''development'')"
  using assms by (auto simp: nodeEnvSchema_def split: jsval.splits if_splits)

lemma app_env_value: "kitAppEnvSchema v = Some x \<Longrightarrow> x \<in> {JStr ''staging'', JStr ''production'', JStr ''development''}"
  by (auto simp: kitAppEnvSchema_def appEnvSchema_def o_union_def o_enum_def o_text_def o_literal_def o_when_def split: option.splits jsval.splits if_splits)

lemma listen_calls:
  assumes "apiBootstrap_listen config = Inr calls"
  shows "EnableCors (asList (cfg_at config [''http'', ''cors'', ''origins''])) (cfg_at config [''http'', ''cors'', ''credentials''] = JBool True) \<in> set calls"
    "UseHelmet \<in> set calls \<longleftrightarrow> cfg_at config [''http'', ''plainHttp''] \<noteq> JBool True"
    "\<exists>host. last calls = Listen (cfg_at config [''http'', ''port'']) host"
    "cfg_at config [''nodeEnv''] = JStr ''production'' \<Longrightarrow> asList (cfg_at config [''http'', ''cors'', ''origins'']) \<noteq> []"
  using assms
  by (auto simp: apiBootstrap_listen_def mapApiHttpConfig_def Let_def apiBuilder_useSecurity_def apiBuilder_useCookies_def apiBuilder_enableCors_def
      apiBuilder_enableVersioning_def apiBuilder_useGlobalPrefix_def apiBuilder_enableShutdownHooks_def apiBuilder_setupSwagger_def
      apiBuilder_listen_def split: if_splits option.splits)

lemma started:
  assumes "apiBootstrap_run ports files dir env = Inr (config, calls)"
  obtains yaml raw where "envOverlay_loop yaml API_ENV_OVERLAY (map_of env) = Inr raw" "apiConfigSchema ports (JObj raw) = Some config"
    "apiBootstrap_assertAuth config = Inr ()" "apiBootstrap_listen config = Inr calls"
proof -
  obtain config' where c: "loadApiConfig ports files (appConfigFiles_resolveDirectory dir (map_of env)) env = Inr config'"
    "config' = config" "apiBootstrap_assertAuth config = Inr ()" "apiBootstrap_listen config = Inr calls"
    using assms by (auto simp: apiBootstrap_run_def bindR_eq_Inr split: sum.splits)
  show thesis by (rule loaded_config[OF c(1)[unfolded c(2)]]) (rule that[OF _ _ c(3,4)])
qed

text \<open>C35: An API that starts is guarded: its secret for tokens is not empty, it is the one of the environment where that has one, and wherever the API is
  deployed, by its process environment or its product environment, it is not the development default and the CORS origins are not
  empty; helmet is in use unless the configuration says plain HTTP, and listening is the last step.\<close>

theorem started_api_guarded:
  assumes "apiBootstrap_run ports files dir env = Inr (config, calls)"
    "deployed = (map_of env ''NODE_ENV'' = Some ''production'' \<or> cfg_at config [''appEnv''] \<noteq> JStr ''development'')"
  shows "(\<exists>secret. cfg_at config [''jwt'', ''accessSecret''] = JStr secret \<and> secret \<noteq> [] \<and>
      (\<forall>v. map_of env ''JWT_ACCESS_SECRET'' = Some v \<longrightarrow> secret = v) \<and> (deployed \<longrightarrow> secret \<noteq> DEV_JWT_ACCESS_SECRET)) \<and>
    (\<exists>origins credentials. EnableCors origins credentials \<in> set calls \<and> (deployed \<longrightarrow> origins \<noteq> [])) \<and>
    (UseHelmet \<in> set calls \<longleftrightarrow> cfg_at config [''http'', ''plainHttp''] \<noteq> JBool True) \<and>
    (\<exists>host. last calls = Listen (cfg_at config [''http'', ''port'']) host)"
proof -
  obtain yaml raw where raw: "envOverlay_loop yaml API_ENV_OVERLAY (map_of env) = Inr raw" "apiConfigSchema ports (JObj raw) = Some config"
    and run: "apiBootstrap_assertAuth config = Inr ()" "apiBootstrap_listen config = Inr calls"
    using assms(1) by (rule started)
  obtain c where c: "config = JObj c" "kitAppEnvSchema (obj_read raw ''appEnv'') = Some (obj_read c ''appEnv'')"
    "nodeEnvSchema (obj_read raw ''nodeEnv'') = Some (obj_read c ''nodeEnv'')" "jwtSchema (obj_read raw ''jwt'') = Some (obj_read c ''jwt'')"
    using raw(2) by (rule config_object)
  obtain secret where s: "cfg_at config [''jwt'', ''accessSecret''] = JStr secret" "secret \<noteq> []"
    "\<And>t. cfg_at (obj_read raw ''jwt'') [''accessSecret''] = JStr t \<Longrightarrow> secret = t"
    using jwt_secret[OF c(4)] by (auto simp: c(1) cfg_at_obj)
  have own: "secret = v" if "map_of env ''JWT_ACCESS_SECRET'' = Some v" for v
    using s(3) overlaid_secret[OF raw(1) that] by blast
  have app: "cfg_at config [''appEnv''] \<in> {JStr ''staging'', JStr ''production'', JStr ''development''}"
    using app_env_value[OF c(2)] by (simp add: c(1) cfg_at_obj cfg_at_Nil)
  have node: "cfg_at config [''nodeEnv''] = JStr ''production''" if "map_of env ''NODE_ENV'' = Some ''production''"
    using node_env_value[OF c(3)] overlaid_node_env[OF raw(1) that] by (simp add: c(1) cfg_at_obj cfg_at_Nil)
  have "deployed \<longrightarrow> secret \<noteq> DEV_JWT_ACCESS_SECRET \<and> asList (cfg_at config [''http'', ''cors'', ''origins'']) \<noteq> []"
    using run(1) app node s(1) listen_calls(4)[OF run(2)] unfolding assms(2)
    by (auto simp: apiBootstrap_assertAuth_def assertAuthBootstrap_def asText_def Let_def split: if_splits)
  then show ?thesis using s(1,2) own listen_calls(1-3)[OF run(2)] by blast
qed


definition demoValues :: valuePorts where
  "demoValues = \<lparr>vp_url = (\<lambda>s. s \<noteq> []), vp_number = (\<lambda>v. case v of JNum n \<Rightarrow> n | _ \<Rightarrow> NaN)\<rparr>"

definition bootYaml :: js_object where
  "bootYaml = [(''appEnv'', JStr ''production''), (''http'', JObj [(''cors'', JObj [(''origins'', JArr [JStr ''https://app''])])]),
     (''postgres'', JObj [(''url'', JStr ''postgres://db'')]), (''redis'', JObj [(''url'', JStr ''redis://cache'')])]"

definition bootFiles :: filePorts where
  "bootFiles = \<lparr>fp_readdir = (\<lambda>_. Inr []), fp_exists = (\<lambda>_. False), fp_readFile = Inr, fp_join = (\<lambda>d f. f),
     fp_loadYaml = (\<lambda>_. Inr (JObj bootYaml)), fp_typeof = (\<lambda>_. [])\<rparr>"

definition bootEnv :: "(string \<times> string) list" where
  "bootEnv = [(''NODE_ENV'', ''staging''), (''JWT_ACCESS_SECRET'', ''s3cret'')]"

definition bootRaw :: js_object where
  "bootRaw = bootYaml @ [(''nodeEnv'', JStr ''staging''), (''jwt'', JObj [(''accessSecret'', JStr ''s3cret'')])]"

lemma boot_raw: "loadRaw bootFiles (FromYaml \<lparr>yo_directory = ''config'', yo_files = Some [''default.yml''], yo_envOverlay = Some API_ENV_OVERLAY,
    yo_env = bootEnv\<rparr>) = Inr bootRaw"
  by code_simp

lemma jnum_defined: "jnum n \<noteq> JUndefined"
  by (simp add: jnum_def)

definition bootConfig :: jsval where
  "bootConfig = JObj [(''appEnv'', JStr ''production''), (''nodeEnv'', JStr ''development''), (''appType'', JStr ''api''),
     (''http'', JObj [(''title'', JStr ''B2B SaaS API''), (''port'', jnum 3000), (''version'', JStr ''1''), (''plainHttp'', JBool False),
        (''refreshCookiePath'', JStr ''/v1/auth''), (''cors'', JObj [(''origins'', JArr [JStr ''https://app'']), (''credentials'', JBool False)]),
        (''swagger'', JObj [(''path'', JStr ''/docs'')])]),
     (''postgres'', JObj [(''url'', JStr ''postgres://db''), (''poolMax'', jnum 10), (''connectTimeoutMs'', jnum 5000),
        (''statementTimeoutMs'', jnum 15000), (''lockTimeoutMs'', jnum 5000), (''idleInTxTimeoutMs'', jnum 30000),
        (''applicationName'', JStr ''b2b-saas''), (''slowQueryMs'', jnum 500)]),
     (''redis'', JObj [(''url'', JStr ''redis://cache''), (''keyPrefix'', JStr [])]), (''httpClient'', JObj []),
     (''jwt'', JObj [(''accessSecret'', JStr ''s3cret''), (''ttlSeconds'', jnum 900), (''issuer'', JStr JWT_ISSUER), (''audience'', JStr JWT_AUDIENCE)]),
     (''log'', JObj [(''level'', JStr ''info'')]), (''telemetry'', JObj [(''enabled'', JBool False)])]"

lemma boot_config: "apiConfigSchema demoValues (JObj bootRaw) = Some bootConfig"
  by (simp add: apiConfigSchema_def o_object_def bootRaw_def bootYaml_def obj_read_cons httpSchema_def api_postgresSchema_def postgresFields_def redisSchema_def
     httpClientSchema_def jwtSchema_def kitAppEnvSchema_def appEnvSchema_def nodeEnvSchema_def api_appTypeSchema_def logSchema_def telemetrySchema_def
     corsSchema_def swaggerSchema_def o_default_def o_optional_def o_union_def o_enum_def o_literal_def o_text_def o_when_def o_url_def o_nonEmpty_def o_array_def
     demoValues_def obj_read_def obj_get_def hasOwn_def bootConfig_def JWT_ACCESS_TTL_SECONDS_def jnum_defined)

lemma boot_run: "\<exists>calls. apiBootstrap_run demoValues bootFiles ''config'' bootEnv = Inr (bootConfig, calls)"
proof -
  have names: "appConfigFiles_resolve bootFiles ''config'' (map_of bootEnv) = Inr [''default.yml'']"
    by (simp add: appConfigFiles_resolve_def bootFiles_def bootEnv_def Let_def)
  have dir: "appConfigFiles_resolveDirectory ''config'' (map_of bootEnv) = ''config''"
    by (simp add: appConfigFiles_resolveDirectory_def bootEnv_def)
  have load: "loadApiConfig demoValues bootFiles ''config'' bootEnv = Inr bootConfig"
    using boot_raw boot_config
    by (simp add: loadApiConfig_def loadAppConfig_def names configLoader_load_def schema_result_def del: loadRaw.simps)
  have auth: "apiBootstrap_assertAuth bootConfig = Inr ()"
    by (simp add: apiBootstrap_assertAuth_def assertAuthBootstrap_def bootConfig_def cfg_at_obj cfg_at_Nil obj_read_def obj_get_def asText_def asList_def
        DEV_JWT_ACCESS_SECRET_def)
  have "cfg_at bootConfig [''nodeEnv''] = JStr ''development''"
    by (simp add: bootConfig_def cfg_at_obj cfg_at_Nil obj_read_def obj_get_def)
  then obtain calls where "apiBootstrap_listen bootConfig = Inr calls"
    by (simp add: apiBootstrap_listen_def mapApiHttpConfig_def Let_def apiBuilder_useSecurity_def apiBuilder_useCookies_def apiBuilder_enableCors_def
      apiBuilder_enableVersioning_def apiBuilder_useGlobalPrefix_def apiBuilder_enableShutdownHooks_def apiBuilder_setupSwagger_def
      apiBuilder_listen_def)
  then show ?thesis using load auth by (simp add: apiBootstrap_run_def dir)
qed

lemma started_api_guarded_witness:
  "\<exists>calls. apiBootstrap_run demoValues bootFiles ''config'' bootEnv = Inr (bootConfig, calls) \<and> UseHelmet \<in> set calls \<and>
     cfg_at bootConfig [''jwt'', ''accessSecret''] = JStr ''s3cret''"
proof -
  obtain calls where run: "apiBootstrap_run demoValues bootFiles ''config'' bootEnv = Inr (bootConfig, calls)" using boot_run by blast
  have "map_of bootEnv ''JWT_ACCESS_SECRET'' = Some ''s3cret''" by (simp add: bootEnv_def)
  moreover have "cfg_at bootConfig [''http'', ''plainHttp''] \<noteq> JBool True"
    by (simp add: bootConfig_def cfg_at_obj cfg_at_Nil obj_read_def obj_get_def)
  ultimately show ?thesis using started_api_guarded[OF run refl] run by auto
qed

definition forgedRequest :: httpRequest where
  "forgedRequest = devRequest\<lparr>rq_headers := [(''x-user-id'', JStr (sequentialId 0)), (''x-tenant-id'', JStr (sequentialId 1))]\<rparr>"


text \<open>C37: What the schema of an application accepts reaches its infrastructure: the schemas of Postgres, Redis, the HTTP client and the mailers, which
  read the values again under other names, accept every parsed configuration and give its very values, a default only where the
  configuration leaves a value of the HTTP client out.\<close>

theorem config_reaches_infrastructure:
  assumes "\<forall>n. vp_number ports (JNum n) = n"
    "apiConfigSchema ports (JObj raw) = Some config \<or> workerConfigSchema ports (JObj raw) = Some config"
  shows "(\<exists>pg. cfg_at config [''postgres''] = JObj pg \<and> infra_postgres ports pg = Some (JObj [(''DATABASE_URL'', obj_read pg ''url''),
       (''POSTGRES_POOL_MAX'', obj_read pg ''poolMax''), (''POSTGRES_CONNECT_TIMEOUT_MS'', obj_read pg ''connectTimeoutMs''),
       (''POSTGRES_STATEMENT_TIMEOUT_MS'', obj_read pg ''statementTimeoutMs''), (''POSTGRES_LOCK_TIMEOUT_MS'', obj_read pg ''lockTimeoutMs''),
       (''POSTGRES_IDLE_IN_TX_TIMEOUT_MS'', obj_read pg ''idleInTxTimeoutMs''), (''POSTGRES_APPLICATION_NAME'', obj_read pg ''applicationName''),
       (''POSTGRES_SLOW_QUERY_MS'', obj_read pg ''slowQueryMs'')])) \<and>
    (\<exists>rd. cfg_at config [''redis''] = JObj rd \<and>
       infra_redis ports rd = Some (JObj [(''REDIS_URL'', obj_read rd ''url''), (''REDIS_KEY_PREFIX'', obj_read rd ''keyPrefix'')])) \<and>
    (cfg_at config [''httpClient''] = JUndefined \<or> (\<exists>hc. cfg_at config [''httpClient''] = JObj hc \<and> infra_httpClient ports (Some hc) = Some (JObj [
       (''HTTP_CLIENT_TIMEOUT_MS'', or_default (jnum 10000) (obj_read hc ''timeoutMs'')),
       (''HTTP_CLIENT_CONNECT_TIMEOUT_MS'', or_default (jnum 5000) (obj_read hc ''connectTimeoutMs'')),
       (''HTTP_CLIENT_POOL_MAX'', or_default (jnum 16) (obj_read hc ''poolMax'')),
       (''HTTP_CLIENT_MAX_RESPONSE_BYTES'', or_default (jnum (2 * 1024 * 1024)) (obj_read hc ''maxResponseBytes'')),
       (''HTTP_CLIENT_USER_AGENT'', or_default (JStr ''b2b-saas-http-client'') (obj_read hc ''userAgent'')),
       (''HTTP_CLIENT_MAX_REDIRECTS'', or_default (jnum 3) (obj_read hc ''maxRedirects'')),
       (''HTTPS_PROXY'', obj_read hc ''httpsProxy''), (''NO_PROXY'', obj_read hc ''noProxy'')]))) \<and>
    (cfg_at config [''mail''] = JUndefined \<or> (\<exists>m. cfg_at config [''mail''] = JObj m \<and>
       (obj_read m ''transport'' = JStr ''smtp'' \<and> infra_smtp ports m = Some (JObj [(''SMTP_HOST'', obj_read m ''host''),
          (''SMTP_PORT'', obj_read m ''port''), (''SMTP_USER'', obj_read m ''user''), (''SMTP_PASS'', obj_read m ''pass''),
          (''SMTP_FROM'', obj_read m ''from''), (''SMTP_SECURE'', JStr (if obj_read m ''secure'' = JBool True then ''true'' else ''false''))]) \<or>
        obj_read m ''transport'' = JStr ''http'' \<and> infra_httpMail ports m = Some (JObj [(''url'', obj_read m ''url''), (''from'', obj_read m ''from''),
          (''apiKey'', obj_read m ''apiKey'')]))))"
  using assms(2)
proof (rule app_slices)
  fix c v name
  assume c: "config = JObj c" and slices: "o_object (postgresFields ports name) v = Some (obj_read c ''postgres'')" "name \<noteq> []"
    "redisSchema ports (obj_read raw ''redis'') = Some (obj_read c ''redis'')"
    "obj_read c ''httpClient'' = JUndefined \<or> httpClientSchema (obj_read raw ''httpClient'') = Some (obj_read c ''httpClient'')"
    "o_optional (mailProviderSchema ports) (obj_read raw ''mail'') = Some (obj_read c ''mail'')"
  have at: "cfg_at config [k] = obj_read c k" for k by (simp add: c cfg_at_obj cfg_at_Nil)
  have n: "\<And>n. vp_number ports (JNum n) = n" using assms(1) by blast
  have mail: "obj_read c ''mail'' = JUndefined \<or> mailProviderSchema ports (obj_read raw ''mail'') = Some (obj_read c ''mail'')"
    using slices(5) by (auto simp: o_optional_def split: if_splits)
  show ?thesis
    unfolding at
    by (intro conjI postgres_slice[OF n slices(1,2)] redis_slice[OF slices(3)] disj_imp[THEN iffD2] impI)
      (use slices(4) httpClient_slice[OF n] mail mail_slice[OF n] in blast)+
qed

lemma config_reaches_infrastructure_witness:
  "\<exists>pg out. cfg_at bootConfig [''postgres''] = JObj pg \<and> infra_postgres demoValues pg = Some (JObj out) \<and>
     obj_read out ''DATABASE_URL'' = JStr ''postgres://db'' \<and> obj_read out ''POSTGRES_POOL_MAX'' = jnum 10"
proof -
  have number: "\<forall>n. vp_number demoValues (JNum n) = n" by (simp add: demoValues_def)
  have "cfg_at bootConfig [''postgres''] = JObj pg \<Longrightarrow> obj_read pg ''url'' = JStr ''postgres://db'' \<and> obj_read pg ''poolMax'' = jnum 10" for pg
    by (auto simp: bootConfig_def cfg_at_obj cfg_at_Nil obj_read_def obj_get_def)
  then show ?thesis
    using config_reaches_infrastructure[OF number disjI1[OF boot_config]] by (elim conjE exE) (auto simp: obj_read_cons)
qed

end
