(* ===== verification/Typed.thy ===== *)
theory Typed
  imports IdentityUseCases Contracts
begin

text \<open>
  What the rows hold, as far as the answers show it: identifiers of the branded format, addresses and dates the
  schemas of the contracts accept, permissions of the catalogue.  \<open>keeps\<close> is the triple of a computation
  that finds such a world and leaves one, with what its result satisfies; every use case the handlers call is one.
\<close>

section \<open>Typed worlds\<close>

text \<open>The instants whose year has four digits, 0000 to 9999.\<close>

definition four_digit_year :: "millis \<Rightarrow> bool" where
  "four_digit_year t \<longleftrightarrow> - 62167219200000 \<le> t \<and> t \<le> 253402300799999"

definition opt_date :: "millis option \<Rightarrow> bool" where
  "opt_date d = (case d of None \<Rightarrow> True | Some t \<Rightarrow> four_digit_year t)"

text \<open>What the handlers rely on: generated ids are of the branded format, an accepted address stays one in its
  normal form, and an ISO date and time has a year of four digits, before and after \<open>Date\<close>.\<close>

definition ports_ok :: "env \<Rightarrow> zodPorts \<Rightarrow> bool" where
  "ports_ok env zod \<longleftrightarrow> (\<forall>n. isUuid env (genId env n)) \<and> \<not> isUuid env [] \<and>
     (\<forall>e. zp_email zod e \<longrightarrow> zp_email zod (js_lower (js_trim e))) \<and>
     (\<forall>x. zp_isoDatetime zod x \<longrightarrow> four_digit_year (zp_timeValue zod x)) \<and>
     (\<forall>t s. four_digit_year t \<longrightarrow> toISOString (Some t) = Inr s \<longrightarrow> zp_isoDatetime zod s)"

definition known_permissions :: "permission list \<Rightarrow> bool" where
  "known_permissions ps \<longleftrightarrow> set ps \<subseteq> set permissionNames"

definition role_ok :: "env \<Rightarrow> role \<Rightarrow> bool" where
  "role_ok env r \<longleftrightarrow> isUuid env (ent_id r) \<and> known_permissions (r_permissions r)"

definition membership_ok :: "env \<Rightarrow> membership \<Rightarrow> bool" where
  "membership_ok env m \<longleftrightarrow> isUuid env (ent_id m) \<and> isUuid env (m_tenantId m) \<and> isUuid env (m_userId m) \<and>
     (\<forall>i \<in> set (m_roleIds m). isUuid env i)"

definition invitation_ok :: "env \<Rightarrow> zodPorts \<Rightarrow> invitation \<Rightarrow> bool" where
  "invitation_ok env zod v \<longleftrightarrow> isUuid env (ent_id v) \<and> isUuid env (i_tenantId v) \<and> (\<forall>i \<in> set (i_roleIds v). isUuid env i) \<and>
     zp_email zod (i_email v)"

definition user_ok :: "env \<Rightarrow> zodPorts \<Rightarrow> user \<Rightarrow> bool" where
  "user_ok env zod u \<longleftrightarrow> isUuid env (ent_id u) \<and> zp_email zod (u_email u)"

definition apiKey_ok :: "env \<Rightarrow> apiKey \<Rightarrow> bool" where
  "apiKey_ok env k \<longleftrightarrow> isUuid env (ent_id k) \<and> known_permissions (k_permissions k) \<and> opt_date (k_expiresAt k) \<and>
     opt_date (k_revokedAt k) \<and> opt_date (k_lastUsedAt k)"

definition typed_db :: "env \<Rightarrow> zodPorts \<Rightarrow> db \<Rightarrow> bool" where
  "typed_db env zod d \<longleftrightarrow> (\<forall>t \<in> set (db_tenants d). isUuid env (ent_id t)) \<and> (\<forall>r \<in> set (db_roles d). role_ok env r) \<and>
     (\<forall>m \<in> set (db_memberships d). membership_ok env m) \<and> (\<forall>v \<in> set (db_invitations d). invitation_ok env zod v) \<and>
     (\<forall>u \<in> set (db_users d). user_ok env zod u) \<and> (\<forall>k \<in> set (db_apiKeys d). apiKey_ok env k) \<and>
     (\<forall>s \<in> set (db_sessions d). isUuid env (s_userId s))"

definition typed :: "env \<Rightarrow> zodPorts \<Rightarrow> world \<Rightarrow> bool" where
  "typed env zod w \<longleftrightarrow> typed_db env zod (w_db w) \<and> (\<forall>(k, e) \<in> set (w_cache w). known_permissions (ce_value e)) \<and> four_digit_year (w_now w)"

section \<open>Rows read and written\<close>

named_theorems typed_reads \<open>what a query of a typed database answers\<close>
named_theorems typed_writes \<open>writes that leave the database typed\<close>

lemma typed_finds [typed_reads]:
  assumes "typed_db env zod d"
  shows "tenants_findById i d = Some t \<Longrightarrow> isUuid env (ent_id t)" "roles_findById i d = Some r \<Longrightarrow> role_ok env r"
    "memberships_findById i d = Some m \<Longrightarrow> membership_ok env m" "memberships_findByUserAndTenant x y d = Some m \<Longrightarrow> membership_ok env m"
    "invitations_findByTokenHash h d = Some v \<Longrightarrow> invitation_ok env zod v"
    "invitations_findActiveByTenantAndEmail x e d = Some v \<Longrightarrow> invitation_ok env zod v"
    "users_findById i d = Some u \<Longrightarrow> user_ok env zod u \<and> ent_id u = i" "users_findByEmail e d = Some u \<Longrightarrow> user_ok env zod u"
    "apiKeys_findById i d = Some k \<Longrightarrow> apiKey_ok env k" "sessions_findByTokenHash h d = Some s \<Longrightarrow> isUuid env (s_userId s)"
  using assms
  by (auto simp: typed_db_def tenants_findById_def roles_findById_def memberships_findById_def memberships_findByUserAndTenant_def
      invitations_findByTokenHash_def invitations_findActiveByTenantAndEmail_def users_findById_def users_findByEmail_def
      apiKeys_findById_def sessions_findByTokenHash_def Let_def dest!: lookup_row_Some find_cong_key)

lemma typed_lists [typed_reads]:
  assumes "typed_db env zod d"
  shows "r \<in> set (roles_findByTenant t d) \<Longrightarrow> role_ok env r" "m \<in> set (memberships_findByTenant t d) \<Longrightarrow> membership_ok env m"
    "m \<in> set (memberships_findByUser u d) \<Longrightarrow> membership_ok env m" "k \<in> set (apiKeys_findByTenant t d) \<Longrightarrow> apiKey_ok env k"
  using assms
  by (auto simp: typed_db_def roles_findByTenant_def memberships_findByTenant_def memberships_findByUser_def apiKeys_findByTenant_def)

lemma as_stored_ok [simp]:
  "role_ok env (as_stored r) = role_ok env r" "membership_ok env (as_stored m) = membership_ok env m"
  "invitation_ok env zod (as_stored v) = invitation_ok env zod v" "user_ok env zod (as_stored u) = user_ok env zod u"
  "apiKey_ok env (as_stored k) = apiKey_ok env k"
  by (simp_all add: role_ok_def membership_ok_def invitation_ok_def user_ok_def apiKey_ok_def)

lemma typed_saves [typed_writes]:
  assumes "typed_db env zod d"
  shows "isUuid env (ent_id t) \<Longrightarrow> typed_db env zod (tenants_save t d)" "role_ok env r \<Longrightarrow> typed_db env zod (roles_save r d)"
    "membership_ok env m \<Longrightarrow> typed_db env zod (memberships_save m d)" "invitation_ok env zod v \<Longrightarrow> typed_db env zod (invitations_save v d)"
    "user_ok env zod u \<Longrightarrow> typed_db env zod (users_save u d)" "apiKey_ok env k \<Longrightarrow> typed_db env zod (apiKeys_save k d)"
    "isUuid env (s_userId s) \<Longrightarrow> typed_db env zod (sessions_save s d)"
  using assms unfolding typed_db_def
  by (auto simp: tenants_save_def roles_save_def memberships_save_def invitations_save_def users_save_def apiKeys_save_def sessions_save_def
      dest!: upsert_subset[THEN subsetD])

lemma typed_other_writes [typed_writes]:
  assumes "typed_db env zod d"
  shows "typed_db env zod (roles_delete i d)" "typed_db env zod (passwords_save p d)" "typed_db env zod (resetTokens_save rt d)"
    "typed_db env zod (sessions_revokeFamily f n d)" "typed_db env zod (sessions_revokeAllForUser x n d)"
    "typed_db env zod (d\<lparr>db_outbox := evs\<rparr>)" "four_digit_year n \<Longrightarrow> typed_db env zod (apiKeys_touchLastUsed i n d)"
proof -
  show "typed_db env zod (apiKeys_touchLastUsed i n d)" if "four_digit_year n"
    using assms that typed_finds(9)[OF assms]
    by (auto simp: apiKeys_touchLastUsed_def apiKey_recordLastUsed_def apiKey_ok_def opt_date_def split: option.split
        intro!: typed_saves(6))
qed (use assms in \<open>auto simp: typed_db_def roles_delete_def passwords_save_def resetTokens_save_def sessions_revokeFamily_def
    sessions_revokeAllForUser_def session_revoke_def\<close>)

lemma typed_roles_saveMany [typed_writes]:
  "typed_db env zod d \<Longrightarrow> (\<And>r. r \<in> set rs \<Longrightarrow> role_ok env r) \<Longrightarrow> typed_db env zod (roles_saveMany rs d)"
  unfolding roles_saveMany_def by (induction rs arbitrary: d) (auto intro: typed_saves(2))

section \<open>The triple\<close>

definition keeps :: "env \<Rightarrow> zodPorts \<Rightarrow> 'a app \<Rightarrow> ('a \<Rightarrow> bool) \<Rightarrow> bool" where
  "keeps env zod m Q \<longleftrightarrow> (\<forall>w. typed env zod w \<longrightarrow> typed env zod (snd (m w)) \<and> (\<forall>x. fst (m w) = Inr x \<longrightarrow> Q x))"

named_theorems keeps_rules \<open>the triple, by the shape of the computation\<close>

lemma keepsI: "(\<And>w. typed env zod w \<Longrightarrow> typed env zod (snd (m w)) \<and> (\<forall>x. fst (m w) = Inr x \<longrightarrow> Q x)) \<Longrightarrow> keeps env zod m Q"
  by (simp add: keeps_def)

lemma keepsD: "keeps env zod m Q \<Longrightarrow> typed env zod w \<Longrightarrow> m w = (r, w') \<Longrightarrow> typed env zod w' \<and> (\<forall>x. r = Inr x \<longrightarrow> Q x)"
  unfolding keeps_def by (metis fst_conv snd_conv)

lemma keeps_weaken: "keeps env zod m R \<Longrightarrow> (\<And>x. R x \<Longrightarrow> Q x) \<Longrightarrow> keeps env zod m Q"
  by (simp add: keeps_def)

lemma keeps_bind:
  assumes "keeps env zod m R" "\<And>x. R x \<Longrightarrow> keeps env zod (f x) Q"
  shows "keeps env zod (bindA m f) Q"
proof (rule keepsI)
  fix w assume w: "typed env zod w"
  obtain r w1 where m: "m w = (r, w1)" by fastforce
  then show "typed env zod (snd (bindA m f w)) \<and> (\<forall>y. fst (bindA m f w) = Inr y \<longrightarrow> Q y)"
    using keepsD[OF assms(1) w m] assms(2) by (cases r) (auto simp: keeps_def)
qed

lemma keeps_then: "keeps env zod m R \<Longrightarrow> (\<And>x. R x \<Longrightarrow> keeps env zod n Q) \<Longrightarrow> keeps env zod (thenA m n) Q"
  unfolding thenA_def by (rule keeps_bind)

lemma keeps_return: "Q x \<Longrightarrow> keeps env zod (returnA x) Q" and keeps_throw: "keeps env zod (throwA e) Q"
  by (simp_all add: keeps_def)

lemma keeps_uow:
  assumes "keeps env zod m Q"
  shows "keeps env zod (uow_run m) Q"
proof (rule keepsI)
  fix w assume w: "typed env zod w"
  obtain r w1 where m: "m w = (r, w1)" by fastforce
  then show "typed env zod (snd (uow_run m w)) \<and> (\<forall>y. fst (uow_run m w) = Inr y \<longrightarrow> Q y)"
    using keepsD[OF assms w m] w by (cases r) (auto simp: uow_run_def typed_def)
qed

lemma keeps_basic [keeps_rules]:
  "keeps env zod (liftR r) (\<lambda>x. r = Inr x)"
  "keeps env zod (throwIfA c e) (\<lambda>_. \<not> c)"
  "keeps env zod (readDb h) (\<lambda>x. \<exists>d. typed_db env zod d \<and> h d = x)"
  "keeps env zod clock_now four_digit_year"
  "ports_ok env zod \<Longrightarrow> keeps env zod (ids_generate env) (isUuid env)"
  "keeps env zod (newId env) (isUuid env)"
  "keeps env zod (hasher_hash env pw) (\<lambda>_. True)" "keeps env zod (mailer_send ml) (\<lambda>_. True)"
  "keeps env zod (cache_del key) (\<lambda>_. True)"
  by (auto simp: keeps_def typed_def ports_ok_def throwIf_def newId_def parseId_def cache_del_def bindA_def)

lemma keeps_upd [keeps_rules]: "(\<And>d. typed_db env zod d \<Longrightarrow> typed_db env zod (f d)) \<Longrightarrow> keeps env zod (updDb f) (\<lambda>_. True)"
  by (simp add: keeps_def typed_def)

lemma keeps_publish [keeps_rules]: "keeps env zod (collector_publish evs) (\<lambda>_. True)"
  by (simp add: keeps_def typed_def typed_other_writes)

section \<open>Permissions\<close>

lemma known_resolve:
  assumes "typed_db env zod d"
  shows "known_permissions (resolvePermissions u t d)"
proof -
  have "known_permissions (foldl (\<lambda>acc r. if r_tenantId r \<noteq> t then acc else foldl add_unique acc (r_permissions r)) acc rs)"
    if "known_permissions acc" "\<forall>r \<in> set rs. role_ok env r" for acc rs
    using that by (induction rs arbitrary: acc) (auto simp: known_permissions_def role_ok_def foldl_add_unique_set)
  moreover have "\<forall>r \<in> set (roles_findByIds ids d). role_ok env r" for ids
    by (auto simp: roles_findByIds_def split: option.splits intro: typed_finds(2)[OF assms, OF sym])
  moreover have "known_permissions []" by (simp add: known_permissions_def)
  ultimately show ?thesis unfolding resolvePermissions_def by blast
qed

lemma keeps_cache_get: "keeps env zod (cache_get key) (\<lambda>c. \<forall>ps. c = Some ps \<longrightarrow> known_permissions ps)"
  by (rule keepsI)
    (auto simp: cache_get_def typed_def split: option.split prod.split dest!: lookup_row_Some)

lemma keeps_cache_set: "known_permissions ps \<Longrightarrow> keeps env zod (cache_set key ps n) (\<lambda>_. True)"
  by (rule keepsI) (auto simp: cache_set_def typed_def dest!: upsert_subset[THEN subsetD])

lemma keeps_permissions [keeps_rules]:
  "keeps env zod (getEffectivePermissions u t) known_permissions" "keeps env zod (getApiKeyPermissions k t) known_permissions"
  "keeps env zod (getPermissions a t) known_permissions"
proof -
  show 1: "keeps env zod (getEffectivePermissions u t) known_permissions" for u
    unfolding getEffectivePermissions_def Let_def
    by (rule keeps_bind[OF keeps_cache_get])
      (auto split: option.split intro!: keeps_return keeps_bind[OF keeps_basic(3)] keeps_then[OF keeps_cache_set] known_resolve)
  have "known_permissions (apiKey_permissionsFor k n d)" if "typed_db env zod d" for k n d
    using typed_finds(9)[OF that, of k] by (cases "apiKeys_findById k d") (auto simp: apiKey_permissionsFor_def apiKey_ok_def known_permissions_def)
  then show 2: "keeps env zod (getApiKeyPermissions k t) known_permissions" for k
    unfolding getApiKeyPermissions_def Let_def
    by (intro keeps_bind[OF keeps_cache_get])
      (auto split: option.split intro!: keeps_return keeps_bind[OF keeps_basic(3)] keeps_bind[OF keeps_basic(4)] keeps_then[OF keeps_cache_set])
  show "keeps env zod (getPermissions a t) known_permissions"
    using 1 2 by (simp add: getPermissions_def split: tenantActor.split)
qed

lemma keeps_require [keeps_rules]: "keeps env zod (authz_require a p t) (\<lambda>_. True)"
  unfolding authz_require_def by (rule keeps_bind[OF keeps_permissions(3)]) (rule keeps_weaken[OF keeps_basic(2)], simp)

lemma keeps_invalidate [keeps_rules]:
  "keeps env zod (authz_invalidate u t) (\<lambda>_. True)" "keeps env zod (authz_invalidateApiKey k t) (\<lambda>_. True)"
  "keeps env zod (authz_invalidateHoldersOf r t) (\<lambda>_. True)"
proof -
  show 1: "keeps env zod (authz_invalidate u t) (\<lambda>_. True)" for u unfolding authz_invalidate_def by (rule keeps_basic)
  show "keeps env zod (authz_invalidateApiKey k t) (\<lambda>_. True)" unfolding authz_invalidateApiKey_def by (rule keeps_basic)
  have "keeps env zod (forA ms (\<lambda>m. authz_invalidate (m_userId m) t)) (\<lambda>_. True)" for ms :: "membership list"
    by (induction ms) (simp_all only: forA.simps keeps_return keeps_then[OF 1])
  then show "keeps env zod (authz_invalidateHoldersOf r t) (\<lambda>_. True)"
    unfolding authz_invalidateHoldersOf_def by (intro keeps_bind[OF keeps_basic(3)])
qed

end
