(* ===== verification/TypedUseCases.thy ===== *)
theory TypedUseCases
  imports Typed
begin

text \<open>
  Every use case the handlers call keeps a typed world, and what it answers is what the output schemas of the
  contracts accept.
\<close>

named_theorems keeps_steps \<open>the first step of a computation\<close>

lemmas keeps_bind_steps [keeps_steps] = keeps_rules[THEN keeps_bind] keeps_rules[THEN keeps_then]

lemma keeps_option [keeps_steps]:
  "(v = None \<Longrightarrow> keeps env zod a Q) \<Longrightarrow> (\<And>x. v = Some x \<Longrightarrow> keeps env zod (f x) Q) \<Longrightarrow>
   keeps env zod (case v of None \<Rightarrow> a | Some x \<Rightarrow> f x) Q"
  by (simp split: option.split)

lemma keeps_if [keeps_steps]:
  "(c \<Longrightarrow> keeps env zod a Q) \<Longrightarrow> (\<not> c \<Longrightarrow> keeps env zod b Q) \<Longrightarrow> keeps env zod (if c then a else b) Q"
  by simp

lemmas keeps_shape [keeps_steps] = keeps_return keeps_throw keeps_uow

lemma keeps_last [keeps_steps]:
  fixes Q :: "unit \<Rightarrow> bool"
  shows "(\<And>d. typed_db env zod d \<Longrightarrow> typed_db env zod (f d)) \<Longrightarrow> Q () \<Longrightarrow> keeps env zod (updDb f) Q"
    "Q () \<Longrightarrow> keeps env zod (mailer_send ml) Q" "Q () \<Longrightarrow> keeps env zod (authz_invalidateApiKey k t) Q"
    "Q () \<Longrightarrow> keeps env zod (authz_invalidateHoldersOf i t) Q" "(\<not> c \<Longrightarrow> Q ()) \<Longrightarrow> keeps env zod (throwIfA c e) Q"
  by (auto intro: keeps_rules[THEN keeps_weaken])

lemma keeps_lift [keeps_steps]: "(\<And>x. r = Inr x \<Longrightarrow> Q x) \<Longrightarrow> keeps env zod (liftR r) Q"
  by (rule keeps_weaken[OF keeps_basic(1)])

section \<open>What the entities carry\<close>

lemma normalize_known: "role_normalize ps = Inr ps' \<Longrightarrow> known_permissions ps'"
  using bundle_subset[OF role_normalize_bundle] by (simp add: known_permissions_def permissionNames_catalog)

lemma role_created_ok: "role_create i t n ps now = Inr r \<Longrightarrow> isUuid env i \<Longrightarrow> role_ok env r"
  by (auto simp: role_create_Inr role_ok_def dest: normalize_known)

lemma system_role_ok: "isUuid env i \<Longrightarrow> role_ok env (role_createSystemRole i t n now)"
  using bundle_subset[OF permissionsFor_bundle[of n]]
  by (simp add: role_createSystemRole_def role_recordCreated_def newRole_def record_event_def role_ok_def known_permissions_def permissionNames_catalog)

lemma role_changed_ok:
  "role_ok env r \<Longrightarrow> role_rename r n now = Inr r' \<Longrightarrow> role_ok env r'"
  "role_ok env r \<Longrightarrow> role_replacePermissions r ps now = Inr r' \<Longrightarrow> role_ok env r'"
  by (auto simp: role_rename_Inr role_replacePermissions_Inr role_ok_def dest: normalize_known)

lemma membership_created_ok:
  "membership_create i t u rs now = Inr m \<Longrightarrow> isUuid env i \<Longrightarrow> isUuid env t \<Longrightarrow> isUuid env u \<Longrightarrow> (\<forall>r \<in> set rs. isUuid env r) \<Longrightarrow> membership_ok env m"
  "isUuid env i \<Longrightarrow> isUuid env t \<Longrightarrow> isUuid env u \<Longrightarrow> isUuid env r \<Longrightarrow> membership_ok env (membership_createOwner i t u r now)"
  "membership_replaceRoleIds m0 rs now = Inr m \<Longrightarrow> membership_ok env m0 \<Longrightarrow> (\<forall>r \<in> set rs. isUuid env r) \<Longrightarrow> membership_ok env m"
  by (auto simp: membership_create_Inr membership_replaceRoleIds_Inr membership_createOwner_def membership_instantiate_def record_event_def membership_ok_def)

lemma assignable_ok:
  assumes "OwnerRole_assertAssignable t rs d = Inr u" "typed_db env zod d"
  shows "\<forall>r \<in> set rs. isUuid env r"
proof -
  have "list_all (\<lambda>i. \<exists>r. found i = Some r) rs" if "assertAssignable_loop own t found rs = Inr u" for own found
    using that by (induction rs) (auto split: if_splits option.splits)
  from this[OF assms(1)[unfolded OwnerRole_assertAssignable_def]] show ?thesis
    using typed_finds(2)[OF assms(2)]
    by (fastforce simp: list_all_iff roles_findByIds_def roles_findById_def role_ok_def split: option.splits if_splits
        dest!: map_of_SomeD lookup_row_Some)
qed

lemmas typed_rows = typed_finds[rotated] typed_lists[rotated]

lemma found_user_id: "users_findById u d = Some y \<Longrightarrow> typed_db env zod d \<Longrightarrow> isUuid env u"
  using typed_finds(7)[of env zod d u y] by (auto simp: user_ok_def)

lemma user_created_ok:
  "user_create i e n now = Inr u \<Longrightarrow> isUuid env i \<Longrightarrow> zp_email zod e \<Longrightarrow> ports_ok env zod \<Longrightarrow> user_ok env zod u"
  by (auto simp: user_create_Inr user_ok_def ports_ok_def)

lemma invitation_created_ok:
  "invitation_create i t e rs h x b now = Inr v \<Longrightarrow> isUuid env i \<Longrightarrow> isUuid env t \<Longrightarrow> zp_email zod e \<Longrightarrow> ports_ok env zod \<Longrightarrow>
     (\<forall>r \<in> set rs. isUuid env r) \<Longrightarrow> invitation_ok env zod v"
  "invitation_consume v0 now = Inr v \<Longrightarrow> invitation_ok env zod v0 \<Longrightarrow> invitation_ok env zod v"
  "invitation_supersede v0 now = Inr v \<Longrightarrow> invitation_ok env zod v0 \<Longrightarrow> invitation_ok env zod v"
  by (auto simp: invitation_create_def normalizeEmail_Inr normalizeRoleIds_Inr record_event_def invitation_consume_Inr
      invitation_supersede_Inr invitation_ok_def ports_ok_def)

lemma apiKey_created_ok:
  "apiKey_create i t u n p h ps now x = Inr k \<Longrightarrow> isUuid env i \<Longrightarrow> known_permissions ps \<Longrightarrow> opt_date x \<Longrightarrow> apiKey_ok env k"
  "apiKey_rename k0 n = Inr k \<Longrightarrow> apiKey_ok env k0 \<Longrightarrow> apiKey_ok env k"
  "apiKey_replacePermissions k0 ps now = Inr k \<Longrightarrow> apiKey_ok env k0 \<Longrightarrow> known_permissions ps \<Longrightarrow> apiKey_ok env k"
  "apiKey_revoke k0 now = Inr k \<Longrightarrow> apiKey_ok env k0 \<Longrightarrow> four_digit_year now \<Longrightarrow> apiKey_ok env k"
  by (auto simp: apiKey_create_Inr apiKey_rename_Inr apiKey_replacePermissions_Inr apiKey_revoke_Inr apiKey_ok_def known_permissions_def opt_date_def)

section \<open>Authorization\<close>

definition roleView_ok :: "env \<Rightarrow> roleView \<Rightarrow> bool" where
  "roleView_ok env v \<longleftrightarrow> isUuid env (rv_roleId v) \<and> known_permissions (rv_permissions v)"

lemma roleView_of_ok: "roleView_ok env (roleView_of r) = role_ok env r"
  by (simp add: roleView_ok_def roleView_of_def role_ok_def)

lemma keeps_listRoles: "keeps env zod (listRoles a t) (\<lambda>vs. \<forall>v \<in> set vs. roleView_ok env v)"
  unfolding listRoles_def by (auto intro!: keeps_steps simp: roleView_of_ok) (rule typed_lists, assumption+)

lemma keeps_createCustomRole: "keeps env zod (createCustomRole env a t n ps) (roleView_ok env)"
  unfolding createCustomRole_def Let_def by (auto intro!: keeps_steps typed_writes simp: roleView_of_ok dest: role_created_ok)

lemma keeps_updateCustomRole: "keeps env zod (updateCustomRole env a t i nm pso) (roleView_ok env)"
proof -
  have 1: "keeps env zod (case nm of None \<Rightarrow> returnA r | Some n \<Rightarrow> let name = js_trim n in
      bindA (readDb (roles_findByTenant t')) (\<lambda>existing. thenA (throwIfA (P name existing) e) (liftR (role_rename r name now)))) (role_ok env)"
    if "role_ok env r" for r P e now t'
    using that by (auto intro!: keeps_steps simp: Let_def dest: role_changed_ok)
  have 2: "keeps env zod (case pso of None \<Rightarrow> returnA r | Some ps \<Rightarrow> liftR (role_replacePermissions r ps now)) (role_ok env)"
    if "role_ok env r" for r now
    using that by (auto intro!: keeps_steps dest: role_changed_ok)
  show ?thesis unfolding updateCustomRole_def
    by (auto intro!: keeps_steps typed_writes keeps_bind[OF 1] keeps_bind[OF 2] simp: roleView_of_ok dest: typed_rows)
qed

lemma keeps_deleteCustomRole: "keeps env zod (deleteCustomRole a t i) (\<lambda>_. True)"
  unfolding deleteCustomRole_def by (auto intro!: keeps_steps typed_writes)

section \<open>Tenancy\<close>

lemma keeps_attachMember:
  assumes "isUuid env t"
  shows "keeps env zod (attachMember env a t u rs) (isUuid env)"
  unfolding attachMember_def using assms
  by (auto intro!: keeps_steps typed_writes membership_created_ok(1) simp: membership_create_Inr dest: found_user_id assignable_ok)

lemma membership_ids: "membership_ok env m \<Longrightarrow> isUuid env (ent_id m) \<and> (\<forall>x \<in> set (m_roleIds m). isUuid env x)"
  by (simp add: membership_ok_def)

lemma keeps_replaceMembershipRoles:
  "keeps env zod (replaceMembershipRoles a t i rs) (\<lambda>r. isUuid env (fst r) \<and> (\<forall>x \<in> set (snd r). isUuid env x))"
proof -
  have m: "membership_ok env m"
    if "typed_db env zod d" "memberships_findById i d = Some m0" "typed_db env zod d'" "OwnerRole_assertAssignable t' rs d' = Inr ()"
      "membership_replaceRoleIds m0 rs now = Inr m" for d d' m0 m t' now
    by (rule membership_created_ok(3)[OF that(5) typed_finds(3)[OF that(1,2)] assignable_ok[OF that(4,3)]])
  show ?thesis unfolding replaceMembershipRoles_def
    by (auto intro!: keeps_steps typed_writes) (blast intro: m membership_ids[THEN conjunct1] dest: membership_ids[OF m])+
qed

lemma keeps_getTenant: "keeps env zod (getTenant a t) (\<lambda>r. isUuid env (fst r))"
  unfolding getTenant_def by (auto intro!: keeps_steps dest: typed_rows)

definition memberView_ok :: "env \<Rightarrow> zodPorts \<Rightarrow> memberView \<Rightarrow> bool" where
  "memberView_ok env zod v \<longleftrightarrow> isUuid env (mv_membershipId v) \<and> isUuid env (mv_userId v) \<and> (\<forall>i \<in> set (mv_roleIds v). isUuid env i) \<and>
     (\<forall>e n. mv_user v = Some (e, n) \<longrightarrow> zp_email zod e)"

lemma memberView_of_ok: "typed_db env zod d \<Longrightarrow> membership_ok env m \<Longrightarrow> memberView_ok env zod (memberView_of b d m)"
  by (auto simp: memberView_ok_def memberView_of_def membership_ok_def Let_def user_ok_def split: option.split dest: typed_rows)

lemma keeps_listTenantMembers: "keeps env zod (listTenantMembers a t) (\<lambda>vs. \<forall>v \<in> set vs. memberView_ok env zod v)"
  unfolding listTenantMembers_def by (auto intro!: keeps_steps memberView_of_ok dest: typed_rows)

definition createTenantResult_ok :: "env \<Rightarrow> createTenantResult \<Rightarrow> bool" where
  "createTenantResult_ok env r \<longleftrightarrow> isUuid env (ct_tenantId r) \<and> isUuid env (ct_ownerMembershipId r) \<and> isUuid env (ct_owner r) \<and>
     isUuid env (ct_admin r) \<and> isUuid env (ct_member r)"

lemma keeps_seedRoles: "keeps env zod (seedRoles env t now ns) (\<lambda>rs. \<forall>r \<in> set rs. role_ok env r)"
proof (induction ns)
  case (Cons n ns)
  then show ?case by (auto intro!: keeps_steps keeps_bind[OF Cons] system_role_ok)
qed (unfold seedRoles.simps, rule keeps_return, simp)

lemma keeps_createTenant: "keeps env zod (createTenant env n u) (createTenantResult_ok env)"
proof -
  have f: "isUuid env (ent_id r)" if "find P rs = Some r" "\<forall>r \<in> set rs. role_ok env r" for P r and rs :: "role list"
    using that by (auto simp: role_ok_def dest!: find_cong_key)
  have m: "isUuid env (ent_id (membership_createOwner i t u r now))" if "isUuid env i" for i t u r now
    using that by (simp add: membership_createOwner_def membership_instantiate_def record_event_def)
  show ?thesis unfolding createTenant_def Let_def
    by (auto intro!: keeps_steps typed_writes keeps_bind[OF keeps_seedRoles] membership_created_ok(2) simp: createTenantResult_ok_def tenant_create_Inr
        dest: found_user_id) (blast intro: m f)+
qed

lemma keeps_inviteMember:
  assumes "ports_ok env zod" "isUuid env t" "zp_email zod e"
  shows "keeps env zod (inviteMember env a t e rs) (isUuid env)"
proof -
  have e: "zp_email zod (js_lower (js_trim e))" using assms by (simp add: ports_ok_def)
  have 1: "keeps env zod (case u of None \<Rightarrow> returnA () | Some user \<Rightarrow> bindA (readDb (memberships_findByUserAndTenant (ent_id user) t))
      (\<lambda>m. throwIfA (m \<noteq> None) er)) (\<lambda>_. True)" for u :: "user option" and er
    by (auto intro!: keeps_steps)
  have 2: "keeps env zod (case p of None \<Rightarrow> returnA () | Some v \<Rightarrow> bindA (liftR (invitation_supersede v now)) (\<lambda>p'. updDb (invitations_save p'))) (\<lambda>_. True)"
    if "p = None \<or> invitation_ok env zod (the p)" for p now
    using that by (auto intro!: keeps_steps typed_writes dest: invitation_created_ok(3))
  have 3: "keeps env zod (invitedByUserId a) (\<lambda>_. True)"
    unfolding invitedByUserId_def by (auto intro!: keeps_steps split: tenantActor.split)
  have p: "p = None \<or> invitation_ok env zod (the p)" if "typed_db env zod d" "invitations_findActiveByTenantAndEmail t x d = p" for d x p
    using typed_finds(6)[OF that(1)] that(2) by (cases p) auto
  have v: "invitation_ok env zod v" if "invitation_create i t (js_lower (js_trim e)) rs h x b now = Inr v" "isUuid env i"
      "typed_db env zod d" "OwnerRole_assertAssignable t rs d = Inr ()" for i h x b now v d
    by (rule invitation_created_ok(1)[OF that(1,2) assms(2) e assms(1) assignable_ok[OF that(4,3)]])
  have i: "isUuid env (ent_id v)" if "invitation_ok env zod v" for v using that by (simp add: invitation_ok_def)
  show ?thesis unfolding inviteMember_def Let_def using assms(1)
    by (auto intro!: keeps_steps keeps_then[OF 1] keeps_then[OF 2] keeps_bind[OF 3] p typed_writes simp: keeps_rules)
      (blast intro: v i dest: p[OF _ refl])+
qed

definition acceptResult_ok :: "env \<Rightarrow> acceptResult \<Rightarrow> bool" where
  "acceptResult_ok env r \<longleftrightarrow> isUuid env (ac_userId r) \<and> isUuid env (ac_membershipId r) \<and> isUuid env (ac_tenantId r)"

lemma keeps_acceptInvitation:
  assumes "ports_ok env zod"
  shows "keeps env zod (acceptInvitation env token dn pw) (acceptResult_ok env)"
proof -
  have 1: "keeps env zod (case ex of Some u \<Rightarrow> returnA (u, [])
      | None \<Rightarrow> (case (dn, pw) of (Some dn, Some pw) \<Rightarrow>
           thenA (throwIfA (length pw < MIN_PASSWORD_LENGTH) InvalidPasswordError) (bindA (newId env) (\<lambda>ui.
           bindA (liftR (user_create ui (i_email v) dn now)) (\<lambda>u. thenA (updDb (users_save u)) (bindA (hasher_hash env pw) (\<lambda>h.
           thenA (updDb (passwords_save (localPassword_create (ent_id u) h))) (returnA (u, collect [] [u])))))))
         | _ \<Rightarrow> throwA InvitationRegistrationRequiredError)) (\<lambda>r. user_ok env zod (fst r))"
    if "invitation_ok env zod v" "ex = None \<or> user_ok env zod (the ex)" for ex v now
    using that assms
    by (auto intro!: keeps_steps typed_writes simp: invitation_ok_def split: option.split dest: user_created_ok)
  have u: "ex = None \<or> user_ok env zod (the ex)" if "typed_db env zod d" "users_findByEmail e d = ex" for d e ex
    using typed_finds(8)[OF that(1)] that(2) by (cases ex) auto
  have m: "membership_ok env m"
    if "membership_create i (i_tenantId v) (ent_id us) (i_roleIds v) now = Inr m" "isUuid env i" "invitation_ok env zod v" "user_ok env zod us"
    for i v us now m
    using membership_created_ok(1)[OF that(1,2)] that(3,4) by (simp add: invitation_ok_def user_ok_def)
  have i: "isUuid env (ent_id m)" if "membership_ok env m" for m using that by (simp add: membership_ok_def)
  have t: "isUuid env (i_tenantId v)" if "invitation_ok env zod v" for v using that by (simp add: invitation_ok_def)
  have x: "isUuid env (ent_id us)" if "user_ok env zod us" for us using that by (simp add: user_ok_def)
  show ?thesis unfolding acceptInvitation_def
    by (rule keeps_uow keeps_bind[OF keeps_basic(4)] keeps_bind[OF keeps_basic(3)] keeps_option keeps_throw
        keeps_then[OF keeps_basic(2)] keeps_bind[OF 1, rotated 2])+
      (auto intro!: keeps_steps typed_writes simp: acceptResult_ok_def,
       (blast intro: typed_finds(5) m i t x invitation_created_ok(2) dest: u[OF _ refl])+)
qed

section \<open>Identity\<close>

lemma user_created_id: "user_create i e n now = Inr u \<Longrightarrow> ent_id u = i"
  by (auto simp: user_create_Inr)

lemma keeps_createUser:
  assumes "ports_ok env zod" "zp_email zod e"
  shows "keeps env zod (createUser env e n) (isUuid env)" "keeps env zod (registerUser env e n pw) (isUuid env)"
  unfolding createUser_def registerUser_def Let_def using assms
  by (auto intro!: keeps_steps typed_writes dest: user_created_ok simp: user_created_id)

lemma keeps_login:
  assumes "ports_ok env zod"
  shows "keeps env zod (login env e pw) (\<lambda>r. isUuid env (lr_userId r) \<and> (\<forall>t. lr_tenantId r = Some t \<longrightarrow> isUuid env t) \<and> isUuid env (lr_refreshToken r))"
proof -
  have t: "isUuid env (m_tenantId (hd (filter P (memberships_findByUser u d))))"
    if "typed_db env zod d" "length (filter P (memberships_findByUser u d)) = Suc 0" for d u P
    using typed_lists(3)[OF that(1)] hd_in_set[of "filter P (memberships_findByUser u d)"] that(2)
    by (force simp: membership_ok_def)
  have 1: "keeps env zod (case us of None \<Rightarrow> returnA None | Some u \<Rightarrow> readDb (passwords_findByUserId (ent_id u))) (\<lambda>_. True)" for us :: "user option"
    by (auto intro!: keeps_steps keeps_basic(3)[THEN keeps_weaken])
  have x: "isUuid env (ent_id us)" if "users_findByEmail e d = Some us" "typed_db env zod d" for us e d
    using typed_finds(8)[OF that(2,1)] by (simp add: user_ok_def)
  show ?thesis unfolding login_def Let_def using assms
    by (auto intro!: keeps_steps keeps_bind[OF 1] typed_writes t simp: session_create_def) (blast intro: x | (auto split: if_splits intro: t)[1])+
qed

lemma keeps_logout: "keeps env zod (logout env tk) (\<lambda>_. True)"
  unfolding logout_def by (auto intro!: keeps_steps typed_writes)

lemma keeps_selectTenant: "keeps env zod (selectTenant u t) (\<lambda>r. isUuid env (fst r) \<and> isUuid env (snd r))"
proof -
  have "isUuid env u \<and> isUuid env t" if "memberships_findByUserAndTenant u t d = Some m" "typed_db env zod d" for m d
    using typed_finds(4)[OF that(2,1)] that(1) by (auto simp: membership_ok_def memberships_findByUserAndTenant_def dest!: find_cong_key)
  then show ?thesis unfolding selectTenant_def by (auto intro!: keeps_steps split: option.splits)
qed

lemma keeps_rotateRefresh:
  assumes "ports_ok env zod"
  shows "keeps env zod (rotateRefresh env tk) (\<lambda>r. isUuid env (fst r) \<and> isUuid env (snd r))"
proof -
  have "keeps env zod (uow_run (
       bindA clock_now (\<lambda>now.
       bindA (readDb (sessions_findByTokenHash (digest env tk))) (\<lambda>found. case found of
         None \<Rightarrow> throwA InvalidRefreshTokenError
       | Some session \<Rightarrow>
         if s_revokedAt session \<noteq> None
         then thenA (updDb (sessions_revokeFamily (s_familyId session) now)) (returnA None)
         else
           thenA (throwIfA (\<not> session_isActive session now) InvalidRefreshTokenError) (
           thenA (updDb (sessions_save (session_revoke session now))) (
           bindA (ids_generate env) (\<lambda>refreshToken.
           bindA (newId env) (\<lambda>sid.
           thenA (updDb (sessions_save (session_create sid (s_userId session) (s_familyId session)
               (digest env refreshToken) (now + REFRESH_TTL_MS)))) (
           returnA (Some (s_userId session, refreshToken))))))))))) (\<lambda>r. \<forall>u x. r = Some (u, x) \<longrightarrow> isUuid env u \<and> isUuid env x)"
    using assms by (auto intro!: keeps_steps typed_writes simp: session_revoke_def session_create_def dest: typed_rows)
  then show ?thesis unfolding rotateRefresh_def
    by (rule keeps_bind) (auto intro!: keeps_steps)
qed

lemma keeps_passwords:
  assumes "ports_ok env zod"
  shows "keeps env zod (requestPasswordReset env e) (\<lambda>_. True)" "keeps env zod (resetPassword env tk pw) (\<lambda>_. True)"
    "keeps env zod (setOrChangePassword env u pw cur) (\<lambda>_. True)"
  unfolding requestPasswordReset_def resetPassword_def setOrChangePassword_def using assms
  by (auto intro!: keeps_steps typed_writes)

section \<open>Profile and API keys\<close>

definition profile_ok :: "env \<Rightarrow> zodPorts \<Rightarrow> profile \<Rightarrow> bool" where
  "profile_ok env zod r \<longleftrightarrow> isUuid env (pf_id r) \<and> zp_email zod (pf_email r) \<and> known_permissions (pf_effectivePermissions r) \<and>
     (\<forall>m. pf_membership r = Some m \<longrightarrow> isUuid env (pm_membershipId m) \<and> isUuid env (pm_tenantId m) \<and> (\<forall>i \<in> set (pm_roleIds m). isUuid env i))"

lemma keeps_getMyProfile: "keeps env zod (getMyProfile u t) (profile_ok env zod)"
proof -
  have m: "isUuid env (ent_id m) \<and> isUuid env (m_tenantId m) \<and> (\<forall>i \<in> set (m_roleIds m). isUuid env i)"
    if "memberships_findByUserAndTenant u t d = Some m" "typed_db env zod d" for m d
    using typed_finds(4)[OF that(2,1)] by (simp add: membership_ok_def)
  have x: "isUuid env (ent_id us) \<and> zp_email zod (u_email us)" if "users_findById u d = Some us" "typed_db env zod d" for us d
    using typed_finds(7)[OF that(2,1)] by (auto simp: user_ok_def)
  show ?thesis unfolding getMyProfile_def
    by (auto intro!: keeps_steps simp: profile_ok_def split: option.splits) (blast dest: m x)+
qed

definition apiKeyView_ok :: "env \<Rightarrow> apiKeyView \<Rightarrow> bool" where
  "apiKeyView_ok env v \<longleftrightarrow> isUuid env (av_apiKeyId v) \<and> known_permissions (av_permissions v) \<and> opt_date (av_expiresAt v) \<and>
     opt_date (av_revokedAt v) \<and> opt_date (av_lastUsedAt v)"

lemma apiKeyView_of_ok: "apiKeyView_ok env (apiKeyView_of k) = apiKey_ok env k"
  by (simp add: apiKeyView_ok_def apiKeyView_of_def apiKey_ok_def)

lemma keeps_listApiKeys: "keeps env zod (listApiKeys a t) (\<lambda>vs. \<forall>v \<in> set vs. apiKeyView_ok env v)"
  unfolding listApiKeys_def by (auto intro!: keeps_steps simp: apiKeyView_of_ok) (rule typed_lists, assumption+)

lemma held_known: "assertHeld held ps = Inr u \<Longrightarrow> known_permissions ps"
  by (induction ps) (auto simp: assertKnown_def isKnown_def known_permissions_def permissionNames_catalog)

lemma keeps_createApiKey:
  assumes "ports_ok env zod" "opt_date x"
  shows "keeps env zod (createApiKey env a t n ps x) (\<lambda>r. isUuid env (fst r))"
proof -
  have k: "apiKey_ok env k"
    if "apiKey_create i t u n p h ps now x = Inr k" "isUuid env i" "assertHeld held ps = Inr v" for i u p h now k held v
    by (rule apiKey_created_ok(1)[OF that(1,2) held_known[OF that(3)] assms(2)])
  have i: "isUuid env (ent_id k)" if "apiKey_ok env k" for k using that by (simp add: apiKey_ok_def)
  show ?thesis unfolding createApiKey_def Let_def using assms(1)
    by (auto intro!: keeps_steps typed_writes split: tenantActor.split) (blast intro: k i)+
qed

lemma keeps_updateApiKey:
  assumes "\<And>ps. pso = Some ps \<Longrightarrow> known_permissions ps"
  shows "keeps env zod (updateApiKey a t i nm pso) (apiKeyView_ok env)"
proof -
  have 1: "keeps env zod (case (pso, a) of (Some ps, userActor u) \<Rightarrow>
      bindA (getEffectivePermissions u t) (\<lambda>held. liftR (assertHeld held ps)) | _ \<Rightarrow> returnA ()) (\<lambda>_. True)"
    by (auto intro!: keeps_steps split: option.split tenantActor.split)
  have n: "apiKey_ok env k" if "(case nm of None \<Rightarrow> Inr k0 | Some n \<Rightarrow> apiKey_rename k0 n) = Inr k" "apiKey_ok env k0" for k0 k
    using that by (auto split: option.splits intro: apiKey_created_ok(2))
  have p: "apiKey_ok env k" if "(case pso of None \<Rightarrow> Inr k0 | Some ps \<Rightarrow> apiKey_replacePermissions k0 ps now) = Inr k" "apiKey_ok env k0" for k0 k now
    using that assms by (auto split: option.splits intro: apiKey_created_ok(3))
  show ?thesis unfolding updateApiKey_def
    by (rule keeps_then[OF keeps_require] keeps_then[OF 1])+
      (auto intro!: keeps_steps typed_writes simp: apiKeyView_of_ok, (blast intro: n p typed_finds(9))+)
qed

lemma keeps_revokeApiKey: "keeps env zod (revokeApiKey a t i) (\<lambda>_. True)"
  unfolding revokeApiKey_def by (auto intro!: keeps_steps typed_writes) (blast intro: apiKey_created_ok(4) typed_finds(9))

lemma keeps_touchApiKeyLastUsed: "keeps env zod (touchApiKeyLastUsed k) (\<lambda>_. True)"
  unfolding touchApiKeyLastUsed_def by (auto intro!: keeps_steps typed_writes)

end
