(* ===== verification/Answers.thy ===== *)
theory Answers
  imports Api Outputs TypedUseCases HttpGuarantees
begin

text \<open>
  Every handler of the API answers what its output schema accepts unchanged, and leaves a typed world: the
  serializer in front of the handlers never fails and never drops a field.
\<close>

section \<open>The schema of each answer\<close>

definition authController_output :: "env \<Rightarrow> endpoint \<Rightarrow> jsval schema option" where
  "authController_output env e = (case e of
     AuthRegister \<Rightarrow> Some (registerUserOutputSchema env)
   | AuthLogin \<Rightarrow> Some (authTokenSessionOutputSchema env) | AuthRefresh \<Rightarrow> Some (authTokenSessionOutputSchema env)
   | AuthLogout \<Rightarrow> Some authOkOutputSchema | AuthWebLogin \<Rightarrow> Some (authSessionOutputSchema env)
   | AuthWebRefresh \<Rightarrow> Some (authSessionOutputSchema env) | AuthWebLogout \<Rightarrow> Some authOkOutputSchema
   | AuthSelectTenant \<Rightarrow> Some (authSessionOutputSchema env) | AuthForgotPassword \<Rightarrow> Some authOkOutputSchema
   | AuthResetPassword \<Rightarrow> Some authOkOutputSchema | AuthSetOrChangePassword \<Rightarrow> Some authOkOutputSchema | _ \<Rightarrow> None)"

definition apiKeysController_output :: "zodPorts \<Rightarrow> env \<Rightarrow> endpoint \<Rightarrow> jsval schema option" where
  "apiKeysController_output zod env e = (case e of
     ApiKeysCreate \<Rightarrow> Some (createApiKeyOutputSchema env) | ApiKeysList \<Rightarrow> Some (tenantApiKeysOutputSchema zod env)
   | ApiKeysUpdate \<Rightarrow> Some (apiKeyOutputSchema zod env) | _ \<Rightarrow> None)"

definition membersController_output :: "zodPorts \<Rightarrow> env \<Rightarrow> endpoint \<Rightarrow> jsval schema option" where
  "membersController_output zod env e = (case e of
     MembersList \<Rightarrow> Some (tenantMembersOutputSchema zod env) | MembersAttach \<Rightarrow> Some (attachMemberOutputSchema env)
   | MembersReplaceRoles \<Rightarrow> Some (replaceMembershipRolesOutputSchema env) | _ \<Rightarrow> None)"

definition rolesController_output :: "env \<Rightarrow> endpoint \<Rightarrow> jsval schema option" where
  "rolesController_output env e = (case e of
     RolesList \<Rightarrow> Some (tenantRolesOutputSchema env) | RolesCreate \<Rightarrow> Some (roleOutputSchema env)
   | RolesUpdate \<Rightarrow> Some (roleOutputSchema env) | _ \<Rightarrow> None)"

definition tenantsController_output :: "env \<Rightarrow> endpoint \<Rightarrow> jsval schema option" where
  "tenantsController_output env e = (case e of
     TenantsCreate \<Rightarrow> Some (createTenantOutputSchema env) | TenantsGet \<Rightarrow> Some (getTenantOutputSchema env) | _ \<Rightarrow> None)"

definition invitationsController_output :: "env \<Rightarrow> endpoint \<Rightarrow> jsval schema option" where
  "invitationsController_output env e = (case e of
     InvitationsInvite \<Rightarrow> Some (inviteMemberOutputSchema env) | InvitationsAccept \<Rightarrow> Some (acceptInvitationOutputSchema env) | _ \<Rightarrow> None)"

definition usersController_output :: "env \<Rightarrow> endpoint \<Rightarrow> jsval schema option" where
  "usersController_output env e = (case e of UsersCreate \<Rightarrow> Some (createUserOutputSchema env) | _ \<Rightarrow> None)"

definition meController_output :: "zodPorts \<Rightarrow> env \<Rightarrow> endpoint \<Rightarrow> jsval schema option" where
  "meController_output zod env e = (case e of MeGet \<Rightarrow> Some (meOutputSchema zod env) | _ \<Rightarrow> None)"

text \<open>The schema of an endpoint is its controller's; a handler with none answers nothing.\<close>

fun firstSome :: "'a option list \<Rightarrow> 'a option" where
  "firstSome [] = None"
| "firstSome (None # xs) = firstSome xs"
| "firstSome (Some x # xs) = Some x"

definition endpoint_output :: "apiConfig \<Rightarrow> endpoint \<Rightarrow> jsval schema option" where
  "endpoint_output cfg e = (let zod = cfg_zod cfg; env = cfg_env cfg in firstSome [authController_output env e,
     apiKeysController_output zod env e, membersController_output zod env e, rolesController_output env e,
     tenantsController_output env e, invitationsController_output env e, usersController_output env e, meController_output zod env e])"

definition answer_ok :: "apiConfig \<Rightarrow> endpoint \<Rightarrow> jsval \<Rightarrow> bool" where
  "answer_ok cfg e v \<longleftrightarrow> (case endpoint_output cfg e of None \<Rightarrow> v = JUndefined | Some sch \<Rightarrow> fits sch v)"

section \<open>The triple of a handler\<close>

definition keepsH :: "env \<Rightarrow> zodPorts \<Rightarrow> 'a api \<Rightarrow> ('a \<Rightarrow> bool) \<Rightarrow> bool" where
  "keepsH env zod m Q \<longleftrightarrow> (\<forall>s. typed env zod (as_world s) \<longrightarrow> typed env zod (as_world (snd (m s))) \<and> (\<forall>x. fst (m s) = Inr x \<longrightarrow> Q x))"

named_theorems handler_rules \<open>the triple of a handler, by its shape\<close>

lemma keepsH_weaken: "keepsH env zod m R \<Longrightarrow> (\<And>x. R x \<Longrightarrow> Q x) \<Longrightarrow> keepsH env zod m Q"
  by (simp add: keepsH_def)

lemma keepsH_bind:
  assumes "keepsH env zod m R" "\<And>x. R x \<Longrightarrow> keepsH env zod (f x) Q"
  shows "keepsH env zod (bindH m f) Q"
  unfolding keepsH_def
proof (intro allI impI)
  fix s :: apiState assume w: "typed env zod (as_world s)"
  obtain r s1 where m: "m s = (r, s1)" by fastforce
  have "typed env zod (as_world s1)" "\<forall>x. r = Inr x \<longrightarrow> R x" using assms(1) w m unfolding keepsH_def by (metis fst_conv snd_conv)+
  then show "typed env zod (as_world (snd (bindH m f s))) \<and> (\<forall>y. fst (bindH m f s) = Inr y \<longrightarrow> Q y)"
    using assms(2) m by (cases r) (auto simp: bindH_def keepsH_def)
qed

lemma keepsH_basic:
  "keepsH env zod (liftH r) (\<lambda>x. r = Inr x)" "keepsH env zod (throwH f) Q"
  "keepsH env zod (validate zod' sch v) (\<lambda>x. sch v = Some x)"
  by (simp_all add: keepsH_def liftH_def throwH_def validate_eval split: option.split)

lemma keepsH_useCase: "keeps env zod m Q \<Longrightarrow> keepsH env zod (useCase m) Q"
  unfolding keepsH_def
proof (intro allI impI)
  fix s :: apiState assume k: "keeps env zod m Q" and w: "typed env zod (as_world s)"
  obtain r w' where m: "m (as_world s) = (r, w')" by fastforce
  show "typed env zod (as_world (snd (useCase m s))) \<and> (\<forall>x. fst (useCase m s) = Inr x \<longrightarrow> Q x)"
    using keepsD[OF k w m] m by (cases r) (auto simp: useCase_def)
qed

lemma keepsH_output: "keeps env zod m R \<Longrightarrow> (\<And>x v. R x \<Longrightarrow> out x = Inr v \<Longrightarrow> Q v) \<Longrightarrow> keepsH env zod (thenOutput (useCase m) out) Q"
  unfolding thenOutput_def by (erule keepsH_bind[OF keepsH_useCase]) (rule keepsH_weaken[OF keepsH_basic(1)], simp)

lemma keepsH_unit:
  "keepsH env zod m (\<lambda>_. True) \<Longrightarrow> Q (JObj [(''ok'', JBool True)]) \<Longrightarrow> keepsH env zod (okOutput m) Q"
  "keepsH env zod m (\<lambda>_. True) \<Longrightarrow> Q JUndefined \<Longrightarrow> keepsH env zod (noOutput m) Q"
  unfolding okOutput_def noOutput_def thenOutput_def
  by (erule keepsH_bind, simp add: keepsH_def liftH_def)+

lemma keepsH_principal: "(\<And>p. keepsH env zod (k p) Q) \<Longrightarrow> keepsH env zod (principalArg k) Q"
  "(\<And>a. keepsH env zod (ka a) Q) \<Longrightarrow> keepsH env zod (actorArg ka) Q"
  "(\<And>u. keepsH env zod (ku u) Q) \<Longrightarrow> keepsH env zod (userArg ku) Q"
proof -
  have 1: "keepsH env zod (\<lambda>s. (readDevPrincipal s, s)) (\<lambda>_. True)" by (simp add: keepsH_def)
  show p: "keepsH env zod (principalArg k) Q" if "\<And>p. keepsH env zod (k p) Q" for k
    using keepsH_bind[OF 1 that] unfolding principalArg_def keepsH_def by simp
  show "keepsH env zod (actorArg ka) Q" if "\<And>a. keepsH env zod (ka a) Q" unfolding actorArg_def by (rule p, rule that)
  show "keepsH env zod (userArg ku) Q" if "\<And>u. keepsH env zod (ku u) Q"
    unfolding userArg_def by (rule p, rule keepsH_bind[OF keepsH_basic(1)], rule that)
qed

lemma keepsH_args:
  "(\<And>x. sch (rq_params rq) = Some x \<Longrightarrow> keepsH env zod (k x) Q) \<Longrightarrow> keepsH env zod (paramsArg cfg rq sch k) Q"
  "(\<And>x. sch (rq_body rq) = Some x \<Longrightarrow> keepsH env zod (k x) Q) \<Longrightarrow> keepsH env zod (bodyArg cfg rq sch k) Q"
  unfolding paramsArg_def bodyArg_def by (rule keepsH_bind[OF keepsH_basic(3)]; simp)+

section \<open>What the mappers build\<close>

lemmas output_schemas = apiKeyOutputSchema_def tenantApiKeysOutputSchema_def createApiKeyOutputSchema_def authOkOutputSchema_def
  authSessionFields_def authSessionOutputSchema_def authTokenSessionOutputSchema_def createUserOutputSchema_def registerUserOutputSchema_def
  meUserSchema_def meMembershipSchema_def meOutputSchema_def roleOutputSchema_def tenantRolesOutputSchema_def
  acceptInvitationOutputSchema_def attachMemberOutputSchema_def createTenantOutputSchema_def getTenantOutputSchema_def
  inviteMemberOutputSchema_def replaceMembershipRolesOutputSchema_def tenantMemberUserSchema_def tenantMemberSchema_def tenantMembersOutputSchema_def

lemma fits_strings: "fits (o_array (o_id env)) (jStrings xs) \<longleftrightarrow> (\<forall>x \<in> set xs. isUuid env x)"
  "fits (o_array o_permission) (jStrings ps) \<longleftrightarrow> known_permissions ps"
  by (auto simp: jStrings_def fits_simps known_permissions_def)

lemma status_fits: "fits (o_enum [accountStatus_name Active, accountStatus_name Suspended]) (JStr (accountStatus_name a))"
  "fits (o_enum [membershipStatus_name MInvited, membershipStatus_name MActive, membershipStatus_name MSuspended]) (JStr (membershipStatus_name m))"
  by (cases a; simp add: fits_simps) (cases m; simp add: fits_simps)

lemma ids_fit:
  "isUuid env u \<Longrightarrow> fits (registerUserOutputSchema env) (registerUser_toOutput u)"
  "isUuid env u \<Longrightarrow> fits (createUserOutputSchema env) (createUser_toOutput u)"
  "isUuid env u \<Longrightarrow> fits (attachMemberOutputSchema env) (attachMember_toOutput u)"
  "isUuid env u \<Longrightarrow> fits (inviteMemberOutputSchema env) (inviteMember_toOutput u)"
  "isUuid env (fst kt) \<Longrightarrow> fits (createApiKeyOutputSchema env) (apiKeys_toCreateOutput kt)"
  "isUuid env (fst tn) \<Longrightarrow> fits (getTenantOutputSchema env) (getTenant_toOutput tn)"
  "isUuid env (fst mr) \<and> (\<forall>x \<in> set (snd mr). isUuid env x) \<Longrightarrow> fits (replaceMembershipRolesOutputSchema env) (replaceMembershipRoles_toOutput mr)"
  "acceptResult_ok env ac \<Longrightarrow> fits (acceptInvitationOutputSchema env) (acceptInvitation_toOutput ac)"
  "createTenantResult_ok env ct \<Longrightarrow> fits (createTenantOutputSchema env) (createTenant_toOutput ct)"
  "fits authOkOutputSchema (JObj [(''ok'', JBool True)])"
  unfolding output_schemas registerUser_toOutput_def createUser_toOutput_def attachMember_toOutput_def inviteMember_toOutput_def
    apiKeys_toCreateOutput_def getTenant_toOutput_def replaceMembershipRoles_toOutput_def acceptInvitation_toOutput_def createTenant_toOutput_def
  by (rule fits_objectI, simp, simp add: fits_simps(1-5,7-11) fits_strings acceptResult_ok_def createTenantResult_ok_def fits_objectI)+

lemma role_fits: "roles_toRoleOutput r = Inr v \<Longrightarrow> roleView_ok env r \<Longrightarrow> fits (roleOutputSchema env) v"
  unfolding output_schemas roles_toRoleOutput_def permissionSchema_parse_def
  by (auto intro!: fits_objectI simp: fits_simps(1-5,7-11) fits_strings roleView_ok_def known_permissions_def split: if_splits)

lemma date_fits:
  assumes "optionalDate name d = Inr fs" "opt_date d" "ports_ok env zod"
  shows "fs = [] \<or> (\<exists>x. fs = [(name, JStr x)] \<and> zp_isoDatetime zod x)"
  using assms by (auto simp: optionalDate_def opt_date_def ports_ok_def split: option.splits sum.splits)

lemma apiKey_fits:
  assumes "apiKeys_toApiKeyOutput k = Inr v" "apiKeyView_ok env k" "ports_ok env zod"
  shows "fits (apiKeyOutputSchema zod env) v"
proof -
  obtain e r l where d: "optionalDate ''expiresAt'' (av_expiresAt k) = Inr e" "optionalDate ''revokedAt'' (av_revokedAt k) = Inr r"
      "optionalDate ''lastUsedAt'' (av_lastUsedAt k) = Inr l"
    and v: "v = JObj ([(''id'', JStr (av_apiKeyId k)), (''name'', JStr (av_name k)), (''prefix'', JStr (av_prefix k)),
         (''permissions'', jStrings (av_permissions k))] @ e @ r @ l)"
    using assms(1) by (auto simp: apiKeys_toApiKeyOutput_def bindR_def split: sum.splits)
  have ok: "opt_date (av_expiresAt k)" "opt_date (av_revokedAt k)" "opt_date (av_lastUsedAt k)" "isUuid env (av_apiKeyId k)"
    "known_permissions (av_permissions k)" using assms(2) by (auto simp: apiKeyView_ok_def)
  note x = date_fits[OF d(1) ok(1) assms(3)] date_fits[OF d(2) ok(2) assms(3)] date_fits[OF d(3) ok(3) assms(3)]
  show ?thesis unfolding v output_schemas
    using x ok(4,5) by (intro fits_objectI) (auto simp: fits_simps(1-5,7-11) fits_strings)
qed

lemma mapR_fits:
  assumes "mapR f xs = Inr ys" "\<And>x y. x \<in> set xs \<Longrightarrow> f x = Inr y \<Longrightarrow> fits sch y"
  shows "fits (o_array sch) (JArr ys)"
  unfolding fits_array
proof
  fix y assume "y \<in> set ys"
  then obtain i where i: "i < length ys" "y = ys ! i" by (auto simp: in_set_conv_nth)
  note l = mapR_Inr[OF assms(1)]
  show "fits sch y" using assms(2)[OF nth_mem list_all2_nthD2[OF l i(1)]] i list_all2_lengthD[OF l] by simp
qed

lemma roles_fit:
  assumes "roles_toListOutput rs = Inr v" "\<forall>r \<in> set rs. roleView_ok env r"
  shows "fits (tenantRolesOutputSchema env) v"
proof -
  obtain xs where xs: "mapR roles_toRoleOutput rs = Inr xs" "v = JObj [(''roles'', JArr xs)]" using assms(1) by (auto simp: roles_toListOutput_def)
  have "fits (o_array (roleOutputSchema env)) (JArr xs)" by (rule mapR_fits[OF xs(1)], rule role_fits, assumption, rule bspec[OF assms(2)])
  then show ?thesis unfolding xs(2) tenantRolesOutputSchema_def by (intro fits_objectI) simp_all
qed

lemma apiKeys_fit:
  assumes "apiKeys_toListOutput ks = Inr v" "\<forall>k \<in> set ks. apiKeyView_ok env k" "ports_ok env zod"
  shows "fits (tenantApiKeysOutputSchema zod env) v"
proof -
  obtain xs where xs: "mapR apiKeys_toApiKeyOutput ks = Inr xs" "v = JObj [(''apiKeys'', JArr xs)]" using assms(1) by (auto simp: apiKeys_toListOutput_def)
  have "fits (o_array (apiKeyOutputSchema zod env)) (JArr xs)"
    by (rule mapR_fits[OF xs(1)], rule apiKey_fits[OF _ _ assms(3)], assumption, rule bspec[OF assms(2)])
  then show ?thesis unfolding xs(2) tenantApiKeysOutputSchema_def by (intro fits_objectI) simp_all
qed

lemma members_fit: "\<forall>m \<in> set ms. memberView_ok env zod m \<Longrightarrow> fits (tenantMembersOutputSchema zod env) (tenantMembers_toOutput ms)"
  unfolding output_schemas tenantMembers_toOutput_def
  by (auto intro!: fits_objectI simp: fits_simps(1-5,7-11) fits_array fits_strings status_fits memberView_ok_def split: option.splits)

lemma me_fits: "me_toOutput p = Inr v \<Longrightarrow> profile_ok env zod p \<Longrightarrow> fits (meOutputSchema zod env) v"
  unfolding output_schemas me_toOutput_def permissionSchema_parse_def
  by (auto intro!: fits_objectI simp: fits_simps(1-5,7-11) fits_strings status_fits profile_ok_def known_permissions_def split: if_splits option.splits)

section \<open>Sessions\<close>

text \<open>A session lasts for some time, and its token is not empty.\<close>

definition auth_ports_ok :: "authPorts \<Rightarrow> bool" where
  "auth_ports_ok ports \<longleftrightarrow> 0 < ap_ttlSeconds ports \<and> ap_ttlSeconds ports \<le> 9007199254740991 \<and> (\<forall>now p. ap_jwtSign ports now p \<noteq> [])"

definition session_fields_ok :: "env \<Rightarrow> js_object \<Rightarrow> bool" where
  "session_fields_ok env ob \<longleftrightarrow> fits (authSessionOutputSchema env) (JObj ob) \<and>
     (\<forall>x. x \<noteq> [] \<longrightarrow> fits (authTokenSessionOutputSchema env) (JObj (ob @ [(''refreshToken'', JStr x)])))"

lemma session_fields:
  assumes "tk \<noteq> []" "0 < ttl" "ttl \<le> 9007199254740991" "isUuid env u" "\<And>t. tid = Some t \<Longrightarrow> isUuid env t"
  shows "session_fields_ok env ([(''accessToken'', JStr tk), (''expiresIn'', JNum (num (int ttl))), (''userId'', JStr u)]
     @ (case tid of None \<Rightarrow> [] | Some t \<Rightarrow> [(''tenantId'', JStr t)]))"
proof -
  have "num_le (num (- 9007199254740991)) (num (int ttl))" "num_le (num (int ttl)) (num 9007199254740991)" "num_lt (num 0) (num (int ttl))"
    using assms(2,3) by (simp_all add: num_def num_lt_def)
  moreover have "numIsInteger (num (int ttl))" by (simp add: numIsInteger_def num_def)
  ultimately have "fits o_positiveInt (JNum (num (int ttl)))" by (simp add: fits_def o_positiveInt_def o_when_def safeInt_def)
  then show ?thesis using assms
    by (auto simp: session_fields_ok_def output_schemas fits_simps(1-5,7-11) Suc_le_eq intro!: fits_objectI split: option.splits)
qed

lemma keepsH_session:
  assumes "auth_ports_ok ports" "isUuid env u" "\<And>t. tid = Some t \<Longrightarrow> isUuid env t"
  shows "keepsH env zod (auth_session ports u tid) (session_fields_ok env)"
  using assms session_fields by (auto simp: keepsH_def auth_session_def auth_ports_ok_def jwt_sign_def simp del: append.simps)

lemma nonempty_uuid: "ports_ok env zod \<Longrightarrow> isUuid env x \<Longrightarrow> x \<noteq> []"
  by (auto simp: ports_ok_def)

lemma keepsH_signIn:
  assumes "ports_ok env zod" "auth_ports_ok ports"
  shows "keepsH env zod (auth_signIn env ports input) (\<lambda>r. session_fields_ok env (fst r) \<and> snd r \<noteq> [])"
  unfolding auth_signIn_def
  by (rule keepsH_bind[OF keepsH_useCase[OF keeps_login[OF assms(1)]]], rule keepsH_bind[OF keepsH_session[OF assms(2)]])
    (auto simp: keepsH_def liftH_def dest: nonempty_uuid[OF assms(1)])

lemma keepsH_refresh:
  assumes "ports_ok env zod" "auth_ports_ok ports"
  shows "keepsH env zod (auth_refresh env ports tk) (\<lambda>r. session_fields_ok env (fst r) \<and> snd r \<noteq> [])"
proof (cases tk)
  case (Some x)
  show ?thesis unfolding auth_refresh_def Some option.case
    by (rule keepsH_bind[OF keepsH_useCase[OF keeps_rotateRefresh[OF assms(1)]]], unfold case_prod_beta,
        rule keepsH_bind[OF keepsH_session[OF assms(2)]])
      (auto simp: keepsH_def liftH_def dest: nonempty_uuid[OF assms(1)])
qed (simp add: auth_refresh_def keepsH_basic)

lemma keepsH_session_answers:
  assumes "keepsH env zod m (\<lambda>r. session_fields_ok env (fst r) \<and> snd r \<noteq> [])"
  shows "keepsH env zod (thenOutput m withRefreshToken) (fits (authTokenSessionOutputSchema env))"
    "keepsH env zod (auth_session_cookie ports m) (fits (authSessionOutputSchema env))"
  unfolding thenOutput_def auth_session_cookie_def
  by (rule keepsH_bind[OF assms]; auto simp: keepsH_def liftH_def withRefreshToken_def session_fields_ok_def refreshCookie_set_def bindH_def)+

lemma keepsH_chooseTenant:
  assumes "auth_ports_ok ports"
  shows "keepsH env zod (auth_chooseTenant ports u t) (fits (authSessionOutputSchema env))"
  unfolding auth_chooseTenant_def
  by (rule keepsH_bind[OF keepsH_useCase[OF keeps_selectTenant]], unfold case_prod_beta, rule keepsH_bind[OF keepsH_session[OF assms]])
    (auto simp: keepsH_def liftH_def session_fields_ok_def)

section \<open>What the bodies carry\<close>

lemma z_field_Some: "z_field n sch v = Some x \<Longrightarrow> \<exists>w. sch w = Some x"
  by (auto simp: z_field_def split: jsval.splits)

lemma body_facts:
  "tenantIdParamSchema env v = Some t \<Longrightarrow> isUuid env t"
  "registerUserInputSchema zod v = Some ru \<Longrightarrow> zp_email zod (ru_email ru)"
  "createUserInputSchema zod v = Some cu \<Longrightarrow> zp_email zod (cu_email cu)"
  "inviteMemberInputSchema zod env v = Some im \<Longrightarrow> zp_email zod (im_email im)"
  by (auto simp: tenantIdParamSchema_def registerUserInputSchema_def createUserInputSchema_def inviteMemberInputSchema_def z_and_Some
      z_id_def z_email_def z_refine_Some dest!: z_field_Some)

lemma body_dates:
  assumes "createApiKeyInputSchema zod v = Some b" "ports_ok env zod"
  shows "opt_date (map_option (zp_timeValue zod) (ka_expiresAt b))"
  using assms
  by (auto simp: createApiKeyInputSchema_def z_and_Some z_optional_def z_refine_Some opt_date_def ports_ok_def split: if_splits option.split
      dest!: z_field_Some)

lemma body_permissions:
  assumes "updateApiKeyInputSchema v = Some b" "ui_permissions b = Some ps"
  shows "known_permissions ps"
proof -
  obtain w where "z_optional (z_array1 permissionSchema) w = Some (Some ps)"
    using assms by (auto simp: updateApiKeyInputSchema_def z_and_Some z_refine_Some dest!: z_field_Some)
  then have "z_array1 permissionSchema w = Some ps" by (auto simp: z_optional_def split: if_splits)
  then show ?thesis by (auto simp: known_permissions_def permissionSchema_def z_refine_Some dest!: z_array1_Some)
qed

lemma parsed_same: "parseOptionalPermissions pso = Inr pso' \<Longrightarrow> pso' = pso"
  by (auto simp: parseOptionalPermissions_def parsePermissions_def split: option.splits if_splits)

section \<open>The handlers\<close>

lemma keepsH_users:
  assumes "ports_ok env zod"
  shows "zp_email zod (ru_email ru) \<Longrightarrow> keepsH env zod (auth_register env ru) (fits (registerUserOutputSchema env))"
    "zp_email zod (cu_email cu) \<Longrightarrow> keepsH env zod (users_create env cu) (fits (createUserOutputSchema env))"
  unfolding auth_register_def users_create_def
  by (rule keepsH_output, erule keeps_createUser[OF assms], auto intro: ids_fit)+

lemma keepsH_me: "keepsH env zod (me_get als) (fits (meOutputSchema zod env))"
proof -
  have "keepsH env zod (thenOutput (useCase (getMyProfile u t)) me_toOutput) (fits (meOutputSchema zod env))" for u t
    by (rule keepsH_output[OF keeps_getMyProfile]) (rule me_fits)
  then show ?thesis unfolding me_get_def by (auto simp: keepsH_basic split: sum.split tenantActor.split)
qed

lemma keepsH_apiKeys:
  assumes "ports_ok env zod"
  shows "opt_date (map_option (zp_timeValue zod) (ka_expiresAt b)) \<Longrightarrow>
      keepsH env zod (apiKeysService_create env zod t a b) (fits (createApiKeyOutputSchema env))"
    "keepsH env zod (apiKeysService_list t a) (fits (tenantApiKeysOutputSchema zod env))"
    "(\<And>ps. ui_permissions ub = Some ps \<Longrightarrow> known_permissions ps) \<Longrightarrow>
      keepsH env zod (apiKeysService_update t k a ub) (fits (apiKeyOutputSchema zod env))"
    "keepsH env zod (apiKeysService_revoke t k a) (\<lambda>_. True)"
proof -
  show "keepsH env zod (apiKeysService_create env zod t a b) (fits (createApiKeyOutputSchema env))"
    if "opt_date (map_option (zp_timeValue zod) (ka_expiresAt b))"
    unfolding apiKeysService_create_def
    by (rule keepsH_bind[OF keepsH_basic(1)], rule keepsH_output[OF keeps_createApiKey[OF assms that]]) (auto intro: ids_fit)
  show "keepsH env zod (apiKeysService_list t a) (fits (tenantApiKeysOutputSchema zod env))"
    unfolding apiKeysService_list_def by (rule keepsH_output[OF keeps_listApiKeys]) (rule apiKeys_fit[OF _ _ assms])
  show "keepsH env zod (apiKeysService_update t k a ub) (fits (apiKeyOutputSchema zod env))"
    if "\<And>ps. ui_permissions ub = Some ps \<Longrightarrow> known_permissions ps"
    unfolding apiKeysService_update_def
    by (rule keepsH_bind[OF keepsH_basic(1)], drule parsed_same, rule keepsH_output[OF keeps_updateApiKey])
      (auto intro: that apiKey_fits[OF _ _ assms])
  show "keepsH env zod (apiKeysService_revoke t k a) (\<lambda>_. True)"
    unfolding apiKeysService_revoke_def by (rule keepsH_useCase[OF keeps_revokeApiKey])
qed

lemma keepsH_members:
  "keepsH env zod (membersService_list t a) (fits (tenantMembersOutputSchema zod env))"
  "isUuid env t \<Longrightarrow> keepsH env zod (membersService_attach env t a am) (fits (attachMemberOutputSchema env))"
  "keepsH env zod (membersService_replaceRoles t m a rs) (fits (replaceMembershipRolesOutputSchema env))"
proof -
  show "keepsH env zod (membersService_list t a) (fits (tenantMembersOutputSchema zod env))"
    unfolding membersService_list_def by (rule keepsH_output[OF keeps_listTenantMembers]) (auto intro: members_fit)
  show "keepsH env zod (membersService_attach env t a am) (fits (attachMemberOutputSchema env))" if "isUuid env t"
    unfolding membersService_attach_def by (rule keepsH_output[OF keeps_attachMember[OF that]]) (auto intro: ids_fit)
  show "keepsH env zod (membersService_replaceRoles t m a rs) (fits (replaceMembershipRolesOutputSchema env))"
    unfolding membersService_replaceRoles_def by (rule keepsH_output[OF keeps_replaceMembershipRoles]) (auto intro: ids_fit)
qed

lemma keepsH_roles:
  "keepsH env zod (rolesService_list t a) (fits (tenantRolesOutputSchema env))"
  "keepsH env zod (rolesService_create env t a cr) (fits (roleOutputSchema env))"
  "keepsH env zod (rolesService_update env t r a ub) (fits (roleOutputSchema env))"
  "keepsH env zod (rolesService_delete t r a) (\<lambda>_. True)"
proof -
  show "keepsH env zod (rolesService_list t a) (fits (tenantRolesOutputSchema env))"
    unfolding rolesService_list_def by (rule keepsH_output[OF keeps_listRoles]) (rule roles_fit)
  show "keepsH env zod (rolesService_create env t a cr) (fits (roleOutputSchema env))"
    unfolding rolesService_create_def
    by (rule keepsH_bind[OF keepsH_basic(1)], rule keepsH_output[OF keeps_createCustomRole]) (rule role_fits)
  show "keepsH env zod (rolesService_update env t r a ub) (fits (roleOutputSchema env))"
    unfolding rolesService_update_def
    by (rule keepsH_bind[OF keepsH_basic(1)], rule keepsH_output[OF keeps_updateCustomRole]) (rule role_fits)
  show "keepsH env zod (rolesService_delete t r a) (\<lambda>_. True)"
    unfolding rolesService_delete_def by (rule keepsH_useCase[OF keeps_deleteCustomRole])
qed

lemma keepsH_tenants:
  assumes "ports_ok env zod"
  shows "keepsH env zod (tenantsService_create env n u als) (fits (createTenantOutputSchema env))"
    "keepsH env zod (tenantsService_get t a) (fits (getTenantOutputSchema env))"
    "isUuid env t \<Longrightarrow> zp_email zod (im_email im) \<Longrightarrow> keepsH env zod (invitationsService_invite env t a im) (fits (inviteMemberOutputSchema env))"
    "keepsH env zod (invitationsService_accept env ab als) (fits (acceptInvitationOutputSchema env))"
  unfolding tenantsService_create_def tenantsService_get_def invitationsService_invite_def invitationsService_accept_def withoutTenantScope_def
  by (rule keepsH_output[OF keeps_createTenant] keepsH_output[OF keeps_getTenant] keepsH_output[OF keeps_acceptInvitation[OF assms]]
      keepsH_output[OF keeps_inviteMember[OF assms]]; auto intro: ids_fit)+

lemma keepsH_auth:
  assumes "ports_ok (cfg_env cfg) (cfg_zod cfg)" "auth_ports_ok (api_auth (cfg_ports cfg))" "e \<in> {AuthRegister, AuthLogin, AuthRefresh, AuthLogout,
    AuthWebLogin, AuthWebRefresh, AuthWebLogout, AuthSelectTenant, AuthForgotPassword, AuthResetPassword, AuthSetOrChangePassword}"
  shows "keepsH (cfg_env cfg) (cfg_zod cfg) (endpoint_handler cfg rq e als) (answer_ok cfg e)"
proof -
  let ?k = "keepsH (cfg_env cfg) (cfg_zod cfg)"
  have ok: "?k (okOutput m) (fits authOkOutputSchema)" if "?k m (\<lambda>_. True)" for m
    by (rule keepsH_unit(1), rule that, rule ids_fit(10))
  have cookie: "?k (refreshCookie_clear ps) (\<lambda>_. True)" for ps by (simp add: keepsH_def refreshCookie_clear_def)
  note v = keepsH_bind[OF keepsH_basic(3)]
  have c: "?k (authController_register cfg rq) (fits (registerUserOutputSchema (cfg_env cfg)))"
    "?k (authController_login cfg rq) (fits (authTokenSessionOutputSchema (cfg_env cfg)))"
    "?k (authController_refresh cfg rq) (fits (authTokenSessionOutputSchema (cfg_env cfg)))"
    "?k (authController_logout cfg rq) (fits authOkOutputSchema)"
    "?k (authController_webLogin cfg rq) (fits (authSessionOutputSchema (cfg_env cfg)))"
    "?k (authController_webRefresh cfg rq) (fits (authSessionOutputSchema (cfg_env cfg)))"
    "?k (authController_webLogout cfg rq) (fits authOkOutputSchema)"
    "?k (authController_selectTenant cfg rq) (fits (authSessionOutputSchema (cfg_env cfg)))"
    "?k (authController_forgotPassword cfg rq) (fits authOkOutputSchema)"
    "?k (authController_resetPassword cfg rq) (fits authOkOutputSchema)"
    "?k (authController_setOrChangePassword cfg rq) (fits authOkOutputSchema)"
    unfolding authController_register_def authController_login_def authController_refresh_def authController_logout_def authController_webLogin_def
      authController_webRefresh_def authController_webLogout_def authController_selectTenant_def authController_forgotPassword_def
      authController_resetPassword_def authController_setOrChangePassword_def auth_tokenSignIn_def auth_tokenRefresh_def auth_tokenSignOut_def
      auth_signOut_def auth_forgotPassword_def auth_reset_def auth_updatePassword_def
    by (rule v keepsH_principal keepsH_users(1)[OF assms(1) body_facts(2)] keepsH_session_answers keepsH_signIn[OF assms(1,2)] keepsH_refresh[OF assms(1,2)]
        ok keepsH_bind[OF keepsH_basic(1)] keepsH_chooseTenant[OF assms(2)] keepsH_useCase keepsH_bind[OF keepsH_useCase] keeps_logout
        keeps_passwords[OF assms(1)] cookie | assumption)+
  have "endpoint_output cfg e = authController_output (cfg_env cfg) e" using assms(3)
    by (auto simp: endpoint_output_def authController_output_def Let_def)
  then show ?thesis using assms(3) c unfolding answer_ok_def by (auto simp: authController_output_def)
qed

lemma keepsH_others:
  assumes "ports_ok (cfg_env cfg) (cfg_zod cfg)" "e \<in> {UsersCreate, MeGet, ApiKeysCreate, ApiKeysList, ApiKeysUpdate, ApiKeysRevoke, MembersList,
    MembersAttach, MembersReplaceRoles, RolesList, RolesCreate, RolesUpdate, RolesDelete, TenantsCreate, TenantsGet, InvitationsInvite, InvitationsAccept}"
  shows "keepsH (cfg_env cfg) (cfg_zod cfg) (endpoint_handler cfg rq e als) (answer_ok cfg e)"
proof -
  let ?k = "keepsH (cfg_env cfg) (cfg_zod cfg)" let ?env = "cfg_env cfg" and ?zod = "cfg_zod cfg"
  have none: "?k (noOutput m) (\<lambda>v. v = JUndefined)" if "?k m (\<lambda>_. True)" for m
    by (rule keepsH_unit(2)) (rule that, simp)
  note keys = keepsH_apiKeys[OF assms(1)] and tenants = keepsH_tenants[OF assms(1)]
  have p: "?k (case x of (a, b) \<Rightarrow> f a b) Q" if "\<And>a b. ?k (f a b) Q" for x and Q :: "jsval \<Rightarrow> bool" and f :: "string \<Rightarrow> string \<Rightarrow> jsval api"
    using that by (cases x) simp
  have c: "?k (usersController_create cfg rq) (fits (createUserOutputSchema ?env))" "?k (meController_get als) (fits (meOutputSchema ?zod ?env))"
    "?k (apiKeysController_create cfg rq) (fits (createApiKeyOutputSchema ?env))"
    "?k (apiKeysController_list cfg rq) (fits (tenantApiKeysOutputSchema ?zod ?env))"
    "?k (apiKeysController_update cfg rq) (fits (apiKeyOutputSchema ?zod ?env))" "?k (apiKeysController_revoke cfg rq) (\<lambda>v. v = JUndefined)"
    "?k (membersController_list cfg rq) (fits (tenantMembersOutputSchema ?zod ?env))"
    "?k (membersController_attach cfg rq) (fits (attachMemberOutputSchema ?env))"
    "?k (membersController_replaceRoles cfg rq) (fits (replaceMembershipRolesOutputSchema ?env))"
    "?k (rolesController_list cfg rq) (fits (tenantRolesOutputSchema ?env))" "?k (rolesController_create cfg rq) (fits (roleOutputSchema ?env))"
    "?k (rolesController_update cfg rq) (fits (roleOutputSchema ?env))" "?k (rolesController_delete cfg rq) (\<lambda>v. v = JUndefined)"
    "?k (tenantsController_create cfg rq als) (fits (createTenantOutputSchema ?env))" "?k (tenantsController_get cfg rq) (fits (getTenantOutputSchema ?env))"
    "?k (invitationsController_invite cfg rq) (fits (inviteMemberOutputSchema ?env))"
    "?k (invitationsController_accept cfg rq als) (fits (acceptInvitationOutputSchema ?env))"
    unfolding usersController_create_def meController_get_def apiKeysController_create_def apiKeysController_list_def apiKeysController_update_def
      apiKeysController_revoke_def membersController_list_def membersController_attach_def membersController_replaceRoles_def rolesController_list_def
      rolesController_create_def rolesController_update_def rolesController_delete_def tenantsController_create_def tenantsController_get_def
      invitationsController_invite_def invitationsController_accept_def
    by (rule keepsH_bind[OF keepsH_basic(3)] keepsH_bind[OF keepsH_basic(1)] keepsH_principal keepsH_args p none keepsH_users(2)[OF assms(1) body_facts(3)]
        keepsH_me keys(1)[OF body_dates[OF _ assms(1)]] keys(2) keys(3)[OF body_permissions] keys(4) keepsH_members(1) keepsH_members(2)[OF body_facts(1)]
        keepsH_members(3) keepsH_roles tenants(1,2,4) tenants(3)[OF body_facts(1) body_facts(4)] | assumption)+
  have "endpoint_output cfg e = firstSome [apiKeysController_output ?zod ?env e, membersController_output ?zod ?env e, rolesController_output ?env e,
     tenantsController_output ?env e, invitationsController_output ?env e, usersController_output ?env e, meController_output ?zod ?env e]" using assms(2)
    by (auto simp: endpoint_output_def authController_output_def Let_def)
  then show ?thesis using assms(2) c unfolding answer_ok_def
    by (auto simp: apiKeysController_output_def membersController_output_def rolesController_output_def tenantsController_output_def
        invitationsController_output_def usersController_output_def meController_output_def)
qed

lemma keepsH_handlers:
  assumes "ports_ok (cfg_env cfg) (cfg_zod cfg)" "auth_ports_ok (api_auth (cfg_ports cfg))"
  shows "keepsH (cfg_env cfg) (cfg_zod cfg) (endpoint_handler cfg rq e als) (answer_ok cfg e)"
proof (cases "e \<in> {AuthRegister, AuthLogin, AuthRefresh, AuthLogout, AuthWebLogin, AuthWebRefresh, AuthWebLogout, AuthSelectTenant,
    AuthForgotPassword, AuthResetPassword, AuthSetOrChangePassword}")
  case True
  then show ?thesis by (rule keepsH_auth[OF assms])
next
  case False
  then show ?thesis by (intro keepsH_others[OF assms(1)]) (cases e; simp)
qed

section \<open>A typed world\<close>

definition answersConfig :: apiConfig where
  "answersConfig = \<lparr>cfg_env = testEnv,
     cfg_zod = \<lparr>zp_email = (\<lambda>s. CHR ''@'' \<in> set s), zp_isoDatetime = (\<lambda>_. True), zp_timeValue = (\<lambda>_. 0), zp_error = (\<lambda>v. v)\<rparr>,
     cfg_ports = devApi\<lparr>api_auth := devPorts\<lparr>ap_jwtSign := (\<lambda>_ _. ''jwt'')\<rparr>\<rparr>\<rparr>"

lemma answers_ports: "ports_ok (cfg_env answersConfig) (cfg_zod answersConfig)" "auth_ports_ok (api_auth (cfg_ports answersConfig))"
proof -
  have "CHR ''@'' \<in> set (js_lower (js_trim e))" if has: "CHR ''@'' \<in> set e" for e
  proof -
    obtain x y where e: "e = x @ CHR ''@'' # y" using split_list[OF has] by blast
    have "\<not> js_space (CHR ''@'')" by (simp add: js_space_def)
    then have "CHR ''@'' \<in> set (js_trim e)"
      unfolding e js_trim_def by (simp add: dropWhile_append)
    then have "js_lower_char (CHR ''@'') \<in> set (js_lower (js_trim e))" by (simp add: js_lower_def)
    then show ?thesis by (simp add: js_lower_char_def)
  qed
  then show "ports_ok (cfg_env answersConfig) (cfg_zod answersConfig)"
    using testEnv_uuid by (simp add: ports_ok_def answersConfig_def four_digit_year_def) (simp add: testEnv_def)
  show "auth_ports_ok (api_auth (cfg_ports answersConfig))" by (simp add: auth_ports_ok_def answersConfig_def devApi_def devPorts_def)
qed

lemma typed_initial: "four_digit_year n \<Longrightarrow> typed env zod (initial_world n)"
  by (simp add: typed_def typed_db_def initial_world_def empty_db_def)

lemma typed_demoTenant: "typed (cfg_env answersConfig) (cfg_zod answersConfig) demoTenant"
proof -
  have e: "cfg_env answersConfig = testEnv" "zp_email (cfg_zod answersConfig) '' Ann@Example.com ''" by (simp_all add: answersConfig_def)
  have "typed testEnv (cfg_zod answersConfig) demoUser" unfolding demoUser_def
    using keeps_createUser(2)[OF answers_ports(1) e(2)] typed_initial[of 0] unfolding e(1) keeps_def four_digit_year_def by simp
  then show ?thesis unfolding demoTenant_def e(1) using keeps_createTenant unfolding keeps_def by blast
qed

text \<open>C32: Every handler of the API keeps the stored rows typed (branded ids, addresses and dates the schemas accept, permissions of the
  catalogue), and what it answers is passed unchanged by the output schema its route declares: the response serializer neither fails
  nor drops a field, and a handler without a schema answers nothing.\<close>

theorem answers_conform:
  assumes "ports_ok (cfg_env cfg) (cfg_zod cfg)" "auth_ports_ok (api_auth (cfg_ports cfg))" "typed (cfg_env cfg) (cfg_zod cfg) (as_world s)"
    "endpoint_handler cfg rq e als s = (r, s')"
  shows "typed (cfg_env cfg) (cfg_zod cfg) (as_world s') \<and>
    (case r of Inl _ \<Rightarrow> True | Inr v \<Rightarrow> (case endpoint_output cfg e of None \<Rightarrow> v = JUndefined | Some sch \<Rightarrow> sch v = Some v))"
proof -
  have "typed (cfg_env cfg) (cfg_zod cfg) (as_world s')" "\<forall>v. r = Inr v \<longrightarrow> answer_ok cfg e v"
    using keepsH_handlers[OF assms(1,2), of rq e als] assms(3,4) unfolding keepsH_def by (metis fst_conv snd_conv)+
  then show ?thesis by (cases r) (auto simp: answer_ok_def fits_def split: option.split)
qed

theorem answers_conform_witness:
  "\<exists>s'. endpoint_handler answersConfig (devRequest\<lparr>rq_params := JObj [(''tenantId'', JStr (sequentialId 1))]\<rparr>) TenantsGet None
      ((idleApi demoTenant)\<lparr>as_principal := Some (UserPrincipal (sequentialId 0) (Some (sequentialId 1)))\<rparr>) =
      (Inr (JObj [(''id'', JStr (sequentialId 1)), (''name'', JStr ''Acme'')]), s') \<and>
    getTenantOutputSchema testEnv (JObj [(''id'', JStr (sequentialId 1)), (''name'', JStr ''Acme'')]) =
      Some (JObj [(''id'', JStr (sequentialId 1)), (''name'', JStr ''Acme'')])"
proof -
  let ?s = "(idleApi demoTenant)\<lparr>as_principal := Some (UserPrincipal (sequentialId 0) (Some (sequentialId 1)))\<rparr>"
  let ?rq = "devRequest\<lparr>rq_params := JObj [(''tenantId'', JStr (sequentialId 1))]\<rparr>"
  have "fst (getTenant (userActor (sequentialId 0)) (sequentialId 1) demoTenant) = Inr (sequentialId 1, ''Acme'')" by code_simp
  then obtain w where g: "getTenant (userActor (sequentialId 0)) (sequentialId 1) demoTenant = (Inr (sequentialId 1, ''Acme''), w)"
    by (metis prod.collapse)
  have "36 \<le> length (sequentialId 1)" by code_simp
  then have "tenantIdParamSchema testEnv (JObj [(''tenantId'', JStr (sequentialId 1))]) = Some (sequentialId 1)"
    by (simp add: tenantIdParamSchema_def z_field_def z_id_def z_refine_def z_string_def obj_read_def obj_get_def testEnv_def)
  then have h: "endpoint_handler answersConfig ?rq TenantsGet None ?s =
      (Inr (JObj [(''id'', JStr (sequentialId 1)), (''name'', JStr ''Acme'')]), ?s\<lparr>as_world := w\<rparr>)"
    using g by (simp add: tenantsController_get_def actorArg_def principalArg_def paramsArg_def validate_eval bindH_def readDevPrincipal_def
        toTenantActor_def tenantsService_get_def thenOutput_def useCase_def liftH_def getTenant_toOutput_def answersConfig_def idleApi_def)
  have t: "typed (cfg_env answersConfig) (cfg_zod answersConfig) (as_world ?s)" using typed_demoTenant by (simp add: idleApi_def)
  have "endpoint_output answersConfig TenantsGet = Some (getTenantOutputSchema testEnv)"
    by (simp add: endpoint_output_def Let_def authController_output_def apiKeysController_output_def membersController_output_def
        rolesController_output_def tenantsController_output_def answersConfig_def)
  then show ?thesis using answers_conform[OF answers_ports t h] h by simp
qed

end
