(* ===== verification/Frontend.thy ===== *)
theory Frontend
  imports Outputs Api "HOL-Library.Sublist"
begin

text \<open>
  The client of the API in packages/frontend/core: the session slice, the idempotency key of a request, the base
  query with its one retry after the session is restored, and the access-token refresh that concurrent callers share.

  The network below \<open>fetch\<close> and RTK's \<open>fetchBaseQuery\<close> is a parameter that answers a request, its
  authorization header and the state of the network; \<open>crypto.randomUUID\<close> is the string it gives.
\<close>

section \<open>The session slice\<close>

record sessionState =
  ss_accessToken :: "string option"
  ss_userId :: "userId option"
  ss_activeTenantId :: "tenantId option"
  ss_effectivePermissions :: "permission list"

text \<open>A partial session: the fields it has.\<close>

record sessionPatch =
  sp_accessToken :: "string option option"
  sp_userId :: "userId option option"
  sp_activeTenantId :: "tenantId option option"
  sp_effectivePermissions :: "permission list option"

definition sessionInitialState :: sessionState where
  "sessionInitialState = \<lparr>ss_accessToken = None, ss_userId = None, ss_activeTenantId = None, ss_effectivePermissions = []\<rparr>"

datatype sessionAction = SetSession sessionState | PatchSession sessionPatch | ClearSession

definition or_keep :: "'a option \<Rightarrow> 'a \<Rightarrow> 'a" where
  "or_keep new old = (case new of None \<Rightarrow> old | Some x \<Rightarrow> x)"

fun sessionReducer :: "sessionState \<Rightarrow> sessionAction \<Rightarrow> sessionState" where
  "sessionReducer _ (SetSession payload) = payload"
| "sessionReducer state (PatchSession payload) = \<lparr>ss_accessToken = or_keep (sp_accessToken payload) (ss_accessToken state),
     ss_userId = or_keep (sp_userId payload) (ss_userId state),
     ss_activeTenantId = or_keep (sp_activeTenantId payload) (ss_activeTenantId state),
     ss_effectivePermissions = or_keep (sp_effectivePermissions payload) (ss_effectivePermissions state)\<rparr>"
| "sessionReducer _ ClearSession = sessionInitialState"

record authSession =
  ao_accessToken :: string
  ao_expiresIn :: number
  ao_userId :: userId
  ao_tenantId :: "tenantId option"

definition sessionFromAuthOutput :: "authSession \<Rightarrow> sessionState" where
  "sessionFromAuthOutput output = \<lparr>ss_accessToken = Some (ao_accessToken output), ss_userId = Some (ao_userId output),
     ss_activeTenantId = ao_tenantId output, ss_effectivePermissions = []\<rparr>"

definition can :: "permission list \<Rightarrow> permission \<Rightarrow> bool" where
  "can permissions p = (p \<in> set permissions)"

text \<open>What \<open>authSessionOutputSchema\<close> reads, as a record.\<close>

definition parseAuthSession :: "env \<Rightarrow> jsval \<Rightarrow> authSession option" where
  "parseAuthSession env v = (case authSessionOutputSchema env v of
     Some (JObj ob) \<Rightarrow> (case (obj_read ob ''accessToken'', obj_read ob ''expiresIn'', obj_read ob ''userId'') of
       (JStr tok, JNum n, JStr u) \<Rightarrow> Some \<lparr>ao_accessToken = tok, ao_expiresIn = n, ao_userId = u,
         ao_tenantId = (case obj_read ob ''tenantId'' of JStr t \<Rightarrow> Some t | _ \<Rightarrow> None)\<rparr>
     | _ \<Rightarrow> None)
   | _ \<Rightarrow> None)"

section \<open>The features of apps/web\<close>

definition applyAuthSession :: "authSession \<Rightarrow> sessionState \<Rightarrow> sessionState" where
  "applyAuthSession output session = sessionReducer session (SetSession (sessionFromAuthOutput output))"

record meOutput =
  mo_userId :: userId
  mo_membershipTenant :: "tenantId option"
  mo_effectivePermissions :: "permission list"

definition hydrateMeSession :: "tenantId \<Rightarrow> meOutput \<Rightarrow> sessionState \<Rightarrow> sessionState" where
  "hydrateMeSession fallbackTenantId data session = sessionReducer session (PatchSession \<lparr>sp_accessToken = None,
     sp_userId = Some (Some (mo_userId data)),
     sp_activeTenantId = Some (Some (case mo_membershipTenant data of None \<Rightarrow> fallbackTenantId | Some t \<Rightarrow> t)),
     sp_effectivePermissions = Some (mo_effectivePermissions data)\<rparr>)"

definition jsText :: "jsval \<Rightarrow> string option" where
  "jsText v = (case v of JStr s \<Rightarrow> Some s | _ \<Rightarrow> None)"

text \<open>The profile endpoint: the answer is read by \<open>meOutputSchema\<close>; a fulfilled query hydrates the session.\<close>

definition getMe_transformResponse :: "zodPorts \<Rightarrow> env \<Rightarrow> jsval \<Rightarrow> meOutput option" where
  "getMe_transformResponse zod env v = (case meOutputSchema zod env v of
     Some (JObj ob) \<Rightarrow> (case (obj_read ob ''user'', obj_read ob ''effectivePermissions'') of
       (JObj us, JArr ps) \<Rightarrow> map_option (\<lambda>u. \<lparr>mo_userId = u,
         mo_membershipTenant = (case obj_read ob ''membership'' of JObj mb \<Rightarrow> jsText (obj_read mb ''tenantId'') | _ \<Rightarrow> None),
         mo_effectivePermissions = List.map_filter jsText ps\<rparr>) (jsText (obj_read us ''id''))
     | _ \<Rightarrow> None)
   | _ \<Rightarrow> None)"

definition getMe_onQueryStarted :: "zodPorts \<Rightarrow> env \<Rightarrow> userId \<times> tenantId \<Rightarrow> failure + jsval \<Rightarrow> sessionState \<Rightarrow> sessionState" where
  "getMe_onQueryStarted zod env arg response session = (case response of
     Inl _ \<Rightarrow> session
   | Inr v \<Rightarrow> (case getMe_transformResponse zod env v of None \<Rightarrow> session | Some data \<Rightarrow> hydrateMeSession (snd arg) data session))"

text \<open>The query of the profile is skipped until the session has a token, a user and a tenant.\<close>

definition getMeQuery :: "string option \<Rightarrow> userId option \<Rightarrow> tenantId option \<Rightarrow> bool \<times> (userId \<times> tenantId)" where
  "getMeQuery accessToken u t = (case (accessToken, u, t) of
     (Some _, Some u, Some t) \<Rightarrow> (False, (u, t))
   | _ \<Rightarrow> (True, (''00000000-0000-4000-8000-000000000001'', ''00000000-0000-4000-8000-000000000002'')))"

text \<open>\<open>TenantSwitcher\<close>'s \<open>apply\<close>: the profile is fetched again after a switch.\<close>

definition tenantSwitcher_apply :: "env \<Rightarrow> string \<Rightarrow> sessionState \<Rightarrow> sessionState \<times> bool" where
  "tenantSwitcher_apply env tenantId session = (if \<not> isUuid env tenantId then (session, False)
     else (sessionReducer session (PatchSession \<lparr>sp_accessToken = None, sp_userId = None, sp_activeTenantId = Some (Some tenantId),
         sp_effectivePermissions = Some []\<rparr>), True))"

section \<open>Requests\<close>

text \<open>The platform's \<open>Headers\<close>: one value under each lower-case name; \<open>append\<close> joins, \<open>set\<close> replaces.
  Names and values the platform refuses (a \<open>TypeError\<close>) are not given here.\<close>

type_synonym headers = "(string \<times> string) list"

definition headers_get :: "headers \<Rightarrow> string \<Rightarrow> string option" where
  "headers_get hs name = map_of hs (js_lower name)"

definition headers_set :: "headers \<Rightarrow> string \<Rightarrow> string \<Rightarrow> headers" where
  "headers_set hs name v = upsert fst (js_lower name, v) hs"

definition headers_append :: "headers \<Rightarrow> string \<Rightarrow> string \<Rightarrow> headers" where
  "headers_append hs name v = (case headers_get hs name of None \<Rightarrow> headers_set hs name v | Some w \<Rightarrow> headers_set hs name (w @ '', '' @ v))"

datatype headersInit = HeadersObject headers | HeaderPairs "(string \<times> string) list" | HeaderRecord "(string \<times> jsval) list" | NoHeaders

record fetchArgs =
  fa_url :: string
  fa_method :: string
  fa_body :: jsval
  fa_headers :: headersInit

datatype fetchRequest = RequestUrl string | RequestArgs fetchArgs

definition IdempotencyKey_header :: string where "IdempotencyKey_header = ''idempotency-key''"

fun IdempotencyKey_asHeaders :: "headersInit \<Rightarrow> headers" where
  "IdempotencyKey_asHeaders (HeadersObject hs) = hs"
| "IdempotencyKey_asHeaders (HeaderPairs entries) = foldl (\<lambda>hs (name, v).
     if isNonEmptyString (JStr name) \<and> isNonEmptyString (JStr v) then headers_append hs name v else hs) [] entries"
| "IdempotencyKey_asHeaders NoHeaders = []"
| "IdempotencyKey_asHeaders (HeaderRecord entries) = foldl (\<lambda>hs (name, v). case v of
     JStr x \<Rightarrow> if isNonEmptyString v then headers_set hs name x else hs | _ \<Rightarrow> hs) [] entries"

definition IdempotencyKey_apply :: "string \<Rightarrow> fetchRequest \<Rightarrow> bool option \<Rightarrow> fetchRequest" where
  "IdempotencyKey_apply randomUUID args idempotent = (if idempotent \<noteq> Some True then args
     else let request = (case args of RequestUrl u \<Rightarrow> \<lparr>fa_url = u, fa_method = ''GET'', fa_body = JUndefined, fa_headers = NoHeaders\<rparr>
              | RequestArgs a \<Rightarrow> a);
            headers = IdempotencyKey_asHeaders (fa_headers request);
            headers = (if (case headers_get headers IdempotencyKey_header of None \<Rightarrow> True | Some v \<Rightarrow> \<not> isNonEmptyString (JStr v))
              then headers_set headers IdempotencyKey_header randomUUID else headers)
          in RequestArgs (request\<lparr>fa_headers := HeadersObject headers\<rparr>))"

definition isAuthSessionUrl :: "fetchRequest \<Rightarrow> bool" where
  "isAuthSessionUrl args = (let url = (case args of RequestUrl u \<Rightarrow> u | RequestArgs a \<Rightarrow> fa_url a) in
     sublist ''auth/web/login'' url \<or> sublist ''auth/web/refresh'' url)"

section \<open>Errors\<close>

text \<open>RTK's \<open>FetchBaseQueryError\<close>: a status or the name of a failure, the body where there is one, and a message.\<close>

datatype fetchStatus = HttpStatusOf nat | FailureName string

record fetchError =
  fe_status :: fetchStatus
  fe_data :: "jsval option"
  fe_error :: "jsval option"

record errorOutput =
  eo_code :: string
  eo_message :: string
  eo_details :: jsval

definition errorData :: "fetchError \<Rightarrow> jsval" where
  "errorData e = (case fe_data e of Some d \<Rightarrow> d | None \<Rightarrow> JUndefined)"

definition errorCode :: "fetchStatus \<Rightarrow> string" where
  "errorCode status = (case status of
     HttpStatusOf n \<Rightarrow> (if n = 400 then ''BAD_REQUEST'' else if n = 401 then ''UNAUTHORIZED'' else if n = 403 then ''FORBIDDEN''
       else if n = 404 then ''NOT_FOUND'' else if n = 409 then ''CONFLICT'' else if n = 500 then ''INTERNAL_ERROR'' else ''HTTP_ERROR'')
   | FailureName _ \<Rightarrow> ''HTTP_ERROR'')"

definition errorMessage :: "fetchError \<Rightarrow> string" where
  "errorMessage e = (case fe_data e of
     Some (JStr d) \<Rightarrow> if isNonEmptyString (JStr d) then d else (case fe_error e of
       Some (JStr m) \<Rightarrow> if isNonEmptyString (JStr m) then m else ''Request failed'' | _ \<Rightarrow> ''Request failed'')
   | _ \<Rightarrow> (case fe_error e of
       Some (JStr m) \<Rightarrow> if isNonEmptyString (JStr m) then m else ''Request failed'' | _ \<Rightarrow> ''Request failed''))"

definition mapError :: "fetchError \<Rightarrow> errorOutput" where
  "mapError e = (case errorOutputSchema (errorData e) of
     Some (JObj ob) \<Rightarrow> (case (obj_read ob ''code'', obj_read ob ''message'') of
       (JStr code, JStr m) \<Rightarrow> \<lparr>eo_code = code, eo_message = m, eo_details = obj_read ob ''details''\<rparr>
     | _ \<Rightarrow> \<lparr>eo_code = errorCode (fe_status e), eo_message = errorMessage e, eo_details = JUndefined\<rparr>)
   | _ \<Rightarrow> \<lparr>eo_code = errorCode (fe_status e), eo_message = errorMessage e, eo_details = JUndefined\<rparr>)"

section \<open>The base query\<close>

record 's network =
  nw_fetch :: "fetchRequest \<Rightarrow> string option \<Rightarrow> 's \<Rightarrow> (fetchError + jsval) \<times> 's"
  nw_refresh :: "'s \<Rightarrow> authSession option \<times> 's"

type_synonym 's client = "sessionState \<times> 's"

definition prepareHeaders :: "sessionState \<Rightarrow> string option" where
  "prepareHeaders state = map_option (\<lambda>accessToken. ''Bearer '' @ accessToken) (ss_accessToken state)"

definition FrontendApi_fetch :: "('s, 'x) network_scheme \<Rightarrow> fetchRequest \<Rightarrow> 's client \<Rightarrow> (fetchError + jsval) \<times> 's client" where
  "FrontendApi_fetch net args c = (let (r, s) = nw_fetch net args (prepareHeaders (fst c)) (snd c) in (r, (fst c, s)))"

definition restoreWebSession :: "('s, 'x) network_scheme \<Rightarrow> 's client \<Rightarrow> bool \<times> 's client" where
  "restoreWebSession net c = (case nw_refresh net (snd c) of
     (None, s) \<Rightarrow> (False, (sessionReducer (fst c) ClearSession, s))
   | (Some output, s) \<Rightarrow> (True, (sessionReducer (fst c) (SetSession (sessionFromAuthOutput output)), s)))"

definition baseQuery :: "('s, 'x) network_scheme \<Rightarrow> string \<Rightarrow> fetchRequest \<Rightarrow> bool option \<Rightarrow> 's client \<Rightarrow> (errorOutput + jsval) \<times> 's client" where
  "baseQuery net randomUUID args idempotent c = (let request = IdempotencyKey_apply randomUUID args idempotent;
     (result, c1) = FrontendApi_fetch net request c in
     case result of
       Inl e \<Rightarrow> (let mapped = mapError e in
         if eo_code mapped \<noteq> ''UNAUTHORIZED'' \<or> isAuthSessionUrl request then (Inl mapped, c1)
         else let (restored, c2) = restoreWebSession net c1 in
           if \<not> restored then (Inl mapped, c2)
           else let (retry, c3) = FrontendApi_fetch net request c2 in
             (case retry of Inl e \<Rightarrow> (Inl (mapError e), c3) | Inr data \<Rightarrow> (Inr data, c3)))
     | Inr data \<Rightarrow> (Inr data, c1))"

section \<open>The shared refresh\<close>

text \<open>
  \<open>WebAccessTokenRefresh\<close> as the steps the event loop takes: a caller of \<open>run\<close> starts the exchange or joins the
  one in flight, and when the exchange settles every caller gets its output.  The browser sends the cookie of its jar
  with the exchange and stores the cookie the response sets.
\<close>

datatype refreshResponse = FetchFailed | Responded bool "jsval option"

definition refresh_output :: "env \<Rightarrow> refreshResponse \<Rightarrow> authSession option" where
  "refresh_output env r = (case r of
     FetchFailed \<Rightarrow> None
   | Responded ok body \<Rightarrow> if \<not> ok then None else (case body of None \<Rightarrow> None | Some v \<Rightarrow> parseAuthSession env v))"

record 'c refreshState =
  rs_inflight :: "string option"
  rs_waiting :: "'c list"
  rs_jar :: string
  rs_sent :: "string list"
  rs_given :: "('c \<times> authSession option) list"

definition refresh_run :: "'c \<Rightarrow> ('c, 'x) refreshState_scheme \<Rightarrow> ('c, 'x) refreshState_scheme" where
  "refresh_run caller s = (case rs_inflight s of
     Some _ \<Rightarrow> s\<lparr>rs_waiting := rs_waiting s @ [caller]\<rparr>
   | None \<Rightarrow> s\<lparr>rs_inflight := Some (rs_jar s), rs_sent := rs_sent s @ [rs_jar s], rs_waiting := [caller]\<rparr>)"

definition refresh_settle :: "env \<Rightarrow> refreshResponse \<Rightarrow> string option \<Rightarrow> ('c, 'x) refreshState_scheme \<Rightarrow> ('c, 'x) refreshState_scheme" where
  "refresh_settle env r setCookie s = (case rs_inflight s of
     None \<Rightarrow> s
   | Some _ \<Rightarrow> s\<lparr>rs_inflight := None, rs_waiting := [], rs_jar := (case setCookie of None \<Rightarrow> rs_jar s | Some c \<Rightarrow> c),
       rs_given := rs_given s @ map (\<lambda>c. (c, refresh_output env r)) (rs_waiting s)\<rparr>)"

end
