(* ===== verification/FrontendGuarantees.thy ===== *)
theory FrontendGuarantees
  imports Frontend Answers ApiFlows
begin

text \<open>
  What the client and the API do together: a session that is refreshed loses its tenant, a tenant switch in the client
  is undone by the next profile, a query is repeated once with the new token, and the exchange that concurrent callers
  share never spends a refresh token twice.
\<close>

section \<open>The refreshed session\<close>

lemma parse_session:
  assumes "tok \<noteq> []" "0 < ttl" "ttl \<le> 9007199254740991" "isUuid env u" "case tid of None \<Rightarrow> True | Some t \<Rightarrow> isUuid env t"
  shows "parseAuthSession env (JObj ([(''accessToken'', JStr tok), (''expiresIn'', JNum (num (int ttl))), (''userId'', JStr u)]
      @ (case tid of None \<Rightarrow> [] | Some t \<Rightarrow> [(''tenantId'', JStr t)]))) =
    Some \<lparr>ao_accessToken = tok, ao_expiresIn = num (int ttl), ao_userId = u, ao_tenantId = tid\<rparr>"
proof -
  have "session_fields_ok env ([(''accessToken'', JStr tok), (''expiresIn'', JNum (num (int ttl))), (''userId'', JStr u)]
      @ (case tid of None \<Rightarrow> [] | Some t \<Rightarrow> [(''tenantId'', JStr t)]))"
    using assms by (intro session_fields) auto
  then show ?thesis
    by (cases tid) (simp_all add: session_fields_ok_def fits_def parseAuthSession_def obj_read_def obj_get_def)
qed

lemma controller_webRefresh:
  assumes "authController_webRefresh cfg rq s = (Inr v, s1)"
  obtains token u new where "refreshCookie_read rq = Some token"
    "rotateRefresh (cfg_env cfg) token (as_world s) = (Inr (u, new), as_world s1)"
    "v = JObj [(''accessToken'', JStr (jwt_sign (api_auth (cfg_ports cfg)) (w_now (as_world s1)) u None)),
       (''expiresIn'', JNum (num (int (ap_ttlSeconds (api_auth (cfg_ports cfg)))))), (''userId'', JStr u)]"
    "as_cookies s1 = as_cookies s @ [\<lparr>ck_name = REFRESH_COOKIE_NAME, ck_value = new, ck_httpOnly = True, ck_sameSite = ''lax'',
       ck_path = ap_cookiePath (api_auth (cfg_ports cfg)), ck_secure = ap_cookieSecure (api_auth (cfg_ports cfg)), ck_maxAge = REFRESH_TTL_MS\<rparr>]"
  using assms
  by (auto simp: authController_webRefresh_def auth_session_cookie_def auth_refresh_def auth_session_def refreshCookie_set_def
      refreshCookie_options_def bindH_def liftH_def throwH_def useCase_def split: option.splits prod.splits sum.splits)


text \<open>C34: A refreshed session has no tenant: whatever tenant the session was signed in to, the token of a web refresh names none.
  The client stores a session without active tenant and permissions, and a request that carries the new token, the repetition of
  the refused one included, is refused on every route that needs a tenant.\<close>

theorem refresh_drops_tenant:
  assumes "jose_ok (api_auth (cfg_ports cfg))" "0 < ap_ttlSeconds (api_auth (cfg_ports cfg)) \<and> ap_ttlSeconds (api_auth (cfg_ports cfg)) \<le> 9007199254740991"
    "\<forall>x \<in> set (db_sessions (w_db (as_world s))). isUuid (cfg_env cfg) (s_userId x)"
    "endpoint_handler cfg rq AuthWebRefresh als s = (Inr v, s1)"
    "refresh_output (cfg_env cfg) (Responded True (Some v)) = answered" "nw_refresh net n = (answered, n')"
    "restoreWebSession net (session, n) = (restored, (session', n''))"
    "readHeader (rq_headers rq2) ''authorization'' = prepareHeaders session'"
    "w_now (as_world s1) \<le> w_now (as_world s2)"
    "w_now (as_world s2) div 1000 < w_now (as_world s1) div 1000 + int (ap_ttlSeconds (api_auth (cfg_ports cfg)))"
  shows "restored \<and> ss_accessToken session' \<noteq> None \<and> ss_activeTenantId session' = None \<and> ss_effectivePermissions session' = [] \<and>
    authPrincipal_intercept (cfg_env cfg) (api_auth (cfg_ports cfg)) False False rq2 (handler :: jsval handler) None s2 =
      (Inl (unauthorized ''tenant is required''), s2)"
proof -
  let ?ports = "api_auth (cfg_ports cfg)" and ?env = "cfg_env cfg"
  obtain token u new where r: "rotateRefresh ?env token (as_world s) = (Inr (u, new), as_world s1)"
    and v: "v = JObj [(''accessToken'', JStr (jwt_sign ?ports (w_now (as_world s1)) u None)),
       (''expiresIn'', JNum (num (int (ap_ttlSeconds ?ports)))), (''userId'', JStr u)]"
    using assms(4) unfolding endpoint_handler.simps by (rule controller_webRefresh)
  obtain x where "sessions_findByTokenHash (digest ?env token) (w_db (as_world s)) = Some x" "u = s_userId x"
    using r by (rule rotateRefresh_Inr) simp
  then have u: "isUuid ?env u" using assms(3) session_found by blast
  have ne: "jwt_sign ?ports (w_now (as_world s1)) u None \<noteq> []" using assms(1) by (simp add: jose_ok_def)
  have out: "answered = Some \<lparr>ao_accessToken = jwt_sign ?ports (w_now (as_world s1)) u None,
      ao_expiresIn = num (int (ap_ttlSeconds ?ports)), ao_userId = u, ao_tenantId = None\<rparr>"
    using parse_session[OF ne _ _ u, of _ None] assms(2) assms(5) by (simp add: refresh_output_def v)
  then have ss: "restored" "session' = \<lparr>ss_accessToken = Some (jwt_sign ?ports (w_now (as_world s1)) u None), ss_userId = Some u,
      ss_activeTenantId = None, ss_effectivePermissions = []\<rparr>"
    using assms(6,7) by (auto simp: restoreWebSession_def sessionFromAuthOutput_def)
  have "readHeader (rq_headers rq2) ''authorization'' = Some (''Bearer '' @ jwt_sign ?ports (w_now (as_world s1)) u None)"
    using assms(8) ss by (simp add: prepareHeaders_def)
  from signed_token_authenticates[OF assms(1) u _ this assms(9,10), of False handler]
  have "authPrincipal_intercept ?env ?ports False False rq2 handler None s2 = (Inl (unauthorized ''tenant is required''), s2)"
    by (simp add: authPrincipal_intercept_def bindUserPrincipal_def throwH_def)
  then show ?thesis using ss by simp
qed


definition cookieRequest :: httpRequest where
  "cookieRequest = loginRequest\<lparr>rq_cookies := Some [(''refresh_token'', JStr (sequentialId 6))]\<rparr>"

lemma demo_refresh: "\<exists>w. rotateRefresh testEnv (sequentialId 6) demoLogin = (Inr (sequentialId 0, sequentialId 9), w) \<and> w_now w = w_now demoLogin"
proof -
  have "fst (rotateRefresh testEnv (sequentialId 6) demoLogin) = Inr (sequentialId 0, sequentialId 9)"
    "w_now (snd (rotateRefresh testEnv (sequentialId 6) demoLogin)) = w_now demoLogin"
    by code_simp+
  then show ?thesis by (metis prod.collapse)
qed

lemma refresh_drops_tenant_witness:
  "\<exists>v s1 token. endpoint_handler letterConfig cookieRequest AuthWebRefresh None (idleApi demoLogin) = (Inr v, s1) \<and>
     authPrincipal_intercept testEnv letterPorts False False (bearerRequest token) (\<lambda>_. throwH (AppFailure InvalidRefreshTokenError)) None s1 =
       (Inl (unauthorized ''tenant is required'') :: failure + jsval, s1)"
proof -
  let ?s = "idleApi demoLogin"
  obtain w where w: "rotateRefresh testEnv (sequentialId 6) demoLogin = (Inr (sequentialId 0, sequentialId 9), w)" "w_now w = w_now demoLogin"
    using demo_refresh by blast
  have cfg: "cfg_env letterConfig = testEnv" "api_auth (cfg_ports letterConfig) = letterPorts"
    by (simp_all add: letterConfig_def demoConfig_def)
  let ?tk = "jwt_sign letterPorts (w_now w) (sequentialId 0) None"
  let ?v = "JObj [(''accessToken'', JStr ?tk), (''expiresIn'', JNum (num 900)), (''userId'', JStr (sequentialId 0))]"
  have "sequentialId 6 \<noteq> []" by code_simp
  then have c: "refreshCookie_read cookieRequest = Some (sequentialId 6)"
    by (simp add: cookieRequest_def obj_read_def obj_get_def refreshCookie_read_def REFRESH_COOKIE_NAME_def)
  obtain s1 where run: "endpoint_handler letterConfig cookieRequest AuthWebRefresh None ?s = (Inr ?v, s1)" and s1: "as_world s1 = w"
    using w by (auto simp: authController_webRefresh_def auth_session_cookie_def auth_refresh_def auth_session_def refreshCookie_set_def
      bindH_def liftH_def useCase_def cfg c letterPorts_def idleApi_def)
  have ids: "\<forall>x \<in> set (db_sessions (w_db (as_world ?s))). isUuid testEnv (s_userId x)"
    unfolding idleApi_def apiState.simps by code_simp
  define answered where "answered = refresh_output testEnv (Responded True (Some ?v))"
  define net :: "unit network" where "net = \<lparr>nw_fetch = \<lambda>_ _ n. (Inr JNull, n), nw_refresh = \<lambda>n. (answered, n)\<rparr>"
  have net: "nw_refresh net () = (answered, ())" by (simp add: net_def)
  have u: "isUuid testEnv (sequentialId 0)" by code_simp
  have ne: "?tk \<noteq> []" using letterPorts_ok by (simp add: jose_ok_def)
  have out: "answered = Some \<lparr>ao_accessToken = ?tk, ao_expiresIn = num 900, ao_userId = sequentialId 0, ao_tenantId = None\<rparr>"
    using parse_session[OF ne _ _ u, of 900 None] by (simp add: refresh_output_def answered_def)
  let ?session = "\<lparr>ss_accessToken = Some ?tk, ss_userId = Some (sequentialId 0), ss_activeTenantId = None, ss_effectivePermissions = []\<rparr>"
  have restored: "restoreWebSession net (sessionInitialState, ()) = (True, (?session, ()))"
    using net out by (simp add: restoreWebSession_def sessionFromAuthOutput_def)
  have h: "readHeader (rq_headers (bearerRequest ?tk)) ''authorization'' = prepareHeaders ?session"
    by (simp add: bearerRequest_def readHeader_def obj_read_def obj_get_def isNonEmptyString_def prepareHeaders_def)
  have "authPrincipal_intercept testEnv letterPorts False False (bearerRequest ?tk) (\<lambda>_. throwH (AppFailure InvalidRefreshTokenError)) None s1 =
       (Inl (unauthorized ''tenant is required'') :: failure + jsval, s1)"
    using refresh_drops_tenant[of letterConfig ?s cookieRequest None ?v s1 answered net "()" "()" sessionInitialState True ?session "()"
        "bearerRequest ?tk" s1 "\<lambda>_. throwH (AppFailure InvalidRefreshTokenError)"]
      letterPorts_ok ids run net restored h by (simp add: cfg answered_def letterPorts_def)
  then show ?thesis using run by blast
qed

section \<open>Switching the tenant\<close>

lemma useCase_read: "useCase (readDb f) s = (Inr (f (w_db (as_world s))), s)"
  by (simp add: useCase_def readDb_def)

lemma bindPrincipal_world: "as_world (bindPrincipal p a k tid s) = as_world s" "as_principal (bindPrincipal p a k tid s) = Some p"
  by (simp_all add: bindPrincipal_def requestContext_bind_def split: option.split)

lemma profile_tenant:
  assumes "getMyProfile u t w = (Inr pf, w')" "memberships_findByUserAndTenant u t (w_db w) \<noteq> None"
  shows "\<exists>m. pf_membership pf = Some m \<and> pm_tenantId m = t"
proof -
  obtain m where m: "memberships_findByUserAndTenant u t (w_db w) = Some m" using assms(2) by blast
  then have "m_tenantId m = t" by (auto simp: memberships_findByUserAndTenant_def find_Some_iff)
  then show ?thesis using assms(1) m
    by (auto simp: getMyProfile_def bindA_Inr readDb_def split: option.splits)
qed

lemma me_membership:
  assumes "meOutputSchema zod env (JObj ob) = Some (JObj ob')" "obj_read ob ''membership'' = JObj mb" "obj_read mb ''tenantId'' = JStr t"
  shows "\<exists>mb'. obj_read ob' ''membership'' = JObj mb' \<and> obj_read mb' ''tenantId'' = JStr t"
proof -
  obtain ob1 where "JObj ob' = JObj ob1" and read: "\<And>n sch. (n, sch) \<in> set [(''user'', meUserSchema zod env),
      (''membership'', o_nullable (meMembershipSchema env)), (''effectivePermissions'', o_array o_permission)] \<Longrightarrow>
      sch (obj_read ob n) = Some (obj_read ob1 n)"
    using assms(1) unfolding meOutputSchema_def by (rule o_object_read) auto
  then have "meMembershipSchema env (JObj mb) = Some (obj_read ob' ''membership'')"
    using read[of "''membership''" "o_nullable (meMembershipSchema env)"] by (simp add: assms(2) o_nullable_def)
  then obtain mb' where mb': "obj_read ob' ''membership'' = JObj mb'" "o_id env (obj_read mb ''tenantId'') = Some (obj_read mb' ''tenantId'')"
    unfolding meMembershipSchema_def by (rule o_object_read) auto
  then show ?thesis using assms(3) by (auto simp: o_id_def o_text_def o_when_def split: if_splits)
qed

lemma me_of_tenant:
  assumes "bindUserPrincipal u (Some t) opt (endpoint_handler cfg rq MeGet) als s = (Inr v, s')"
    "getMe_transformResponse zod env v = Some data"
  shows "mo_membershipTenant data = Some t"
proof -
  let ?s = "bindPrincipal (UserPrincipal u (Some t)) u UserKind (Some t) s"
  let ?scope = "Some \<lparr>tas_scope = Some \<lparr>ts_tenantId = t, ts_actor = userActor u\<rparr>, tas_skip = False\<rparr>"
  have m: "memberships_findByUserAndTenant u t (w_db (as_world ?s)) \<noteq> None" and me: "meController_get ?scope ?s = (Inr v, s')"
    using assms(1) unfolding endpoint_handler.simps bindUserPrincipal_def findActive_def in_tenant_scope_def tenantContext_run_def bindH_def
    by (auto simp: useCase_read bindPrincipal_world throwH_def split: option.splits if_splits)
  have "me_get ?scope ?s = (Inr v, s')"
    using me by (simp add: meController_get_def userArg_def principalArg_def requireUserPrincipal_def readDevPrincipal_def bindH_def liftH_def bindPrincipal_world)
  then have "thenOutput (useCase (getMyProfile u t)) me_toOutput ?s = (Inr v, s')"
    by (simp add: me_get_def getActor_def getTenantId_def requireScope_def)
  then obtain pf w' where pf: "getMyProfile u t (as_world ?s) = (Inr pf, w')" "me_toOutput pf = Inr v"
    by (auto simp: thenOutput_def bindH_def useCase_def liftH_def split: prod.splits sum.splits)
  obtain pm where "pf_membership pf = Some pm" "pm_tenantId pm = t" using profile_tenant[OF pf(1) m] by blast
  then obtain us ps where "v = JObj [(''user'', us), (''membership'', JObj [(''membershipId'', JStr (pm_membershipId pm)),
      (''tenantId'', JStr t), (''roleIds'', jStrings (pm_roleIds pm)), (''status'', JStr (membershipStatus_name (pm_status pm)))]),
      (''effectivePermissions'', ps)]"
    using pf(2) by (auto simp: me_toOutput_def split: option.splits)
  then obtain ob mb where v: "v = JObj ob" "obj_read ob ''membership'' = JObj mb" "obj_read mb ''tenantId'' = JStr t"
    by (simp add: obj_read_def obj_get_def)
  obtain ob' us ps' where ob': "meOutputSchema zod env (JObj ob) = Some (JObj ob')" "obj_read ob' ''user'' = JObj us"
      "obj_read ob' ''effectivePermissions'' = JArr ps'"
    using assms(2) unfolding v(1) getMe_transformResponse_def by (auto split: option.splits jsval.splits)
  from me_membership[OF ob'(1) v(2,3)] show ?thesis
    using assms(2) ob' unfolding v(1) getMe_transformResponse_def by (auto simp: jsText_def)
qed

definition demoProfile :: profile where
  "demoProfile = \<lparr>pf_id = sequentialId 0, pf_email = ''ann@example.com'', pf_displayName = ''Ann'', pf_status = Active,
     pf_membership = Some \<lparr>pm_membershipId = sequentialId 5, pm_tenantId = sequentialId 1, pm_roleIds = [sequentialId 2], pm_status = MActive\<rparr>,
     pf_effectivePermissions = permissionNames\<rparr>"

definition demoMe :: jsval where
  "demoMe = (case me_toOutput demoProfile of Inr v \<Rightarrow> v | Inl _ \<Rightarrow> JUndefined)"

lemma demo_profile: "fst (getMyProfile (sequentialId 0) (sequentialId 1) demoLogin) = Inr demoProfile"
  by code_simp

lemma demo_me: "me_toOutput demoProfile = Inr demoMe"
  by code_simp

lemma demo_me_read: "getMe_transformResponse (cfg_zod letterConfig) testEnv demoMe =
    Some \<lparr>mo_userId = sequentialId 0, mo_membershipTenant = Some (sequentialId 1), mo_effectivePermissions = permissionNames\<rparr>"
proof -
  have z: "cfg_zod letterConfig = cfg_zod demoConfig" by (simp add: letterConfig_def)
  have p: "permissionNames \<noteq> []" by code_simp
  show ?thesis unfolding z by code_simp
qed

lemma me_answered:
  assumes "memberships_findByUserAndTenant u t (w_db (as_world s)) = Some m" "m_status m = MActive"
    "getMyProfile u t (as_world s) = (Inr pf, w)" "me_toOutput pf = Inr v"
  shows "\<exists>s'. bindUserPrincipal u (Some t) opt (endpoint_handler cfg rq MeGet) als s = (Inr v, s')"
  using assms
  by (simp add: bindUserPrincipal_def findActive_def bindH_def[where m = "useCase _"] useCase_read bindPrincipal_world in_tenant_scope_def
      tenantContext_run_def meController_get_def userArg_def principalArg_def requireUserPrincipal_def readDevPrincipal_def me_get_def
      getActor_def getTenantId_def requireScope_def)
    (simp add: thenOutput_def bindH_def liftH_def useCase_def bindPrincipal_world)

text \<open>A tenant switch of the client does not reach the API: it changes the tenant in the client's session and asks for the
  profile again with the same token, so the profile is the one of the token's tenant, which becomes the active tenant again, with its permissions.\<close>

theorem tenant_switch_undone:
  assumes "jose_ok ports" "isUuid env u" "isUuid env t"
    "ss_accessToken session = Some (jwt_sign ports now u (Some t))"
    "tenantSwitcher_apply env other session = (switched, True)"
    "readHeader (rq_headers rq) ''authorization'' = prepareHeaders switched"
    "now \<le> w_now (as_world s)" "w_now (as_world s) div 1000 < now div 1000 + int (ap_ttlSeconds ports)"
    "authPrincipal_intercept env ports False False rq (endpoint_handler cfg rq MeGet) None s = (response, s')"
    "getMe_onQueryStarted zod env (u, other) response switched = after"
  shows "ss_activeTenantId switched = Some other \<and> (case response of
      Inl _ \<Rightarrow> after = switched
    | Inr v \<Rightarrow> (case getMe_transformResponse zod env v of
        None \<Rightarrow> after = switched
      | Some data \<Rightarrow> ss_activeTenantId after = Some t \<and> ss_effectivePermissions after = mo_effectivePermissions data))"
proof -
  have sw: "switched = session\<lparr>ss_activeTenantId := Some other, ss_effectivePermissions := []\<rparr>"
    using assms(5) by (auto simp: tenantSwitcher_apply_def or_keep_def split: if_splits)
  have "readHeader (rq_headers rq) ''authorization'' = Some (''Bearer '' @ jwt_sign ports now u (Some t))"
    using assms(4,6) by (simp add: sw prepareHeaders_def)
  from signed_token_authenticates[OF assms(1,2) _ this assms(7,8), of False "endpoint_handler cfg rq MeGet"]
  have r: "bindUserPrincipal u (Some t) False (endpoint_handler cfg rq MeGet) None s = (response, s')"
    using assms(3,9) by (simp add: authPrincipal_intercept_def)
  show ?thesis
  proof (cases response)
    case (Inr v)
    then show ?thesis using me_of_tenant[OF r[unfolded Inr]] assms(10)
      by (auto simp: sw getMe_onQueryStarted_def hydrateMeSession_def or_keep_def split: option.splits)
  qed (use assms(10) in \<open>auto simp: sw getMe_onQueryStarted_def\<close>)
qed

lemma tenant_switch_undone_witness:
  "\<exists>switched response s' after. tenantSwitcher_apply testEnv (sequentialId 99) \<lparr>ss_accessToken = Some (jwt_sign letterPorts (w_now demoLogin) (sequentialId 0) (Some (sequentialId 1))),
       ss_userId = Some (sequentialId 0), ss_activeTenantId = Some (sequentialId 1), ss_effectivePermissions = []\<rparr> = (switched, True) \<and>
     ss_activeTenantId switched = Some (sequentialId 99) \<and>
     authPrincipal_intercept testEnv letterPorts False False (bearerRequest (jwt_sign letterPorts (w_now demoLogin) (sequentialId 0) (Some (sequentialId 1))))
       (endpoint_handler letterConfig (bearerRequest (jwt_sign letterPorts (w_now demoLogin) (sequentialId 0) (Some (sequentialId 1)))) MeGet) None (idleApi demoLogin) = (Inr response, s') \<and>
     getMe_onQueryStarted (cfg_zod letterConfig) testEnv (sequentialId 0, sequentialId 99) (Inr response) switched = after \<and>
     ss_activeTenantId after = Some (sequentialId 1)"
proof -
  let ?tk = "jwt_sign letterPorts (w_now demoLogin) (sequentialId 0) (Some (sequentialId 1))" and ?s = "idleApi demoLogin"
  let ?session = "\<lparr>ss_accessToken = Some ?tk, ss_userId = Some (sequentialId 0), ss_activeTenantId = Some (sequentialId 1), ss_effectivePermissions = []\<rparr>"
  let ?switched = "?session\<lparr>ss_activeTenantId := Some (sequentialId 99)\<rparr>" and ?rq = "bearerRequest ?tk"
  have ids: "isUuid testEnv (sequentialId 0)" "isUuid testEnv (sequentialId 1)" "isUuid testEnv (sequentialId 99)" by code_simp+
  have sw: "tenantSwitcher_apply testEnv (sequentialId 99) ?session = (?switched, True)"
    using ids by (simp add: tenantSwitcher_apply_def or_keep_def)
  have h: "readHeader (rq_headers ?rq) ''authorization'' = prepareHeaders ?switched"
    by (simp add: bearerRequest_def readHeader_def obj_read_def obj_get_def isNonEmptyString_def prepareHeaders_def)
  have t: "w_now demoLogin \<le> w_now (as_world ?s)" "w_now (as_world ?s) div 1000 < w_now demoLogin div 1000 + int (ap_ttlSeconds letterPorts)"
    by (simp_all add: idleApi_def letterPorts_def)
  have "memberships_findByUserAndTenant (sequentialId 0) (sequentialId 1) (w_db demoLogin) \<noteq> None \<and>
      map_option m_status (memberships_findByUserAndTenant (sequentialId 0) (sequentialId 1) (w_db demoLogin)) = Some MActive" by code_simp
  then obtain m where m: "memberships_findByUserAndTenant (sequentialId 0) (sequentialId 1) (w_db demoLogin) = Some m" "m_status m = MActive"
    by blast
  obtain w where w: "getMyProfile (sequentialId 0) (sequentialId 1) demoLogin = (Inr demoProfile, w)"
    using demo_profile by (metis prod.collapse)
  have b: "readHeader (rq_headers ?rq) ''authorization'' = Some (''Bearer '' @ ?tk)" using h by (simp add: prepareHeaders_def)
  have world: "as_world ?s = demoLogin" by (simp add: idleApi_def)
  have "authenticate testEnv letterPorts ?rq False (endpoint_handler letterConfig ?rq MeGet) None ?s =
      bindUserPrincipal (sequentialId 0) (Some (sequentialId 1)) False (endpoint_handler letterConfig ?rq MeGet) None ?s"
    by (rule signed_token_authenticates[OF letterPorts_ok ids(1) _ b t]) (simp only: option.case ids(2))
  then obtain s' where run: "authPrincipal_intercept testEnv letterPorts False False ?rq (endpoint_handler letterConfig ?rq MeGet) None ?s = (Inr demoMe, s')"
    using me_answered[where s = ?s and als = None and opt = False and cfg = letterConfig and rq = ?rq, unfolded world, OF m w demo_me]
    by (auto simp: authPrincipal_intercept_def)
  show ?thesis
    using tenant_switch_undone[OF letterPorts_ok ids(1,2) _ sw h t run refl, of "cfg_zod letterConfig"] run sw demo_me_read by simp
qed

section \<open>The base query\<close>

text \<open>A network that also writes down what it is sent.\<close>

definition recorded :: "'s network \<Rightarrow> ('s \<times> (fetchRequest \<times> string option) list) network" where
  "recorded net = \<lparr>
     nw_fetch = (\<lambda>rq auth (s, sent). let (r, s') = nw_fetch net rq auth s in (r, (s', sent @ [(rq, auth)]))),
     nw_refresh = (\<lambda>(s, sent). let (r, s') = nw_refresh net s in (r, (s', sent)))\<rparr>"

definition requestKey :: "fetchRequest \<Rightarrow> string option" where
  "requestKey rq = (case rq of RequestArgs a \<Rightarrow> (case fa_headers a of HeadersObject hs \<Rightarrow> headers_get hs IdempotencyKey_header | _ \<Rightarrow> None) | _ \<Rightarrow> None)"

definition callerKey :: "fetchRequest \<Rightarrow> string option" where
  "callerKey rq = (case rq of RequestUrl _ \<Rightarrow> None | RequestArgs a \<Rightarrow> headers_get (IdempotencyKey_asHeaders (fa_headers a)) IdempotencyKey_header)"

lemma headers_get_set: "headers_get (headers_set hs n v) n' = (if js_lower n' = js_lower n then Some v else headers_get hs n')"
  by (simp add: headers_get_def headers_set_def map_of_upsert)

lemma headers_get_none: "headers_get [] n = None"
  by (simp add: headers_get_def)

lemma request_key:
  assumes "idempotent = Some True"
  shows "requestKey (IdempotencyKey_apply uuid args idempotent) = (case callerKey args of
      Some k \<Rightarrow> if k = [] then Some uuid else Some k | None \<Rightarrow> Some uuid)"
  using assms
  by (auto simp: IdempotencyKey_apply_def requestKey_def callerKey_def Let_def headers_get_set headers_get_none isNonEmptyString_def
      split: fetchRequest.splits option.splits)

text \<open>A query is sent once, and a second time exactly when it was refused as unauthorized, did not go to the login or the refresh itself,
  and the session could be restored: then it is the same request, with the same idempotency key, under the new session's token.  When
  the session could not be restored it is cleared.  A query that is marked idempotent carries a key, the caller's own when it gave one.\<close>

theorem query_retries_once:
  assumes "baseQuery (recorded net) uuid args idempotent (session, (n, [])) = (answer, (session', (n', sent)))"
    "IdempotencyKey_apply uuid args idempotent = request" "nw_fetch net request (prepareHeaders session) n = (first_answer, n1)"
    "refused = (case first_answer of Inl e \<Rightarrow> eo_code (mapError e) = ''UNAUTHORIZED'' \<and> \<not> isAuthSessionUrl request | Inr _ \<Rightarrow> False)"
  shows "(idempotent = Some True \<longrightarrow> requestKey request = Some (case callerKey args of Some k \<Rightarrow> if k = [] then uuid else k | None \<Rightarrow> uuid)) \<and>
    (if refused then (case fst (nw_refresh net n1) of
       None \<Rightarrow> sent = [(request, prepareHeaders session)] \<and> session' = sessionInitialState
     | Some out \<Rightarrow> sent = [(request, prepareHeaders session), (request, Some (''Bearer '' @ ao_accessToken out))] \<and>
         session' = sessionFromAuthOutput out)
     else sent = [(request, prepareHeaders session)] \<and> session' = session)"
proof
  show "idempotent = Some True \<longrightarrow> requestKey request = Some (case callerKey args of Some k \<Rightarrow> if k = [] then uuid else k | None \<Rightarrow> uuid)"
    using request_key[of idempotent uuid args] assms(2) by (auto split: option.splits)
  show "if refused then (case fst (nw_refresh net n1) of
       None \<Rightarrow> sent = [(request, prepareHeaders session)] \<and> session' = sessionInitialState
     | Some out \<Rightarrow> sent = [(request, prepareHeaders session), (request, Some (''Bearer '' @ ao_accessToken out))] \<and>
         session' = sessionFromAuthOutput out)
     else sent = [(request, prepareHeaders session)] \<and> session' = session"
    using assms(1,3,4) unfolding baseQuery_def assms(2)
    by (auto simp: FrontendApi_fetch_def restoreWebSession_def recorded_def Let_def sessionFromAuthOutput_def prepareHeaders_def
        split: prod.splits sum.splits option.splits if_splits)
qed

definition refusingNetwork :: "unit network" where
  "refusingNetwork = \<lparr>
     nw_fetch = (\<lambda>_ auth n. (if auth = Some ''Bearer new'' then Inr (JStr ''done'')
       else Inl \<lparr>fe_status = HttpStatusOf 401, fe_data = None, fe_error = None\<rparr>, n)),
     nw_refresh = (\<lambda>n. (Some \<lparr>ao_accessToken = ''new'', ao_expiresIn = num 900, ao_userId = ''u'', ao_tenantId = None\<rparr>, n))\<rparr>"

lemma query_retries_once_witness:
  "\<exists>request session'. baseQuery (recorded refusingNetwork) ''key'' (RequestUrl ''/orders'') (Some True) (sessionInitialState, ((), [])) =
     (Inr (JStr ''done''), (session', ((), [(request, None), (request, Some ''Bearer new'')]))) \<and>
     requestKey request = Some ''key'' \<and> ss_accessToken session' = Some ''new''"
proof -
  let ?request = "IdempotencyKey_apply ''key'' (RequestUrl ''/orders'') (Some True)"
  let ?refusal = "\<lparr>fe_status = HttpStatusOf 401, fe_data = None, fe_error = None\<rparr>"
  have code: "eo_code (mapError ?refusal) = ''UNAUTHORIZED''" by code_simp
  have url: "\<not> isAuthSessionUrl ?request" by code_simp
  have auth: "prepareHeaders sessionInitialState = None" by code_simp
  obtain answer session' sent where run: "baseQuery (recorded refusingNetwork) ''key'' (RequestUrl ''/orders'') (Some True) (sessionInitialState, ((), [])) =
      (answer, (session', ((), sent)))"
    by (cases "baseQuery (recorded refusingNetwork) ''key'' (RequestUrl ''/orders'') (Some True) (sessionInitialState, ((), []))") auto
  have "answer = Inr (JStr ''done'')"
    using run code url auth
    by (simp add: baseQuery_def FrontendApi_fetch_def restoreWebSession_def recorded_def refusingNetwork_def sessionFromAuthOutput_def prepareHeaders_def
        Let_def)
  moreover have "nw_fetch refusingNetwork ?request (prepareHeaders sessionInitialState) () = (Inl ?refusal, ())"
    by (simp add: refusingNetwork_def auth)
  ultimately show ?thesis
    using query_retries_once[OF run refl, of "Inl ?refusal" "()" True] run code url auth
    by (simp add: refusingNetwork_def callerKey_def sessionFromAuthOutput_def)
qed

end
