(* ===== verification/SharedRefresh.thy ===== *)
theory SharedRefresh
  imports FrontendGuarantees Credentials
begin

text \<open>
  The exchange that the callers of one page share, with the API behind it: callers come while an exchange is in flight, the
  API rotates the refresh token of the cookie, the browser stores the new one when the response arrives, time passes.
  A response is not lost: a token that was spent while its successor never arrived is outside the model.
\<close>

section \<open>The page, the browser and the API\<close>

record 'c webSystem = "'c refreshState" +
  ws_server :: apiState
  ws_response :: "(refreshResponse \<times> string option) option"

definition exchange_request :: "httpRequest \<Rightarrow> string \<Rightarrow> httpRequest" where
  "exchange_request rq cookie = rq\<lparr>rq_cookies := Some [(REFRESH_COOKIE_NAME, JStr cookie)]\<rparr>"

definition exchange_response :: "(failure + jsval) \<Rightarrow> apiState \<Rightarrow> refreshResponse \<times> string option" where
  "exchange_response r server = (case r of Inl _ \<Rightarrow> Responded False None | Inr v \<Rightarrow> Responded True (Some v),
     case rev (as_cookies server) of [] \<Rightarrow> None | c # _ \<Rightarrow> Some (ck_value c))"

inductive web_step :: "apiConfig \<Rightarrow> httpRequest \<Rightarrow> 'c webSystem \<Rightarrow> 'c webSystem \<Rightarrow> bool" for cfg rq where
  web_call: "web_step cfg rq s (refresh_run c s)"
| web_serve: "rs_inflight s = Some cookie \<Longrightarrow> ws_response s = None \<Longrightarrow>
    endpoint_handler cfg (exchange_request rq cookie) AuthWebRefresh None ((ws_server s)\<lparr>as_cookies := []\<rparr>) = (r, server) \<Longrightarrow>
    web_step cfg rq s (s\<lparr>ws_server := server, ws_response := Some (exchange_response r server)\<rparr>)"
| web_settle: "ws_response s = Some (response, cookie) \<Longrightarrow>
    web_step cfg rq s (refresh_settle (cfg_env cfg) response cookie (s\<lparr>ws_response := None\<rparr>))"
| web_tick: "w_now (as_world (ws_server s)) \<le> later \<Longrightarrow>
    web_step cfg rq s (s\<lparr>ws_server := (ws_server s)\<lparr>as_world := (as_world (ws_server s))\<lparr>w_now := later\<rparr>\<rparr>\<rparr>)"

text \<open>The token the next exchange will carry: the one of the response on its way, or the one of the jar.\<close>

definition liveToken :: "'c webSystem \<Rightarrow> string" where
  "liveToken s = (case ws_response s of Some (_, Some cookie) \<Rightarrow> cookie | _ \<Rightarrow> rs_jar s)"

section \<open>The rotation\<close>

text \<open>Every stored hash is the digest of a token the generator has issued.\<close>

definition hashes_known :: "env \<Rightarrow> nat \<Rightarrow> db \<Rightarrow> bool" where
  "hashes_known env n d \<longleftrightarrow> (\<forall>y \<in> set (db_sessions d). \<exists>k < n. s_tokenHash y = digest env (genId env k))"

definition held :: "env \<Rightarrow> familyId \<Rightarrow> userId \<Rightarrow> string \<Rightarrow> world \<Rightarrow> bool" where
  "held env f u token w \<longleftrightarrow> session_inv env (w_ids w) (w_db w) \<and> hashes_known env (w_ids w) (w_db w) \<and>
     (\<exists>x. sessions_findByTokenHash (digest env token) (w_db w) = Some x \<and> s_revokedAt x = None \<and> s_familyId x = f \<and> s_userId x = u)"

lemma held_later: "held env f u token w \<Longrightarrow> w_ids w \<le> n \<Longrightarrow> held env f u token (w\<lparr>w_ids := n, w_now := t\<rparr>)"
  unfolding held_def hashes_known_def by (auto intro: session_inv_mono dest: order.strict_trans2)

lemma find_new:
  assumes "session_inv env n d" "hashes_known env n d" "inj (\<lambda>k. digest env (genId env k))" "x \<in> set (db_sessions d)"
    "ent_id s1 = ent_id x" "s_tokenHash s1 = s_tokenHash x" "ent_id s2 = genId env (Suc n)" "s_tokenHash s2 = digest env (genId env n)"
  shows "sessions_findByTokenHash (digest env (genId env n)) (sessions_save s2 (sessions_save s1 d)) = Some s2"
proof -
  let ?rows = "upsert ent_id s1 (db_sessions d)"
  have old: "s_tokenHash y \<noteq> digest env (genId env n)" if "y \<in> set ?rows" for y
  proof -
    have "\<exists>k < n. s_tokenHash y = digest env (genId env k)"
      using that upsert_subset[of ent_id s1 "db_sessions d"] assms(2,4,6) by (auto simp: hashes_known_def)
    then show ?thesis using injD[OF assms(3)] by (metis less_irrefl)
  qed
  have "ent_id s2 \<notin> ent_id ` set ?rows"
    unfolding upsert_keys using assms(1,4,5,7) by (auto simp: session_inv_def known_def)
  moreover have "find (\<lambda>x. s_tokenHash x = digest env (genId env n)) ?rows = None"
    using old by (simp add: find_None_iff)
  ultimately show ?thesis
    using assms(8) by (simp add: sessions_findByTokenHash_def sessions_save_def upsert_fresh find_append)
qed

lemma rotated_held:
  assumes "inj (genId env)" "inj (\<lambda>k. digest env (genId env k))" "held env f u token w"
    "sessions_findByTokenHash (digest env token) (w_db w) = Some x" "session_isActive x (w_now w)"
  shows "held env f u (genId env (w_ids w)) (w\<lparr>w_ids := w_ids w + 2,
       w_db := sessions_save (session_create (genId env (Suc (w_ids w))) (s_userId x) (s_familyId x)
           (digest env (genId env (w_ids w))) (w_now w + REFRESH_TTL_MS))
         (sessions_save (session_revoke x (w_now w)) (w_db w))\<rparr>)"
proof -
  have ses: "session_inv env (w_ids w) (w_db w)" "hashes_known env (w_ids w) (w_db w)" "s_familyId x = f" "s_userId x = u"
    using assms(3,4) by (auto simp: held_def)
  have x: "x \<in> set (db_sessions (w_db w))" "s_revokedAt x = None"
    using session_found[OF assms(4)] assms(5) by (auto simp: session_isActive_def)
  let ?s2 = "session_create (genId env (Suc (w_ids w))) (s_userId x) (s_familyId x) (digest env (genId env (w_ids w))) (w_now w + REFRESH_TTL_MS)"
  let ?d = "sessions_save ?s2 (sessions_save (session_revoke x (w_now w)) (w_db w))"
  have inv: "session_inv env (w_ids w + 2) ?d"
    using rotate_session_inv[OF assms(1) ses(1) x] by simp
  have sub: "set (db_sessions ?d) \<subseteq> insert ?s2 (insert (session_revoke x (w_now w)) (set (db_sessions (w_db w))))"
    using upsert_subset[of ent_id ?s2] upsert_subset[of ent_id "session_revoke x (w_now w)" "db_sessions (w_db w)"]
    by (fastforce simp: sessions_save_def)
  have old: "\<exists>k < w_ids w + 2. s_tokenHash y = digest env (genId env k)" if "y \<in> set (db_sessions (w_db w))" for y
    using ses(2) that unfolding hashes_known_def by (meson trans_less_add1)
  have hashes: "hashes_known env (w_ids w + 2) ?d"
    unfolding hashes_known_def
  proof
    fix y assume "y \<in> set (db_sessions ?d)"
    then consider "y = ?s2" | "y = session_revoke x (w_now w)" | "y \<in> set (db_sessions (w_db w))" using sub by blast
    then show "\<exists>k < w_ids w + 2. s_tokenHash y = digest env (genId env k)"
    proof cases
      case 1
      then show ?thesis by (intro exI[of _ "w_ids w"]) (simp add: session_create_def)
    qed (use old x(1) in \<open>simp_all add: session_revoke_def\<close>)
  qed
  have "sessions_findByTokenHash (digest env (genId env (w_ids w))) ?d = Some ?s2"
    by (rule find_new[OF ses(1,2) assms(2) x(1)]) (simp_all add: session_create_def session_revoke_def)
  then show ?thesis
    using inv hashes ses(3,4) by (simp add: held_def) (simp add: session_create_def)
qed

lemma exchange_held:
  assumes "inj (genId (cfg_env cfg))" "inj (\<lambda>k. digest (cfg_env cfg) (genId (cfg_env cfg) k))" "as_cookies server = []"
    "held (cfg_env cfg) f u token (as_world server)"
    "endpoint_handler cfg (exchange_request rq token) AuthWebRefresh als server = (r, server')"
  shows "held (cfg_env cfg) f u (case snd (exchange_response r server') of None \<Rightarrow> token | Some c \<Rightarrow> c) (as_world server')"
proof (cases "token = []")
  case True
  then have "refreshCookie_read (exchange_request rq token) = None"
    by (simp add: refreshCookie_read_def exchange_request_def obj_read_def obj_get_def)
  then have "r = Inl (AppFailure InvalidRefreshTokenError)" "server' = server"
    using assms(5) by (auto simp: authController_webRefresh_def auth_session_cookie_def auth_refresh_def bindH_def throwH_def)
  then show ?thesis using assms(3,4) by (simp add: exchange_response_def)
next
  case False
  let ?env = "cfg_env cfg" and ?w = "as_world server"
  have c: "refreshCookie_read (exchange_request rq token) = Some token"
    using False by (simp add: refreshCookie_read_def exchange_request_def obj_read_def obj_get_def)
  obtain x where x: "sessions_findByTokenHash (digest ?env token) (w_db ?w) = Some x" "s_revokedAt x = None"
    using assms(4) by (auto simp: held_def)
  note unfolded = authController_webRefresh_def auth_session_cookie_def auth_refresh_def auth_session_def refreshCookie_set_def
    refreshCookie_options_def bindH_def liftH_def useCase_def exchange_response_def
  show ?thesis
  proof (cases "session_isActive x (w_now ?w)")
    case True
    note live = rotateRefresh_live[OF x(1) True]
    show ?thesis
    proof (cases "isUuid ?env (genId ?env (Suc (w_ids ?w)))")
      case True
      then show ?thesis using rotated_held[OF assms(1,2,4) x(1) \<open>session_isActive x (w_now ?w)\<close>] assms(3,5) c live
        by (auto simp: unfolded)
    next
      case False
      then show ?thesis using held_later[OF assms(4), of "w_ids ?w + 2" "w_now ?w"] assms(3,5) c live
        by (auto simp: unfolded)
    qed
  next
    case False
    then have "rotateRefresh ?env token ?w = (Inl InvalidRefreshTokenError, ?w)" using x by (intro rotateRefresh_dead) auto
    then show ?thesis using assms(3,4,5) c by (auto simp: unfolded)
  qed
qed

section \<open>The exchange that is shared\<close>

definition web_inv :: "env \<Rightarrow> familyId \<Rightarrow> userId \<Rightarrow> 'c webSystem \<Rightarrow> bool" where
  "web_inv env f u s \<longleftrightarrow> held env f u (liveToken s) (as_world (ws_server s)) \<and>
     (case rs_inflight s of None \<Rightarrow> ws_response s = None | Some cookie \<Rightarrow> cookie = rs_jar s)"

lemma web_inv_step:
  assumes "inj (genId (cfg_env cfg))" "inj (\<lambda>k. digest (cfg_env cfg) (genId (cfg_env cfg) k))" "web_step cfg rq s s'"
  shows "web_inv (cfg_env cfg) f u s \<Longrightarrow> web_inv (cfg_env cfg) f u s'"
  using assms(3)
proof (cases rule: web_step.cases)
  case (web_call c)
  then show "web_inv (cfg_env cfg) f u s \<Longrightarrow> web_inv (cfg_env cfg) f u s'"
    by (auto simp: web_inv_def liveToken_def refresh_run_def split: option.splits)
next
  case (web_serve cookie r server)
  assume inv: "web_inv (cfg_env cfg) f u s"
  then have cookie: "cookie = rs_jar s" and h: "held (cfg_env cfg) f u (rs_jar s) (as_world (ws_server s))"
    using web_serve(2,3) by (simp_all add: web_inv_def liveToken_def)
  have "liveToken s' = (case snd (exchange_response r server) of None \<Rightarrow> rs_jar s | Some c \<Rightarrow> c)"
    by (simp add: web_serve(1) liveToken_def split: prod.split)
  then show "web_inv (cfg_env cfg) f u s'"
    using exchange_held[OF assms(1,2) _ _ web_serve(4)[unfolded cookie], of f u] h web_serve(1,2) cookie by (simp add: web_inv_def)
next
  case (web_settle response cookie)
  then show "web_inv (cfg_env cfg) f u s \<Longrightarrow> web_inv (cfg_env cfg) f u s'"
    by (auto simp: web_inv_def liveToken_def refresh_settle_def split: option.splits)
next
  case (web_tick later)
  then show "web_inv (cfg_env cfg) f u s \<Longrightarrow> web_inv (cfg_env cfg) f u s'"
    using held_later[of "cfg_env cfg" f u "liveToken s" "as_world (ws_server s)" "w_ids (as_world (ws_server s))" later]
    by (auto simp: web_inv_def liveToken_def split: option.splits)
qed

definition web_start :: "string \<Rightarrow> apiState \<Rightarrow> 'c webSystem" where
  "web_start cookie server = \<lparr>rs_inflight = None, rs_waiting = [], rs_jar = cookie, rs_sent = [], rs_given = [], ws_server = server,
     ws_response = None\<rparr>"



end
