(* ===== verification/ObjectKeys.thy ===== *)
theory ObjectKeys
  imports Examples JsDate
begin

text \<open>
  packages/platform/src/file-storage/object-key.ts: the keys of stored objects, built per tenant or globally and parsed back.
\<close>

section \<open>Keys\<close>

datatype parsedObjectKey =
    TenantObjectKey (ok_tenantId: tenantId) (ok_purpose: string) (ok_year: string) (ok_month: string) (ok_objectId: string) (ok_key: string)
  | GlobalObjectKey (ok_purpose: string) (ok_year: string) (ok_month: string) (ok_objectId: string) (ok_key: string)

datatype objectKeyError = InvalidObjectKeyError string

text \<open>\<open>String(n)\<close> of an integer.\<close>

fun decimal :: "nat \<Rightarrow> string" where
  "decimal n = (if n < 10 then [char_of (48 + n)] else decimal (n div 10) @ [char_of (48 + n mod 10)])"

declare decimal.simps [simp del]

definition intString :: "int \<Rightarrow> string" where
  "intString i = (if i < 0 then CHR ''-'' # decimal (nat (- i)) else decimal (nat i))"

text \<open>The patterns of a segment, a year and a month.\<close>

definition segment_char :: "char \<Rightarrow> bool" where
  "segment_char c \<longleftrightarrow> is_lower_letter c \<or> is_digit c"

definition segmentPattern :: "string \<Rightarrow> bool" where
  "segmentPattern s \<longleftrightarrow> (case s of [] \<Rightarrow> False
     | c # cs \<Rightarrow> segment_char c \<and> length cs \<le> 127 \<and> list_all (\<lambda>x. segment_char x \<or> x = CHR ''-'') cs)"

definition yearPattern :: "string \<Rightarrow> bool" where
  "yearPattern s \<longleftrightarrow> length s = 4 \<and> list_all is_digit s"

definition monthPattern :: "string \<Rightarrow> bool" where
  "monthPattern s \<longleftrightarrow> (case s of [a, b] \<Rightarrow> (a = CHR ''0'' \<and> is_digit b \<and> b \<noteq> CHR ''0'') \<or>
     (a = CHR ''1'' \<and> b \<in> {CHR ''0'', CHR ''1'', CHR ''2''}) | _ \<Rightarrow> False)"

definition utcYearMonth :: "date \<Rightarrow> objectKeyError + string \<times> string" where
  "utcYearMonth dt = (case dt of None \<Rightarrow> Inl (InvalidObjectKeyError ''(invalid date)'')
     | Some t \<Rightarrow> Inr (intString (getUTCFullYear t), padStart 2 (CHR ''0'') (intString (int (getUTCMonth t) + 1))))"

definition assertSegment :: "string \<Rightarrow> string \<Rightarrow> objectKeyError + unit" where
  "assertSegment v k = throwIf (\<not> segmentPattern v) (InvalidObjectKeyError k)"

definition assertYearMonth :: "string \<Rightarrow> string \<Rightarrow> string \<Rightarrow> objectKeyError + unit" where
  "assertYearMonth year month k = throwIf (\<not> yearPattern year \<or> \<not> monthPattern month) (InvalidObjectKeyError k)"

definition parseTenantKey :: "env \<Rightarrow> string \<Rightarrow> string list \<Rightarrow> objectKeyError + parsedObjectKey" where
  "parseTenantKey env k parts = (let purpose = parts ! 2; year = parts ! 3; month = parts ! 4; objectId = parts ! 5 in
     bindR (assertSegment purpose k) (\<lambda>_. bindR (assertSegment objectId k) (\<lambda>_. bindR (assertYearMonth year month k) (\<lambda>_.
     case parseId env (parts ! 1) of
       Inl _ \<Rightarrow> Inl (InvalidObjectKeyError k)
     | Inr t \<Rightarrow> Inr (TenantObjectKey t purpose year month objectId k)))))"

definition parseGlobalKey :: "string \<Rightarrow> string list \<Rightarrow> objectKeyError + parsedObjectKey" where
  "parseGlobalKey k parts = (let purpose = parts ! 1; year = parts ! 2; month = parts ! 3; objectId = parts ! 4 in
     bindR (assertSegment purpose k) (\<lambda>_. bindR (assertSegment objectId k) (\<lambda>_. bindR (assertYearMonth year month k) (\<lambda>_.
     Inr (GlobalObjectKey purpose year month objectId k)))))"

definition objectKey_parse :: "env \<Rightarrow> string \<Rightarrow> objectKeyError + parsedObjectKey" where
  "objectKey_parse env k = (let parts = split_on (CHR ''/'') k in
     if [] \<in> set parts \<or> ''.'' \<in> set parts \<or> ''..'' \<in> set parts then Inl (InvalidObjectKeyError k)
     else if parts ! 0 = ''t'' \<and> length parts = 6 then parseTenantKey env k parts
     else if parts ! 0 = ''g'' \<and> length parts = 5 then parseGlobalKey k parts
     else Inl (InvalidObjectKeyError k))"

definition objectKey_assert :: "env \<Rightarrow> string \<Rightarrow> objectKeyError + unit" where
  "objectKey_assert env k = bindR (objectKey_parse env k) (\<lambda>_. Inr ())"

definition objectKey_tenant :: "env \<Rightarrow> tenantId \<Rightarrow> string \<Rightarrow> string \<Rightarrow> date \<Rightarrow> objectKeyError + string" where
  "objectKey_tenant env t purpose objectId dt = bindR (utcYearMonth dt) (\<lambda>(year, month).
     bindR (objectKey_parse env (''t/'' @ t @ ''/'' @ purpose @ ''/'' @ year @ ''/'' @ month @ ''/'' @ objectId)) (\<lambda>p. Inr (ok_key p)))"

definition objectKey_global :: "env \<Rightarrow> string \<Rightarrow> string \<Rightarrow> date \<Rightarrow> objectKeyError + string" where
  "objectKey_global env purpose objectId dt = bindR (utcYearMonth dt) (\<lambda>(year, month).
     bindR (objectKey_parse env (''g/'' @ purpose @ ''/'' @ year @ ''/'' @ month @ ''/'' @ objectId)) (\<lambda>p. Inr (ok_key p)))"

section \<open>Keys read back\<close>

lemma split_on_append: "split_on c (a @ c # b) = split_on c a @ split_on c b"
proof (induction a)
  case (Cons x a)
  obtain p ps where "split_on c a = p # ps" by (cases "split_on c a") auto
  then show ?case using Cons by simp
qed simp

lemma split_on_single: "length (split_on c s) = 1 \<Longrightarrow> split_on c s = [s]"
  using join_split_on[of c s] by (cases "split_on c s") auto

lemma split_on_pos: "0 < length (split_on c s)" by simp

lemma tenant_parts:
  assumes "length (split_on c (''t'' @ c # t @ c # p @ c # y @ c # m @ c # ob)) = 6" "c \<noteq> CHR ''t''"
  shows "split_on c (''t'' @ c # t @ c # p @ c # y @ c # m @ c # ob) = [''t'', t, p, y, m, ob]"
proof -
  have "split_on c ''t'' = [''t'']" using assms(2) by simp
  then have s: "split_on c (''t'' @ c # t @ c # p @ c # y @ c # m @ c # ob) =
      ''t'' # split_on c t @ split_on c p @ split_on c y @ split_on c m @ split_on c ob"
    unfolding split_on_append by simp
  then have "length (split_on c t) + length (split_on c p) + length (split_on c y) + length (split_on c m) + length (split_on c ob) = 5"
    using assms(1) by simp
  then have "length (split_on c t) = 1" "length (split_on c p) = 1" "length (split_on c y) = 1" "length (split_on c m) = 1" "length (split_on c ob) = 1"
    using split_on_pos[of c t] split_on_pos[of c p] split_on_pos[of c y] split_on_pos[of c m] split_on_pos[of c ob] by linarith+
  then show ?thesis using s by (simp add: split_on_single)
qed

lemma parsed_key [simp]: "objectKey_parse env k = Inr p \<Longrightarrow> ok_key p = k"
  by (auto simp: objectKey_parse_def parseTenantKey_def parseGlobalKey_def Let_def bindR_def split: if_splits sum.splits)

lemma tenant_key_parts:
  assumes "objectKey_parse env (''t/'' @ t @ ''/'' @ p @ ''/'' @ y @ ''/'' @ m @ ''/'' @ ob) = Inr r"
  shows "split_on (CHR ''/'') (''t/'' @ t @ ''/'' @ p @ ''/'' @ y @ ''/'' @ m @ ''/'' @ ob) = [''t'', t, p, y, m, ob]"
    "isUuid env t" "r = TenantObjectKey t p y m ob (''t/'' @ t @ ''/'' @ p @ ''/'' @ y @ ''/'' @ m @ ''/'' @ ob)"
proof -
  let ?k = "''t/'' @ t @ ''/'' @ p @ ''/'' @ y @ ''/'' @ m @ ''/'' @ ob"
  have hd: "split_on (CHR ''/'') ?k ! 0 = ''t''" by (simp split: list.split)
  then have "length (split_on (CHR ''/'') ?k) = 6" using assms by (auto simp: objectKey_parse_def Let_def split: if_splits)
  then show parts: "split_on (CHR ''/'') ?k = [''t'', t, p, y, m, ob]"
    using tenant_parts[of "CHR ''/''" t p y m ob] by simp
  show "isUuid env t" "r = TenantObjectKey t p y m ob ?k"
    using assms unfolding objectKey_parse_def parts
    by (auto simp: parseTenantKey_def parseId_def Let_def bindR_def split: if_splits sum.splits)
qed

text \<open>C38: Object keys keep tenants apart: a key built for a tenant, when it is built at all, is parsed back as that tenant's with the purpose and
  the object it was built for, starts with \<open>t/<tenant>/\<close>, and is built for no other tenant, purpose or object, and not as a global key.\<close>

theorem object_key_roundtrip:
  assumes "objectKey_tenant env t purpose objectId dt = Inr k"
  shows "(\<exists>y m. objectKey_parse env k = Inr (TenantObjectKey t purpose y m objectId k)) \<and> isUuid env t \<and>
    js_starts_with (''t/'' @ t @ ''/'') k \<and>
    (\<forall>t' purpose' objectId' dt'. objectKey_tenant env t' purpose' objectId' dt' = Inr k \<longrightarrow>
       t' = t \<and> purpose' = purpose \<and> objectId' = objectId) \<and>
    (\<forall>purpose' objectId' dt'. objectKey_global env purpose' objectId' dt' \<noteq> Inr k)"
proof -
  have built: "\<exists>y m r. k' = ''t/'' @ t @ ''/'' @ p @ ''/'' @ y @ ''/'' @ m @ ''/'' @ ob \<and> objectKey_parse env k' = Inr r"
    if "objectKey_tenant env t p ob dt = Inr k'" for t p ob dt k'
    using that by (auto simp: objectKey_tenant_def bindR_eq_Inr dest: parsed_key)
  obtain y m r where k: "k = ''t/'' @ t @ ''/'' @ purpose @ ''/'' @ y @ ''/'' @ m @ ''/'' @ objectId" and r: "objectKey_parse env k = Inr r"
    using built[OF assms] by blast
  note parts = tenant_key_parts[OF r[unfolded k]]
  have other: "t' = t \<and> purpose' = purpose \<and> objectId' = objectId" if same: "objectKey_tenant env t' purpose' objectId' dt' = Inr k" for t' purpose' objectId' dt'
  proof -
    obtain y' m' r' where k': "k = ''t/'' @ t' @ ''/'' @ purpose' @ ''/'' @ y' @ ''/'' @ m' @ ''/'' @ objectId'" "objectKey_parse env k = Inr r'"
      using built[OF same] by blast
    have "TenantObjectKey t' purpose' y' m' objectId' k = TenantObjectKey t purpose y m objectId k"
      using tenant_key_parts(3)[OF k'(2)[unfolded k'(1)]] parts(3) r k'(2) unfolding k'(1)[symmetric] k[symmetric] by simp
    then show ?thesis by simp
  qed
  have global: "objectKey_global env purpose' objectId' dt' \<noteq> Inr k" for purpose' objectId' dt'
  proof
    assume "objectKey_global env purpose' objectId' dt' = Inr k"
    then obtain rest where "k = CHR ''g'' # rest" by (auto simp: objectKey_global_def bindR_eq_Inr dest: parsed_key)
    then show False by (simp add: k)
  qed
  have "js_starts_with (''t/'' @ t @ ''/'') k" by (simp add: js_starts_with_def k)
  moreover have "objectKey_parse env k = Inr (TenantObjectKey t purpose y m objectId k)" using r parts(3) by (simp add: k)
  ultimately show ?thesis using parts(2) other global by blast
qed

theorem object_key_roundtrip_witness:
  "objectKey_tenant testEnv (sequentialId 0) ''avatar'' ''o1'' (Some 0) = Inr (''t/'' @ sequentialId 0 @ ''/avatar/1970/01/o1'') \<and>
   (\<exists>y m. objectKey_parse testEnv (''t/'' @ sequentialId 0 @ ''/avatar/1970/01/o1'') =
      Inr (TenantObjectKey (sequentialId 0) ''avatar'' y m ''o1'' (''t/'' @ sequentialId 0 @ ''/avatar/1970/01/o1'')))"
proof -
  have b: "objectKey_tenant testEnv (sequentialId 0) ''avatar'' ''o1'' (Some 0) = Inr (''t/'' @ sequentialId 0 @ ''/avatar/1970/01/o1'')"
    by code_simp
  then show ?thesis using object_key_roundtrip[OF b] by blast
qed

end
