(* ===== verification/FileStorage.thy ===== *)
theory FileStorage
  imports ObjectKeys "HOL-Library.Word"
begin

text \<open>
  packages/platform/src/file-storage/file-storage.types.ts and
  packages/application/src/shared/in-memory-file-storage.ts: the file storage that keeps objects in the process.
  A \<open>Uint8Array\<close> is an address of a heap of buffers, so that \<open>new Uint8Array(body)\<close> is the allocation of a copy and a caller
  may overwrite every buffer it holds.  The runs of a caller refine a map from buckets and keys to contents.
\<close>

section \<open>Buffers\<close>

type_synonym octets = "8 word list"

type_synonym buffer = nat

text \<open>\<open>new Uint8Array(body)\<close> of another array copies its bytes.\<close>

definition copyBuffer :: "buffer \<Rightarrow> octets list \<Rightarrow> buffer \<times> octets list" where
  "copyBuffer a heap = (length heap, heap @ [heap ! a])"

lemma copyBuffer_old [simp]: "i < length heap \<Longrightarrow> snd (copyBuffer a heap) ! i = heap ! i"
  by (simp add: copyBuffer_def nth_append)

lemma copyBuffer_new [simp]: "snd (copyBuffer a heap) ! fst (copyBuffer a heap) = heap ! a"
  by (simp add: copyBuffer_def)

section \<open>Objects\<close>

datatype fileStorageBucket = PrivateBucket | PublicBucket

fun bucketName :: "fileStorageBucket \<Rightarrow> string" where
  "bucketName PrivateBucket = ''private''"
| "bucketName PublicBucket = ''public''"

record fileObjectMeta =
  fm_key :: string
  fm_contentType :: string
  fm_sizeBytes :: nat

record putInput =
  pi_bucket :: fileStorageBucket
  pi_key :: string
  pi_contentType :: string
  pi_body :: buffer

record presignPutInput =
  pp_bucket :: fileStorageBucket
  pp_key :: string
  pp_contentType :: string
  pp_maxBytes :: "nat option"
  pp_expiresInSeconds :: number

record presignedUrl =
  pu_url :: string
  pu_method :: string
  pu_headers :: "(string \<times> string) list"
  pu_expiresAt :: date

record inMemoryFileObject =
  fo_bucket :: fileStorageBucket
  fo_key :: string
  fo_contentType :: string
  fo_body :: buffer

record fileStorage =
  fs_objects :: "(string \<times> inMemoryFileObject) list"
  fs_heap :: "octets list"

datatype storageError = KeyFailure objectKeyError | NumberFailure jsError

definition storage_slot :: "fileStorageBucket \<Rightarrow> string \<Rightarrow> string" where
  "storage_slot bucket k = bucketName bucket @ '':'' @ k"

definition memoryUrl :: "fileStorageBucket \<Rightarrow> string \<Rightarrow> string" where
  "memoryUrl bucket k = ''memory://'' @ bucketName bucket @ ''/'' @ k"

definition storage_expiresAt :: "millis \<Rightarrow> number \<Rightarrow> jsError + date" where
  "storage_expiresAt now seconds = bindR (secToMs seconds) (\<lambda>ms. fromUnixMs (num_plus (num now) ms))"

section \<open>Operations\<close>

definition storage_find :: "fileStorageBucket \<Rightarrow> string \<Rightarrow> fileStorage \<Rightarrow> inMemoryFileObject option" where
  "storage_find bucket k s = map_of (fs_objects s) (storage_slot bucket k)"

definition objectMeta :: "inMemoryFileObject \<Rightarrow> octets \<Rightarrow> fileObjectMeta" where
  "objectMeta stored body = \<lparr>fm_key = fo_key stored, fm_contentType = fo_contentType stored, fm_sizeBytes = length body\<rparr>"

definition storage_write :: "putInput \<Rightarrow> fileStorage \<Rightarrow> fileObjectMeta \<times> fileStorage" where
  "storage_write inp s = (let (body, heap) = copyBuffer (pi_body inp) (fs_heap s);
       stored = \<lparr>fo_bucket = pi_bucket inp, fo_key = pi_key inp, fo_contentType = pi_contentType inp, fo_body = body\<rparr> in
     (\<lparr>fm_key = pi_key inp, fm_contentType = pi_contentType inp, fm_sizeBytes = length (heap ! body)\<rparr>,
      \<lparr>fs_objects = upsert fst (storage_slot (pi_bucket inp) (pi_key inp), stored) (fs_objects s), fs_heap = heap\<rparr>))"

definition storage_put :: "env \<Rightarrow> putInput \<Rightarrow> fileStorage \<Rightarrow> (storageError + fileObjectMeta) \<times> fileStorage" where
  "storage_put env inp s = (case objectKey_assert env (pi_key inp) of
     Inl e \<Rightarrow> (Inl (KeyFailure e), s)
   | Inr _ \<Rightarrow> (case storage_write inp s of (m, s') \<Rightarrow> (Inr m, s')))"

definition storage_head :: "env \<Rightarrow> fileStorageBucket \<Rightarrow> string \<Rightarrow> fileStorage \<Rightarrow> storageError + fileObjectMeta option" where
  "storage_head env bucket k s = (case objectKey_assert env k of
     Inl e \<Rightarrow> Inl (KeyFailure e)
   | Inr _ \<Rightarrow> (case storage_find bucket k s of
       None \<Rightarrow> Inr None
     | Some stored \<Rightarrow> Inr (Some (objectMeta stored (fs_heap s ! fo_body stored)))))"

definition storage_get :: "env \<Rightarrow> fileStorageBucket \<Rightarrow> string \<Rightarrow> fileStorage \<Rightarrow>
    (storageError + (fileObjectMeta \<times> buffer) option) \<times> fileStorage" where
  "storage_get env bucket k s = (case objectKey_assert env k of
     Inl e \<Rightarrow> (Inl (KeyFailure e), s)
   | Inr _ \<Rightarrow> (case storage_find bucket k s of
       None \<Rightarrow> (Inr None, s)
     | Some stored \<Rightarrow> (let (body, heap) = copyBuffer (fo_body stored) (fs_heap s) in
         (Inr (Some (objectMeta stored (heap ! body), body)), s\<lparr>fs_heap := heap\<rparr>))))"

definition storage_erase :: "fileStorageBucket \<Rightarrow> string \<Rightarrow> fileStorage \<Rightarrow> fileStorage" where
  "storage_erase bucket k s = s\<lparr>fs_objects := remove_row fst (storage_slot bucket k) (fs_objects s)\<rparr>"

definition storage_delete :: "env \<Rightarrow> fileStorageBucket \<Rightarrow> string \<Rightarrow> fileStorage \<Rightarrow> (storageError + unit) \<times> fileStorage" where
  "storage_delete env bucket k s = (case objectKey_assert env k of
     Inl e \<Rightarrow> (Inl (KeyFailure e), s)
   | Inr _ \<Rightarrow> (Inr (), storage_erase bucket k s))"

definition storage_presign :: "env \<Rightarrow> millis \<Rightarrow> string \<Rightarrow> fileStorageBucket \<Rightarrow> string \<Rightarrow> (string \<times> string) list \<Rightarrow> number \<Rightarrow>
    storageError + presignedUrl" where
  "storage_presign env now method bucket k headers seconds = (case objectKey_assert env k of
     Inl e \<Rightarrow> Inl (KeyFailure e)
   | Inr _ \<Rightarrow> (case storage_expiresAt now seconds of
       Inl e \<Rightarrow> Inl (NumberFailure e)
     | Inr at_ \<Rightarrow> Inr \<lparr>pu_url = memoryUrl bucket k, pu_method = method, pu_headers = headers, pu_expiresAt = at_\<rparr>))"

definition storage_presignPut :: "env \<Rightarrow> millis \<Rightarrow> presignPutInput \<Rightarrow> storageError + presignedUrl" where
  "storage_presignPut env now inp = storage_presign env now ''PUT'' (pp_bucket inp) (pp_key inp)
     ((''Content-Type'', pp_contentType inp) # (case pp_maxBytes inp of None \<Rightarrow> [] | Some n \<Rightarrow> [(''Content-Length'', decimal n)]))
     (pp_expiresInSeconds inp)"

definition storage_presignGet :: "env \<Rightarrow> millis \<Rightarrow> fileStorageBucket \<Rightarrow> string \<Rightarrow> number \<Rightarrow> storageError + presignedUrl" where
  "storage_presignGet env now bucket k seconds = storage_presign env now ''GET'' bucket k [] seconds"

text \<open>\<open>entries\<close>: every object with a copy of its body.\<close>

definition storage_entries :: "fileStorage \<Rightarrow> inMemoryFileObject list \<times> fileStorage" where
  "storage_entries s = (let stored = map snd (fs_objects s); n = length (fs_heap s) in
     (map (\<lambda>(i, ob). ob\<lparr>fo_body := n + i\<rparr>) (enumerate 0 stored), s\<lparr>fs_heap := fs_heap s @ map (\<lambda>ob. fs_heap s ! fo_body ob) stored\<rparr>))"

section \<open>Slots\<close>

lemma storage_slot_inj [simp]: "storage_slot b k = storage_slot b' k' \<longleftrightarrow> b = b' \<and> k = k'"
  by (cases b; cases b') (auto simp: storage_slot_def)

definition storage_wf :: "fileStorage \<Rightarrow> bool" where
  "storage_wf s \<longleftrightarrow> distinct (map fst (fs_objects s)) \<and>
     (\<forall>(slot, ob) \<in> set (fs_objects s). slot = storage_slot (fo_bucket ob) (fo_key ob) \<and> fo_body ob < length (fs_heap s))"

section \<open>Contents\<close>

text \<open>What a bucket and a key hold, whatever the buffer it is kept in.\<close>

type_synonym contents = "fileStorageBucket \<times> string \<Rightarrow> (string \<times> octets) option"

definition storage_content :: "fileStorage \<Rightarrow> contents" where
  "storage_content s bk = map_option (\<lambda>ob. (fo_contentType ob, fs_heap s ! fo_body ob)) (storage_find (fst bk) (snd bk) s)"

lemma storage_found:
  assumes "storage_wf s" "storage_find b k s = Some ob"
  shows "fo_bucket ob = b \<and> fo_key ob = k \<and> fo_body ob < length (fs_heap s) \<and> (storage_slot b k, ob) \<in> set (fs_objects s)"
proof -
  have "(storage_slot b k, ob) \<in> set (fs_objects s)" using assms(2) unfolding storage_find_def by (rule map_of_SomeD)
  then show ?thesis using assms(1) by (fastforce simp: storage_wf_def)
qed

lemma storage_find_write:
  "storage_find b k (snd (storage_write inp s)) = (if b = pi_bucket inp \<and> k = pi_key inp
     then Some \<lparr>fo_bucket = b, fo_key = k, fo_contentType = pi_contentType inp, fo_body = length (fs_heap s)\<rparr> else storage_find b k s)"
  by (simp add: storage_find_def storage_write_def copyBuffer_def map_of_upsert)

lemma storage_find_erase: "storage_find b k (storage_erase b' k' s) = (if b = b' \<and> k = k' then None else storage_find b k s)"
  by (auto simp: storage_find_def storage_erase_def map_of_remove)

lemma storage_write_heap [simp]: "fs_heap (snd (storage_write inp s)) = fs_heap s @ [fs_heap s ! pi_body inp]"
  by (simp add: storage_write_def copyBuffer_def)

lemma storage_erase_heap [simp]: "fs_heap (storage_erase b k s) = fs_heap s"
  by (simp add: storage_erase_def)

lemma storage_write_wf:
  assumes "storage_wf s"
  shows "storage_wf (snd (storage_write inp s))"
proof -
  let ?new = "(storage_slot (pi_bucket inp) (pi_key inp),
    \<lparr>fo_bucket = pi_bucket inp, fo_key = pi_key inp, fo_contentType = pi_contentType inp, fo_body = length (fs_heap s)\<rparr>)"
  have "set (upsert fst ?new (fs_objects s)) \<subseteq> insert ?new (set (fs_objects s))" by (rule upsert_subset)
  then show ?thesis using assms
    by (fastforce simp: storage_wf_def storage_write_def copyBuffer_def Let_def upsert_distinct)
qed

lemma storage_erase_wf: "storage_wf s \<Longrightarrow> storage_wf (storage_erase b k s)"
  by (auto simp: storage_wf_def storage_erase_def remove_row_distinct)

lemma storage_content_write:
  assumes "storage_wf s"
  shows "storage_content (snd (storage_write inp s)) = (storage_content s)((pi_bucket inp, pi_key inp) \<mapsto> (pi_contentType inp, fs_heap s ! pi_body inp))"
proof
  fix bk
  show "storage_content (snd (storage_write inp s)) bk =
      ((storage_content s)((pi_bucket inp, pi_key inp) \<mapsto> (pi_contentType inp, fs_heap s ! pi_body inp))) bk"
    using storage_found[OF assms, of "fst bk" "snd bk"]
    by (cases bk; cases "storage_find (fst bk) (snd bk) s") (auto simp: storage_content_def storage_find_write nth_append)
qed

lemma storage_content_erase: "storage_content (storage_erase b k s) = (storage_content s)((b, k) := None)"
  by (rule ext) (auto simp: storage_content_def storage_find_erase)

lemma storage_content_heap:
  assumes "storage_wf s" "\<And>slot ob. (slot, ob) \<in> set (fs_objects s) \<Longrightarrow> heap ! fo_body ob = fs_heap s ! fo_body ob"
  shows "storage_content (s\<lparr>fs_heap := heap\<rparr>) = storage_content s"
proof
  fix bk
  show "storage_content (s\<lparr>fs_heap := heap\<rparr>) bk = storage_content s bk"
    using storage_found[OF assms(1), of "fst bk" "snd bk"] assms(2)
    by (cases "storage_find (fst bk) (snd bk) s") (auto simp: storage_content_def storage_find_def)
qed

text \<open>Writing and erasing contents keep the contract of a store.\<close>

definition save_content :: "(fileStorageBucket \<times> string) \<times> string \<times> octets \<Rightarrow> fileStorage \<Rightarrow> fileStorage" where
  "save_content r s = (case r of ((b, k), ct, bytes) \<Rightarrow>
     snd (storage_write \<lparr>pi_bucket = b, pi_key = k, pi_contentType = ct, pi_body = length (fs_heap s)\<rparr> (s\<lparr>fs_heap := fs_heap s @ [bytes]\<rparr>)))"

lemma storage_wf_grow: "storage_wf s \<Longrightarrow> storage_wf (s\<lparr>fs_heap := fs_heap s @ ys\<rparr>)"
  by (fastforce simp: storage_wf_def)

lemma storage_content_grow: "storage_wf s \<Longrightarrow> storage_content (s\<lparr>fs_heap := fs_heap s @ ys\<rparr>) = storage_content s"
  by (rule storage_content_heap) (auto simp: storage_wf_def nth_append)

lemma save_content_find: "storage_wf s \<Longrightarrow> storage_content (save_content r s) = (storage_content s)(fst r \<mapsto> snd r)"
  by (auto simp: save_content_def storage_content_write storage_wf_grow storage_content_grow split: prod.splits)

interpretation file_store: deletable_store storage_wf "\<lambda>bk s. map_option (Pair bk) (storage_content s bk)" save_content fst id
    "\<lambda>bk. storage_erase (fst bk) (snd bk)"
proof unfold_locales
  show "storage_wf (save_content r s)" if "storage_wf s" for r s
    using that by (auto simp: save_content_def split: prod.splits intro!: storage_write_wf storage_wf_grow)
qed (auto simp: save_content_find storage_content_erase storage_erase_wf)

section \<open>Runs of a caller\<close>

text \<open>What a caller sees, its buffers read at that moment.  It may allocate and overwrite its own buffers.\<close>

datatype storageEvent =
    BufferEvent
  | PutEvent fileStorageBucket string string octets "storageError + fileObjectMeta"
  | HeadEvent fileStorageBucket string "storageError + fileObjectMeta option"
  | GetEvent fileStorageBucket string "storageError + (fileObjectMeta \<times> octets) option"
  | DeleteEvent fileStorageBucket string "storageError + unit"
  | EntriesEvent "((fileStorageBucket \<times> string) \<times> string \<times> octets) list"

definition read_entry :: "octets list \<Rightarrow> inMemoryFileObject \<Rightarrow> (fileStorageBucket \<times> string) \<times> string \<times> octets" where
  "read_entry heap ob = ((fo_bucket ob, fo_key ob), fo_contentType ob, heap ! fo_body ob)"

definition read_body :: "octets list \<Rightarrow> storageError + (fileObjectMeta \<times> buffer) option \<Rightarrow> storageError + (fileObjectMeta \<times> octets) option" where
  "read_body heap r = map_sum id (map_option (map_prod id (\<lambda>a. heap ! a))) r"

definition returned_buffers :: "storageError + (fileObjectMeta \<times> buffer) option \<Rightarrow> buffer set" where
  "returned_buffers r = (case r of Inr (Some (_, a)) \<Rightarrow> {a} | _ \<Rightarrow> {})"

inductive storage_step :: "env \<Rightarrow> storageEvent \<Rightarrow> fileStorage \<times> buffer set \<Rightarrow> fileStorage \<times> buffer set \<Rightarrow> bool" for env where
  allocate: "storage_step env BufferEvent (s, held) (s\<lparr>fs_heap := fs_heap s @ [bytes]\<rparr>, insert (length (fs_heap s)) held)"
| overwrite: "a \<in> held \<Longrightarrow> storage_step env BufferEvent (s, held) (s\<lparr>fs_heap := (fs_heap s)[a := bytes]\<rparr>, held)"
| put: "pi_body inp \<in> held \<Longrightarrow> storage_put env inp s = (r, s') \<Longrightarrow>
    storage_step env (PutEvent (pi_bucket inp) (pi_key inp) (pi_contentType inp) (fs_heap s ! pi_body inp) r) (s, held) (s', held)"
| head: "storage_step env (HeadEvent b k (storage_head env b k s)) (s, held) (s, held)"
| get: "storage_get env b k s = (r, s') \<Longrightarrow>
    storage_step env (GetEvent b k (read_body (fs_heap s') r)) (s, held) (s', held \<union> returned_buffers r)"
| delete: "storage_delete env b k s = (r, s') \<Longrightarrow> storage_step env (DeleteEvent b k r) (s, held) (s', held)"
| entries: "storage_entries s = (obs, s') \<Longrightarrow>
    storage_step env (EntriesEvent (map (read_entry (fs_heap s')) obs)) (s, held) (s', held \<union> fo_body ` set obs)"

inductive_cases storage_stepE: "storage_step env e st st'"

definition storage_initial :: fileStorage where
  "storage_initial = \<lparr>fs_objects = [], fs_heap = []\<rparr>"

inductive storage_run :: "env \<Rightarrow> storageEvent list \<Rightarrow> fileStorage \<times> buffer set \<Rightarrow> bool" for env where
  start: "storage_run env [] (storage_initial, {})"
| step: "storage_run env es st \<Longrightarrow> storage_step env e st st' \<Longrightarrow> storage_run env (es @ [e]) st'"

text \<open>The contract: a map, in which a key no key builder made is refused.\<close>

definition keyed_answer :: "env \<Rightarrow> string \<Rightarrow> 'a \<Rightarrow> storageError + 'a" where
  "keyed_answer env k v = (case objectKey_assert env k of Inl e \<Rightarrow> Inl (KeyFailure e) | Inr _ \<Rightarrow> Inr v)"

definition content_meta :: "string \<Rightarrow> string \<times> octets \<Rightarrow> fileObjectMeta" where
  "content_meta k c = \<lparr>fm_key = k, fm_contentType = fst c, fm_sizeBytes = length (snd c)\<rparr>"

definition valid_key :: "env \<Rightarrow> string \<Rightarrow> bool" where
  "valid_key env k \<longleftrightarrow> \<not> isl (objectKey_assert env k)"

fun event_effect :: "env \<Rightarrow> storageEvent \<Rightarrow> contents \<Rightarrow> contents" where
  "event_effect env (PutEvent b k ct bytes _) m = (if valid_key env k then m((b, k) \<mapsto> (ct, bytes)) else m)"
| "event_effect env (DeleteEvent b k _) m = (if valid_key env k then m((b, k) := None) else m)"
| "event_effect env _ m = m"

fun event_allowed :: "env \<Rightarrow> storageEvent \<Rightarrow> contents \<Rightarrow> bool" where
  "event_allowed env BufferEvent m \<longleftrightarrow> True"
| "event_allowed env (PutEvent b k ct bytes r) m \<longleftrightarrow> r = keyed_answer env k (content_meta k (ct, bytes))"
| "event_allowed env (HeadEvent b k r) m \<longleftrightarrow> r = keyed_answer env k (map_option (content_meta k) (m (b, k)))"
| "event_allowed env (GetEvent b k r) m \<longleftrightarrow> r = keyed_answer env k (map_option (\<lambda>c. (content_meta k c, snd c)) (m (b, k)))"
| "event_allowed env (DeleteEvent b k r) m \<longleftrightarrow> r = keyed_answer env k ()"
| "event_allowed env (EntriesEvent es) m \<longleftrightarrow> distinct (map fst es) \<and> map_of es = m"

fun events_allowed :: "env \<Rightarrow> storageEvent list \<Rightarrow> contents \<Rightarrow> bool" where
  "events_allowed env [] m \<longleftrightarrow> True"
| "events_allowed env (e # es) m \<longleftrightarrow> event_allowed env e m \<and> events_allowed env es (event_effect env e m)"

section \<open>The refinement\<close>

text \<open>No caller holds the buffer of an object.\<close>

fun storage_inv :: "fileStorage \<times> buffer set \<Rightarrow> bool" where
  "storage_inv (s, held) \<longleftrightarrow> storage_wf s \<and> held \<subseteq> {..<length (fs_heap s)} \<and> (\<forall>(slot, ob) \<in> set (fs_objects s). fo_body ob \<notin> held)"

lemma storage_put_cases:
  "storage_put env inp s = (keyed_answer env (pi_key inp) (content_meta (pi_key inp) (pi_contentType inp, fs_heap s ! pi_body inp)),
     if valid_key env (pi_key inp) then snd (storage_write inp s) else s)"
  by (auto simp: storage_put_def keyed_answer_def valid_key_def storage_write_def copyBuffer_def content_meta_def split: sum.splits)

lemma storage_delete_cases:
  "storage_delete env b k s = (keyed_answer env k (), if valid_key env k then storage_erase b k s else s)"
  by (auto simp: storage_delete_def keyed_answer_def valid_key_def split: sum.splits)

lemma storage_head_answer:
  assumes "storage_wf s"
  shows "storage_head env b k s = keyed_answer env k (map_option (content_meta k) (storage_content s (b, k)))"
  using storage_found[OF assms, of b k]
  by (auto simp: storage_head_def keyed_answer_def storage_content_def objectMeta_def content_meta_def split: sum.splits option.splits)

lemma storage_get_answer:
  assumes "storage_wf s" "storage_get env b k s = (r, s')"
  shows "read_body (fs_heap s') r = keyed_answer env k (map_option (\<lambda>c. (content_meta k c, snd c)) (storage_content s (b, k)))"
    and "(returned_buffers r = {} \<and> s' = s) \<or> (\<exists>bytes. returned_buffers r = {length (fs_heap s)} \<and> s' = s\<lparr>fs_heap := fs_heap s @ [bytes]\<rparr>)"
  using storage_found[OF assms(1), of b k] assms(2)
  by (auto simp: storage_get_def keyed_answer_def storage_content_def objectMeta_def content_meta_def copyBuffer_def read_body_def
      returned_buffers_def split: sum.splits option.splits)

lemma storage_inv_grow:
  assumes "storage_inv (s, held)" "new \<subseteq> {length (fs_heap s)..<length (fs_heap s) + length ys}"
  shows "storage_inv (s\<lparr>fs_heap := fs_heap s @ ys\<rparr>, held \<union> new)"
  using assms storage_wf_grow[of s ys] by (fastforce simp: storage_wf_def)

lemma storage_inv_write: "storage_inv (s, held) \<Longrightarrow> storage_inv (snd (storage_write inp s), held)"
  using storage_write_wf[of s inp] upsert_subset[of fst _ "fs_objects s"]
  by (fastforce simp: storage_write_def copyBuffer_def Let_def)

lemma storage_inv_erase: "storage_inv (s, held) \<Longrightarrow> storage_inv (storage_erase b k s, held)"
  using storage_erase_wf[of s b k] by (auto simp: storage_erase_def)

lemma storage_overwrite:
  assumes "storage_inv (s, held)" "a \<in> held"
  shows "storage_inv (s\<lparr>fs_heap := (fs_heap s)[a := bytes]\<rparr>, held)"
    and "storage_content (s\<lparr>fs_heap := (fs_heap s)[a := bytes]\<rparr>) = storage_content s"
proof -
  show "storage_inv (s\<lparr>fs_heap := (fs_heap s)[a := bytes]\<rparr>, held)" using assms by (auto simp: storage_wf_def)
  show "storage_content (s\<lparr>fs_heap := (fs_heap s)[a := bytes]\<rparr>) = storage_content s"
    using assms by (intro storage_content_heap) (auto intro!: nth_list_update_neq)
qed

lemma storage_entries_read:
  assumes "storage_entries s = (obs, s')"
  shows "map (read_entry (fs_heap s')) obs = map (read_entry (fs_heap s)) (map snd (fs_objects s))"
    and "fo_body ` set obs = {length (fs_heap s)..<length (fs_heap s) + length (fs_objects s)}"
    and "\<exists>ys. length ys = length (fs_objects s) \<and> s' = s\<lparr>fs_heap := fs_heap s @ ys\<rparr>"
proof -
  let ?stored = "map snd (fs_objects s)"
  have obs: "obs = map (\<lambda>(i, ob). ob\<lparr>fo_body := length (fs_heap s) + i\<rparr>) (enumerate 0 ?stored)"
    and s': "s' = s\<lparr>fs_heap := fs_heap s @ map (\<lambda>ob. fs_heap s ! fo_body ob) ?stored\<rparr>"
    using assms by (simp_all add: storage_entries_def Let_def)
  show "map (read_entry (fs_heap s')) obs = map (read_entry (fs_heap s)) ?stored"
    by (rule nth_equalityI) (simp_all add: obs s' nth_enumerate_eq read_entry_def nth_append)
  have "fo_body ` set obs = (\<lambda>i. length (fs_heap s) + i) ` fst ` set (enumerate 0 ?stored)" unfolding obs set_map image_image by (rule image_cong) auto
  also have "fst ` set (enumerate 0 ?stored) = {0..<length (fs_objects s)}"
    by (metis add_0 length_map map_fst_enumerate set_map set_upt)
  finally show "fo_body ` set obs = {length (fs_heap s)..<length (fs_heap s) + length (fs_objects s)}" by (simp add: add.commute)
  show "\<exists>ys. length ys = length (fs_objects s) \<and> s' = s\<lparr>fs_heap := fs_heap s @ ys\<rparr>"
    unfolding s' by (rule exI[of _ "map (\<lambda>ob. fs_heap s ! fo_body ob) ?stored"]) simp
qed

lemma entries_distinct:
  assumes "storage_wf s"
  shows "distinct (map fst (map (read_entry h) (map snd (fs_objects s))))"
proof -
  have "map fst (fs_objects s) = map (\<lambda>bk. storage_slot (fst bk) (snd bk)) (map fst (map (read_entry h) (map snd (fs_objects s))))"
    using assms by (auto simp: storage_wf_def read_entry_def)
  moreover have "distinct (map fst (fs_objects s))" using assms by (simp add: storage_wf_def)
  ultimately show ?thesis by (metis distinct_map)
qed

lemma entries_content:
  assumes "storage_wf s"
  shows "map_of (map (read_entry (fs_heap s)) (map snd (fs_objects s))) = storage_content s"
proof
  fix bk :: "fileStorageBucket \<times> string"
  have "map_of (map (read_entry h) (map snd rows)) bk =
      map_option (\<lambda>ob. (fo_contentType ob, h ! fo_body ob)) (map_of rows (storage_slot (fst bk) (snd bk)))"
    if "\<forall>(slot, ob) \<in> set rows. slot = storage_slot (fo_bucket ob) (fo_key ob)" for h and rows :: "(string \<times> inMemoryFileObject) list"
    using that by (induction rows) (auto simp: read_entry_def prod_eq_iff)
  then show "map_of (map (read_entry (fs_heap s)) (map snd (fs_objects s))) bk = storage_content s bk"
    using assms by (fastforce simp: storage_wf_def storage_content_def storage_find_def)
qed

lemma storage_step_refines:
  assumes "storage_step env e st st'" "storage_inv st"
  shows "storage_inv st' \<and> event_allowed env e (storage_content (fst st)) \<and>
    storage_content (fst st') = event_effect env e (storage_content (fst st))"
  using assms
proof cases
  case (allocate s held bytes)
  then show ?thesis using assms(2) storage_inv_grow[of s held "{length (fs_heap s)}" "[bytes]"] storage_content_grow[of s "[bytes]"] by simp
next
  case (overwrite a held s bytes)
  then show ?thesis using assms(2) storage_overwrite[of s held a bytes] by simp
next
  case (put inp held s r s')
  then show ?thesis using assms(2) storage_inv_write[of s held inp] storage_content_write[of s inp] by (auto simp: storage_put_cases)
next
  case (head b k s held)
  then show ?thesis using assms(2) by (simp add: storage_head_answer)
next
  case (get b k s r s' held)
  have wf: "storage_wf s" using assms(2) get by simp
  consider "returned_buffers r = {}" "s' = s"
    | bytes where "returned_buffers r = {length (fs_heap s)}" "s' = s\<lparr>fs_heap := fs_heap s @ [bytes]\<rparr>"
    using storage_get_answer(2)[OF wf get(4)] by blast
  then show ?thesis
  proof cases
    case 1
    then show ?thesis using assms(2) get storage_get_answer(1)[OF wf get(4)] by simp
  next
    case 2
    then show ?thesis using assms(2) get storage_get_answer(1)[OF wf get(4)] storage_content_grow[OF wf]
        storage_inv_grow[of s held "{length (fs_heap s)}" "[bytes]"] by simp
  qed
next
  case (delete b k s r s' held)
  then show ?thesis using assms(2) storage_inv_erase[of s held b k] storage_content_erase[of b k s] by (auto simp: storage_delete_cases)
next
  case (entries s obs s' held)
  have wf: "storage_wf s" using assms(2) entries by simp
  obtain ys where ys: "length ys = length (fs_objects s)" "s' = s\<lparr>fs_heap := fs_heap s @ ys\<rparr>"
    using storage_entries_read(3)[OF entries(4)] by blast
  then show ?thesis using assms(2) entries storage_entries_read(1,2)[OF entries(4)] entries_distinct[OF wf, of "fs_heap s"] entries_content[OF wf]
      storage_inv_grow[of s held "fo_body ` set obs" ys] storage_content_grow[OF wf, of ys] by simp
qed

lemma events_allowed_snoc:
  "events_allowed env (es @ [e]) m \<longleftrightarrow> events_allowed env es m \<and> event_allowed env e (foldl (\<lambda>m e. event_effect env e m) m es)"
  by (induction es arbitrary: m) auto

lemma storage_run_inv: "storage_run env es st \<Longrightarrow> storage_inv st \<and> events_allowed env es Map.empty \<and>
    storage_content (fst st) = foldl (\<lambda>m e. event_effect env e m) Map.empty es"
proof (induction rule: storage_run.induct)
  case start
  then show ?case by (simp add: storage_initial_def storage_wf_def) (rule ext, simp add: storage_content_def storage_find_def)
next
  case (step es st e st')
  then show ?case using storage_step_refines[of env e st st'] by (simp add: events_allowed_snoc)
qed

text \<open>C39: The in-memory file storage keeps the contract of its port: in every run of callers that allocate and overwrite their own buffers,
  put, read, delete and list objects, every answer is the one a map from buckets and keys to contents gives, so nothing a caller does with
  a buffer it stored or was given changes an object; a key that is no object key is refused by every operation and changes nothing.\<close>

theorem storage_refines_map:
  assumes "storage_run env es (s, held)"
  shows "events_allowed env es Map.empty \<and> storage_content s = foldl (\<lambda>m e. event_effect env e m) Map.empty es \<and>
    (\<forall>(slot, ob) \<in> set (fs_objects s). fo_body ob \<notin> held)"
  using storage_run_inv[OF assms] by simp

theorem storage_refines_map_witness:
  "events_allowed testEnv [BufferEvent, PutEvent PrivateBucket ''g/export/2026/01/o1'' ''text/plain'' [1, 2] (Inr (content_meta ''g/export/2026/01/o1'' (''text/plain'', [1, 2]))),
     BufferEvent, GetEvent PrivateBucket ''g/export/2026/01/o1'' (Inr (Some (content_meta ''g/export/2026/01/o1'' (''text/plain'', [1, 2]), [1, 2])))] Map.empty"
proof -
  let ?k = "''g/export/2026/01/o1''"
  let ?m = "content_meta ?k (''text/plain'', [1, 2])"
  let ?inp = "\<lparr>pi_bucket = PrivateBucket, pi_key = ?k, pi_contentType = ''text/plain'', pi_body = 0\<rparr>"
  let ?ob = "\<lparr>fo_bucket = PrivateBucket, fo_key = ?k, fo_contentType = ''text/plain'', fo_body = 1\<rparr>"
  let ?s1 = "\<lparr>fs_objects = [], fs_heap = [[1, 2]]\<rparr>"
  let ?s2 = "\<lparr>fs_objects = [(storage_slot PrivateBucket ?k, ?ob)], fs_heap = [[1, 2], [1, 2]]\<rparr>"
  let ?s3 = "\<lparr>fs_objects = [(storage_slot PrivateBucket ?k, ?ob)], fs_heap = [[9], [1, 2]]\<rparr>"
  let ?s4 = "\<lparr>fs_objects = [(storage_slot PrivateBucket ?k, ?ob)], fs_heap = [[9], [1, 2], [1, 2]]\<rparr>"
  have k: "objectKey_assert testEnv ?k = Inr ()" by code_simp
  have s1: "storage_step testEnv BufferEvent (storage_initial, {}) (?s1, {0})"
    using storage_step.allocate[of testEnv storage_initial "{}" "[1, 2]"] by (simp add: storage_initial_def)
  have s2: "storage_step testEnv (PutEvent PrivateBucket ?k ''text/plain'' [1, 2] (Inr ?m)) (?s1, {0}) (?s2, {0})"
    using storage_step.put[of ?inp "{0}" testEnv ?s1 "Inr ?m" ?s2] k by (simp add: storage_put_def storage_write_def copyBuffer_def content_meta_def)
  have s3: "storage_step testEnv BufferEvent (?s2, {0}) (?s3, {0})"
    using storage_step.overwrite[of 0 "{0}" testEnv ?s2 "[9]"] by simp
  have s4: "storage_step testEnv (GetEvent PrivateBucket ?k (Inr (Some (?m, [1, 2])))) (?s3, {0}) (?s4, {0} \<union> {2})"
    using storage_step.get[of testEnv PrivateBucket ?k ?s3 "Inr (Some (?m, 2))" ?s4 "{0}"] k
    by (simp add: storage_get_def storage_find_def copyBuffer_def objectMeta_def content_meta_def read_body_def returned_buffers_def)
  note run = storage_run.step[OF storage_run.step[OF storage_run.step[OF storage_run.step[OF storage_run.start s1] s2] s3] s4]
  show ?thesis using storage_refines_map[OF run] by simp
qed

end
