(* ===== verification/RedisAdapters.thy ===== *)
theory RedisAdapters
  imports HttpEdge
begin

text \<open>
  packages/infrastructure/redis: the lock, the cache, the publish-subscribe adapter, the connection options and the health indicator.
  The keys of the server are a list of values with the moment they expire at; whether a key counts as expired and whether the server
  answers are ports, as for the rate limiter.  The prefix of the connection is the same for every key, so it is left out.
\<close>

section \<open>Keys\<close>

type_synonym keyspace = "(string \<times> (string \<times> millis)) list"

definition redis_get :: "redisPorts \<Rightarrow> millis \<Rightarrow> string \<Rightarrow> keyspace \<Rightarrow> string option" where
  "redis_get ports now k keys = (case map_of keys k of
     None \<Rightarrow> None
   | Some (v, expiresAt) \<Rightarrow> if rp_expired ports now expiresAt then None else Some v)"

definition redis_put :: "millis \<Rightarrow> string \<Rightarrow> string \<Rightarrow> nat \<Rightarrow> keyspace \<Rightarrow> keyspace" where
  "redis_put now k v ttlSeconds keys = upsert fst (k, (v, now + int ttlSeconds * 1000)) keys"

definition invalidExpire :: failure where
  "invalidExpire = OtherFailure (JObj [(''message'', JStr ''ERR invalid expire time in set command'')])"

text \<open>\<open>SET key value EX ttl\<close> and \<open>SET key value EX ttl NX\<close>: an expiry of no seconds is refused.\<close>

definition redis_setEx :: "redisPorts \<Rightarrow> millis \<Rightarrow> string \<Rightarrow> string \<Rightarrow> nat \<Rightarrow> keyspace \<Rightarrow> (failure + unit) \<times> keyspace" where
  "redis_setEx ports now k v ttlSeconds keys = (case rp_down ports of
     Some e \<Rightarrow> (Inl e, keys)
   | None \<Rightarrow> if ttlSeconds = 0 then (Inl invalidExpire, keys) else (Inr (), redis_put now k v ttlSeconds keys))"

definition redis_setNx :: "redisPorts \<Rightarrow> millis \<Rightarrow> string \<Rightarrow> string \<Rightarrow> nat \<Rightarrow> keyspace \<Rightarrow> (failure + bool) \<times> keyspace" where
  "redis_setNx ports now k v ttlSeconds keys = (case rp_down ports of
     Some e \<Rightarrow> (Inl e, keys)
   | None \<Rightarrow> if ttlSeconds = 0 then (Inl invalidExpire, keys)
       else if redis_get ports now k keys = None then (Inr True, redis_put now k v ttlSeconds keys) else (Inr False, keys))"

definition redis_del :: "redisPorts \<Rightarrow> string \<Rightarrow> keyspace \<Rightarrow> (failure + unit) \<times> keyspace" where
  "redis_del ports k keys = (case rp_down ports of Some e \<Rightarrow> (Inl e, keys) | None \<Rightarrow> (Inr (), remove_row fst k keys))"

section \<open>The lock\<close>

record lockLease =
  ll_key :: string
  ll_token :: string

definition redisLock_acquire :: "redisPorts \<Rightarrow> millis \<Rightarrow> string \<Rightarrow> string \<Rightarrow> nat \<Rightarrow> keyspace \<Rightarrow> (failure + lockLease option) \<times> keyspace" where
  "redisLock_acquire ports now token k ttlSeconds keys = (case redis_setNx ports now k token ttlSeconds keys of
     (Inl e, keys') \<Rightarrow> (Inl e, keys')
   | (Inr ok, keys') \<Rightarrow> (Inr (if \<not> ok then None else Some \<lparr>ll_key = k, ll_token = token\<rparr>), keys'))"

text \<open>The release script runs in the server, as one step.\<close>

definition releaseScript :: "redisPorts \<Rightarrow> millis \<Rightarrow> string \<Rightarrow> string \<Rightarrow> keyspace \<Rightarrow> keyspace" where
  "releaseScript ports now k token keys = (if redis_get ports now k keys = Some token then remove_row fst k keys else keys)"

definition redisLock_release :: "redisPorts \<Rightarrow> millis \<Rightarrow> lockLease \<Rightarrow> keyspace \<Rightarrow> (failure + unit) \<times> keyspace" where
  "redisLock_release ports now lease keys = (case rp_down ports of
     Some e \<Rightarrow> (Inl e, keys)
   | None \<Rightarrow> (Inr (), releaseScript ports now (ll_key lease) (ll_token lease) keys))"

section \<open>The cache\<close>

text \<open>JSON text and back; a text that does not parse throws.\<close>

record jsonPorts =
  jp_stringify :: "jsval \<Rightarrow> string"
  jp_parse :: "string \<Rightarrow> jsval option"

definition redisCache_get :: "redisPorts \<Rightarrow> jsonPorts \<Rightarrow> millis \<Rightarrow> string \<Rightarrow> keyspace \<Rightarrow> failure + jsval option" where
  "redisCache_get ports json now k keys = (case rp_down ports of
     Some e \<Rightarrow> Inl e
   | None \<Rightarrow> (case redis_get ports now k keys of
       None \<Rightarrow> Inr None
     | Some raw \<Rightarrow> (case jp_parse json raw of None \<Rightarrow> Inl (OtherFailure JUndefined) | Some v \<Rightarrow> Inr (Some v))))"

definition redisCache_set :: "redisPorts \<Rightarrow> jsonPorts \<Rightarrow> millis \<Rightarrow> string \<Rightarrow> jsval \<Rightarrow> nat \<Rightarrow> keyspace \<Rightarrow> (failure + unit) \<times> keyspace" where
  "redisCache_set ports json now k v ttlSeconds keys = redis_setEx ports now k (jp_stringify json v) ttlSeconds keys"

definition redisCache_del :: "redisPorts \<Rightarrow> string \<Rightarrow> keyspace \<Rightarrow> (failure + unit) \<times> keyspace" where
  "redisCache_del ports k keys = redis_del ports k keys"

section \<open>Publishing and subscribing\<close>

text \<open>One connection subscribes for all handlers: its listeners, each with its channel, and the channels the connection is subscribed to.\<close>

record pubsub =
  ps_listeners :: "(nat \<times> string) list"
  ps_channels :: "string set"

definition pubsub_initial :: pubsub where
  "pubsub_initial = \<lparr>ps_listeners = [], ps_channels = {}\<rparr>"

definition pubsub_subscribe :: "nat \<Rightarrow> string \<Rightarrow> pubsub \<Rightarrow> pubsub" where
  "pubsub_subscribe handler channel s = \<lparr>ps_listeners = ps_listeners s @ [(handler, channel)], ps_channels = insert channel (ps_channels s)\<rparr>"

definition pubsub_unsubscribe :: "nat \<Rightarrow> string \<Rightarrow> pubsub \<Rightarrow> pubsub" where
  "pubsub_unsubscribe handler channel s = \<lparr>ps_listeners = filter (\<lambda>l. l \<noteq> (handler, channel)) (ps_listeners s), ps_channels = ps_channels s - {channel}\<rparr>"

text \<open>The handlers a message of a channel reaches: every listener hears every message of the connection and compares the channel.\<close>

definition pubsub_deliver :: "string \<Rightarrow> pubsub \<Rightarrow> nat list" where
  "pubsub_deliver channel s = (if channel \<in> ps_channels s
     then map fst (filter (\<lambda>(handler, own). channel = own) (ps_listeners s)) else [])"

section \<open>Connections\<close>

definition retryStrategy :: "nat \<Rightarrow> nat option" where
  "retryStrategy attempt = (if attempt > 20 then None else Some (min (attempt * 50) 2000))"

record connectionOptions =
  co_keyPrefix :: "string option"
  co_maxRetriesPerRequest :: nat
  co_enableReadyCheck :: bool
  co_enableOfflineQueue :: bool
  co_connectTimeout :: nat
  co_keepAlive :: nat
  co_tls :: bool

text \<open>\<open>new URL(url).protocol\<close>, or a throw, is the platform's.\<close>

definition redisOptions_fromConfig :: "(string \<Rightarrow> string option) \<Rightarrow> string \<Rightarrow> string \<Rightarrow> jsError + connectionOptions" where
  "redisOptions_fromConfig protocolOf url keyPrefix = (case protocolOf url of
     None \<Rightarrow> Inl TypeError
   | Some protocol \<Rightarrow> Inr \<lparr>co_keyPrefix = (if keyPrefix = [] then None else Some keyPrefix), co_maxRetriesPerRequest = 1,
       co_enableReadyCheck = True, co_enableOfflineQueue = False, co_connectTimeout = 5000, co_keepAlive = 10000,
       co_tls = (protocol = ''rediss:'')\<rparr>)"

lemma retry_bounded: "retryStrategy attempt = Some d \<Longrightarrow> d = attempt * 50 \<and> d \<le> 1000"
  by (auto simp: retryStrategy_def split: if_splits)

section \<open>Exclusion\<close>

text \<open>
  Runs of processes that share the server: time passes, a process acquires under a fresh token, or is refused, and releases a lease
  it was granted at some time, however late and however often.  A lease is held from its grant until its first release.
\<close>

record lockRun =
  lr_now :: millis
  lr_keys :: keyspace
  lr_granted :: "lockLease set"
  lr_held :: "(lockLease \<times> millis) set"

inductive lock_step :: "redisPorts \<Rightarrow> lockRun \<Rightarrow> lockRun \<Rightarrow> bool" for ports where
  tick: "0 \<le> d \<Longrightarrow> lock_step ports st (st\<lparr>lr_now := lr_now st + d\<rparr>)"
| granted: "token \<notin> ll_token ` lr_granted st \<Longrightarrow>
    redisLock_acquire ports (lr_now st) token k ttlSeconds (lr_keys st) = (Inr (Some lease), keys) \<Longrightarrow>
    lock_step ports st (st\<lparr>lr_keys := keys, lr_granted := insert lease (lr_granted st),
      lr_held := insert (lease, lr_now st + int ttlSeconds * 1000) (lr_held st)\<rparr>)"
| refused: "redisLock_acquire ports (lr_now st) token k ttlSeconds (lr_keys st) = (r, keys) \<Longrightarrow> (\<And>lease. r \<noteq> Inr (Some lease)) \<Longrightarrow>
    lock_step ports st (st\<lparr>lr_keys := keys\<rparr>)"
| released: "lease \<in> lr_granted st \<Longrightarrow> redisLock_release ports (lr_now st) lease (lr_keys st) = (r, keys) \<Longrightarrow>
    lock_step ports st (st\<lparr>lr_keys := keys, lr_held := {h \<in> lr_held st. fst h \<noteq> lease}\<rparr>)"

inductive_cases lock_stepE: "lock_step ports st st'"

inductive lock_run :: "redisPorts \<Rightarrow> lockRun \<Rightarrow> bool" for ports where
  start: "lock_run ports \<lparr>lr_now = n, lr_keys = [], lr_granted = {}, lr_held = {}\<rparr>"
| step: "lock_run ports st \<Longrightarrow> lock_step ports st st' \<Longrightarrow> lock_run ports st'"

text \<open>A key does not expire early.\<close>

definition keys_last :: "redisPorts \<Rightarrow> bool" where
  "keys_last ports \<longleftrightarrow> (\<forall>now expiresAt. now < expiresAt \<longrightarrow> \<not> rp_expired ports now expiresAt)"

definition holds :: "lockRun \<Rightarrow> lockLease \<times> millis \<Rightarrow> bool" where
  "holds st h \<longleftrightarrow> h \<in> lr_held st \<and> lr_now st < snd h"

definition lock_inv :: "lockRun \<Rightarrow> bool" where
  "lock_inv st \<longleftrightarrow> (\<forall>h. holds st h \<longrightarrow> map_of (lr_keys st) (ll_key (fst h)) = Some (ll_token (fst h), snd h)) \<and>
     fst ` lr_held st \<subseteq> lr_granted st \<and> inj_on ll_token (lr_granted st)"

lemma held_key: "lock_inv st \<Longrightarrow> holds st h \<Longrightarrow> map_of (lr_keys st) (ll_key (fst h)) = Some (ll_token (fst h), snd h)"
  unfolding lock_inv_def by blast

lemma held_granted: "lock_inv st \<Longrightarrow> holds st h \<Longrightarrow> fst h \<in> lr_granted st"
  by (auto simp: lock_inv_def holds_def)

lemma redis_get_held:
  assumes "keys_last ports" "lock_inv st" "holds st h"
  shows "redis_get ports (lr_now st) (ll_key (fst h)) (lr_keys st) = Some (ll_token (fst h))"
  using assms held_key[OF assms(2,3)] by (simp add: keys_last_def holds_def redis_get_def)

lemma acquire_granted:
  assumes "redisLock_acquire ports now token k ttlSeconds keys = (Inr (Some lease), keys')"
  shows "lease = \<lparr>ll_key = k, ll_token = token\<rparr> \<and> redis_get ports now k keys = None \<and> keys' = redis_put now k token ttlSeconds keys"
  using assms by (auto simp: redisLock_acquire_def redis_setNx_def split: option.splits if_splits)

lemma acquire_refused:
  assumes "redisLock_acquire ports now token k ttlSeconds keys = (r, keys')" "\<And>lease. r \<noteq> Inr (Some lease)"
  shows "keys' = keys"
  using assms by (auto simp: redisLock_acquire_def redis_setNx_def split: option.splits if_splits)

lemma lock_step_inv:
  assumes "lock_step ports st st'" "lock_inv st" "keys_last ports"
  shows "lock_inv st'"
  using assms(1)
proof cases
  case (tick d)
  then show ?thesis using assms(2) by (auto simp: lock_inv_def holds_def)
next
  case (granted token k ttlSeconds lease keys)
  note got = acquire_granted[OF granted(3)]
  have other: "ll_key (fst h) \<noteq> k" if "holds st h" for h
    using redis_get_held[OF assms(3,2) that] got by auto
  have now: "lr_now st' = lr_now st" and keys: "lr_keys st' = upsert fst (k, (token, lr_now st + int ttlSeconds * 1000)) (lr_keys st)"
    using granted(1) got by (simp_all add: redis_put_def)
  have "map_of (lr_keys st') (ll_key (fst h)) = Some (ll_token (fst h), snd h)" if h: "holds st' h" for h
  proof (cases "holds st h")
    case True
    then show ?thesis using held_key[OF assms(2) True] other[OF True] by (simp add: keys map_of_upsert)
  next
    case False
    then have "h = (lease, lr_now st + int ttlSeconds * 1000)" using h now granted(1) by (auto simp: holds_def)
    then show ?thesis using got by (simp add: keys map_of_upsert)
  qed
  moreover have "inj_on ll_token (lr_granted st')" using assms(2) granted(1,2) got by (auto simp: lock_inv_def)
  moreover have "fst ` lr_held st' \<subseteq> lr_granted st'" using assms(2) granted(1) by (auto simp: lock_inv_def)
  ultimately show ?thesis by (simp add: lock_inv_def)
next
  case (refused token k ttlSeconds r keys)
  then show ?thesis using assms(2) acquire_refused[OF refused(2,3)] by (auto simp: lock_inv_def holds_def)
next
  case (released lease r keys)
  have keep: "map_of keys (ll_key (fst h)) = Some (ll_token (fst h), snd h)" if h: "holds st h" "fst h \<noteq> lease" for h
  proof -
    have "ll_token (fst h) \<noteq> ll_token lease"
      using assms(2) held_granted[OF assms(2) h(1)] h(2) released(2) by (auto simp: lock_inv_def dest: inj_onD)
    then have "\<not> (ll_key (fst h) = ll_key lease \<and> redis_get ports (lr_now st) (ll_key lease) (lr_keys st) = Some (ll_token lease))"
      using redis_get_held[OF assms(3,2) h(1)] by auto
    then show ?thesis using released(3) assms(2) h(1)
      by (auto simp: redisLock_release_def releaseScript_def lock_inv_def map_of_remove split: option.splits if_splits)
  qed
  then show ?thesis using assms(2) released(1) by (auto simp: lock_inv_def holds_def)
qed

lemma lock_run_inv: "lock_run ports st \<Longrightarrow> keys_last ports \<Longrightarrow> lock_inv st"
proof (induction rule: lock_run.induct)
  case (start n)
  then show ?case by (simp add: lock_inv_def holds_def)
next
  case (step st st')
  then show ?case by (blast intro: lock_step_inv)
qed

text \<open>C40: The Redis lock excludes: in every run of processes that acquire with fresh tokens and release leases they were granted, however late
  and however often, no two leases on one key are held at once before their time has run out, the holder cannot be unlocked by the
  release of an earlier lease, and a process that tries to acquire the key meanwhile is refused.\<close>

theorem lock_excludes:
  assumes "lock_run ports st" "keys_last ports" "holds st h"
  shows "(\<forall>h'. holds st h' \<and> ll_key (fst h') = ll_key (fst h) \<longrightarrow> h' = h) \<and>
    (\<forall>lease \<in> lr_granted st - {fst h}. map_of (snd (redisLock_release ports (lr_now st) lease (lr_keys st))) (ll_key (fst h)) =
       Some (ll_token (fst h), snd h)) \<and>
    (\<forall>token ttlSeconds. fst (redisLock_acquire ports (lr_now st) token (ll_key (fst h)) ttlSeconds (lr_keys st)) \<noteq>
       Inr (Some \<lparr>ll_key = ll_key (fst h), ll_token = token\<rparr>))"
proof (intro conjI allI impI ballI)
  note inv = lock_run_inv[OF assms(1,2)]
  note key = redis_get_held[OF assms(2) inv assms(3)]
  show "h' = h" if h': "holds st h' \<and> ll_key (fst h') = ll_key (fst h)" for h'
  proof -
    have same: "ll_token (fst h') = ll_token (fst h)" "snd h' = snd h"
      using held_key[OF inv assms(3)] held_key[OF inv, of h'] h' by auto
    have "fst h' = fst h"
      using inv same(1) held_granted[OF inv assms(3)] held_granted[OF inv, of h'] h' by (auto simp: lock_inv_def dest: inj_onD)
    then show ?thesis using same(2) by (rule prod_eqI)
  qed
  show "map_of (snd (redisLock_release ports (lr_now st) lease (lr_keys st))) (ll_key (fst h)) = Some (ll_token (fst h), snd h)"
    if lease: "lease \<in> lr_granted st - {fst h}" for lease
  proof -
    have "lock_step ports st (st\<lparr>lr_keys := snd (redisLock_release ports (lr_now st) lease (lr_keys st)), lr_held := {h \<in> lr_held st. fst h \<noteq> lease}\<rparr>)"
      by (rule lock_step.released[OF _ surjective_pairing]) (use lease in simp)
    from lock_step_inv[OF this inv assms(2)] show ?thesis using lease assms(3) by (auto simp: lock_inv_def holds_def)
  qed
  show "fst (redisLock_acquire ports (lr_now st) token (ll_key (fst h)) ttlSeconds (lr_keys st)) \<noteq>
      Inr (Some \<lparr>ll_key = ll_key (fst h), ll_token = token\<rparr>)" for token ttlSeconds
    using key by (auto simp: redisLock_acquire_def redis_setNx_def split: option.splits)
qed

theorem lock_excludes_witness:
  "fst (redisLock_acquire \<lparr>rp_expired = (\<lambda>n e. e \<le> n), rp_ttl = (\<lambda>d. d div 1000), rp_down = None\<rparr> 1500 ''b'' ''job'' 5 [(''job'', (''a'', 2000))]) \<noteq>
     Inr (Some \<lparr>ll_key = ''job'', ll_token = ''b''\<rparr>)"
proof -
  let ?ports = "\<lparr>rp_expired = (\<lambda>n e. e \<le> n), rp_ttl = (\<lambda>d. d div 1000), rp_down = None\<rparr> :: redisPorts"
  let ?lease = "\<lparr>ll_key = ''job'', ll_token = ''a''\<rparr>"
  let ?s1 = "\<lparr>lr_now = 1000, lr_keys = [(''job'', (''a'', 2000))], lr_granted = {?lease}, lr_held = {(?lease, 2000)}\<rparr>"
  have "lock_run ?ports \<lparr>lr_now = 1000, lr_keys = [], lr_granted = {}, lr_held = {}\<rparr>" by (rule lock_run.start)
  moreover have "lock_step ?ports \<lparr>lr_now = 1000, lr_keys = [], lr_granted = {}, lr_held = {}\<rparr> ?s1"
    using lock_step.granted[of "''a''" "\<lparr>lr_now = 1000, lr_keys = [], lr_granted = {}, lr_held = {}\<rparr>" ?ports "''job''" 1 ?lease "[(''job'', (''a'', 2000))]"]
    by (simp add: redisLock_acquire_def redis_setNx_def redis_get_def redis_put_def)
  ultimately have "lock_run ?ports ?s1" by (rule lock_run.step)
  then have "lock_run ?ports (?s1\<lparr>lr_now := 1500\<rparr>)" using lock_step.tick[of 500 ?ports ?s1] by (auto intro: lock_run.step)
  then show ?thesis using lock_excludes[of ?ports "?s1\<lparr>lr_now := 1500\<rparr>" "(?lease, 2000)"] by (simp add: keys_last_def holds_def)
qed

section \<open>Cached values\<close>

lemma redis_get_put:
  "redis_get ports later k (redis_put now k' v ttlSeconds keys) =
     (if k = k' then if rp_expired ports later (now + int ttlSeconds * 1000) then None else Some v else redis_get ports later k keys)"
  by (simp add: redis_get_def redis_put_def map_of_upsert)

lemma redis_get_removed: "redis_get ports now k (remove_row fst k' keys) = (if k = k' then None else redis_get ports now k keys)"
  by (simp add: redis_get_def map_of_remove)

text \<open>A cached value is read back as its JSON is, until it expires, whatever else is cached; a deleted one is gone.\<close>

theorem redis_cache_roundtrip:
  assumes "rp_down ports = None" "0 < ttlSeconds" "jp_parse json (jp_stringify json v) = Some v'"
  shows "redisCache_get ports json later k (snd (redisCache_set ports json now k' v ttlSeconds keys)) =
      (if k = k' then if rp_expired ports later (now + int ttlSeconds * 1000) then Inr None else Inr (Some v')
       else redisCache_get ports json later k keys)"
    and "redisCache_get ports json later k (snd (redisCache_del ports k' keys)) = (if k = k' then Inr None else redisCache_get ports json later k keys)"
  using assms
  by (auto simp: redisCache_get_def redisCache_set_def redisCache_del_def redis_setEx_def redis_del_def redis_get_put redis_get_removed
      split: option.splits)

section \<open>Deliveries\<close>

datatype pubsubCall = Subscribe nat string | Unsubscribe nat string

fun pubsub_call :: "pubsub \<Rightarrow> pubsubCall \<Rightarrow> pubsub" where
  "pubsub_call s (Subscribe handler channel) = pubsub_subscribe handler channel s"
| "pubsub_call s (Unsubscribe handler channel) = pubsub_unsubscribe handler channel s"

definition pubsub_after :: "pubsubCall list \<Rightarrow> pubsub" where
  "pubsub_after calls = foldl pubsub_call pubsub_initial calls"

text \<open>The handlers of a channel that have not unsubscribed since, and whether the last call on the channel was a subscription.\<close>

definition subscribed_since :: "string \<Rightarrow> pubsubCall list \<Rightarrow> nat list" where
  "subscribed_since channel calls = foldl (\<lambda>hs c. case c of
     Subscribe h ch \<Rightarrow> if ch = channel then hs @ [h] else hs
   | Unsubscribe h ch \<Rightarrow> if ch = channel then filter (\<lambda>x. x \<noteq> h) hs else hs) [] calls"

definition last_call_subscribes :: "string \<Rightarrow> pubsubCall list \<Rightarrow> bool" where
  "last_call_subscribes channel calls = foldl (\<lambda>b c. case c of
     Subscribe h ch \<Rightarrow> if ch = channel then True else b | Unsubscribe h ch \<Rightarrow> if ch = channel then False else b) False calls"

lemma pubsub_after_snoc: "pubsub_after (calls @ [c]) = pubsub_call (pubsub_after calls) c"
  by (simp add: pubsub_after_def)

lemma pubsub_state:
  "map fst (filter (\<lambda>(handler, own). channel = own) (ps_listeners (pubsub_after calls))) = subscribed_since channel calls \<and>
   (channel \<in> ps_channels (pubsub_after calls) \<longleftrightarrow> last_call_subscribes channel calls)"
proof (induction calls rule: rev_induct)
  case Nil
  then show ?case by (simp add: pubsub_after_def pubsub_initial_def subscribed_since_def last_call_subscribes_def)
next
  case (snoc c calls)
  have filter: "map fst (filter (\<lambda>l. l \<noteq> (x, ch') \<and> (case l of (h, own) \<Rightarrow> ch = own)) ls) =
      (if ch = ch' then filter (\<lambda>h. h \<noteq> x) (map fst (filter (\<lambda>(h, own). ch = own) ls)) else map fst (filter (\<lambda>(h, own). ch = own) ls))"
    for ch ch' x and ls :: "(nat \<times> string) list"
    by (induction ls) auto
  show ?case using snoc
    by (cases c) (auto simp: pubsub_after_snoc pubsub_subscribe_def pubsub_unsubscribe_def subscribed_since_def last_call_subscribes_def filter)
qed

text \<open>
  What a message reaches, exactly: the handlers subscribed to its channel, unless the last call on the channel was an
  \<open>unsubscribe\<close>: then it reaches none of them, because the one connection leaves the channel for all.
\<close>

theorem pubsub_delivers:
  "pubsub_deliver channel (pubsub_after calls) = (if last_call_subscribes channel calls then subscribed_since channel calls else [])"
  using pubsub_state[of channel calls] by (simp add: pubsub_deliver_def)

theorem unsubscribe_silences_others:
  "pubsub_deliver ''authz.invalidate'' (pubsub_after [Subscribe 1 ''authz.invalidate'', Subscribe 2 ''authz.invalidate'']) = [1, 2] \<and>
   pubsub_deliver ''authz.invalidate'' (pubsub_after [Subscribe 1 ''authz.invalidate'', Subscribe 2 ''authz.invalidate'',
     Unsubscribe 1 ''authz.invalidate'']) = []"
  by (simp add: pubsub_delivers subscribed_since_def last_call_subscribes_def)

end
