(* ===== verification/Adapters.thy ===== *)
theory Adapters
  imports RedisAdapters Deployment ObjectKeys
begin

text \<open>
  The adapters around the API: readiness (packages/nest-http/src/http/health and the indicators of Postgres and Redis), the mailers
  (packages/infrastructure/mail, the logging mailer and the choice between them), telemetry (packages/infrastructure/telemetry),
  the log lines of packages/infrastructure/logger, the password of the API documentation and the migration runner.
\<close>

section \<open>Readiness\<close>

datatype healthCheckStatus = Up | Down

record healthCheckResult =
  hc_status :: healthCheckStatus
  hc_message :: "string option"

text \<open>An indicator with what its check does at this moment: it answers or throws.\<close>

record healthIndicator =
  hi_name :: string
  hi_check :: "failure + healthCheckResult"

definition healthDown :: healthCheckResult where
  "healthDown = \<lparr>hc_status = Down, hc_message = Some ''unreachable''\<rparr>"

definition healthUp :: healthCheckResult where
  "healthUp = \<lparr>hc_status = Up, hc_message = None\<rparr>"

definition postgresHealth :: "failure + unit \<Rightarrow> healthIndicator" where
  "postgresHealth select1 = \<lparr>hi_name = ''postgres'', hi_check = Inr (case select1 of Inr _ \<Rightarrow> healthUp | Inl _ \<Rightarrow> healthDown)\<rparr>"

definition redisHealth :: "redisPorts \<Rightarrow> healthIndicator" where
  "redisHealth ports = \<lparr>hi_name = ''redis'', hi_check = Inr (case rp_down ports of None \<Rightarrow> healthUp | Some _ \<Rightarrow> healthDown)\<rparr>"

definition healthIndicators :: "failure + unit \<Rightarrow> redisPorts \<Rightarrow> healthIndicator list" where
  "healthIndicators select1 ports = [postgresHealth select1, redisHealth ports]"

record healthOutput =
  ho_ok :: bool
  ho_checks :: "(string \<times> healthCheckResult) list option"

definition health_live :: healthOutput where
  "health_live = \<lparr>ho_ok = True, ho_checks = None\<rparr>"

definition health_checkOne :: "healthIndicator \<Rightarrow> healthCheckResult" where
  "health_checkOne i = (case hi_check i of Inr r \<Rightarrow> r | Inl _ \<Rightarrow> healthDown)"

text \<open>\<open>Object.fromEntries\<close>: of two entries with one name the later one stays.\<close>

definition health_ready :: "healthIndicator list \<Rightarrow> healthOutput" where
  "health_ready indicators = (let checks = foldl (\<lambda>ob i. upsert fst (hi_name i, health_checkOne i) ob) [] indicators in
     \<lparr>ho_ok = list_all (\<lambda>c. hc_status (snd c) = Up) checks, ho_checks = Some checks\<rparr>)"

text \<open>The status of the answer and its body.\<close>

definition health_writeReady :: "healthIndicator list \<Rightarrow> nat \<times> healthOutput" where
  "health_writeReady indicators = (let body = health_ready indicators in (if \<not> ho_ok body then 503 else 200, body))"

definition healthCheckResult_json :: "healthCheckResult \<Rightarrow> jsval" where
  "healthCheckResult_json r = JObj ((''status'', JStr (case hc_status r of Up \<Rightarrow> ''up'' | Down \<Rightarrow> ''down'')) #
     (case hc_message r of None \<Rightarrow> [] | Some m \<Rightarrow> [(''message'', JStr m)]))"

definition healthOutput_json :: "healthOutput \<Rightarrow> jsval" where
  "healthOutput_json out = JObj ((''status'', JStr (if ho_ok out then ''ok'' else ''error'')) #
     (case ho_checks out of None \<Rightarrow> [] | Some checks \<Rightarrow> [(''checks'', JObj (map (map_prod id healthCheckResult_json) checks))]))"

lemma health_checks_of:
  "set (foldl (\<lambda>ob i. upsert fst (hi_name i, health_checkOne i) ob) ob indicators) \<subseteq>
     set ob \<union> (\<lambda>i. (hi_name i, health_checkOne i)) ` set indicators"
proof (induction indicators arbitrary: ob)
  case (Cons i xs)
  show ?case using Cons.IH[of "upsert fst (hi_name i, health_checkOne i) ob"] upsert_subset[of fst "(hi_name i, health_checkOne i)" ob] by auto
qed simp

lemma health_checks_keep:
  "distinct (map hi_name indicators) \<Longrightarrow> hi_name ` set indicators \<inter> fst ` set ob = {} \<Longrightarrow>
   foldl (\<lambda>ob i. upsert fst (hi_name i, health_checkOne i) ob) ob indicators = ob @ map (\<lambda>i. (hi_name i, health_checkOne i)) indicators"
proof (induction indicators arbitrary: ob)
  case (Cons i xs)
  then show ?case using upsert_fresh[of fst "(hi_name i, health_checkOne i)" ob] by auto
qed simp

text \<open>
  Readiness, exactly: 200 when every indicator answers \<open>up\<close> and 503 otherwise, whatever they throw, for indicators of different
  names; for the API these are Postgres and Redis.
\<close>

theorem readiness_exact:
  "distinct (map hi_name indicators) \<Longrightarrow>
     fst (health_writeReady indicators) = (if \<forall>i \<in> set indicators. hc_status (health_checkOne i) = Up then 200 else 503) \<and>
     ho_checks (snd (health_writeReady indicators)) = Some (map (\<lambda>i. (hi_name i, health_checkOne i)) indicators)"
  "fst (health_writeReady (healthIndicators select1 ports)) = (if \<not> isl select1 \<and> rp_down ports = None then 200 else 503)"
proof -
  show exact: "fst (health_writeReady indicators) = (if \<forall>i \<in> set indicators. hc_status (health_checkOne i) = Up then 200 else 503) \<and>
     ho_checks (snd (health_writeReady indicators)) = Some (map (\<lambda>i. (hi_name i, health_checkOne i)) indicators)"
    if "distinct (map hi_name indicators)" for indicators
    using health_checks_keep[OF that, of "[]"] by (simp add: health_writeReady_def health_ready_def list_all_iff)
  show "fst (health_writeReady (healthIndicators select1 ports)) = (if \<not> isl select1 \<and> rp_down ports = None then 200 else 503)"
    using exact[of "healthIndicators select1 ports"]
    by (auto simp: healthIndicators_def postgresHealth_def redisHealth_def health_checkOne_def healthUp_def healthDown_def split: sum.splits option.splits)
qed

section \<open>Mail\<close>

record httpMailerConfig =
  hm_url :: string
  hm_from :: string
  hm_apiKey :: "string option"

record mailPost =
  fq_url :: string
  fq_method :: string
  fq_headers :: "(string \<times> string) list"
  fq_body :: jsval

record mailResponse =
  fp_ok :: bool
  fp_status :: nat
  fp_text :: "failure + string"

definition httpMailer_request :: "httpMailerConfig \<Rightarrow> mail \<Rightarrow> mailPost" where
  "httpMailer_request config message = \<lparr>fq_url = hm_url config, fq_method = ''POST'',
     fq_headers = (''content-type'', ''application/json'') #
       (case hm_apiKey config of None \<Rightarrow> [] | Some k \<Rightarrow> [(''authorization'', ''Bearer '' @ k)]),
     fq_body = JObj [(''from'', JStr (hm_from config)), (''to'', JStr (mail_to message)), (''subject'', JStr (mail_subject message)),
       (''text'', JStr (mail_text message))]\<rparr>"

definition mailFailure :: "string \<Rightarrow> failure" where
  "mailFailure m = OtherFailure (JObj [(''message'', JStr m)])"

text \<open>\<open>fetch\<close> is the runtime's: it answers or throws.\<close>

definition httpMailer_send :: "(mailPost \<Rightarrow> failure + mailResponse) \<Rightarrow> httpMailerConfig \<Rightarrow> mail \<Rightarrow> failure + unit" where
  "httpMailer_send fetchImpl config message = bindR (fetchImpl (httpMailer_request config message)) (\<lambda>response.
     if fp_ok response then Inr ()
     else bindR (fp_text response) (\<lambda>detail.
       Inl (mailFailure (''HTTP mailer failed with '' @ decimal (fp_status response) @ (if length detail > 0 then '': '' @ detail else [])))))"

record smtpConfig =
  sm_host :: string
  sm_port :: nat
  sm_secure :: "string option"
  sm_user :: "string option"
  sm_pass :: "string option"
  sm_from :: string

record smtpTransport =
  st_host :: string
  st_port :: nat
  st_secure :: bool
  st_auth :: "(string \<times> string) option"

record sentMail =
  se_from :: string
  se_to :: string
  se_subject :: string
  se_text :: string

definition smtpMailer_transport :: "smtpConfig \<Rightarrow> smtpTransport" where
  "smtpMailer_transport config = \<lparr>st_host = sm_host config, st_port = sm_port config, st_secure = (sm_secure config = Some ''true''),
     st_auth = (case (sm_user config, sm_pass config) of (Some u, Some p) \<Rightarrow> Some (u, p) | _ \<Rightarrow> None)\<rparr>"

definition smtpMailer_send :: "(sentMail \<Rightarrow> failure + unit) \<Rightarrow> smtpConfig \<Rightarrow> mail \<Rightarrow> failure + unit" where
  "smtpMailer_send sendMail config message = sendMail \<lparr>se_from = sm_from config, se_to = mail_to message,
     se_subject = mail_subject message, se_text = mail_text message\<rparr>"

record mailLogLine =
  ml_context :: string
  ml_data :: "(string \<times> string) list"
  ml_message :: string

definition loggingMailer_send :: "mail \<Rightarrow> mail list \<times> mailLogLine list \<Rightarrow> mail list \<times> mailLogLine list" where
  "loggingMailer_send message s = (fst s @ [message], snd s @ [\<lparr>ml_context = ''mailer'',
     ml_data = [(''to'', mail_to message), (''subject'', mail_subject message), (''text'', mail_text message)], ml_message = ''outbound mail (stub)''\<rparr>])"

text \<open>The mailer of the composition: what the mail slice of the configuration says.\<close>

datatype mailer = Logging | Smtp jsval | Http jsval

definition mailer_of :: "valuePorts \<Rightarrow> compositionRuntimeConfig \<Rightarrow> mailer option" where
  "mailer_of ports runtime = (let m = cr_mail runtime in
     if isNil m then Some Logging
     else (case m of JObj ob \<Rightarrow> if obj_read ob ''transport'' = JStr ''smtp'' then map_option Smtp (infra_smtp ports ob) else map_option Http (infra_httpMail ports ob)
       | _ \<Rightarrow> None))"

theorem http_mailer_exact:
  "httpMailer_send fetchImpl config message = Inr () \<longleftrightarrow>
     (\<exists>response. fetchImpl (httpMailer_request config message) = Inr response \<and> fp_ok response)"
  by (auto simp: httpMailer_send_def bindR_def split: sum.splits)

text \<open>Without a mail slice the composition logs what it would send, whatever the environment: a reset token stands in the log as it is.\<close>

theorem unconfigured_mail_is_logged:
  "mailer_of ports (toCompositionRuntimeConfig pg rd hc JUndefined) = Some Logging"
  "(''text'', ''reset token: '' @ rawToken) \<in> (\<Union>l \<in> set (snd (loggingMailer_send
     \<lparr>mail_to = email, mail_subject = ''Password reset'', mail_text = ''reset token: '' @ rawToken\<rparr> ([], []))). set (ml_data l))"
  by (simp_all add: mailer_of_def toCompositionRuntimeConfig_def isNil_def loggingMailer_send_def)

section \<open>Telemetry\<close>

text \<open>\<open>new URL(value).pathname\<close>, or a throw, is the platform's.\<close>

definition contains_text :: "string \<Rightarrow> string \<Rightarrow> bool" where
  "contains_text part s \<longleftrightarrow> list_ex (\<lambda>i. js_starts_with part (drop i s)) [0..<Suc (length s)]"

definition ignored_pathname :: "(string \<Rightarrow> string option) \<Rightarrow> string \<Rightarrow> string option" where
  "ignored_pathname pathnameOf v = (if \<not> contains_text ''://'' v then Some v else pathnameOf v)"

definition ignoredIncoming_matches :: "(string \<Rightarrow> string option) \<Rightarrow> string option \<Rightarrow> bool option" where
  "ignoredIncoming_matches pathnameOf url = (case url of
     None \<Rightarrow> Some False
   | Some u \<Rightarrow> if length u = 0 then Some False
     else map_option (\<lambda>pn. let p = dropTrailingSlashes pn; path = (if p = [] then ''/'' else p) in
        (path = ''/docs'' \<or> js_starts_with ''/docs/'' path \<or> js_starts_with ''/docs-'' path) \<or>
        list_ex (\<lambda>segment. path = CHR ''/'' # segment \<or> ends_with (CHR ''/'' # segment) path) [''live'', ''ready'', ''health''])
       (ignored_pathname pathnameOf (beforeQuery u)))"

definition otlp_base :: "string \<Rightarrow> string" where
  "otlp_base endpoint = dropTrailingSlashes endpoint"

definition otlp_traces :: "string \<Rightarrow> string" where
  "otlp_traces endpoint = otlp_base endpoint @ ''/v1/traces''"

definition otlp_metrics :: "string \<Rightarrow> string" where
  "otlp_metrics endpoint = otlp_base endpoint @ ''/v1/metrics''"

definition telemetryConfigSchema :: "jsval schema" where
  "telemetryConfigSchema v = Option.bind (o_object [(''enabled'', o_boolean), (''serviceName'', o_nonEmpty), (''otlpEndpoint'', o_optional o_nonEmpty)] v)
     (\<lambda>c. if cfg_at c [''enabled''] = JBool True \<and> cfg_at c [''otlpEndpoint''] = JUndefined then None else Some c)"

definition mapTelemetryConfig :: "jsval \<Rightarrow> jsval \<Rightarrow> jsval \<Rightarrow> jsval \<Rightarrow> jsval option" where
  "mapTelemetryConfig enabled serviceName otlpEndpoint appType = telemetryConfigSchema (JObj [(''enabled'', enabled),
     (''serviceName'', if isNil serviceName then appType else serviceName), (''otlpEndpoint'', otlpEndpoint)])"

text \<open>The attributes set on the active span, in their order.\<close>

definition applyActiveSpanAttributes :: "bool \<Rightarrow> string option \<Rightarrow> string option \<Rightarrow> string option \<Rightarrow> (string \<times> string) list" where
  "applyActiveSpanAttributes hasSpan requestId tid actorId = (if \<not> hasSpan then [] else
     (case requestId of None \<Rightarrow> [] | Some r \<Rightarrow> [(''request.id'', r)]) @ (case tid of None \<Rightarrow> [] | Some t \<Rightarrow> [(''tenant.id'', t)]) @
     (case actorId of None \<Rightarrow> [] | Some a \<Rightarrow> [(''enduser.id'', a)]))"

definition requestContextFields :: "requestContext option \<Rightarrow> (string \<times> string) list" where
  "requestContextFields ctx = (case ctx of None \<Rightarrow> [] | Some c \<Rightarrow> (''requestId'', rc_requestId c) #
     (case rc_tenantId c of None \<Rightarrow> [] | Some t \<Rightarrow> [(''tenantId'', t)]) @ (case rc_actorId c of None \<Rightarrow> [] | Some a \<Rightarrow> [(''actorId'', a)]))"

lemma dropTrailing_snoc: "dropTrailingSlashes (s @ [c]) = (if c = CHR ''/'' then dropTrailingSlashes s else s @ [c])"
  by (simp add: dropTrailingSlashes_def)

lemma dropTrailing_decomp: "\<exists>n. s = dropTrailingSlashes s @ replicate n (CHR ''/'')"
proof (induction s rule: rev_induct)
  case Nil
  then show ?case by (simp add: dropTrailingSlashes_def)
next
  case (snoc c s)
  then obtain n where n: "s = dropTrailingSlashes s @ replicate n (CHR ''/'')" by blast
  show ?case
  proof (cases "c = CHR ''/''")
    case True
    then have "s @ [c] = dropTrailingSlashes (s @ [c]) @ replicate (Suc n) (CHR ''/'')"
      by (metis True n append.assoc dropTrailing_snoc replicate_Suc replicate_append_same)
    then show ?thesis by blast
  next
    case False
    then show ?thesis by (intro exI[of _ 0]) (simp add: dropTrailing_snoc)
  qed
qed

lemma starts_with_split: "js_starts_with p s \<Longrightarrow> s = p @ drop (length p) s"
  by (metis append_take_drop_id js_starts_with_def)

lemma starts_with_append: "js_starts_with p s \<Longrightarrow> js_starts_with p (s @ t)"
  using starts_with_split[of p s] by (metis append.assoc append_eq_conv_conj js_starts_with_def)

definition documentation_path :: "string \<Rightarrow> bool" where
  "documentation_path path \<longleftrightarrow> path = ''/docs'' \<or> js_starts_with ''/docs/'' path \<or> js_starts_with ''/docs-'' path"

lemma documentation_head:
  assumes "documentation_path s"
  shows "take 5 s = ''/docs''"
proof -
  have "take 5 s = take 5 (take 6 s)" by simp
  moreover have "s = ''/docs'' \<or> take 6 s = ''/docs/'' \<or> take 6 s = ''/docs-''"
    using assms by (simp add: documentation_path_def js_starts_with_def eval_nat_numeral)
  ultimately show ?thesis by (elim disjE) simp_all
qed

lemma documentation_slashes: "documentation_path (p @ replicate n (CHR ''/'')) \<longleftrightarrow> documentation_path p"
proof
  assume "documentation_path p"
  then consider "p = ''/docs''" | "js_starts_with ''/docs/'' p" | "js_starts_with ''/docs-'' p" by (auto simp: documentation_path_def)
  then show "documentation_path (p @ replicate n (CHR ''/''))"
  proof cases
    case 1
    then show ?thesis by (cases n) (simp_all add: documentation_path_def js_starts_with_def)
  qed (simp_all add: documentation_path_def starts_with_append)
next
  assume *: "documentation_path (p @ replicate n (CHR ''/''))"
  show "documentation_path p"
  proof (cases "6 \<le> length p")
    case True
    then show ?thesis using * by (cases n) (auto simp: documentation_path_def js_starts_with_def dest: arg_cong[where f = length])
  next
    case False
    let ?s = "p @ replicate n (CHR ''/'')"
    have five: "take 5 ?s = ''/docs''" using * by (rule documentation_head)
    have "5 \<le> length p"
    proof (rule ccontr)
      assume "\<not> 5 \<le> length p"
      then have "take 5 ?s ! 4 = CHR ''/''" using arg_cong[OF five, of length] by (simp add: nth_append)
      then show False unfolding five by simp
    qed
    then have "p = ''/docs''" using five False by simp
    then show ?thesis by (simp add: documentation_path_def)
  qed
qed

text \<open>The duplicate in the telemetry agrees with the edge: a request makes no trace exactly when it gets no request context and no access log.\<close>

theorem ignored_paths_agree:
  assumes "requestUrl rq \<noteq> []" "\<not> contains_text ''://'' (beforeQuery (requestUrl rq))"
  shows "ignoredIncoming_matches pathnameOf (Some (requestUrl rq)) = Some (isSwaggerPath rq \<or> isHealthProbePath rq)"
proof -
  let ?b = "beforeQuery (requestUrl rq)"
  obtain n where n: "?b = dropTrailingSlashes ?b @ replicate n (CHR ''/'')" using dropTrailing_decomp by blast
  have docs: "documentation_path ?b \<longleftrightarrow> documentation_path (if dropTrailingSlashes ?b = [] then ''/'' else dropTrailingSlashes ?b)"
    using documentation_slashes[of "dropTrailingSlashes ?b" n] n by (simp add: documentation_path_def js_starts_with_def)
  show ?thesis
    using assms docs
    by (simp add: ignoredIncoming_matches_def ignored_pathname_def isSwaggerPath_def isHealthProbePath_def healthProbe_matches_def
        HEALTH_SEGMENTS_def documentation_path_def Let_def)
qed

section \<open>The password of the documentation\<close>

text \<open>Base64 and UTF-8 are the runtime's.\<close>

record textPorts =
  tp_decode64 :: "string \<Rightarrow> string"
  tp_utf8 :: "string \<Rightarrow> nat list"

definition equalUtf8 :: "textPorts \<Rightarrow> string \<Rightarrow> string \<Rightarrow> bool" where
  "equalUtf8 ports l r = (if length (tp_utf8 ports l) \<noteq> length (tp_utf8 ports r) then False else tp_utf8 ports l = tp_utf8 ports r)"

definition docs_isAuthorized :: "textPorts \<Rightarrow> string option \<Rightarrow> string \<times> string \<Rightarrow> bool" where
  "docs_isAuthorized ports header credentials = (case header of
     None \<Rightarrow> False
   | Some h \<Rightarrow> if \<not> js_starts_with ''Basic '' h then False
     else (let decoded = tp_decode64 ports (drop 6 h); name = takeWhile (\<lambda>c. c \<noteq> CHR '':'') decoded in
       if CHR '':'' \<notin> set decoded then False
       else equalUtf8 ports name (fst credentials) \<and> equalUtf8 ports (drop (Suc (length name)) decoded) (snd credentials)))"

datatype docsAnswer = Next | Refused nat "(string \<times> string) list"

definition docs_middleware :: "textPorts \<Rightarrow> (string \<times> string) option \<Rightarrow> string option \<Rightarrow> docsAnswer" where
  "docs_middleware ports basicAuth header = (case basicAuth of
     None \<Rightarrow> Next
   | Some credentials \<Rightarrow> if docs_isAuthorized ports header credentials then Next
     else Refused 401 [(''WWW-Authenticate'', ''Basic realm=\"Swagger\"'')])"

lemma takeWhile_split: "x \<in> set s \<Longrightarrow> takeWhile (\<lambda>c. c \<noteq> x) s @ x # drop (Suc (length (takeWhile (\<lambda>c. c \<noteq> x) s))) s = s"
  by (induction s) auto

text \<open>
  The documentation with a password answers exactly the header that carries the configured name and password; a configured name with
  a colon locks everyone out.
\<close>

theorem docs_password_exact:
  assumes "inj (tp_utf8 ports)"
  shows "docs_middleware ports (Some (u, p)) header = Next \<longleftrightarrow>
    (\<exists>c. header = Some (''Basic '' @ c) \<and> tp_decode64 ports c = u @ '':'' @ p \<and> CHR '':'' \<notin> set u)"
proof
  assume "docs_middleware ports (Some (u, p)) header = Next"
  then obtain h where h: "header = Some h" "js_starts_with ''Basic '' h" "CHR '':'' \<in> set (tp_decode64 ports (drop 6 h))"
    and u: "takeWhile (\<lambda>c. c \<noteq> CHR '':'') (tp_decode64 ports (drop 6 h)) = u"
    and p: "drop (Suc (length u)) (tp_decode64 ports (drop 6 h)) = p"
    using assms by (auto simp: docs_middleware_def docs_isAuthorized_def equalUtf8_def Let_def dest: injD split: option.splits if_splits)
  have "h = ''Basic '' @ drop 6 h" using starts_with_split[OF h(2)] by (simp add: eval_nat_numeral)
  moreover have "tp_decode64 ports (drop 6 h) = u @ '':'' @ p" using takeWhile_split[OF h(3)] by (simp add: u p)
  moreover have "CHR '':'' \<notin> set u" using set_takeWhileD[of "CHR '':''" "\<lambda>c. c \<noteq> CHR '':''" "tp_decode64 ports (drop 6 h)"] by (auto simp: u)
  ultimately show "\<exists>c. header = Some (''Basic '' @ c) \<and> tp_decode64 ports c = u @ '':'' @ p \<and> CHR '':'' \<notin> set u" using h(1) by metis
next
  assume "\<exists>c. header = Some (''Basic '' @ c) \<and> tp_decode64 ports c = u @ '':'' @ p \<and> CHR '':'' \<notin> set u"
  then obtain c where c: "header = Some (''Basic '' @ c)" "tp_decode64 ports c = u @ '':'' @ p" "CHR '':'' \<notin> set u" by blast
  have "takeWhile (\<lambda>c. c \<noteq> CHR '':'') (u @ '':'' @ p) = u" using c(3) by (induction u) auto
  then show "docs_middleware ports (Some (u, p)) header = Next"
    using c by (simp add: docs_middleware_def docs_isAuthorized_def equalUtf8_def js_starts_with_def Let_def)
qed

section \<open>Migrations\<close>

text \<open>The calls on the data source and how each ends: with a thrown value that is no \<open>Error\<close>, an \<open>Error\<close> with its message, or well.\<close>

datatype migrationCall = Initialize | RunMigrations | UndoLast | Destroy

definition runner_guarded :: "(migrationCall \<Rightarrow> string option + unit) \<Rightarrow> (string option + unit) \<times> migrationCall list \<Rightarrow> (string option + unit) \<times> migrationCall list" where
  "runner_guarded source r = (case source Initialize of
     Inl e \<Rightarrow> (Inl e, [Initialize])
   | Inr _ \<Rightarrow> ((case source Destroy of Inl e \<Rightarrow> Inl e | Inr _ \<Rightarrow> fst r), Initialize # snd r @ [Destroy]))"

definition migrationRunner_run :: "(migrationCall \<Rightarrow> string option + unit) \<Rightarrow> (string option + unit) \<times> migrationCall list" where
  "migrationRunner_run source = runner_guarded source (source RunMigrations, [RunMigrations])"

text \<open>\<open>/no (executed )?migrations/i\<close>\<close>

definition isNoMigrationsError :: "string option \<Rightarrow> bool" where
  "isNoMigrationsError e = (case e of None \<Rightarrow> False
     | Some m \<Rightarrow> contains_text ''no migrations'' (js_lower m) \<or> contains_text ''no executed migrations'' (js_lower m))"

definition revertLast :: "(migrationCall \<Rightarrow> string option + unit) \<Rightarrow> string option + unit" where
  "revertLast source = (case source UndoLast of Inr _ \<Rightarrow> Inr () | Inl e \<Rightarrow> if isNoMigrationsError e then Inr () else Inl e)"

definition migrationRunner_revert :: "(migrationCall \<Rightarrow> string option + unit) \<Rightarrow> (string option + unit) \<times> migrationCall list" where
  "migrationRunner_revert source = runner_guarded source (revertLast source, [UndoLast])"

text \<open>An opened data source is closed on every path.\<close>

theorem runner_closes:
  assumes "source Initialize = Inr ()"
  shows "last (snd (migrationRunner_run source)) = Destroy" "last (snd (migrationRunner_revert source)) = Destroy"
  using assms by (simp_all add: migrationRunner_run_def migrationRunner_revert_def runner_guarded_def split: sum.splits)

section \<open>Secrets\<close>

text \<open>
  packages/infrastructure/security: argon2 as a port that verifies or throws, SHA-256 as a port of 32 bytes.  \<open>Buffer.from(s, 'hex')\<close>
  reads pairs of digits up to the first that are none.
\<close>

definition argon2_verify :: "(string \<Rightarrow> string \<Rightarrow> failure + bool) \<Rightarrow> string \<Rightarrow> string \<Rightarrow> bool" where
  "argon2_verify verifyHash password passwordHash = (case verifyHash passwordHash password of Inr ok \<Rightarrow> ok | Inl _ \<Rightarrow> False)"

definition hexNibble :: "char \<Rightarrow> nat option" where
  "hexNibble c = (let n = of_char c :: nat in if 48 \<le> n \<and> n \<le> 57 then Some (n - 48) else if 97 \<le> n \<and> n \<le> 102 then Some (n - 87)
     else if 65 \<le> n \<and> n \<le> 70 then Some (n - 55) else None)"

fun bufferFromHex :: "string \<Rightarrow> nat list" where
  "bufferFromHex (c # d # cs) = (case (hexNibble c, hexNibble d) of (Some a, Some b) \<Rightarrow> (16 * a + b) # bufferFromHex cs | _ \<Rightarrow> [])"
| "bufferFromHex _ = []"

definition toHexString :: "nat list \<Rightarrow> string" where
  "toHexString bytes = concat (map (\<lambda>b. [hexDigit (b div 16), hexDigit (b mod 16)]) bytes)"

definition sha256_digest :: "(string \<Rightarrow> nat list) \<Rightarrow> string \<Rightarrow> string" where
  "sha256_digest sha256 v = toHexString (sha256 v)"

definition sha256_matches :: "(string \<Rightarrow> nat list) \<Rightarrow> string \<Rightarrow> string \<Rightarrow> bool" where
  "sha256_matches sha256 v digestHex = (let actual = bufferFromHex (sha256_digest sha256 v); expected = bufferFromHex digestHex in
     if length actual = 0 \<or> length actual \<noteq> length expected then False else actual = expected)"

definition sha256_ok :: "(string \<Rightarrow> nat list) \<Rightarrow> bool" where
  "sha256_ok sha256 \<longleftrightarrow> (\<forall>v. length (sha256 v) = 32 \<and> (\<forall>b \<in> set (sha256 v). b < 256))"

lemma hexNibble_digit: "d < 16 \<Longrightarrow> hexNibble (hexDigit d) = Some d"
proof -
  have "\<forall>d < 16. hexNibble (hexDigit d) = Some d" by code_simp
  then show "d < 16 \<Longrightarrow> ?thesis" by blast
qed

lemma hex_reads_back: "\<forall>b \<in> set bytes. b < 256 \<Longrightarrow> bufferFromHex (toHexString bytes) = bytes"
  by (induction bytes) (auto simp: toHexString_def hexNibble_digit)

text \<open>A token matches the digest of a token exactly when SHA-256 does not tell them apart; a hash argon2 cannot read matches nothing.\<close>

theorem digest_matches_exact:
  "sha256_ok sha256 \<Longrightarrow> sha256_matches sha256 v (sha256_digest sha256 w) \<longleftrightarrow> sha256 v = sha256 w"
  "sha256_ok sha256 \<Longrightarrow> sha256_matches sha256 v h \<longleftrightarrow> bufferFromHex h = sha256 v"
  "argon2_verify verifyHash password passwordHash \<longleftrightarrow> verifyHash passwordHash password = Inr True"
proof -
  have reads: "bufferFromHex (sha256_digest sha256 v) = sha256 v" if "sha256_ok sha256" for v
    using that hex_reads_back[of "sha256 v"] by (simp add: sha256_ok_def sha256_digest_def)
  have exact: "sha256_matches sha256 v h \<longleftrightarrow> bufferFromHex h = sha256 v" if ok: "sha256_ok sha256" for v h
  proof -
    have "length (sha256 v) = 32" using ok by (simp add: sha256_ok_def)
    then show ?thesis using reads[OF ok, of v] by (auto simp: sha256_matches_def Let_def)
  qed
  show "sha256_ok sha256 \<Longrightarrow> sha256_matches sha256 v h \<longleftrightarrow> bufferFromHex h = sha256 v" by (rule exact)
  show "sha256_ok sha256 \<Longrightarrow> sha256_matches sha256 v (sha256_digest sha256 w) \<longleftrightarrow> sha256 v = sha256 w"
    using exact[of v "sha256_digest sha256 w"] reads[of w] by auto
  show "argon2_verify verifyHash password passwordHash \<longleftrightarrow> verifyHash passwordHash password = Inr True"
    by (auto simp: argon2_verify_def split: sum.splits)
qed

end
