(* ===== verification/MigrationCli.thy ===== *)
theory MigrationCli
  imports ObjectKeys
begin

text \<open>
  packages/infrastructure/postgres/src/kernel/migration-cli/typeorm-migration-cli.ts: the names of migrations, the class and file they are
  written to, and the SQL of a generated migration as the text of a template literal.
\<close>

section \<open>Names\<close>

datatype cliError = CliError string

definition MIGRATION_CONTEXTS :: "string list" where
  "MIGRATION_CONTEXTS = [''identity'', ''tenancy'', ''authorization'', ''audit'', ''notifications'', ''kernel'']"

text \<open>\<open>/^(identity|...)-[a-z][a-z0-9]*(?:-[a-z0-9]+)*$/\<close>, by the parts between the hyphens.\<close>

definition namePattern :: "string \<Rightarrow> bool" where
  "namePattern name \<longleftrightarrow> (case split_on (CHR ''-'') name of
     context # (c # cs) # rest \<Rightarrow> context \<in> set MIGRATION_CONTEXTS \<and> is_lower_letter c \<and> list_all segment_char cs \<and>
       list_all (\<lambda>part. part \<noteq> [] \<and> list_all segment_char part) rest
   | _ \<Rightarrow> False)"

text \<open>\<open>s.replace(/\.ts$/i, '')\<close>\<close>

definition drop_ts :: "string \<Rightarrow> string" where
  "drop_ts s = (if js_lower (drop (length s - 3) s) = ''.ts'' then take (length s - 3) s else s)"

definition has_dots :: "string \<Rightarrow> bool" where
  "has_dots s \<longleftrightarrow> list_ex (\<lambda>i. take 2 (drop i s) = ''..'') [0..<length s]"

definition assertMigrationName :: "string \<Rightarrow> cliError + string" where
  "assertMigrationName raw = (let name = drop_ts (js_trim raw) in
     if CHR ''/'' \<in> set name \<or> CHR 0x5C \<in> set name \<or> has_dots name
     then Inl (CliError ''Migration name must be a kebab-case stem, not a path'')
     else if \<not> namePattern name then Inl (CliError ''Migration name must be context-prefixed kebab-case, e.g. tenancy-add-slug (identity|tenancy|authorization|audit|notifications|kernel)'')
     else Inr name)"

definition passName :: cliError where
  "passName = CliError ''Pass --name=<context>-<change>, e.g. --name=tenancy-add-slug''"

fun readName_flag :: "string list \<Rightarrow> (cliError + string) option" where
  "readName_flag [] = None"
| "readName_flag (arg # argv) = (if arg = ''--name'' then Some (case argv of
       [] \<Rightarrow> Inl passName
     | v # _ \<Rightarrow> if js_starts_with ''-'' v then Inl passName else assertMigrationName v)
   else if js_starts_with ''--name='' arg then Some (assertMigrationName (drop 7 arg))
   else readName_flag argv)"

definition readName :: "string list \<Rightarrow> cliError + string" where
  "readName argv = (case readName_flag argv of
     Some r \<Rightarrow> r
   | None \<Rightarrow> (case find (\<lambda>arg. namePattern (drop_ts arg)) argv of Some positional \<Rightarrow> assertMigrationName positional | None \<Rightarrow> Inl passName))"

section \<open>Classes and files\<close>

definition upper_first :: "string \<Rightarrow> string" where
  "upper_first part = (case part of [] \<Rightarrow> [] | c # cs \<Rightarrow> js_upper_char c @ cs)"

definition migration_className :: "string \<Rightarrow> nat \<Rightarrow> string" where
  "migration_className name timestamp = concat (map upper_first (split_on (CHR ''-'') name)) @ decimal timestamp"

text \<open>The path, in a directory that ends with its separator.\<close>

definition migration_filePath :: "string \<Rightarrow> string \<Rightarrow> nat \<Rightarrow> string" where
  "migration_filePath dir name timestamp = dir @ decimal timestamp @ ''-'' @ name @ ''.ts''"

section \<open>SQL\<close>

definition replaceChar :: "char \<Rightarrow> string \<Rightarrow> string \<Rightarrow> string" where
  "replaceChar c r s = concat (map (\<lambda>x. if x = c then r else [x]) s)"

fun replaceDollar :: "string \<Rightarrow> string" where
  "replaceDollar [] = []"
| "replaceDollar [c] = [c]"
| "replaceDollar (c # d # cs) = (if c = CHR ''$'' \<and> d = CHR ''{'' then [CHR 0x5C, CHR ''$'', CHR ''{''] @ replaceDollar cs else c # replaceDollar (d # cs))"

definition escapeSql :: "string \<Rightarrow> string" where
  "escapeSql q = replaceDollar (replaceChar (CHR 0x60) [CHR 0x5C, CHR 0x60] (replaceChar (CHR 0x5C) [CHR 0x5C, CHR 0x5C] q))"

definition queryCall :: "(jsval list \<Rightarrow> string) \<Rightarrow> string \<times> jsval list option \<Rightarrow> string" where
  "queryCall stringify q = (let params = (case snd q of Some ps \<Rightarrow> if length ps > 0 then '', '' @ stringify ps else [] | None \<Rightarrow> []) in
     ''    await queryRunner.query('' @ [CHR 0x60] @ escapeSql (fst q) @ [CHR 0x60] @ params @ '')'')"

definition migration_lines :: "string list \<Rightarrow> string" where
  "migration_lines ls = join_with [CHR 10] ls"

definition migration_scaffold :: "string \<Rightarrow> string" where
  "migration_scaffold className = migration_lines [''import type {MigrationInterface, QueryRunner} from '' @ [CHR 39] @ ''typeorm'' @ [CHR 39], [],
     ''export class '' @ className @ '' implements MigrationInterface {'', ''  name = '' @ [CHR 39] @ className @ [CHR 39], [],
     ''  async up(_queryRunner: QueryRunner): Promise<void> {}'', [], ''  async down(_queryRunner: QueryRunner): Promise<void> {}'', ''}'', []]"

definition migration_generated :: "string \<Rightarrow> string list \<Rightarrow> string list \<Rightarrow> string" where
  "migration_generated className ups downs = migration_lines [''import type {MigrationInterface, QueryRunner} from '' @ [CHR 39] @ ''typeorm'' @ [CHR 39], [],
     ''export class '' @ className @ '' implements MigrationInterface {'', ''  name = '' @ [CHR 39] @ className @ [CHR 39], [],
     ''  async up(queryRunner: QueryRunner): Promise<void> {'', migration_lines ups, ''  }'', [],
     ''  async down(queryRunner: QueryRunner): Promise<void> {'', migration_lines downs, ''  }'', ''}'', []]"

section \<open>Commands\<close>

text \<open>The files, by path; a file that exists is never overwritten.\<close>

definition migration_write :: "string \<Rightarrow> string \<Rightarrow> (string \<rightharpoonup> string) \<Rightarrow> (cliError + unit) \<times> (string \<rightharpoonup> string)" where
  "migration_write filePath contents files = (if files filePath \<noteq> None
     then (Inl (CliError (''Migration file already exists: '' @ filePath)), files) else (Inr (), files(filePath \<mapsto> contents)))"

definition migration_create :: "string \<Rightarrow> nat \<Rightarrow> string list \<Rightarrow> (string \<rightharpoonup> string) \<Rightarrow> (cliError + string) \<times> (string \<rightharpoonup> string)" where
  "migration_create dir timestamp argv files = (case readName argv of
     Inl e \<Rightarrow> (Inl e, files)
   | Inr name \<Rightarrow> (let filePath = migration_filePath dir name timestamp in
       case migration_write filePath (migration_scaffold (migration_className name timestamp)) files of
         (Inl e, files') \<Rightarrow> (Inl e, files') | (Inr _, files') \<Rightarrow> (Inr filePath, files')))"

text \<open>What the schema builder logs: the statements up and down, or the error of opening the data source or of the builder.\<close>

definition migration_generate :: "(jsval list \<Rightarrow> string) \<Rightarrow> cliError + (string \<times> jsval list option) list \<times> (string \<times> jsval list option) list \<Rightarrow>
    string \<Rightarrow> nat \<Rightarrow> string list \<Rightarrow> (string \<rightharpoonup> string) \<Rightarrow> (cliError + string) \<times> (string \<rightharpoonup> string)" where
  "migration_generate stringify schemaLog dir timestamp argv files = (case readName argv of
     Inl e \<Rightarrow> (Inl e, files)
   | Inr name \<Rightarrow> (let filePath = migration_filePath dir name timestamp in
       case schemaLog of
         Inl e \<Rightarrow> (Inl e, files)
       | Inr (ups, downs) \<Rightarrow>
           if length ups = 0 then (Inl (CliError ''No schema changes vs the current database. Use postgres:migration:create for an empty scaffold.''), files)
           else (case migration_write filePath (migration_generated (migration_className name timestamp)
               (map (queryCall stringify) ups) (map (queryCall stringify) (rev downs))) files of
             (Inl e, files') \<Rightarrow> (Inl e, files') | (Inr _, files') \<Rightarrow> (Inr filePath, files'))))"

section \<open>The text read back\<close>

text \<open>
  What the language reads between backticks: the value and what follows the closing backtick.  A substitution, an unfinished text and the
  escapes by number or of a line end, which are never written here, give nothing; a carriage return reads as a line feed.
\<close>

fun template_read :: "string \<Rightarrow> (string \<times> string) option" where
  "template_read [] = None"
| "template_read (c # cs) = (if c = CHR 0x60 then Some ([], cs)
   else if c = CHR 0x5C then (case cs of
       [] \<Rightarrow> None
     | d # ds \<Rightarrow> if d \<in> {CHR ''n'', CHR ''t'', CHR ''b'', CHR ''v'', CHR ''f'', CHR ''r'', CHR ''x'', CHR ''u'', CHR 10, CHR 13} \<or> is_digit d then None
         else map_option (map_prod ((#) d) id) (template_read ds))
   else if c = CHR ''$'' \<and> take 1 cs = ''{'' then None
   else if c = CHR 13 then (case cs of
       [] \<Rightarrow> None
     | d # ds \<Rightarrow> if d = CHR 10 then map_option (map_prod ((#) (CHR 10)) id) (template_read ds) else map_option (map_prod ((#) (CHR 10)) id) (template_read (d # ds)))
   else map_option (map_prod ((#) c) id) (template_read cs))"

text \<open>The line ends of a text, each as one line feed.\<close>

fun line_feeds :: "string \<Rightarrow> string" where
  "line_feeds [] = []"
| "line_feeds [c] = [if c = CHR 13 then CHR 10 else c]"
| "line_feeds (c # d # cs) = (if c = CHR 13 \<and> d = CHR 10 then CHR 10 # line_feeds cs else (if c = CHR 13 then CHR 10 else c) # line_feeds (d # cs))"

lemma replaceChar_simps [simp]:
  "replaceChar c r [] = []" "replaceChar c r (x # xs) = (if x = c then r else [x]) @ replaceChar c r xs"
  by (simp_all add: replaceChar_def)

lemma escape_Nil [simp]: "escapeSql [] = []"
  by (simp add: escapeSql_def)

lemma replaceDollar_other: "c \<noteq> CHR ''$'' \<Longrightarrow> replaceDollar (c # cs) = c # replaceDollar cs"
  by (cases cs) auto

lemma replaceDollar_dollar:
  "replaceDollar (CHR ''$'' # cs) = (if take 1 cs = ''{'' then [CHR 0x5C, CHR ''$'', CHR ''{''] @ replaceDollar (drop 1 cs) else CHR ''$'' # replaceDollar cs)"
  by (cases cs) auto

lemma escape_plain: "c \<noteq> CHR ''$'' \<Longrightarrow> c \<noteq> CHR 0x5C \<Longrightarrow> c \<noteq> CHR 0x60 \<Longrightarrow> escapeSql (c # q) = c # escapeSql q"
  by (simp add: escapeSql_def replaceDollar_other)

lemma escape_quoted: "c = CHR 0x5C \<or> c = CHR 0x60 \<Longrightarrow> escapeSql (c # q) = CHR 0x5C # c # escapeSql q"
  by (auto simp: escapeSql_def replaceDollar_other)

lemma escape_substitution: "escapeSql (CHR ''$'' # CHR ''{'' # q) = CHR 0x5C # CHR ''$'' # CHR ''{'' # escapeSql q"
  by (simp add: escapeSql_def)

lemma escape_head: "take 1 (escapeSql q @ CHR 0x60 # rest) = ''{'' \<longleftrightarrow> take 1 q = ''{''"
proof (cases q)
  case (Cons c cs)
  consider "c = CHR 0x5C \<or> c = CHR 0x60" | "c = CHR ''$''" | "c \<noteq> CHR ''$''" "c \<noteq> CHR 0x5C" "c \<noteq> CHR 0x60" by blast
  then show ?thesis
  proof cases
    case 1
    then show ?thesis by (auto simp: Cons escape_quoted)
  next
    case 2
    then show ?thesis by (simp add: Cons escapeSql_def replaceDollar_dollar)
  next
    case 3
    then show ?thesis by (simp add: Cons escape_plain)
  qed
qed simp

lemma escape_dollar: "take 1 q \<noteq> ''{'' \<Longrightarrow> escapeSql (CHR ''$'' # q) = CHR ''$'' # escapeSql q"
proof (cases q)
  case (Cons c cs)
  then show "take 1 q \<noteq> ''{'' \<Longrightarrow> ?thesis" by (auto simp: escapeSql_def replaceDollar_dollar)
qed (simp add: escapeSql_def)

lemma template_escape [simp]:
  "template_read (CHR 0x5C # CHR 0x5C # cs) = map_option (map_prod ((#) (CHR 0x5C)) id) (template_read cs)"
  "template_read (CHR 0x5C # CHR 0x60 # cs) = map_option (map_prod ((#) (CHR 0x60)) id) (template_read cs)"
  "template_read (CHR 0x5C # CHR ''$'' # cs) = map_option (map_prod ((#) (CHR ''$'')) id) (template_read cs)"
  by (simp_all add: is_digit_def)

lemma template_plain:
  "c \<noteq> CHR 0x60 \<Longrightarrow> c \<noteq> CHR 0x5C \<Longrightarrow> c \<noteq> CHR 13 \<Longrightarrow> \<not> (c = CHR ''$'' \<and> take 1 cs = ''{'') \<Longrightarrow>
   template_read (c # cs) = map_option (map_prod ((#) c) id) (template_read cs)"
  by auto

lemma template_return:
  "cs \<noteq> [] \<Longrightarrow> template_read (CHR 13 # cs) = map_option (map_prod ((#) (CHR 10)) id) (template_read (if take 1 cs = [CHR 10] then drop 1 cs else cs))"
  by (cases cs) simp_all

declare template_read.simps(2) [simp del]

lemma line_feeds_cons:
  "line_feeds (c # q) = (if c = CHR 13 then CHR 10 # line_feeds (if take 1 q = [CHR 10] then drop 1 q else q) else c # line_feeds q)"
  by (cases q) auto

declare line_feeds.simps(2,3) [simp del]

theorem sql_reads_back: "template_read (escapeSql q @ CHR 0x60 # rest) = Some (line_feeds q, rest)"
proof (induction "length q" arbitrary: q rule: less_induct)
  case less
  show ?case
  proof (cases q)
    case Nil
    then show ?thesis by (simp add: template_read.simps(2))
  next
    case (Cons c cs)
    have ih: "template_read (escapeSql p @ CHR 0x60 # rest) = Some (line_feeds p, rest)" if "length p \<le> length cs" for p
      using less[of p] that Cons by simp
    consider "c = CHR 0x5C \<or> c = CHR 0x60" | ds where "c = CHR ''$''" "cs = CHR ''{'' # ds" | "c = CHR ''$''" "take 1 cs \<noteq> ''{''"
      | "c = CHR 13" | "c \<notin> {CHR 0x5C, CHR 0x60, CHR ''$'', CHR 13}"
      by (cases cs) auto
    then show ?thesis
    proof cases
      case 1
      then show ?thesis using ih[of cs] by (auto simp: Cons escape_quoted line_feeds_cons)
    next
      case 2
      then show ?thesis using ih[of ds] by (simp add: Cons escape_substitution template_plain line_feeds_cons)
    next
      case 3
      then show ?thesis using ih[of cs] escape_head[of cs rest] by (simp add: Cons escape_dollar template_plain line_feeds_cons)
    next
      case 4
      have "template_read (escapeSql q @ CHR 0x60 # rest) = map_option (map_prod ((#) (CHR 10)) id)
          (template_read (escapeSql (if take 1 cs = [CHR 10] then drop 1 cs else cs) @ CHR 0x60 # rest))"
      proof (cases "take 1 cs = [CHR 10]")
        case True
        then obtain ds where "cs = CHR 10 # ds" by (cases cs) auto
        then show ?thesis by (simp add: Cons 4 escape_plain template_return)
      next
        case False
        have "take 1 (escapeSql cs @ CHR 0x60 # rest) \<noteq> [CHR 10]"
        proof (cases cs)
          case (Cons d ds)
          then show ?thesis using False
            by (cases "d = CHR ''$''"; cases "d = CHR 0x5C \<or> d = CHR 0x60") (auto simp: escape_quoted escape_plain escapeSql_def replaceDollar_dollar replaceDollar_other)
        qed simp
        then show ?thesis using False by (simp add: Cons 4 escape_plain template_return)
      qed
      then show ?thesis using ih[of "if take 1 cs = [CHR 10] then drop 1 cs else cs"] by (simp add: Cons 4 line_feeds_cons)
    next
      case 5
      then show ?thesis using ih[of cs] by (simp add: Cons escape_plain template_plain line_feeds_cons)
    qed
  qed
qed

section \<open>Names that are accepted\<close>

lemma name_chars:
  assumes "namePattern name"
  shows "list_all (\<lambda>c. segment_char c \<or> c = CHR ''-'') name" "name \<noteq> []"
proof -
  obtain ctx c cs rest where parts: "split_on (CHR ''-'') name = ctx # (c # cs) # rest" "ctx \<in> set MIGRATION_CONTEXTS" "is_lower_letter c"
      "list_all segment_char cs" "list_all (\<lambda>part. part \<noteq> [] \<and> list_all segment_char part) rest"
    using assms by (auto simp: namePattern_def split: list.splits)
  have ctx: "list_all segment_char ctx" using parts(2) by (auto simp: MIGRATION_CONTEXTS_def segment_char_def is_lower_letter_def)
  have joined: "list_all P (join_with sep ps)" if "\<forall>p \<in> set ps. list_all P p" "list_all P sep" for P sep and ps :: "string list"
    using that by (induction sep ps rule: join_with.induct) auto
  let ?P = "\<lambda>c. segment_char c \<or> c = CHR ''-''"
  have weak: "list_all segment_char p \<Longrightarrow> list_all ?P p" for p by (auto simp: list_all_iff)
  have "\<forall>p \<in> set (split_on (CHR ''-'') name). list_all ?P p"
    using ctx parts(3,4,5) by (auto simp: parts(1) segment_char_def list_all_iff)
  then show "list_all ?P name" using joined[of "split_on (CHR ''-'') name" ?P "[CHR ''-'']"] by (simp add: join_split_on)
  show "name \<noteq> []" using parts(1) by auto
qed

lemma segment_not_special: "segment_char c \<Longrightarrow> c \<notin> {CHR ''.'', CHR ''/'', CHR 0x5C, CHR 39, CHR 0x60} \<and> \<not> js_space c"
  by (auto simp: segment_char_def is_lower_letter_def is_digit_def js_space_def Let_def)

lemma lower_dot: "js_lower_char x = CHR ''.'' \<Longrightarrow> x = CHR ''.''"
  by (auto simp: js_lower_char_def Let_def split: if_splits dest!: arg_cong[where f = "of_char :: char \<Rightarrow> nat"])

lemma trim_no_space: "list_all (\<lambda>c. \<not> js_space c) s \<Longrightarrow> js_trim s = s"
proof -
  assume *: "list_all (\<lambda>c. \<not> js_space c) s"
  have drop: "dropWhile js_space xs = xs" if "list_all (\<lambda>c. \<not> js_space c) xs" for xs :: string using that by (cases xs) auto
  have "list_all (\<lambda>c. \<not> js_space c) (rev s)" using * by (simp add: list_all_iff)
  then show ?thesis using * by (simp add: js_trim_def drop)
qed

text \<open>An accepted name is one stem of a file, and is accepted again as it is.\<close>

theorem migration_name_stem:
  assumes "assertMigrationName raw = Inr name"
  shows "namePattern name" "set name \<inter> {CHR ''/'', CHR 0x5C, CHR ''.'', CHR 39, CHR 0x60} = {}" "assertMigrationName name = Inr name"
proof -
  show pattern: "namePattern name" using assms by (auto simp: assertMigrationName_def Let_def split: if_splits)
  note chars = name_chars[OF pattern]
  have plain: "c \<notin> {CHR ''.'', CHR ''/'', CHR 0x5C, CHR 39, CHR 0x60} \<and> \<not> js_space c" if "c \<in> set name" for c
    using that chars(1) segment_not_special[of c] by (fastforce simp: list_all_iff js_space_def)
  then show disjoint: "set name \<inter> {CHR ''/'', CHR 0x5C, CHR ''.'', CHR 39, CHR 0x60} = {}" by blast
  have "js_trim name = name" using plain by (intro trim_no_space) (simp add: list_all_iff)
  moreover have "drop_ts name = name"
  proof (rule ccontr)
    assume "drop_ts name \<noteq> name"
    then have dotted: "js_lower (drop (length name - 3) name) = ''.ts''" by (auto simp: drop_ts_def split: if_splits)
    then obtain x xs where x: "drop (length name - 3) name = x # xs" "js_lower_char x = CHR ''.''"
      by (cases "drop (length name - 3) name") (auto simp: js_lower_def)
    have "x = CHR ''.''" using x(2) by (rule lower_dot)
    moreover have "x \<in> set name" using x(1) by (metis in_set_dropD list.set_intros(1))
    ultimately show False using plain by blast
  qed
  moreover have "\<not> has_dots name"
  proof
    assume "has_dots name"
    then obtain i where "i < length name" "take 2 (drop i name) = ''..''" by (auto simp: has_dots_def list_ex_iff)
    then have "name ! i = CHR ''.''" by (metis Cons_nth_drop_Suc list.inject take_Suc_Cons numeral_2_eq_2)
    then show False using plain \<open>i < length name\<close> nth_mem by blast
  qed
  ultimately show "assertMigrationName name = Inr name"
    using pattern disjoint by (auto simp: assertMigrationName_def)
qed

text \<open>What a command writes: one new file, for an accepted name; never over another.\<close>

theorem migration_files:
  assumes "migration_create dir timestamp argv files = (r, files') \<or> migration_generate stringify schemaLog dir timestamp argv files = (r, files')"
  shows "(\<exists>e. r = Inl e \<and> files' = files) \<or>
    (\<exists>name contents. r = Inr (migration_filePath dir name timestamp) \<and> namePattern name \<and> files (migration_filePath dir name timestamp) = None \<and>
       files' = files(migration_filePath dir name timestamp \<mapsto> contents))"
proof -
  have name: "namePattern n" if "readName argv = Inr n" for n
  proof -
    have flag: "readName_flag xs = Some (Inr n) \<Longrightarrow> \<exists>raw. assertMigrationName raw = Inr n" for xs
    proof (induction xs)
      case (Cons arg xs)
      then show ?case by (cases xs) (auto split: if_splits)
    qed simp
    have "\<exists>raw. assertMigrationName raw = Inr n" using that flag[of argv] by (auto simp: readName_def split: option.splits)
    then show ?thesis using migration_name_stem(1) by blast
  qed
  have outcome: "(\<exists>e. r = Inl e \<and> files' = files) \<or> (r = Inr p \<and> files p = None \<and> files' = files(p \<mapsto> contents))"
    if "(case migration_write p contents files of (Inl e, files') \<Rightarrow> (Inl e, files') | (Inr _, files') \<Rightarrow> (Inr p, files')) = (r, files')" for p contents
    using that by (auto simp: migration_write_def split: if_splits)
  show ?thesis
  proof (cases "readName argv")
    case (Inl e)
    have "r = Inl e \<and> files' = files" using assms unfolding migration_create_def migration_generate_def Inl by auto
    then show ?thesis by blast
  next
    case (Inr n)
    let ?p = "migration_filePath dir n timestamp"
    have written: "(\<exists>e. r = Inl e \<and> files' = files) \<or> (\<exists>contents. r = Inr ?p \<and> files ?p = None \<and> files' = files(?p \<mapsto> contents))"
      using assms
    proof
      assume "migration_create dir timestamp argv files = (r, files')"
      then show ?thesis using Inr outcome[of ?p "migration_scaffold (migration_className n timestamp)"] by (auto simp: migration_create_def Let_def)
    next
      assume g: "migration_generate stringify schemaLog dir timestamp argv files = (r, files')"
      show ?thesis
      proof (cases "\<exists>ups downs. schemaLog = Inr (ups, downs) \<and> ups \<noteq> []")
        case False
        then show ?thesis using g Inr by (cases schemaLog) (auto simp: migration_generate_def)
      next
        case True
        then obtain ups downs where sl: "schemaLog = Inr (ups, downs)" "ups \<noteq> []" by blast
        show ?thesis using g Inr sl outcome[of ?p "migration_generated (migration_className n timestamp) (map (queryCall stringify) ups)
            (map (queryCall stringify) (rev downs))"] by (auto simp: migration_generate_def Let_def)
      qed
    qed
    then show ?thesis using name[OF Inr] by blast
  qed
qed

end
