(* ===== verification/Spec2Isabelle.thy ===== *)
theory Spec2Isabelle
  imports Guarantees Credentials Outcomes Lifecycle Helpers Reliability PostgresGuarantees
    HttpGuarantees HttpResponses IdempotencyGuarantees ApiFlows
    HttpClientGuarantees DeploymentGuarantees Answers SharedRefresh FileStorage Adapters MigrationCli
begin

text \<open>
  A verification of the core of the B2B SaaS starter kit: a TypeScript monorepo with a multi-tenant NestJS API, a background worker
  and their shared packages.  The library models the program from the HTTP edge to the tables and proves what makes each part, and
  their composition, correct.

  The program.  A request enters the API (apps/api, packages/nest-http): the request interceptor gives it an id and a context, the rate
  limit, the authentication, the permission check and the idempotency interceptor run in this order, a controller validates
  the path and the body (packages/shared/contracts) and calls one service, the service one use case (packages/application).  A use case
  checks the actor's permission through the cache, works on aggregates (packages/domain) through repositories, publishes domain
  events in the same unit of work, and commits.  The Postgres adapter (packages/infrastructure/postgres) implements the repositories under
  the ambient tenant scope and writes the events to an outbox.  The worker (packages/composition/src/worker) drains the outbox into a
  queue, runs the handlers of each event and reclaims what got stuck.  The web client (packages/frontend/core, apps/web) keeps the session,
  sends the requests and restores an expired session through the refresh cookie.

  The theories, in the order of the imports.

  \<^item> Prelude: fallible results, strings, insertion-ordered sets, tables, and the contract of a keyed store as a locale.
  \<^item> Kernel, Tenancy, Authorization, Identity: packages/domain and shared/kernel-types.  A class is a record that extends its base, a method
    a function on it, a thrown error an \<open>Inl\<close>.  Their lemmas give every operation's outcome on every branch and its invariant.
  \<^item> Repositories, App, AuthorizationService, RoleUseCases, TenancyUseCases, IdentityUseCases: the ports as their in-memory adapters define
    them, and the 29 use cases and queries as computations over a world of database, cache, id generator, mail and clock.  The contract
    of a store is interpreted for each of the nine repositories, the contract of a permission gate for the authorization service.
  \<^item> Invariants, Frames, Preservation, Preservation2, Sessions, Lifecycle: the invariants (rows well-formed, ids known, an active owner per
    tenant, one live session per family, a coherent cache), the frames that carry them, and the step relation \<open>app_step\<close> with its
    reachable states.  Lifecycle ends with \<open>reachable_inv\<close>, on which most properties rest.
  \<^item> Examples, Outcomes, Guarantees, Credentials: concrete worlds for the witnesses, and the properties of the use cases.
  \<^item> JsValue, Helpers, JsDate: packages/shared/utils over a datatype of JavaScript values; dates are milliseconds, with the calendar of ECMAScript.
  \<^item> Ambient, Events, Outbox, Delivery, Reliability: the tenant context and the nested unit of work, the serialized events, the outbox and its
    relay, the worker's services and jobs, and at-least-once delivery as invariants of \<open>outbox_step\<close>.
  \<^item> Postgres, PostgresRepositories, PostgresRefinement, PostgresGuarantees: entities, mappers, parents with child rows and the repositories over
    tables; the relation to the store of the use cases as a locale, interpreted for each table; isolation and refinement.
  \<^item> HttpEdge, Idempotency, ApiPrincipal, HttpGuarantees, HttpResponses, IdempotencyGuarantees: the interceptors and the exception filter, the
    idempotency store, the principal, and the chain of interceptors around any handler.
  \<^item> Contracts, ApiServices, ApiRoutes, Api, ApiGuarantees, ApiFlows: the schemas, the services with their mappers, the route table, the controllers
    of all 28 endpoints, and the API as a whole: whatever is requested, the world behind it stays one the use cases reach.
  \<^item> Outputs, Typed, TypedUseCases, Answers: the output schemas, the typed rows that every use case keeps, and the agreement of every handler's
    answer with the schema of its route.
  \<^item> Frontend, FrontendGuarantees, SharedRefresh: the client's session, base query and shared refresh, and what they and the API do together:
    the repeated query, the tenant a refresh loses, the refresh token that is never spent twice by one page.
  \<^item> HttpClient, HttpClientGuarantees: the outbound client of packages/infrastructure/http-client.
  \<^item> Config, Deployment, DeploymentGuarantees: packages/shared/config and the configurations of the API and the worker: what the schemas accept reaches
    the infrastructure unchanged, and what an API that starts is guarded by.
  \<^item> ObjectKeys, FileStorage: the object keys of packages/platform and the storage in memory, over a heap of buffers, as a refinement of a map.
  \<^item> RedisAdapters, Adapters: the lock and its exclusion over runs of processes, the cache, publish and subscribe; readiness, mailers, telemetry
    paths, digests, the password of the documentation and the migration runner.
  \<^item> MigrationCli: names, files and generated SQL of the migration command line, read back as the language reads it.

  Correspondence.  State is explicit: a use case is a function from a world to a result and a world, \<open>uow_run\<close> is a unit of work and restores
  the database when the work throws, while cache, mail and generated ids stay, as they do in the code.  A class's method has the name of
  the method, prefixed by its class where names clash.  A computation under an \<open>AsyncLocalStorage\<close> is a function of the ambient store.
  Interleaving is between operations that are atomic in the database: use cases, units of work, outbox claims, timer ticks.

  Bounds and fuel.  Recursion is structural or has a measure: the drain of the outbox ends because every batch marks pending rows, redirects
  because their count is limited, the retry loop runs over the attempts left, and a deep merge descends into its source.  Ids are strings, and two ids
  are different because the generator is injective and no stored id is one it will still issue, which is an invariant.  Numbers
  of JavaScript are rationals with the non-finite values; strings are over the Latin-1 range.

  Parameters.  Code outside the repository is an argument: hashing and digests, the id generator, the JSON Web Token library, zod's e-mail and
  date checks, Redis, the database driver's columns, the queue, fetch and URL, YAML and the file system.  What a property needs of them is a
  hypothesis with its name (\<open>jose_ok\<close>, \<open>url_ok\<close>, \<open>inj (genId env)\<close>), and its witness instantiates it.

  Not modelled.  Concurrent transactions that interleave inside a unit of work (the database isolates them) and the repositories' scope
  under the API theories, which run over the use cases' store: tenant scoping is proved in the Postgres theories.  User interfaces
  (React components and routes of apps/web, admin, desktop, mobile), because they are rendering and browser calls; the cache of RTK Query, so a
  query is one call of its base query; several pages that share a cookie, and responses that are lost.  Dependency injection, the worker's bootstrap, OpenAPI documents,
  the DDL of the migrations, the start of the logger and of OpenTelemetry: wiring and declarations without own behaviour.  The use cases run over
  the ports of the adapters, which do not fail there; that the adapters may is said in their own theories.  Repository scripts and lint rules:
  development tooling.
\<close>

section \<open>Tenancy and authorization\<close>

text \<open>C1: In every state the application can reach, each stored tenant has the seeded Owner role and an active
  member who holds it: no sequence of use cases, role edits, role replacements, removals and failures included,
  leaves a tenant without an owner.\<close>

theorem tenant_keeps_active_owner:
  assumes "reachable env w" "inj (genId env)" "t \<in> set (db_tenants (w_db w))"
  shows "\<exists>r m. r \<in> set (db_roles (w_db w)) \<and> r_tenantId r = ent_id t \<and> r_isSystem r \<and> r_name r = ''Owner'' \<and>
    m \<in> set (db_memberships (w_db w)) \<and> m_tenantId m = ent_id t \<and> m_status m = MActive \<and> ent_id r \<in> set (m_roleIds m)"
proof -
  have "has_active_owner (ent_id t) (w_db w)"
    using reachable_inv[OF assms(1,2)] assms(3) by (simp add: app_inv_ok_def owner_inv_def)
  then show ?thesis unfolding has_active_owner_iff using OwnerRole_find_Some by blast
qed

theorem tenant_keeps_active_owner_witness:
  "\<exists>r m. r \<in> set (db_roles (w_db demoTenant)) \<and> r_tenantId r = sequentialId 1 \<and> r_isSystem r \<and> r_name r = ''Owner'' \<and>
    m \<in> set (db_memberships (w_db demoTenant)) \<and> m_tenantId m = sequentialId 1 \<and> m_status m = MActive \<and>
    ent_id r \<in> set (m_roleIds m)"
proof -
  have "hd (db_tenants (w_db demoTenant)) \<in> set (db_tenants (w_db demoTenant))"
    "ent_id (hd (db_tenants (w_db demoTenant))) = sequentialId 1" by code_simp+
  then show ?thesis using tenant_keeps_active_owner[OF demo_reachable(2) testEnv_inj] by metis
qed

text \<open>C18: In every reachable state the stored rows are well-formed: names are trimmed and not empty; a role holds a non-empty set of
  catalog permissions, and a custom role has no reserved name; memberships and invitations hold a non-empty set of
  roles; addresses are valid and in normal form; no API key holds the permission to manage API keys; and no two users share an
  address, no two memberships the same user and tenant.\<close>

theorem stored_rows_well_formed:
  assumes "reachable env w" "inj (genId env)"
  shows "(\<forall>t \<in> set (db_tenants (w_db w)). tenant_name t \<noteq> [] \<and> js_trim (tenant_name t) = tenant_name t) \<and>
    (\<forall>r \<in> set (db_roles (w_db w)). r_permissions r \<noteq> [] \<and> distinct (r_permissions r) \<and> set (r_permissions r) \<subseteq> set catalog_all \<and>
       (r_isSystem r \<or> r_name r \<noteq> [] \<and> js_trim (r_name r) = r_name r \<and> \<not> reserved_name (r_name r))) \<and>
    (\<forall>m \<in> set (db_memberships (w_db w)). m_roleIds m \<noteq> [] \<and> distinct (m_roleIds m)) \<and>
    (\<forall>v \<in> set (db_invitations (w_db w)). i_roleIds v \<noteq> [] \<and> distinct (i_roleIds v) \<and> emailPattern (i_email v) \<and>
       js_lower (js_trim (i_email v)) = i_email v) \<and>
    (\<forall>u \<in> set (db_users (w_db w)). emailPattern (u_email u) \<and> js_lower (js_trim (u_email u)) = u_email u \<and> u_displayName u \<noteq> []) \<and>
    (\<forall>k \<in> set (db_apiKeys (w_db w)). k_permissions k \<noteq> [] \<and> distinct (k_permissions k) \<and> identityApiKeysManage \<notin> set (k_permissions k)) \<and>
    distinct (map u_email (db_users (w_db w))) \<and> distinct (map (\<lambda>m. (m_userId m, m_tenantId m)) (db_memberships (w_db w)))"
proof -
  have r: "rows_inv (w_db w)" using reachable_inv[OF assms] by (simp add: app_inv_ok_def)
  then have "distinct (db_users (w_db w))" "distinct (db_memberships (w_db w))" by (auto simp: rows_inv_def distinct_map)
  moreover have "ps \<noteq> [] \<and> distinct ps \<and> set ps \<subseteq> set catalog_all" if "is_bundle ps" for ps
    using that distinct_filter[OF catalog_distinct, of "\<lambda>p. p \<in> set ps"] by (auto simp: is_bundle_def dest: bundle_subset[OF that, THEN subsetD])
  ultimately show ?thesis using r
    by (auto simp: rows_inv_def distinct_map tenant_wf_def role_wf_def membership_wf_def invitation_wf_def user_wf_def
        apiKey_wf_def managePermission_catalog)
qed

theorem stored_rows_well_formed_witness:
  "r_permissions (hd (db_roles (w_db demoTenant))) \<noteq> [] \<and> set (r_permissions (hd (db_roles (w_db demoTenant)))) \<subseteq> set catalog_all \<and>
   distinct (map u_email (db_users (w_db demoTenant)))"
proof -
  have "hd (db_roles (w_db demoTenant)) \<in> set (db_roles (w_db demoTenant))" by code_simp
  then show ?thesis using stored_rows_well_formed[OF demo_reachable(2) testEnv_inj] by blast
qed

text \<open>C2: A user passes the permission check for a tenant exactly when an active membership of that tenant holds
  a role of that tenant that grants the permission, in every reachable state and whatever the cache holds.\<close>

theorem user_authorized_iff_role_grants:
  assumes "reachable env w" "inj (genId env)" "CHR '':'' \<notin> set t"
  shows "(\<exists>w'. authz_require (userActor u) p t w = (Inr (), w')) \<longleftrightarrow>
    (\<exists>m i r. memberships_findByUserAndTenant u t (w_db w) = Some m \<and> m_status m = MActive \<and> i \<in> set (m_roleIds m) \<and>
       roles_findById i (w_db w) = Some r \<and> r_tenantId r = t \<and> p \<in> set (r_permissions r))"
proof -
  have "user_cache_coherent w" using reachable_inv[OF assms(1,2)] by (simp add: app_inv_ok_def)
  then have a: "answers w (userActor u) t = resolvePermissions u t (w_db w)" by (rule coherent_answers[OF _ assms(3)])
  have "(\<exists>w'. authz_require (userActor u) p t w = (Inr (), w')) \<longleftrightarrow> p \<in> set (answers w (userActor u) t)"
    by (rule authz_require_eval[of "userActor u" p t w]) auto
  then show ?thesis by (simp add: a resolvePermissions_set)
qed

theorem user_authorized_iff_role_grants_witness:
  "(\<exists>w'. authz_require (userActor (sequentialId 0)) ''tenancy.members.manage'' (sequentialId 1) demoTenant = (Inr (), w'))"
proof -
  have c: "CHR '':'' \<notin> set (sequentialId 1)" by code_simp
  have "case memberships_findByUserAndTenant (sequentialId 0) (sequentialId 1) (w_db demoTenant) of
      None \<Rightarrow> False | Some m \<Rightarrow> m_status m = MActive \<and> (case roles_findById (hd (m_roleIds m)) (w_db demoTenant) of
        None \<Rightarrow> False | Some r \<Rightarrow> r_tenantId r = sequentialId 1 \<and> ''tenancy.members.manage'' \<in> set (r_permissions r) \<and>
          hd (m_roleIds m) \<in> set (m_roleIds m))"
    by code_simp
  then show ?thesis
    unfolding user_authorized_iff_role_grants[OF demo_reachable(2) testEnv_inj c] by (auto split: option.splits)
qed

text \<open>C3: No API key manages API keys: in every reachable state, with a key as the actor, creating, updating, revoking
  and listing API keys all fail for lack of the manage permission, and change no row and no event.\<close>

theorem api_key_never_manages_keys:
  assumes "reachable env w" "inj (genId env)" "CHR '':'' \<notin> set t"
  shows "fst (createApiKey env (apiKeyActor k) t n ps x w) = Inl (InsufficientPermissionError identityApiKeysManage) \<and>
    fst (updateApiKey (apiKeyActor k) t i no pso w) = Inl (InsufficientPermissionError identityApiKeysManage) \<and>
    fst (revokeApiKey (apiKeyActor k) t i w) = Inl (InsufficientPermissionError identityApiKeysManage) \<and>
    fst (listApiKeys (apiKeyActor k) t w) = Inl (InsufficientPermissionError identityApiKeysManage) \<and>
    w_db (snd (createApiKey env (apiKeyActor k) t n ps x w)) = w_db w \<and>
    w_db (snd (updateApiKey (apiKeyActor k) t i no pso w)) = w_db w \<and>
    w_db (snd (revokeApiKey (apiKeyActor k) t i w)) = w_db w"
proof -
  have "managePermission \<notin> set (answers w (apiKeyActor k) t)"
    by (rule key_answers_safe[OF reachable_parts(2,6)[OF assms(1,2)] assms(3)])
  then have no: "identityApiKeysManage \<notin> set (answers w (apiKeyActor k) t)" by (simp add: managePermission_catalog)
  show ?thesis
    unfolding createApiKey_def updateApiKey_def revokeApiKey_def listApiKeys_def
    by (intro conjI authz.guarded_refused_fst[OF no] authz.guarded_refused_db[OF no])
qed

theorem api_key_never_manages_keys_witness:
  "fst (revokeApiKey (apiKeyActor (sequentialId 8)) (sequentialId 1) (sequentialId 8) demoKey) =
     Inl (InsufficientPermissionError identityApiKeysManage)"
proof -
  have "CHR '':'' \<notin> set (sequentialId 1)" by code_simp
  then show ?thesis using api_key_never_manages_keys[OF demo_runs_reachable(3) testEnv_inj] by blast
qed

end
